(* ===== verification/Py_Prelude.thy ===== *)
theory Py_Prelude
  imports Complex_Main "HOL-Library.AList" "HOL-Library.Sublist"
begin

text \<open>
  The Python primitives the components share.

  A Python \<^verbatim>\<open>dict\<close> is an association list with distinct keys: iteration follows insertion
  order, storing under a present key keeps its position and storing under a new key appends,
  which is what \<^const>\<open>AList.update\<close> does. Strings are \<^typ>\<open>string\<close>, lists of code points below
  256; \<open>str.strip\<close> and \<open>str.lower\<close> are exact on those. Python integers are \<^typ>\<open>int\<close> and
  floats are exact \<^typ>\<open>real\<close> numbers: rounding is not modelled. The clock, random rolls and
  fresh identifiers are arguments of the operations that read them.
\<close>

named_theorems dict_simps \<open>lookups and key sets of dictionaries\<close>
named_theorems inv_intros \<open>preservation of component invariants\<close>

section \<open>Dictionaries\<close>

type_synonym ('k, 'v) dict = "('k \<times> 'v) list"

abbreviation dict_get :: "('k, 'v) dict \<Rightarrow> 'k \<Rightarrow> 'v option" where
  "dict_get \<equiv> map_of"

abbreviation dict_set :: "'k \<Rightarrow> 'v \<Rightarrow> ('k, 'v) dict \<Rightarrow> ('k, 'v) dict" where
  "dict_set \<equiv> AList.update"

abbreviation dict_del :: "'k \<Rightarrow> ('k, 'v) dict \<Rightarrow> ('k, 'v) dict" where
  "dict_del \<equiv> AList.delete"

abbreviation dict_keys :: "('k, 'v) dict \<Rightarrow> 'k list" where
  "dict_keys d \<equiv> map fst d"

definition dict_get_default :: "('k, 'v) dict \<Rightarrow> 'k \<Rightarrow> 'v \<Rightarrow> 'v" where
  "dict_get_default d k v = (case dict_get d k of None \<Rightarrow> v | Some w \<Rightarrow> w)"

definition dict_has :: "('k, 'v) dict \<Rightarrow> 'k \<Rightarrow> bool" where
  "dict_has d k \<longleftrightarrow> dict_get d k \<noteq> None"

definition dict_ok :: "('k, 'v) dict \<Rightarrow> bool" where
  "dict_ok d \<longleftrightarrow> distinct (dict_keys d)"

lemma dict_get_set [simp, dict_simps]:
  "dict_get (dict_set k v d) k' = (if k' = k then Some v else dict_get d k')"
  by (simp add: update_conv')

lemma dict_get_del [simp, dict_simps]:
  "dict_get (dict_del k d) k' = (if k' = k then None else dict_get d k')"
  by (simp add: delete_conv')

lemma dict_has_iff [dict_simps]: "dict_has d k \<longleftrightarrow> k \<in> set (dict_keys d)"
  by (simp add: dict_has_def map_of_eq_None_iff)

lemma dict_keys_set [simp, dict_simps]:
  "set (dict_keys (dict_set k v d)) = insert k (set (dict_keys d))"
  by (induction d) auto

lemma dict_keys_del [simp, dict_simps]:
  "set (dict_keys (dict_del k d)) = set (dict_keys d) - {k}"
  by (induction d) auto

lemma dict_get_default_simps [simp, dict_simps]:
  "dict_get d k = Some v \<Longrightarrow> dict_get_default d k w = v"
  "dict_get d k = None \<Longrightarrow> dict_get_default d k w = w"
  "dict_get_default (dict_set k v d) k' w = (if k' = k then v else dict_get_default d k' w)"
  "dict_get_default (dict_del k d) k' w = (if k' = k then w else dict_get_default d k' w)"
  by (simp_all add: dict_get_default_def)

lemma dict_ok_Nil [simp, inv_intros]: "dict_ok []"
  by (simp add: dict_ok_def)

lemma dict_ok_set [simp, inv_intros]: "dict_ok d \<Longrightarrow> dict_ok (dict_set k v d)"
  by (simp add: dict_ok_def distinct_update)

lemma dict_ok_del [simp, inv_intros]: "dict_ok d \<Longrightarrow> dict_ok (dict_del k d)"
  by (simp add: dict_ok_def distinct_delete)

lemma dict_ok_get: "dict_ok d \<Longrightarrow> (k, v) \<in> set d \<Longrightarrow> dict_get d k = Some v"
  by (simp add: dict_ok_def)

lemma dict_get_mem: "dict_get d k = Some v \<Longrightarrow> (k, v) \<in> set d"
  by (rule map_of_SomeD)

lemma dict_ok_filter [inv_intros]: "dict_ok d \<Longrightarrow> dict_ok (filter P d)"
  unfolding dict_ok_def by (rule distinct_map_filter)

lemma dict_get_filter_key:
  "dict_get (filter (\<lambda>(k, v). P k) d) k = (if P k then dict_get d k else None)"
  by (induction d) auto

section \<open>Lists\<close>

text \<open>\<^verbatim>\<open>sum(1 for x in xs if p(x))\<close>\<close>

definition count_if :: "('a \<Rightarrow> bool) \<Rightarrow> 'a list \<Rightarrow> nat" where
  "count_if p xs = length (filter p xs)"

lemma count_if_simps [simp]:
  "count_if p [] = 0"
  "count_if p (x # xs) = (if p x then Suc (count_if p xs) else count_if p xs)"
  "count_if p (xs @ ys) = count_if p xs + count_if p ys"
  by (simp_all add: count_if_def)

lemma count_if_le [simp]: "count_if p xs \<le> length xs"
  by (simp add: count_if_def)

lemma count_if_mono: "(\<And>x. x \<in> set xs \<Longrightarrow> p x \<Longrightarrow> q x) \<Longrightarrow> count_if p xs \<le> count_if q xs"
  by (induction xs) auto

lemma count_if_disjoint:
  "(\<And>x. x \<in> set xs \<Longrightarrow> \<not> (p x \<and> q x)) \<Longrightarrow> count_if p xs + count_if q xs \<le> length xs"
  by (induction xs) auto

text \<open>A share of a list is a rate between 0 and 1.\<close>

lemma count_if_rate:
  "0 \<le> real (count_if p xs) / real (length xs)"
  "real (count_if p xs) / real (length xs) \<le> 1"
  by (auto simp: divide_le_eq)

text \<open>\<^verbatim>\<open>xs[-n:]\<close> for a positive n: the last n elements, all of them when there are fewer.\<close>

definition last_n :: "nat \<Rightarrow> 'a list \<Rightarrow> 'a list" where
  "last_n n xs = drop (length xs - n) xs"

lemma length_last_n [simp]: "length (last_n n xs) = min n (length xs)"
  by (simp add: last_n_def)

lemma last_n_suffix: "suffix (last_n n xs) xs"
  by (simp add: last_n_def suffix_drop)

lemma last_n_all [simp]: "length xs \<le> n \<Longrightarrow> last_n n xs = xs"
  by (simp add: last_n_def)

text \<open>The mean of a non-empty list lies between any bounds of its elements.\<close>

lemma sum_list_bounds:
  fixes xs :: "real list"
  assumes "\<forall>x \<in> set xs. a \<le> x \<and> x \<le> b"
  shows "a * real (length xs) \<le> sum_list xs" and "sum_list xs \<le> b * real (length xs)"
  using assms by (induction xs) (auto simp: algebra_simps)

lemma mean_bounds:
  fixes xs :: "real list"
  assumes "xs \<noteq> []" and "\<forall>x \<in> set xs. a \<le> x \<and> x \<le> b"
  shows "a \<le> sum_list xs / real (length xs)" and "sum_list xs / real (length xs) \<le> b"
  using assms sum_list_bounds [OF assms(2)] by (simp_all add: divide_le_eq le_divide_eq)

text \<open>
  The percentile both services compute: \<^verbatim>\<open>sorted(xs)[min(int(len(xs) * pct), len(xs) - 1)]\<close>.
\<close>

definition pct_index :: "real \<Rightarrow> nat \<Rightarrow> nat" where
  "pct_index pct n = min (nat \<lfloor>real n * pct\<rfloor>) (n - 1)"

definition pct_value :: "real \<Rightarrow> real list \<Rightarrow> real" where
  "pct_value pct xs = sort xs ! pct_index pct (length xs)"

lemma pct_index_less: "0 < n \<Longrightarrow> pct_index pct n < n"
  by (simp add: pct_index_def)

lemma pct_value_mem: "xs \<noteq> [] \<Longrightarrow> pct_value pct xs \<in> set xs"
  using pct_index_less [of "length xs" pct]
  by (metis length_greater_0_conv length_sort nth_mem pct_value_def set_sort)

lemma count_if_sort: "count_if p (sort xs) = count_if p xs"
  by (simp add: count_if_def filter_sort)

lemma sorted_count_le:
  fixes xs :: "'a :: linorder list"
  assumes "sorted xs" and "i < length xs"
  shows "Suc i \<le> count_if (\<lambda>x. x \<le> xs ! i) xs"
proof -
  have "count_if (\<lambda>x. x \<le> xs ! i) (take (Suc i) xs) = length (take (Suc i) xs)"
    using assms unfolding count_if_def
    by (intro arg_cong [where f = length] filter_True)
      (auto simp: in_set_conv_nth less_Suc_eq_le sorted_nth_mono [OF assms(1)])
  then have "Suc i \<le> count_if (\<lambda>x. x \<le> xs ! i) (take (Suc i) xs @ drop (Suc i) xs)"
    using assms(2) unfolding count_if_simps(3) by simp
  then show ?thesis by simp
qed

text \<open>At least the given share of the values lies at or below the percentile.\<close>

lemma pct_value_share:
  assumes "xs \<noteq> []" and "0 \<le> pct" and "pct \<le> 1"
  shows "pct * real (length xs) \<le> real (count_if (\<lambda>x. x \<le> pct_value pct xs) xs)"
proof -
  let ?i = "pct_index pct (length xs)"
  have "Suc ?i \<le> count_if (\<lambda>x. x \<le> pct_value pct xs) xs"
    using sorted_count_le [of "sort xs" ?i] pct_index_less [of "length xs" pct] assms(1)
    by (simp add: pct_value_def count_if_sort)
  moreover have "pct * real (length xs) \<le> real (Suc ?i)"
  proof (cases "nat \<lfloor>real (length xs) * pct\<rfloor> \<le> length xs - 1")
    case True
    then have "?i = nat \<lfloor>real (length xs) * pct\<rfloor>" by (simp add: pct_index_def)
    moreover have "0 \<le> real (length xs) * pct" using assms(2) by simp
    ultimately show ?thesis by (simp add: mult.commute) linarith
  next
    case False
    then have "Suc ?i = length xs" using assms(1) by (simp add: pct_index_def)
    then show ?thesis using assms(3) by (simp add: mult_left_le_one_le assms(2))
  qed
  ultimately show ?thesis by linarith
qed

text \<open>
  \<^verbatim>\<open>path.index(x)\<close>, None where Python raises ValueError.
\<close>

fun index_of :: "'a \<Rightarrow> 'a list \<Rightarrow> nat option" where
  "index_of x [] = None"
| "index_of x (y # ys) = (if x = y then Some 0 else map_option Suc (index_of x ys))"

lemma index_of_Some: "index_of x xs = Some i \<Longrightarrow> i < length xs \<and> xs ! i = x \<and> x \<notin> set (take i xs)"
  by (induction xs arbitrary: i) (auto split: if_splits)

lemma index_of_None [simp]: "index_of x xs = None \<longleftrightarrow> x \<notin> set xs"
  by (induction xs) auto

lemma find_SomeD: "find P xs = Some x \<Longrightarrow> x \<in> set xs \<and> P x"
  by (auto simp: find_Some_iff)

section \<open>Strings\<close>

definition py_space :: "char \<Rightarrow> bool" where
  "py_space c \<longleftrightarrow>
     (let n = of_char c :: nat in (9 \<le> n \<and> n \<le> 13) \<or> (28 \<le> n \<and> n \<le> 32) \<or> n = 133 \<or> n = 160)"

definition str_lstrip :: "string \<Rightarrow> string" where
  "str_lstrip s = dropWhile py_space s"

definition str_strip :: "string \<Rightarrow> string" where
  "str_strip s = rev (dropWhile py_space (rev (dropWhile py_space s)))"

definition char_lower :: "char \<Rightarrow> char" where
  "char_lower c =
     (let n = of_char c :: nat
      in if (65 \<le> n \<and> n \<le> 90) \<or> (192 \<le> n \<and> n \<le> 222 \<and> n \<noteq> 215) then char_of (n + 32) else c)"

definition str_lower :: "string \<Rightarrow> string" where
  "str_lower s = map char_lower s"

lemma length_str_lower [simp]: "length (str_lower s) = length s"
  by (simp add: str_lower_def)

text \<open>\<^verbatim>\<open>needle in s\<close>, \<^verbatim>\<open>s.startswith(p)\<close>, \<^verbatim>\<open>s.endswith(p)\<close>\<close>

definition str_in :: "string \<Rightarrow> string \<Rightarrow> bool" where
  "str_in needle s \<longleftrightarrow> sublist needle s"

definition str_startswith :: "string \<Rightarrow> string \<Rightarrow> bool" where
  "str_startswith s p \<longleftrightarrow> prefix p s"

definition str_endswith :: "string \<Rightarrow> string \<Rightarrow> bool" where
  "str_endswith s p \<longleftrightarrow> suffix p s"

text \<open>\<^verbatim>\<open>s.find(needle, start)\<close>: the offset of the first occurrence, None for Python's -1.\<close>

fun find_sub :: "'a list \<Rightarrow> 'a list \<Rightarrow> nat option" where
  "find_sub needle [] = (if needle = [] then Some 0 else None)"
| "find_sub needle (x # xs) =
     (if prefix needle (x # xs) then Some 0 else map_option Suc (find_sub needle xs))"

definition str_find :: "string \<Rightarrow> string \<Rightarrow> nat \<Rightarrow> nat option" where
  "str_find s needle start =
     (if length s < start then None
      else map_option (\<lambda>i. start + i) (find_sub needle (drop start s)))"

lemma find_sub_Some:
  "find_sub needle xs = Some i \<Longrightarrow> i \<le> length xs \<and> prefix needle (drop i xs)"
  by (induction needle xs arbitrary: i rule: find_sub.induct) (auto split: if_splits)

lemma find_sub_bound: "find_sub needle xs = Some i \<Longrightarrow> i + length needle \<le> length xs"
  using find_sub_Some [of needle xs i] by (auto dest: prefix_length_le)

lemma find_sub_None [simp]: "find_sub needle xs = None \<longleftrightarrow> \<not> sublist needle xs"
  by (induction needle xs rule: find_sub.induct) (auto simp: sublist_Cons_right)

lemma str_find_bound:
  "str_find s needle start = Some i \<Longrightarrow> start \<le> i \<and> i + length needle \<le> length s"
  by (auto simp: str_find_def split: if_splits dest: find_sub_bound)

text \<open>\<^verbatim>\<open>s.split(c)\<close> for a one-character separator, and \<^verbatim>\<open>sep.join(parts)\<close>\<close>

fun split_char :: "char \<Rightarrow> string \<Rightarrow> string list" where
  "split_char c [] = [[]]"
| "split_char c (x # xs) =
     (if x = c then [] # split_char c xs
      else (case split_char c xs of [] \<Rightarrow> [[x]] | w # ws \<Rightarrow> (x # w) # ws))"

fun str_join :: "string \<Rightarrow> string list \<Rightarrow> string" where
  "str_join sep [] = []"
| "str_join sep [w] = w"
| "str_join sep (w # v # ws) = w @ sep @ str_join sep (v # ws)"

lemma split_char_not_Nil [simp]: "split_char c s \<noteq> []"
  by (cases s) (auto split: list.splits)

lemma str_join_split_char: "str_join [c] (split_char c s) = s"
proof (induction s)
  case Nil
  then show ?case by simp
next
  case (Cons x s)
  obtain w ws where "split_char c s = w # ws"
    by (cases "split_char c s") auto
  with Cons show ?case by (cases ws) auto
qed

text \<open>Truthiness of an optional string: \<^verbatim>\<open>if s\<close> is false for None and for the empty string.\<close>

definition str_truthy :: "string option \<Rightarrow> bool" where
  "str_truthy s \<longleftrightarrow> s \<noteq> None \<and> s \<noteq> Some []"

definition str_or_empty :: "string option \<Rightarrow> string" where
  "str_or_empty s = (case s of None \<Rightarrow> [] | Some t \<Rightarrow> t)"

section \<open>Transition systems\<close>

text \<open>The states a system can get into, and the induction principle for its invariants.\<close>

inductive reachable :: "('s \<Rightarrow> bool) \<Rightarrow> ('s \<Rightarrow> 's \<Rightarrow> bool) \<Rightarrow> 's \<Rightarrow> bool"
  for init :: "'s \<Rightarrow> bool" and step :: "'s \<Rightarrow> 's \<Rightarrow> bool" where
  reachable_init: "init s \<Longrightarrow> reachable init step s"
| reachable_step: "reachable init step s \<Longrightarrow> step s t \<Longrightarrow> reachable init step t"

locale invariant_system =
  fixes init :: "'s \<Rightarrow> bool" and step :: "'s \<Rightarrow> 's \<Rightarrow> bool" and inv :: "'s \<Rightarrow> bool"
  assumes inv_init: "init s \<Longrightarrow> inv s"
    and inv_step: "inv s \<Longrightarrow> step s t \<Longrightarrow> inv t"
begin

lemma reachable_inv: "reachable init step s \<Longrightarrow> inv s"
  by (induction rule: reachable.induct) (blast intro: inv_init inv_step)+

lemma steps_inv: "rtranclp step s t \<Longrightarrow> inv s \<Longrightarrow> inv t"
  by (induction rule: rtranclp_induct) (blast intro: inv_step)+

end

end
