(* ===== verification/Py_Json.thy ===== *)
theory Py_Json
  imports Py_Prelude
begin

text \<open>
  \<^verbatim>\<open>json.loads\<close> of the Python standard library (strict mode), as a recursive-descent parser
  with fuel: the value, array and object productions spend one unit per call, and
  \<open>json_loads_total\<close> shows that the fuel \<open>json_loads\<close> starts with never runs out.
  String values and keys are lists of code points, since \<^verbatim>\<open>\uXXXX\<close> escapes reach past 255.
  A number with a fraction or an exponent is a float; \<open>NaN\<close> and \<open>Infinity\<close> are accepted as
  Python accepts them, a float beyond the double range is an infinity, and an integer of
  more than 4300 digits raises ValueError. The interpreter's recursion limit is not modelled.
\<close>

datatype pyfloat = Fin real | PosInf | NegInf | NaN

datatype json =
    JNull
  | JBool bool
  | JInt int
  | JFloat pyfloat
  | JStr "nat list"
  | JArr "json list"
  | JObj "(nat list \<times> json) list"

datatype json_error = DecodeError | IntDigitsLimit | NoFuel

text \<open>A Python string literal as code points, to compare with parsed keys and values.\<close>

definition ustr :: "string \<Rightarrow> nat list" where
  "ustr s = map of_char s"

section \<open>Lexical productions\<close>

definition json_ws :: "char \<Rightarrow> bool" where
  "json_ws c \<longleftrightarrow> of_char c \<in> {32, 9, 10, 13 :: nat}"

definition skip_ws :: "string \<Rightarrow> string" where
  "skip_ws s = dropWhile json_ws s"

lemma length_skip_ws: "length (skip_ws s) \<le> length s"
  by (simp add: skip_ws_def length_dropWhile_le)

definition is_digit :: "char \<Rightarrow> bool" where
  "is_digit c \<longleftrightarrow> 48 \<le> (of_char c :: nat) \<and> (of_char c :: nat) \<le> 57"

definition digits_val :: "string \<Rightarrow> int" where
  "digits_val ds = foldl (\<lambda>a c. 10 * a + int (of_char c - 48)) 0 ds"

definition pyfloat_of :: "real \<Rightarrow> pyfloat" where
  "pyfloat_of r =
     (if 2 ^ 1024 - 2 ^ 970 \<le> r then PosInf
      else if r \<le> - (2 ^ 1024 - 2 ^ 970) then NegInf else Fin r)"

definition scale10 :: "real \<Rightarrow> int \<Rightarrow> real" where
  "scale10 m e = (if 0 \<le> e then m * 10 ^ nat e else m / 10 ^ nat (- e))"

fun number_frac :: "string \<Rightarrow> string \<times> string" where
  "number_frac (c # cs) =
     (if c = CHR ''.'' \<and> takeWhile is_digit cs \<noteq> []
      then (takeWhile is_digit cs, dropWhile is_digit cs) else ([], c # cs))"
| "number_frac [] = ([], [])"

definition exp_digits :: "string \<Rightarrow> bool \<Rightarrow> string \<Rightarrow> int option \<times> string" where
  "exp_digits orig neg cs =
     (if takeWhile is_digit cs = [] then (None, orig)
      else (Some ((if neg then -1 else 1) * digits_val (takeWhile is_digit cs)),
            dropWhile is_digit cs))"

fun number_exp :: "string \<Rightarrow> int option \<times> string" where
  "number_exp (c # cs) =
     (if c = CHR ''e'' \<or> c = CHR ''E'' then
        (case cs of
           d # ds \<Rightarrow> if d = CHR ''-'' then exp_digits (c # cs) True ds
                     else if d = CHR ''+'' then exp_digits (c # cs) False ds
                     else exp_digits (c # cs) False cs
         | [] \<Rightarrow> (None, c # cs))
      else (None, c # cs))"
| "number_exp [] = (None, [])"

definition number_int :: "string \<Rightarrow> (string \<times> string) option" where
  "number_int s =
     (case s of
        [] \<Rightarrow> None
      | c # cs \<Rightarrow>
          if c = CHR ''0'' then Some (''0'', cs)
          else if is_digit c then Some (takeWhile is_digit s, dropWhile is_digit s)
          else None)"

definition json_number :: "string \<Rightarrow> (json_error + json \<times> string) option" where
  "json_number s =
     (let neg = (case s of c # _ \<Rightarrow> c = CHR ''-'' | [] \<Rightarrow> False);
          sgn = (if neg then -1 else 1 :: int)
      in case number_int (if neg then tl s else s) of
           None \<Rightarrow> None
         | Some (ip, r0) \<Rightarrow>
             (let (fr, r1) = number_frac r0; (ex, r2) = number_exp r1
              in if fr = [] \<and> ex = None
                 then (if 4300 < length ip then Some (Inl IntDigitsLimit)
                       else Some (Inr (JInt (sgn * digits_val ip), r2)))
                 else Some (Inr (JFloat (pyfloat_of
                        (scale10 (real_of_int (sgn * digits_val (ip @ fr)))
                           ((case ex of None \<Rightarrow> 0 | Some e \<Rightarrow> e) - int (length fr)))), r2))))"

definition hex_val :: "char \<Rightarrow> nat option" where
  "hex_val c =
     (let n = of_char c :: nat
      in if 48 \<le> n \<and> n \<le> 57 then Some (n - 48)
         else if 97 \<le> n \<and> n \<le> 102 then Some (n - 87)
         else if 65 \<le> n \<and> n \<le> 70 then Some (n - 55) else None)"

fun hex4 :: "string \<Rightarrow> (nat \<times> string) option" where
  "hex4 (a # b # c # d # r) =
     (case (hex_val a, hex_val b, hex_val c, hex_val d) of
        (Some w, Some x, Some y, Some z) \<Rightarrow> Some (((w * 16 + x) * 16 + y) * 16 + z, r)
      | _ \<Rightarrow> None)"
| "hex4 _ = None"

text \<open>A high surrogate joins with a directly following low one; otherwise it stands alone.\<close>

definition join_surrogate :: "nat \<Rightarrow> string \<Rightarrow> nat \<times> string" where
  "join_surrogate u r =
     (if 55296 \<le> u \<and> u \<le> 56319 \<and> prefix [CHR 0x5C, CHR ''u''] r then
        (case hex4 (drop 2 r) of
           Some (v, r') \<Rightarrow>
             if 56320 \<le> v \<and> v \<le> 57343
             then (65536 + (u - 55296) * 1024 + (v - 56320), r') else (u, r)
         | None \<Rightarrow> (u, r))
      else (u, r))"

fun unescape :: "string \<Rightarrow> (nat \<times> string) option" where
  "unescape (c # cs) =
     (if c = CHR 0x22 \<or> c = CHR 0x5C \<or> c = CHR ''/'' then Some (of_char c, cs)
      else if c = CHR ''b'' then Some (8, cs)
      else if c = CHR ''f'' then Some (12, cs)
      else if c = CHR ''n'' then Some (10, cs)
      else if c = CHR ''r'' then Some (13, cs)
      else if c = CHR ''t'' then Some (9, cs)
      else if c = CHR ''u'' then map_option (\<lambda>(u, r). join_surrogate u r) (hex4 cs)
      else None)"
| "unescape [] = None"

lemma hex4_length: "hex4 s = Some (u, r) \<Longrightarrow> length r < length s"
  by (induction s rule: hex4.induct) (auto split: option.splits)

lemma join_surrogate_length: "join_surrogate u r = (v, r') \<Longrightarrow> length r' \<le> length r"
  by (auto simp: join_surrogate_def split: if_splits option.splits dest!: hex4_length)

lemma unescape_length: "unescape s = Some (u, r) \<Longrightarrow> length r < length s"
  by (cases s) (auto split: if_splits dest!: hex4_length join_surrogate_length sym [of "(_, _)"])

definition push_char :: "nat \<Rightarrow> json_error + nat list \<times> string \<Rightarrow> json_error + nat list \<times> string" where
  "push_char u x = (case x of Inl e \<Rightarrow> Inl e | Inr (us, r) \<Rightarrow> Inr (u # us, r))"

text \<open>The characters after an opening quote, up to and past the closing one.\<close>

function scan_string :: "string \<Rightarrow> json_error + nat list \<times> string" where
  "scan_string s =
     (case s of
        [] \<Rightarrow> Inl DecodeError
      | c # cs \<Rightarrow>
          if c = CHR 0x22 then Inr ([], cs)
          else if c = CHR 0x5C then
            (case unescape cs of None \<Rightarrow> Inl DecodeError | Some (u, r) \<Rightarrow> push_char u (scan_string r))
          else if of_char c < (32 :: nat) then Inl DecodeError
          else push_char (of_char c) (scan_string cs))"
  by pat_completeness auto
termination
  by (relation "measure length") (auto dest!: unescape_length)

declare scan_string.simps [simp del]

section \<open>Values\<close>

definition dict_of_pairs :: "('k \<times> 'v) list \<Rightarrow> ('k, 'v) dict" where
  "dict_of_pairs ps = foldl (\<lambda>d (k, v). dict_set k v d) [] ps"

definition json_literal :: "string \<Rightarrow> json_error + json \<times> string" where
  "json_literal s =
     (if prefix ''null'' s then Inr (JNull, drop 4 s)
      else if prefix ''true'' s then Inr (JBool True, drop 4 s)
      else if prefix ''false'' s then Inr (JBool False, drop 5 s)
      else case json_number s of
             Some res \<Rightarrow> res
           | None \<Rightarrow>
               if prefix ''NaN'' s then Inr (JFloat NaN, drop 3 s)
               else if prefix ''Infinity'' s then Inr (JFloat PosInf, drop 8 s)
               else if prefix ''-Infinity'' s then Inr (JFloat NegInf, drop 9 s)
               else Inl DecodeError)"

fun json_value :: "nat \<Rightarrow> string \<Rightarrow> json_error + json \<times> string"
and json_elems :: "nat \<Rightarrow> string \<Rightarrow> json_error + json list \<times> string"
and json_members :: "nat \<Rightarrow> string \<Rightarrow> json_error + (nat list \<times> json) list \<times> string" where
  "json_value 0 s = Inl NoFuel"
| "json_value (Suc n) s =
     (case s of
        [] \<Rightarrow> Inl DecodeError
      | c # cs \<Rightarrow>
          if c = CHR 0x22 then
            (case scan_string cs of Inl e \<Rightarrow> Inl e | Inr (us, r) \<Rightarrow> Inr (JStr us, r))
          else if c = CHR ''{'' then
            (if prefix ''}'' (skip_ws cs) then Inr (JObj [], tl (skip_ws cs))
             else case json_members n (skip_ws cs) of
                    Inl e \<Rightarrow> Inl e | Inr (ps, r) \<Rightarrow> Inr (JObj (dict_of_pairs ps), r))
          else if c = CHR ''['' then
            (if prefix '']'' (skip_ws cs) then Inr (JArr [], tl (skip_ws cs))
             else case json_elems n (skip_ws cs) of
                    Inl e \<Rightarrow> Inl e | Inr (vs, r) \<Rightarrow> Inr (JArr vs, r))
          else json_literal s)"
| "json_elems 0 s = Inl NoFuel"
| "json_elems (Suc n) s =
     (case json_value n s of
        Inl e \<Rightarrow> Inl e
      | Inr (v, r) \<Rightarrow>
          (case skip_ws r of
             [] \<Rightarrow> Inl DecodeError
           | c # cs \<Rightarrow>
               if c = CHR '']'' then Inr ([v], cs)
               else if c = CHR '','' then
                 (case json_elems n (skip_ws cs) of
                    Inl e \<Rightarrow> Inl e | Inr (vs, r') \<Rightarrow> Inr (v # vs, r'))
               else Inl DecodeError))"
| "json_members 0 s = Inl NoFuel"
| "json_members (Suc n) s =
     (if \<not> prefix [CHR 0x22] s then Inl DecodeError
      else case scan_string (tl s) of
        Inl e \<Rightarrow> Inl e
      | Inr (k, r0) \<Rightarrow>
          if \<not> prefix '':'' (skip_ws r0) then Inl DecodeError
          else (case json_value n (skip_ws (tl (skip_ws r0))) of
             Inl e \<Rightarrow> Inl e
           | Inr (v, r) \<Rightarrow>
               (case skip_ws r of
                  [] \<Rightarrow> Inl DecodeError
                | c # cs \<Rightarrow>
                    if c = CHR ''}'' then Inr ([(k, v)], cs)
                    else if c = CHR '','' then
                      (case json_members n (skip_ws cs) of
                         Inl e \<Rightarrow> Inl e | Inr (ps, r') \<Rightarrow> Inr ((k, v) # ps, r'))
                    else Inl DecodeError)))"

definition json_loads :: "string \<Rightarrow> json_error + json" where
  "json_loads s =
     (case json_value (2 * length s + 1) (skip_ws s) of
        Inl e \<Rightarrow> Inl e
      | Inr (v, r) \<Rightarrow> if skip_ws r = [] then Inr v else Inl DecodeError)"

section \<open>Every production consumes input, so the fuel suffices\<close>

lemma number_int_length: "number_int s = Some (ip, r) \<Longrightarrow> length r < length s"
  by (auto simp: number_int_def split: list.splits if_splits)
    (metis le_imp_less_Suc length_dropWhile_le)

lemma number_frac_length: "number_frac s = (fr, r) \<Longrightarrow> length r \<le> length s"
  by (cases s) (auto split: if_splits simp: length_dropWhile_le le_SucI)

lemma exp_digits_length:
  "exp_digits orig neg cs = (ex, r) \<Longrightarrow> length cs \<le> length orig \<Longrightarrow> length r \<le> length orig"
  using length_dropWhile_le [of is_digit cs] by (auto simp: exp_digits_def split: if_splits)

lemma number_exp_length: "number_exp s = (ex, r) \<Longrightarrow> length r \<le> length s"
  by (cases s) (auto split: if_splits list.splits dest!: exp_digits_length)

lemma json_number_length: "json_number s = Some (Inr (v, r)) \<Longrightarrow> length r < length s"
  by (auto simp: json_number_def Let_def split: option.splits prod.splits if_splits
      dest!: number_int_length number_frac_length number_exp_length)

lemma json_literal_length: "json_literal s = Inr (v, r) \<Longrightarrow> length r < length s"
  by (auto simp: json_literal_def split: if_splits option.splits dest: json_number_length prefix_length_le)

lemma scan_string_length: "scan_string s = Inr (us, r) \<Longrightarrow> length r < length s"
proof (induction s arbitrary: us rule: scan_string.induct)
  case (1 s)
  show ?case
  proof (cases s)
    case Nil
    with "1.prems" show ?thesis by (simp add: scan_string.simps)
  next
    case (Cons c cs)
    with "1.prems" "1.IH" [OF Cons] show ?thesis
      by (subst (asm) scan_string.simps)
        (fastforce simp: push_char_def split: if_splits option.splits sum.splits
           dest: unescape_length)
  qed
qed

lemma scan_string_fuel: "scan_string s \<noteq> Inl NoFuel"
proof (induction s rule: scan_string.induct)
  case (1 s)
  show ?case
    by (cases s; subst scan_string.simps)
      (auto simp: push_char_def "1.IH" split: option.splits sum.splits)
qed

lemma json_literal_fuel: "json_literal s \<noteq> Inl NoFuel"
  by (auto simp: json_literal_def json_number_def Let_def split: option.splits prod.splits if_splits)

lemma tl_skip_ws_less:
  "prefix [c] (skip_ws r) \<Longrightarrow> length r \<le> n \<Longrightarrow> length (tl (skip_ws r)) < n"
  using length_skip_ws [of r] by (cases "skip_ws r") auto

lemma skip_ws_Cons_less: "skip_ws r = c # cs \<Longrightarrow> length cs < length r"
  using length_skip_ws [of r] by simp

lemma json_parse_length:
  "json_value n s = Inr (v, r) \<Longrightarrow> length r < length s"
  "json_elems n s = Inr (vs, r) \<Longrightarrow> length r < length s"
  "json_members n s = Inr (ps, r) \<Longrightarrow> length r < length s"
proof (induction n s and n s and n s arbitrary: v r and vs r and ps r
    rule: json_value_json_elems_json_members.induct)
  case (2 n s)
  show ?case
  proof (cases s)
    case Nil
    with "2.prems" show ?thesis by simp
  next
    case (Cons c cs)
    note len = length_skip_ws [of cs]
    consider "c = CHR 0x22" | "c = CHR ''{''" | "c = CHR ''[''"
      | "c \<noteq> CHR 0x22" "c \<noteq> CHR ''{''" "c \<noteq> CHR ''[''" by blast
    then show ?thesis
    proof cases
      case 1
      with Cons "2.prems" show ?thesis
        by (auto split: sum.splits dest!: scan_string_length)
    next
      case 2
      with Cons "2.prems" "2.IH"(1) [OF Cons] len show ?thesis
        by (auto split: sum.splits if_splits)
    next
      case 3
      with Cons "2.prems" "2.IH"(2) [OF Cons] len show ?thesis
        by (auto split: sum.splits if_splits)
    next
      case 4
      with Cons "2.prems" show ?thesis
        by (auto dest: json_literal_length)
    qed
  qed
next
  case (4 n s)
  from "4.prems" obtain v r0 c cs where v: "json_value n s = Inr (v, r0)"
      and c: "skip_ws r0 = c # cs"
    by (auto split: sum.splits list.splits)
  have "length r0 < length s" using "4.IH"(1) [OF v] .
  moreover have "length cs < length r0" using c by (rule skip_ws_Cons_less)
  ultimately show ?case
    using "4.prems" v c "4.IH"(2) [OF v refl c] length_skip_ws [of cs]
    by (auto split: if_splits sum.splits)
next
  case (6 n s)
  from "6.prems" obtain k r1 v r0 c cs where k: "scan_string (tl s) = Inr (k, r1)"
      and q: "prefix [CHR 0x22] s" and p: "prefix '':'' (skip_ws r1)"
      and v: "json_value n (skip_ws (tl (skip_ws r1))) = Inr (v, r0)"
      and c: "skip_ws r0 = c # cs"
    by (auto split: sum.splits list.splits if_splits)
  have "length r1 < length s"
    using scan_string_length [OF k] by simp
  moreover have "length r0 < length (skip_ws (tl (skip_ws r1)))"
    using "6.IH"(1) [of "(k, r1)"] k q p v by simp
  moreover have "length (skip_ws (tl (skip_ws r1))) \<le> length r1"
    using length_skip_ws [of "tl (skip_ws r1)"] length_skip_ws [of r1] by simp
  moreover have "length cs < length r0" using c by (rule skip_ws_Cons_less)
  ultimately show ?case
    using "6.prems" k q p v c "6.IH"(2) [of "(k, r1)" k r1 "(v, r0)" v r0 c cs]
      length_skip_ws [of cs]
    by (fastforce split: if_splits sum.splits)
qed simp_all

lemma json_parse_fuel:
  "2 * length s + 1 \<le> n \<Longrightarrow> json_value n s \<noteq> Inl NoFuel"
  "2 * length s + 2 \<le> n \<Longrightarrow> json_elems n s \<noteq> Inl NoFuel"
  "2 * length s + 2 \<le> n \<Longrightarrow> json_members n s \<noteq> Inl NoFuel"
proof (induction n s and n s and n s rule: json_value_json_elems_json_members.induct)
  case (2 n s)
  show ?case
  proof (cases s)
    case Nil
    then show ?thesis by simp
  next
    case (Cons c cs)
    with "2.prems" have "2 * length (skip_ws cs) + 2 \<le> n"
      using length_skip_ws [of cs] by simp
    with Cons "2.IH" [OF Cons] show ?thesis
      by (auto simp: scan_string_fuel json_literal_fuel split: sum.splits)
  qed
next
  case (4 n s)
  have IH2: "json_elems n (skip_ws cs) \<noteq> Inl NoFuel"
    if v: "json_value n s = Inr (v, r)" and c: "skip_ws r = CHR '','' # cs" for v r cs
  proof -
    have "2 * length (skip_ws cs) + 2 \<le> n"
      using "4.prems" json_parse_length(1) [OF v] skip_ws_Cons_less [OF c] length_skip_ws [of cs]
      by simp
    then show ?thesis
      using "4.IH"(2) [OF v refl c] by simp
  qed
  show ?case
    using "4.IH"(1) "4.prems" IH2
    by (auto split: sum.splits list.splits if_splits)
next
  case (6 n s)
  have len: "2 * length (skip_ws (tl (skip_ws r1))) + 1 \<le> n" and len': "length r1 < length s"
    if "scan_string (tl s) = Inr (k, r1)" for k r1
    using scan_string_length [OF that] "6.prems" length_skip_ws [of "tl (skip_ws r1)"]
      length_skip_ws [of r1] by simp_all
  have IH1: "json_value n (skip_ws (tl (skip_ws r1))) \<noteq> Inl NoFuel"
    if "prefix [CHR 0x22] s" "scan_string (tl s) = Inr (k, r1)" "prefix '':'' (skip_ws r1)" for k r1
    using "6.IH"(1) [of "(k, r1)" k r1] that len [OF that(2)] by simp
  have IH2: "json_members n (skip_ws cs) \<noteq> Inl NoFuel"
    if h: "prefix [CHR 0x22] s" "scan_string (tl s) = Inr (k, r1)" "prefix '':'' (skip_ws r1)"
      and v: "json_value n (skip_ws (tl (skip_ws r1))) = Inr (v, r)"
      and c: "skip_ws r = CHR '','' # cs" for k r1 v r cs
  proof -
    have "2 * length (skip_ws cs) + 2 \<le> n"
      using len [OF h(2)] json_parse_length(1) [OF v] skip_ws_Cons_less [OF c] length_skip_ws [of cs]
      by simp
    then show ?thesis
      using "6.IH"(2) [of "(k, r1)" k r1 "(v, r)" v r "CHR '',''" cs] h v c by simp
  qed
  show ?case
    using IH1 IH2 by (auto simp: scan_string_fuel split: sum.splits list.splits if_splits)
qed simp_all

lemma json_loads_total: "json_loads s \<noteq> Inl NoFuel"
  using json_parse_fuel(1) [of "skip_ws s" "2 * length s + 1"] length_skip_ws [of s]
  by (auto simp: json_loads_def split: sum.splits)

lemma json_loads_Nil [simp]: "json_loads [] = Inl DecodeError"
  by (simp add: json_loads_def skip_ws_def)

section \<open>Building and reading values\<close>

definition jstr :: "string \<Rightarrow> json" where
  "jstr s = JStr (ustr s)"

definition jobj :: "(string \<times> json) list \<Rightarrow> json" where
  "jobj kvs = JObj (map (\<lambda>(k, v). (ustr k, v)) kvs)"

definition json_field :: "string \<Rightarrow> json \<Rightarrow> json option" where
  "json_field k v = (case v of JObj d \<Rightarrow> dict_get d (ustr k) | _ \<Rightarrow> None)"

lemma ustr_inj [simp]: "ustr a = ustr b \<longleftrightarrow> a = b"
  by (simp add: ustr_def inj_map_eq_map inj_on_def)

lemma json_field_jobj: "json_field k (jobj kvs) = map_of kvs k"
  unfolding json_field_def jobj_def by (induction kvs) auto

text \<open>
  Conversions of parsed values. \<open>str_of_json\<close> is Python's \<^verbatim>\<open>str\<close>; the text of a float, an array or
  an object is the argument \<open>repr\<close>. \<open>float_of_text\<close> is \<^verbatim>\<open>float(text)\<close> on ASCII text (other digits and
  spaces of Unicode are not accepted).
\<close>

definition json_truthy :: "json \<Rightarrow> bool" where
  "json_truthy v \<longleftrightarrow> v \<notin> {JNull, JBool False, JInt 0, JFloat (Fin 0), JStr [], JArr [], JObj []}"

fun nat_text :: "nat \<Rightarrow> nat list" where
  "nat_text n = (if n < 10 then [48 + n] else nat_text (n div 10) @ [48 + n mod 10])"

declare nat_text.simps [simp del]

fun str_of_json :: "(json \<Rightarrow> nat list) \<Rightarrow> json \<Rightarrow> nat list" where
  "str_of_json repr (JStr us) = us"
| "str_of_json repr JNull = ustr ''None''"
| "str_of_json repr (JBool b) = ustr (if b then ''True'' else ''False'')"
| "str_of_json repr (JInt i) = (if i < 0 then 45 # nat_text (nat (- i)) else nat_text (nat i))"
| "str_of_json repr v = repr v"

text \<open>A run of digits with single underscores between them.\<close>

fun digit_part :: "string \<Rightarrow> string \<times> string" where
  "digit_part [] = ([], [])"
| "digit_part [c] = (if is_digit c then ([c], []) else ([], [c]))"
| "digit_part (c # d # cs) =
     (if is_digit c
      then if is_digit d then (let (ds, r) = digit_part (d # cs) in (c # ds, r))
           else if d = CHR ''_'' \<and> cs \<noteq> [] \<and> is_digit (hd cs) then (let (ds, r) = digit_part cs in (c # ds, r))
           else ([c], d # cs)
      else ([], c # d # cs))"

definition exponent :: "string \<Rightarrow> int option" where
  "exponent s =
     (if s = [] then Some 0
      else if hd s = CHR ''e'' \<or> hd s = CHR ''E'' then
        (let t = tl s; neg = prefix ''-'' t;
             (ds, r) = digit_part (if neg \<or> prefix ''+'' t then tl t else t)
         in if ds = [] \<or> r \<noteq> [] then None else Some (if neg then - digits_val ds else digits_val ds))
      else None)"

definition decimal :: "string \<Rightarrow> real option" where
  "decimal s =
     (let (ip, r) = digit_part s;
          (fp, r2) = (if prefix ''.'' r then digit_part (tl r) else ([], r))
      in if ip = [] \<and> fp = [] then None
         else map_option (\<lambda>e. scale10 (real_of_int (digits_val (ip @ fp))) (e - int (length fp))) (exponent r2))"

definition float_of_text :: "nat list \<Rightarrow> pyfloat option" where
  "float_of_text us =
     (if list_ex (\<lambda>u. 128 \<le> u) us then None
      else let s = str_strip (map char_of us); neg = prefix ''-'' s;
               body = (if neg \<or> prefix ''+'' s then tl s else s); low = str_lower body
           in if low = ''nan'' then Some NaN
              else if low = ''inf'' \<or> low = ''infinity'' then Some (if neg then NegInf else PosInf)
              else map_option (\<lambda>r. pyfloat_of (if neg then - r else r)) (decimal body))"

datatype float_error = FloatValueError | FloatTypeError | FloatOverflowError

definition float_of_int :: "int \<Rightarrow> float_error + pyfloat" where
  "float_of_int i = (if \<bar>i\<bar> < 2 ^ 1024 - 2 ^ 970 then Inr (Fin (real_of_int i)) else Inl FloatOverflowError)"

fun float_of_json :: "json \<Rightarrow> float_error + pyfloat" where
  "float_of_json (JInt i) = float_of_int i"
| "float_of_json (JBool b) = Inr (Fin (if b then 1 else 0))"
| "float_of_json (JFloat f) = Inr f"
| "float_of_json (JStr us) = (case float_of_text us of None \<Rightarrow> Inl FloatValueError | Some f \<Rightarrow> Inr f)"
| "float_of_json _ = Inl FloatTypeError"

text \<open>Comparison with a finite float and arithmetic of floats, infinities and NaN included.\<close>

fun pf_less :: "pyfloat \<Rightarrow> real \<Rightarrow> bool" where
  "pf_less (Fin x) r \<longleftrightarrow> x < r"
| "pf_less NegInf r \<longleftrightarrow> True"
| "pf_less _ r \<longleftrightarrow> False"

fun pf_greater :: "pyfloat \<Rightarrow> real \<Rightarrow> bool" where
  "pf_greater (Fin x) r \<longleftrightarrow> r < x"
| "pf_greater PosInf r \<longleftrightarrow> True"
| "pf_greater _ r \<longleftrightarrow> False"

fun pf_add :: "pyfloat \<Rightarrow> pyfloat \<Rightarrow> pyfloat" where
  "pf_add (Fin x) (Fin y) = Fin (x + y)"
| "pf_add NaN y = NaN"
| "pf_add x NaN = NaN"
| "pf_add (Fin x) y = y"
| "pf_add x (Fin y) = x"
| "pf_add PosInf PosInf = PosInf"
| "pf_add NegInf NegInf = NegInf"
| "pf_add x y = NaN"

fun pf_neg :: "pyfloat \<Rightarrow> pyfloat" where
  "pf_neg (Fin x) = Fin (- x)"
| "pf_neg PosInf = NegInf"
| "pf_neg NegInf = PosInf"
| "pf_neg NaN = NaN"

end
