(* ===== verification/Gw_Models.thy ===== *)
theory Gw_Models
  imports Py_Json
begin

text \<open>
  The gateway's data (\<^verbatim>\<open>llm-gateway/src/models.py\<close>): requests, normalized responses and
  the routing configuration.

  \<^verbatim>\<open>ModelConfig\<close> objects are shared: the routing configuration, the health manager and
  the provider adapters hold references to the same object, and the health manager and the
  adapter factory write its fields. A reference is an address (\<open>ref\<close>) into a heap
  \<open>ref \<Rightarrow> model_config\<close>, tiers list references, and loading a configuration allocates fresh
  ones. Everything else is immutable and is a plain record.
\<close>

section \<open>Requests and responses\<close>

datatype tier_enum = FAST | MID | STRONG

fun tier_value :: "tier_enum \<Rightarrow> string" where
  "tier_value FAST = ''fast''"
| "tier_value MID = ''mid''"
| "tier_value STRONG = ''strong''"

datatype message_role = SYSTEM | USER | ASSISTANT | TOOL

fun role_value :: "message_role \<Rightarrow> string" where
  "role_value SYSTEM = ''system''"
| "role_value USER = ''user''"
| "role_value ASSISTANT = ''assistant''"
| "role_value TOOL = ''tool''"

record tool_call_function =
  tcf_name :: "nat list"
  tcf_arguments :: string

record tool_call =
  tc_id :: "nat list"
  tc_type :: string
  tc_function :: tool_call_function

record message =
  msg_role :: message_role
  msg_content :: "string option"
  msg_name :: "string option"
  msg_tool_calls :: "tool_call list option"
  msg_tool_call_id :: "string option"

record tool_function =
  tf_name :: string
  tf_description :: string
  tf_parameters :: "(nat list, json) dict"

record tool =
  tool_type :: string
  tool_function :: tool_function

record response_format =
  rf_type :: string
  rf_schema :: "(nat list, json) dict option"

record completion_request =
  req_messages :: "message list"
  req_task :: string
  req_agent :: string
  req_tenant_id :: string
  req_trace_id :: string
  req_confidence_threshold :: real
  req_max_tokens :: int
  req_temperature :: real
  req_response_format :: "response_format option"
  req_tools :: "tool list option"
  req_stop :: "string list option"

record usage =
  input_tokens :: int
  output_tokens :: int

record normalized_request =
  nr_messages :: "message list"
  nr_tools :: "tool list option"
  nr_max_tokens :: int
  nr_temperature :: real
  nr_response_format :: "response_format option"
  nr_stop :: "string list option"
  nr_model :: string

record normalized_response =
  resp_content :: "string option"
  resp_tool_calls :: "tool_call list option"
  resp_usage :: usage
  resp_finish_reason :: string

record completion_response =
  cr_content :: "string option"
  cr_model_used :: string
  cr_tier_used :: string
  cr_escalated :: bool
  cr_escalation_path :: "string list"
  cr_usage :: usage
  cr_latency_ms :: int
  cr_confidence :: real
  cr_tool_calls :: "tool_call list option"
  cr_cost_usd :: real
  cr_trace_id :: string

section \<open>Routing configuration\<close>

type_synonym ref = nat

record model_config =
  mc_id :: string
  mc_provider :: string
  mc_model :: string
  mc_endpoint :: string
  mc_api_key :: string
  mc_max_tokens :: int
  mc_timeout_ms :: int
  mc_healthy :: bool
  mc_enabled :: bool

type_synonym heap = "ref \<Rightarrow> model_config"

record tier_config =
  tier_models :: "ref list"

record canary_config =
  cc_model :: string
  cc_traffic_pct :: int
  cc_min_samples :: int
  cc_min_duration_hours :: int

record escalation_config =
  esc_enabled :: bool
  esc_max_escalations :: int
  esc_path :: "string list"

record cost_config =
  max_per_request_usd :: real
  max_per_tenant_per_day_usd :: real

record embedding_model_config =
  emb_provider :: string
  emb_model :: string
  emb_endpoint :: string

text \<open>The values of \<^verbatim>\<open>agent_routing\<close> and \<^verbatim>\<open>tenant_routing\<close> are untyped (\<^verbatim>\<open>Any\<close>).\<close>

datatype route_value =
    RouteStr string
  | RouteDict "(string, string) dict"
  | RouteNone
  | RouteOther

record routing_config =
  rc_tiers :: "(string, tier_config) dict"
  rc_task_routing :: "(string, string) dict"
  rc_agent_routing :: "(string, (string, route_value) dict) dict"
  rc_tenant_routing :: "(string, (string, route_value) dict) dict"
  rc_canary :: "(string, canary_config) dict"
  rc_escalation :: escalation_config
  rc_embedding :: embedding_model_config
  rc_cost :: cost_config

definition default_escalation :: escalation_config where
  "default_escalation =
     \<lparr>esc_enabled = True, esc_max_escalations = 2, esc_path = [''fast'', ''mid'', ''strong'']\<rparr>"

definition default_cost :: cost_config where
  "default_cost = \<lparr>max_per_request_usd = 1, max_per_tenant_per_day_usd = 50\<rparr>"

definition default_embedding :: embedding_model_config where
  "default_embedding =
     \<lparr>emb_provider = ''ollama'', emb_model = ''nomic-embed-text'',
      emb_endpoint = ''http://ollama:11434''\<rparr>"

definition default_routing :: routing_config where
  "default_routing =
     \<lparr>rc_tiers = [], rc_task_routing = [], rc_agent_routing = [], rc_tenant_routing = [],
      rc_canary = [], rc_escalation = default_escalation, rc_embedding = default_embedding,
      rc_cost = default_cost\<rparr>"

end
