(* ===== verification/Gw_Degradation.thy ===== *)
theory Gw_Degradation
  imports Gw_Models
begin

text \<open>
  The per-tenant degradation cascade (\<^verbatim>\<open>llm-gateway/src/budget/degradation.py\<close>): the share
  of the daily budget a tenant has spent sets a level from 0 (full service) to 4 (queue),
  and the level decides which tiers the tenant may use.
\<close>

section \<open>DegradationManager\<close>

abbreviation (input) FULL_SERVICE :: int where "FULL_SERVICE \<equiv> 0"
abbreviation (input) NO_STRONG :: int where "NO_STRONG \<equiv> 1"
abbreviation (input) FAST_ONLY :: int where "FAST_ONLY \<equiv> 2"
abbreviation (input) DETERMINISTIC_ONLY :: int where "DETERMINISTIC_ONLY \<equiv> 3"
abbreviation (input) QUEUED :: int where "QUEUED \<equiv> 4"

record degradation_manager =
  dm_cost_config :: cost_config
  dm_tenant_levels :: "(string, int) dict"

definition init_degradation :: "cost_config \<Rightarrow> degradation_manager" where
  "init_degradation cfg = \<lparr>dm_cost_config = cfg, dm_tenant_levels = []\<rparr>"

definition dm_update_config :: "cost_config \<Rightarrow> degradation_manager \<Rightarrow> degradation_manager" where
  "dm_update_config cfg m = m\<lparr>dm_cost_config := cfg\<rparr>"

definition compute_level :: "real \<Rightarrow> real \<Rightarrow> int" where
  "compute_level daily_spend daily_limit =
     (if daily_limit \<le> 0 then FULL_SERVICE
      else let ratio = daily_spend / daily_limit
           in if 1 \<le> ratio then QUEUED
              else if 0.95 \<le> ratio then DETERMINISTIC_ONLY
              else if 0.85 \<le> ratio then FAST_ONLY
              else if 0.70 \<le> ratio then NO_STRONG
              else FULL_SERVICE)"

definition get_level :: "degradation_manager \<Rightarrow> string \<Rightarrow> int" where
  "get_level m tenant_id = dict_get_default (dm_tenant_levels m) tenant_id FULL_SERVICE"

definition set_level :: "string \<Rightarrow> int \<Rightarrow> degradation_manager \<Rightarrow> degradation_manager" where
  "set_level tenant_id level m =
     m\<lparr>dm_tenant_levels := dict_set tenant_id level (dm_tenant_levels m)\<rparr>"

definition update_for_spend ::
    "string \<Rightarrow> real \<Rightarrow> degradation_manager \<Rightarrow> int \<times> degradation_manager" where
  "update_for_spend tenant_id daily_spend m =
     (let level = compute_level daily_spend (max_per_tenant_per_day_usd (dm_cost_config m))
      in (level, set_level tenant_id level m))"

definition tiers_for_level :: "int \<Rightarrow> string list" where
  "tiers_for_level level =
     (if level = FULL_SERVICE then [tier_value FAST, tier_value MID, tier_value STRONG]
      else if level = NO_STRONG then [tier_value FAST, tier_value MID]
      else if level = FAST_ONLY then [tier_value FAST]
      else [])"

definition get_allowed_tiers :: "degradation_manager \<Rightarrow> string \<Rightarrow> string list" where
  "get_allowed_tiers m tenant_id = tiers_for_level (get_level m tenant_id)"

definition is_tier_allowed :: "degradation_manager \<Rightarrow> string \<Rightarrow> string \<Rightarrow> bool" where
  "is_tier_allowed m tenant_id tier \<longleftrightarrow> tier \<in> set (get_allowed_tiers m tenant_id)"

definition should_queue :: "degradation_manager \<Rightarrow> string \<Rightarrow> bool" where
  "should_queue m tenant_id \<longleftrightarrow> QUEUED \<le> get_level m tenant_id"

definition should_reject_llm :: "degradation_manager \<Rightarrow> string \<Rightarrow> bool" where
  "should_reject_llm m tenant_id \<longleftrightarrow> DETERMINISTIC_ONLY \<le> get_level m tenant_id"

definition tier_priority :: "string list" where
  "tier_priority = [tier_value STRONG, tier_value MID, tier_value FAST]"

definition cap_tier :: "degradation_manager \<Rightarrow> string \<Rightarrow> string \<Rightarrow> string" where
  "cap_tier m tenant_id requested_tier =
     (let allowed = tiers_for_level (get_level m tenant_id)
      in if allowed = [] then requested_tier
         else case index_of requested_tier tier_priority of
                None \<Rightarrow> requested_tier
              | Some req_idx \<Rightarrow>
                  (case find (\<lambda>t. t \<in> set allowed) (drop req_idx tier_priority) of
                     Some t \<Rightarrow> t
                   | None \<Rightarrow> hd allowed))"

definition reset_tenant :: "string \<Rightarrow> degradation_manager \<Rightarrow> degradation_manager" where
  "reset_tenant tenant_id m =
     (if dict_has (dm_tenant_levels m) tenant_id
      then m\<lparr>dm_tenant_levels := dict_del tenant_id (dm_tenant_levels m)\<rparr> else m)"

section \<open>Levels\<close>

lemma compute_level_range: "0 \<le> compute_level s l" "compute_level s l \<le> QUEUED"
  by (simp_all add: compute_level_def Let_def)

lemma compute_level_cases:
  assumes "0 < l"
  shows "QUEUED \<le> compute_level s l \<longleftrightarrow> l \<le> s"
    and "DETERMINISTIC_ONLY \<le> compute_level s l \<longleftrightarrow> 0.95 * l \<le> s"
    and "FAST_ONLY \<le> compute_level s l \<longleftrightarrow> 0.85 * l \<le> s"
    and "NO_STRONG \<le> compute_level s l \<longleftrightarrow> 0.70 * l \<le> s"
  using assms by (auto simp: compute_level_def Let_def field_simps)

lemma compute_level_mono:
  assumes "s \<le> s'"
  shows "compute_level s l \<le> compute_level s' l"
proof (cases "l \<le> 0")
  case False
  with assms have "s / l \<le> s' / l" by (simp add: divide_right_mono)
  moreover define r r' where "r = s / l" and "r' = s' / l"
  ultimately have "r \<le> r'" by simp
  with False show ?thesis
    by (simp add: compute_level_def Let_def flip: r_def r'_def)
qed (simp add: compute_level_def)

lemma get_level_set [simp]:
  "get_level (set_level t l m) t' = (if t' = t then l else get_level m t')"
  by (simp add: get_level_def set_level_def)

lemma get_level_update_config [simp]: "get_level (dm_update_config c m) t = get_level m t"
  by (simp add: get_level_def dm_update_config_def)

lemma get_level_reset [simp]:
  "get_level (reset_tenant t m) t' = (if t' = t then FULL_SERVICE else get_level m t')"
  by (auto simp: get_level_def reset_tenant_def dict_get_default_def dict_has_def
      split: option.splits)

lemma snd_update_for_spend:
  "snd (update_for_spend t s m) = set_level t (fst (update_for_spend t s m)) m"
  by (simp add: update_for_spend_def Let_def)

lemma fst_update_for_spend:
  "fst (update_for_spend t s m) = compute_level s (max_per_tenant_per_day_usd (dm_cost_config m))"
  by (simp add: update_for_spend_def Let_def)

text \<open>Stored levels stay within the cascade.\<close>

definition degradation_inv :: "degradation_manager \<Rightarrow> bool" where
  "degradation_inv m \<longleftrightarrow>
     dict_ok (dm_tenant_levels m) \<and> (\<forall>t. 0 \<le> get_level m t \<and> get_level m t \<le> QUEUED)"

lemma degradation_inv_init [inv_intros]: "degradation_inv (init_degradation c)"
  by (simp add: degradation_inv_def init_degradation_def get_level_def)

lemma degradation_inv_update_config [inv_intros]:
  "degradation_inv m \<Longrightarrow> degradation_inv (dm_update_config c m)"
  by (simp add: degradation_inv_def) (simp add: dm_update_config_def)

lemma degradation_inv_spend [inv_intros]:
  "degradation_inv m \<Longrightarrow> degradation_inv (snd (update_for_spend t s m))"
  by (simp add: degradation_inv_def snd_update_for_spend fst_update_for_spend compute_level_range)
    (simp add: set_level_def)

lemma degradation_inv_reset [inv_intros]:
  "degradation_inv m \<Longrightarrow> degradation_inv (reset_tenant t m)"
  by (simp add: degradation_inv_def) (simp add: reset_tenant_def)

section \<open>Tier caps\<close>

text \<open>A higher level never widens the set of tiers.\<close>

lemma tiers_for_level_antimono:
  "0 \<le> l \<Longrightarrow> l \<le> l' \<Longrightarrow> set (tiers_for_level l') \<subseteq> set (tiers_for_level l)"
  by (auto simp: tiers_for_level_def)

text \<open>How strong a tier is: its position in the priority list from the end.\<close>

definition tier_rank :: "string \<Rightarrow> nat" where
  "tier_rank t = (case index_of t (rev tier_priority) of None \<Rightarrow> 0 | Some i \<Rightarrow> i)"

lemma cap_tier_allowed:
  assumes "get_level m t < DETERMINISTIC_ONLY" and "0 \<le> get_level m t"
    and "tier \<in> set tier_priority"
  shows "cap_tier m t tier \<in> set (get_allowed_tiers m t)"
proof -
  consider "get_level m t = 0" | "get_level m t = 1" | "get_level m t = 2"
    using assms(1,2) by linarith
  then show ?thesis
    using assms(3)
    by cases (auto simp: cap_tier_def get_allowed_tiers_def tiers_for_level_def tier_priority_def)
qed

lemma cap_tier_not_stronger:
  assumes "0 \<le> get_level m t" and "tier \<in> set tier_priority"
  shows "tier_rank (cap_tier m t tier) \<le> tier_rank tier"
proof -
  consider "get_level m t = 0" | "get_level m t = 1" | "get_level m t = 2" | "3 \<le> get_level m t"
    using assms(1) by linarith
  then show ?thesis
    using assms(2)
    by cases (auto simp: cap_tier_def tier_rank_def tiers_for_level_def tier_priority_def)
qed

lemma cap_tier_unknown: "tier \<notin> set tier_priority \<Longrightarrow> cap_tier m t tier = tier"
  by (simp add: cap_tier_def Let_def index_of_None [THEN iffD2])

lemma cap_tier_full: "get_level m t = FULL_SERVICE \<Longrightarrow> cap_tier m t tier = tier"
  by (auto simp: cap_tier_def tiers_for_level_def tier_priority_def)

section \<open>Properties of the degradation cascade\<close>

text \<open>
  (thresholds): with a positive daily limit, recomputing the level for a tenant stores
  the level it returns; the level is at least 4, 3, 2 or 1 exactly when the spend has reached
  100, 95, 85 or 70 percent of the limit, it stays between 0 and 4, and the levels of all other
  tenants are unchanged.
\<close>

theorem update_for_spend_thresholds:
  assumes "update_for_spend t spend m = (level, m')"
    and "limit = max_per_tenant_per_day_usd (dm_cost_config m)" and "0 < limit"
  shows "get_level m' t = level \<and> 0 \<le> level \<and> level \<le> QUEUED
    \<and> (QUEUED \<le> level \<longleftrightarrow> limit \<le> spend)
    \<and> (DETERMINISTIC_ONLY \<le> level \<longleftrightarrow> 0.95 * limit \<le> spend)
    \<and> (FAST_ONLY \<le> level \<longleftrightarrow> 0.85 * limit \<le> spend)
    \<and> (NO_STRONG \<le> level \<longleftrightarrow> 0.70 * limit \<le> spend)
    \<and> (\<forall>u. u \<noteq> t \<longrightarrow> get_level m' u = get_level m u)"
proof -
  have "level = compute_level spend limit" "m' = set_level t level m"
    using assms(1,2) snd_update_for_spend [of t spend m] fst_update_for_spend [of t spend m] by simp_all
  then show ?thesis
    using compute_level_range [of spend limit] compute_level_cases [OF assms(3), of spend] by simp
qed

text \<open>
  (monotone degradation): spending more never raises service. For two spends on the
  same limit, the larger one gives a level at least as high, and every tier allowed at the
  higher level is allowed at the lower one.
\<close>

theorem degradation_monotone:
  assumes "s \<le> s'"
  shows "compute_level s l \<le> compute_level s' l
    \<and> set (tiers_for_level (compute_level s' l)) \<subseteq> set (tiers_for_level (compute_level s l))"
  using compute_level_mono [OF assms] tiers_for_level_antimono compute_level_range(1) by blast

text \<open>
  (the cap is sound): for a tenant that may still use LLM tiers, capping one of the
  three tiers gives a tier that is allowed and never stronger than the requested one, and it
  gives the requested tier itself when that one is allowed.
\<close>

theorem cap_tier_sound:
  assumes "degradation_inv m" and "\<not> should_reject_llm m t" and "tier \<in> set tier_priority"
  shows "is_tier_allowed m t (cap_tier m t tier)
    \<and> tier_rank (cap_tier m t tier) \<le> tier_rank tier
    \<and> (is_tier_allowed m t tier \<longrightarrow> cap_tier m t tier = tier)"
proof -
  have l: "0 \<le> get_level m t" "get_level m t < DETERMINISTIC_ONLY"
    using assms(1,2) by (auto simp: degradation_inv_def should_reject_llm_def)
  consider "get_level m t = 0" | "get_level m t = 1" | "get_level m t = 2"
    using l by linarith
  then have "is_tier_allowed m t tier \<longrightarrow> cap_tier m t tier = tier"
    by cases (auto simp: is_tier_allowed_def get_allowed_tiers_def tiers_for_level_def
        cap_tier_def tier_priority_def)
  then show ?thesis
    using cap_tier_allowed [OF l(2,1) assms(3)] cap_tier_not_stronger [OF l(1) assms(3)]
    by (simp add: is_tier_allowed_def)
qed

section \<open>Witnesses\<close>

theorem update_for_spend_thresholds_witness:
  "update_for_spend ''acme'' 43 (init_degradation default_cost) =
     (2, set_level ''acme'' 2 (init_degradation default_cost))
   \<and> get_level (set_level ''acme'' 2 (init_degradation default_cost)) ''acme'' = 2
   \<and> \<not> DETERMINISTIC_ONLY \<le> (2 :: int)"
proof -
  have "update_for_spend ''acme'' 43 (init_degradation default_cost) =
      (2, set_level ''acme'' 2 (init_degradation default_cost))"
    by (simp add: update_for_spend_def init_degradation_def default_cost_def compute_level_def)
  from update_for_spend_thresholds [OF this refl] this show ?thesis
    by (simp add: init_degradation_def default_cost_def)
qed

theorem degradation_monotone_witness:
  "(30 :: real) \<le> 43 \<and> compute_level 30 50 \<le> compute_level 43 50
   \<and> set (tiers_for_level (compute_level 43 50)) \<subseteq> set (tiers_for_level (compute_level 30 50))"
  using degradation_monotone [of 30 43 50] by simp

theorem cap_tier_sound_witness:
  "degradation_inv (set_level ''acme'' 1 (init_degradation default_cost))
   \<and> \<not> should_reject_llm (set_level ''acme'' 1 (init_degradation default_cost)) ''acme''
   \<and> ''strong'' \<in> set tier_priority
   \<and> is_tier_allowed (set_level ''acme'' 1 (init_degradation default_cost)) ''acme''
       (cap_tier (set_level ''acme'' 1 (init_degradation default_cost)) ''acme'' ''strong'')"
proof -
  let ?m = "set_level ''acme'' 1 (init_degradation default_cost)"
  have 1: "degradation_inv ?m"
    by (simp add: degradation_inv_def) (simp add: set_level_def init_degradation_def get_level_def dict_ok_def)
  have 2: "\<not> should_reject_llm ?m ''acme''" by (simp add: should_reject_llm_def)
  have 3: "''strong'' \<in> set tier_priority" by (simp add: tier_priority_def)
  from cap_tier_sound [OF 1 2 3] 1 2 3 show ?thesis by simp
qed

end
