(* ===== verification/Gw_Budget.thy ===== *)
theory Gw_Budget
  imports Gw_Models
begin

text \<open>
  The per-tenant cost accumulator (\<^verbatim>\<open>llm-gateway/src/budget/tracker.py\<close>).

  A date string \<^verbatim>\<open>YYYYMMDD\<close> in UTC is represented by the day number it prints. Redis is a
  service: its commands are the fields of \<open>redis_api\<close>, over a server state of any type, and a
  command that raises returns None. Redis keys are the constructors of \<open>redis_key\<close>; the
  strings the code builds from them are pairwise different. A tracker whose connection failed
  (\<open>bt_redis = None\<close>) works on its in-memory dictionary.
\<close>

section \<open>Days\<close>

type_synonym day = int

definition utc_day :: "real \<Rightarrow> day" where
  "utc_day now = \<lfloor>now\<rfloor> div 86400"

definition seconds_until_midnight :: "real \<Rightarrow> int" where
  "seconds_until_midnight now =
     (let midnight = (\<lfloor>now\<rfloor> div 86400 + 1) * 86400 in max (midnight - \<lfloor>now\<rfloor>) 60)"

lemma seconds_until_midnight_bounds:
  "60 \<le> seconds_until_midnight now" "seconds_until_midnight now \<le> 86400"
  by (simp_all add: seconds_until_midnight_def Let_def)

lemma seconds_until_midnight_reaches:
  "(utc_day now + 1) * 86400 \<le> \<lfloor>now\<rfloor> + seconds_until_midnight now"
  by (simp add: seconds_until_midnight_def utc_day_def Let_def)

section \<open>The Redis commands the tracker uses\<close>

datatype redis_key = CostKey string day | RequestsKey string day

record 'r redis_api =
  rd_incrbyfloat :: "redis_key \<Rightarrow> real \<Rightarrow> 'r \<Rightarrow> (real \<times> 'r) option"
  rd_incr :: "redis_key \<Rightarrow> 'r \<Rightarrow> (int \<times> 'r) option"
  rd_get :: "redis_key \<Rightarrow> 'r \<Rightarrow> real option option"
  rd_ttl :: "redis_key \<Rightarrow> 'r \<Rightarrow> int option"
  rd_expire :: "redis_key \<Rightarrow> int \<Rightarrow> 'r \<Rightarrow> 'r option"

section \<open>BudgetTracker\<close>

record tenant_budget_state =
  tb_daily_spend :: real
  tb_request_count :: int
  tb_date :: day

record 'r budget_tracker =
  bt_redis :: "'r option"
  bt_fallback :: "(string, tenant_budget_state) dict"

definition init_budget_tracker :: "'r budget_tracker" where
  "init_budget_tracker = \<lparr>bt_redis = None, bt_fallback = []\<rparr>"

definition new_tenant_state :: "real \<Rightarrow> tenant_budget_state" where
  "new_tenant_state now = \<lparr>tb_daily_spend = 0, tb_request_count = 0, tb_date = utc_day now\<rparr>"

definition is_today :: "real \<Rightarrow> tenant_budget_state \<Rightarrow> bool" where
  "is_today now st \<longleftrightarrow> tb_date st = utc_day now"

text \<open>\<open>connect\<close> keeps the client only when the ping answers; \<open>close\<close> drops it.\<close>

definition bt_connect :: "'r \<Rightarrow> bool \<Rightarrow> 'r budget_tracker \<Rightarrow> 'r budget_tracker" where
  "bt_connect server ping_ok bt = bt\<lparr>bt_redis := (if ping_ok then Some server else None)\<rparr>"

definition bt_close :: "'r budget_tracker \<Rightarrow> 'r budget_tracker" where
  "bt_close bt = bt\<lparr>bt_redis := None\<rparr>"

definition get_or_create_state ::
    "real \<Rightarrow> string \<Rightarrow> (string, tenant_budget_state) dict \<Rightarrow>
     tenant_budget_state \<times> (string, tenant_budget_state) dict" where
  "get_or_create_state now tenant_id fb =
     (case dict_get fb tenant_id of
        Some st \<Rightarrow> if is_today now st then (st, fb)
                  else (new_tenant_state now, dict_set tenant_id (new_tenant_state now) fb)
      | None \<Rightarrow> (new_tenant_state now, dict_set tenant_id (new_tenant_state now) fb))"

definition record_cost_memory ::
    "real \<Rightarrow> string \<Rightarrow> real \<Rightarrow> (string, tenant_budget_state) dict \<Rightarrow>
     real \<times> (string, tenant_budget_state) dict" where
  "record_cost_memory now tenant_id cost_usd fb =
     (let (st, fb') = get_or_create_state now tenant_id fb;
          st' = st\<lparr>tb_daily_spend := tb_daily_spend st + cost_usd\<rparr>
      in (tb_daily_spend st', dict_set tenant_id st' fb'))"

definition get_daily_spend_memory ::
    "real \<Rightarrow> string \<Rightarrow> (string, tenant_budget_state) dict \<Rightarrow> real" where
  "get_daily_spend_memory now tenant_id fb =
     (case dict_get fb tenant_id of
        Some st \<Rightarrow> if is_today now st then tb_daily_spend st else 0
      | None \<Rightarrow> 0)"

definition increment_requests_memory ::
    "real \<Rightarrow> string \<Rightarrow> (string, tenant_budget_state) dict \<Rightarrow>
     int \<times> (string, tenant_budget_state) dict" where
  "increment_requests_memory now tenant_id fb =
     (let (st, fb') = get_or_create_state now tenant_id fb;
          st' = st\<lparr>tb_request_count := tb_request_count st + 1\<rparr>
      in (tb_request_count st', dict_set tenant_id st' fb'))"

definition get_request_count_memory ::
    "real \<Rightarrow> string \<Rightarrow> (string, tenant_budget_state) dict \<Rightarrow> int" where
  "get_request_count_memory now tenant_id fb =
     (case dict_get fb tenant_id of
        Some st \<Rightarrow> if is_today now st then tb_request_count st else 0
      | None \<Rightarrow> 0)"

text \<open>A counter that has no expiry yet is given one at the next midnight.\<close>

definition set_expiry_if_missing ::
    "'r redis_api \<Rightarrow> real \<Rightarrow> redis_key \<Rightarrow> 'r \<Rightarrow> 'r option" where
  "set_expiry_if_missing api now key server =
     (case rd_ttl api key server of
        None \<Rightarrow> None
      | Some ttl \<Rightarrow>
          if ttl < 0 then rd_expire api key (seconds_until_midnight now) server else Some server)"

definition record_cost_redis ::
    "'r redis_api \<Rightarrow> real \<Rightarrow> string \<Rightarrow> real \<Rightarrow> 'r \<Rightarrow> (real \<times> 'r) option" where
  "record_cost_redis api now tenant_id cost_usd server =
     (let key = CostKey tenant_id (utc_day now)
      in case rd_incrbyfloat api key cost_usd server of
           None \<Rightarrow> None
         | Some (new_total, server') \<Rightarrow>
             map_option (\<lambda>s. (new_total, s)) (set_expiry_if_missing api now key server'))"

definition get_daily_spend_redis ::
    "'r redis_api \<Rightarrow> real \<Rightarrow> string \<Rightarrow> 'r \<Rightarrow> real option" where
  "get_daily_spend_redis api now tenant_id server =
     map_option (\<lambda>v. case v of None \<Rightarrow> 0 | Some x \<Rightarrow> x)
       (rd_get api (CostKey tenant_id (utc_day now)) server)"

definition get_request_count_redis ::
    "'r redis_api \<Rightarrow> real \<Rightarrow> string \<Rightarrow> 'r \<Rightarrow> int option" where
  "get_request_count_redis api now tenant_id server =
     map_option (\<lambda>v. case v of None \<Rightarrow> 0 | Some x \<Rightarrow> \<lfloor>x\<rfloor>)
       (rd_get api (RequestsKey tenant_id (utc_day now)) server)"

definition increment_requests_redis ::
    "'r redis_api \<Rightarrow> real \<Rightarrow> string \<Rightarrow> 'r \<Rightarrow> (int \<times> 'r) option" where
  "increment_requests_redis api now tenant_id server =
     (let key = RequestsKey tenant_id (utc_day now)
      in case rd_incr api key server of
           None \<Rightarrow> None
         | Some (new_count, server') \<Rightarrow>
             map_option (\<lambda>s. (new_count, s)) (set_expiry_if_missing api now key server'))"

text \<open>The public operations dispatch on the connection; None is a raised Redis error.\<close>

definition record_cost ::
    "'r redis_api \<Rightarrow> real \<Rightarrow> string \<Rightarrow> real \<Rightarrow> 'r budget_tracker \<Rightarrow>
     (real \<times> 'r budget_tracker) option" where
  "record_cost api now tenant_id cost_usd bt =
     (case bt_redis bt of
        Some server \<Rightarrow>
          map_option (\<lambda>(v, s). (v, bt\<lparr>bt_redis := Some s\<rparr>))
            (record_cost_redis api now tenant_id cost_usd server)
      | None \<Rightarrow>
          (let (v, fb) = record_cost_memory now tenant_id cost_usd (bt_fallback bt)
           in Some (v, bt\<lparr>bt_fallback := fb\<rparr>)))"

definition get_daily_spend ::
    "'r redis_api \<Rightarrow> real \<Rightarrow> string \<Rightarrow> 'r budget_tracker \<Rightarrow> real option" where
  "get_daily_spend api now tenant_id bt =
     (case bt_redis bt of
        Some server \<Rightarrow> get_daily_spend_redis api now tenant_id server
      | None \<Rightarrow> Some (get_daily_spend_memory now tenant_id (bt_fallback bt)))"

definition get_request_count ::
    "'r redis_api \<Rightarrow> real \<Rightarrow> string \<Rightarrow> 'r budget_tracker \<Rightarrow> int option" where
  "get_request_count api now tenant_id bt =
     (case bt_redis bt of
        Some server \<Rightarrow> get_request_count_redis api now tenant_id server
      | None \<Rightarrow> Some (get_request_count_memory now tenant_id (bt_fallback bt)))"

definition increment_requests ::
    "'r redis_api \<Rightarrow> real \<Rightarrow> string \<Rightarrow> 'r budget_tracker \<Rightarrow> (int \<times> 'r budget_tracker) option" where
  "increment_requests api now tenant_id bt =
     (case bt_redis bt of
        Some server \<Rightarrow>
          map_option (\<lambda>(v, s). (v, bt\<lparr>bt_redis := Some s\<rparr>))
            (increment_requests_redis api now tenant_id server)
      | None \<Rightarrow>
          (let (v, fb) = increment_requests_memory now tenant_id (bt_fallback bt)
           in Some (v, bt\<lparr>bt_fallback := fb\<rparr>)))"

definition check_budget ::
    "'r redis_api \<Rightarrow> real \<Rightarrow> string \<Rightarrow> real \<Rightarrow> 'r budget_tracker \<Rightarrow> bool option" where
  "check_budget api now tenant_id daily_limit_usd bt =
     map_option (\<lambda>s. s < daily_limit_usd) (get_daily_spend api now tenant_id bt)"

section \<open>The in-memory ledger\<close>

text \<open>What the dictionary says was spent and counted on a given day.\<close>

definition mem_spent :: "(string, tenant_budget_state) dict \<Rightarrow> string \<Rightarrow> day \<Rightarrow> real" where
  "mem_spent fb t d =
     (case dict_get fb t of Some st \<Rightarrow> if tb_date st = d then tb_daily_spend st else 0 | None \<Rightarrow> 0)"

definition mem_counted :: "(string, tenant_budget_state) dict \<Rightarrow> string \<Rightarrow> day \<Rightarrow> int" where
  "mem_counted fb t d =
     (case dict_get fb t of Some st \<Rightarrow> if tb_date st = d then tb_request_count st else 0 | None \<Rightarrow> 0)"

text \<open>No entry lies after the given day: the clock has not gone back.\<close>

definition mem_upto :: "(string, tenant_budget_state) dict \<Rightarrow> day \<Rightarrow> bool" where
  "mem_upto fb d \<longleftrightarrow> (\<forall>t st. dict_get fb t = Some st \<longrightarrow> tb_date st \<le> d)"

lemma get_daily_spend_memory_eq: "get_daily_spend_memory now t fb = mem_spent fb t (utc_day now)"
  by (simp add: get_daily_spend_memory_def mem_spent_def is_today_def split: option.split)

lemma get_request_count_memory_eq:
  "get_request_count_memory now t fb = mem_counted fb t (utc_day now)"
  by (simp add: get_request_count_memory_def mem_counted_def is_today_def split: option.split)

lemma get_or_create_state_get:
  assumes "get_or_create_state now t fb = (st, fb')"
  shows "dict_get fb' = (dict_get fb)(t \<mapsto> st)"
    and "tb_date st = utc_day now"
    and "tb_daily_spend st = mem_spent fb t (utc_day now)"
    and "tb_request_count st = mem_counted fb t (utc_day now)"
  using assms
  by (auto simp: get_or_create_state_def mem_spent_def mem_counted_def is_today_def
      new_tenant_state_def fun_eq_iff split: option.splits if_splits)

lemma record_cost_memory_get:
  "\<exists>st. dict_get (snd (record_cost_memory now t c fb)) = (dict_get fb)(t \<mapsto> st)
      \<and> tb_date st = utc_day now
      \<and> tb_daily_spend st = mem_spent fb t (utc_day now) + c
      \<and> tb_request_count st = mem_counted fb t (utc_day now)"
  by (cases "get_or_create_state now t fb")
     (auto simp: record_cost_memory_def Let_def get_or_create_state_get update_conv')

lemma increment_requests_memory_get:
  "\<exists>st. dict_get (snd (increment_requests_memory now t fb)) = (dict_get fb)(t \<mapsto> st)
      \<and> tb_date st = utc_day now
      \<and> tb_daily_spend st = mem_spent fb t (utc_day now)
      \<and> tb_request_count st = mem_counted fb t (utc_day now) + 1"
  by (cases "get_or_create_state now t fb")
     (auto simp: increment_requests_memory_def Let_def get_or_create_state_get update_conv')

lemma fst_record_cost_memory:
  "fst (record_cost_memory now t c fb) = mem_spent fb t (utc_day now) + c"
  by (cases "get_or_create_state now t fb")
     (auto simp: record_cost_memory_def Let_def get_or_create_state_get)

lemma fst_increment_requests_memory:
  "fst (increment_requests_memory now t fb) = mem_counted fb t (utc_day now) + 1"
  by (cases "get_or_create_state now t fb")
     (auto simp: increment_requests_memory_def Let_def get_or_create_state_get)

text \<open>
  The two kinds of event the tracker accumulates.
\<close>

datatype budget_event = CostEvent real | RequestEvent

fun apply_budget_event ::
    "real \<Rightarrow> string \<Rightarrow> budget_event \<Rightarrow> (string, tenant_budget_state) dict \<Rightarrow>
     (string, tenant_budget_state) dict" where
  "apply_budget_event now t (CostEvent c) fb = snd (record_cost_memory now t c fb)"
| "apply_budget_event now t RequestEvent fb = snd (increment_requests_memory now t fb)"

fun event_cost :: "budget_event \<Rightarrow> real" where
  "event_cost (CostEvent c) = c"
| "event_cost RequestEvent = 0"

fun event_count :: "budget_event \<Rightarrow> int" where
  "event_count (CostEvent c) = 0"
| "event_count RequestEvent = 1"

lemma apply_budget_event_get:
  "\<exists>st. dict_get (apply_budget_event now t e fb) = (dict_get fb)(t \<mapsto> st)
      \<and> tb_date st = utc_day now
      \<and> tb_daily_spend st = mem_spent fb t (utc_day now) + event_cost e
      \<and> tb_request_count st = mem_counted fb t (utc_day now) + event_count e"
  using record_cost_memory_get [of now t _ fb] increment_requests_memory_get [of now t fb]
  by (cases e) auto

text \<open>
  The interface the gateway relies on: per-tenant, per-day accumulation on a clock that does
  not go back (\<open>upto s d\<close>: nothing was entered after day d).
\<close>

locale ledger =
  fixes empty :: 's
    and enter :: "real \<Rightarrow> string \<Rightarrow> 'e \<Rightarrow> 's \<Rightarrow> 's"
    and weight :: "'e \<Rightarrow> 'v :: comm_monoid_add"
    and total :: "'s \<Rightarrow> string \<Rightarrow> day \<Rightarrow> 'v"
    and upto :: "'s \<Rightarrow> day \<Rightarrow> bool"
  assumes total_empty: "total empty t d = 0"
    and upto_empty: "upto empty d"
    and upto_mono: "upto s d \<Longrightarrow> d \<le> d' \<Longrightarrow> upto s d'"
    and upto_enter: "upto s (utc_day now) \<Longrightarrow> upto (enter now t e s) (utc_day now)"
    and total_enter: "upto s (utc_day now) \<Longrightarrow> utc_day now \<le> d \<Longrightarrow>
      total (enter now t e s) t' d =
        total s t' d + (if t' = t \<and> d = utc_day now then weight e else 0)"
begin

lemma replay_total:
  "sorted (map (\<lambda>(now, t, e). utc_day now) es) \<Longrightarrow>
   (\<And>now t' e. (now, t', e) \<in> set es \<Longrightarrow> upto s (utc_day now) \<and> utc_day now \<le> D) \<Longrightarrow>
   total (fold (\<lambda>(now, t, e). enter now t e) es s) t D =
     total s t D + sum_list (map (\<lambda>(now, t', e). if t' = t \<and> utc_day now = D then weight e else 0) es)"
proof (induction es arbitrary: s)
  case (Cons x es)
  obtain now t' e where x: "x = (now, t', e)" by (cases x)
  let ?s = "enter now t' e s"
  from Cons.prems(2) x have s: "upto s (utc_day now)" "utc_day now \<le> D" by auto
  have "upto ?s (utc_day now') \<and> utc_day now' \<le> D" if "(now', u, e') \<in> set es" for now' u e'
    using Cons.prems x s that by (fastforce intro: upto_mono [OF upto_enter])
  with Cons.IH [of ?s] Cons.prems(1) x
  have "total (fold (\<lambda>(now, t, e). enter now t e) es ?s) t D =
      total ?s t D + sum_list (map (\<lambda>(now, t', e). if t' = t \<and> utc_day now = D then weight e else 0) es)"
    by auto
  with x s show ?case by (auto simp: total_enter add.assoc)
qed simp

lemma replay_empty:
  "sorted (map (\<lambda>(now, t, e). utc_day now) es) \<Longrightarrow>
   (\<And>now t' e. (now, t', e) \<in> set es \<Longrightarrow> utc_day now \<le> D) \<Longrightarrow>
   total (fold (\<lambda>(now, t, e). enter now t e) es empty) t D =
     sum_list (map (\<lambda>(now, t', e). if t' = t \<and> utc_day now = D then weight e else 0) es)"
  using replay_total [of es empty D t] by (auto simp: total_empty upto_empty)

end

lemma mem_upto_apply:
  "mem_upto fb (utc_day now) \<Longrightarrow> mem_upto (apply_budget_event now t e fb) (utc_day now)"
  using apply_budget_event_get [of now t e fb] by (auto simp: mem_upto_def split: if_splits)

interpretation cost_ledger: ledger "[]" apply_budget_event event_cost mem_spent mem_upto
proof
  fix s :: "(string, tenant_budget_state) dict" and t t' e now and d d' :: day
  show "mem_spent [] t d = 0" "mem_upto [] d"
    by (simp_all add: mem_spent_def mem_upto_def)
  show "mem_upto s d \<Longrightarrow> d \<le> d' \<Longrightarrow> mem_upto s d'"
    by (fastforce simp: mem_upto_def)
  show "mem_upto s (utc_day now) \<Longrightarrow> mem_upto (apply_budget_event now t e s) (utc_day now)"
    by (rule mem_upto_apply)
  show "mem_spent (apply_budget_event now t e s) t' d =
      mem_spent s t' d + (if t' = t \<and> d = utc_day now then event_cost e else 0)"
    if "mem_upto s (utc_day now)" "utc_day now \<le> d"
    using that apply_budget_event_get [of now t e s]
    by (fastforce simp: mem_spent_def mem_upto_def split: option.splits)
qed

interpretation request_ledger: ledger "[]" apply_budget_event event_count mem_counted mem_upto
proof
  fix s :: "(string, tenant_budget_state) dict" and t t' e now and d d' :: day
  show "mem_counted [] t d = 0" "mem_upto [] d"
    by (simp_all add: mem_counted_def mem_upto_def)
  show "mem_upto s d \<Longrightarrow> d \<le> d' \<Longrightarrow> mem_upto s d'"
    by (fastforce simp: mem_upto_def)
  show "mem_upto s (utc_day now) \<Longrightarrow> mem_upto (apply_budget_event now t e s) (utc_day now)"
    by (rule mem_upto_apply)
  show "mem_counted (apply_budget_event now t e s) t' d =
      mem_counted s t' d + (if t' = t \<and> d = utc_day now then event_count e else 0)"
    if "mem_upto s (utc_day now)" "utc_day now \<le> d"
    using that apply_budget_event_get [of now t e s]
    by (fastforce simp: mem_counted_def mem_upto_def split: option.splits)
qed

section \<open>Properties of the tracker\<close>

text \<open>
  (the in-memory ledger is exact): replay any sequence of costs and request counts of
  any tenants whose days do not decrease. On the day of the last event or later, the reported
  daily spend of a tenant is the sum of exactly that tenant's costs of that day and the
  reported request count is the number of its requests of that day: earlier days and other
  tenants do not leak in.
\<close>

theorem memory_ledger_exact:
  fixes es :: "(real \<times> string \<times> budget_event) list"
  assumes "sorted (map (\<lambda>(n, u, e). utc_day n) es)"
    and "\<And>n u e. (n, u, e) \<in> set es \<Longrightarrow> utc_day n \<le> utc_day now"
  defines "fb \<equiv> fold (\<lambda>(n, u, e). apply_budget_event n u e) es []"
  shows "get_daily_spend_memory now t fb =
      sum_list (map (\<lambda>(n, u, e). if u = t \<and> utc_day n = utc_day now then event_cost e else 0) es)
    \<and> get_request_count_memory now t fb =
      sum_list (map (\<lambda>(n, u, e). if u = t \<and> utc_day n = utc_day now then event_count e else 0) es)"
  using cost_ledger.replay_empty [of es "utc_day now" t, OF assms(1,2)]
    request_ledger.replay_empty [of es "utc_day now" t, OF assms(1,2)]
  by (simp add: fb_def get_daily_spend_memory_eq get_request_count_memory_eq)

text \<open>
  (expiry): the expiry given to a fresh Redis counter is at least 60 and at most
  86400 seconds and never falls before the next UTC midnight, so a counter is not dropped
  during the day it counts.
\<close>

theorem expiry_covers_the_day:
  "60 \<le> seconds_until_midnight now \<and> seconds_until_midnight now \<le> 86400
   \<and> (utc_day now + 1) * 86400 \<le> \<lfloor>now\<rfloor> + seconds_until_midnight now"
  using seconds_until_midnight_bounds seconds_until_midnight_reaches by blast

theorem memory_ledger_exact_witness:
  "sorted (map (\<lambda>(n, u, e). utc_day n)
      [(10, ''acme'', CostEvent 5), (20, ''globex'', CostEvent 7), (90000, ''acme'', CostEvent 2)])
   \<and> get_daily_spend_memory 90001 ''acme''
      (fold (\<lambda>(n, u, e). apply_budget_event n u e)
        [(10, ''acme'', CostEvent 5), (20, ''globex'', CostEvent 7), (90000, ''acme'', CostEvent 2)] [])
     = 2"
proof -
  let ?es = "[(10 :: real, ''acme'', CostEvent 5), (20, ''globex'', CostEvent 7), (90000, ''acme'', CostEvent 2)]"
  have 1: "sorted (map (\<lambda>(n, u, e). utc_day n) ?es)" by (simp add: utc_day_def)
  have 2: "\<And>n u e. (n, u, e) \<in> set ?es \<Longrightarrow> utc_day n \<le> utc_day 90001"
    by (auto simp: utc_day_def)
  from memory_ledger_exact [OF 1 2, where t = "''acme''"] 1 show ?thesis
    by (simp add: utc_day_def)
qed

end
