(* ===== verification/Gw_Queue.thy ===== *)
theory Gw_Queue
  imports Gw_Models
begin

text \<open>
  The queue of budget-exhausted requests (\<^verbatim>\<open>llm-gateway/src/budget/queue.py\<close>): one FIFO list
  per tenant, in Redis when connected and in a dictionary of deques otherwise.

  The Redis list commands are parameters (\<open>redis_list_api\<close>, None for a raised error), and so is
  the codec between a queued request and the text stored in Redis: \<^verbatim>\<open>to_dict\<close> and
  \<^verbatim>\<open>from_dict\<close> go through the pydantic dump of the request.
\<close>

record queued_request =
  q_request_id :: string
  q_tenant_id :: string
  q_request :: completion_request
  q_queued_at :: real

record ('r, 'p) redis_list_api =
  rl_rpush :: "string \<Rightarrow> 'p \<Rightarrow> 'r \<Rightarrow> 'r option"
  rl_lpop :: "string \<Rightarrow> 'r \<Rightarrow> ('p option \<times> 'r) option"
  rl_lrange :: "string \<Rightarrow> int \<Rightarrow> int \<Rightarrow> 'r \<Rightarrow> 'p list option"
  rl_llen :: "string \<Rightarrow> 'r \<Rightarrow> int option"

record 'p codec =
  enc :: "queued_request \<Rightarrow> 'p"
  dec :: "'p \<Rightarrow> queued_request option"

record 'r request_queue =
  rq_redis :: "'r option"
  rq_memory :: "(string, queued_request list) dict"

definition init_request_queue :: "'r request_queue" where
  "init_request_queue = \<lparr>rq_redis = None, rq_memory = []\<rparr>"

definition rq_connect :: "'r \<Rightarrow> bool \<Rightarrow> 'r request_queue \<Rightarrow> 'r request_queue" where
  "rq_connect server ping_ok q = q\<lparr>rq_redis := (if ping_ok then Some server else None)\<rparr>"

definition rq_close :: "'r request_queue \<Rightarrow> 'r request_queue" where
  "rq_close q = q\<lparr>rq_redis := None\<rparr>"

definition queue_key :: "string \<Rightarrow> string" where
  "queue_key tenant_id = ''queue:requests:'' @ tenant_id"

section \<open>In-memory implementation\<close>

definition enqueue_memory ::
    "queued_request \<Rightarrow> (string, queued_request list) dict \<Rightarrow> (string, queued_request list) dict" where
  "enqueue_memory queued d =
     (let d' = (if dict_has d (q_tenant_id queued) then d else dict_set (q_tenant_id queued) [] d)
      in dict_set (q_tenant_id queued) (dict_get_default d' (q_tenant_id queued) [] @ [queued]) d')"

definition dequeue_memory ::
    "string \<Rightarrow> (string, queued_request list) dict \<Rightarrow>
     queued_request option \<times> (string, queued_request list) dict" where
  "dequeue_memory tenant_id d =
     (case dict_get d tenant_id of
        Some (x # xs) \<Rightarrow> (Some x, dict_set tenant_id xs d)
      | _ \<Rightarrow> (None, d))"

text \<open>\<^verbatim>\<open>list(queue)[:limit]\<close>, where a negative limit drops from the end.\<close>

definition slice_to :: "int \<Rightarrow> 'a list \<Rightarrow> 'a list" where
  "slice_to limit xs =
     (if 0 \<le> limit then take (nat limit) xs else take (length xs - nat (- limit)) xs)"

definition peek_memory ::
    "string \<Rightarrow> int \<Rightarrow> (string, queued_request list) dict \<Rightarrow> queued_request list" where
  "peek_memory tenant_id limit d =
     (case dict_get d tenant_id of Some (x # xs) \<Rightarrow> slice_to limit (x # xs) | _ \<Rightarrow> [])"

definition queue_length_memory :: "string \<Rightarrow> (string, queued_request list) dict \<Rightarrow> int" where
  "queue_length_memory tenant_id d =
     (case dict_get d tenant_id of Some (x # xs) \<Rightarrow> int (length (x # xs)) | _ \<Rightarrow> 0)"

section \<open>Redis implementation\<close>

definition enqueue_redis ::
    "('r, 'p) redis_list_api \<Rightarrow> 'p codec \<Rightarrow> queued_request \<Rightarrow> 'r \<Rightarrow> 'r option" where
  "enqueue_redis api cd queued server =
     rl_rpush api (queue_key (q_tenant_id queued)) (enc cd queued) server"

definition dequeue_redis ::
    "('r, 'p) redis_list_api \<Rightarrow> 'p codec \<Rightarrow> string \<Rightarrow> 'r \<Rightarrow> (queued_request option \<times> 'r) option" where
  "dequeue_redis api cd tenant_id server =
     (case rl_lpop api (queue_key tenant_id) server of
        None \<Rightarrow> None
      | Some (None, s) \<Rightarrow> Some (None, s)
      | Some (Some p, s) \<Rightarrow> (case dec cd p of None \<Rightarrow> None | Some q \<Rightarrow> Some (Some q, s)))"

definition peek_redis ::
    "('r, 'p) redis_list_api \<Rightarrow> 'p codec \<Rightarrow> string \<Rightarrow> int \<Rightarrow> 'r \<Rightarrow> queued_request list option" where
  "peek_redis api cd tenant_id limit server =
     (case rl_lrange api (queue_key tenant_id) 0 (limit - 1) server of
        None \<Rightarrow> None
      | Some items \<Rightarrow> those (map (dec cd) items))"

definition queue_length_redis :: "('r, 'p) redis_list_api \<Rightarrow> string \<Rightarrow> 'r \<Rightarrow> int option" where
  "queue_length_redis api tenant_id server = rl_llen api (queue_key tenant_id) server"

section \<open>RequestQueue\<close>

definition mk_queued :: "string \<Rightarrow> real \<Rightarrow> completion_request \<Rightarrow> queued_request" where
  "mk_queued uuid now req =
     \<lparr>q_request_id = uuid, q_tenant_id = req_tenant_id req, q_request = req, q_queued_at = now\<rparr>"

definition enqueue ::
    "('r, 'p) redis_list_api \<Rightarrow> 'p codec \<Rightarrow> string \<Rightarrow> real \<Rightarrow> completion_request \<Rightarrow>
     'r request_queue \<Rightarrow> (string \<times> 'r request_queue) option" where
  "enqueue api cd uuid now req q =
     (let queued = mk_queued uuid now req
      in case rq_redis q of
           Some server \<Rightarrow>
             map_option (\<lambda>s. (uuid, q\<lparr>rq_redis := Some s\<rparr>)) (enqueue_redis api cd queued server)
         | None \<Rightarrow> Some (uuid, q\<lparr>rq_memory := enqueue_memory queued (rq_memory q)\<rparr>))"

definition dequeue ::
    "('r, 'p) redis_list_api \<Rightarrow> 'p codec \<Rightarrow> string \<Rightarrow> 'r request_queue \<Rightarrow>
     (queued_request option \<times> 'r request_queue) option" where
  "dequeue api cd tenant_id q =
     (case rq_redis q of
        Some server \<Rightarrow>
          map_option (\<lambda>(x, s). (x, q\<lparr>rq_redis := Some s\<rparr>)) (dequeue_redis api cd tenant_id server)
      | None \<Rightarrow>
          (let (x, d) = dequeue_memory tenant_id (rq_memory q)
           in Some (x, q\<lparr>rq_memory := d\<rparr>)))"

definition peek ::
    "('r, 'p) redis_list_api \<Rightarrow> 'p codec \<Rightarrow> string \<Rightarrow> int \<Rightarrow> 'r request_queue \<Rightarrow>
     queued_request list option" where
  "peek api cd tenant_id limit q =
     (case rq_redis q of
        Some server \<Rightarrow> peek_redis api cd tenant_id limit server
      | None \<Rightarrow> Some (peek_memory tenant_id limit (rq_memory q)))"

definition queue_length ::
    "('r, 'p) redis_list_api \<Rightarrow> string \<Rightarrow> 'r request_queue \<Rightarrow> int option" where
  "queue_length api tenant_id q =
     (case rq_redis q of
        Some server \<Rightarrow> queue_length_redis api tenant_id server
      | None \<Rightarrow> Some (queue_length_memory tenant_id (rq_memory q)))"

section \<open>The FIFO interface\<close>

text \<open>
  What a tenant queue promises, in terms of the list \<open>items s t\<close> of requests waiting for
  tenant t: enqueueing appends to the tenant's list and to no other, dequeueing removes its head.
\<close>

locale tenant_fifo =
  fixes enq :: "'q \<Rightarrow> 's \<Rightarrow> 's"
    and deq :: "string \<Rightarrow> 's \<Rightarrow> 'q option \<times> 's"
    and tenant :: "'q \<Rightarrow> string"
    and items :: "'s \<Rightarrow> string \<Rightarrow> 'q list"
  assumes items_enq: "items (enq x s) t = items s t @ (if t = tenant x then [x] else [])"
    and deq_empty: "items s t = [] \<Longrightarrow> deq t s = (None, s)"
    and deq_head: "items s t = x # xs \<Longrightarrow> fst (deq t s) = Some x"
    and items_deq: "items (snd (deq t s)) u = (if u = t then tl (items s t) else items s u)"
begin

text \<open>Enqueueing any interleaving of tenants keeps each tenant's arrival order.\<close>

lemma items_fold_enq: "items (fold enq xs s) t = items s t @ filter (\<lambda>x. tenant x = t) xs"
  by (induction xs arbitrary: s) (auto simp: items_enq)

text \<open>Draining n requests of a tenant returns the first n that wait, in order.\<close>

fun drain :: "nat \<Rightarrow> string \<Rightarrow> 's \<Rightarrow> 'q list \<times> 's" where
  "drain 0 t s = ([], s)"
| "drain (Suc n) t s =
     (case deq t s of
        (None, s') \<Rightarrow> ([], s')
      | (Some x, s') \<Rightarrow> (let (xs, s'') = drain n t s' in (x # xs, s'')))"

lemma drain_items:
  "fst (drain n t s) = take n (items s t)
   \<and> items (snd (drain n t s)) u = (if u = t then drop n (items s t) else items s u)"
proof (induction n arbitrary: s)
  case (Suc n)
  show ?case
  proof (cases "items s t")
    case Nil
    then show ?thesis by (simp add: deq_empty)
  next
    case (Cons x xs)
    obtain s' where s': "deq t s = (Some x, s')"
      using deq_head [OF Cons] by (cases "deq t s") auto
    have "items s' u = (if u = t then xs else items s u)" for u
      using items_deq [of t s u] s' Cons by simp
    with s' Cons Suc.IH [of s'] show ?thesis
      by (auto simp: split_beta Let_def)
  qed
qed simp

end

definition mem_items :: "(string, queued_request list) dict \<Rightarrow> string \<Rightarrow> queued_request list" where
  "mem_items d t = dict_get_default d t []"

lemma mem_items_enqueue:
  "mem_items (enqueue_memory x d) t = mem_items d t @ (if t = q_tenant_id x then [x] else [])"
  by (auto simp: mem_items_def enqueue_memory_def Let_def dict_has_def dict_get_default_def
      split: option.splits)

interpretation mem_fifo: tenant_fifo enqueue_memory dequeue_memory q_tenant_id mem_items
proof
  fix x xs s t u
  show "mem_items (enqueue_memory x s) t = mem_items s t @ (if t = q_tenant_id x then [x] else [])"
    by (rule mem_items_enqueue)
  show "mem_items s t = [] \<Longrightarrow> dequeue_memory t s = (None, s)"
    by (auto simp: mem_items_def dict_get_default_def dequeue_memory_def split: option.splits)
  show "mem_items s t = x # xs \<Longrightarrow> fst (dequeue_memory t s) = Some x"
    by (auto simp: mem_items_def dict_get_default_def dequeue_memory_def split: option.splits)
  show "mem_items (snd (dequeue_memory t s)) u = (if u = t then tl (mem_items s t) else mem_items s u)"
    by (auto simp: mem_items_def dict_get_default_def dequeue_memory_def
        split: option.splits list.splits)
qed

lemma queue_length_memory_items: "queue_length_memory t d = int (length (mem_items d t))"
  by (auto simp: queue_length_memory_def mem_items_def dict_get_default_def
      split: option.splits list.splits)

lemma peek_memory_items: "0 \<le> n \<Longrightarrow> peek_memory t n d = take (nat n) (mem_items d t)"
  by (auto simp: peek_memory_def slice_to_def mem_items_def dict_get_default_def
      split: option.splits list.splits)

section \<open>Properties of the request queue\<close>

text \<open>A client that takes up to n requests of a tenant, one \<open>dequeue\<close> at a time.\<close>

fun dequeue_n ::
    "('r, 'p) redis_list_api \<Rightarrow> 'p codec \<Rightarrow> nat \<Rightarrow> string \<Rightarrow> 'r request_queue \<Rightarrow>
     (queued_request list \<times> 'r request_queue) option" where
  "dequeue_n api cd 0 t q = Some ([], q)"
| "dequeue_n api cd (Suc n) t q =
     (case dequeue api cd t q of
        None \<Rightarrow> None
      | Some (None, q') \<Rightarrow> Some ([], q')
      | Some (Some x, q') \<Rightarrow>
          map_option (\<lambda>(xs, q''). (x # xs, q'')) (dequeue_n api cd n t q'))"

fun enqueue_all ::
    "('r, 'p) redis_list_api \<Rightarrow> 'p codec \<Rightarrow> (string \<times> real \<times> completion_request) list \<Rightarrow>
     'r request_queue \<Rightarrow> 'r request_queue option" where
  "enqueue_all api cd [] q = Some q"
| "enqueue_all api cd ((u, now, r) # es) q =
     (case enqueue api cd u now r q of None \<Rightarrow> None | Some (_, q') \<Rightarrow> enqueue_all api cd es q')"

lemma dequeue_n_memory:
  "rq_redis q = None \<Longrightarrow> dequeue_n api cd n t q =
     (let (xs, d) = mem_fifo.drain n t (rq_memory q) in Some (xs, q\<lparr>rq_memory := d\<rparr>))"
  by (induction n arbitrary: q)
     (auto simp: dequeue_def Let_def split_beta split: option.splits prod.splits)

lemma enqueue_all_memory:
  "rq_redis q = None \<Longrightarrow> enqueue_all api cd es q =
     Some (q\<lparr>rq_memory := fold enqueue_memory (map (\<lambda>(u, now, r). mk_queued u now r) es) (rq_memory q)\<rparr>)"
  by (induction es arbitrary: q) (auto simp: enqueue_def Let_def)

text \<open>
  (first in, first out): on an in-memory queue, after any interleaving of
  requests of several tenants was enqueued, taking n requests of one tenant returns that
  tenant's first n waiting requests in arrival order (those already waiting first), leaves the
  rest in order, and does not touch any other tenant's queue.
\<close>

theorem queue_first_in_first_out:
  assumes "rq_redis q = None"
  shows "\<exists>q'. Option.bind (enqueue_all api cd es q) (dequeue_n api cd n t) =
      Some (take n (mem_items (rq_memory q) t @
              filter (\<lambda>x. q_tenant_id x = t) (map (\<lambda>(u, now, r). mk_queued u now r) es)), q')
    \<and> (\<forall>u. mem_items (rq_memory q') u =
          (if u = t then drop n else id) (mem_items (rq_memory q) u @
              filter (\<lambda>x. q_tenant_id x = u) (map (\<lambda>(u, now, r). mk_queued u now r) es)))"
  using assms
  by (auto simp: enqueue_all_memory dequeue_n_memory split_beta Let_def
      mem_fifo.drain_items mem_fifo.items_fold_enq)

text \<open>
  The documented behaviour of the Redis list commands, over a view of the server as lists,
  and of the codec: what was encoded decodes to the same request.
\<close>

definition redis_lists :: "('r, 'p) redis_list_api \<Rightarrow> ('r \<Rightarrow> string \<Rightarrow> 'p list) \<Rightarrow> bool" where
  "redis_lists api view \<longleftrightarrow>
     (\<forall>k p s. \<exists>s'. rl_rpush api k p s = Some s' \<and> view s' = (view s)(k := view s k @ [p]))
   \<and> (\<forall>k s. case view s k of
               [] \<Rightarrow> \<exists>s'. rl_lpop api k s = Some (None, s') \<and> view s' = view s
             | p # ps \<Rightarrow> \<exists>s'. rl_lpop api k s = Some (Some p, s') \<and> view s' = (view s)(k := ps))
   \<and> (\<forall>k n s. 0 \<le> n \<longrightarrow> rl_lrange api k 0 n s = Some (take (nat n + 1) (view s k)))
   \<and> (\<forall>k s. rl_llen api k s = Some (int (length (view s k))))"

definition redis_queue_rel ::
    "('r \<Rightarrow> string \<Rightarrow> 'p list) \<Rightarrow> 'p codec \<Rightarrow> 'r \<Rightarrow> (string, queued_request list) dict \<Rightarrow> bool" where
  "redis_queue_rel view cd server d \<longleftrightarrow>
     (\<forall>t. view server (queue_key t) = map (enc cd) (mem_items d t))"

lemma redis_listsD:
  assumes "redis_lists api view"
  shows "\<exists>s'. rl_rpush api k p s = Some s' \<and> view s' = (view s)(k := view s k @ [p])"
    and "view s k = [] \<Longrightarrow> \<exists>s'. rl_lpop api k s = Some (None, s') \<and> view s' = view s"
    and "view s k = q # qs \<Longrightarrow> \<exists>s'. rl_lpop api k s = Some (Some q, s') \<and> view s' = (view s)(k := qs)"
    and "0 \<le> n \<Longrightarrow> rl_lrange api k 0 n s = Some (take (nat n + 1) (view s k))"
    and "rl_llen api k s = Some (int (length (view s k)))"
proof -
  have lpop: "case view s k of
               [] \<Rightarrow> \<exists>s'. rl_lpop api k s = Some (None, s') \<and> view s' = view s
             | p # ps \<Rightarrow> \<exists>s'. rl_lpop api k s = Some (Some p, s') \<and> view s' = (view s)(k := ps)"
    using assms unfolding redis_lists_def by blast
  show "view s k = [] \<Longrightarrow> \<exists>s'. rl_lpop api k s = Some (None, s') \<and> view s' = view s"
    using lpop by simp
  show "view s k = q # qs \<Longrightarrow> \<exists>s'. rl_lpop api k s = Some (Some q, s') \<and> view s' = (view s)(k := qs)"
    using lpop by simp
qed (use assms in \<open>simp_all add: redis_lists_def\<close>)

lemma queue_key_inj [simp]: "queue_key t = queue_key u \<longleftrightarrow> t = u"
  by (simp add: queue_key_def)

lemma redis_enqueue_sim:
  assumes "redis_lists api view" and "redis_queue_rel view cd server d"
  shows "\<exists>s'. enqueue_redis api cd x server = Some s' \<and> redis_queue_rel view cd s' (enqueue_memory x d)"
  using redis_listsD(1) [OF assms(1), of "queue_key (q_tenant_id x)" "enc cd x" server] assms(2)
  by (auto simp: redis_queue_rel_def enqueue_redis_def mem_items_enqueue)

lemma redis_dequeue_sim:
  assumes redis: "redis_lists api view" and codec: "\<And>x. dec cd (enc cd x) = Some x"
    and rel: "redis_queue_rel view cd server d"
  shows "\<exists>s'. dequeue_redis api cd t server = Some (fst (dequeue_memory t d), s')
      \<and> redis_queue_rel view cd s' (snd (dequeue_memory t d))"
proof (cases "mem_items d t")
  case Nil
  then obtain s' where "rl_lpop api (queue_key t) server = Some (None, s')" "view s' = view server"
    using redis_listsD(2) [OF redis, of server "queue_key t"] rel by (auto simp: redis_queue_rel_def)
  with Nil rel show ?thesis
    by (simp add: dequeue_redis_def mem_fifo.deq_empty redis_queue_rel_def)
next
  case (Cons x xs)
  then obtain s' where "rl_lpop api (queue_key t) server = Some (Some (enc cd x), s')"
      "view s' = (view server)(queue_key t := map (enc cd) xs)"
    using redis_listsD(3) [OF redis, of server "queue_key t"] rel by (auto simp: redis_queue_rel_def)
  with Cons rel show ?thesis
    by (auto simp: dequeue_redis_def mem_fifo.deq_head [OF Cons] mem_fifo.items_deq
        redis_queue_rel_def codec)
qed

lemma redis_peek_sim:
  assumes redis: "redis_lists api view" and codec: "\<And>x. dec cd (enc cd x) = Some x"
    and rel: "redis_queue_rel view cd server d" and "0 < n"
  shows "peek_redis api cd t n server = Some (peek_memory t n d)"
proof -
  have "those (map (dec cd) (map (enc cd) xs)) = Some xs" for xs
    by (induction xs) (auto simp: codec)
  moreover have "rl_lrange api (queue_key t) 0 (n - 1) server
      = Some (map (enc cd) (take (nat n) (mem_items d t)))"
    using redis_listsD(4) [OF redis, of "n - 1" "queue_key t" server] rel \<open>0 < n\<close>
    by (simp add: redis_queue_rel_def take_map nat_diff_distrib Suc_pred)
  ultimately show ?thesis
    using \<open>0 < n\<close> by (simp add: peek_redis_def peek_memory_items del: map_map)
qed

text \<open>
  C22 (the Redis queue refines the in-memory one): with the documented list commands and
  a codec that decodes what it encoded, a server related to an in-memory dictionary stays
  related when the same request is enqueued on both and when the same tenant is dequeued on
  both, the dequeued request is the same, and lengths and (positive) peeks agree.
\<close>

theorem redis_queue_refines_memory:
  assumes "redis_lists api view" and "\<And>x. dec cd (enc cd x) = Some x"
    and "redis_queue_rel view cd server d" and "0 < n"
  shows "(\<exists>s'. enqueue_redis api cd x server = Some s'
            \<and> redis_queue_rel view cd s' (enqueue_memory x d))
    \<and> (\<exists>s'. dequeue_redis api cd t server = Some (fst (dequeue_memory t d), s')
            \<and> redis_queue_rel view cd s' (snd (dequeue_memory t d)))
    \<and> queue_length_redis api t server = Some (queue_length_memory t d)
    \<and> peek_redis api cd t n server = Some (peek_memory t n d)"
  using redis_enqueue_sim [OF assms(1,3)] redis_dequeue_sim [OF assms(1,2,3)]
    redis_peek_sim [OF assms] redis_listsD(5) [OF assms(1)] assms(3)
  by (simp add: queue_length_redis_def queue_length_memory_items redis_queue_rel_def)

section \<open>Witnesses\<close>

text \<open>A Redis server as a map from keys to lists, and the identity codec.\<close>

definition list_server :: "(string \<Rightarrow> queued_request list, queued_request) redis_list_api" where
  "list_server =
     \<lparr>rl_rpush = (\<lambda>k p s. Some (s(k := s k @ [p]))),
      rl_lpop = (\<lambda>k s. case s k of [] \<Rightarrow> Some (None, s) | p # ps \<Rightarrow> Some (Some p, s(k := ps))),
      rl_lrange = (\<lambda>k a b s. Some (take (nat b + 1) (s k))),
      rl_llen = (\<lambda>k s. Some (int (length (s k))))\<rparr>"

definition id_codec :: "queued_request codec" where
  "id_codec = \<lparr>enc = (\<lambda>x. x), dec = Some\<rparr>"

definition sample_request :: "string \<Rightarrow> string \<Rightarrow> completion_request" where
  "sample_request tenant task =
     \<lparr>req_messages = [], req_task = task, req_agent = ''agent-eval'', req_tenant_id = tenant,
      req_trace_id = [], req_confidence_threshold = 0, req_max_tokens = 4096,
      req_temperature = 0, req_response_format = None, req_tools = None, req_stop = None\<rparr>"

lemma list_server_lists: "redis_lists list_server (\<lambda>s. s)"
  by (auto simp: redis_lists_def list_server_def split: list.splits)

definition sample_arrivals :: "(string \<times> real \<times> completion_request) list" where
  "sample_arrivals =
     [(''q1'', 1, sample_request ''acme'' ''a''), (''q2'', 2, sample_request ''globex'' ''b''),
      (''q3'', 3, sample_request ''acme'' ''c'')]"

theorem queue_first_in_first_out_witness:
  "rq_redis (init_request_queue :: (string \<Rightarrow> queued_request list) request_queue) = None
   \<and> (\<exists>q'. Option.bind (enqueue_all list_server id_codec sample_arrivals init_request_queue)
             (dequeue_n list_server id_codec 2 ''acme'') =
      Some ([mk_queued ''q1'' 1 (sample_request ''acme'' ''a''),
             mk_queued ''q3'' 3 (sample_request ''acme'' ''c'')], q'))"
proof -
  let ?q = "init_request_queue :: (string \<Rightarrow> queued_request list) request_queue"
  have none: "rq_redis ?q = None" by (simp add: init_request_queue_def)
  have eq: "take 2 (mem_items (rq_memory ?q) ''acme'' @
        filter (\<lambda>x. q_tenant_id x = ''acme'') (map (\<lambda>(u, now, r). mk_queued u now r) sample_arrivals))
      = [mk_queued ''q1'' 1 (sample_request ''acme'' ''a''),
         mk_queued ''q3'' 3 (sample_request ''acme'' ''c'')]"
    by (simp add: init_request_queue_def mem_items_def sample_arrivals_def mk_queued_def
        sample_request_def)
  from queue_first_in_first_out [OF none, of list_server id_codec sample_arrivals 2 "''acme''",
      unfolded eq] none
  show ?thesis by blast
qed

theorem redis_queue_refines_memory_witness:
  "redis_lists list_server (\<lambda>s. s) \<and> redis_queue_rel (\<lambda>s. s) id_codec (\<lambda>k. []) []
   \<and> peek_redis list_server id_codec ''acme'' 3 (\<lambda>k. []) = Some (peek_memory ''acme'' 3 [])"
proof -
  have rel: "redis_queue_rel (\<lambda>s. s) id_codec (\<lambda>k. []) []"
    by (simp add: redis_queue_rel_def mem_items_def dict_get_default_def)
  have "peek_redis list_server id_codec ''acme'' 3 (\<lambda>k. []) = Some (peek_memory ''acme'' 3 [])"
    using redis_queue_refines_memory [OF list_server_lists _ rel, of 3] by (simp add: id_codec_def)
  with rel list_server_lists show ?thesis by simp
qed

end
