(* ===== verification/Gw_Canary.thy ===== *)
theory Gw_Canary
  imports Gw_Models
begin

text \<open>
  Canary traffic splitting (\<^verbatim>\<open>llm-gateway/src/routing/canary.py\<close>). The random roll and the
  clock are arguments. \<open>del\<close> of a missing key raises KeyError and a \<^verbatim>\<open>CanaryConfig\<close> outside
  its declared ranges raises a validation error; both are values of \<open>canary_error\<close>.
\<close>

datatype canary_error = KeyError | ValidationError

record sample =
  sm_confidence :: real
  sm_latency_ms :: int
  sm_error :: bool
  sm_escalated :: bool
  sm_cost_usd :: real
  sm_timestamp :: real

record canary_experiment =
  ce_task_key :: string
  ce_config :: canary_config
  ce_started_at :: real
  ce_control_samples :: "sample list"
  ce_canary_samples :: "sample list"

record canary_metrics =
  cm_sample_count :: int
  cm_avg_confidence :: real
  cm_avg_latency_ms :: real
  cm_p95_latency_ms :: real
  cm_error_rate :: real
  cm_escalation_rate :: real
  cm_avg_cost_usd :: real

record canary_status =
  cs_task :: string
  cs_active :: bool
  cs_model :: string
  cs_traffic_pct :: int
  cs_started_at :: real
  cs_control :: canary_metrics
  cs_canary :: canary_metrics

type_synonym experiments = "(string, canary_experiment) dict"

section \<open>One experiment\<close>

definition new_experiment :: "real \<Rightarrow> string \<Rightarrow> canary_config \<Rightarrow> canary_experiment" where
  "new_experiment now task_key cfg =
     \<lparr>ce_task_key = task_key, ce_config = cfg, ce_started_at = now,
      ce_control_samples = [], ce_canary_samples = []\<rparr>"

definition ce_update_config :: "canary_config \<Rightarrow> canary_experiment \<Rightarrow> canary_experiment" where
  "ce_update_config cfg e = e\<lparr>ce_config := cfg\<rparr>"

definition ce_record :: "string \<Rightarrow> sample \<Rightarrow> canary_experiment \<Rightarrow> canary_experiment" where
  "ce_record variant s e =
     (if variant = ''canary'' then e\<lparr>ce_canary_samples := ce_canary_samples e @ [s]\<rparr>
      else e\<lparr>ce_control_samples := ce_control_samples e @ [s]\<rparr>)"

definition empty_metrics :: canary_metrics where
  "empty_metrics =
     \<lparr>cm_sample_count = 0, cm_avg_confidence = 0, cm_avg_latency_ms = 0, cm_p95_latency_ms = 0,
      cm_error_rate = 0, cm_escalation_rate = 0, cm_avg_cost_usd = 0\<rparr>"

definition compute_metrics :: "sample list \<Rightarrow> canary_metrics" where
  "compute_metrics samples =
     (if samples = [] then empty_metrics
      else let count = length samples;
               confidences = map sm_confidence samples;
               latencies = map (\<lambda>s. real_of_int (sm_latency_ms s)) samples;
               errors = count_if sm_error samples;
               escalations = count_if sm_escalated samples;
               costs = map sm_cost_usd samples
           in \<lparr>cm_sample_count = int count,
               cm_avg_confidence = sum_list confidences / real count,
               cm_avg_latency_ms = sum_list latencies / real count,
               cm_p95_latency_ms = pct_value 0.95 latencies,
               cm_error_rate = real errors / real count,
               cm_escalation_rate = real escalations / real count,
               cm_avg_cost_usd = sum_list costs / real count\<rparr>)"

definition ce_status :: "canary_experiment \<Rightarrow> canary_status" where
  "ce_status e =
     \<lparr>cs_task = ce_task_key e, cs_active = True, cs_model = cc_model (ce_config e),
      cs_traffic_pct = cc_traffic_pct (ce_config e), cs_started_at = ce_started_at e,
      cs_control = compute_metrics (ce_control_samples e),
      cs_canary = compute_metrics (ce_canary_samples e)\<rparr>"

section \<open>CanaryManager\<close>

text \<open>The loop over the configured canaries: add new experiments, update present ones.\<close>

fun sync_experiments :: "real \<Rightarrow> (string, canary_config) dict \<Rightarrow> experiments \<Rightarrow> experiments" where
  "sync_experiments now [] m = m"
| "sync_experiments now ((key, cfg) # cs) m =
     sync_experiments now cs
       (case dict_get m key of
          None \<Rightarrow> dict_set key (new_experiment now key cfg) m
        | Some e \<Rightarrow> dict_set key (ce_update_config cfg e) m)"

definition canary_update_from_config :: "real \<Rightarrow> routing_config \<Rightarrow> experiments \<Rightarrow> experiments" where
  "canary_update_from_config now cfg m =
     sync_experiments now (rc_canary cfg)
       (filter (\<lambda>(k, e). k \<in> set (dict_keys (rc_canary cfg))) m)"

definition experiment_key :: "string \<Rightarrow> string \<Rightarrow> string" where
  "experiment_key agent task = agent @ ''/'' @ task"

definition lookup_experiment :: "string \<Rightarrow> string \<Rightarrow> experiments \<Rightarrow> (string \<times> canary_experiment) option" where
  "lookup_experiment agent task m =
     (case dict_get m (experiment_key agent task) of
        Some e \<Rightarrow> Some (experiment_key agent task, e)
      | None \<Rightarrow> map_option (\<lambda>e. (task, e)) (dict_get m task))"

definition should_use_canary :: "int \<Rightarrow> string \<Rightarrow> string \<Rightarrow> experiments \<Rightarrow> bool \<times> string" where
  "should_use_canary roll agent task m =
     (case lookup_experiment agent task m of
        None \<Rightarrow> (False, ''control'')
      | Some (_, e) \<Rightarrow>
          if roll \<le> cc_traffic_pct (ce_config e) then (True, ''canary'') else (False, ''control''))"

definition get_canary_model_id :: "string \<Rightarrow> string \<Rightarrow> experiments \<Rightarrow> string option" where
  "get_canary_model_id agent task m =
     map_option (\<lambda>(_, e). cc_model (ce_config e)) (lookup_experiment agent task m)"

text \<open>The experiment object is mutated in place: its entry is replaced under its key.\<close>

definition record_result ::
    "string \<Rightarrow> string \<Rightarrow> string \<Rightarrow> sample \<Rightarrow> experiments \<Rightarrow> experiments" where
  "record_result agent task variant s m =
     (case lookup_experiment agent task m of
        None \<Rightarrow> m
      | Some (k, e) \<Rightarrow> dict_set k (ce_record variant s e) m)"

definition find_experiment :: "string \<Rightarrow> experiments \<Rightarrow> canary_experiment option" where
  "find_experiment task m =
     (case dict_get m task of
        Some e \<Rightarrow> Some e
      | None \<Rightarrow> map_option snd (find (\<lambda>(key, e). str_in task key) m))"

definition canary_get_status :: "string \<Rightarrow> experiments \<Rightarrow> canary_status option" where
  "canary_get_status task m = map_option ce_status (find_experiment task m)"

definition mk_canary_config :: "string \<Rightarrow> int \<Rightarrow> int \<Rightarrow> canary_error + canary_config" where
  "mk_canary_config model traffic_pct min_samples =
     (if 1 \<le> traffic_pct \<and> traffic_pct \<le> 100 \<and> 1 \<le> min_samples
      then Inr \<lparr>cc_model = model, cc_traffic_pct = traffic_pct, cc_min_samples = min_samples,
                cc_min_duration_hours = 4\<rparr>
      else Inl ValidationError)"

definition set_canary ::
    "real \<Rightarrow> string \<Rightarrow> string \<Rightarrow> int \<Rightarrow> int \<Rightarrow> experiments \<Rightarrow>
     canary_error + (canary_status \<times> experiments)" where
  "set_canary now task_key model traffic_pct min_samples m =
     (case mk_canary_config model traffic_pct min_samples of
        Inl e \<Rightarrow> Inl e
      | Inr cfg \<Rightarrow>
          Inr (ce_status (new_experiment now task_key cfg),
               dict_set task_key (new_experiment now task_key cfg) m))"

definition remove_experiment :: "string \<Rightarrow> experiments \<Rightarrow> canary_error + (bool \<times> experiments)" where
  "remove_experiment task m =
     (case find_experiment task m of
        None \<Rightarrow> Inr (False, m)
      | Some e \<Rightarrow>
          if dict_has m (ce_task_key e) then Inr (True, dict_del (ce_task_key e) m) else Inl KeyError)"

definition promote_canary :: "string \<Rightarrow> experiments \<Rightarrow> canary_error + (bool \<times> experiments)" where
  "promote_canary task m = remove_experiment task m"

definition rollback_canary :: "string \<Rightarrow> experiments \<Rightarrow> canary_error + (bool \<times> experiments)" where
  "rollback_canary task m = remove_experiment task m"

section \<open>Invariant\<close>

text \<open>
  Keys are distinct, every experiment is stored under its own task key, and its traffic share
  is a percentage. The configuration supplies validated canary settings.
\<close>

definition canary_config_ok :: "canary_config \<Rightarrow> bool" where
  "canary_config_ok c \<longleftrightarrow> 1 \<le> cc_traffic_pct c \<and> cc_traffic_pct c \<le> 100 \<and> 1 \<le> cc_min_samples c"

definition canary_inv :: "experiments \<Rightarrow> bool" where
  "canary_inv m \<longleftrightarrow> dict_ok m \<and>
     (\<forall>k e. dict_get m k = Some e \<longrightarrow> ce_task_key e = k \<and> canary_config_ok (ce_config e))"

lemma canary_inv_Nil [inv_intros]: "canary_inv []"
  by (simp add: canary_inv_def)

lemma canary_inv_set [inv_intros]:
  "canary_inv m \<Longrightarrow> ce_task_key e = k \<Longrightarrow> canary_config_ok (ce_config e) \<Longrightarrow>
   canary_inv (dict_set k e m)"
  by (simp add: canary_inv_def)

lemma canary_inv_del [inv_intros]: "canary_inv m \<Longrightarrow> canary_inv (dict_del k m)"
  by (simp add: canary_inv_def)

lemma canary_inv_filter [inv_intros]:
  "canary_inv m \<Longrightarrow> canary_inv (filter (\<lambda>(k, e). P k) m)"
  by (simp add: canary_inv_def dict_get_filter_key dict_ok_filter)

lemma canary_inv_get:
  assumes "canary_inv m" and "dict_get m k = Some e"
  shows "ce_task_key e = k" and "canary_config_ok (ce_config e)"
  using assms by (simp_all add: canary_inv_def)

lemma experiment_simps [simp]:
  "ce_task_key (new_experiment now k c) = k" "ce_config (new_experiment now k c) = c"
  "ce_task_key (ce_update_config c e) = ce_task_key e" "ce_config (ce_update_config c e) = c"
  "ce_task_key (ce_record v s e) = ce_task_key e" "ce_config (ce_record v s e) = ce_config e"
  by (simp_all add: new_experiment_def ce_update_config_def ce_record_def)

lemma canary_inv_sync [inv_intros]:
  "canary_inv m \<Longrightarrow> (\<And>k c. (k, c) \<in> set cs \<Longrightarrow> canary_config_ok c) \<Longrightarrow>
   canary_inv (sync_experiments now cs m)"
proof (induction now cs m rule: sync_experiments.induct)
  case (2 now key cfg cs m)
  let ?m = "case dict_get m key of None \<Rightarrow> dict_set key (new_experiment now key cfg) m
        | Some e \<Rightarrow> dict_set key (ce_update_config cfg e) m"
  have "canary_config_ok cfg" using "2.prems"(2) [of key cfg] by simp
  then have "canary_inv ?m"
    using "2.prems"(1) canary_inv_get(1) by (fastforce intro: canary_inv_set split: option.split)
  then have "canary_inv (sync_experiments now cs ?m)"
    using "2.IH" "2.prems"(2) by (meson list.set_intros(2))
  then show ?case by simp
qed simp

lemma find_experiment_get:
  assumes "canary_inv m" and "find_experiment task m = Some e"
  shows "dict_get m (ce_task_key e) = Some e"
proof (cases "dict_get m task")
  case (Some e')
  with assms show ?thesis by (auto simp: find_experiment_def dest: canary_inv_get)
next
  case None
  with assms(2) obtain k where "(k, e) \<in> set m"
    by (auto simp: find_experiment_def dest: find_SomeD)
  with assms(1) have "dict_get m k = Some e" by (simp add: canary_inv_def dict_ok_get)
  with assms(1) show ?thesis by (simp add: canary_inv_get)
qed

lemma lookup_experiment_get:
  "lookup_experiment agent task m = Some (k, e) \<Longrightarrow> dict_get m k = Some e"
  by (auto simp: lookup_experiment_def split: option.splits)

lemma canary_inv_record [inv_intros]:
  "canary_inv m \<Longrightarrow> canary_inv (record_result agent task v s m)"
  by (auto simp: record_result_def split: option.splits
      intro!: canary_inv_set dest: lookup_experiment_get canary_inv_get)

lemma canary_inv_remove [inv_intros]:
  "canary_inv m \<Longrightarrow> remove_experiment task m = Inr (b, m') \<Longrightarrow> canary_inv m'"
  by (auto simp: remove_experiment_def split: option.splits if_splits intro: canary_inv_del)

lemma canary_inv_set_canary [inv_intros]:
  "canary_inv m \<Longrightarrow> set_canary now k model pct n m = Inr (st, m') \<Longrightarrow> canary_inv m'"
  by (auto simp: set_canary_def mk_canary_config_def canary_config_ok_def
      split: if_splits intro!: canary_inv_set)

lemma canary_inv_update [inv_intros]:
  "canary_inv m \<Longrightarrow> (\<And>k c. (k, c) \<in> set (rc_canary cfg) \<Longrightarrow> canary_config_ok c) \<Longrightarrow>
   canary_inv (canary_update_from_config now cfg m)"
  unfolding canary_update_from_config_def by (intro canary_inv_sync canary_inv_filter)

section \<open>Properties\<close>

text \<open>
  (traffic share): of the hundred equally likely rolls, exactly \<^verbatim>\<open>traffic_pct\<close> send a
  request of the experiment's task to the canary, in every state the manager can be in; a task
  without an experiment never uses the canary.
\<close>

theorem canary_traffic_share:
  assumes "canary_inv m"
  shows "card {roll \<in> {1..100}. fst (should_use_canary roll agent task m)} =
     (case lookup_experiment agent task m of
        None \<Rightarrow> 0 | Some (k, e) \<Rightarrow> nat (cc_traffic_pct (ce_config e)))"
proof (cases "lookup_experiment agent task m")
  case None
  then show ?thesis by (simp add: should_use_canary_def)
next
  case (Some p)
  obtain k e where p: "p = (k, e)" by (cases p)
  let ?pct = "cc_traffic_pct (ce_config e)"
  have "canary_config_ok (ce_config e)"
    using Some p assms by (auto dest: lookup_experiment_get canary_inv_get)
  then have "{roll \<in> {1..100}. fst (should_use_canary roll agent task m)} = {1..?pct}"
    using Some p by (auto simp: should_use_canary_def canary_config_ok_def)
  then show ?thesis using Some p by simp
qed

text \<open>
  (no KeyError, and only one experiment goes): removing an experiment by a task name
  or a part of one never raises. It reports success exactly when an experiment is stored under
  that name or under a key that contains it, it deletes that one experiment's entry and keeps
  all others.
\<close>

theorem canary_removal_safe:
  assumes "canary_inv m"
  shows "\<exists>m'. rollback_canary task m = Inr (find_experiment task m \<noteq> None, m')
      \<and> (find_experiment task m = None \<longleftrightarrow> (\<forall>k \<in> set (dict_keys m). \<not> str_in task k))
      \<and> (case find_experiment task m of
           None \<Rightarrow> m' = m
         | Some e \<Rightarrow> dict_get m' = (dict_get m)(ce_task_key e := None))"
proof -
  have none: "find_experiment task m = None \<longleftrightarrow> (\<forall>k \<in> set (dict_keys m). \<not> str_in task k)"
  proof (cases "dict_get m task")
    case None
    then show ?thesis
      by (auto simp: find_experiment_def find_None_iff)
  next
    case (Some e)
    then have "task \<in> set (dict_keys m)" by (auto intro: rev_image_eqI dest: map_of_SomeD)
    moreover have "str_in task task" by (simp add: str_in_def)
    ultimately show ?thesis using Some by (auto simp: find_experiment_def)
  qed
  show ?thesis
  proof (cases "find_experiment task m")
    case None
    then show ?thesis using none by (simp add: rollback_canary_def remove_experiment_def)
  next
    case (Some e)
    have "dict_get m (ce_task_key e) = Some e" using find_experiment_get [OF assms Some] .
    then show ?thesis
      using Some none by (auto simp: rollback_canary_def remove_experiment_def dict_has_def fun_eq_iff)
  qed
qed

text \<open>
  (metrics are well formed): over any non-empty list of samples the error and
  escalation rates lie between 0 and 1, the average confidence lies between any bounds of the
  recorded confidences, and the reported P95 latency is a recorded latency that at least 95
  percent of the samples do not exceed.
\<close>

theorem canary_metrics_bounds:
  assumes "samples \<noteq> []" and "\<forall>s \<in> set samples. lo \<le> sm_confidence s \<and> sm_confidence s \<le> hi"
  defines "cm \<equiv> compute_metrics samples"
  shows "0 \<le> cm_error_rate cm \<and> cm_error_rate cm \<le> 1
    \<and> 0 \<le> cm_escalation_rate cm \<and> cm_escalation_rate cm \<le> 1
    \<and> lo \<le> cm_avg_confidence cm \<and> cm_avg_confidence cm \<le> hi
    \<and> (\<exists>s \<in> set samples. cm_p95_latency_ms cm = real_of_int (sm_latency_ms s))
    \<and> 0.95 * real (length samples) \<le>
        real (count_if (\<lambda>s. real_of_int (sm_latency_ms s) \<le> cm_p95_latency_ms cm) samples)"
proof -
  let ?ls = "map (\<lambda>s. real_of_int (sm_latency_ms s)) samples"
  have rates: "0 \<le> cm_error_rate cm \<and> cm_error_rate cm \<le> 1
      \<and> 0 \<le> cm_escalation_rate cm \<and> cm_escalation_rate cm \<le> 1"
    using assms(1) count_if_rate [of _ samples] by (simp add: cm_def compute_metrics_def Let_def)
  have mean: "lo \<le> cm_avg_confidence cm \<and> cm_avg_confidence cm \<le> hi"
    using assms(1,2) mean_bounds [of "map sm_confidence samples" lo hi]
    by (simp add: cm_def compute_metrics_def Let_def)
  have p95: "cm_p95_latency_ms cm = pct_value 0.95 ?ls"
    using assms(1) by (simp add: cm_def compute_metrics_def Let_def)
  have "pct_value 0.95 ?ls \<in> set ?ls" using assms(1) by (intro pct_value_mem) simp
  moreover have "0.95 * real (length ?ls) \<le> real (count_if (\<lambda>x. x \<le> pct_value 0.95 ?ls) ?ls)"
    using assms(1) by (intro pct_value_share) simp_all
  moreover have "count_if P ?ls = count_if (\<lambda>s. P (real_of_int (sm_latency_ms s))) samples" for P
    by (simp add: count_if_def filter_map o_def)
  ultimately show ?thesis using rates mean p95 by auto
qed

text \<open>
  (promotion does not promote): \<^verbatim>\<open>promote_canary\<close> has the same result and the same
  effect as \<^verbatim>\<open>rollback_canary\<close> in every state: the experiment is dropped and no routing entry
  or other experiment takes over its model.
\<close>

theorem promote_is_rollback: "promote_canary task m = rollback_canary task m"
  by (simp add: promote_canary_def rollback_canary_def)

lemma sync_get:
  assumes "distinct (dict_keys cs)"
  shows "dict_get (sync_experiments now cs m) k =
    (case dict_get cs k of
       None \<Rightarrow> dict_get m k
     | Some c \<Rightarrow> Some (case dict_get m k of
         None \<Rightarrow> new_experiment now k c | Some e \<Rightarrow> ce_update_config c e))"
  using assms
proof (induction now cs m rule: sync_experiments.induct)
  case (2 now key cfg cs m)
  have "dict_get cs key = None" using "2.prems" by (simp add: map_of_eq_None_iff)
  with 2 show ?case by (auto split: option.splits)
qed simp

text \<open>
  (configuration reload): after synchronising with a routing configuration the
  experiments are exactly the configured ones: an experiment started through the admin API that
  the file does not list is dropped, one that persists keeps its samples and its start time and
  takes the new settings, and a new one starts without samples.
\<close>

theorem canary_reload_exact:
  assumes "dict_ok (rc_canary cfg)"
  shows "dict_get (canary_update_from_config now cfg m) k =
    (case dict_get (rc_canary cfg) k of
       None \<Rightarrow> None
     | Some c \<Rightarrow> Some (case dict_get m k of
         None \<Rightarrow> new_experiment now k c | Some e \<Rightarrow> ce_update_config c e))"
proof -
  have "k \<in> set (dict_keys (rc_canary cfg)) \<longleftrightarrow> dict_get (rc_canary cfg) k \<noteq> None"
    by (simp add: map_of_eq_None_iff)
  then show ?thesis
    using assms unfolding canary_update_from_config_def dict_ok_def
    by (auto simp: sync_get dict_get_filter_key split: option.split)
qed

section \<open>Witnesses\<close>

definition sample_canary :: canary_config where
  "sample_canary = \<lparr>cc_model = ''large'', cc_traffic_pct = 20, cc_min_samples = 30, cc_min_duration_hours = 4\<rparr>"

definition sample_experiments :: experiments where
  "sample_experiments = [(''agent-eval/generate_code'', new_experiment 0 ''agent-eval/generate_code'' sample_canary)]"

definition sample_of :: "int \<Rightarrow> bool \<Rightarrow> sample" where
  "sample_of ms err =
     \<lparr>sm_confidence = 1 / 2, sm_latency_ms = ms, sm_error = err, sm_escalated = False,
      sm_cost_usd = 0, sm_timestamp = 0\<rparr>"

lemma sample_experiments_inv: "canary_inv sample_experiments"
  by (simp add: canary_inv_def sample_experiments_def dict_ok_def canary_config_ok_def sample_canary_def)

theorem canary_traffic_share_witness:
  "canary_inv sample_experiments
   \<and> card {roll \<in> {1..100}. fst (should_use_canary roll ''agent-eval'' ''generate_code'' sample_experiments)} = 20"
  using canary_traffic_share [OF sample_experiments_inv, of "''agent-eval''" "''generate_code''"]
    sample_experiments_inv
  by (simp add: lookup_experiment_def experiment_key_def sample_experiments_def sample_canary_def)

theorem canary_removal_safe_witness:
  "canary_inv sample_experiments
   \<and> (\<exists>m'. rollback_canary ''generate_code'' sample_experiments =
        Inr (find_experiment ''generate_code'' sample_experiments \<noteq> None, m'))"
  using canary_removal_safe [OF sample_experiments_inv, of "''generate_code''"] sample_experiments_inv
  by blast

theorem canary_metrics_bounds_witness:
  "[sample_of 10 True, sample_of 30 False] \<noteq> []
   \<and> 0.95 * real (length [sample_of 10 True, sample_of 30 False]) \<le>
      real (count_if (\<lambda>s. real_of_int (sm_latency_ms s) \<le>
          cm_p95_latency_ms (compute_metrics [sample_of 10 True, sample_of 30 False]))
        [sample_of 10 True, sample_of 30 False])"
proof -
  let ?s = "[sample_of 10 True, sample_of 30 False]"
  have 1: "?s \<noteq> []" by simp
  have 2: "\<forall>s \<in> set ?s. 0 \<le> sm_confidence s \<and> sm_confidence s \<le> 1" by (simp add: sample_of_def)
  from canary_metrics_bounds [OF 1 2] show ?thesis by blast
qed

theorem canary_reload_exact_witness:
  "dict_ok (rc_canary default_routing)
   \<and> dict_get (canary_update_from_config 9 default_routing sample_experiments) ''agent-eval/generate_code'' = None"
proof -
  have ok: "dict_ok (rc_canary default_routing)" by (simp add: default_routing_def)
  from canary_reload_exact [OF ok, of 9 sample_experiments "''agent-eval/generate_code''"] ok
  show ?thesis by (simp add: default_routing_def)
qed

end
