(* ===== verification/Gw_Resolver.thy ===== *)
theory Gw_Resolver
  imports Gw_Models
begin

text \<open>
  Three-level route resolution (\<^verbatim>\<open>llm-gateway/src/routing/resolver.py\<close>): tenant, then agent,
  then task routing, then the default tier. A model is a reference into the heap of shared
  \<^verbatim>\<open>ModelConfig\<close> objects.
\<close>

record route_resolution =
  rr_tier :: string
  rr_model_config :: "ref option"
  rr_source :: string

definition tier_resolution :: "string \<Rightarrow> string \<Rightarrow> route_resolution" where
  "tier_resolution tier source =
     \<lparr>rr_tier = tier, rr_model_config = None, rr_source = source\<rparr>"

fun find_model_by_id :: "heap \<Rightarrow> (string, tier_config) dict \<Rightarrow> string \<Rightarrow> ref option" where
  "find_model_by_id h [] model_id = None"
| "find_model_by_id h ((tier_name, tc) # ts) model_id =
     (case find (\<lambda>r. mc_id (h r) = model_id) (tier_models tc) of
        Some r \<Rightarrow> Some r
      | None \<Rightarrow> find_model_by_id h ts model_id)"

fun find_tier_for_model :: "heap \<Rightarrow> (string, tier_config) dict \<Rightarrow> string \<Rightarrow> string" where
  "find_tier_for_model h [] model_id = tier_value MID"
| "find_tier_for_model h ((tier_name, tc) # ts) model_id =
     (case find (\<lambda>r. mc_id (h r) = model_id) (tier_models tc) of
        Some r \<Rightarrow> tier_name
      | None \<Rightarrow> find_tier_for_model h ts model_id)"

fun interpret_route_value ::
    "heap \<Rightarrow> routing_config \<Rightarrow> route_value \<Rightarrow> string \<Rightarrow> route_resolution" where
  "interpret_route_value h cfg (RouteStr s) source = tier_resolution s source"
| "interpret_route_value h cfg (RouteDict d) source =
     (if str_truthy (dict_get d ''model'') then
        (let model_id = the (dict_get d ''model'')
         in \<lparr>rr_tier = find_tier_for_model h (rc_tiers cfg) model_id,
             rr_model_config = find_model_by_id h (rc_tiers cfg) model_id,
             rr_source = source\<rparr>)
      else tier_resolution (dict_get_default d ''tier'' (tier_value MID)) source)"
| "interpret_route_value h cfg RouteNone source = tier_resolution (tier_value MID) source"
| "interpret_route_value h cfg RouteOther source = tier_resolution (tier_value MID) source"

text \<open>
  A two-step lookup; a YAML null under the task key reads as a missing entry.
\<close>

definition route_entry ::
    "(string, (string, route_value) dict) dict \<Rightarrow> string \<Rightarrow> string \<Rightarrow> route_value option" where
  "route_entry d outer task =
     (case dict_get d outer of
        None \<Rightarrow> None
      | Some routes \<Rightarrow>
          (case dict_get routes task of
             None \<Rightarrow> None
           | Some v \<Rightarrow> if v = RouteNone then None else Some v))"

definition resolve_tenant ::
    "heap \<Rightarrow> routing_config \<Rightarrow> string \<Rightarrow> string \<Rightarrow> route_resolution option" where
  "resolve_tenant h cfg tenant_id task =
     map_option (\<lambda>v. interpret_route_value h cfg v ''tenant'')
       (route_entry (rc_tenant_routing cfg) tenant_id task)"

definition resolve_agent ::
    "heap \<Rightarrow> routing_config \<Rightarrow> string \<Rightarrow> string \<Rightarrow> route_resolution option" where
  "resolve_agent h cfg agent task =
     map_option (\<lambda>v. interpret_route_value h cfg v ''agent'')
       (route_entry (rc_agent_routing cfg) agent task)"

definition resolve_task :: "routing_config \<Rightarrow> string \<Rightarrow> route_resolution option" where
  "resolve_task cfg task =
     map_option (\<lambda>tier. tier_resolution tier ''task'') (dict_get (rc_task_routing cfg) task)"

definition resolve ::
    "heap \<Rightarrow> routing_config \<Rightarrow> string \<Rightarrow> string \<Rightarrow> string \<Rightarrow> route_resolution" where
  "resolve h cfg agent task tenant_id =
     (case resolve_tenant h cfg tenant_id task of
        Some r \<Rightarrow> r
      | None \<Rightarrow>
          (case resolve_agent h cfg agent task of
             Some r \<Rightarrow> r
           | None \<Rightarrow>
               (case resolve_task cfg task of
                  Some r \<Rightarrow> r
                | None \<Rightarrow> tier_resolution (tier_value MID) ''default'')))"

definition get_models_for_tier :: "heap \<Rightarrow> routing_config \<Rightarrow> string \<Rightarrow> ref list" where
  "get_models_for_tier h cfg tier =
     (case dict_get (rc_tiers cfg) tier of
        None \<Rightarrow> []
      | Some tc \<Rightarrow> filter (\<lambda>r. mc_healthy (h r) \<and> mc_enabled (h r)) (tier_models tc))"

text \<open>
  The successor in an escalation path; the resolver and the escalation engine have the same
  body for it.
\<close>

definition get_next_tier :: "escalation_config \<Rightarrow> string \<Rightarrow> string option" where
  "get_next_tier cfg current_tier =
     (case index_of current_tier (esc_path cfg) of
        Some idx \<Rightarrow> if idx + 1 < length (esc_path cfg) then Some (esc_path cfg ! (idx + 1)) else None
      | None \<Rightarrow> None)"

section \<open>Facts\<close>

lemma find_model_find_tier:
  "find_model_by_id h ts mid = Some r \<Longrightarrow>
   \<exists>tc. (find_tier_for_model h ts mid, tc) \<in> set ts \<and> r \<in> set (tier_models tc) \<and> mc_id (h r) = mid"
proof (induction ts)
  case (Cons p ts)
  obtain tn tc where p: "p = (tn, tc)" by (cases p)
  show ?case
  proof (cases "find (\<lambda>r. mc_id (h r) = mid) (tier_models tc)")
    case None
    with Cons p show ?thesis by fastforce
  next
    case (Some r')
    with Cons.prems p have "r' = r" by simp
    with Some p find_SomeD [OF Some] show ?thesis by auto
  qed
qed simp

lemma find_model_None:
  "find_model_by_id h ts mid = None \<longleftrightarrow>
   (\<forall>(tn, tc) \<in> set ts. \<forall>r \<in> set (tier_models tc). mc_id (h r) \<noteq> mid)"
  by (induction h ts mid rule: find_model_by_id.induct)
     (auto split: option.splits simp: find_None_iff find_Some_iff)

lemma find_tier_default:
  "find_model_by_id h ts mid = None \<Longrightarrow> find_tier_for_model h ts mid = tier_value MID"
  by (induction h ts mid rule: find_model_by_id.induct) (auto split: option.splits)

lemma tier_resolution_simps [simp]:
  "rr_tier (tier_resolution t s) = t" "rr_model_config (tier_resolution t s) = None"
  "rr_source (tier_resolution t s) = s"
  by (simp_all add: tier_resolution_def)

lemma interpret_source [simp]: "rr_source (interpret_route_value h cfg v src) = src"
  by (cases v) (simp_all add: Let_def)

lemma interpret_model:
  "rr_model_config (interpret_route_value h cfg v src) = Some r \<Longrightarrow>
   \<exists>tc. (rr_tier (interpret_route_value h cfg v src), tc) \<in> set (rc_tiers cfg)
      \<and> r \<in> set (tier_models tc)"
  by (cases v) (auto simp: Let_def split: if_splits dest: find_model_find_tier)

lemma get_models_for_tier_mem:
  "r \<in> set (get_models_for_tier h cfg tier) \<longleftrightarrow>
   (\<exists>tc. dict_get (rc_tiers cfg) tier = Some tc \<and> r \<in> set (tier_models tc)
       \<and> mc_healthy (h r) \<and> mc_enabled (h r))"
  by (cases "dict_get (rc_tiers cfg) tier") (auto simp: get_models_for_tier_def)

lemma get_next_tier_mem: "get_next_tier cfg t = Some t' \<Longrightarrow> t' \<in> set (esc_path cfg)"
  by (auto simp: get_next_tier_def split: option.splits if_splits)

lemma index_of_nth: "distinct xs \<Longrightarrow> i < length xs \<Longrightarrow> index_of (xs ! i) xs = Some i"
proof (induction xs arbitrary: i)
  case (Cons x xs)
  then show ?case by (cases i) auto
qed simp

lemma get_next_tier_index:
  assumes "distinct (esc_path cfg)" and "get_next_tier cfg t = Some t'"
  shows "\<exists>i. index_of t (esc_path cfg) = Some i \<and> index_of t' (esc_path cfg) = Some (Suc i)"
  using assms by (auto simp: get_next_tier_def index_of_nth split: option.splits if_splits)

section \<open>Properties\<close>

text \<open>
  (most specific route wins): the source of a resolution tells which level matched.
  It is the tenant level exactly when the tenant has a non-null entry for the task, otherwise
  the agent level exactly when the agent has one, otherwise the task level exactly when the
  task is routed, and otherwise the default, which is the mid tier without a fixed model.
\<close>

theorem resolve_most_specific:
  "(rr_source (resolve h cfg agent task tenant) = ''tenant'' \<longleftrightarrow>
      route_entry (rc_tenant_routing cfg) tenant task \<noteq> None)
   \<and> (rr_source (resolve h cfg agent task tenant) = ''agent'' \<longleftrightarrow>
      route_entry (rc_tenant_routing cfg) tenant task = None
      \<and> route_entry (rc_agent_routing cfg) agent task \<noteq> None)
   \<and> (rr_source (resolve h cfg agent task tenant) = ''task'' \<longleftrightarrow>
      route_entry (rc_tenant_routing cfg) tenant task = None
      \<and> route_entry (rc_agent_routing cfg) agent task = None
      \<and> dict_get (rc_task_routing cfg) task \<noteq> None)
   \<and> (resolve h cfg agent task tenant = tier_resolution ''mid'' ''default'' \<longleftrightarrow>
      route_entry (rc_tenant_routing cfg) tenant task = None
      \<and> route_entry (rc_agent_routing cfg) agent task = None
      \<and> dict_get (rc_task_routing cfg) task = None)"
  by (auto simp: resolve_def resolve_tenant_def resolve_agent_def resolve_task_def
      dest: arg_cong [of _ _ rr_source] split: option.splits)

text \<open>
  (a pinned model lies in the resolved tier): when a resolution pins a model, the
  resolved tier is a configured tier and the model is one of its models.
\<close>

theorem resolve_model_in_tier:
  assumes "dict_ok (rc_tiers cfg)"
    and "rr_model_config (resolve h cfg agent task tenant) = Some r"
  shows "\<exists>tc. dict_get (rc_tiers cfg) (rr_tier (resolve h cfg agent task tenant)) = Some tc
            \<and> r \<in> set (tier_models tc)"
proof -
  have "\<exists>tc. (rr_tier (resolve h cfg agent task tenant), tc) \<in> set (rc_tiers cfg)
      \<and> r \<in> set (tier_models tc)"
    using assms(2)
    by (auto simp: resolve_def resolve_tenant_def resolve_agent_def resolve_task_def
        split: option.splits dest: interpret_model)
  then show ?thesis using assms(1) dict_ok_get by fastforce
qed

section \<open>Witness\<close>

definition sample_model :: "string \<Rightarrow> model_config" where
  "sample_model i =
     \<lparr>mc_id = i, mc_provider = ''ollama'', mc_model = i, mc_endpoint = [], mc_api_key = [],
      mc_max_tokens = 4096, mc_timeout_ms = 60000, mc_healthy = True, mc_enabled = True\<rparr>"

definition sample_heap :: heap where
  "sample_heap r = sample_model (if r = 0 then ''small'' else if r = 1 then ''medium'' else ''large'')"

definition sample_config :: routing_config where
  "sample_config = default_routing\<lparr>
     rc_tiers := [(''fast'', \<lparr>tier_models = [0]\<rparr>), (''mid'', \<lparr>tier_models = [1]\<rparr>),
                  (''strong'', \<lparr>tier_models = [2]\<rparr>)],
     rc_task_routing := [(''generate_code'', ''strong'')],
     rc_tenant_routing := [(''acme'', [(''generate_code'', RouteDict [(''model'', ''medium'')])])]\<rparr>"

theorem resolve_model_in_tier_witness:
  "dict_ok (rc_tiers sample_config)
   \<and> rr_model_config (resolve sample_heap sample_config ''agent-eval'' ''generate_code'' ''acme'') = Some 1
   \<and> (\<exists>tc. dict_get (rc_tiers sample_config)
         (rr_tier (resolve sample_heap sample_config ''agent-eval'' ''generate_code'' ''acme'')) = Some tc
       \<and> 1 \<in> set (tier_models tc))"
proof -
  have 1: "dict_ok (rc_tiers sample_config)"
    by (simp add: sample_config_def dict_ok_def)
  have 2: "rr_model_config (resolve sample_heap sample_config ''agent-eval'' ''generate_code'' ''acme'') = Some 1"
    by (simp add: resolve_def resolve_tenant_def route_entry_def sample_config_def default_routing_def
        str_truthy_def sample_heap_def sample_model_def)
  from resolve_model_in_tier [OF 1 2] 1 2 show ?thesis by blast
qed

end
