(* ===== verification/Gw_Escalation.thy ===== *)
theory Gw_Escalation
  imports Gw_Resolver
begin

text \<open>
  Confidence-based escalation (\<^verbatim>\<open>llm-gateway/src/escalation.py\<close>): when a response is empty,
  a refusal, not the requested JSON or below the requested confidence, the engine asks for the
  next tier. The text of a reason is represented by the data it prints. \<^verbatim>\<open>float(conf)\<close> of an
  integer beyond the double range raises OverflowError, which no handler of the engine catches.
\<close>

datatype esc_error = OverflowError

datatype esc_reason =
    NoReason
  | MaxEscalationsReached
  | EmptyResponse
  | ModelRefusal
  | JsonParseFailure
  | BelowThreshold real real

record escalation_decision =
  ed_should_escalate :: bool
  ed_reason :: esc_reason
  ed_confidence :: real

section \<open>Explicit confidence\<close>

definition clamp01 :: "real \<Rightarrow> real" where
  "clamp01 x = max 0 (min 1 x)"

text \<open>
  \<^verbatim>\<open>max(0.0, min(1.0, float(conf)))\<close> for a number (booleans are integers in Python), None for
  any other value. \<^verbatim>\<open>min(1.0, nan)\<close> is 1.0.
\<close>

fun confidence_number :: "json \<Rightarrow> (esc_error + real) option" where
  "confidence_number (JInt i) =
     Some (if \<bar>i\<bar> < 2 ^ 1024 - 2 ^ 970 then Inr (clamp01 (real_of_int i)) else Inl OverflowError)"
| "confidence_number (JBool b) = Some (Inr (if b then 1 else 0))"
| "confidence_number (JFloat (Fin r)) = Some (Inr (clamp01 r))"
| "confidence_number (JFloat PosInf) = Some (Inr 1)"
| "confidence_number (JFloat NegInf) = Some (Inr 0)"
| "confidence_number (JFloat NaN) = Some (Inr 1)"
| "confidence_number _ = None"

text \<open>One \<^verbatim>\<open>try\<close> block: parse the text and read a numeric confidence field, if there is one.\<close>

definition confidence_in_text :: "string \<Rightarrow> (esc_error + real) option" where
  "confidence_in_text text =
     (case json_loads text of
        Inr (JObj d) \<Rightarrow>
          (case dict_get d (ustr ''confidence'') of
             Some v \<Rightarrow> confidence_number v
           | None \<Rightarrow> None)
      | _ \<Rightarrow> None)"

abbreviation fence :: string where
  "fence \<equiv> [CHR 0x60, CHR 0x60, CHR 0x60]"

text \<open>The text between a \<^verbatim>\<open>json\<close> fence and the next fence, when it is not empty.\<close>

definition fenced_json :: "string \<Rightarrow> string option" where
  "fenced_json content =
     (case str_find content (fence @ ''json'') 0 of
        None \<Rightarrow> None
      | Some i \<Rightarrow>
          (let start = i + 7
           in case str_find content fence start of
                None \<Rightarrow> None
              | Some e \<Rightarrow>
                  if start < e then Some (str_strip (take (e - start) (drop start content))) else None))"

definition extract_explicit_confidence :: "normalized_response \<Rightarrow> (esc_error + real) option" where
  "extract_explicit_confidence resp =
     (if \<not> str_truthy (resp_content resp) then None
      else let content = str_strip (str_or_empty (resp_content resp))
           in case confidence_in_text content of
                Some r \<Rightarrow> Some r
              | None \<Rightarrow>
                  (case fenced_json content of
                     None \<Rightarrow> None
                   | Some block \<Rightarrow> confidence_in_text block))"

section \<open>Heuristics\<close>

definition is_empty_response :: "normalized_response \<Rightarrow> bool" where
  "is_empty_response resp \<longleftrightarrow>
     \<not> (str_truthy (resp_content resp) \<and> str_strip (str_or_empty (resp_content resp)) \<noteq> [])
     \<and> (resp_tool_calls resp = None \<or> resp_tool_calls resp = Some [])"

definition parses :: "string \<Rightarrow> bool" where
  "parses text \<longleftrightarrow> (case json_loads text of Inr _ \<Rightarrow> True | Inl _ \<Rightarrow> False)"

definition fence_inner :: "string \<Rightarrow> string" where
  "fence_inner stripped =
     (let lines = split_char (CHR 0x0A) stripped
      in if 2 < length lines then str_join [CHR 0x0A] (butlast (tl lines)) else [])"

definition is_json_parse_failure :: "normalized_response \<Rightarrow> completion_request \<Rightarrow> bool" where
  "is_json_parse_failure resp req =
     (case req_response_format req of
        None \<Rightarrow> False
      | Some rf \<Rightarrow>
          if rf_type rf \<notin> {''json_object'', ''json_schema''} then False
          else if \<not> str_truthy (resp_content resp) then True
          else let stripped = str_strip (str_or_empty (resp_content resp))
               in if parses stripped then False
                  else if str_startswith stripped fence \<and> parses (fence_inner stripped) then False
                  else True)"

definition refusal_indicators :: "string list" where
  "refusal_indicators =
     [''i cannot'', ''i'' @ [CHR 0x27] @ ''m unable to'', ''i am unable to'',
      ''i can'' @ [CHR 0x27] @ ''t help'', ''i'' @ [CHR 0x27] @ ''m not able to'', ''as an ai'',
      ''i don'' @ [CHR 0x27] @ ''t have the ability'', ''i must decline'']"

definition is_refusal :: "normalized_response \<Rightarrow> bool" where
  "is_refusal resp =
     (let content = str_lower (str_or_empty (resp_content resp))
      in if 200 < length content then False
         else (\<exists>ind \<in> set refusal_indicators. str_in ind content))"

definition complex_tasks :: "string list" where
  "complex_tasks =
     [''evaluate_control'', ''evaluate_unstructured'', ''complex_reasoning'',
      ''cross_framework_analysis'', ''generate_code'']"

definition heuristic_confidence :: "normalized_response \<Rightarrow> completion_request \<Rightarrow> real" where
  "heuristic_confidence resp req =
     (if is_empty_response resp then 0
      else if is_json_parse_failure resp req then 0.3
      else if length (str_or_empty (resp_content resp)) < 50 \<and> req_task req \<in> set complex_tasks then 0.4
      else 0.8)"

definition extract_confidence :: "normalized_response \<Rightarrow> completion_request \<Rightarrow> esc_error + real" where
  "extract_confidence resp req =
     (case extract_explicit_confidence resp of
        Some r \<Rightarrow> r
      | None \<Rightarrow> Inr (heuristic_confidence resp req))"

section \<open>The decision\<close>

definition mk_decision :: "bool \<Rightarrow> esc_reason \<Rightarrow> real \<Rightarrow> escalation_decision" where
  "mk_decision b reason c = \<lparr>ed_should_escalate = b, ed_reason = reason, ed_confidence = c\<rparr>"

definition check ::
    "escalation_config \<Rightarrow> normalized_response \<Rightarrow> completion_request \<Rightarrow> int \<Rightarrow>
     esc_error + escalation_decision" where
  "check cfg resp req escalation_count =
     (if \<not> esc_enabled cfg then
        map_sum id (mk_decision False NoReason) (extract_confidence resp req)
      else if esc_max_escalations cfg \<le> escalation_count then
        map_sum id (mk_decision False MaxEscalationsReached) (extract_confidence resp req)
      else if is_empty_response resp then Inr (mk_decision True EmptyResponse 0)
      else if is_refusal resp then Inr (mk_decision True ModelRefusal 0.1)
      else if is_json_parse_failure resp req then Inr (mk_decision True JsonParseFailure 0.3)
      else case extract_confidence resp req of
             Inl e \<Rightarrow> Inl e
           | Inr confidence \<Rightarrow>
               if 0 < req_confidence_threshold req \<and> confidence < req_confidence_threshold req
               then Inr (mk_decision True
                      (BelowThreshold confidence (req_confidence_threshold req)) confidence)
               else Inr (mk_decision False NoReason confidence))"

section \<open>Facts\<close>

lemma mk_decision_simps [simp]:
  "ed_should_escalate (mk_decision b r c) = b" "ed_reason (mk_decision b r c) = r"
  "ed_confidence (mk_decision b r c) = c"
  by (simp_all add: mk_decision_def)

lemma clamp01_bounds [simp]: "0 \<le> clamp01 x" "clamp01 x \<le> 1"
  by (simp_all add: clamp01_def)

lemma confidence_number_bounds:
  "confidence_number v = Some (Inr c) \<Longrightarrow> 0 \<le> c \<and> c \<le> 1"
  by (cases v rule: confidence_number.cases) (auto split: if_splits)

lemma confidence_in_text_bounds:
  "confidence_in_text t = Some (Inr c) \<Longrightarrow> 0 \<le> c \<and> c \<le> 1"
  by (auto simp: confidence_in_text_def split: sum.splits json.splits option.splits
      dest: confidence_number_bounds)

lemma explicit_confidence_bounds:
  "extract_explicit_confidence resp = Some (Inr c) \<Longrightarrow> 0 \<le> c \<and> c \<le> 1"
  by (auto simp: extract_explicit_confidence_def Let_def split: if_splits option.splits
      dest: confidence_in_text_bounds)

lemma heuristic_confidence_bounds: "0 \<le> heuristic_confidence resp req" "heuristic_confidence resp req \<le> 1"
  by (simp_all add: heuristic_confidence_def)

lemma extract_confidence_bounds: "extract_confidence resp req = Inr c \<Longrightarrow> 0 \<le> c \<and> c \<le> 1"
  by (auto simp: extract_confidence_def heuristic_confidence_bounds split: option.splits
      dest: explicit_confidence_bounds)

lemma map_sum_Inr: "map_sum f g x = Inr y \<longleftrightarrow> (\<exists>a. x = Inr a \<and> y = g a)"
  by (cases x) auto

lemma check_bounds:
  "check cfg resp req n = Inr d \<Longrightarrow> 0 \<le> ed_confidence d \<and> ed_confidence d \<le> 1"
  by (auto simp: check_def map_sum_Inr split: if_splits sum.splits dest: extract_confidence_bounds)

lemma check_escalates_within:
  "check cfg resp req n = Inr d \<Longrightarrow> ed_should_escalate d \<Longrightarrow>
   esc_enabled cfg \<and> n < esc_max_escalations cfg"
  by (auto simp: check_def map_sum_Inr split: if_splits)

section \<open>Properties\<close>

text \<open>
  (escalation decisions are sound): every decision carries a confidence between 0 and
  1. The engine asks to escalate only when escalation is enabled and the budget of escalations
  is not used up. While it is not used up, a response is accepted only if it is not empty, not
  a refusal, parses as JSON when JSON was requested, and reaches the requested confidence
  threshold when one is set.
\<close>

theorem escalation_decision_sound:
  assumes "check cfg resp req n = Inr d"
  shows "0 \<le> ed_confidence d \<and> ed_confidence d \<le> 1
    \<and> (ed_should_escalate d \<longrightarrow> esc_enabled cfg \<and> n < esc_max_escalations cfg)
    \<and> (esc_enabled cfg \<and> n < esc_max_escalations cfg \<and> \<not> ed_should_escalate d \<longrightarrow>
         \<not> is_empty_response resp \<and> \<not> is_refusal resp \<and> \<not> is_json_parse_failure resp req
         \<and> (0 < req_confidence_threshold req \<longrightarrow> req_confidence_threshold req \<le> ed_confidence d))"
  using check_bounds [OF assms] check_escalates_within [OF assms] assms
  by (auto simp: check_def split: if_splits sum.splits)

text \<open>
  (when the check raises): the check fails with OverflowError exactly when it needs
  the confidence of the response and the JSON it finds there (the whole content, or else the
  block in a json fence) carries an integer confidence outside the double range; every other
  response gets a decision.
\<close>

theorem check_raises_iff:
  "(\<exists>e. check cfg resp req n = Inl e) \<longleftrightarrow>
     extract_explicit_confidence resp = Some (Inl OverflowError)
     \<and> \<not> (esc_enabled cfg \<and> n < esc_max_escalations cfg
         \<and> (is_empty_response resp \<or> is_refusal resp \<or> is_json_parse_failure resp req))"
proof -
  have "(\<exists>e. extract_confidence resp req = Inl e) \<longleftrightarrow>
      extract_explicit_confidence resp = Some (Inl OverflowError)"
    by (auto simp: extract_confidence_def split: option.splits) (metis esc_error.exhaust)
  moreover have "(\<exists>e. map_sum id g x = Inl e) \<longleftrightarrow> (\<exists>e. x = Inl e)"
    for g :: "real \<Rightarrow> escalation_decision" and x :: "esc_error + real"
    by (cases x) auto
  ultimately show ?thesis
    by (auto simp: check_def split: sum.splits if_splits)
qed

section \<open>Witness\<close>

definition tool_response :: normalized_response where
  "tool_response =
     \<lparr>resp_content = None,
      resp_tool_calls = Some [\<lparr>tc_id = ustr ''c1'', tc_type = ''function'',
        tc_function = \<lparr>tcf_name = ustr ''lookup'', tcf_arguments = ''{}''\<rparr>\<rparr>],
      resp_usage = \<lparr>input_tokens = 10, output_tokens = 5\<rparr>, resp_finish_reason = ''stop''\<rparr>"

definition threshold_request :: "real \<Rightarrow> completion_request" where
  "threshold_request c =
     \<lparr>req_messages = [], req_task = ''chat'', req_agent = ''assistant'', req_tenant_id = ''acme'',
      req_trace_id = ''t'', req_confidence_threshold = c, req_max_tokens = 100,
      req_temperature = 0, req_response_format = None, req_tools = None, req_stop = None\<rparr>"

lemma tool_response_checks:
  "\<not> is_empty_response tool_response" "\<not> is_refusal tool_response"
  "\<not> is_json_parse_failure tool_response (threshold_request c)"
  "extract_confidence tool_response (threshold_request c) = Inr 0.8"
  by (simp_all add: tool_response_def threshold_request_def is_empty_response_def is_refusal_def
      is_json_parse_failure_def refusal_indicators_def str_or_empty_def str_truthy_def
      extract_confidence_def extract_explicit_confidence_def heuristic_confidence_def
      complex_tasks_def str_lower_def str_in_def)

theorem escalation_decision_sound_witness:
  "check default_escalation tool_response (threshold_request 0.7) 0 = Inr (mk_decision False NoReason 0.8)
   \<and> (0 < req_confidence_threshold (threshold_request 0.7)
      \<and> req_confidence_threshold (threshold_request 0.7) \<le> (0.8::real))
   \<and> check default_escalation tool_response (threshold_request 0.9) 1
       = Inr (mk_decision True (BelowThreshold 0.8 0.9) 0.8)
   \<and> esc_enabled default_escalation \<and> 1 < esc_max_escalations default_escalation"
proof -
  have 1: "check default_escalation tool_response (threshold_request 0.7) 0
      = Inr (mk_decision False NoReason 0.8)"
    by (simp add: check_def tool_response_checks default_escalation_def)
      (simp add: threshold_request_def)
  have 2: "check default_escalation tool_response (threshold_request 0.9) 1
      = Inr (mk_decision True (BelowThreshold 0.8 0.9) 0.8)"
    by (simp add: check_def tool_response_checks default_escalation_def)
      (simp add: threshold_request_def)
  show ?thesis
    using escalation_decision_sound [OF 1] escalation_decision_sound [OF 2] 1 2
    by (simp add: default_escalation_def threshold_request_def)
qed

end
