(* ===== verification/Gw_Health.thy ===== *)
theory Gw_Health
  imports Gw_Resolver
begin

text \<open>
  Model health (\<^verbatim>\<open>llm-gateway/src/health.py\<close>): consecutive failures take a model out of the
  rotation and successes bring it back. The manager keeps one state per model id; the state
  points to the shared \<^verbatim>\<open>ModelConfig\<close> object, which the resolver reads, so every operation
  also threads the heap of those objects. The outcome of a probe (a raised exception or a
  timeout counts as False) and its duration are arguments; the provider registry is the
  function from model ids to adapters it answers with. A probe's result is applied in one
  step, to the state its model id has when the probe ends.
\<close>

record model_state =
  ms_model_config :: ref
  ms_tier :: string
  ms_healthy :: bool
  ms_last_check_ms :: int
  ms_consecutive_failures :: int
  ms_consecutive_successes :: int

definition new_model_state :: "ref \<Rightarrow> string \<Rightarrow> model_state" where
  "new_model_state model tier =
     \<lparr>ms_model_config = model, ms_tier = tier, ms_healthy = True, ms_last_check_ms = 0,
      ms_consecutive_failures = 0, ms_consecutive_successes = 0\<rparr>"

record health_manager =
  hm_interval_seconds :: int
  hm_timeout_ms :: int
  hm_unhealthy_threshold :: int
  hm_healthy_threshold :: int
  hm_model_states :: "(string, model_state) dict"
  hm_has_registry :: bool
  hm_running :: bool

definition init_health_manager :: "int \<Rightarrow> int \<Rightarrow> int \<Rightarrow> int \<Rightarrow> health_manager" where
  "init_health_manager interval timeout_ms unhealthy healthy =
     \<lparr>hm_interval_seconds = interval, hm_timeout_ms = timeout_ms,
      hm_unhealthy_threshold = unhealthy, hm_healthy_threshold = healthy,
      hm_model_states = [], hm_has_registry = False, hm_running = False\<rparr>"

definition set_provider_registry :: "health_manager \<Rightarrow> health_manager" where
  "set_provider_registry hm = hm\<lparr>hm_has_registry := True\<rparr>"

definition hm_start :: "health_manager \<Rightarrow> health_manager" where
  "hm_start hm = (if hm_running hm then hm else hm\<lparr>hm_running := True\<rparr>)"

definition hm_stop :: "health_manager \<Rightarrow> health_manager" where
  "hm_stop hm = hm\<lparr>hm_running := False\<rparr>"

section \<open>Tracking the configuration\<close>

definition track_model ::
    "heap \<Rightarrow> string \<Rightarrow> ref \<Rightarrow> (string, model_state) dict \<Rightarrow> (string, model_state) dict" where
  "track_model h tier model states =
     (case dict_get states (mc_id (h model)) of
        None \<Rightarrow> dict_set (mc_id (h model)) (new_model_state model tier) states
      | Some st \<Rightarrow> dict_set (mc_id (h model)) (st\<lparr>ms_model_config := model, ms_tier := tier\<rparr>) states)"

definition config_models :: "routing_config \<Rightarrow> (string \<times> ref) list" where
  "config_models cfg = concat (map (\<lambda>(tier, tc). map (Pair tier) (tier_models tc)) (rc_tiers cfg))"

definition hm_update_from_config :: "heap \<Rightarrow> routing_config \<Rightarrow> health_manager \<Rightarrow> health_manager" where
  "hm_update_from_config h cfg hm =
     (let states = fold (\<lambda>(tier, model). track_model h tier model) (config_models cfg) (hm_model_states hm);
          current_ids = map (\<lambda>(tier, model). mc_id (h model)) (config_models cfg)
      in hm\<lparr>hm_model_states := filter (\<lambda>(model_id, st). model_id \<in> set current_ids) states\<rparr>)"

section \<open>Checks\<close>

text \<open>One probe result applied to a state and the model it points to.\<close>

definition check_state ::
    "int \<Rightarrow> int \<Rightarrow> bool \<Rightarrow> int \<Rightarrow> heap \<times> model_state \<Rightarrow> heap \<times> model_state" where
  "check_state unhealthy_thr healthy_thr healthy elapsed_ms = (\<lambda>(h, st0).
     let st = st0\<lparr>ms_last_check_ms := elapsed_ms\<rparr>;
         r = ms_model_config st
     in if healthy then
          (let st = st\<lparr>ms_consecutive_failures := 0,
                       ms_consecutive_successes := ms_consecutive_successes st + 1\<rparr>
           in if \<not> ms_healthy st \<and> healthy_thr \<le> ms_consecutive_successes st
              then (h(r := (h r)\<lparr>mc_healthy := True\<rparr>), st\<lparr>ms_healthy := True\<rparr>)
              else (h, st))
        else
          (let st = st\<lparr>ms_consecutive_successes := 0,
                       ms_consecutive_failures := ms_consecutive_failures st + 1\<rparr>
           in if ms_healthy st \<and> unhealthy_thr \<le> ms_consecutive_failures st
              then (h(r := (h r)\<lparr>mc_healthy := False\<rparr>), st\<lparr>ms_healthy := False\<rparr>)
              else (h, st)))"

definition check_single_model ::
    "string \<Rightarrow> bool \<Rightarrow> int \<Rightarrow> heap \<times> health_manager \<Rightarrow> heap \<times> health_manager" where
  "check_single_model model_id healthy elapsed_ms = (\<lambda>(h, hm).
     case dict_get (hm_model_states hm) model_id of
       None \<Rightarrow> (h, hm)
     | Some st \<Rightarrow>
         (case check_state (hm_unhealthy_threshold hm) (hm_healthy_threshold hm) healthy elapsed_ms (h, st) of
            (h', st') \<Rightarrow> (h', hm\<lparr>hm_model_states := dict_set model_id st' (hm_model_states hm)\<rparr>)))"

text \<open>
  One round: a probe is started for every tracked model that has an adapter, and the probes
  end in the order \<open>order\<close>, which the event loop chooses.
\<close>

definition checked_models :: "(string \<Rightarrow> 'a option) \<Rightarrow> health_manager \<Rightarrow> string list" where
  "checked_models registry hm =
     (if hm_has_registry hm
      then filter (\<lambda>m. registry m \<noteq> None) (dict_keys (hm_model_states hm)) else [])"

definition run_health_checks ::
    "(string \<Rightarrow> bool \<times> int) \<Rightarrow> string list \<Rightarrow> heap \<times> health_manager \<Rightarrow> heap \<times> health_manager" where
  "run_health_checks probe order s =
     fold (\<lambda>m. check_single_model m (fst (probe m)) (snd (probe m))) order s"

section \<open>Queries and the admin switches\<close>

definition mark_tier :: "model_state \<Rightarrow> (string, bool) dict \<Rightarrow> (string, bool) dict" where
  "mark_tier st d =
     (let d = (if dict_has d (ms_tier st) then d else dict_set (ms_tier st) False d)
      in if ms_healthy st then dict_set (ms_tier st) True d else d)"

definition tiers_with_models :: "health_manager \<Rightarrow> (string, bool) dict" where
  "tiers_with_models hm = fold mark_tier (map snd (hm_model_states hm)) []"

definition is_ready :: "health_manager \<Rightarrow> bool" where
  "is_ready hm =
     (if tiers_with_models hm \<noteq> [] then (\<exists>b \<in> set (map snd (tiers_with_models hm)). b) else True)"

record model_health =
  mh_id :: string
  mh_provider :: string
  mh_model :: string
  mh_healthy :: bool
  mh_enabled :: bool
  mh_last_check_ms :: int
  mh_consecutive_failures :: int
  mh_tier :: string

definition get_model_health :: "heap \<Rightarrow> health_manager \<Rightarrow> model_health list" where
  "get_model_health h hm =
     map (\<lambda>(model_id, st).
        \<lparr>mh_id = model_id, mh_provider = mc_provider (h (ms_model_config st)),
         mh_model = mc_model (h (ms_model_config st)), mh_healthy = ms_healthy st,
         mh_enabled = mc_enabled (h (ms_model_config st)), mh_last_check_ms = ms_last_check_ms st,
         mh_consecutive_failures = ms_consecutive_failures st, mh_tier = ms_tier st\<rparr>)
       (hm_model_states hm)"

definition disable_model :: "string \<Rightarrow> heap \<times> health_manager \<Rightarrow> bool \<times> heap \<times> health_manager" where
  "disable_model model_id = (\<lambda>(h, hm).
     case dict_get (hm_model_states hm) model_id of
       None \<Rightarrow> (False, h, hm)
     | Some st \<Rightarrow>
         (let r = ms_model_config st
          in (True, h(r := (h r)\<lparr>mc_enabled := False\<rparr>),
              hm\<lparr>hm_model_states := dict_set model_id (st\<lparr>ms_healthy := False\<rparr>) (hm_model_states hm)\<rparr>)))"

definition enable_model :: "string \<Rightarrow> heap \<times> health_manager \<Rightarrow> bool \<times> heap \<times> health_manager" where
  "enable_model model_id = (\<lambda>(h, hm).
     case dict_get (hm_model_states hm) model_id of
       None \<Rightarrow> (False, h, hm)
     | Some st \<Rightarrow>
         (let r = ms_model_config st
          in (True, h(r := (h r)\<lparr>mc_enabled := True\<rparr>), hm)))"

section \<open>Facts\<close>

lemma check_state_simps [simp]:
  "ms_model_config (snd (check_state u t b e (h, st))) = ms_model_config st"
  "ms_tier (snd (check_state u t b e (h, st))) = ms_tier st"
  "ms_last_check_ms (snd (check_state u t b e (h, st))) = e"
  "ms_consecutive_failures (snd (check_state u t b e (h, st))) =
     (if b then 0 else ms_consecutive_failures st + 1)"
  "ms_consecutive_successes (snd (check_state u t b e (h, st))) =
     (if b then ms_consecutive_successes st + 1 else 0)"
  "ms_healthy (snd (check_state u t b e (h, st))) =
     (if b then ms_healthy st \<or> t \<le> ms_consecutive_successes st + 1
      else ms_healthy st \<and> ms_consecutive_failures st + 1 < u)"
  by (auto simp: check_state_def Let_def)

lemma check_state_heap:
  "fst (check_state u t b e (h, st)) =
     (if ms_healthy (snd (check_state u t b e (h, st))) = ms_healthy st then h
      else h(ms_model_config st :=
             (h (ms_model_config st))\<lparr>mc_healthy := ms_healthy (snd (check_state u t b e (h, st)))\<rparr>))"
  by (auto simp: check_state_def Let_def)

lemma check_state_keeps [simp]:
  "mc_enabled (fst (check_state u t b e (h, st)) r) = mc_enabled (h r)"
  "mc_id (fst (check_state u t b e (h, st)) r) = mc_id (h r)"
  by (simp_all add: check_state_heap)

lemma check_single_model_eq:
  "check_single_model m b e (h, hm) =
     (case dict_get (hm_model_states hm) m of
        None \<Rightarrow> (h, hm)
      | Some st \<Rightarrow>
          (let p = check_state (hm_unhealthy_threshold hm) (hm_healthy_threshold hm) b e (h, st)
           in (fst p, hm\<lparr>hm_model_states := dict_set m (snd p) (hm_model_states hm)\<rparr>)))"
  by (auto simp: check_single_model_def Let_def split: option.splits prod.splits)

text \<open>A sequence of probes of any models, in the order they end.\<close>

definition apply_checks ::
    "(string \<times> bool \<times> int) list \<Rightarrow> heap \<times> health_manager \<Rightarrow> heap \<times> health_manager" where
  "apply_checks cs s = fold (\<lambda>(m, b, e). check_single_model m b e) cs s"

lemma apply_checks_simps [simp]:
  "apply_checks [] s = s"
  "apply_checks (cs @ ds) s = apply_checks ds (apply_checks cs s)"
  "apply_checks ((m, b, e) # cs) s = apply_checks cs (check_single_model m b e s)"
  by (simp_all add: apply_checks_def)

lemma check_single_model_enabled:
  "mc_enabled (fst (check_single_model m b e s) r) = mc_enabled (fst s r)"
  by (cases s) (simp add: check_single_model_eq Let_def split: option.splits)

lemma apply_checks_enabled: "mc_enabled (fst (apply_checks cs s) r) = mc_enabled (fst s r)"
proof (induction cs arbitrary: s)
  case (Cons c cs)
  then show ?case by (cases c) (simp add: check_single_model_enabled)
qed simp

text \<open>The probes of one model, on its own state.\<close>

definition probe_run :: "int \<Rightarrow> int \<Rightarrow> (bool \<times> int) list \<Rightarrow> heap \<times> model_state \<Rightarrow> heap \<times> model_state" where
  "probe_run u t os s = fold (\<lambda>(b, e). check_state u t b e) os s"

lemma probe_run_simps [simp]:
  "probe_run u t [] s = s"
  "probe_run u t (os @ ps) s = probe_run u t ps (probe_run u t os s)"
  "probe_run u t ((b, e) # os) s = probe_run u t os (check_state u t b e s)"
  by (simp_all add: probe_run_def)

lemma checks_of_one_model:
  assumes "dict_get (hm_model_states hm) m = Some st"
    and "probe_run (hm_unhealthy_threshold hm) (hm_healthy_threshold hm) os (h, st) = (h', st')"
  shows "\<exists>hm'. apply_checks (map (Pair m) os) (h, hm) = (h', hm')
      \<and> dict_get (hm_model_states hm') m = Some st'"
  using assms
proof (induction os arbitrary: h hm st)
  case (Cons p os)
  obtain b e where p: "p = (b, e)" by (cases p)
  obtain h1 st1 where c: "check_state (hm_unhealthy_threshold hm) (hm_healthy_threshold hm) b e (h, st) = (h1, st1)"
    by (cases "check_state (hm_unhealthy_threshold hm) (hm_healthy_threshold hm) b e (h, st)")
  let ?hm = "hm\<lparr>hm_model_states := dict_set m st1 (hm_model_states hm)\<rparr>"
  have "\<exists>hm'. apply_checks (map (Pair m) os) (h1, ?hm) = (h', hm')
      \<and> dict_get (hm_model_states hm') m = Some st'"
    using Cons.prems p c by (intro Cons.IH) simp_all
  moreover have "check_single_model m b e (h, hm) = (h1, ?hm)"
    using Cons.prems(1) c by (simp add: check_single_model_def)
  ultimately show ?case by (simp add: p)
qed simp

text \<open>The state and the shared model object agree on health, and the streak counter.\<close>

definition coupled :: "heap \<times> model_state \<Rightarrow> bool" where
  "coupled s \<longleftrightarrow> mc_healthy (fst s (ms_model_config (snd s))) = ms_healthy (snd s)"

lemma coupled_check [inv_intros]: "coupled s \<Longrightarrow> coupled (check_state u t b e s)"
  by (cases s) (simp add: coupled_def check_state_heap)

lemma coupled_probe_run [inv_intros]: "coupled s \<Longrightarrow> coupled (probe_run u t os s)"
proof (induction os arbitrary: s)
  case (Cons p os)
  then show ?case by (cases p) (simp add: coupled_check)
qed simp

lemma coupled_after:
  "coupled (probe_run u t os s) \<longleftrightarrow>
     coupled s \<or> (\<exists>cs. prefix cs os \<and> ms_healthy (snd (probe_run u t cs s)) = (\<not> ms_healthy (snd s)))"
proof (induction os rule: rev_induct)
  case (snoc p os)
  obtain b e where p: "p = (b, e)" by (cases p)
  obtain h st where s: "probe_run u t os s = (h, st)" by (cases "probe_run u t os s")
  let ?fin = "check_state u t b e (h, st)"
  have last: "probe_run u t (os @ [p]) s = ?fin" by (simp add: p s)
  show ?case
  proof (cases "ms_healthy (snd ?fin) = ms_healthy st")
    case True
    then have "coupled ?fin = coupled (h, st)" by (simp add: coupled_def check_state_heap)
    moreover have "(\<exists>cs. prefix cs (os @ [p]) \<and> ms_healthy (snd (probe_run u t cs s)) = (\<not> ms_healthy (snd s)))
        \<longleftrightarrow> (\<exists>cs. prefix cs os \<and> ms_healthy (snd (probe_run u t cs s)) = (\<not> ms_healthy (snd s)))"
      using True last s by (auto simp: prefix_snoc simp del: probe_run_simps(2) intro: exI [of _ os])
    ultimately show ?thesis using snoc.IH s last by simp
  next
    case False
    then have "coupled ?fin" by (simp add: coupled_def check_state_heap)
    moreover have "ms_healthy (snd (probe_run u t os s)) = (\<not> ms_healthy (snd s))
        \<or> ms_healthy (snd (probe_run u t (os @ [p]) s)) = (\<not> ms_healthy (snd s))"
      using False last s by auto
    ultimately show ?thesis using last by (metis prefixI prefix_order.order_refl)
  qed
qed simp

lemma probe_run_ref [simp]:
  "ms_model_config (snd (probe_run u t os s)) = ms_model_config (snd s)"
proof (induction os arbitrary: s)
  case (Cons p os)
  then show ?case by (cases p; cases s) simp
qed simp

lemma failures_take_out:
  assumes "\<forall>x \<in> set os. \<not> fst x" and "os \<noteq> []" and "u \<le> ms_consecutive_failures (snd s) + int (length os)"
  shows "\<not> ms_healthy (snd (probe_run u t os s))"
  using assms
proof (induction os rule: rev_induct)
  case (snoc p os)
  have "\<forall>x \<in> set os. \<not> fst x \<Longrightarrow>
      ms_consecutive_failures (snd (probe_run u t os s)) = ms_consecutive_failures (snd s) + int (length os)"
    for os
  proof (induction os arbitrary: s)
    case (Cons q os)
    then show ?case by (cases q; cases s) simp
  qed simp
  then have "ms_consecutive_failures (snd (probe_run u t os s)) =
      ms_consecutive_failures (snd s) + int (length os)" using snoc.prems by simp
  with snoc.prems show ?case by (cases p; cases "probe_run u t os s") simp
qed simp

lemma successes_bring_back:
  assumes "\<forall>x \<in> set os. fst x" and "os \<noteq> []" and "t \<le> ms_consecutive_successes (snd s) + int (length os)"
  shows "ms_healthy (snd (probe_run u t os s))"
  using assms
proof (induction os rule: rev_induct)
  case (snoc p os)
  have "\<forall>x \<in> set os. fst x \<Longrightarrow>
      ms_consecutive_successes (snd (probe_run u t os s)) = ms_consecutive_successes (snd s) + int (length os)"
    for os
  proof (induction os arbitrary: s)
    case (Cons q os)
    then show ?case by (cases q; cases s) simp
  qed simp
  then have "ms_consecutive_successes (snd (probe_run u t os s)) =
      ms_consecutive_successes (snd s) + int (length os)" using snoc.prems by simp
  with snoc.prems show ?case by (cases p; cases "probe_run u t os s") simp
qed simp

text \<open>From a fresh state, being unhealthy means that a full streak of failures has occurred.\<close>

lemma fresh_streak:
  assumes "ms_consecutive_failures (snd s) = 0" and "ms_healthy (snd s)"
  shows "ms_consecutive_failures (snd (probe_run u t os s)) = int (length (takeWhile (\<lambda>x. \<not> fst x) (rev os)))
    \<and> (ms_healthy (snd (probe_run u t os s)) \<or> (\<exists>run. sublist run os \<and> u \<le> int (length run) \<and> (\<forall>x \<in> set run. \<not> fst x)))"
proof (induction os rule: rev_induct)
  case (snoc p os)
  obtain b e where p: "p = (b, e)" by (cases p)
  let ?s = "probe_run u t os s" and ?run = "rev (takeWhile (\<lambda>x. \<not> fst x) (rev os))"
  obtain h st where s: "?s = (h, st)" by (cases ?s)
  have "suffix ?run os"
    by (metis rev_rev_ident suffix_to_prefix takeWhile_is_prefix)
  then obtain pre where "os = pre @ ?run" by (auto simp: suffix_def)
  then have sub: "\<not> b \<Longrightarrow> sublist (?run @ [p]) (os @ [p])"
    by (metis append.assoc sublist_append_leftI sublist_order.order_refl)
  have all: "\<forall>x \<in> set ?run. \<not> fst x" using set_takeWhileD by fastforce
  have mono: "sublist run os \<Longrightarrow> sublist run (os @ [p])" for run
    by (meson sublist_append_rightI sublist_order.order.trans)
  show ?case
  proof (cases "b \<or> ms_healthy st \<and> ms_consecutive_failures st + 1 < u \<or> \<not> ms_healthy st")
    case True
    with snoc.IH p s mono show ?thesis by (cases b) auto
  next
    case False
    with snoc.IH s have "u \<le> int (length (?run @ [p]))" by auto
    with False snoc.IH p s sub all show ?thesis
      by (intro conjI disjI2 exI [of _ "?run @ [p]"]) auto
  qed
qed (use assms in simp)

lemma track_model_healthy:
  "dict_get states m = Some st \<Longrightarrow>
   \<exists>st'. dict_get (track_model h tier r states) m = Some st' \<and> ms_healthy st' = ms_healthy st"
  by (auto simp: track_model_def split: option.splits)

lemma fold_track_healthy:
  "dict_get states m = Some st \<Longrightarrow>
   \<exists>st'. dict_get (fold (\<lambda>(tier, model). track_model h tier model) ms states) m = Some st'
       \<and> ms_healthy st' = ms_healthy st"
proof (induction ms arbitrary: states st)
  case (Cons p ms)
  obtain tier r where p: "p = (tier, r)" by (cases p)
  from track_model_healthy [OF Cons.prems] obtain st1
    where "dict_get (track_model h tier r states) m = Some st1" "ms_healthy st1 = ms_healthy st" by blast
  with Cons.IH [OF this(1)] p show ?case by simp
qed simp

lemma config_models_mem:
  "(tier, r) \<in> set (config_models cfg) \<longleftrightarrow>
   (\<exists>tc. (tier, tc) \<in> set (rc_tiers cfg) \<and> r \<in> set (tier_models tc))"
  by (force simp: config_models_def)

lemma update_keeps_health:
  assumes "dict_get (hm_model_states hm) m = Some st"
    and "(tier, r) \<in> set (config_models cfg)" and "mc_id (h r) = m"
  shows "\<exists>st'. dict_get (hm_model_states (hm_update_from_config h cfg hm)) m = Some st'
      \<and> ms_healthy st' = ms_healthy st"
proof -
  have "m \<in> (\<lambda>(tier, model). mc_id (h model)) ` set (config_models cfg)"
    using assms(2,3) by force
  with fold_track_healthy [OF assms(1), of h "config_models cfg"] show ?thesis
    by (simp add: hm_update_from_config_def Let_def dict_get_filter_key)
qed

lemma unhealthy_failures_silent:
  assumes "\<not> ms_healthy (snd s)" and "\<forall>x \<in> set os. \<not> fst x"
  shows "fst (probe_run u t os s) = fst s"
  using assms
proof (induction os arbitrary: s)
  case (Cons p os)
  obtain h st where "s = (h, st)" by (cases s)
  with Cons show ?case by (cases p) (simp add: check_state_heap)
qed simp

lemma mark_tier_get:
  "dict_get (mark_tier st d) k =
     (if k = ms_tier st then Some (ms_healthy st \<or> dict_get d k = Some True) else dict_get d k)"
  by (auto simp: mark_tier_def Let_def dict_has_def)

lemma fold_mark_tier_True:
  "dict_get (fold mark_tier sts d) k = Some True \<longleftrightarrow>
   dict_get d k = Some True \<or> (\<exists>st \<in> set sts. ms_tier st = k \<and> ms_healthy st)"
  by (induction sts arbitrary: d) (auto simp: mark_tier_get split: if_splits)

lemma fold_mark_tier_None:
  "dict_get (fold mark_tier sts d) k = None \<longleftrightarrow>
   dict_get d k = None \<and> (\<forall>st \<in> set sts. ms_tier st \<noteq> k)"
  by (induction sts arbitrary: d) (auto simp: mark_tier_get split: if_splits)

lemma fold_mark_tier_ok: "dict_ok d \<Longrightarrow> dict_ok (fold mark_tier sts d)"
  by (induction sts arbitrary: d) (auto simp: mark_tier_def Let_def)

lemma dict_values_True:
  "dict_ok d \<Longrightarrow> (\<exists>b \<in> set (map snd d). b) \<longleftrightarrow> (\<exists>k. dict_get d k = Some True)"
  by (auto dest: dict_ok_get dict_get_mem) (metis (full_types) dict_get_mem snd_conv)

definition counters_ok :: "model_state \<Rightarrow> bool" where
  "counters_ok st \<longleftrightarrow> 0 \<le> ms_consecutive_failures st \<and> 0 \<le> ms_consecutive_successes st"

lemma counters_ok_probe_run [inv_intros]:
  "counters_ok (snd s) \<Longrightarrow> counters_ok (snd (probe_run u t os s))"
proof (induction os arbitrary: s)
  case (Cons p os)
  obtain h st where "s = (h, st)" by (cases s)
  with Cons show ?case by (cases p) (simp add: counters_ok_def)
qed simp

section \<open>Properties\<close>


text \<open>
  (a disabled model is never offered): after an administrator disables a tracked model, no
  sequence of health checks, of this model or of others, makes the resolver offer its
  configuration again, in any tier of any configuration.
\<close>

theorem disabled_never_offered:
  assumes "dict_get (hm_model_states hm) m = Some st"
    and "disable_model m (h, hm) = (ok, h1, hm1)"
    and "apply_checks cs (h1, hm1) = (h2, hm2)"
  shows "ok \<and> (\<forall>cfg tier. ms_model_config st \<notin> set (get_models_for_tier h2 cfg tier))"
proof -
  have "ok \<and> \<not> mc_enabled (h1 (ms_model_config st))"
    using assms(1,2) by (auto simp: disable_model_def Let_def)
  moreover have "mc_enabled (h2 r) = mc_enabled (h1 r)" for r
    using apply_checks_enabled [of cs "(h1, hm1)" r] assms(3) by simp
  ultimately show ?thesis by (simp add: get_models_for_tier_mem)
qed

text \<open>
  (a reload puts an unhealthy model back for good): when a model is unhealthy and a
  configuration is loaded that lists it again, as a fresh object that is healthy and enabled,
  the resolver offers it, and no number of further failed probes takes it out: the manager
  remembers it as unhealthy and so never writes the fresh object.
\<close>

theorem reload_readmits_unhealthy:
  assumes "dict_get (hm_model_states hm) m = Some st" and "\<not> ms_healthy st"
    and "dict_get (rc_tiers cfg) tier = Some tc" and "r \<in> set (tier_models tc)"
    and "mc_id (h r) = m" and "mc_healthy (h r)" and "mc_enabled (h r)"
    and "\<forall>x \<in> set os. \<not> fst x"
    and "apply_checks (map (Pair m) os) (h, hm_update_from_config h cfg hm) = (h', hm')"
  shows "r \<in> set (get_models_for_tier h' cfg tier)"
proof -
  let ?hm = "hm_update_from_config h cfg hm"
  have "(tier, r) \<in> set (config_models cfg)"
    using assms(3,4) dict_get_mem by (fastforce simp: config_models_mem)
  from update_keeps_health [OF assms(1) this, of h] assms(2,5) obtain st1
    where st1: "dict_get (hm_model_states ?hm) m = Some st1" "\<not> ms_healthy st1" by blast
  let ?run = "probe_run (hm_unhealthy_threshold ?hm) (hm_healthy_threshold ?hm) os (h, st1)"
  have "?run = (h, snd ?run)"
    using unhealthy_failures_silent [of "(h, st1)" os] st1(2) assms(8) by (intro prod_eqI) simp_all
  from checks_of_one_model [OF st1(1) this] assms(9) have "h' = h" by simp
  with assms show ?thesis by (auto simp: get_models_for_tier_mem)
qed

text \<open>
  (enabling does not wait for a check): disabling a model whose configuration is
  healthy and enabling it again offers it at once, while the manager still reports it
  unhealthy.
\<close>

theorem enable_readmits_at_once:
  assumes "dict_get (hm_model_states hm) m = Some st"
    and "ms_model_config st \<in> set (get_models_for_tier h cfg tier)"
    and "disable_model m (h, hm) = (True, h1, hm1)" and "enable_model m (h1, hm1) = (ok, h2, hm2)"
  shows "ok \<and> ms_model_config st \<in> set (get_models_for_tier h2 cfg tier)
       \<and> map_option ms_healthy (dict_get (hm_model_states hm2) m) = Some False"
  using assms by (auto simp: disable_model_def enable_model_def Let_def get_models_for_tier_mem)

text \<open>
  (readiness): the gateway reports ready exactly when it tracks no model or tracks at
  least one healthy model, in whichever tier.
\<close>

theorem is_ready_iff:
  "is_ready hm \<longleftrightarrow>
     hm_model_states hm = [] \<or> (\<exists>st \<in> set (map snd (hm_model_states hm)). ms_healthy st)"
proof -
  let ?sts = "map snd (hm_model_states hm)" and ?d = "tiers_with_models hm"
  have "(\<exists>b \<in> set (map snd ?d). b) \<longleftrightarrow> (\<exists>k. dict_get ?d k = Some True)"
    by (intro dict_values_True) (simp add: tiers_with_models_def fold_mark_tier_ok)
  also have "\<dots> \<longleftrightarrow> (\<exists>st \<in> set ?sts. ms_healthy st)"
    unfolding tiers_with_models_def fold_mark_tier_True by auto
  finally have 1: "(\<exists>b \<in> set (map snd ?d). b) \<longleftrightarrow> (\<exists>st \<in> set ?sts. ms_healthy st)" .
  have "?d = [] \<longleftrightarrow> (\<forall>k. dict_get ?d k = None)"
    by (metis list.set_cases map_of_eq_None_iff empty_iff list.set(1) map_of.simps(1)
        neq_Nil_conv image_eqI list.set_intros(1))
  also have "\<dots> \<longleftrightarrow> hm_model_states hm = []"
    unfolding tiers_with_models_def fold_mark_tier_None by (cases "hm_model_states hm") auto
  finally show ?thesis unfolding is_ready_def using 1 by auto
qed

section \<open>Witnesses\<close>

definition sample_manager :: health_manager where
  "sample_manager =
     hm_update_from_config sample_heap sample_config (init_health_manager 30 5000 3 1)"

lemma sample_manager_get:
  "dict_get (hm_model_states sample_manager) ''medium'' = Some (new_model_state 1 ''mid'')"
  "hm_unhealthy_threshold sample_manager = 3" "hm_healthy_threshold sample_manager = 1"
  by (simp_all add: sample_manager_def hm_update_from_config_def init_health_manager_def
      config_models_def sample_config_def track_model_def sample_heap_def sample_model_def Let_def)


theorem disabled_never_offered_witness:
  "\<exists>h1 hm1 h2 hm2. disable_model ''medium'' (sample_heap, sample_manager) = (True, h1, hm1)
     \<and> apply_checks [(''medium'', True, 15), (''small'', False, 9)] (h1, hm1) = (h2, hm2)
     \<and> (\<forall>cfg tier. 1 \<notin> set (get_models_for_tier h2 cfg tier))"
proof -
  obtain ok h1 hm1 where d: "disable_model ''medium'' (sample_heap, sample_manager) = (ok, h1, hm1)"
    by (metis surj_pair)
  obtain h2 hm2 where c: "apply_checks [(''medium'', True, 15), (''small'', False, 9)] (h1, hm1) = (h2, hm2)"
    by (metis surj_pair)
  from disabled_never_offered [OF sample_manager_get(1) d c] d c show ?thesis
    by (simp add: new_model_state_def)
qed

theorem enable_readmits_at_once_witness:
  "\<exists>h1 hm1 h2 hm2. disable_model ''medium'' (sample_heap, sample_manager) = (True, h1, hm1)
     \<and> enable_model ''medium'' (h1, hm1) = (True, h2, hm2)
     \<and> 1 \<in> set (get_models_for_tier h2 sample_config ''mid'')"
proof -
  let ?st = "new_model_state 1 ''mid''"
  obtain h1 hm1 where d: "disable_model ''medium'' (sample_heap, sample_manager) = (True, h1, hm1)"
    by (simp add: disable_model_def sample_manager_get Let_def)
  obtain ok h2 hm2 where e: "enable_model ''medium'' (h1, hm1) = (ok, h2, hm2)"
    by (metis surj_pair)
  have "ms_model_config ?st \<in> set (get_models_for_tier sample_heap sample_config ''mid'')"
    by (simp add: get_models_for_tier_def sample_config_def sample_heap_def sample_model_def new_model_state_def)
  from enable_readmits_at_once [OF sample_manager_get(1) this d e] d e show ?thesis
    by (simp add: new_model_state_def)
qed

definition reloaded_heap :: heap where
  "reloaded_heap r = (if r = 1 then (sample_model ''medium'')\<lparr>mc_healthy := False\<rparr>
                      else if r = 5 then sample_model ''medium'' else sample_heap r)"

definition reloaded_config :: routing_config where
  "reloaded_config = sample_config\<lparr>rc_tiers := [(''mid'', \<lparr>tier_models = [5]\<rparr>)]\<rparr>"

definition failing_manager :: health_manager where
  "failing_manager = (init_health_manager 30 5000 3 1)
     \<lparr>hm_model_states := [(''medium'', (new_model_state 1 ''mid'')\<lparr>ms_healthy := False, ms_consecutive_failures := 3\<rparr>)]\<rparr>"

theorem reload_readmits_unhealthy_witness:
  "\<exists>h' hm'. apply_checks (map (Pair ''medium'') [(False, 40), (False, 40), (False, 40), (False, 40)])
        (reloaded_heap, hm_update_from_config reloaded_heap reloaded_config failing_manager) = (h', hm')
     \<and> 5 \<in> set (get_models_for_tier h' reloaded_config ''mid'')"
proof -
  let ?st = "(new_model_state 1 ''mid'')\<lparr>ms_healthy := False, ms_consecutive_failures := 3\<rparr>"
  obtain h' hm' where r: "apply_checks (map (Pair ''medium'') [(False, 40), (False, 40), (False, 40), (False, 40)])
        (reloaded_heap, hm_update_from_config reloaded_heap reloaded_config failing_manager) = (h', hm')"
    by (metis surj_pair)
  have "dict_get (hm_model_states failing_manager) ''medium'' = Some ?st" "\<not> ms_healthy ?st"
    "dict_get (rc_tiers reloaded_config) ''mid'' = Some \<lparr>tier_models = [5]\<rparr>"
    "5 \<in> set (tier_models \<lparr>tier_models = [5]\<rparr>)" "mc_id (reloaded_heap 5) = ''medium''"
    "mc_healthy (reloaded_heap 5)" "mc_enabled (reloaded_heap 5)"
    by (simp_all add: failing_manager_def reloaded_config_def reloaded_heap_def sample_model_def)
  from reload_readmits_unhealthy [OF this _ r] r show ?thesis by simp
qed

end
