(* ===== verification/Gw_Metrics.thy ===== *)
theory Gw_Metrics
  imports Gw_Models
begin

text \<open>
  The in-memory metrics of the admin API (\<^verbatim>\<open>MetricsStore\<close> of \<^verbatim>\<open>llm-gateway/src/main.py\<close>). An entry
  is the dictionary the completion handler records; the keys the error entry lacks are
  optional fields. \<^verbatim>\<open>int()\<close> of a malformed window raises ValueError.
\<close>

datatype metrics_error = ValueError

record metric_entry =
  me_timestamp :: real
  me_task :: string
  me_agent :: "string option"
  me_model_used :: string
  me_tier_used :: string
  me_latency_ms :: int
  me_error :: bool
  me_escalated :: bool
  me_confidence :: real
  me_tenant_id :: string
  me_cost_usd :: "real option"
  me_input_tokens :: "int option"
  me_output_tokens :: "int option"
  me_trace_id :: "string option"
  me_variant :: "string option"

type_synonym metrics_store = "metric_entry list"

definition max_records :: nat where
  "max_records = 100000"

definition metrics_record :: "metric_entry \<Rightarrow> metrics_store \<Rightarrow> metrics_store" where
  "metrics_record entry records =
     (let records = records @ [entry]
      in if max_records < length records then drop (max_records div 2) records else records)"

section \<open>Windows\<close>

text \<open>
  \<^verbatim>\<open>int(s)\<close> for a string: surrounding white space, a sign, and digits in which single
  underscores may separate digits.
\<close>

definition dec_digit :: "char \<Rightarrow> nat option" where
  "dec_digit c =
     (let n = of_char c :: nat in if 48 \<le> n \<and> n \<le> 57 then Some (n - 48) else None)"

fun dec_value :: "string \<Rightarrow> bool \<Rightarrow> nat \<Rightarrow> nat option" where
  "dec_value [] after_digit acc = (if after_digit then Some acc else None)"
| "dec_value (c # cs) after_digit acc =
     (if c = CHR ''_'' then (if after_digit then dec_value cs False acc else None)
      else case dec_digit c of
             None \<Rightarrow> None
           | Some d \<Rightarrow> dec_value cs True (10 * acc + d))"

definition py_int :: "string \<Rightarrow> int option" where
  "py_int s =
     (case str_strip s of
        [] \<Rightarrow> None
      | c # cs \<Rightarrow>
          if c = CHR ''-'' then map_option (\<lambda>n. - int n) (dec_value cs False 0)
          else if c = CHR ''+'' then map_option int (dec_value cs False 0)
          else map_option int (dec_value (c # cs) False 0))"

definition parse_window :: "string \<Rightarrow> metrics_error + int" where
  "parse_window window =
     (let num = (\<lambda>k. case py_int (butlast window) of None \<Rightarrow> Inl ValueError | Some n \<Rightarrow> Inr (n * k))
      in if str_endswith window ''h'' then num 3600
         else if str_endswith window ''m'' then num 60
         else if str_endswith window ''s'' then num 1
         else Inr 3600)"

section \<open>Summaries\<close>

record metrics_response =
  mr_window :: string
  mr_total_requests :: int
  mr_by_task :: "(string, int) dict"
  mr_by_model :: "(string, int) dict"
  mr_by_tier :: "(string, int) dict"
  mr_avg_latency_ms :: real
  mr_error_rate :: real
  mr_escalation_rate :: real

definition empty_summary :: "string \<Rightarrow> metrics_response" where
  "empty_summary window =
     \<lparr>mr_window = window, mr_total_requests = 0, mr_by_task = [], mr_by_model = [], mr_by_tier = [],
      mr_avg_latency_ms = 0, mr_error_rate = 0, mr_escalation_rate = 0\<rparr>"

definition bump :: "string \<Rightarrow> (string, int) dict \<Rightarrow> (string, int) dict" where
  "bump k d = dict_set k (dict_get_default d k 0 + 1) d"

definition tally :: "(metric_entry \<Rightarrow> string) \<Rightarrow> metrics_store \<Rightarrow> (string, int) dict" where
  "tally f records = fold (\<lambda>r. bump (f r)) records []"

definition get_summary :: "real \<Rightarrow> string \<Rightarrow> metrics_store \<Rightarrow> metrics_error + metrics_response" where
  "get_summary now window records =
     (case parse_window window of
        Inl e \<Rightarrow> Inl e
      | Inr window_seconds \<Rightarrow>
          (let cutoff = now - real_of_int window_seconds;
               filtered = filter (\<lambda>r. cutoff \<le> me_timestamp r) records;
               total = length filtered
           in if filtered = [] then Inr (empty_summary window)
              else Inr \<lparr>mr_window = window, mr_total_requests = int total,
                mr_by_task = tally me_task filtered, mr_by_model = tally me_model_used filtered,
                mr_by_tier = tally me_tier_used filtered,
                mr_avg_latency_ms = sum_list (map (real_of_int \<circ> me_latency_ms) filtered) / real total,
                mr_error_rate = real (count_if me_error filtered) / real total,
                mr_escalation_rate = real (count_if me_escalated filtered) / real total\<rparr>))"

record task_metrics =
  tm_task :: string
  tm_total_requests :: int
  tm_avg_latency_ms :: real
  tm_avg_confidence :: real
  tm_error_rate :: real
  tm_escalation_rate :: real

text \<open>With no recent record the answer has only the task and a zero total.\<close>

definition get_task_metrics :: "real \<Rightarrow> string \<Rightarrow> metrics_store \<Rightarrow> string + task_metrics" where
  "get_task_metrics now task records =
     (let cutoff = now - 3600;
          filtered = filter (\<lambda>r. me_task r = task \<and> cutoff \<le> me_timestamp r) records;
          total = length filtered
      in if filtered = [] then Inl task
         else Inr \<lparr>tm_task = task, tm_total_requests = int total,
           tm_avg_latency_ms = sum_list (map (real_of_int \<circ> me_latency_ms) filtered) / real total,
           tm_avg_confidence = sum_list (map me_confidence filtered) / real total,
           tm_error_rate = real (count_if me_error filtered) / real total,
           tm_escalation_rate = real (count_if me_escalated filtered) / real total\<rparr>)"

section \<open>Facts\<close>

lemma bump_get: "dict_get_default (bump k d) x 0 = dict_get_default d x 0 + (if x = k then 1 else 0)"
  by (simp add: bump_def)

lemma tally_from: "dict_get_default (fold (\<lambda>r. bump (f r)) rs d) k 0 =
   dict_get_default d k 0 + int (count_if (\<lambda>r. f r = k) rs)"
  by (induction rs arbitrary: d) (auto simp: bump_get)

lemma tally_count: "dict_get_default (tally f rs) k 0 = int (count_if (\<lambda>r. f r = k) rs)"
  by (simp add: tally_def tally_from)

lemma metrics_record_length: "length records \<le> max_records \<Longrightarrow> length (metrics_record e records) \<le> max_records"
  by (auto simp: metrics_record_def max_records_def Let_def)

text \<open>The store is the end of everything recorded, within its two size bounds.\<close>

definition store_of :: "metric_entry list \<Rightarrow> metrics_store \<Rightarrow> bool" where
  "store_of es records \<longleftrightarrow>
     suffix records es \<and> length records \<le> max_records \<and> min (length es) (max_records div 2) \<le> length records"

lemma store_of_record: "store_of es records \<Longrightarrow> store_of (es @ [e]) (metrics_record e records)"
proof -
  assume a: "store_of es records"
  then have "suffix (records @ [e]) (es @ [e])" by (auto simp: store_of_def suffix_def)
  then have "suffix (metrics_record e records) (es @ [e])"
    by (auto simp: metrics_record_def Let_def intro: suffix_order.trans suffix_drop)
  with a metrics_record_length show ?thesis
    by (auto simp: store_of_def metrics_record_def max_records_def Let_def)
qed

section \<open>Properties\<close>

text \<open>
  (the metrics store is bounded and keeps the newest): whatever is recorded into an empty store,
  the store holds at most 100,000 entries, they are the most recent ones in order, and at
  least the last 50,000 are there.
\<close>

theorem metrics_store_recent:
  "suffix (fold metrics_record es []) es
   \<and> length (fold metrics_record es []) \<le> 100000
   \<and> min (length es) 50000 \<le> length (fold metrics_record es [])"
proof -
  have "store_of es (fold metrics_record es [])"
  proof (induction es rule: rev_induct)
    case (snoc e es)
    then show ?case by (simp add: store_of_record)
  qed (simp add: store_of_def)
  then show ?thesis by (simp add: store_of_def max_records_def)
qed

text \<open>
  (the metrics summary is consistent): a summary counts exactly the records inside the window;
  each tally gives, for every key, the number of those records with that key; the error and
  escalation rates lie between 0 and 1.
\<close>

theorem summary_consistent:
  assumes "get_summary now window records = Inr r" and "parse_window window = Inr secs"
    and "recent = filter (\<lambda>e. now - real_of_int secs \<le> me_timestamp e) records"
  shows "mr_total_requests r = int (length recent)
    \<and> dict_get_default (mr_by_task r) k 0 = int (count_if (\<lambda>e. me_task e = k) recent)
    \<and> dict_get_default (mr_by_model r) k 0 = int (count_if (\<lambda>e. me_model_used e = k) recent)
    \<and> dict_get_default (mr_by_tier r) k 0 = int (count_if (\<lambda>e. me_tier_used e = k) recent)
    \<and> 0 \<le> mr_error_rate r \<and> mr_error_rate r \<le> 1
    \<and> 0 \<le> mr_escalation_rate r \<and> mr_escalation_rate r \<le> 1"
proof (cases "recent = []")
  case True
  with assms have "r = empty_summary window" by (simp add: get_summary_def Let_def)
  with True show ?thesis by (simp add: empty_summary_def)
next
  case False
  with assms(1,2) show ?thesis
    unfolding assms(3) by (auto simp: get_summary_def Let_def tally_count count_if_rate)
qed

definition sample_entry :: "real \<Rightarrow> bool \<Rightarrow> metric_entry" where
  "sample_entry t err =
     \<lparr>me_timestamp = t, me_task = ''chat'', me_agent = Some ''assistant'', me_model_used = ''small'',
      me_tier_used = ''fast'', me_latency_ms = 120, me_error = err, me_escalated = False,
      me_confidence = 0.8, me_tenant_id = ''acme'', me_cost_usd = None, me_input_tokens = None,
      me_output_tokens = None, me_trace_id = None, me_variant = None\<rparr>"

theorem summary_consistent_witness:
  "\<exists>r. get_summary 7300 ''1h'' [sample_entry 100 False, sample_entry 4000 True, sample_entry 7000 False] = Inr r
     \<and> mr_total_requests r = 2 \<and> dict_get_default (mr_by_task r) ''chat'' 0 = 2"
proof -
  let ?rs = "[sample_entry 100 False, sample_entry 4000 True, sample_entry 7000 False]"
  have w: "parse_window ''1h'' = Inr 3600"
    by (simp add: parse_window_def str_endswith_def suffix_to_prefix py_int_def str_strip_def str_lstrip_def py_space_def
        dec_digit_def Let_def)
  then obtain r where r: "get_summary 7300 ''1h'' ?rs = Inr r"
    by (simp add: get_summary_def Let_def sample_entry_def)
  have f: "filter (\<lambda>e. 7300 - real_of_int 3600 \<le> me_timestamp e) ?rs = [sample_entry 4000 True, sample_entry 7000 False]"
    by (simp add: sample_entry_def)
  from summary_consistent [OF r w f [symmetric], of "''chat''"] r show ?thesis
    by (simp add: sample_entry_def)
qed

end
