(* ===== verification/Gw_Providers.thy ===== *)
theory Gw_Providers
  imports Gw_Resolver
begin

text \<open>
  Provider adapters (\<^verbatim>\<open>llm-gateway/src/providers/\<close>): the abstract adapter and the registry of
  \<^verbatim>\<open>base.py\<close>, the factory \<^verbatim>\<open>create_provider_adapter\<close> of \<^verbatim>\<open>main.py\<close>, and of the three adapters
  the request bodies they build and the cost they estimate.

  The answer of a provider to a body comes from outside: an adapter is a record of its abstract
  methods, where \<open>ad_complete\<close> maps a request and the state of the outside world to a
  response, or None when it raises (\<^verbatim>\<open>ProviderError\<close> or anything else, which the caller treats
  alike), and the next world.
\<close>

section \<open>base.py\<close>

record 'w adapter =
  ad_complete :: "normalized_request \<Rightarrow> 'w \<Rightarrow> normalized_response option \<times> 'w"
  ad_estimate_cost :: "int \<Rightarrow> int \<Rightarrow> real"

definition base_estimate_cost :: "int \<Rightarrow> int \<Rightarrow> real" where
  "base_estimate_cost n_in n_out = 0"

type_synonym 'a provider_registry = "(string, 'a) dict"

definition register :: "string \<Rightarrow> 'a \<Rightarrow> 'a provider_registry \<Rightarrow> 'a provider_registry" where
  "register model_id adapter registry = dict_set model_id adapter registry"

definition registry_get :: "'a provider_registry \<Rightarrow> string \<Rightarrow> 'a option" where
  "registry_get registry model_id = dict_get registry model_id"

definition all_adapters :: "'a provider_registry \<Rightarrow> (string, 'a) dict" where
  "all_adapters registry = registry"

definition close_all :: "'a provider_registry \<Rightarrow> 'a provider_registry" where
  "close_all registry = []"

section \<open>The factory\<close>

record gateway_settings =
  st_service_auth_enabled :: bool
  st_aws_region :: string
  st_anthropic_api_key :: "string option"
  st_openai_api_key :: "string option"

datatype adapter_spec =
    BedrockAdapter ref string
  | AnthropicAdapter ref
  | OpenAICompatAdapter ref

text \<open>A missing key is filled in from the settings in the shared \<^verbatim>\<open>ModelConfig\<close> itself.\<close>

definition create_provider_adapter ::
    "gateway_settings \<Rightarrow> ref \<Rightarrow> heap \<Rightarrow> adapter_spec \<times> heap" where
  "create_provider_adapter settings r h =
     (let provider = str_lower (mc_provider (h r));
          with_key = (\<lambda>k. h(r := (h r)\<lparr>mc_api_key := k\<rparr>))
      in if provider = ''bedrock'' then (BedrockAdapter r (st_aws_region settings), h)
         else if provider = ''anthropic'' then
           (AnthropicAdapter r,
            if mc_api_key (h r) = [] \<and> str_truthy (st_anthropic_api_key settings)
            then with_key (the (st_anthropic_api_key settings)) else h)
         else
           (OpenAICompatAdapter r,
            if mc_api_key (h r) = [] \<and> str_truthy (st_openai_api_key settings) \<and> provider = ''openai''
            then with_key (the (st_openai_api_key settings)) else h))"

text \<open>Start-up registers one adapter per configured model.\<close>

fun register_models ::
    "gateway_settings \<Rightarrow> ref list \<Rightarrow> adapter_spec provider_registry \<times> heap \<Rightarrow>
     adapter_spec provider_registry \<times> heap" where
  "register_models settings [] s = s"
| "register_models settings (r # rs) (registry, h) =
     (let (adapter, h') = create_provider_adapter settings r h
      in register_models settings rs (register (mc_id (h r)) adapter registry, h'))"

section \<open>Costs\<close>

definition anthropic_pricing :: "(string, real \<times> real) dict" where
  "anthropic_pricing =
     [(''claude-haiku-4-5-20251001'', (0.0008, 0.004)),
      (''claude-sonnet-4-20250514'', (0.003, 0.015)),
      (''claude-opus-4-20250514'', (0.015, 0.075)),
      (''claude-3-5-sonnet-20241022'', (0.003, 0.015)),
      (''claude-3-5-haiku-20241022'', (0.001, 0.005)),
      (''claude-3-opus-20240229'', (0.015, 0.075))]"

definition bedrock_pricing :: "(string, real \<times> real) dict" where
  "bedrock_pricing =
     [(''anthropic.claude-3-haiku-20240307-v1:0'', (0.00025, 0.00125)),
      (''anthropic.claude-3-5-sonnet-20241022-v2:0'', (0.003, 0.015)),
      (''anthropic.claude-3-5-sonnet-20240620-v1:0'', (0.003, 0.015)),
      (''anthropic.claude-3-opus-20240229-v1:0'', (0.015, 0.075)),
      (''us.anthropic.claude-sonnet-4-20250514-v1:0'', (0.003, 0.015)),
      (''us.anthropic.claude-opus-4-20250514-v1:0'', (0.015, 0.075))]"

definition estimate_by_pricing :: "(string, real \<times> real) dict \<Rightarrow> string \<Rightarrow> int \<Rightarrow> int \<Rightarrow> real" where
  "estimate_by_pricing pricing model n_in n_out =
     (case dict_get pricing model of
        None \<Rightarrow> (real_of_int n_in * 0.003 + real_of_int n_out * 0.015) / 1000
      | Some (input_rate, output_rate) \<Rightarrow>
          (real_of_int n_in * input_rate + real_of_int n_out * output_rate) / 1000)"

definition anthropic_estimate_cost :: "string \<Rightarrow> int \<Rightarrow> int \<Rightarrow> real" where
  "anthropic_estimate_cost model n_in n_out = estimate_by_pricing anthropic_pricing model n_in n_out"

definition bedrock_estimate_cost :: "string \<Rightarrow> int \<Rightarrow> int \<Rightarrow> real" where
  "bedrock_estimate_cost model n_in n_out = estimate_by_pricing bedrock_pricing model n_in n_out"

definition openai_estimate_cost :: "int \<Rightarrow> int \<Rightarrow> real" where
  "openai_estimate_cost n_in n_out = 0"

fun spec_estimate_cost :: "heap \<Rightarrow> adapter_spec \<Rightarrow> int \<Rightarrow> int \<Rightarrow> real" where
  "spec_estimate_cost h (BedrockAdapter r region) = bedrock_estimate_cost (mc_model (h r))"
| "spec_estimate_cost h (AnthropicAdapter r) = anthropic_estimate_cost (mc_model (h r))"
| "spec_estimate_cost h (OpenAICompatAdapter r) = openai_estimate_cost"

section \<open>Request bodies\<close>

definition opt_field :: "bool \<Rightarrow> string \<Rightarrow> json \<Rightarrow> (string \<times> json) list" where
  "opt_field b k v = (if b then [(k, v)] else [])"

text \<open>\<^verbatim>\<open>json.loads\<close> of the arguments, with the empty object for text that is not JSON.\<close>

definition tool_input :: "tool_call \<Rightarrow> json option" where
  "tool_input tc =
     (case json_loads (tcf_arguments (tc_function tc)) of
        Inr v \<Rightarrow> Some v
      | Inl DecodeError \<Rightarrow> Some (JObj [])
      | Inl _ \<Rightarrow> None)"

definition tool_schema :: "tool \<Rightarrow> json" where
  "tool_schema t =
     (if tf_parameters (tool_function t) \<noteq> [] then JObj (tf_parameters (tool_function t))
      else jobj [(''type'', jstr ''object''), (''properties'', JObj [])])"

definition has_tool_calls :: "message \<Rightarrow> bool" where
  "has_tool_calls msg \<longleftrightarrow> msg_tool_calls msg \<noteq> None \<and> msg_tool_calls msg \<noteq> Some []"

definition text_block :: "message \<Rightarrow> json list" where
  "text_block msg =
     (if str_truthy (msg_content msg)
      then [jobj [(''type'', jstr ''text''), (''text'', jstr (the (msg_content msg)))]] else [])"

definition anthropic_tool_use :: "tool_call \<Rightarrow> json option" where
  "anthropic_tool_use tc =
     map_option (\<lambda>v. jobj [(''type'', jstr ''tool_use''), (''id'', JStr (tc_id tc)),
         (''name'', JStr (tcf_name (tc_function tc))), (''input'', v)])
       (tool_input tc)"

text \<open>
  One message of the Anthropic body: None for a raised error, \<open>Some None\<close> for a message that
  is left out.
\<close>

definition anthropic_message :: "message \<Rightarrow> json option option" where
  "anthropic_message msg =
     (if msg_role msg = SYSTEM then Some None
      else
        let out = (\<lambda>role content.
              if content = [] then None
              else Some (jobj [(''role'', jstr role), (''content'', JArr content)]))
        in if msg_role msg = TOOL \<and> str_truthy (msg_tool_call_id msg) then
             Some (out ''user''
               [jobj [(''type'', jstr ''tool_result''), (''tool_use_id'', jstr (the (msg_tool_call_id msg))),
                      (''content'', jstr (str_or_empty (msg_content msg)))]])
           else if has_tool_calls msg then
             map_option (\<lambda>uses. out (role_value (msg_role msg)) (text_block msg @ uses))
               (those (map anthropic_tool_use (the (msg_tool_calls msg))))
           else Some (out (role_value (msg_role msg)) (text_block msg)))"

definition system_texts :: "message list \<Rightarrow> string list" where
  "system_texts msgs =
     map (\<lambda>m. the (msg_content m)) (filter (\<lambda>m. msg_role m = SYSTEM \<and> str_truthy (msg_content m)) msgs)"

definition anthropic_translate_tools :: "tool list \<Rightarrow> json list" where
  "anthropic_translate_tools tools =
     map (\<lambda>t. jobj [(''name'', jstr (tf_name (tool_function t))),
                    (''description'', jstr (tf_description (tool_function t))),
                    (''input_schema'', tool_schema t)]) tools"

definition catMaybes :: "'a option list \<Rightarrow> 'a list" where
  "catMaybes xs = List.map_filter id xs"

definition anthropic_request_body :: "string \<Rightarrow> normalized_request \<Rightarrow> json option" where
  "anthropic_request_body model req =
     (case those (map anthropic_message (nr_messages req)) of
        None \<Rightarrow> None
      | Some msgs \<Rightarrow>
          (let sys = system_texts (nr_messages req)
           in Some (jobj
                ([(''model'', jstr model), (''max_tokens'', JInt (nr_max_tokens req)),
                  (''temperature'', JFloat (Fin (nr_temperature req)))]
                 @ opt_field (sys \<noteq> []) ''system'' (jstr (str_join [CHR 0x0A, CHR 0x0A] sys))
                 @ [(''messages'', JArr (catMaybes msgs))]
                 @ opt_field (nr_tools req \<noteq> None \<and> nr_tools req \<noteq> Some []) ''tools''
                     (JArr (anthropic_translate_tools (the (nr_tools req))))
                 @ opt_field (nr_stop req \<noteq> None \<and> nr_stop req \<noteq> Some []) ''stop_sequences''
                     (JArr (map jstr (the (nr_stop req))))))))"

text \<open>The Bedrock Converse messages.\<close>

definition bedrock_tool_use :: "tool_call \<Rightarrow> json option" where
  "bedrock_tool_use tc =
     map_option (\<lambda>v. jobj [(''toolUse'', jobj [(''toolUseId'', JStr (tc_id tc)),
         (''name'', JStr (tcf_name (tc_function tc))), (''input'', v)])])
       (tool_input tc)"

definition bedrock_message :: "message \<Rightarrow> json option option" where
  "bedrock_message msg =
     (if msg_role msg = SYSTEM then Some None
      else
        let txt = (if str_truthy (msg_content msg)
                   then [jobj [(''text'', jstr (the (msg_content msg)))]] else []);
            uses = (if has_tool_calls msg
                    then those (map bedrock_tool_use (the (msg_tool_calls msg))) else Some [])
        in case uses of
             None \<Rightarrow> None
           | Some us \<Rightarrow>
               (let is_result = (msg_role msg = TOOL \<and> str_truthy (msg_tool_call_id msg));
                    role = (if is_result then ''user'' else role_value (msg_role msg));
                    content = (if is_result
                      then [jobj [(''toolResult'', jobj
                             [(''toolUseId'', jstr (the (msg_tool_call_id msg))),
                              (''content'', JArr [jobj [(''text'', jstr (str_or_empty (msg_content msg)))]])])]]
                      else txt @ us)
                in Some (if content = [] then None
                         else Some (jobj [(''role'', jstr role), (''content'', JArr content)]))))"

definition bedrock_translate_messages :: "normalized_request \<Rightarrow> json list option" where
  "bedrock_translate_messages req =
     map_option catMaybes (those (map bedrock_message (nr_messages req)))"

definition bedrock_translate_tools :: "tool list \<Rightarrow> json" where
  "bedrock_translate_tools tools =
     jobj [(''tools'', JArr (map (\<lambda>t. jobj [(''toolSpec'', jobj
        [(''name'', jstr (tf_name (tool_function t))),
         (''description'', jstr (tf_description (tool_function t))),
         (''inputSchema'', jobj [(''json'', tool_schema t)])])]) tools))]"

definition bedrock_kwargs :: "string \<Rightarrow> normalized_request \<Rightarrow> json option" where
  "bedrock_kwargs model req =
     (case bedrock_translate_messages req of
        None \<Rightarrow> None
      | Some messages \<Rightarrow>
          (let sys = map (\<lambda>s. jobj [(''text'', jstr s)]) (system_texts (nr_messages req))
           in Some (jobj
                ([(''modelId'', jstr model), (''messages'', JArr messages),
                  (''inferenceConfig'', jobj
                     ([(''maxTokens'', JInt (nr_max_tokens req)),
                       (''temperature'', JFloat (Fin (nr_temperature req)))]
                      @ opt_field (nr_stop req \<noteq> None \<and> nr_stop req \<noteq> Some []) ''stopSequences''
                          (JArr (map jstr (the (nr_stop req))))))]
                 @ opt_field (sys \<noteq> []) ''system'' (JArr sys)
                 @ opt_field (nr_tools req \<noteq> None \<and> nr_tools req \<noteq> Some []) ''toolConfig''
                     (bedrock_translate_tools (the (nr_tools req)))))))"

text \<open>The OpenAI chat body.\<close>

definition openai_message :: "message \<Rightarrow> json" where
  "openai_message msg =
     jobj ([(''role'', jstr (role_value (msg_role msg)))]
       @ opt_field (msg_content msg \<noteq> None) ''content'' (jstr (str_or_empty (msg_content msg)))
       @ opt_field (has_tool_calls msg) ''tool_calls''
           (JArr (map (\<lambda>tc. jobj [(''id'', JStr (tc_id tc)), (''type'', jstr ''function''),
              (''function'', jobj [(''name'', JStr (tcf_name (tc_function tc))),
                                   (''arguments'', jstr (tcf_arguments (tc_function tc)))])])
            (the (msg_tool_calls msg))))
       @ opt_field (str_truthy (msg_tool_call_id msg)) ''tool_call_id'' (jstr (the (msg_tool_call_id msg)))
       @ opt_field (str_truthy (msg_name msg)) ''name'' (jstr (the (msg_name msg))))"

definition openai_request_body :: "string \<Rightarrow> normalized_request \<Rightarrow> json" where
  "openai_request_body model req =
     jobj ([(''model'', jstr model), (''messages'', JArr (map openai_message (nr_messages req))),
            (''max_tokens'', JInt (nr_max_tokens req)),
            (''temperature'', JFloat (Fin (nr_temperature req)))]
       @ opt_field (nr_tools req \<noteq> None \<and> nr_tools req \<noteq> Some []) ''tools''
           (JArr (map (\<lambda>t. jobj [(''type'', jstr ''function''),
              (''function'', jobj [(''name'', jstr (tf_name (tool_function t))),
                 (''description'', jstr (tf_description (tool_function t))),
                 (''parameters'', JObj (tf_parameters (tool_function t)))])]) (the (nr_tools req))))
       @ opt_field (nr_stop req \<noteq> None \<and> nr_stop req \<noteq> Some []) ''stop'' (JArr (map jstr (the (nr_stop req))))
       @ (case nr_response_format req of
            None \<Rightarrow> []
          | Some rf \<Rightarrow> opt_field (rf_type rf \<noteq> ''text'') ''response_format''
                          (jobj [(''type'', jstr (rf_type rf))])))"

section \<open>Facts\<close>

lemma pricing_nonneg:
  "dict_get anthropic_pricing m = Some (a, b) \<Longrightarrow> 0 \<le> a \<and> 0 \<le> b"
  "dict_get bedrock_pricing m = Some (a, b) \<Longrightarrow> 0 \<le> a \<and> 0 \<le> b"
  by (auto simp: anthropic_pricing_def bedrock_pricing_def split: if_splits)

lemma estimate_by_pricing_mono:
  assumes "\<And>a b. dict_get pr m = Some (a, b) \<Longrightarrow> 0 \<le> a \<and> 0 \<le> b" and "i \<le> i'" and "j \<le> j'"
  shows "estimate_by_pricing pr m i j \<le> estimate_by_pricing pr m i' j'"
  using assms
  by (auto simp: estimate_by_pricing_def intro!: divide_right_mono add_mono mult_right_mono
      split: option.split)

lemma estimate_by_pricing_0: "estimate_by_pricing pr m 0 0 = 0"
  by (auto simp: estimate_by_pricing_def split: option.split)

lemma spec_estimate_cost_mono:
  "i \<le> i' \<Longrightarrow> j \<le> j' \<Longrightarrow> spec_estimate_cost h s i j \<le> spec_estimate_cost h s i' j'"
  by (cases s) (auto simp: anthropic_estimate_cost_def bedrock_estimate_cost_def
      openai_estimate_cost_def intro!: estimate_by_pricing_mono dest: pricing_nonneg)

lemma spec_estimate_cost_0: "spec_estimate_cost h s 0 0 = 0"
  by (cases s) (simp_all add: anthropic_estimate_cost_def bedrock_estimate_cost_def
      openai_estimate_cost_def estimate_by_pricing_0)

lemma create_adapter_heap:
  assumes "create_provider_adapter settings r h = (spec, h')"
  shows "mc_id (h' q) = mc_id (h q)" "mc_healthy (h' q) = mc_healthy (h q)"
    "mc_enabled (h' q) = mc_enabled (h q)" "mc_model (h' q) = mc_model (h q)"
    "mc_provider (h' q) = mc_provider (h q)"
    "mc_api_key (h q) \<noteq> [] \<Longrightarrow> mc_api_key (h' q) = mc_api_key (h q)"
  using assms by (auto simp: create_provider_adapter_def Let_def split: if_splits)

lemma register_models_heap:
  assumes "register_models settings rs (reg, h) = (reg', h')"
  shows "mc_id (h' q) = mc_id (h q) \<and> mc_healthy (h' q) = mc_healthy (h q)
    \<and> mc_enabled (h' q) = mc_enabled (h q) \<and> mc_model (h' q) = mc_model (h q)
    \<and> (mc_api_key (h q) \<noteq> [] \<longrightarrow> mc_api_key (h' q) = mc_api_key (h q))"
  using assms
proof (induction rs arbitrary: reg h)
  case (Cons r rs)
  obtain spec h1 where c: "create_provider_adapter settings r h = (spec, h1)"
    by (cases "create_provider_adapter settings r h")
  from Cons.IH Cons.prems c create_adapter_heap [OF c] show ?case by fastforce
qed simp

lemma register_models_get:
  assumes "register_models settings rs (reg, h) = (reg', h')"
  shows "dict_get reg' m \<noteq> None \<longleftrightarrow> dict_get reg m \<noteq> None \<or> (\<exists>r \<in> set rs. mc_id (h r) = m)"
  using assms
proof (induction rs arbitrary: reg h)
  case (Cons r rs)
  obtain spec h1 where c: "create_provider_adapter settings r h = (spec, h1)"
    by (cases "create_provider_adapter settings r h")
  from Cons.IH Cons.prems c create_adapter_heap(1) [OF c] show ?case
    by (force simp: register_def)
qed simp

text \<open>The role and the content of a translated message.\<close>

lemma those_Some_length: "those xs = Some ys \<Longrightarrow> length ys = length xs"
  by (induction xs arbitrary: ys) (auto split: option.splits)

lemma catMaybes_those_map:
  "those (map f xs) = Some ys \<Longrightarrow> catMaybes ys = List.map_filter (\<lambda>x. case f x of Some y \<Rightarrow> y | None \<Rightarrow> None) xs"
  by (induction xs arbitrary: ys) (auto simp: catMaybes_def map_filter_simps split: option.splits)

text \<open>A message is sent on when it is not a system message and carries something.\<close>

definition carries :: "message \<Rightarrow> bool" where
  "carries msg \<longleftrightarrow> msg_role msg \<noteq> SYSTEM
     \<and> (msg_role msg = TOOL \<and> str_truthy (msg_tool_call_id msg)
        \<or> str_truthy (msg_content msg) \<or> has_tool_calls msg)"

definition sent_role :: "message \<Rightarrow> string" where
  "sent_role msg =
     (if msg_role msg = TOOL \<and> str_truthy (msg_tool_call_id msg) then ''user'' else role_value (msg_role msg))"

lemma tool_calls_not_Nil:
  "has_tool_calls msg \<Longrightarrow> those (map f (the (msg_tool_calls msg))) = Some us \<Longrightarrow> us \<noteq> []"
  by (auto simp: has_tool_calls_def dest: those_Some_length)

lemma anthropic_message_sent:
  "anthropic_message msg = Some x \<Longrightarrow>
   map_option (json_field ''role'') x = (if carries msg then Some (Some (jstr (sent_role msg))) else None)"
  by (auto simp: anthropic_message_def carries_def sent_role_def Let_def text_block_def json_field_jobj
      dest: tool_calls_not_Nil split: if_splits)

lemma bedrock_message_sent:
  "bedrock_message msg = Some x \<Longrightarrow>
   map_option (json_field ''role'') x = (if carries msg then Some (Some (jstr (sent_role msg))) else None)"
  by (auto simp: bedrock_message_def carries_def sent_role_def Let_def json_field_jobj
      dest: tool_calls_not_Nil split: if_splits option.splits)

lemma sent_roles:
  assumes "those (map f msgs) = Some ys"
    and "\<And>m x. f m = Some x \<Longrightarrow>
      map_option (json_field ''role'') x = (if carries m then Some (Some (jstr (sent_role m))) else None)"
  shows "map (json_field ''role'') (catMaybes ys) = map (\<lambda>m. Some (jstr (sent_role m))) (filter carries msgs)"
  using assms(1)
proof (induction msgs arbitrary: ys)
  case (Cons m msgs)
  then obtain x zs where "f m = Some x" "those (map f msgs) = Some zs" "ys = x # zs"
    by (auto split: option.splits)
  with Cons.IH [of zs] assms(2) [of m x] show ?case
    by (cases x) (auto simp: catMaybes_def map_filter_simps split: if_splits)
qed (simp add: catMaybes_def map_filter_simps)

section \<open>Properties\<close>

text \<open>
  (cost estimates are sound): for each of the three adapters the estimated cost of a
  call is never negative and grows with the token counts.
\<close>

theorem cost_estimate_sound:
  assumes "0 \<le> i" "0 \<le> j" "i \<le> i'" "j \<le> j'"
  shows "0 \<le> spec_estimate_cost h spec i j
       \<and> spec_estimate_cost h spec i j \<le> spec_estimate_cost h spec i' j'"
  using spec_estimate_cost_mono [OF assms(1,2), of h spec] spec_estimate_cost_mono [OF assms(3,4), of h spec]
  by (simp add: spec_estimate_cost_0)

text \<open>
  (start-up registers every model): after start-up the registry has an adapter for
  exactly the ids of the configured models, and of the shared model objects only empty API
  keys have been filled in.
\<close>

theorem startup_registers_all:
  assumes "register_models settings rs ([], h) = (registry, h')"
  shows "(registry_get registry m \<noteq> None) = (\<exists>r \<in> set rs. mc_id (h r) = m)
    \<and> mc_healthy (h' r) = mc_healthy (h r) \<and> mc_enabled (h' r) = mc_enabled (h r)
    \<and> mc_model (h' r) = mc_model (h r) \<and> mc_id (h' r) = mc_id (h r)
    \<and> (mc_api_key (h r) \<noteq> [] \<longrightarrow> mc_api_key (h' r) = mc_api_key (h r))"
  using register_models_get [OF assms, of m] register_models_heap [OF assms, of r]
  by (simp add: registry_get_def)

text \<open>
  (the adapters send the same conversation): when the Anthropic body and the Bedrock
  arguments can be built, their message lists have the same roles in the same order: the
  messages of the request that are not system messages and carry text, tool calls or a tool
  result, a tool result being sent as the user.
\<close>

theorem adapters_send_same_conversation:
  assumes "anthropic_request_body model req = Some body" and "bedrock_kwargs model req = Some kwargs"
  shows "\<exists>ms ns. json_field ''messages'' body = Some (JArr ms) \<and> json_field ''messages'' kwargs = Some (JArr ns)
    \<and> map (json_field ''role'') ms = map (json_field ''role'') ns
    \<and> map (json_field ''role'') ms = map (\<lambda>m. Some (jstr (sent_role m))) (filter carries (nr_messages req))"
proof -
  obtain xs where xs: "those (map anthropic_message (nr_messages req)) = Some xs"
      "json_field ''messages'' body = Some (JArr (catMaybes xs))"
    using assms(1) by (auto simp: anthropic_request_body_def Let_def opt_field_def json_field_jobj split: option.splits)
  obtain ys where ys: "those (map bedrock_message (nr_messages req)) = Some ys"
      "json_field ''messages'' kwargs = Some (JArr (catMaybes ys))"
    using assms(2) by (auto simp: bedrock_kwargs_def bedrock_translate_messages_def Let_def opt_field_def
        json_field_jobj split: option.splits)
  from sent_roles [OF xs(1) anthropic_message_sent] sent_roles [OF ys(1) bedrock_message_sent] xs(2) ys(2)
  show ?thesis by auto
qed

section \<open>Witnesses\<close>

definition claude_heap :: heap where
  "claude_heap r = (sample_model ''claude'')\<lparr>mc_provider := ''anthropic'', mc_model := ''claude-opus-4-20250514''\<rparr>"

theorem cost_estimate_sound_witness:
  "(0 :: int) \<le> 1000 \<and> (0 :: int) \<le> 500 \<and> (1000 :: int) \<le> 2000
   \<and> 0 \<le> spec_estimate_cost claude_heap (AnthropicAdapter 0) 1000 500
   \<and> spec_estimate_cost claude_heap (AnthropicAdapter 0) 1000 500
       \<le> spec_estimate_cost claude_heap (AnthropicAdapter 0) 2000 500
   \<and> spec_estimate_cost claude_heap (AnthropicAdapter 0) 1000 500 = 0.0525"
  using cost_estimate_sound [of 1000 500 2000 500 claude_heap "AnthropicAdapter 0"]
  by (simp add: anthropic_estimate_cost_def estimate_by_pricing_def anthropic_pricing_def
      claude_heap_def sample_model_def)

definition sample_settings :: gateway_settings where
  "sample_settings =
     \<lparr>st_service_auth_enabled = True, st_aws_region = ''us-east-1'',
      st_anthropic_api_key = Some ''sk'', st_openai_api_key = None\<rparr>"

theorem startup_registers_all_witness:
  "\<exists>registry h'. register_models sample_settings [0] ([], claude_heap) = (registry, h')
     \<and> registry_get registry ''claude'' \<noteq> None \<and> mc_healthy (h' 0) \<and> mc_api_key (h' 0) = ''sk''"
proof -
  let ?h = "claude_heap(0 := (claude_heap 0)\<lparr>mc_api_key := ''sk''\<rparr>)"
  have low: "str_lower ''anthropic'' = ''anthropic''" by code_simp
  have "register_models sample_settings [0] ([], claude_heap) = ([(''claude'', AnthropicAdapter 0)], ?h)"
    by (simp add: create_provider_adapter_def register_def claude_heap_def sample_model_def
        sample_settings_def str_truthy_def low Let_def)
  from startup_registers_all [OF this, of "''claude''" 0] this show ?thesis
    by (simp add: claude_heap_def sample_model_def)
qed

definition chat :: "message_role \<Rightarrow> string \<Rightarrow> message" where
  "chat role s =
     \<lparr>msg_role = role, msg_content = Some s, msg_name = None, msg_tool_calls = None, msg_tool_call_id = None\<rparr>"

definition sample_nr :: normalized_request where
  "sample_nr =
     \<lparr>nr_messages = [chat SYSTEM ''be brief'', chat USER ''hi'', chat ASSISTANT [],
        (chat TOOL ''42'')\<lparr>msg_tool_call_id := Some ''c1''\<rparr>],
      nr_tools = None, nr_max_tokens = 100, nr_temperature = 0, nr_response_format = None,
      nr_stop = None, nr_model = ''m''\<rparr>"

theorem adapters_send_same_conversation_witness:
  "\<exists>body kwargs ms. anthropic_request_body ''m'' sample_nr = Some body \<and> bedrock_kwargs ''m'' sample_nr = Some kwargs
     \<and> json_field ''messages'' body = Some (JArr ms)
     \<and> map (json_field ''role'') ms = [Some (jstr ''user''), Some (jstr ''user'')]"
proof -
  obtain body where b: "anthropic_request_body ''m'' sample_nr = Some body"
    by (simp add: anthropic_request_body_def sample_nr_def chat_def anthropic_message_def
        has_tool_calls_def str_truthy_def Let_def)
  obtain kwargs where k: "bedrock_kwargs ''m'' sample_nr = Some kwargs"
    by (simp add: bedrock_kwargs_def bedrock_translate_messages_def sample_nr_def chat_def
        bedrock_message_def has_tool_calls_def str_truthy_def Let_def)
  have "map (\<lambda>m. Some (jstr (sent_role m))) (filter carries (nr_messages sample_nr)) =
      [Some (jstr ''user''), Some (jstr ''user'')]"
    by (simp add: sample_nr_def chat_def carries_def sent_role_def has_tool_calls_def str_truthy_def)
  with adapters_send_same_conversation [OF b k] b k show ?thesis by auto
qed

end
