(* ===== verification/Gw_Service.thy ===== *)
theory Gw_Service
  imports Gw_Degradation Gw_Budget Gw_Queue Gw_Canary Gw_Escalation Gw_Health Gw_Metrics Gw_Providers
begin

text \<open>
  The completion endpoint of the gateway (\<^verbatim>\<open>llm-gateway/src/main.py\<close>): service authentication,
  the fallback inside a tier, the escalation loop and the \<^verbatim>\<open>/v1/complete\<close> handler, over the
  components of the application state.

  The handler is one function from the state at its start to the outcome and the state at its
  end; each of its phases is a definition. Clock readings, the random roll and fresh ids are
  the fields of \<open>readings\<close>. Provider calls go through the adapters, which thread the outside
  world; the environment also keeps the list of the calls made, in order. A Redis command that
  raises, and an OverflowError of the escalation check, end the handler with status 500; the
  model then keeps the tracker or queue as it was before the operation that raised.
\<close>

section \<open>Service authentication\<close>

datatype auth_error = MissingCredentials | UnknownService | InvalidKey | CompareTypeError

text \<open>
  \<^verbatim>\<open>hmac.compare_digest\<close> of two strings: equality, and a TypeError unless both are ASCII.
\<close>

definition is_ascii :: "string \<Rightarrow> bool" where
  "is_ascii s \<longleftrightarrow> list_all (\<lambda>c. (of_char c :: nat) < 128) s"

definition compare_digest :: "string \<Rightarrow> string \<Rightarrow> bool option" where
  "compare_digest a b = (if is_ascii a \<and> is_ascii b then Some (a = b) else None)"

definition verify_service ::
    "gateway_settings \<Rightarrow> (string, string) dict \<Rightarrow> string \<Rightarrow> string \<Rightarrow> auth_error + string" where
  "verify_service settings keys service_id service_key =
     (if \<not> st_service_auth_enabled settings then Inr ''anonymous''
      else if service_id = [] \<or> service_key = [] then Inl MissingCredentials
      else case dict_get keys service_id of
             None \<Rightarrow> Inl UnknownService
           | Some expected_key \<Rightarrow>
               (case compare_digest service_key expected_key of
                  None \<Rightarrow> Inl CompareTypeError
                | Some False \<Rightarrow> Inl InvalidKey
                | Some True \<Rightarrow> Inr service_id))"

text \<open>\<^verbatim>\<open>pair.split(":", 1)\<close>, for a pair that contains a colon.\<close>

definition split_once :: "char \<Rightarrow> string \<Rightarrow> (string \<times> string) option" where
  "split_once c s =
     (if c \<in> set s then Some (takeWhile (\<lambda>x. x \<noteq> c) s, tl (dropWhile (\<lambda>x. x \<noteq> c) s)) else None)"

definition load_pair :: "string \<Rightarrow> (string, string) dict \<Rightarrow> (string, string) dict" where
  "load_pair pair keys =
     (case split_once (CHR '':'') pair of
        None \<Rightarrow> keys
      | Some (svc_id, svc_key) \<Rightarrow> dict_set (str_strip svc_id) (str_strip svc_key) keys)"

definition dev_services :: "string list" where
  "dev_services =
     [''agent-eval'', ''compliance-assistant'', ''observer'', ''preprocessor'', ''memory-service'']"

text \<open>None is the RuntimeError that refuses to start without keys in production.\<close>

definition load_service_keys ::
    "(string, string) dict \<Rightarrow> (string, string) dict \<Rightarrow> (string, string) dict option" where
  "load_service_keys env keys0 =
     (let environment = dict_get_default env ''APP_ENV''
            (dict_get_default env ''ENVIRONMENT'' ''development'');
          raw = dict_get_default env ''LLM_GW_SERVICE_KEYS'' [];
          keys = (if raw \<noteq> [] then fold load_pair (split_char (CHR '','') raw) keys0 else keys0);
          dev_key = dict_get_default env ''LLM_GW_DEV_KEY'' []
      in if keys \<noteq> [] then Some keys
         else if environment \<in> {''production'', ''staging'', ''prod''} then None
         else if dev_key \<noteq> [] then Some (fold (\<lambda>svc. dict_set svc dev_key) dev_services keys)
         else Some (fold (\<lambda>svc. dict_set svc ''onpremai-dev-key-change-me'') dev_services keys))"

section \<open>Fallback within a tier\<close>

record 'w environment =
  ev_world :: 'w
  ev_calls :: "(string \<times> normalized_request) list"

definition call_adapter ::
    "'w adapter \<Rightarrow> string \<Rightarrow> normalized_request \<Rightarrow> 'w environment \<Rightarrow>
     normalized_response option \<times> 'w environment" where
  "call_adapter ad model_id nr ev =
     (case ad_complete ad nr (ev_world ev) of
        (res, w) \<Rightarrow> (res, \<lparr>ev_world = w, ev_calls = ev_calls ev @ [(model_id, nr)]\<rparr>))"

definition order_models :: "heap \<Rightarrow> string option \<Rightarrow> ref list \<Rightarrow> ref list" where
  "order_models h target models =
     (if str_truthy target
      then filter (\<lambda>r. mc_id (h r) = the target) models @ filter (\<lambda>r. mc_id (h r) \<noteq> the target) models
      else models)"

definition normalize_request :: "completion_request \<Rightarrow> model_config \<Rightarrow> normalized_request" where
  "normalize_request req mc =
     \<lparr>nr_messages = req_messages req, nr_tools = req_tools req,
      nr_max_tokens = min (req_max_tokens req) (mc_max_tokens mc),
      nr_temperature = req_temperature req, nr_response_format = req_response_format req,
      nr_stop = req_stop req, nr_model = mc_model mc\<rparr>"

fun try_models ::
    "heap \<Rightarrow> 'w adapter provider_registry \<Rightarrow> completion_request \<Rightarrow> ref list \<Rightarrow> 'w environment \<Rightarrow>
     (normalized_response \<times> string \<times> string) option \<times> 'w environment" where
  "try_models h registry req [] ev = (None, ev)"
| "try_models h registry req (r # rs) ev =
     (if \<not> mc_healthy (h r) \<or> \<not> mc_enabled (h r) then try_models h registry req rs ev
      else case registry_get registry (mc_id (h r)) of
             None \<Rightarrow> try_models h registry req rs ev
           | Some ad \<Rightarrow>
               (case call_adapter ad (mc_id (h r)) (normalize_request req (h r)) ev of
                  (Some response, ev') \<Rightarrow> (Some (response, mc_id (h r), ''unknown''), ev')
                | (None, ev') \<Rightarrow> try_models h registry req rs ev'))"

definition try_tier_models ::
    "heap \<Rightarrow> 'w adapter provider_registry \<Rightarrow> completion_request \<Rightarrow> string option \<Rightarrow> ref list \<Rightarrow>
     'w environment \<Rightarrow> (normalized_response \<times> string \<times> string) option \<times> 'w environment" where
  "try_tier_models h registry req target models ev =
     try_models h registry req (order_models h target models) ev"

section \<open>The escalation loop\<close>

text \<open>What the loop reads: nothing of it changes while it runs.\<close>

record 'w loop_context =
  lc_heap :: heap
  lc_config :: routing_config
  lc_escalation :: escalation_config
  lc_degradation :: degradation_manager
  lc_registry :: "'w adapter provider_registry"
  lc_body :: completion_request
  lc_resolution :: route_resolution
  lc_canary_model :: "string option"

record loop_state =
  ls_escalation_count :: int
  ls_escalation_path :: "string list"
  ls_current_tier :: string
  ls_best_response :: "normalized_response option"
  ls_best_confidence :: real
  ls_model_used :: string
  ls_tier_used :: string

definition init_loop :: "string \<Rightarrow> loop_state" where
  "init_loop tier =
     \<lparr>ls_escalation_count = 0, ls_escalation_path = [], ls_current_tier = tier,
      ls_best_response = None, ls_best_confidence = 0, ls_model_used = [], ls_tier_used = []\<rparr>"

definition next_round :: "string \<Rightarrow> loop_state \<Rightarrow> loop_state" where
  "next_round next_tier ls =
     ls\<lparr>ls_escalation_path := ls_escalation_path ls @ [ls_current_tier ls],
        ls_current_tier := next_tier,
        ls_escalation_count := ls_escalation_count ls + 1\<rparr>"

definition target_model :: "'w loop_context \<Rightarrow> loop_state \<Rightarrow> string option" where
  "target_model lc ls =
     (case rr_model_config (lc_resolution lc) of
        Some r \<Rightarrow> if ls_escalation_count ls = 0 then Some (mc_id (lc_heap lc r))
                  else lc_canary_model lc
      | None \<Rightarrow> lc_canary_model lc)"

text \<open>The models of the current tier are tried.\<close>

definition ask_tier ::
    "'w loop_context \<Rightarrow> loop_state \<Rightarrow> 'w environment \<Rightarrow>
     (normalized_response \<times> string \<times> string) option \<times> 'w environment" where
  "ask_tier lc ls ev =
     try_tier_models (lc_heap lc) (lc_registry lc) (lc_body lc) (target_model lc ls)
       (get_models_for_tier (lc_heap lc) (lc_config lc) (ls_current_tier ls)) ev"

text \<open>After a tier in which every model failed: the next state, or None for a \<^verbatim>\<open>break\<close>.\<close>

definition after_failure :: "'w loop_context \<Rightarrow> loop_state \<Rightarrow> loop_state option" where
  "after_failure lc ls =
     (if esc_enabled (lc_escalation lc) \<and> ls_escalation_count ls < esc_max_escalations (lc_escalation lc) then
        (case get_next_tier (lc_escalation lc) (ls_current_tier ls) of
           Some next_tier \<Rightarrow>
             if next_tier \<noteq> [] \<and> is_tier_allowed (lc_degradation lc) (req_tenant_id (lc_body lc)) next_tier
             then Some (next_round next_tier ls) else None
         | None \<Rightarrow> None)
      else None)"

definition note_response ::
    "normalized_response \<Rightarrow> string \<Rightarrow> string \<Rightarrow> escalation_decision \<Rightarrow> loop_state \<Rightarrow> loop_state" where
  "note_response response used_model used_tier decision ls0 =
     (let ls = ls0\<lparr>ls_model_used := used_model, ls_tier_used := used_tier\<rparr>
      in if ed_confidence decision > ls_best_confidence ls \<or> \<not> ed_should_escalate decision
         then ls\<lparr>ls_best_response := Some response, ls_best_confidence := ed_confidence decision\<rparr>
         else ls)"

text \<open>After an answer: go on with the next tier, or None for a \<^verbatim>\<open>break\<close>.\<close>

definition after_decision :: "'w loop_context \<Rightarrow> escalation_decision \<Rightarrow> loop_state \<Rightarrow> loop_state option" where
  "after_decision lc decision ls =
     (if \<not> ed_should_escalate decision then None
      else case get_next_tier (lc_escalation lc) (ls_current_tier ls) of
             None \<Rightarrow> None
           | Some next_tier \<Rightarrow>
               if esc_max_escalations (lc_escalation lc) \<le> ls_escalation_count ls then None
               else if \<not> is_tier_allowed (lc_degradation lc) (req_tenant_id (lc_body lc)) next_tier then None
               else Some (next_round next_tier ls))"

text \<open>
  The loop ends because an iteration that goes on has fewer than \<^verbatim>\<open>max_escalations\<close>
  escalations behind it and adds one.
\<close>

lemma after_failure_count:
  "after_failure lc ls = Some ls' \<Longrightarrow>
   ls_escalation_count ls < esc_max_escalations (lc_escalation lc)
   \<and> ls_escalation_count ls' = ls_escalation_count ls + 1"
  by (auto simp: after_failure_def next_round_def split: if_splits option.splits)

lemma after_decision_count:
  "after_decision lc d ls = Some ls' \<Longrightarrow>
   ls_escalation_count ls < esc_max_escalations (lc_escalation lc)
   \<and> ls_escalation_count ls' = ls_escalation_count ls + 1"
  by (auto simp: after_decision_def next_round_def split: if_splits option.splits)

lemma note_response_count [simp]:
  "ls_escalation_count (note_response r m t d ls) = ls_escalation_count ls"
  "ls_escalation_path (note_response r m t d ls) = ls_escalation_path ls"
  "ls_current_tier (note_response r m t d ls) = ls_current_tier ls"
  "ls_model_used (note_response r m t d ls) = m" "ls_tier_used (note_response r m t d ls) = t"
  by (simp_all add: note_response_def Let_def)

function escalation_loop ::
    "'w loop_context \<Rightarrow> loop_state \<Rightarrow> 'w environment \<Rightarrow> (esc_error + loop_state) \<times> 'w environment" where
  "escalation_loop lc ls ev =
     (case ask_tier lc ls ev of
        (None, ev') \<Rightarrow>
          (case after_failure lc ls of
             None \<Rightarrow> (Inr ls, ev')
           | Some ls' \<Rightarrow> escalation_loop lc ls' ev')
      | (Some (response, used_model, used_tier), ev') \<Rightarrow>
          (case check (lc_escalation lc) response (lc_body lc) (ls_escalation_count ls) of
             Inl e \<Rightarrow> (Inl e, ev')
           | Inr decision \<Rightarrow>
               (let ls1 = note_response response used_model used_tier decision ls
                in case after_decision lc decision ls1 of
                     None \<Rightarrow> (Inr ls1, ev')
                   | Some ls' \<Rightarrow> escalation_loop lc ls' ev')))"
  by pat_completeness auto
termination
  by (relation "measure (\<lambda>(lc, ls, ev). nat (esc_max_escalations (lc_escalation lc) - ls_escalation_count ls))")
     (auto dest: after_failure_count after_decision_count)

declare escalation_loop.simps [simp del]

section \<open>The handler\<close>

record ('r, 'q, 'w) app_state =
  as_heap :: heap
  as_config :: routing_config
  as_escalation :: escalation_config
  as_canary :: experiments
  as_registry :: "'w adapter provider_registry"
  as_health :: health_manager
  as_budget :: "'r budget_tracker"
  as_degradation :: degradation_manager
  as_queue :: "'q request_queue"
  as_metrics :: metrics_store
  as_thresholds :: "(string, real) dict"

record ('r, 'q, 'p) services =
  sv_redis :: "'r redis_api"
  sv_redis_lists :: "('q, 'p) redis_list_api"
  sv_codec :: "'p codec"

record readings =
  rd_trace_uuid :: string
  rd_queue_uuid :: string
  rd_roll :: int
  rd_elapsed_ms :: int
  t_spend :: real
  t_enqueue :: real
  t_requests :: real
  t_cost :: real
  t_metrics :: real
  t_sample :: real

datatype completion_outcome =
    Completed completion_response
  | BudgetExhausted string int
  | LlmBudgetExhausted int
  | AllModelsUnavailable
  | InternalServerError

text \<open>
  Budget admission: \<open>Inl\<close> carries the error response, \<open>Inr\<close> the state in which the request
  goes on (its level set, the request counted).
\<close>

definition admit ::
    "('r, 'q, 'p) services \<Rightarrow> readings \<Rightarrow> completion_request \<Rightarrow> ('r, 'q, 'w) app_state \<Rightarrow>
     (completion_outcome \<times> ('r, 'q, 'w) app_state) + ('r, 'q, 'w) app_state" where
  "admit sv rd body a =
     (case get_daily_spend (sv_redis sv) (t_spend rd) (req_tenant_id body) (as_budget a) of
        None \<Rightarrow> Inl (InternalServerError, a)
      | Some daily_spend \<Rightarrow>
          (let (level, dm) = update_for_spend (req_tenant_id body) daily_spend (as_degradation a);
               a1 = a\<lparr>as_degradation := dm\<rparr>
           in if should_queue dm (req_tenant_id body) then
                (case enqueue (sv_redis_lists sv) (sv_codec sv) (rd_queue_uuid rd) (t_enqueue rd) body (as_queue a1) of
                   None \<Rightarrow> Inl (InternalServerError, a1)
                 | Some (queue_id, q) \<Rightarrow> Inl (BudgetExhausted queue_id level, a1\<lparr>as_queue := q\<rparr>))
              else if should_reject_llm dm (req_tenant_id body) then Inl (LlmBudgetExhausted level, a1)
              else
                (case increment_requests (sv_redis sv) (t_requests rd) (req_tenant_id body) (as_budget a1) of
                   None \<Rightarrow> Inl (InternalServerError, a1)
                 | Some (_, bt) \<Rightarrow> Inr (a1\<lparr>as_budget := bt\<rparr>))))"

text \<open>Routing, the degradation cap and the canary choice.\<close>

definition route ::
    "completion_request \<Rightarrow> ('r, 'q, 'w) app_state \<Rightarrow> route_resolution" where
  "route body a =
     (let resolution = resolve (as_heap a) (as_config a) (req_agent body) (req_task body) (req_tenant_id body);
          capped_tier = cap_tier (as_degradation a) (req_tenant_id body) (rr_tier resolution)
      in if capped_tier \<noteq> rr_tier resolution then tier_resolution capped_tier (rr_source resolution)
         else resolution)"

definition canary_target :: "readings \<Rightarrow> completion_request \<Rightarrow> ('r, 'q, 'w) app_state \<Rightarrow> string option" where
  "canary_target rd body a =
     (if fst (should_use_canary (rd_roll rd) (req_agent body) (req_task body) (as_canary a))
      then (let m = get_canary_model_id (req_agent body) (req_task body) (as_canary a)
            in if str_truthy m then m else None)
      else None)"

text \<open>The threshold the handler computes from the admin override; nothing below reads it.\<close>

definition effective_threshold :: "completion_request \<Rightarrow> ('r, 'q, 'w) app_state \<Rightarrow> real" where
  "effective_threshold body a =
     (case dict_get (as_thresholds a) (req_task body) of
        Some t \<Rightarrow> max (req_confidence_threshold body) t
      | None \<Rightarrow> req_confidence_threshold body)"

definition loop_context_of ::
    "readings \<Rightarrow> completion_request \<Rightarrow> ('r, 'q, 'w) app_state \<Rightarrow> 'w loop_context" where
  "loop_context_of rd body a =
     \<lparr>lc_heap = as_heap a, lc_config = as_config a, lc_escalation = as_escalation a,
      lc_degradation = as_degradation a, lc_registry = as_registry a, lc_body = body,
      lc_resolution = route body a, lc_canary_model = canary_target rd body a\<rparr>"

definition failure_entry :: "readings \<Rightarrow> completion_request \<Rightarrow> loop_state \<Rightarrow> metric_entry" where
  "failure_entry rd body ls =
     \<lparr>me_timestamp = t_metrics rd, me_task = req_task body, me_agent = None, me_model_used = [],
      me_tier_used = ls_current_tier ls, me_latency_ms = rd_elapsed_ms rd, me_error = True,
      me_escalated = (0 < ls_escalation_count ls), me_confidence = 0,
      me_tenant_id = req_tenant_id body, me_cost_usd = None, me_input_tokens = None,
      me_output_tokens = None, me_trace_id = None, me_variant = None\<rparr>"

definition trace_id_of :: "readings \<Rightarrow> completion_request \<Rightarrow> string" where
  "trace_id_of rd body = (if req_trace_id body \<noteq> [] then req_trace_id body else rd_trace_uuid rd)"

definition success_entry ::
    "readings \<Rightarrow> completion_request \<Rightarrow> loop_state \<Rightarrow> normalized_response \<Rightarrow> real \<Rightarrow> string \<Rightarrow> metric_entry" where
  "success_entry rd body ls best cost variant =
     \<lparr>me_timestamp = t_metrics rd, me_task = req_task body, me_agent = Some (req_agent body),
      me_model_used = ls_model_used ls, me_tier_used = ls_tier_used ls,
      me_latency_ms = rd_elapsed_ms rd, me_error = False, me_escalated = (0 < ls_escalation_count ls),
      me_confidence = ls_best_confidence ls, me_tenant_id = req_tenant_id body, me_cost_usd = Some cost,
      me_input_tokens = Some (input_tokens (resp_usage best)),
      me_output_tokens = Some (output_tokens (resp_usage best)),
      me_trace_id = Some (trace_id_of rd body), me_variant = Some variant\<rparr>"

definition sample_of_request :: "readings \<Rightarrow> loop_state \<Rightarrow> real \<Rightarrow> sample" where
  "sample_of_request rd ls cost =
     \<lparr>sm_confidence = ls_best_confidence ls, sm_latency_ms = rd_elapsed_ms rd, sm_error = False,
      sm_escalated = (0 < ls_escalation_count ls), sm_cost_usd = cost, sm_timestamp = t_sample rd\<rparr>"

definition completion_of ::
    "readings \<Rightarrow> completion_request \<Rightarrow> loop_state \<Rightarrow> normalized_response \<Rightarrow> real \<Rightarrow> completion_response" where
  "completion_of rd body ls best cost =
     \<lparr>cr_content = resp_content best, cr_model_used = ls_model_used ls, cr_tier_used = ls_tier_used ls,
      cr_escalated = (0 < ls_escalation_count ls), cr_escalation_path = ls_escalation_path ls,
      cr_usage = resp_usage best, cr_latency_ms = rd_elapsed_ms rd,
      cr_confidence = ls_best_confidence ls, cr_tool_calls = resp_tool_calls best,
      cr_cost_usd = cost, cr_trace_id = trace_id_of rd body\<rparr>"

definition request_cost ::
    "'w adapter provider_registry \<Rightarrow> string \<Rightarrow> normalized_response \<Rightarrow> real" where
  "request_cost registry model best =
     (case registry_get registry model of
        None \<Rightarrow> 0
      | Some ad \<Rightarrow> ad_estimate_cost ad (input_tokens (resp_usage best)) (output_tokens (resp_usage best)))"

text \<open>The end of the handler: the error response, or accounting and the answer.\<close>

definition finish ::
    "('r, 'q, 'p) services \<Rightarrow> readings \<Rightarrow> completion_request \<Rightarrow> loop_state \<Rightarrow> ('r, 'q, 'w) app_state \<Rightarrow>
     completion_outcome \<times> ('r, 'q, 'w) app_state" where
  "finish sv rd body ls a =
     (case ls_best_response ls of
        None \<Rightarrow>
          (AllModelsUnavailable, a\<lparr>as_metrics := metrics_record (failure_entry rd body ls) (as_metrics a)\<rparr>)
      | Some best \<Rightarrow>
          (let (use_canary, variant) =
                 should_use_canary (rd_roll rd) (req_agent body) (req_task body) (as_canary a);
               cost = request_cost (as_registry a) (ls_model_used ls) best
           in case record_cost (sv_redis sv) (t_cost rd) (req_tenant_id body) cost (as_budget a) of
                None \<Rightarrow> (InternalServerError, a)
              | Some (_, bt) \<Rightarrow>
                  (Completed (completion_of rd body ls best cost),
                   a\<lparr>as_budget := bt,
                     as_metrics := metrics_record (success_entry rd body ls best cost variant) (as_metrics a),
                     as_canary := (if use_canary
                       then record_result (req_agent body) (req_task body) variant
                              (sample_of_request rd ls cost) (as_canary a)
                       else as_canary a)\<rparr>)))"

definition complete ::
    "('r, 'q, 'p) services \<Rightarrow> readings \<Rightarrow> completion_request \<Rightarrow>
     ('r, 'q, 'w) app_state \<times> 'w environment \<Rightarrow>
     completion_outcome \<times> ('r, 'q, 'w) app_state \<times> 'w environment" where
  "complete sv rd body = (\<lambda>(a0, ev).
     case admit sv rd body a0 of
       Inl (outcome, a) \<Rightarrow> (outcome, a, ev)
     | Inr a \<Rightarrow>
         (let lc = loop_context_of rd body a
          in case escalation_loop lc (init_loop (rr_tier (lc_resolution lc))) ev of
               (Inl e, ev') \<Rightarrow> (InternalServerError, a, ev')
             | (Inr ls, ev') \<Rightarrow> (case finish sv rd body ls a of (outcome, a') \<Rightarrow> (outcome, a', ev'))))"

section \<open>Facts about one tier\<close>

text \<open>The models of a list that can be called, and the call each of them gets.\<close>

definition eligible :: "heap \<Rightarrow> 'w adapter provider_registry \<Rightarrow> ref list \<Rightarrow> ref list" where
  "eligible h registry rs =
     filter (\<lambda>r. mc_healthy (h r) \<and> mc_enabled (h r) \<and> registry_get registry (mc_id (h r)) \<noteq> None) rs"

definition call_of :: "heap \<Rightarrow> completion_request \<Rightarrow> ref \<Rightarrow> string \<times> normalized_request" where
  "call_of h req r = (mc_id (h r), normalize_request req (h r))"

lemma call_adapter_calls:
  "call_adapter ad m nr ev = (res, ev') \<Longrightarrow> ev_calls ev' = ev_calls ev @ [(m, nr)]"
  by (auto simp: call_adapter_def split: prod.splits)

lemma eligible_Cons:
  "eligible h registry (r # rs) =
     (if mc_healthy (h r) \<and> mc_enabled (h r) \<and> registry_get registry (mc_id (h r)) \<noteq> None
      then r # eligible h registry rs else eligible h registry rs)"
  by (simp add: eligible_def)

lemma try_models_calls:
  assumes "try_models h registry req rs ev = (res, ev')"
  shows "\<exists>k \<le> length (eligible h registry rs).
      ev_calls ev' = ev_calls ev @ map (call_of h req) (take k (eligible h registry rs))
    \<and> (res = None \<longrightarrow> k = length (eligible h registry rs))
    \<and> (\<forall>x m t. res = Some (x, m, t) \<longrightarrow>
         0 < k \<and> t = ''unknown'' \<and> m = mc_id (h (eligible h registry rs ! (k - 1))))"
  using assms
proof (induction rs arbitrary: ev)
  case (Cons r rs)
  show ?case
  proof (cases "mc_healthy (h r) \<and> mc_enabled (h r) \<and> registry_get registry (mc_id (h r)) \<noteq> None")
    case False
    with Cons.prems have "try_models h registry req rs ev = (res, ev')" by (auto split: if_splits)
    moreover have "eligible h registry (r # rs) = eligible h registry rs"
      by (simp only: eligible_Cons False if_False)
    ultimately show ?thesis using Cons.IH by presburger
  next
    case True
    then obtain ad where ad: "registry_get registry (mc_id (h r)) = Some ad" by auto
    obtain r1 ev1 where c: "call_adapter ad (mc_id (h r)) (normalize_request req (h r)) ev = (r1, ev1)"
      by (cases "call_adapter ad (mc_id (h r)) (normalize_request req (h r)) ev")
    have calls: "ev_calls ev1 = ev_calls ev @ [call_of h req r]"
      using call_adapter_calls [OF c] by (simp add: call_of_def)
    show ?thesis
    proof (cases r1)
      case None
      with Cons.prems True ad c have "try_models h registry req rs ev1 = (res, ev')" by simp
      from Cons.IH [OF this] obtain k where
        "k \<le> length (eligible h registry rs)"
        "ev_calls ev' = ev_calls ev1 @ map (call_of h req) (take k (eligible h registry rs))"
        "res = None \<longrightarrow> k = length (eligible h registry rs)"
        "\<forall>x m t. res = Some (x, m, t) \<longrightarrow>
           0 < k \<and> t = ''unknown'' \<and> m = mc_id (h (eligible h registry rs ! (k - 1)))" by blast
      with True calls show ?thesis by (intro exI [of _ "Suc k"]) (auto simp: eligible_Cons nth_Cons')
    next
      case (Some x)
      with Cons.prems True ad c have "res = Some (x, mc_id (h r), ''unknown'')" "ev' = ev1" by auto
      with True calls show ?thesis by (intro exI [of _ 1]) (auto simp: eligible_Cons)
    qed
  qed
qed (simp add: eligible_def)

lemma order_models_set [simp]: "set (order_models h target rs) = set rs"
  by (auto simp: order_models_def)

section \<open>Facts about the loop\<close>

text \<open>Reasoning about the loop: an invariant of its rounds and what holds at each exit.\<close>

lemma escalation_loop_rule:
  assumes "escalation_loop lc ls ev = (res, ev')" and "I ls ev"
    and "\<And>ls ev ev1 ls'. I ls ev \<Longrightarrow> ask_tier lc ls ev = (None, ev1) \<Longrightarrow>
           after_failure lc ls = Some ls' \<Longrightarrow> I ls' ev1"
    and "\<And>ls ev r m t ev1 d ls'. I ls ev \<Longrightarrow> ask_tier lc ls ev = (Some (r, m, t), ev1) \<Longrightarrow>
           check (lc_escalation lc) r (lc_body lc) (ls_escalation_count ls) = Inr d \<Longrightarrow>
           after_decision lc d (note_response r m t d ls) = Some ls' \<Longrightarrow> I ls' ev1"
    and "\<And>ls ev ev1. I ls ev \<Longrightarrow> ask_tier lc ls ev = (None, ev1) \<Longrightarrow> after_failure lc ls = None \<Longrightarrow>
           Q (Inr ls) ev1"
    and "\<And>ls ev r m t ev1 e. I ls ev \<Longrightarrow> ask_tier lc ls ev = (Some (r, m, t), ev1) \<Longrightarrow>
           check (lc_escalation lc) r (lc_body lc) (ls_escalation_count ls) = Inl e \<Longrightarrow> Q (Inl e) ev1"
    and "\<And>ls ev r m t ev1 d. I ls ev \<Longrightarrow> ask_tier lc ls ev = (Some (r, m, t), ev1) \<Longrightarrow>
           check (lc_escalation lc) r (lc_body lc) (ls_escalation_count ls) = Inr d \<Longrightarrow>
           after_decision lc d (note_response r m t d ls) = None \<Longrightarrow> Q (Inr (note_response r m t d ls)) ev1"
  shows "Q res ev'"
  using assms(1,2)
proof (induction "nat (esc_max_escalations (lc_escalation lc) - ls_escalation_count ls)"
    arbitrary: ls ev rule: less_induct)
  case less
  note unf = less.prems(1) [unfolded escalation_loop.simps [of lc ls ev]]
  obtain a ev1 where ask: "ask_tier lc ls ev = (a, ev1)" by (cases "ask_tier lc ls ev")
  show ?case
  proof (cases a)
    case None
    note ask = ask [unfolded None]
    show ?thesis
    proof (cases "after_failure lc ls")
      case None
      with assms(5) [OF less.prems(2) ask None] unf ask show ?thesis by simp
    next
      case (Some ls')
      with unf ask have "escalation_loop lc ls' ev1 = (res, ev')" by simp
      from less.hyps [OF _ this assms(3) [OF less.prems(2) ask Some]] after_failure_count [OF Some]
      show ?thesis by simp
    qed
  next
    case (Some x)
    then obtain r m t where "a = Some (r, m, t)" by (cases x) auto
    note ask = ask [unfolded this]
    show ?thesis
    proof (cases "check (lc_escalation lc) r (lc_body lc) (ls_escalation_count ls)")
      case (Inl e)
      with assms(6) [OF less.prems(2) ask Inl] unf ask show ?thesis by simp
    next
      case (Inr d)
      note chk = this
      show ?thesis
      proof (cases "after_decision lc d (note_response r m t d ls)")
        case None
        with assms(7) [OF less.prems(2) ask chk None] unf ask chk show ?thesis by (simp add: Let_def)
      next
        case (Some ls')
        with unf ask chk have "escalation_loop lc ls' ev1 = (res, ev')" by (simp add: Let_def)
        from less.hyps [OF _ this assms(4) [OF less.prems(2) ask chk Some]] after_decision_count [OF Some]
        show ?thesis by simp
      qed
    qed
  qed
qed

text \<open>A list of tiers in which each is the successor of the one before.\<close>

fun escalates :: "escalation_config \<Rightarrow> string list \<Rightarrow> bool" where
  "escalates cfg (t # u # ts) \<longleftrightarrow> get_next_tier cfg t = Some u \<and> escalates cfg (u # ts)"
| "escalates cfg _ \<longleftrightarrow> True"

lemma escalates_snoc:
  "escalates cfg (ts @ [t]) \<Longrightarrow> get_next_tier cfg t = Some u \<Longrightarrow> escalates cfg (ts @ [t, u])"
  by (induction cfg ts rule: escalates.induct) auto

text \<open>The tiers a loop state has visited, the current one last.\<close>

definition visited :: "loop_state \<Rightarrow> string list" where
  "visited ls = ls_escalation_path ls @ [ls_current_tier ls]"

definition path_inv :: "'w loop_context \<Rightarrow> string \<Rightarrow> loop_state \<Rightarrow> bool" where
  "path_inv lc tier0 ls \<longleftrightarrow>
     ls_escalation_count ls = int (length (ls_escalation_path ls))
     \<and> length (ls_escalation_path ls) \<le> nat (esc_max_escalations (lc_escalation lc))
     \<and> hd (visited ls) = tier0
     \<and> escalates (lc_escalation lc) (visited ls)
     \<and> (\<forall>t \<in> set (tl (visited ls)). is_tier_allowed (lc_degradation lc) (req_tenant_id (lc_body lc)) t)"

lemma path_inv_init [inv_intros]: "path_inv lc tier (init_loop tier)"
  by (simp add: path_inv_def init_loop_def visited_def)

lemma path_inv_next:
  assumes "path_inv lc tier0 ls" and "get_next_tier (lc_escalation lc) (ls_current_tier ls) = Some t"
    and "is_tier_allowed (lc_degradation lc) (req_tenant_id (lc_body lc)) t"
    and "ls_escalation_count ls < esc_max_escalations (lc_escalation lc)"
  shows "path_inv lc tier0 (next_round t ls)"
proof -
  have v: "visited (next_round t ls) = visited ls @ [t]" "visited ls \<noteq> []"
    by (simp_all add: visited_def next_round_def)
  have "escalates (lc_escalation lc) (visited ls @ [t])"
    using assms(1,2) by (auto simp: path_inv_def visited_def intro: escalates_snoc)
  with assms v show ?thesis
    unfolding path_inv_def v by (auto simp: next_round_def hd_append tl_append split: list.splits)
qed

lemma path_inv_note [simp]: "path_inv lc tier0 (note_response r m t d ls) = path_inv lc tier0 ls"
  by (simp add: path_inv_def visited_def)

lemma path_inv_failure:
  "path_inv lc tier0 ls \<Longrightarrow> after_failure lc ls = Some ls' \<Longrightarrow> path_inv lc tier0 ls'"
  by (auto simp: after_failure_def intro: path_inv_next split: if_splits option.splits)

lemma path_inv_decision:
  "path_inv lc tier0 ls \<Longrightarrow> after_decision lc d ls = Some ls' \<Longrightarrow> path_inv lc tier0 ls'"
  by (auto simp: after_decision_def intro: path_inv_next split: if_splits option.splits)

lemma visited_failure: "after_failure lc ls = Some ls' \<Longrightarrow> set (visited ls) \<subseteq> set (visited ls')"
  by (auto simp: after_failure_def visited_def next_round_def split: if_splits option.splits)

lemma visited_decision:
  "after_decision lc d (note_response r m t d ls) = Some ls' \<Longrightarrow> set (visited ls) \<subseteq> set (visited ls')"
  by (auto simp: after_decision_def visited_def next_round_def split: if_splits option.splits)

text \<open>The calls made while visiting some tiers, each to an eligible model of one of them.\<close>

definition calls_inv :: "'w loop_context \<Rightarrow> 'w environment \<Rightarrow> string list \<Rightarrow> 'w environment \<Rightarrow> bool" where
  "calls_inv lc ev0 tiers ev \<longleftrightarrow>
     (\<exists>cs. ev_calls ev = ev_calls ev0 @ cs
        \<and> (\<forall>c \<in> set cs. \<exists>tier \<in> set tiers.
             \<exists>r \<in> set (get_models_for_tier (lc_heap lc) (lc_config lc) tier).
               registry_get (lc_registry lc) (mc_id (lc_heap lc r)) \<noteq> None
               \<and> c = call_of (lc_heap lc) (lc_body lc) r))"

lemma ask_tier_calls:
  assumes "ask_tier lc ls ev = (res, ev1)" and "calls_inv lc ev0 (visited ls) ev"
  shows "calls_inv lc ev0 (visited ls) ev1"
proof -
  let ?ms = "get_models_for_tier (lc_heap lc) (lc_config lc) (ls_current_tier ls)"
  let ?es = "eligible (lc_heap lc) (lc_registry lc) (order_models (lc_heap lc) (target_model lc ls) ?ms)"
  obtain k where "ev_calls ev1 = ev_calls ev @ map (call_of (lc_heap lc) (lc_body lc)) (take k ?es)"
    using try_models_calls assms(1) by (metis ask_tier_def try_tier_models_def)
  moreover have "set (take k ?es) \<subseteq> set ?es" by (rule set_take_subset)
  moreover have "r \<in> set ?es \<Longrightarrow> r \<in> set ?ms \<and> registry_get (lc_registry lc) (mc_id (lc_heap lc r)) \<noteq> None" for r
    by (simp add: eligible_def)
  moreover have "ls_current_tier ls \<in> set (visited ls)" by (simp add: visited_def)
  ultimately show ?thesis
    using assms(2) unfolding calls_inv_def by (fastforce simp: call_of_def)
qed

lemma calls_inv_mono: "calls_inv lc ev0 ts ev \<Longrightarrow> set ts \<subseteq> set us \<Longrightarrow> calls_inv lc ev0 us ev"
  unfolding calls_inv_def by blast

lemma visited_note [simp]: "visited (note_response r m t d ls) = visited ls"
  by (simp add: visited_def)

lemma ask_tier_unknown: "ask_tier lc ls ev = (Some (r, m, t), ev1) \<Longrightarrow> t = ''unknown''"
  using try_models_calls by (fastforce simp: ask_tier_def try_tier_models_def)

text \<open>What the loop has noted about the best answer so far.\<close>

definition answer_inv :: "loop_state \<Rightarrow> bool" where
  "answer_inv ls \<longleftrightarrow> 0 \<le> ls_best_confidence ls \<and> ls_best_confidence ls \<le> 1
     \<and> (ls_best_response ls = None \<or> ls_tier_used ls = ''unknown'')"

lemma answer_inv_note:
  assumes "answer_inv ls" and "check cfg r body n = Inr d"
  shows "answer_inv (note_response r m ''unknown'' d ls)"
  using assms(1) check_bounds [OF assms(2)] by (auto simp: answer_inv_def note_response_def Let_def)

lemma answer_inv_next [simp]: "answer_inv (next_round t ls) = answer_inv ls"
  by (simp add: answer_inv_def next_round_def)

definition loop_inv :: "'w loop_context \<Rightarrow> string \<Rightarrow> 'w environment \<Rightarrow> loop_state \<Rightarrow> 'w environment \<Rightarrow> bool" where
  "loop_inv lc tier ev0 ls ev \<longleftrightarrow>
     path_inv lc tier ls \<and> calls_inv lc ev0 (visited ls) ev \<and> answer_inv ls"

lemma loop_inv_init: "loop_inv lc tier ev (init_loop tier) ev"
  unfolding loop_inv_def
  by (intro conjI path_inv_init) (simp_all add: calls_inv_def answer_inv_def init_loop_def)

lemma loop_inv_ask:
  "loop_inv lc tier ev0 ls ev \<Longrightarrow> ask_tier lc ls ev = (res, ev1) \<Longrightarrow> loop_inv lc tier ev0 ls ev1"
  unfolding loop_inv_def using ask_tier_calls by blast

lemma loop_inv_failure:
  assumes "loop_inv lc tier ev0 ls ev" and "after_failure lc ls = Some ls'"
  shows "loop_inv lc tier ev0 ls' ev"
proof -
  have "answer_inv ls'" using assms
    by (auto simp: loop_inv_def after_failure_def split: if_splits option.splits)
  with assms path_inv_failure calls_inv_mono visited_failure show ?thesis
    unfolding loop_inv_def by blast
qed

lemma loop_inv_note:
  assumes "loop_inv lc tier ev0 ls ev" and "check cfg r body n = Inr d"
  shows "loop_inv lc tier ev0 (note_response r m ''unknown'' d ls) ev"
  using assms answer_inv_note unfolding loop_inv_def by fastforce

lemma loop_inv_decision:
  assumes "loop_inv lc tier ev0 ls ev" and "after_decision lc d ls = Some ls'"
  shows "loop_inv lc tier ev0 ls' ev"
proof -
  have "answer_inv ls'" "set (visited ls) \<subseteq> set (visited ls')" using assms
    by (auto simp: loop_inv_def after_decision_def visited_def next_round_def answer_inv_def
        split: if_splits option.splits)
  with assms path_inv_decision calls_inv_mono show ?thesis unfolding loop_inv_def by blast
qed

lemma escalation_loop_sound:
  assumes "escalation_loop lc (init_loop tier) ev = (res, ev')"
  shows "\<exists>ls. loop_inv lc tier ev ls ev' \<and> (case res of Inr ls' \<Rightarrow> ls' = ls | Inl e \<Rightarrow> True)"
proof (rule escalation_loop_rule [OF assms, where I = "loop_inv lc tier ev"])
  show "loop_inv lc tier ev (init_loop tier) ev" by (rule loop_inv_init)
next
  fix ls ev1 ev2 ls' assume "loop_inv lc tier ev ls ev1" "ask_tier lc ls ev1 = (None, ev2)"
    "after_failure lc ls = Some ls'"
  then show "loop_inv lc tier ev ls' ev2" by (blast intro: loop_inv_ask loop_inv_failure)
next
  fix ls ev1 r m t ev2 d ls'
  assume *: "loop_inv lc tier ev ls ev1" "ask_tier lc ls ev1 = (Some (r, m, t), ev2)"
    "check (lc_escalation lc) r (lc_body lc) (ls_escalation_count ls) = Inr d"
    "after_decision lc d (note_response r m t d ls) = Some ls'"
  then show "loop_inv lc tier ev ls' ev2"
    using ask_tier_unknown [OF *(2)] by (blast intro: loop_inv_ask loop_inv_note loop_inv_decision)
next
  fix ls ev1 r m t ev2 d
  assume *: "loop_inv lc tier ev ls ev1" "ask_tier lc ls ev1 = (Some (r, m, t), ev2)"
    "check (lc_escalation lc) r (lc_body lc) (ls_escalation_count ls) = Inr d"
  have "loop_inv lc tier ev (note_response r m ''unknown'' d ls) ev2"
    using * by (blast intro: loop_inv_ask loop_inv_note)
  then show "\<exists>lsa. loop_inv lc tier ev lsa ev2 \<and>
      (case Inr (note_response r m t d ls) of Inr ls' \<Rightarrow> ls' = lsa | Inl e \<Rightarrow> True)"
    using ask_tier_unknown [OF *(2)] by auto
qed (auto intro: loop_inv_ask)

section \<open>Facts about the handler\<close>

lemma loop_context_simps [simp]:
  "lc_heap (loop_context_of rd body a) = as_heap a" "lc_config (loop_context_of rd body a) = as_config a"
  "lc_escalation (loop_context_of rd body a) = as_escalation a"
  "lc_degradation (loop_context_of rd body a) = as_degradation a"
  "lc_registry (loop_context_of rd body a) = as_registry a" "lc_body (loop_context_of rd body a) = body"
  "lc_resolution (loop_context_of rd body a) = route body a"
  by (simp_all add: loop_context_of_def)

lemma complete_cases:
  assumes "complete sv rd body (a0, ev) = (out, a', ev')"
  obtains (stopped) "admit sv rd body a0 = Inl (out, a')" and "ev' = ev"
  | (raised) a e where "admit sv rd body a0 = Inr a"
      and "escalation_loop (loop_context_of rd body a) (init_loop (rr_tier (route body a))) ev = (Inl e, ev')"
      and "out = InternalServerError" and "a' = a"
  | (finished) a ls where "admit sv rd body a0 = Inr a"
      and "escalation_loop (loop_context_of rd body a) (init_loop (rr_tier (route body a))) ev = (Inr ls, ev')"
      and "finish sv rd body ls a = (out, a')"
proof (cases "admit sv rd body a0")
  case (Inl p)
  with assms stopped show thesis by (cases p) (auto simp: complete_def)
next
  case (Inr a)
  note ad = Inr
  let ?loop = "escalation_loop (loop_context_of rd body a) (init_loop (rr_tier (route body a))) ev"
  obtain res ev1 where loop: "?loop = (res, ev1)" by (cases ?loop)
  have out: "(out, a', ev') = (case res of Inl e \<Rightarrow> (InternalServerError, a, ev1)
      | Inr ls \<Rightarrow> (case finish sv rd body ls a of (outcome, a') \<Rightarrow> (outcome, a', ev1)))"
    using assms by (simp add: complete_def ad loop Let_def split: sum.split)
  show thesis
  proof (cases res)
    case (Inl e)
    with out loop show thesis by (intro raised [OF ad, of e]) simp_all
  next
    case (Inr ls)
    with out loop show thesis
      by (intro finished [OF ad, of ls]) (simp_all split: prod.splits)
  qed
qed

lemma admit_Inr:
  assumes "admit sv rd body a0 = Inr a"
  shows "\<exists>s bt n. get_daily_spend (sv_redis sv) (t_spend rd) (req_tenant_id body) (as_budget a0) = Some s
     \<and> as_degradation a = snd (update_for_spend (req_tenant_id body) s (as_degradation a0))
     \<and> \<not> should_reject_llm (as_degradation a) (req_tenant_id body)
     \<and> increment_requests (sv_redis sv) (t_requests rd) (req_tenant_id body) (as_budget a0) = Some (n, bt)
     \<and> a = a0\<lparr>as_degradation := as_degradation a, as_budget := bt\<rparr>"
  using assms by (auto simp: admit_def Let_def split: option.splits prod.splits if_splits)

lemma admit_keeps:
  assumes "admit sv rd body a0 = Inr a"
  shows "as_heap a = as_heap a0" "as_config a = as_config a0" "as_escalation a = as_escalation a0"
    "as_canary a = as_canary a0" "as_registry a = as_registry a0" "as_metrics a = as_metrics a0"
  using assms by (auto simp: admit_def Let_def split: option.splits prod.splits if_splits)

lemma admit_Inl:
  assumes "admit sv rd body a0 = Inl (out, a)"
  shows "as_canary a = as_canary a0 \<and> as_metrics a = as_metrics a0 \<and> as_budget a = as_budget a0
    \<and> (\<forall>r. out \<noteq> Completed r) \<and> out \<noteq> AllModelsUnavailable"
  using assms by (auto simp: admit_def Let_def split: option.splits prod.splits if_splits)

lemma finish_Completed:
  assumes "finish sv rd body ls a = (Completed resp, a')"
  shows "\<exists>best v variant. ls_best_response ls = Some best
     \<and> resp = completion_of rd body ls best (request_cost (as_registry a) (ls_model_used ls) best)
     \<and> record_cost (sv_redis sv) (t_cost rd) (req_tenant_id body) (cr_cost_usd resp) (as_budget a)
         = Some (v, as_budget a')
     \<and> as_metrics a' = metrics_record (success_entry rd body ls best (cr_cost_usd resp) variant) (as_metrics a)"
  using assms by (auto simp: finish_def Let_def completion_of_def split: option.splits prod.splits)

lemma route_tier_allowed:
  assumes "0 \<le> get_level (as_degradation a) (req_tenant_id body)"
    and "\<not> should_reject_llm (as_degradation a) (req_tenant_id body)"
  shows "rr_tier (route body a) \<in> set (tiers_for_level (get_level (as_degradation a) (req_tenant_id body)))
       \<or> rr_tier (route body a) \<notin> set tier_priority"
proof -
  let ?res = "resolve (as_heap a) (as_config a) (req_agent body) (req_task body) (req_tenant_id body)"
  have "rr_tier (route body a) = cap_tier (as_degradation a) (req_tenant_id body) (rr_tier ?res)"
    by (simp add: route_def Let_def)
  then show ?thesis
    using cap_tier_allowed [of "as_degradation a" "req_tenant_id body" "rr_tier ?res"] assms
      cap_tier_unknown [of "rr_tier ?res"]
    by (cases "rr_tier ?res \<in> set tier_priority") (auto simp: should_reject_llm_def get_allowed_tiers_def)
qed

lemma complete_keeps:
  assumes "complete sv rd body (a, ev) = (out, a', ev')"
  shows "as_heap a' = as_heap a \<and> as_config a' = as_config a \<and> as_escalation a' = as_escalation a
    \<and> as_registry a' = as_registry a \<and> as_health a' = as_health a
    \<and> dm_cost_config (as_degradation a') = dm_cost_config (as_degradation a)
    \<and> (degradation_inv (as_degradation a) \<longrightarrow> degradation_inv (as_degradation a'))
    \<and> (canary_inv (as_canary a) \<longrightarrow> canary_inv (as_canary a'))
    \<and> (length (as_metrics a) \<le> max_records \<longrightarrow> length (as_metrics a') \<le> max_records)"
proof -
  have spend: "dm_cost_config (snd (update_for_spend t s m)) = dm_cost_config m"
    "degradation_inv m \<Longrightarrow> degradation_inv (snd (update_for_spend t s m))" for t s m
    by (simp_all add: snd_update_for_spend set_level_def degradation_inv_spend [unfolded snd_update_for_spend set_level_def])
  have stop: "as_heap b = as_heap a \<and> as_config b = as_config a \<and> as_escalation b = as_escalation a
      \<and> as_registry b = as_registry a \<and> as_health b = as_health a
      \<and> dm_cost_config (as_degradation b) = dm_cost_config (as_degradation a)
      \<and> (degradation_inv (as_degradation a) \<longrightarrow> degradation_inv (as_degradation b))
      \<and> as_canary b = as_canary a \<and> as_metrics b = as_metrics a"
    if "admit sv rd body a = Inl (out, b) \<or> admit sv rd body a = Inr b" for b
    using that spend
    by (auto simp: admit_def Let_def split: option.splits prod.splits if_splits) (metis snd_conv)+
  from assms show ?thesis
  proof (cases rule: complete_cases)
    case stopped
    with stop [of a'] show ?thesis by auto
  next
    case (raised a1 e)
    with stop [of a1] show ?thesis by auto
  next
    case (finished a1 ls)
    then have "as_heap a' = as_heap a1 \<and> as_config a' = as_config a1 \<and> as_escalation a' = as_escalation a1
      \<and> as_registry a' = as_registry a1 \<and> as_health a' = as_health a1 \<and> as_degradation a' = as_degradation a1
      \<and> (canary_inv (as_canary a1) \<longrightarrow> canary_inv (as_canary a'))
      \<and> (length (as_metrics a1) \<le> max_records \<longrightarrow> length (as_metrics a') \<le> max_records)"
      by (auto simp: finish_def Let_def intro: canary_inv_record metrics_record_length
          split: option.splits prod.splits)
    with stop [of a1] finished(1) show ?thesis by auto
  qed
qed

lemma complete_calls_registered:
  assumes "admit sv rd body a = Inr a1"
    and "escalation_loop (loop_context_of rd body a1) (init_loop (rr_tier (route body a1))) ev = (res, ev')"
    and "(m, nr) \<in> set (ev_calls ev')" and "(m, nr) \<notin> set (ev_calls ev)"
  shows "registry_get (as_registry a1) m \<noteq> None"
proof -
  obtain ls where "loop_inv (loop_context_of rd body a1) (rr_tier (route body a1)) ev ls ev'"
    using escalation_loop_sound [OF assms(2)] by blast
  with assms(3,4) show ?thesis by (fastforce simp: loop_inv_def calls_inv_def call_of_def)
qed

end
