(* ===== verification/Gw_Complete.thy ===== *)
theory Gw_Complete
  imports Gw_Service
begin

text \<open>
  What the completion endpoint guarantees: the budget gate, which models it calls, how far it
  escalates, what it charges and records, and who may call it.
\<close>

section \<open>The effect of one event on the in-memory ledger\<close>

lemma increment_requests_effect:
  assumes "bt_redis bt = None" and "utc_day now = d" and "increment_requests api now u bt = Some (n, bt')"
  shows "bt_redis bt' = None"
    and "mem_spent (bt_fallback bt') t d = mem_spent (bt_fallback bt) t d"
    and "mem_counted (bt_fallback bt') t d = mem_counted (bt_fallback bt) t d + (if t = u then 1 else 0)"
proof -
  have bt': "bt' = bt\<lparr>bt_fallback := snd (increment_requests_memory now u (bt_fallback bt))\<rparr>"
    using assms(1,3) by (auto simp: increment_requests_def Let_def split: prod.splits)
  then show "bt_redis bt' = None" using assms(1) by simp
  show "mem_spent (bt_fallback bt') t d = mem_spent (bt_fallback bt) t d"
    "mem_counted (bt_fallback bt') t d = mem_counted (bt_fallback bt) t d + (if t = u then 1 else 0)"
    using increment_requests_memory_get [of now u "bt_fallback bt"] assms(2)
    by (auto simp: bt' mem_spent_def mem_counted_def)
qed

lemma record_cost_effect:
  assumes "bt_redis bt = None" and "utc_day now = d" and "record_cost api now u c bt = Some (v, bt')"
  shows "mem_spent (bt_fallback bt') t d = mem_spent (bt_fallback bt) t d + (if t = u then c else 0)"
    and "mem_counted (bt_fallback bt') t d = mem_counted (bt_fallback bt) t d"
proof -
  have bt': "bt' = bt\<lparr>bt_fallback := snd (record_cost_memory now u c (bt_fallback bt))\<rparr>"
    using assms(1,3) by (auto simp: record_cost_def Let_def split: prod.splits)
  show "mem_spent (bt_fallback bt') t d = mem_spent (bt_fallback bt) t d + (if t = u then c else 0)"
    "mem_counted (bt_fallback bt') t d = mem_counted (bt_fallback bt) t d"
    using record_cost_memory_get [of now u c "bt_fallback bt"] assms(2)
    by (auto simp: bt' mem_spent_def mem_counted_def)
qed

section \<open>Properties of the handler\<close>

text \<open>
  (fallback within a tier): the models of a tier are tried in order, the target model
  first. The calls made are an initial part of the healthy, enabled and registered models; when the
  attempt fails every one of them has been called, and when it succeeds the answer comes from
  the last model called.
\<close>

theorem tier_fallback_order:
  assumes "try_tier_models h registry req target models ev = (res, ev')"
    and "candidates = eligible h registry (order_models h target models)"
  shows "set candidates = set (eligible h registry models)
    \<and> (\<exists>k \<le> length candidates.
         ev_calls ev' = ev_calls ev @ map (call_of h req) (take k candidates)
         \<and> (res = None \<longrightarrow> k = length candidates)
         \<and> (\<forall>x m t. res = Some (x, m, t) \<longrightarrow> 0 < k \<and> m = mc_id (h (candidates ! (k - 1)))))"
proof -
  have "set candidates = set (eligible h registry models)"
    using order_models_set [of h target models] by (simp add: assms(2) eligible_def)
  with try_models_calls [OF assms(1) [unfolded try_tier_models_def]] show ?thesis
    unfolding assms(2) by blast
qed

text \<open>
  C9 (the budget gate): a tenant that has spent 95 percent of its positive daily limit gets no
  provider call, and nothing is charged or recorded for it. Below the limit the answer is the
  429 for an exhausted LLM budget and the queue is untouched. At the limit the request is
  enqueued and the answer is the 429 that names the queue entry, unless the queue raises.
\<close>

theorem complete_budget_gate:
  assumes "get_daily_spend (sv_redis sv) (t_spend rd) (req_tenant_id body) (as_budget a) = Some spent"
    and "limit = max_per_tenant_per_day_usd (dm_cost_config (as_degradation a))"
    and "0 < limit" and "0.95 * limit \<le> spent"
    and "complete sv rd body (a, ev) = (out, a', ev')"
  shows "ev' = ev \<and> as_budget a' = as_budget a \<and> as_metrics a' = as_metrics a
    \<and> (if spent < limit then out = LlmBudgetExhausted 3 \<and> as_queue a' = as_queue a
       else (case enqueue (sv_redis_lists sv) (sv_codec sv) (rd_queue_uuid rd) (t_enqueue rd) body (as_queue a) of
               None \<Rightarrow> out = InternalServerError \<and> as_queue a' = as_queue a
             | Some (queue_id, q) \<Rightarrow> out = BudgetExhausted queue_id 4 \<and> as_queue a' = q))"
proof -
  let ?t = "req_tenant_id body"
  obtain level dm where u: "update_for_spend ?t spent (as_degradation a) = (level, dm)"
    by (cases "update_for_spend ?t spent (as_degradation a)")
  have lev: "level = compute_level spent limit" "get_level dm ?t = level"
    using u fst_update_for_spend [of ?t spent "as_degradation a"]
      snd_update_for_spend [of ?t spent "as_degradation a"] assms(2) by auto
  have *: "\<exists>a1. admit sv rd body a = Inl (out, a1) \<and> a' = a1 \<and> ev' = ev"
    if "admit sv rd body a = Inl p" for p
    using assms(5) that by (cases p) (auto simp: complete_def)
  show ?thesis
  proof (cases "spent < limit")
    case True
    then have "level = 3" using lev(1) assms(3,4) by (simp add: compute_level_def le_divide_eq Let_def)
    then have "admit sv rd body a = Inl (LlmBudgetExhausted 3, a\<lparr>as_degradation := dm\<rparr>)"
      using assms(1) u lev(2) by (simp add: admit_def should_queue_def should_reject_llm_def)
    with * [OF this] True show ?thesis by auto
  next
    case False
    then have "level = 4" using lev(1) assms(3,4) by (simp add: compute_level_def le_divide_eq Let_def)
    then have "admit sv rd body a = Inl
        (case enqueue (sv_redis_lists sv) (sv_codec sv) (rd_queue_uuid rd) (t_enqueue rd) body (as_queue a) of
           None \<Rightarrow> (InternalServerError, a\<lparr>as_degradation := dm\<rparr>)
         | Some (queue_id, q) \<Rightarrow> (BudgetExhausted queue_id 4, a\<lparr>as_degradation := dm, as_queue := q\<rparr>))"
      using assms(1) u lev(2) by (simp add: admit_def should_queue_def split: option.split)
    with * [OF this] False show ?thesis by (auto split: option.splits)
  qed
qed

text \<open>
  C1 (which models are called): every provider call of a request goes to a model that is
  healthy, enabled and registered, with a token limit within both the request's and the model's.
  Its tier is either allowed at the degradation level of the tenant's spend, or no tier of the
  cascade at all (a route may name any tier). So a tenant past 70 percent of its budget never
  reaches a strong model, and past 85 percent only fast ones.
\<close>

theorem provider_calls_respect_limits:
  assumes "complete sv rd body (a, ev) = (out, a', ev')"
  shows "\<exists>calls. ev_calls ev' = ev_calls ev @ calls
    \<and> (\<forall>(m, nr) \<in> set calls. \<exists>tier r spent.
         r \<in> set (get_models_for_tier (as_heap a) (as_config a) tier)
         \<and> m = mc_id (as_heap a r) \<and> registry_get (as_registry a) m \<noteq> None
         \<and> nr_max_tokens nr \<le> req_max_tokens body \<and> nr_max_tokens nr \<le> mc_max_tokens (as_heap a r)
         \<and> get_daily_spend (sv_redis sv) (t_spend rd) (req_tenant_id body) (as_budget a) = Some spent
         \<and> (tier \<in> set (tiers_for_level (compute_level spent
                (max_per_tenant_per_day_usd (dm_cost_config (as_degradation a)))))
            \<or> tier \<notin> {''fast'', ''mid'', ''strong''}))"
proof -
  have gen: ?thesis
    if ad: "admit sv rd body a = Inr a1"
      and loop: "escalation_loop (loop_context_of rd body a1) (init_loop (rr_tier (route body a1))) ev = (res, ev')"
    for a1 res
  proof -
    let ?lc = "loop_context_of rd body a1" and ?t = "req_tenant_id body"
    obtain spent bt n where s: "get_daily_spend (sv_redis sv) (t_spend rd) ?t (as_budget a) = Some spent"
        "as_degradation a1 = snd (update_for_spend ?t spent (as_degradation a))"
        "\<not> should_reject_llm (as_degradation a1) ?t"
      using admit_Inr [OF ad] by blast
    let ?lv = "compute_level spent (max_per_tenant_per_day_usd (dm_cost_config (as_degradation a)))"
    have lv: "get_level (as_degradation a1) ?t = ?lv"
      using s(2) by (simp add: snd_update_for_spend fst_update_for_spend)
    note same = admit_keeps [OF ad]
    obtain ls where ls: "loop_inv ?lc (rr_tier (route body a1)) ev ls ev'"
      using escalation_loop_sound [OF loop] by blast
    have first: "rr_tier (route body a1) \<in> set (tiers_for_level ?lv) \<or> rr_tier (route body a1) \<notin> set tier_priority"
      using route_tier_allowed [of a1 body] s(3) by (simp add: lv compute_level_range)
    have tiers: "tier \<in> set (tiers_for_level ?lv) \<or> tier \<notin> {''fast'', ''mid'', ''strong''}"
      if "tier \<in> set (visited ls)" for tier
    proof (cases "tier \<in> set (tl (visited ls))")
      case True
      with ls lv show ?thesis
        by (auto simp: loop_inv_def path_inv_def is_tier_allowed_def get_allowed_tiers_def)
    next
      case False
      with that have "tier = hd (visited ls)" by (cases "visited ls") auto
      with ls first show ?thesis by (auto simp: loop_inv_def path_inv_def tier_priority_def)
    qed
    from ls obtain calls where c: "ev_calls ev' = ev_calls ev @ calls"
        "\<forall>c \<in> set calls. \<exists>tier \<in> set (visited ls). \<exists>r \<in> set (get_models_for_tier (as_heap a) (as_config a) tier).
           registry_get (as_registry a) (mc_id (as_heap a r)) \<noteq> None \<and> c = call_of (as_heap a) body r"
      by (auto simp: loop_inv_def calls_inv_def same)
    show ?thesis
      using c tiers s(1) by (intro exI [of _ calls]) (fastforce simp: call_of_def normalize_request_def)
  qed
  from assms show ?thesis
  proof (cases rule: complete_cases)
    case stopped
    then show ?thesis by simp
  qed (use gen in blast)+
qed

text \<open>
  C8 (bounded escalation): a completed request has escalated at most
  \<^verbatim>\<open>max_escalations\<close> times, reports itself escalated exactly when its escalation path is not
  empty, and its path starts at the routed tier and moves along the configured escalation
  path. Its confidence lies between 0 and 1.
\<close>

theorem escalation_bounded:
  assumes "complete sv rd body (a, ev) = (Completed resp, a', ev')"
  shows "length (cr_escalation_path resp) \<le> nat (esc_max_escalations (as_escalation a))
    \<and> (cr_escalated resp \<longleftrightarrow> cr_escalation_path resp \<noteq> [])
    \<and> (\<exists>a1. admit sv rd body a = Inr a1
         \<and> (cr_escalation_path resp = [] \<or> hd (cr_escalation_path resp) = rr_tier (route body a1)))
    \<and> escalates (as_escalation a) (cr_escalation_path resp)
    \<and> 0 \<le> cr_confidence resp \<and> cr_confidence resp \<le> 1"
  using assms
proof (cases rule: complete_cases)
  case (finished a1 ls)
  have inv: "loop_inv (loop_context_of rd body a1) (rr_tier (route body a1)) ev ls ev'"
    using escalation_loop_sound [OF finished(2)] by auto
  have esc: "as_escalation a1 = as_escalation a" by (rule admit_keeps [OF finished(1)])
  have drop: "escalates cfg (ts @ [t]) \<Longrightarrow> escalates cfg ts" for cfg ts t
    by (induction cfg ts rule: escalates.induct) auto
  obtain best where resp: "resp = completion_of rd body ls best (cr_cost_usd resp)"
    using finish_Completed [OF finished(3)] by (metis completion_response.select_convs(10) completion_of_def)
  have path: "cr_escalation_path resp = ls_escalation_path ls" "cr_escalated resp = (0 < ls_escalation_count ls)"
      "cr_confidence resp = ls_best_confidence ls"
    by (subst resp, simp add: completion_of_def)+
  from inv have "hd (ls_escalation_path ls @ [ls_current_tier ls]) = rr_tier (route body a1)"
    by (simp add: loop_inv_def path_inv_def visited_def)
  with inv finished(1) path esc show ?thesis
    by (auto simp: loop_inv_def path_inv_def answer_inv_def visited_def intro: drop)
qed (use admit_Inl in blast)+

text \<open>
  C2 (accounting): with the in-memory tracker and the clock readings of a request on one day, a
  completed request adds exactly the reported cost to the tenant's spend of that day and leaves
  every other tenant's spend alone, and its metrics entry carries the same cost and no error. A
  request that ends with 503 costs nothing and is recorded as an error. Either counts once.
\<close>

theorem completion_accounting:
  assumes "complete sv rd body (a, ev) = (out, a', ev')" and "bt_redis (as_budget a) = None"
    and "utc_day (t_spend rd) = d" "utc_day (t_requests rd) = d" "utc_day (t_cost rd) = d"
    and "case out of Completed r \<Rightarrow> cost = cr_cost_usd r | _ \<Rightarrow> out = AllModelsUnavailable \<and> cost = 0"
  shows "mem_spent (bt_fallback (as_budget a')) t d =
           mem_spent (bt_fallback (as_budget a)) t d + (if t = req_tenant_id body then cost else 0)
    \<and> mem_counted (bt_fallback (as_budget a')) t d =
           mem_counted (bt_fallback (as_budget a)) t d + (if t = req_tenant_id body then 1 else 0)
    \<and> (\<exists>entry. as_metrics a' = metrics_record entry (as_metrics a)
         \<and> me_error entry = (out = AllModelsUnavailable)
         \<and> me_cost_usd entry = (if out = AllModelsUnavailable then None else Some cost))"
  using assms(1)
proof (cases rule: complete_cases)
  case stopped
  with assms(6) admit_Inl [of sv rd body a out a'] show ?thesis by (cases out) auto
next
  case (raised a1 e)
  with assms(6) show ?thesis by simp
next
  case (finished a1 ls)
  obtain n where inc: "increment_requests (sv_redis sv) (t_requests rd) (req_tenant_id body) (as_budget a)
        = Some (n, as_budget a1)" and m: "as_metrics a1 = as_metrics a"
    using admit_Inr [OF finished(1)] by force
  note step1 = increment_requests_effect [OF assms(2,4) inc]
  show ?thesis
  proof (cases out)
    case (Completed resp)
    with assms(6) have cost: "cost = cr_cost_usd resp" by simp
    from finish_Completed [OF finished(3) [unfolded Completed]] obtain best v variant where f:
        "record_cost (sv_redis sv) (t_cost rd) (req_tenant_id body) cost (as_budget a1) = Some (v, as_budget a')"
        "as_metrics a' = metrics_record (success_entry rd body ls best cost variant) (as_metrics a)"
      unfolding cost m by blast
    from record_cost_effect [OF step1(1) assms(5) f(1)] step1 f(2) Completed show ?thesis
      by (auto simp: success_entry_def)
  next
    case AllModelsUnavailable
    with finished(3) have "as_budget a' = as_budget a1"
        "as_metrics a' = metrics_record (failure_entry rd body ls) (as_metrics a)"
      by (auto simp: finish_def Let_def m split: option.splits prod.splits)
    with step1 AllModelsUnavailable assms(6) show ?thesis by (auto simp: failure_entry_def)
  qed (use assms(6) in auto)
qed

lemma route_thresholds [simp]:
  "route body (a\<lparr>as_thresholds := th\<rparr>) = route body a"
  "canary_target rd body (a\<lparr>as_thresholds := th\<rparr>) = canary_target rd body a"
  "loop_context_of rd body (a\<lparr>as_thresholds := th\<rparr>) = loop_context_of rd body a"
  by (simp_all add: route_def canary_target_def loop_context_of_def)

lemma admit_thresholds:
  "admit sv rd body (a\<lparr>as_thresholds := th\<rparr>) =
     map_sum (apsnd (\<lambda>b. b\<lparr>as_thresholds := th\<rparr>)) (\<lambda>b. b\<lparr>as_thresholds := th\<rparr>) (admit sv rd body a)"
  by (simp add: admit_def Let_def split: option.split prod.split)

lemma finish_thresholds:
  "finish sv rd body ls (a\<lparr>as_thresholds := th\<rparr>) =
     apsnd (\<lambda>b. b\<lparr>as_thresholds := th\<rparr>) (finish sv rd body ls a)"
  by (simp add: finish_def Let_def split: option.split prod.split)

text \<open>
  (the admin threshold has no effect): whatever confidence thresholds an
  administrator has set, the handler gives the same outcome, makes the same provider calls and
  leaves the rest of the state the same.
\<close>

theorem admin_threshold_ignored:
  "complete sv rd body (a\<lparr>as_thresholds := th\<rparr>, ev) =
     apsnd (apfst (\<lambda>b. b\<lparr>as_thresholds := th\<rparr>)) (complete sv rd body (a, ev))"
  by (simp add: complete_def admit_thresholds finish_thresholds Let_def
      split: sum.split prod.split)

text \<open>
  (the reported tier is never known): every completed request reports the tier
  \<^verbatim>\<open>unknown\<close>, so the metrics by tier cannot tell tiers apart.
\<close>

theorem reported_tier_unknown:
  assumes "complete sv rd body (a, ev) = (Completed resp, a', ev')"
  shows "cr_tier_used resp = ''unknown''"
  using assms
proof (cases rule: complete_cases)
  case (finished a1 ls)
  have inv: "answer_inv ls"
    using escalation_loop_sound [OF finished(2)] by (auto simp: loop_inv_def)
  from finish_Completed [OF finished(3)] obtain best cost
    where "ls_best_response ls = Some best" "resp = completion_of rd body ls best cost" by blast
  with inv show ?thesis by (simp add: answer_inv_def completion_of_def)
qed (use admit_Inl in blast)+

text \<open>
  (a canary experiment never sees a control sample): no request adds to the control
  samples of any experiment, whichever variant it was given, so the control metrics of an
  experiment started with none stay empty.
\<close>

theorem control_samples_never_grow:
  assumes "complete sv rd body (a, ev) = (out, a', ev')"
  shows "map_option ce_control_samples (dict_get (as_canary a') k) =
         map_option ce_control_samples (dict_get (as_canary a) k)"
proof -
  have fin: "map_option ce_control_samples (dict_get (as_canary a') k) =
      map_option ce_control_samples (dict_get (as_canary a1) k)"
    if "finish sv rd body ls a1 = (out, a')" for ls a1
    using that
    by (auto simp: finish_def Let_def record_result_def should_use_canary_def ce_record_def
        lookup_experiment_def split: option.splits prod.splits if_splits)
  from assms show ?thesis
  proof (cases rule: complete_cases)
    case stopped
    then show ?thesis using admit_Inl by metis
  next
    case (raised a1 e)
    then show ?thesis using admit_keeps(4) by metis
  next
    case (finished a1 ls)
    then show ?thesis using admit_keeps(4) fin by metis
  qed
qed

section \<open>Service authentication\<close>

text \<open>
  (who is admitted): with authentication enabled a caller is admitted under a service id
  exactly when it names that id, the id has a key, the key is ASCII, and the caller sent
  exactly that key, which is not empty; with authentication disabled everyone is anonymous.
\<close>

theorem verify_service_iff:
  "(verify_service settings keys sid key = Inr who) =
     (if st_service_auth_enabled settings
      then who = sid \<and> sid \<noteq> [] \<and> key \<noteq> [] \<and> is_ascii key \<and> dict_get keys sid = Some key
      else who = ''anonymous'')"
  by (auto simp: verify_service_def compare_digest_def split: option.splits bool.splits if_splits)

section \<open>Witnesses\<close>

text \<open>
  A small gateway with in-memory tracker and queue: the model of the mid tier always fails, the
  one of the strong tier answers.
\<close>

definition answering :: "normalized_response \<Rightarrow> unit adapter" where
  "answering resp = \<lparr>ad_complete = (\<lambda>nr w. (Some resp, w)), ad_estimate_cost = (\<lambda>i j. 0.25)\<rparr>"

definition failing :: "unit adapter" where
  "failing = \<lparr>ad_complete = (\<lambda>nr w. (None, w)), ad_estimate_cost = (\<lambda>i j. 0)\<rparr>"

definition sample_services :: "(unit, string \<Rightarrow> queued_request list, queued_request) services" where
  "sample_services =
     \<lparr>sv_redis = \<lparr>rd_incrbyfloat = \<lambda>k x r. None, rd_incr = \<lambda>k r. None, rd_get = \<lambda>k r. None,
                   rd_ttl = \<lambda>k r. None, rd_expire = \<lambda>k n r. None\<rparr>,
      sv_redis_lists = list_server, sv_codec = id_codec\<rparr>"

definition sample_state :: "(unit, string \<Rightarrow> queued_request list, unit) app_state" where
  "sample_state =
     \<lparr>as_heap = sample_heap, as_config = sample_config, as_escalation = default_escalation,
      as_canary = [(''chat'', new_experiment 0 ''chat'' sample_canary)],
      as_registry = [(''small'', answering tool_response), (''medium'', failing),
                     (''large'', answering tool_response)],
      as_health = sample_manager, as_budget = init_budget_tracker,
      as_degradation = init_degradation default_cost, as_queue = init_request_queue,
      as_metrics = [], as_thresholds = []\<rparr>"

definition sample_readings :: readings where
  "sample_readings =
     \<lparr>rd_trace_uuid = ''u1'', rd_queue_uuid = ''q1'', rd_roll = 90, rd_elapsed_ms = 40,
      t_spend = 100, t_enqueue = 100, t_requests = 100, t_cost = 101, t_metrics = 101, t_sample = 101\<rparr>"

definition no_calls :: "unit environment" where
  "no_calls = \<lparr>ev_world = (), ev_calls = []\<rparr>"

lemma sample_admit:
  "admit sample_services sample_readings (threshold_request c) sample_state =
     Inr (sample_state\<lparr>as_degradation := set_level ''acme'' 0 (init_degradation default_cost),
       as_budget := \<lparr>bt_redis = None, bt_fallback = [(''acme'', \<lparr>tb_daily_spend = 0, tb_request_count = 1, tb_date = 0\<rparr>)]\<rparr>\<rparr>)"
  by (simp add: admit_def sample_services_def sample_readings_def sample_state_def threshold_request_def
     get_daily_spend_def get_daily_spend_memory_def init_budget_tracker_def update_for_spend_def
     init_degradation_def compute_level_def default_cost_def should_queue_def should_reject_llm_def
     increment_requests_def increment_requests_memory_def get_or_create_state_def new_tenant_state_def utc_day_def)


definition admitted :: "(unit, string \<Rightarrow> queued_request list, unit) app_state" where
  "admitted = sample_state\<lparr>as_degradation := set_level ''acme'' 0 (init_degradation default_cost),
       as_budget := \<lparr>bt_redis = None, bt_fallback = [(''acme'', \<lparr>tb_daily_spend = 0, tb_request_count = 1, tb_date = 0\<rparr>)]\<rparr>\<rparr>"

lemma admitted_simps:
  "as_heap admitted = sample_heap" "as_config admitted = sample_config"
  "as_escalation admitted = default_escalation" "as_registry admitted = as_registry sample_state"
  "as_degradation admitted = set_level ''acme'' 0 (init_degradation default_cost)"
  "as_canary admitted = as_canary sample_state" "as_metrics admitted = []"
  "as_budget admitted = \<lparr>bt_redis = None, bt_fallback = [(''acme'', \<lparr>tb_daily_spend = 0, tb_request_count = 1, tb_date = 0\<rparr>)]\<rparr>"
  by (simp_all add: admitted_def sample_state_def)

lemma sample_route: "route (threshold_request c) admitted = tier_resolution ''mid'' ''default''"
  by (simp add: route_def admitted_simps threshold_request_def resolve_def resolve_tenant_def route_entry_def
      sample_config_def default_routing_def resolve_agent_def resolve_task_def cap_tier_def tiers_for_level_def
      tier_priority_def)

abbreviation sample_lc :: "real \<Rightarrow> unit loop_context" where
  "sample_lc c \<equiv> loop_context_of sample_readings (threshold_request c) admitted"

lemma sample_canary_target: "canary_target sample_readings (threshold_request c) admitted = None"
  by (simp add: canary_target_def sample_readings_def admitted_simps sample_state_def should_use_canary_def
      lookup_experiment_def experiment_key_def threshold_request_def sample_canary_def)

lemma sample_target: "target_model (sample_lc c) ls = None"
  by (simp add: target_model_def sample_route sample_canary_target) (simp add: loop_context_of_def sample_canary_target)

lemma sample_mid_fails:
  "ls_current_tier ls = ''mid'' \<Longrightarrow> \<exists>ev1. ask_tier (sample_lc c) ls ev = (None, ev1)"
  by (simp add: ask_tier_def sample_target try_tier_models_def order_models_def str_truthy_def admitted_simps
      get_models_for_tier_def sample_config_def sample_heap_def sample_model_def sample_state_def
      registry_get_def failing_def call_adapter_def)

lemma sample_strong_answers:
  "ls_current_tier ls = ''strong'' \<Longrightarrow>
   \<exists>ev1. ask_tier (sample_lc c) ls ev = (Some (tool_response, ''large'', ''unknown''), ev1)"
  by (simp add: ask_tier_def sample_target try_tier_models_def order_models_def str_truthy_def admitted_simps
      get_models_for_tier_def sample_config_def sample_heap_def sample_model_def sample_state_def
      registry_get_def answering_def call_adapter_def)

lemma sample_check:
  "check default_escalation tool_response (threshold_request 0.7) 1 = Inr (mk_decision False NoReason 0.8)"
  by (simp add: check_def tool_response_checks default_escalation_def) (simp add: threshold_request_def)

lemma sample_after_failure:
  "after_failure (sample_lc c) (init_loop ''mid'') = Some (next_round ''strong'' (init_loop ''mid''))"
  by (simp add: after_failure_def admitted_simps default_escalation_def get_next_tier_def init_loop_def
     is_tier_allowed_def get_allowed_tiers_def tiers_for_level_def threshold_request_def)

definition sample_end :: loop_state where
  "sample_end = note_response tool_response ''large'' ''unknown'' (mk_decision False NoReason 0.8)
     (next_round ''strong'' (init_loop ''mid''))"

lemma sample_loop:
  "\<exists>ev1. escalation_loop (sample_lc 0.7) (init_loop ''mid'') ev = (Inr sample_end, ev1)"
proof -
  let ?ls = "next_round ''strong'' (init_loop ''mid'')"
  have t: "ls_current_tier (init_loop ''mid'') = ''mid''" "ls_current_tier ?ls = ''strong''" "ls_escalation_count ?ls = 1"
    by (simp_all add: init_loop_def next_round_def)
  obtain ev1 where 1: "ask_tier (sample_lc 0.7) (init_loop ''mid'') ev = (None, ev1)"
    using sample_mid_fails [OF t(1)] by blast
  obtain ev2 where 2: "ask_tier (sample_lc 0.7) ?ls ev1 = (Some (tool_response, ''large'', ''unknown''), ev2)"
    using sample_strong_answers [OF t(2)] by blast
  have "escalation_loop (sample_lc 0.7) ?ls ev1 = (Inr sample_end, ev2)"
    by (subst escalation_loop.simps)
      (simp add: 2 t(3) admitted_simps sample_check after_decision_def sample_end_def)
  then show ?thesis by (subst escalation_loop.simps) (simp add: 1 sample_after_failure)
qed

lemma record_cost_some: "bt_redis bt = None \<Longrightarrow> \<exists>x bt'. record_cost api now t c bt = Some (x, bt')"
  by (simp add: record_cost_def split: prod.split)

lemma sample_completes:
  "\<exists>resp a' ev'. complete sample_services sample_readings (threshold_request 0.7) (sample_state, no_calls)
      = (Completed resp, a', ev') \<and> cr_cost_usd resp = 0.25 \<and> cr_escalation_path resp = [''mid'']"
proof -
  let ?body = "threshold_request 0.7"
  obtain ev1 where l: "escalation_loop (sample_lc 0.7) (init_loop (rr_tier (route ?body admitted))) no_calls = (Inr sample_end, ev1)"
    using sample_loop by (metis sample_route tier_resolution_simps(1))
  have e: "ls_best_response sample_end = Some tool_response" "ls_model_used sample_end = ''large''"
     "ls_escalation_path sample_end = [''mid'']"
    by (simp_all add: sample_end_def note_response_def Let_def) (simp add: next_round_def init_loop_def)
  have c: "request_cost (as_registry sample_state) ''large'' tool_response = 0.25"
    by (simp add: request_cost_def sample_state_def registry_get_def answering_def)
  have ad: "admit sample_services sample_readings ?body sample_state = Inr admitted"
    unfolding admitted_def by (rule sample_admit)
  obtain x bt where r: "record_cost (sv_redis sample_services) (t_cost sample_readings) (req_tenant_id ?body) (1 / 4)
      (as_budget admitted) = Some (x, bt)"
    using record_cost_some [of "as_budget admitted"] admitted_simps(8) by (metis budget_tracker.select_convs(1))
  have "\<exists>a'. finish sample_services sample_readings ?body sample_end admitted =
      (Completed (completion_of sample_readings ?body sample_end tool_response (1 / 4)), a')"
    by (simp add: finish_def e c r [simplified] admitted_simps(4) Let_def split: prod.split)
  with l ad e show ?thesis
    by (auto simp: complete_def Let_def completion_of_def)
qed


theorem tier_fallback_order_witness:
  "\<exists>res ev'. try_tier_models sample_heap (as_registry sample_state) (threshold_request 0) (Some ''large'') [1, 0, 2] no_calls = (res, ev')
     \<and> set (eligible sample_heap (as_registry sample_state) (order_models sample_heap (Some ''large'') [1, 0, 2]))
        = set (eligible sample_heap (as_registry sample_state) [1, 0, 2])"
proof -
  obtain res ev' where "try_tier_models sample_heap (as_registry sample_state) (threshold_request 0)
      (Some ''large'') [1, 0, 2] no_calls = (res, ev')" by (metis surj_pair)
  from tier_fallback_order [OF this refl] this show ?thesis by blast
qed

theorem provider_calls_respect_limits_witness:
  "\<exists>out a' ev' calls. complete sample_services sample_readings (threshold_request 0.7) (sample_state, no_calls)
      = (out, a', ev') \<and> ev_calls ev' = ev_calls no_calls @ calls"
proof -
  obtain out a' ev' where c: "complete sample_services sample_readings (threshold_request 0.7) (sample_state, no_calls)
      = (out, a', ev')" by (metis surj_pair)
  from provider_calls_respect_limits [OF c] c show ?thesis by blast
qed

theorem escalation_bounded_witness:
  "\<exists>resp a' ev'. complete sample_services sample_readings (threshold_request 0.7) (sample_state, no_calls)
      = (Completed resp, a', ev') \<and> cr_escalation_path resp = [''mid''] \<and> cr_escalated resp
      \<and> cr_confidence resp \<le> 1"
proof -
  from sample_completes obtain resp a' ev' where
    c: "complete sample_services sample_readings (threshold_request 0.7) (sample_state, no_calls)
      = (Completed resp, a', ev')" "cr_escalation_path resp = [''mid'']" by blast
  with escalation_bounded [OF c(1)] show ?thesis by auto
qed

theorem reported_tier_unknown_witness:
  "\<exists>resp a' ev'. complete sample_services sample_readings (threshold_request 0.7) (sample_state, no_calls)
      = (Completed resp, a', ev') \<and> cr_tier_used resp = ''unknown''"
proof -
  from sample_completes obtain resp a' ev' where
    c: "complete sample_services sample_readings (threshold_request 0.7) (sample_state, no_calls)
      = (Completed resp, a', ev')" by blast
  with reported_tier_unknown [OF c] show ?thesis by blast
qed

theorem control_samples_never_grow_witness:
  "\<exists>out a' ev'. complete sample_services sample_readings (threshold_request 0.7) (sample_state, no_calls)
      = (out, a', ev') \<and> map_option ce_control_samples (dict_get (as_canary a') ''chat'') = Some []"
proof -
  obtain out a' ev' where c: "complete sample_services sample_readings (threshold_request 0.7) (sample_state, no_calls)
      = (out, a', ev')" by (metis surj_pair)
  from control_samples_never_grow [OF c, of "''chat''"] c show ?thesis
    by (simp add: sample_state_def new_experiment_def)
qed

theorem completion_accounting_witness:
  "\<exists>resp a' ev'. complete sample_services sample_readings (threshold_request 0.7) (sample_state, no_calls)
      = (Completed resp, a', ev') \<and> mem_spent (bt_fallback (as_budget a')) ''acme'' 0 = 0.25
      \<and> mem_counted (bt_fallback (as_budget a')) ''acme'' 0 = 1"
proof -
  from sample_completes obtain resp a' ev' where
    c: "complete sample_services sample_readings (threshold_request 0.7) (sample_state, no_calls)
      = (Completed resp, a', ev')" "cr_cost_usd resp = 0.25" by blast
  have "bt_redis (as_budget sample_state) = None" "utc_day (t_spend sample_readings) = 0"
      "utc_day (t_requests sample_readings) = 0" "utc_day (t_cost sample_readings) = 0"
    by (simp_all add: sample_state_def init_budget_tracker_def sample_readings_def utc_day_def)
  from completion_accounting [OF c(1) this, of "0.25" "''acme''"] c show ?thesis
    by (simp add: sample_state_def init_budget_tracker_def mem_spent_def mem_counted_def threshold_request_def)
qed

definition spent_state :: "(unit, string \<Rightarrow> queued_request list, unit) app_state" where
  "spent_state = sample_state\<lparr>as_budget := \<lparr>bt_redis = None,
     bt_fallback = [(''acme'', \<lparr>tb_daily_spend = 48, tb_request_count = 9, tb_date = 0\<rparr>)]\<rparr>\<rparr>"

theorem complete_budget_gate_witness:
  "\<exists>a' ev'. complete sample_services sample_readings (threshold_request 0.7) (spent_state, no_calls)
      = (LlmBudgetExhausted 3, a', ev') \<and> ev' = no_calls"
proof -
  let ?body = "threshold_request 0.7"
  obtain out a' ev' where c: "complete sample_services sample_readings ?body (spent_state, no_calls) = (out, a', ev')"
    by (metis surj_pair)
  have s: "get_daily_spend (sv_redis sample_services) (t_spend sample_readings) (req_tenant_id ?body)
      (as_budget spent_state) = Some 48"
    by (simp add: get_daily_spend_def spent_state_def get_daily_spend_memory_def is_today_def
        sample_readings_def utc_day_def threshold_request_def)
  have l: "50 = max_per_tenant_per_day_usd (dm_cost_config (as_degradation spent_state))"
    by (simp add: spent_state_def sample_state_def init_degradation_def default_cost_def)
  from complete_budget_gate [OF s l _ _ c] c show ?thesis by simp
qed

end
