(* ===== verification/Gw_Config.thy ===== *)
theory Gw_Config
  imports Gw_Canary "HOL-Library.Monad_Syntax"
begin

text \<open>
  Loading and updating the routing configuration (\<^verbatim>\<open>llm-gateway/src/routing/config_loader.py\<close>):
  expansion of environment variables, hot reload with debounce, and updates from the admin API.

  The file is what reading and parsing it gives: absent, an error, or a YAML value. YAML keys
  are strings here. How pydantic reads a value for a numeric or boolean field is the argument \<open>px\<close>; the bounds of the
  fields are those of the models (\<^verbatim>\<open>llm-gateway/src/models.py\<close>). A parse creates its model objects at fresh addresses: at \<open>r\<close> and up, in the order of
  the tiers and their models.
\<close>

datatype yaml =
    YNull
  | YBool bool
  | YInt int
  | YFloat pyfloat
  | YStr string
  | YList "yaml list"
  | YMap "(string \<times> yaml) list"

section \<open>Environment variables\<close>

abbreviation dollar_brace :: string where "dollar_brace \<equiv> ''${''"
abbreviation close_brace :: string where "close_brace \<equiv> ''}''"

text \<open>The loop of \<^verbatim>\<open>_expand_env_vars\<close> over the result string and the position to search from.\<close>

function expand_loop :: "(string \<Rightarrow> string) \<Rightarrow> string \<Rightarrow> nat \<Rightarrow> string" where
  "expand_loop env result start =
     (case str_find result dollar_brace start of
        None \<Rightarrow> result
      | Some idx \<Rightarrow>
          (case str_find result close_brace idx of
             None \<Rightarrow> result
           | Some e \<Rightarrow>
               (let var_name = take (e - (idx + 2)) (drop (idx + 2) result);
                    env_value = env var_name
                in expand_loop env (take idx result @ env_value @ drop (e + 1) result)
                     (idx + length env_value))))"
  by pat_completeness auto
termination
proof (relation "measure (\<lambda>(env, result, start). length result - start)", goal_cases)
  case (2 env result start idx e var_name env_value)
  from str_find_bound [OF 2(1)] str_find_bound [OF 2(2)] show ?case by auto
qed simp

declare expand_loop.simps [simp del]

definition expand_env_vars :: "(string \<Rightarrow> string) \<Rightarrow> string \<Rightarrow> string" where
  "expand_env_vars env value =
     (if \<not> str_in dollar_brace value then value else expand_loop env value 0)"

fun process_env_vars :: "(string \<Rightarrow> string) \<Rightarrow> yaml \<Rightarrow> yaml" where
  "process_env_vars env (YMap kvs) = YMap (map (\<lambda>(k, v). (k, process_env_vars env v)) kvs)"
| "process_env_vars env (YList items) = YList (map (process_env_vars env) items)"
| "process_env_vars env (YStr s) = YStr (expand_env_vars env s)"
| "process_env_vars env v = v"

section \<open>Parsing\<close>

record pydantic =
  px_int :: "yaml \<Rightarrow> int option"
  px_float :: "yaml \<Rightarrow> real option"
  px_bool :: "yaml \<Rightarrow> bool option"

text \<open>A raised exception is None.\<close>

fun y_str :: "yaml \<Rightarrow> string option" where
  "y_str (YStr s) = Some s"
| "y_str _ = None"

fun y_map :: "yaml \<Rightarrow> (string, yaml) dict option" where
  "y_map (YMap d) = Some d"
| "y_map _ = None"

fun y_iter :: "yaml \<Rightarrow> yaml list option" where
  "y_iter (YList xs) = Some xs"
| "y_iter (YMap d) = Some (map (\<lambda>(k, v). YStr k) d)"
| "y_iter (YStr s) = Some (map (\<lambda>c. YStr [c]) s)"
| "y_iter _ = None"

definition str_of :: "(string, yaml) dict \<Rightarrow> string \<Rightarrow> string \<Rightarrow> string option" where
  "str_of d k other = y_str (dict_get_default d k (YStr other))"

definition int_of :: "pydantic \<Rightarrow> (string, yaml) dict \<Rightarrow> string \<Rightarrow> int \<Rightarrow> int option" where
  "int_of px d k other = (case dict_get d k of None \<Rightarrow> Some other | Some v \<Rightarrow> px_int px v)"

definition float_of_field :: "pydantic \<Rightarrow> (string, yaml) dict \<Rightarrow> string \<Rightarrow> real \<Rightarrow> real option" where
  "float_of_field px d k other = (case dict_get d k of None \<Rightarrow> Some other | Some v \<Rightarrow> px_float px v)"

definition section_of :: "(string, yaml) dict \<Rightarrow> string \<Rightarrow> (string, yaml) dict option" where
  "section_of d k = y_map (dict_get_default d k (YMap []))"

definition parse_model_config :: "pydantic \<Rightarrow> yaml \<Rightarrow> model_config option" where
  "parse_model_config px raw = do {
     d \<leftarrow> y_map raw;
     i \<leftarrow> str_of d ''id'' [];
     provider \<leftarrow> str_of d ''provider'' [];
     model \<leftarrow> str_of d ''model'' [];
     endpoint \<leftarrow> str_of d ''endpoint'' [];
     api_key \<leftarrow> str_of d ''api_key'' [];
     max_tokens \<leftarrow> int_of px d ''max_tokens'' 4096;
     timeout_ms \<leftarrow> int_of px d ''timeout_ms'' 60000;
     Some \<lparr>mc_id = i, mc_provider = provider, mc_model = model, mc_endpoint = endpoint, mc_api_key = api_key,
           mc_max_tokens = max_tokens, mc_timeout_ms = timeout_ms, mc_healthy = True, mc_enabled = True\<rparr> }"

definition parse_tier_config :: "pydantic \<Rightarrow> (string, yaml) dict \<Rightarrow> model_config list option" where
  "parse_tier_config px d = do {
     models_raw \<leftarrow> y_iter (dict_get_default d ''models'' (YList []));
     those (map (parse_model_config px) models_raw) }"

text \<open>Entries that are not dictionaries are skipped.\<close>

fun parse_tiers :: "pydantic \<Rightarrow> (string, yaml) dict \<Rightarrow> (string \<times> model_config list) list option" where
  "parse_tiers px [] = Some []"
| "parse_tiers px ((name, YMap d) # kvs) = do {
     ms \<leftarrow> parse_tier_config px d;
     ts \<leftarrow> parse_tiers px kvs;
     Some ((name, ms) # ts) }"
| "parse_tiers px (kv # kvs) = parse_tiers px kvs"

definition parse_canary_entry :: "pydantic \<Rightarrow> (string, yaml) dict \<Rightarrow> canary_config option" where
  "parse_canary_entry px d = do {
     model \<leftarrow> str_of d ''model'' [];
     pct \<leftarrow> int_of px d ''traffic_pct'' 20;
     samples \<leftarrow> int_of px d ''min_samples'' 30;
     hours \<leftarrow> int_of px d ''min_duration_hours'' 4;
     if 1 \<le> pct \<and> pct \<le> 100 \<and> 1 \<le> samples \<and> 1 \<le> hours
     then Some \<lparr>cc_model = model, cc_traffic_pct = pct, cc_min_samples = samples, cc_min_duration_hours = hours\<rparr> else None }"

fun parse_canary_config :: "pydantic \<Rightarrow> (string, yaml) dict \<Rightarrow> (string, canary_config) dict option" where
  "parse_canary_config px [] = Some []"
| "parse_canary_config px ((key, YMap d) # kvs) = do {
     c \<leftarrow> parse_canary_entry px d;
     cs \<leftarrow> parse_canary_config px kvs;
     Some ((key, c) # cs) }"
| "parse_canary_config px (kv # kvs) = parse_canary_config px kvs"

definition parse_escalation :: "pydantic \<Rightarrow> (string, yaml) dict \<Rightarrow> escalation_config option" where
  "parse_escalation px d = do {
     enabled \<leftarrow> (case dict_get d ''enabled'' of None \<Rightarrow> Some True | Some v \<Rightarrow> px_bool px v);
     n \<leftarrow> int_of px d ''max_escalations'' 2;
     path \<leftarrow> (case dict_get_default d ''path'' (YList [YStr ''fast'', YStr ''mid'', YStr ''strong'']) of
                YList xs \<Rightarrow> those (map y_str xs) | _ \<Rightarrow> None);
     Some \<lparr>esc_enabled = enabled, esc_max_escalations = n, esc_path = path\<rparr> }"

definition parse_embedding :: "(string, yaml) dict \<Rightarrow> embedding_model_config option" where
  "parse_embedding raw = do {
     emb \<leftarrow> section_of raw ''embedding'';
     d \<leftarrow> section_of emb ''model'';
     provider \<leftarrow> str_of d ''provider'' ''ollama'';
     model \<leftarrow> str_of d ''model'' ''nomic-embed-text'';
     endpoint \<leftarrow> str_of d ''endpoint'' ''http://ollama:11434'';
     Some \<lparr>emb_provider = provider, emb_model = model, emb_endpoint = endpoint\<rparr> }"

definition parse_cost :: "pydantic \<Rightarrow> (string, yaml) dict \<Rightarrow> cost_config option" where
  "parse_cost px d = do {
     request \<leftarrow> float_of_field px d ''max_per_request_usd'' 1;
     day \<leftarrow> float_of_field px d ''max_per_tenant_per_day_usd'' 50;
     Some \<lparr>max_per_request_usd = request, max_per_tenant_per_day_usd = day\<rparr> }"

text \<open>
  The routing sections: strings by task, and dictionaries by agent or tenant, whose values are not typed. Of a
  dictionary in such a place the resolver reads two strings, its other entries are left out.
\<close>

definition parse_task_routing :: "(string, yaml) dict \<Rightarrow> (string, string) dict option" where
  "parse_task_routing d = those (map (\<lambda>(k, v). map_option (Pair k) (y_str v)) d)"

fun route_value_of :: "yaml \<Rightarrow> route_value" where
  "route_value_of (YStr s) = RouteStr s"
| "route_value_of (YMap d) = RouteDict (List.map_filter (\<lambda>(k, v). map_option (Pair k) (y_str v)) d)"
| "route_value_of YNull = RouteNone"
| "route_value_of _ = RouteOther"

definition parse_routes :: "(string, yaml) dict \<Rightarrow> (string, (string, route_value) dict) dict option" where
  "parse_routes d =
     those (map (\<lambda>(k, v). map_option (\<lambda>routes. (k, map (\<lambda>(t, x). (t, route_value_of x)) routes)) (y_map v)) d)"

text \<open>The model objects of each tier get the next free addresses.\<close>

fun place_tiers :: "ref \<Rightarrow> (string \<times> model_config list) list \<Rightarrow> (string, tier_config) dict" where
  "place_tiers r [] = []"
| "place_tiers r ((name, ms) # ts) = (name, \<lparr>tier_models = [r..<r + length ms]\<rparr>) # place_tiers (r + length ms) ts"

definition build_config :: "pydantic \<Rightarrow> ref \<Rightarrow> (string, yaml) dict \<Rightarrow> (routing_config \<times> model_config list) option" where
  "build_config px r raw = do {
     tiers_raw \<leftarrow> section_of raw ''tiers'';
     tiers \<leftarrow> parse_tiers px tiers_raw;
     escalation \<leftarrow> section_of raw ''escalation'' \<bind> parse_escalation px;
     embedding \<leftarrow> parse_embedding raw;
     cost \<leftarrow> section_of raw ''cost'' \<bind> parse_cost px;
     canary \<leftarrow> section_of raw ''canary'' \<bind> parse_canary_config px;
     tasks \<leftarrow> section_of raw ''task_routing'' \<bind> parse_task_routing;
     agents \<leftarrow> section_of raw ''agent_routing'' \<bind> parse_routes;
     tenants \<leftarrow> section_of raw ''tenant_routing'' \<bind> parse_routes;
     _ \<leftarrow> section_of raw ''rate_limits'';
     Some (\<lparr>rc_tiers = place_tiers r tiers, rc_task_routing = tasks, rc_agent_routing = agents, rc_tenant_routing = tenants,
            rc_canary = canary, rc_escalation = escalation, rc_embedding = embedding, rc_cost = cost\<rparr>,
           concat (map snd tiers)) }"

datatype load_error = ReadError | ParseError

definition parse_routing_config :: "pydantic \<Rightarrow> ref \<Rightarrow> yaml \<Rightarrow> load_error + routing_config \<times> model_config list" where
  "parse_routing_config px r raw_data =
     (case y_map raw_data \<bind> build_config px r of None \<Rightarrow> Inl ParseError | Some c \<Rightarrow> Inr c)"

section \<open>ConfigLoader\<close>

fun y_truthy :: "yaml \<Rightarrow> bool" where
  "y_truthy YNull = False"
| "y_truthy (YBool b) = b"
| "y_truthy (YInt i) = (i \<noteq> 0)"
| "y_truthy (YFloat f) = (f \<noteq> Fin 0)"
| "y_truthy (YStr s) = (s \<noteq> [])"
| "y_truthy (YList xs) = (xs \<noteq> [])"
| "y_truthy (YMap m) = (m \<noteq> [])"

text \<open>\<open>None\<close>: the path does not exist.\<close>

type_synonym config_file = "(load_error + yaml) option"

record config_loader =
  cl_config :: routing_config
  cl_last_load_time :: real

definition init_config_loader :: config_loader where
  "init_config_loader = \<lparr>cl_config = default_routing, cl_last_load_time = 0\<rparr>"

text \<open>\<^verbatim>\<open>yaml.safe_load(raw_text) or {}\<close>\<close>

definition or_empty_map :: "yaml \<Rightarrow> yaml" where
  "or_empty_map raw = (if y_truthy raw then raw else YMap [])"

definition cl_load ::
    "pydantic \<Rightarrow> (string \<Rightarrow> string) \<Rightarrow> config_file \<Rightarrow> real \<Rightarrow> ref \<Rightarrow> config_loader \<Rightarrow> load_error + config_loader \<times> model_config list" where
  "cl_load px env file now r cl =
     (case file of
        None \<Rightarrow> Inr (cl, [])
      | Some (Inl e) \<Rightarrow> Inl e
      | Some (Inr raw) \<Rightarrow>
          (case parse_routing_config px r (process_env_vars env (or_empty_map raw)) of
             Inl e \<Rightarrow> Inl e
           | Inr (new_config, objects) \<Rightarrow> Inr (cl\<lparr>cl_config := new_config, cl_last_load_time := now\<rparr>, objects)))"

text \<open>A reload that fails keeps the loader as it was.\<close>

definition cl_reload ::
    "pydantic \<Rightarrow> (string \<Rightarrow> string) \<Rightarrow> config_file \<Rightarrow> real \<Rightarrow> ref \<Rightarrow> config_loader \<Rightarrow> config_loader \<times> model_config list" where
  "cl_reload px env file now r cl =
     (case cl_load px env file now r cl of Inr loaded \<Rightarrow> loaded | Inl e \<Rightarrow> (cl, []))"

text \<open>\<open>now\<close> is the debounce reading, \<open>loaded\<close> the one after a load.\<close>

definition on_file_changed ::
    "pydantic \<Rightarrow> (string \<Rightarrow> string) \<Rightarrow> config_file \<Rightarrow> real \<Rightarrow> real \<Rightarrow> ref \<Rightarrow> config_loader \<Rightarrow> config_loader \<times> model_config list" where
  "on_file_changed px env file now loaded r cl =
     (if now - cl_last_load_time cl < 1 then (cl, []) else cl_reload px env file loaded r cl)"

text \<open>Updates from the admin API: a dictionary is merged one level deep, anything else replaced.\<close>

definition dict_update :: "(string, yaml) dict \<Rightarrow> (string, yaml) dict \<Rightarrow> (string, yaml) dict" where
  "dict_update d u = fold (\<lambda>(k, v). dict_set k v) u d"

definition merge_key :: "string \<times> yaml \<Rightarrow> (string, yaml) dict \<Rightarrow> (string, yaml) dict" where
  "merge_key = (\<lambda>(key, value) raw.
     case (dict_get raw key, value) of
       (Some (YMap old), YMap new) \<Rightarrow> dict_set key (YMap (dict_update old new)) raw
     | _ \<Rightarrow> dict_set key value raw)"

definition base_data :: "config_file \<Rightarrow> load_error + (string, yaml) dict" where
  "base_data file =
     (case file of
        None \<Rightarrow> Inr []
      | Some (Inl e) \<Rightarrow> Inl e
      | Some (Inr raw) \<Rightarrow> (case or_empty_map raw of YMap d \<Rightarrow> Inr d | _ \<Rightarrow> Inl ParseError))"

definition cl_update_routing ::
    "pydantic \<Rightarrow> (string \<Rightarrow> string) \<Rightarrow> config_file \<Rightarrow> (string, yaml) dict \<Rightarrow> real \<Rightarrow> ref \<Rightarrow> config_loader \<Rightarrow>
     load_error + config_loader \<times> model_config list" where
  "cl_update_routing px env file updates now r cl =
     (case base_data file of
        Inl e \<Rightarrow> Inl e
      | Inr raw \<Rightarrow>
          (case parse_routing_config px r (process_env_vars env (YMap (fold merge_key updates raw))) of
             Inl e \<Rightarrow> Inl e
           | Inr (new_config, objects) \<Rightarrow> Inr (cl\<lparr>cl_config := new_config, cl_last_load_time := now\<rparr>, objects)))"

section \<open>Expansion in one pass\<close>

text \<open>
  What the expansion should do: replace each reference by its value and go on after it. The
  first reference is split off by \<open>next_ref\<close>: the text before it, its name, the text after.
\<close>

definition next_ref :: "string \<Rightarrow> (string \<times> string \<times> string) option" where
  "next_ref s =
     (case str_find s dollar_brace 0 of
        None \<Rightarrow> None
      | Some i \<Rightarrow>
          (case str_find s close_brace i of
             None \<Rightarrow> None
           | Some e \<Rightarrow> Some (take i s, take (e - (i + 2)) (drop (i + 2) s), drop (e + 1) s)))"

lemma next_ref_shorter: "next_ref s = Some (pre, var, rest) \<Longrightarrow> length rest < length s"
  by (auto simp: next_ref_def dest!: str_find_bound split: option.splits)

function expand_once :: "(string \<Rightarrow> string) \<Rightarrow> string \<Rightarrow> string" where
  "expand_once env s =
     (case next_ref s of
        None \<Rightarrow> s
      | Some (pre, var, rest) \<Rightarrow> pre @ env var @ expand_once env rest)"
  by pat_completeness auto
termination by (relation "measure (length \<circ> snd)") (auto dest: next_ref_shorter)

declare expand_once.simps [simp del]

lemma str_find_append:
  "str_find (pre @ s) needle (length pre + k) = map_option (\<lambda>i. length pre + i) (str_find s needle k)"
  by (simp add: str_find_def option.map_comp comp_def add.assoc)

lemma str_find_append_0:
  "str_find (pre @ s) needle (length pre) = map_option (\<lambda>i. length pre + i) (str_find s needle 0)"
  using str_find_append [of pre s needle 0] by simp

lemma expand_loop_once: "expand_loop env (pre @ s) (length pre) = pre @ expand_once env s"
proof (induction "length s" arbitrary: pre s rule: less_induct)
  case less
  show ?case
  proof (cases "str_find s dollar_brace 0")
    case None
    then show ?thesis
      by (subst expand_loop.simps, subst expand_once.simps) (simp add: str_find_append_0 next_ref_def)
  next
    case (Some i)
    show ?thesis
    proof (cases "str_find s close_brace i")
      case None
      with Some show ?thesis
        by (subst expand_loop.simps, subst expand_once.simps)
          (simp add: str_find_append_0 str_find_append next_ref_def)
    next
      case (Some e)
      let ?var = "take (e - (i + 2)) (drop (i + 2) s)"
      from str_find_bound [OF \<open>str_find s dollar_brace 0 = Some i\<close>] str_find_bound [OF Some]
      have "i \<le> e" "e < length s" by auto
      then have "expand_loop env ((pre @ take i s @ env ?var) @ drop (e + 1) s) (length (pre @ take i s @ env ?var))
          = (pre @ take i s @ env ?var) @ expand_once env (drop (e + 1) s)"
        by (intro less) simp
      moreover have "length (take i s) = i" using \<open>i \<le> e\<close> \<open>e < length s\<close> by simp
      ultimately show ?thesis
        using Some \<open>str_find s dollar_brace 0 = Some i\<close>
        by (subst expand_loop.simps, subst expand_once.simps)
          (simp add: str_find_append_0 str_find_append next_ref_def Let_def add.assoc)
    qed
  qed
qed

lemma dict_update_get:
  "dict_ok u \<Longrightarrow> dict_get (dict_update d u) k = (case dict_get u k of Some v \<Rightarrow> Some v | None \<Rightarrow> dict_get d k)"
proof (induction u arbitrary: d)
  case (Cons p u)
  obtain a b where p: "p = (a, b)" by (cases p)
  have "dict_ok u" "dict_get u a = None" using Cons.prems p by (auto simp: dict_ok_def map_of_eq_None_iff)
  with Cons.IH [of "dict_set a b d"] p show ?case
    by (auto simp: dict_update_def split: option.split)
qed (simp add: dict_update_def)

lemma merge_key_get:
  "dict_get (merge_key (key, value) raw) k =
     (if k \<noteq> key then dict_get raw k
      else case (dict_get raw key, value) of
             (Some (YMap old), YMap new) \<Rightarrow> Some (YMap (dict_update old new))
           | _ \<Rightarrow> Some value)"
  by (auto simp: merge_key_def split: option.split yaml.split)

lemma fold_merge_get:
  "dict_ok us \<Longrightarrow> dict_get (fold merge_key us raw) k =
     (case dict_get us k of None \<Rightarrow> dict_get raw k
      | Some value \<Rightarrow> dict_get (merge_key (k, value) raw) k)"
proof (induction us arbitrary: raw)
  case (Cons p us)
  obtain a b where p: "p = (a, b)" by (cases p)
  have "dict_ok us" "dict_get us a = None" using Cons.prems p by (auto simp: dict_ok_def map_of_eq_None_iff)
  with Cons.IH [of "merge_key (a, b) raw"] p show ?case
    by (auto simp: merge_key_get split: option.split)
qed simp

section \<open>Properties\<close>

text \<open>
  (environment variables are expanded in one pass): the loop computes the single-pass
  expansion, for every environment: each reference is replaced by its value, the values
  themselves are never searched for references again, and an unclosed reference ends the
  expansion.
\<close>

theorem expansion_single_pass: "expand_env_vars env s = expand_once env s"
proof (cases "str_in dollar_brace s")
  case True
  with expand_loop_once [of env "[]" s] show ?thesis by (simp add: expand_env_vars_def)
next
  case False
  then have "str_find s dollar_brace 0 = None" by (simp add: str_in_def str_find_def)
  then have "next_ref s = None" by (simp add: next_ref_def)
  with False show ?thesis by (simp add: expand_env_vars_def expand_once.simps)
qed

text \<open>What a parsed configuration guarantees: valid canary settings, and models at fresh addresses.\<close>

lemma parse_canary_ok:
  "parse_canary_config px kvs = Some cs \<Longrightarrow> (k, c) \<in> set cs \<Longrightarrow> canary_config_ok c"
  by (induction px kvs arbitrary: cs rule: parse_canary_config.induct)
     (auto simp: parse_canary_entry_def canary_config_ok_def bind_eq_Some_conv split: if_splits)

lemma place_tiers_models:
  "(\<exists>tc. (name, tc) \<in> set (place_tiers r ts) \<and> a \<in> set (tier_models tc)) \<Longrightarrow>
     r \<le> a \<and> a < r + length (concat (map snd ts))"
  by (induction r ts rule: place_tiers.induct) fastforce+

lemma build_config_parts:
  "build_config px r raw = Some (cfg, objects) \<Longrightarrow>
     (\<exists>ts. rc_tiers cfg = place_tiers r ts \<and> objects = concat (map snd ts))
     \<and> (\<exists>d. parse_canary_config px d = Some (rc_canary cfg))"
  by (auto simp: build_config_def bind_eq_Some_conv)

lemma parse_validated:
  assumes "parse_routing_config px r y = Inr (cfg, objects)"
  shows "(k, c) \<in> set (rc_canary cfg) \<Longrightarrow> canary_config_ok c"
    and "(name, tc) \<in> set (rc_tiers cfg) \<Longrightarrow> a \<in> set (tier_models tc) \<Longrightarrow> r \<le> a \<and> a < r + length objects"
proof -
  obtain raw where "build_config px r raw = Some (cfg, objects)"
    using assms by (auto simp: parse_routing_config_def bind_eq_Some_conv split: option.splits)
  from build_config_parts [OF this] obtain ts d where ts: "rc_tiers cfg = place_tiers r ts" "objects = concat (map snd ts)"
    and cs: "parse_canary_config px d = Some (rc_canary cfg)" by blast
  show "(k, c) \<in> set (rc_canary cfg) \<Longrightarrow> canary_config_ok c" by (rule parse_canary_ok [OF cs])
  show "(name, tc) \<in> set (rc_tiers cfg) \<Longrightarrow> a \<in> set (tier_models tc) \<Longrightarrow> r \<le> a \<and> a < r + length objects"
    using place_tiers_models [of name r ts a] unfolding ts by blast
qed

text \<open>
  (a routing update is a merge into the file): a successful update builds the
  configuration from the file's data in which, for every updated section that is a dictionary on
  both sides, the updated entries replace or extend the old ones, and all other sections and
  entries are as in the file.
\<close>

theorem routing_update_merges:
  assumes "cl_update_routing px env file updates now r cl = Inr (cl', objects)" and "dict_ok updates"
    and "base_data file = Inr raw"
  shows "\<exists>merged. parse_routing_config px r (process_env_vars env (YMap merged)) = Inr (cl_config cl', objects)
    \<and> (\<forall>section. dict_get updates section = None \<longrightarrow> dict_get merged section = dict_get raw section)
    \<and> (\<forall>section old new. dict_get updates section = Some (YMap new) \<and> dict_ok new
          \<and> dict_get raw section = Some (YMap old) \<longrightarrow>
        (\<exists>d. dict_get merged section = Some (YMap d)
           \<and> (\<forall>k. dict_get d k = (case dict_get new k of Some v \<Rightarrow> Some v | None \<Rightarrow> dict_get old k))))"
  using assms
  by (intro exI [of _ "fold merge_key updates raw"])
     (auto simp: cl_update_routing_def fold_merge_get merge_key_get dict_update_get split: sum.splits)

text \<open>
  (routing updates do not accumulate): an update starts from the file, not from the
  current configuration, so after two updates in a row the configuration is the one of the
  second alone and the first is lost.
\<close>

theorem routing_updates_do_not_accumulate:
  assumes "cl_update_routing px env file updates1 t1 r1 cl = Inr (cl1, objects1)"
    and "cl_update_routing px env file updates2 t2 r2 cl1 = Inr (cl2, objects2)"
  shows "map_sum id (cl_config \<circ> fst) (cl_update_routing px env file updates2 t2 r2 cl) = Inr (cl_config cl2)"
  using assms by (auto simp: cl_update_routing_def split: sum.splits)

text \<open>
  (a failed reload keeps the configuration): a reload changes the loader only when the
  file exists, reads and parses; then the configuration is the parsed file. In particular a
  reload never loses the configuration, and changes within a second of the last load are not
  looked at.
\<close>

theorem reload_all_or_nothing:
  "(cl_reload px env file now r cl = (cl, [])
     \<or> (\<exists>raw cfg objects. file = Some (Inr raw) \<and> parse_routing_config px r (process_env_vars env (or_empty_map raw)) = Inr (cfg, objects)
          \<and> cl_reload px env file now r cl = (\<lparr>cl_config = cfg, cl_last_load_time = now\<rparr>, objects)))
   \<and> on_file_changed px env file t now r cl =
       (if t < cl_last_load_time cl + 1 then (cl, []) else cl_reload px env file now r cl)"
  by (cases cl) (auto simp: cl_reload_def cl_load_def on_file_changed_def split: option.splits sum.splits)

section \<open>Witnesses\<close>

text \<open>Pydantic's reading of plain values.\<close>

definition plain_pydantic :: pydantic where
  "plain_pydantic =
     \<lparr>px_int = (\<lambda>v. case v of YInt n \<Rightarrow> Some n | _ \<Rightarrow> None),
      px_float = (\<lambda>v. case v of YFloat (Fin x) \<Rightarrow> Some x | YInt n \<Rightarrow> Some (real_of_int n) | _ \<Rightarrow> None),
      px_bool = (\<lambda>v. case v of YBool b \<Rightarrow> Some b | _ \<Rightarrow> None)\<rparr>"

definition route_update :: "string \<Rightarrow> string \<Rightarrow> (string, yaml) dict" where
  "route_update task tier = [(''task_routing'', YMap [(task, YStr tier)])]"

definition routing_file :: config_file where
  "routing_file = Some (Inr (YMap (route_update ''chat'' ''fast'')))"

lemma expand_plain: "\<not> str_in dollar_brace s \<Longrightarrow> expand_env_vars env s = s"
  by (simp add: expand_env_vars_def)

lemma plain_tiers: "\<not> str_in dollar_brace ''fast''" "\<not> str_in dollar_brace ''strong''"
  by (simp_all add: str_in_def sublist_Cons_right)

lemma parse_tasks_only:
  "parse_routing_config px r (YMap [(''task_routing'', YMap tasks)]) =
     (case parse_task_routing tasks of None \<Rightarrow> Inl ParseError | Some d \<Rightarrow> Inr (default_routing\<lparr>rc_task_routing := d\<rparr>, []))"
  by (cases "parse_task_routing tasks")
    (simp_all add: parse_routing_config_def build_config_def section_of_def parse_escalation_def parse_embedding_def parse_cost_def
      str_of_def int_of_def float_of_field_def parse_routes_def default_routing_def default_escalation_def default_embedding_def
      default_cost_def dict_get_default_def)

lemma update_code:
  "cl_update_routing px env routing_file (route_update ''code'' ''strong'') now r cl =
     Inr (\<lparr>cl_config = default_routing\<lparr>rc_task_routing := [(''chat'', ''fast''), (''code'', ''strong'')]\<rparr>,
          cl_last_load_time = now\<rparr>, [])"
  by (cases cl) (simp add: cl_update_routing_def base_data_def routing_file_def or_empty_map_def route_update_def
      merge_key_def dict_update_def parse_tasks_only parse_task_routing_def expand_plain plain_tiers)

lemma update_chat:
  "cl_update_routing px env routing_file (route_update ''chat'' ''strong'') now r cl =
     Inr (\<lparr>cl_config = default_routing\<lparr>rc_task_routing := [(''chat'', ''strong'')]\<rparr>, cl_last_load_time = now\<rparr>, [])"
  by (cases cl) (simp add: cl_update_routing_def base_data_def routing_file_def or_empty_map_def route_update_def
      merge_key_def dict_update_def parse_tasks_only parse_task_routing_def expand_plain plain_tiers)

theorem routing_updates_do_not_accumulate_witness:
  "\<exists>cl1 cl2. cl_update_routing plain_pydantic (\<lambda>v. []) routing_file (route_update ''code'' ''strong'') 1 0 init_config_loader = Inr (cl1, [])
     \<and> cl_update_routing plain_pydantic (\<lambda>v. []) routing_file (route_update ''chat'' ''strong'') 2 0 cl1 = Inr (cl2, [])
     \<and> dict_get (rc_task_routing (cl_config cl1)) ''code'' = Some ''strong''
     \<and> dict_get (rc_task_routing (cl_config cl2)) ''code'' = None
     \<and> map_sum id (cl_config \<circ> fst) (cl_update_routing plain_pydantic (\<lambda>v. []) routing_file
          (route_update ''chat'' ''strong'') 2 0 init_config_loader) = Inr (cl_config cl2)"
  using routing_updates_do_not_accumulate [OF update_code update_chat]
  by (simp add: update_code update_chat)

theorem routing_update_merges_witness:
  "\<exists>merged. parse_routing_config plain_pydantic 0 (process_env_vars (\<lambda>v. []) (YMap merged)) =
       Inr (default_routing\<lparr>rc_task_routing := [(''chat'', ''fast''), (''code'', ''strong'')]\<rparr>, [])
     \<and> (\<exists>d. dict_get merged ''task_routing'' = Some (YMap d) \<and> dict_get d ''chat'' = Some (YStr ''fast'')
          \<and> dict_get d ''code'' = Some (YStr ''strong''))"
proof -
  have u: "dict_ok (route_update ''code'' ''strong'')" by (simp add: route_update_def dict_ok_def)
  have b: "base_data routing_file = Inr (route_update ''chat'' ''fast'')"
    by (simp add: base_data_def routing_file_def or_empty_map_def route_update_def)
  have g: "dict_get (route_update ''code'' ''strong'') ''task_routing'' = Some (YMap [(''code'', YStr ''strong'')])"
    "dict_get (route_update ''chat'' ''fast'') ''task_routing'' = Some (YMap [(''chat'', YStr ''fast'')])"
    "dict_ok [(''code'', YStr ''strong'')]"
    by (simp_all add: route_update_def dict_ok_def)
  from routing_update_merges [OF update_code u b, of plain_pydantic 0 "\<lambda>v. []"] obtain merged where
    m: "parse_routing_config plain_pydantic 0 (process_env_vars (\<lambda>v. []) (YMap merged)) =
        Inr (default_routing\<lparr>rc_task_routing := [(''chat'', ''fast''), (''code'', ''strong'')]\<rparr>, [])"
      "\<And>section old new. dict_get (route_update ''code'' ''strong'') section = Some (YMap new) \<Longrightarrow> dict_ok new \<Longrightarrow>
        dict_get (route_update ''chat'' ''fast'') section = Some (YMap old) \<Longrightarrow>
        \<exists>d. dict_get merged section = Some (YMap d)
          \<and> (\<forall>k. dict_get d k = (case dict_get new k of Some v \<Rightarrow> Some v | None \<Rightarrow> dict_get old k))"
    by fastforce
  from m(2) [OF g(1,3,2)] m(1) show ?thesis by fastforce
qed

end
