(* ===== verification/Gw_Admin.thy ===== *)
theory Gw_Admin
  imports Gw_Complete Gw_Config
begin

text \<open>
  Start-up and hot reload of the gateway (\<^verbatim>\<open>lifespan\<close> of \<^verbatim>\<open>llm-gateway/src/main.py\<close>), the
  admin API (\<^verbatim>\<open>llm-gateway/src/admin/routes.py\<close>) and the two applications that \<^verbatim>\<open>main\<close> serves.

  A gateway is the state of one application with its configuration loader. The model objects of a parse are put at the addresses
  from \<open>g_next\<close> on, which were not in use.
  The adapter made from a specification is the argument \<open>mk\<close>, since it talks to a provider. An
  answer is a value or an HTTP status.
\<close>

record ('r, 'q, 'w) gateway =
  g_app :: "('r, 'q, 'w) app_state"
  g_loader :: config_loader
  g_next :: ref

datatype 'a answer = Ok 'a | Http int

section \<open>Start-up and reload\<close>

definition build_registry ::
    "(adapter_spec \<Rightarrow> 'w adapter) \<Rightarrow> gateway_settings \<Rightarrow> routing_config \<Rightarrow> heap \<Rightarrow>
     'w adapter provider_registry \<times> heap" where
  "build_registry mk settings cfg h =
     (case register_models settings (map snd (config_models cfg)) ([], h) of
        (specs, h') \<Rightarrow> (map (\<lambda>(m, spec). (m, mk spec)) specs, h'))"

definition place_objects :: "ref \<Rightarrow> model_config list \<Rightarrow> heap \<Rightarrow> heap" where
  "place_objects r objects h = (\<lambda>a. if r \<le> a \<and> a < r + length objects then objects ! (a - r) else h a)"

text \<open>The redis servers are given with the answer of their ping; a failed first load raises.\<close>

definition start_gateway ::
    "pydantic \<Rightarrow> (string \<Rightarrow> string) \<Rightarrow> (adapter_spec \<Rightarrow> 'w adapter) \<Rightarrow>
     gateway_settings \<Rightarrow> int \<Rightarrow> int \<Rightarrow> config_file \<Rightarrow> real \<Rightarrow> 'r \<times> bool \<Rightarrow> 'q \<times> bool \<Rightarrow> ref \<Rightarrow> heap \<Rightarrow>
     load_error + ('r, 'q, 'w) gateway" where
  "start_gateway px env mk settings interval timeout_ms file now redis queue_redis r h =
     (case cl_load px env file now r init_config_loader of
        Inl e \<Rightarrow> Inl e
      | Inr (loader, objects) \<Rightarrow>
          (let cfg = cl_config loader;
               (registry, h') = build_registry mk settings cfg (place_objects r objects h);
               hm = hm_start (hm_update_from_config h' cfg (set_provider_registry
                      (init_health_manager interval timeout_ms 3 1)))
           in Inr \<lparr>g_app =
                \<lparr>as_heap = h', as_config = cfg, as_escalation = rc_escalation cfg,
                 as_canary = canary_update_from_config now cfg [],
                 as_registry = registry, as_health = hm,
                 as_budget = bt_connect (fst redis) (snd redis) init_budget_tracker,
                 as_degradation = init_degradation (rc_cost cfg),
                 as_queue = rq_connect (fst queue_redis) (snd queue_redis) init_request_queue,
                 as_metrics = [], as_thresholds = []\<rparr>,
              g_loader = loader, g_next = r + length objects\<rparr>))"

text \<open>The callback the loader runs after each successful load.\<close>

definition on_config_reload ::
    "real \<Rightarrow> routing_config \<Rightarrow> ('r, 'q, 'w) app_state \<Rightarrow> ('r, 'q, 'w) app_state" where
  "on_config_reload now cfg a =
     a\<lparr>as_config := cfg,
       as_canary := canary_update_from_config now cfg (as_canary a),
       as_escalation := rc_escalation cfg,
       as_health := hm_update_from_config (as_heap a) cfg (as_health a),
       as_degradation := dm_update_config (rc_cost cfg) (as_degradation a)\<rparr>"

text \<open>What a successful load does: new objects, the new snapshot, the callback.\<close>

definition loaded ::
    "real \<Rightarrow> config_loader \<times> model_config list \<Rightarrow> ('r, 'q, 'w) gateway \<Rightarrow> ('r, 'q, 'w) gateway" where
  "loaded now l g =
     \<lparr>g_app = on_config_reload now (cl_config (fst l))
        ((g_app g)\<lparr>as_heap := place_objects (g_next g) (snd l) (as_heap (g_app g))\<rparr>),
      g_loader = fst l, g_next = g_next g + length (snd l)\<rparr>"

definition g_reload ::
    "pydantic \<Rightarrow> (string \<Rightarrow> string) \<Rightarrow> config_file \<Rightarrow> real \<Rightarrow> ('r, 'q, 'w) gateway \<Rightarrow> ('r, 'q, 'w) gateway" where
  "g_reload px env file now g =
     (case file of
        None \<Rightarrow> g
      | Some _ \<Rightarrow>
          (case cl_load px env file now (g_next g) (g_loader g) of
             Inl e \<Rightarrow> g
           | Inr l \<Rightarrow> loaded now l g))"

text \<open>The file watcher: a change within a second of the last load is ignored; the clock is read again after a load.\<close>

definition file_changed ::
    "pydantic \<Rightarrow> (string \<Rightarrow> string) \<Rightarrow> config_file \<Rightarrow> real \<Rightarrow> real \<Rightarrow> ('r, 'q, 'w) gateway \<Rightarrow> ('r, 'q, 'w) gateway" where
  "file_changed px env file now t g =
     (if now - cl_last_load_time (g_loader g) < 1 then g else g_reload px env file t g)"

section \<open>Admin authentication\<close>

text \<open>A missing header is rejected by the framework with 422 before the check runs.\<close>

definition verify_admin_key :: "string \<Rightarrow> string option \<Rightarrow> string answer" where
  "verify_admin_key expected x_admin_key =
     (case x_admin_key of
        None \<Rightarrow> Http 422
      | Some key \<Rightarrow>
          if expected = [] then Http 503
          else case compare_digest key expected of
                 None \<Rightarrow> Http 500
               | Some False \<Rightarrow> Http 401
               | Some True \<Rightarrow> Ok key)"

section \<open>Routes\<close>

record routing_update_request =
  ru_task_routing :: "(string, yaml) dict option"
  ru_agent_routing :: "(string, yaml) dict option"
  ru_tenant_routing :: "(string, yaml) dict option"

definition routing_updates :: "routing_update_request \<Rightarrow> (string, yaml) dict" where
  "routing_updates body =
     (case ru_task_routing body of None \<Rightarrow> [] | Some d \<Rightarrow> [(''task_routing'', YMap d)])
     @ (case ru_agent_routing body of None \<Rightarrow> [] | Some d \<Rightarrow> [(''agent_routing'', YMap d)])
     @ (case ru_tenant_routing body of None \<Rightarrow> [] | Some d \<Rightarrow> [(''tenant_routing'', YMap d)])"

definition admin_update_routing ::
    "pydantic \<Rightarrow> (string \<Rightarrow> string) \<Rightarrow> config_file \<Rightarrow> real \<Rightarrow>
     routing_update_request \<Rightarrow> ('r, 'q, 'w) gateway \<Rightarrow> string list answer \<times> ('r, 'q, 'w) gateway" where
  "admin_update_routing px env file now body g =
     (let updates = routing_updates body
      in if updates = [] then (Http 400, g)
         else case cl_update_routing px env file updates now (g_next g) (g_loader g) of
                Inl e \<Rightarrow> (Http 500, g)
              | Inr l \<Rightarrow> (Ok (map fst updates), loaded now l g))"

definition admin_update_threshold ::
    "string \<Rightarrow> real \<Rightarrow> ('r, 'q, 'w) gateway \<Rightarrow> real option answer \<times> ('r, 'q, 'w) gateway" where
  "admin_update_threshold task threshold g =
     (if threshold < 0 \<or> 1 < threshold then (Http 422, g)
      else (Ok (dict_get (as_thresholds (g_app g)) task),
            g\<lparr>g_app := (g_app g)\<lparr>as_thresholds := dict_set task threshold (as_thresholds (g_app g))\<rparr>\<rparr>))"

text \<open>
  The reload route applies the returned configuration once more to the resolver, the canary
  manager and the health manager; after a failed reload that is the old configuration.
\<close>

definition admin_reload_config ::
    "pydantic \<Rightarrow> (string \<Rightarrow> string) \<Rightarrow> config_file \<Rightarrow> real \<Rightarrow>
     ('r, 'q, 'w) gateway \<Rightarrow> string list answer \<times> ('r, 'q, 'w) gateway" where
  "admin_reload_config px env file now g =
     (let g1 = g_reload px env file now g;
          cfg = cl_config (g_loader g1);
          a = g_app g1
      in (Ok (dict_keys (rc_tiers cfg)),
          g1\<lparr>g_app := a\<lparr>as_config := cfg,
             as_canary := canary_update_from_config now cfg (as_canary a),
             as_health := hm_update_from_config (as_heap a) cfg (as_health a)\<rparr>\<rparr>))"

definition admin_get_metrics :: "real \<Rightarrow> string \<Rightarrow> ('r, 'q, 'w) gateway \<Rightarrow> metrics_response answer" where
  "admin_get_metrics now window g =
     (case get_summary now window (as_metrics (g_app g)) of Inl e \<Rightarrow> Http 500 | Inr r \<Rightarrow> Ok r)"

definition admin_get_task_metrics :: "real \<Rightarrow> string \<Rightarrow> ('r, 'q, 'w) gateway \<Rightarrow> (string + task_metrics) answer" where
  "admin_get_task_metrics now task g = Ok (get_task_metrics now task (as_metrics (g_app g)))"

definition admin_get_canary_metrics :: "string \<Rightarrow> ('r, 'q, 'w) gateway \<Rightarrow> canary_status answer" where
  "admin_get_canary_metrics task g =
     (case canary_get_status task (as_canary (g_app g)) of None \<Rightarrow> Http 404 | Some s \<Rightarrow> Ok s)"

definition admin_set_canary ::
    "real \<Rightarrow> string \<Rightarrow> string option \<Rightarrow> int \<Rightarrow> int \<Rightarrow> ('r, 'q, 'w) gateway \<Rightarrow>
     canary_status answer \<times> ('r, 'q, 'w) gateway" where
  "admin_set_canary now task model traffic_pct min_samples g =
     (case model of
        None \<Rightarrow> (Http 422, g)
      | Some m \<Rightarrow>
          if traffic_pct < 1 \<or> 100 < traffic_pct \<or> min_samples < 1 then (Http 422, g)
          else case set_canary now task m traffic_pct min_samples (as_canary (g_app g)) of
                 Inl e \<Rightarrow> (Http 500, g)
               | Inr (status, es) \<Rightarrow> (Ok status, g\<lparr>g_app := (g_app g)\<lparr>as_canary := es\<rparr>\<rparr>))"

definition end_canary ::
    "(string \<Rightarrow> experiments \<Rightarrow> canary_error + (bool \<times> experiments)) \<Rightarrow> string \<Rightarrow>
     ('r, 'q, 'w) gateway \<Rightarrow> string answer \<times> ('r, 'q, 'w) gateway" where
  "end_canary f task g =
     (case f task (as_canary (g_app g)) of
        Inl e \<Rightarrow> (Http 500, g)
      | Inr (success, es) \<Rightarrow>
          (if success then (Ok task, g\<lparr>g_app := (g_app g)\<lparr>as_canary := es\<rparr>\<rparr>) else (Http 404, g)))"

definition admin_promote_canary :: "string \<Rightarrow> ('r, 'q, 'w) gateway \<Rightarrow> string answer \<times> ('r, 'q, 'w) gateway" where
  "admin_promote_canary task g = end_canary promote_canary task g"

definition admin_rollback_canary :: "string \<Rightarrow> ('r, 'q, 'w) gateway \<Rightarrow> string answer \<times> ('r, 'q, 'w) gateway" where
  "admin_rollback_canary task g = end_canary rollback_canary task g"

definition admin_list_models :: "('r, 'q, 'w) gateway \<Rightarrow> model_health list answer" where
  "admin_list_models g = Ok (get_model_health (as_heap (g_app g)) (as_health (g_app g)))"

definition admin_disable_model :: "string \<Rightarrow> ('r, 'q, 'w) gateway \<Rightarrow> string answer \<times> ('r, 'q, 'w) gateway" where
  "admin_disable_model model_id g =
     (case disable_model model_id (as_heap (g_app g), as_health (g_app g)) of
        (success, h, hm) \<Rightarrow>
          if success then (Ok model_id, g\<lparr>g_app := (g_app g)\<lparr>as_heap := h, as_health := hm\<rparr>\<rparr>)
          else (Http 404, g))"

record budget_status =
  bs_daily_spend_usd :: real
  bs_daily_limit_usd :: real
  bs_degradation_level :: int
  bs_requests_today :: int
  bs_queued_requests :: int

definition admin_get_budget ::
    "('r, 'q, 'p) services \<Rightarrow> real \<Rightarrow> string \<Rightarrow> ('r, 'q, 'w) gateway \<Rightarrow> budget_status answer" where
  "admin_get_budget sv now tenant_id g =
     (let a = g_app g
      in case (get_daily_spend (sv_redis sv) now tenant_id (as_budget a),
               get_request_count (sv_redis sv) now tenant_id (as_budget a),
               queue_length (sv_redis_lists sv) tenant_id (as_queue a)) of
           (Some spend, Some requests, Some queued) \<Rightarrow>
             Ok \<lparr>bs_daily_spend_usd = spend,
                 bs_daily_limit_usd = max_per_tenant_per_day_usd (rc_cost (cl_config (g_loader g))),
                 bs_degradation_level = get_level (as_degradation a) tenant_id,
                 bs_requests_today = requests, bs_queued_requests = queued\<rparr>
         | _ \<Rightarrow> Http 500)"

section \<open>The two applications\<close>

text \<open>
  \<^verbatim>\<open>main\<close> serves the agent and the admin application, and each runs \<^verbatim>\<open>lifespan\<close>, so that each is a gateway of its own.
  What can happen to each, one step at a time:
\<close>

inductive agent_step ::
    "pydantic \<Rightarrow> (string \<Rightarrow> string) \<Rightarrow> ('r, 'q, 'p) services \<Rightarrow>
     ('r, 'q, 'w) gateway \<Rightarrow> ('r, 'q, 'w) gateway \<Rightarrow> bool"
  for px :: pydantic and env :: "string \<Rightarrow> string" and sv :: "('r, 'q, 'p) services" where
  agent_complete: "complete sv rd body (g_app g, ev) = (out, a, ev') \<Longrightarrow>
     agent_step px env sv g (g\<lparr>g_app := a\<rparr>)"
| agent_check: "check_single_model m healthy elapsed (as_heap (g_app g), as_health (g_app g)) = (h, hm) \<Longrightarrow>
     agent_step px env sv g (g\<lparr>g_app := (g_app g)\<lparr>as_heap := h, as_health := hm\<rparr>\<rparr>)"
| agent_file: "agent_step px env sv g (file_changed px env file now t g)"

inductive admin_step ::
    "pydantic \<Rightarrow> (string \<Rightarrow> string) \<Rightarrow> ('r, 'q, 'w) gateway \<Rightarrow> ('r, 'q, 'w) gateway \<Rightarrow> bool"
  for px :: pydantic and env :: "string \<Rightarrow> string" where
  admin_check: "check_single_model m healthy elapsed (as_heap (g_app g), as_health (g_app g)) = (h, hm) \<Longrightarrow>
     admin_step px env g (g\<lparr>g_app := (g_app g)\<lparr>as_heap := h, as_health := hm\<rparr>\<rparr>)"
| admin_file: "admin_step px env g (file_changed px env file now t g)"
| admin_reload: "admin_step px env g (snd (admin_reload_config px env file now g))"
| admin_routing: "admin_step px env g (snd (admin_update_routing px env file now body g))"
| admin_threshold: "admin_step px env g (snd (admin_update_threshold task threshold g))"
| admin_canary: "admin_step px env g (snd (admin_set_canary now task model pct n g))"
| admin_promote: "admin_step px env g (snd (admin_promote_canary task g))"
| admin_rollback: "admin_step px env g (snd (admin_rollback_canary task g))"
| admin_disable: "admin_step px env g (snd (admin_disable_model m g))"

text \<open>
  All that the applications share is the routing file and the redis server: the admin
  application, which only reads redis, finds there what the agent application wrote.
\<close>

record ('r, 'q, 'w) deployment =
  dp_agent :: "('r, 'q, 'w) gateway"
  dp_admin :: "('r, 'q, 'w) gateway"

definition seen_by :: "'r option \<Rightarrow> 'r option \<Rightarrow> 'r option" where
  "seen_by written reader = (case (written, reader) of (Some r, Some _) \<Rightarrow> Some r | _ \<Rightarrow> reader)"

definition share_redis :: "('r, 'q, 'w) gateway \<Rightarrow> ('r, 'q, 'w) gateway \<Rightarrow> ('r, 'q, 'w) gateway" where
  "share_redis g1 g2 =
     (let a = g_app g1; b = g_app g2
      in g2\<lparr>g_app := b\<lparr>as_budget := (as_budget b)\<lparr>bt_redis := seen_by (bt_redis (as_budget a)) (bt_redis (as_budget b))\<rparr>,
                       as_queue := (as_queue b)\<lparr>rq_redis := seen_by (rq_redis (as_queue a)) (rq_redis (as_queue b))\<rparr>\<rparr>\<rparr>)"

inductive deployment_step ::
    "pydantic \<Rightarrow> (string \<Rightarrow> string) \<Rightarrow> ('r, 'q, 'p) services \<Rightarrow>
     ('r, 'q, 'w) deployment \<Rightarrow> ('r, 'q, 'w) deployment \<Rightarrow> bool"
  for px :: pydantic and env :: "string \<Rightarrow> string" and sv :: "('r, 'q, 'p) services" where
  on_agent: "agent_step px env sv (dp_agent d) g \<Longrightarrow>
     deployment_step px env sv d \<lparr>dp_agent = g, dp_admin = share_redis g (dp_admin d)\<rparr>"
| on_admin: "admin_step px env (dp_admin d) g \<Longrightarrow> deployment_step px env sv d (d\<lparr>dp_admin := g\<rparr>)"

section \<open>The invariant\<close>

lemma complete_thresholds:
  assumes "complete sv rd body (a, ev) = (out, a', ev')"
  shows "as_thresholds a' = as_thresholds a"
proof -
  have "a\<lparr>as_thresholds := as_thresholds a\<rparr> = a" by (cases a) simp
  with admin_threshold_ignored [where a = a and th = "as_thresholds a" and sv = sv and rd = rd and body = body and ev = ev] assms
  have "a' = a'\<lparr>as_thresholds := as_thresholds a\<rparr>" by simp
  then show ?thesis by (cases a') simp
qed

text \<open>What a loaded configuration satisfies: valid canary settings, and an object of its own for each model, below \<open>r\<close>.\<close>

definition config_inv :: "ref \<Rightarrow> routing_config \<Rightarrow> bool" where
  "config_inv r cfg \<longleftrightarrow> (\<forall>(k, c) \<in> set (rc_canary cfg). canary_config_ok c)
     \<and> distinct (map snd (config_models cfg)) \<and> (\<forall>x \<in> set (config_models cfg). snd x < r)"

text \<open>
  The health manager tracks exactly the configured model ids, once each, and each state points to a configured object of
  its own id.
\<close>

definition tracked :: "heap \<Rightarrow> (string \<times> ref) list \<Rightarrow> (string, model_state) dict \<Rightarrow> bool" where
  "tracked h ms states \<longleftrightarrow> dict_ok states
     \<and> (\<forall>m. dict_get states m \<noteq> None \<longleftrightarrow> (\<exists>x \<in> set ms. mc_id (h (snd x)) = m))
     \<and> (\<forall>m st. dict_get states m = Some st \<longrightarrow>
          (ms_tier st, ms_model_config st) \<in> set ms \<and> mc_id (h (ms_model_config st)) = m)"

definition gateway_inv :: "('r, 'q, 'w) gateway \<Rightarrow> bool" where
  "gateway_inv g \<longleftrightarrow>
     as_config (g_app g) = cl_config (g_loader g)
     \<and> as_escalation (g_app g) = rc_escalation (cl_config (g_loader g))
     \<and> dm_cost_config (as_degradation (g_app g)) = rc_cost (cl_config (g_loader g))
     \<and> config_inv (g_next g) (cl_config (g_loader g))
     \<and> tracked (as_heap (g_app g)) (config_models (cl_config (g_loader g))) (hm_model_states (as_health (g_app g)))
     \<and> canary_inv (as_canary (g_app g))
     \<and> degradation_inv (as_degradation (g_app g))
     \<and> length (as_metrics (g_app g)) \<le> max_records"

text \<open>What no step of the agent application touches: no threshold is set and no model disabled.\<close>

definition untouched :: "('r, 'q, 'w) gateway \<Rightarrow> bool" where
  "untouched g \<longleftrightarrow> as_thresholds (g_app g) = []
     \<and> (\<forall>x \<in> set (config_models (cl_config (g_loader g))). mc_enabled (as_heap (g_app g) (snd x)))"

subsection \<open>Loading\<close>

lemma placed_models:
  assumes "rc_tiers cfg = place_tiers r ts"
  shows "map snd (config_models cfg) = [r..<r + length (concat (map snd ts))]"
proof -
  have "map snd (concat (map (\<lambda>(tier, tc). map (Pair tier) (tier_models tc)) (place_tiers r ts))) =
      [r..<r + length (concat (map snd ts))]"
  proof (induction r ts rule: place_tiers.induct)
    case (2 r name ms ts)
    from upt_add_eq_append [of r "r + length ms" "length (concat (map snd ts))"] 2 show ?case
      by (simp add: comp_def add.assoc)
  qed simp
  with assms show ?thesis by (simp add: config_models_def)
qed

lemma parsed_enabled:
  "parse_model_config px y = Some m \<Longrightarrow> mc_enabled m"
  by (auto simp: parse_model_config_def bind_eq_Some_conv)

lemma parsed_tier_enabled:
  assumes "parse_tier_config px d = Some ms" and "m \<in> set ms"
  shows "mc_enabled m"
proof -
  have "those ys = Some zs \<Longrightarrow> z \<in> set zs \<Longrightarrow> Some z \<in> set ys" for ys and zs :: "model_config list" and z
    by (induction ys arbitrary: zs) (auto split: option.splits)
  with assms show ?thesis
    by (fastforce simp: parse_tier_config_def bind_eq_Some_conv dest: parsed_enabled [OF sym])
qed

lemma parsed_tiers_enabled:
  "parse_tiers px kvs = Some ts \<Longrightarrow> m \<in> set (concat (map snd ts)) \<Longrightarrow> mc_enabled m"
  by (induction px kvs arbitrary: ts rule: parse_tiers.induct)
     (fastforce simp: bind_eq_Some_conv intro: parsed_tier_enabled)+

lemma parse_config_inv:
  assumes "parse_routing_config px r y = Inr (cfg, objects)"
  shows "config_inv (r + length objects) cfg"
    and "map snd (config_models cfg) = [r..<r + length objects]"
    and "\<forall>m \<in> set objects. mc_enabled m"
proof -
  obtain raw where b: "build_config px r raw = Some (cfg, objects)"
    using assms by (auto simp: parse_routing_config_def bind_eq_Some_conv split: option.splits)
  then obtain ts kvs where ts: "rc_tiers cfg = place_tiers r ts" "objects = concat (map snd ts)" "parse_tiers px kvs = Some ts"
    by (auto simp: build_config_def bind_eq_Some_conv)
  show m: "map snd (config_models cfg) = [r..<r + length objects]"
    using placed_models [OF ts(1)] ts(2) by simp
  then have "\<forall>x \<in> set (config_models cfg). snd x < r + length objects"
    by (metis atLeastLessThan_iff image_eqI list.set_map set_upt)
  with m parse_validated(1) [OF assms] show "config_inv (r + length objects) cfg"
    by (auto simp: config_inv_def)
  show "\<forall>m \<in> set objects. mc_enabled m" using parsed_tiers_enabled [OF ts(3)] ts(2) by blast
qed

text \<open>A load that parsed something, and the configuration it leaves.\<close>

definition parsed :: "ref \<Rightarrow> config_loader \<times> model_config list \<Rightarrow> bool" where
  "parsed r l \<longleftrightarrow> config_inv (r + length (snd l)) (cl_config (fst l))
     \<and> map snd (config_models (cl_config (fst l))) = [r..<r + length (snd l)] \<and> (\<forall>m \<in> set (snd l). mc_enabled m)"

lemma cl_load_parsed: "cl_load px env (Some c) now r cl = Inr l \<Longrightarrow> parsed r l"
  by (auto simp: cl_load_def parsed_def split: sum.splits dest: parse_config_inv)

lemma cl_update_parsed: "cl_update_routing px env file us now r cl = Inr l \<Longrightarrow> parsed r l"
  by (auto simp: cl_update_routing_def parsed_def split: sum.splits dest: parse_config_inv)

lemma cl_load_init_parsed:
  assumes "cl_load px env file now r init_config_loader = Inr l"
  shows "parsed r l"
proof (cases "file")
  case None
  with assms show ?thesis
    by (auto simp: cl_load_def init_config_loader_def parsed_def config_inv_def config_models_def default_routing_def)
qed (use assms cl_load_parsed in blast)

lemma placed_enabled:
  assumes "parsed r l" and "x \<in> set (config_models (cl_config (fst l)))"
  shows "mc_enabled (place_objects r (snd l) h (snd x))"
proof -
  have "snd x \<in> set [r..<r + length (snd l)]"
    using assms by (metis image_eqI list.set_map parsed_def)
  with assms(1) show ?thesis by (auto simp: place_objects_def parsed_def)
qed

subsection \<open>Tracking\<close>

lemma fold_track_get:
  "dict_get (fold (\<lambda>(tier, model). track_model h tier model) ms states) k = Some st \<Longrightarrow>
     ((ms_tier st, ms_model_config st) \<in> set ms \<and> mc_id (h (ms_model_config st)) = k)
     \<or> (dict_get states k = Some st \<and> (\<forall>x \<in> set ms. mc_id (h (snd x)) \<noteq> k))"
proof (induction ms arbitrary: states)
  case (Cons p ms)
  obtain t r where p: "p = (t, r)" by (cases p)
  from Cons.IH [of "track_model h t r states"] Cons.prems p show ?case
    by (auto simp: track_model_def new_model_state_def split: option.splits if_splits)
qed simp

lemma fold_track_keys:
  "set (dict_keys (fold (\<lambda>(tier, model). track_model h tier model) ms states)) =
     set (dict_keys states) \<union> (\<lambda>x. mc_id (h (snd x))) ` set ms"
proof (induction ms arbitrary: states)
  case (Cons p ms)
  obtain t r where p: "p = (t, r)" by (cases p)
  have "set (dict_keys (track_model h t r states)) = insert (mc_id (h r)) (set (dict_keys states))"
    by (simp only: track_model_def dict_keys_set split: option.split) simp
  with Cons.IH p show ?case by simp
qed simp

lemma fold_track_ok:
  "dict_ok states \<Longrightarrow> dict_ok (fold (\<lambda>(tier, model). track_model h tier model) ms states)"
proof (induction ms arbitrary: states)
  case (Cons p ms)
  then show ?case by (cases p) (auto simp: track_model_def split: option.split)
qed simp

lemma tracked_update:
  assumes "dict_ok (hm_model_states hm)"
  shows "tracked h (config_models cfg) (hm_model_states (hm_update_from_config h cfg hm))"
proof -
  let ?ms = "config_models cfg"
  let ?sts = "fold (\<lambda>(tier, model). track_model h tier model) ?ms (hm_model_states hm)"
  let ?ids = "(\<lambda>x. mc_id (h (snd x))) ` set ?ms"
  have sts: "hm_model_states (hm_update_from_config h cfg hm) = filter (\<lambda>(m, st). m \<in> ?ids) ?sts"
    by (simp add: hm_update_from_config_def Let_def case_prod_beta)
  have get: "dict_get (filter (\<lambda>(m, st). m \<in> ?ids) ?sts) m = (if m \<in> ?ids then dict_get ?sts m else None)" for m
    by (simp only: dict_get_filter_key)
  have some: "dict_get ?sts m \<noteq> None" if "m \<in> ?ids" for m
  proof -
    have "m \<in> set (dict_keys ?sts)" using that unfolding fold_track_keys by blast
    then show ?thesis by (simp only: map_of_eq_None_iff set_map) simp
  qed
  show ?thesis unfolding tracked_def sts get
  proof (intro conjI allI impI)
    show "dict_ok (filter (\<lambda>(m, st). m \<in> ?ids) ?sts)" by (intro dict_ok_filter fold_track_ok assms)
    show "((if m \<in> ?ids then dict_get ?sts m else None) \<noteq> None) = (\<exists>x \<in> set ?ms. mc_id (h (snd x)) = m)" for m
      using some by auto
  qed (use fold_track_get [of h ?ms "hm_model_states hm"] in \<open>fastforce split: if_splits\<close>)+
qed

lemma tracked_set:
  assumes "tracked h ms states" and "dict_get states m = Some st"
    and "ms_tier st' = ms_tier st" and "ms_model_config st' = ms_model_config st" and "\<And>r. mc_id (h' r) = mc_id (h r)"
  shows "tracked h' ms (dict_set m st' states)"
proof -
  have "(\<exists>x \<in> set ms. mc_id (h (snd x)) = m)" using assms(1,2) unfolding tracked_def by blast
  with assms show ?thesis by (auto simp: tracked_def)
qed

lemma tracked_check:
  assumes "tracked h ms (hm_model_states hm)" and "check_single_model m healthy elapsed (h, hm) = (h', hm')"
  shows "tracked h' ms (hm_model_states hm')" and "mc_enabled (h' r) = mc_enabled (h r)"
proof -
  show "tracked h' ms (hm_model_states hm')"
  proof (cases "dict_get (hm_model_states hm) m")
    case (Some st)
    with assms show ?thesis by (auto simp: check_single_model_eq Let_def intro!: tracked_set [OF assms(1) Some])
  qed (use assms in \<open>auto simp: check_single_model_eq\<close>)
  show "mc_enabled (h' r) = mc_enabled (h r)"
    using check_single_model_enabled [of m healthy elapsed "(h, hm)" r] assms(2) by simp
qed

lemma tracked_disable:
  assumes "tracked h ms (hm_model_states hm)" and "disable_model m (h, hm) = (ok, h', hm')"
  shows "tracked h' ms (hm_model_states hm')"
proof (cases "dict_get (hm_model_states hm) m")
  case (Some st)
  with assms show ?thesis by (auto simp: disable_model_def Let_def intro!: tracked_set [OF assms(1) Some])
qed (use assms in \<open>auto simp: disable_model_def\<close>)

subsection \<open>Every step\<close>

lemma gateway_inv_loaded:
  assumes "gateway_inv g" and "parsed (g_next g) l"
  shows "gateway_inv (loaded now l g)"
proof -
  have "canary_inv (canary_update_from_config now (cl_config (fst l)) (as_canary (g_app g)))"
    using assms by (intro canary_inv_update) (auto simp: gateway_inv_def parsed_def config_inv_def)
  moreover have "dict_ok (hm_model_states (as_health (g_app g)))"
    using assms(1) by (simp add: gateway_inv_def tracked_def)
  ultimately show ?thesis using assms
    by (auto simp: gateway_inv_def loaded_def on_config_reload_def dm_update_config_def parsed_def
        intro: degradation_inv_update_config [unfolded dm_update_config_def] tracked_update)
qed

lemma untouched_loaded: "untouched g \<Longrightarrow> parsed (g_next g) l \<Longrightarrow> untouched (loaded now l g)"
  by (auto simp: untouched_def loaded_def on_config_reload_def dest: placed_enabled)

lemma g_reload_cases:
  "g_reload px env file now g = g \<or> (\<exists>l. parsed (g_next g) l \<and> g_reload px env file now g = loaded now l g)"
  by (auto simp: g_reload_def dest: cl_load_parsed split: option.split sum.split)

lemma file_changed_cases:
  "file_changed px env file now t g = g \<or> (\<exists>l. parsed (g_next g) l \<and> file_changed px env file now t g = loaded t l g)"
  using g_reload_cases [of px env "file" t g] by (simp add: file_changed_def)

lemma gateway_inv_checked:
  assumes "gateway_inv g"
    and "check_single_model m healthy elapsed (as_heap (g_app g), as_health (g_app g)) = (h, hm)"
  shows "gateway_inv (g\<lparr>g_app := (g_app g)\<lparr>as_heap := h, as_health := hm\<rparr>\<rparr>)"
  using assms tracked_check(1) [OF _ assms(2)] by (simp add: gateway_inv_def)

lemma gateway_inv_end_canary:
  assumes "gateway_inv g" and "\<And>m b m'. canary_inv m \<Longrightarrow> f task m = Inr (b, m') \<Longrightarrow> canary_inv m'"
  shows "gateway_inv (snd (end_canary f task g))"
  using assms by (auto simp: end_canary_def gateway_inv_def split: sum.split prod.split)

lemma agent_inv_step:
  assumes "agent_step px env sv g g'" and "gateway_inv g" and "untouched g"
  shows "gateway_inv g' \<and> untouched g'"
  using assms(1)
proof (cases rule: agent_step.cases)
  case (agent_complete rd body ev out a ev')
  have "as_thresholds a = as_thresholds (g_app g)" by (rule complete_thresholds [OF agent_complete(2)])
  with complete_keeps [OF agent_complete(2)] assms(2,3) agent_complete(1) show ?thesis
    by (auto simp: gateway_inv_def untouched_def)
next
  case (agent_check m healthy elapsed h hm)
  with assms(2,3) gateway_inv_checked [OF assms(2) agent_check(2)] tracked_check(2) [OF _ agent_check(2)] show ?thesis
    by (auto simp: untouched_def gateway_inv_def)
next
  case (agent_file cfile now t)
  with file_changed_cases [of px env cfile now t g] assms(2,3) gateway_inv_loaded untouched_loaded show ?thesis by metis
qed

lemma admin_inv_step:
  assumes "admin_step px env g g'" and "gateway_inv g"
  shows "gateway_inv g'"
  using assms(1)
proof (cases rule: admin_step.cases)
  case (admin_check m healthy elapsed h hm)
  with gateway_inv_checked [OF assms(2)] show ?thesis by blast
next
  case (admin_file cfile now t)
  with file_changed_cases [of px env cfile now t g] assms(2) gateway_inv_loaded show ?thesis by metis
next
  case (admin_reload cfile now)
  let ?g = "g_reload px env cfile now g"
  have inv: "gateway_inv ?g"
    using g_reload_cases [of px env cfile now g] assms(2) gateway_inv_loaded by metis
  then have "canary_inv (canary_update_from_config now (cl_config (g_loader ?g)) (as_canary (g_app ?g)))"
    by (intro canary_inv_update) (auto simp: gateway_inv_def config_inv_def)
  moreover have "tracked (as_heap (g_app ?g)) (config_models (cl_config (g_loader ?g)))
      (hm_model_states (hm_update_from_config (as_heap (g_app ?g)) (cl_config (g_loader ?g)) (as_health (g_app ?g))))"
    using inv by (intro tracked_update) (simp add: gateway_inv_def tracked_def)
  ultimately show ?thesis using inv admin_reload by (simp add: admin_reload_config_def gateway_inv_def Let_def)
next
  case (admin_routing cfile now body)
  with assms(2) show ?thesis
    by (auto simp: admin_update_routing_def Let_def split: sum.split intro: gateway_inv_loaded cl_update_parsed)
next
  case (admin_threshold task threshold)
  with assms(2) show ?thesis by (auto simp: admin_update_threshold_def gateway_inv_def)
next
  case (admin_canary now task model pct n)
  with assms(2) canary_inv_set_canary show ?thesis
    by (auto simp: admin_set_canary_def gateway_inv_def split: option.split sum.split)
next
  case (admin_promote task)
  have "gateway_inv (snd (end_canary promote_canary task g))"
    by (rule gateway_inv_end_canary [OF assms(2)]) (auto simp: promote_canary_def dest: canary_inv_remove)
  with admin_promote show ?thesis by (simp add: admin_promote_canary_def)
next
  case (admin_rollback task)
  have "gateway_inv (snd (end_canary rollback_canary task g))"
    by (rule gateway_inv_end_canary [OF assms(2)]) (auto simp: rollback_canary_def dest: canary_inv_remove)
  with admin_rollback show ?thesis by (simp add: admin_rollback_canary_def)
next
  case (admin_disable m)
  with assms(2) show ?thesis
    by (auto simp: admin_disable_model_def gateway_inv_def split: prod.split dest: tracked_disable)
qed

lemma start_gateway_parts:
  assumes "start_gateway px env mk settings i t file now redis qredis r h = Inr g"
  obtains l h' where "parsed r l" and "g_loader g = fst l" and "g_next g = r + length (snd l)"
    and "as_heap (g_app g) = h'" and "\<And>a. mc_enabled (h' a) = mc_enabled (place_objects r (snd l) h a)"
    and "build_registry mk settings (cl_config (fst l)) (place_objects r (snd l) h) = (as_registry (g_app g), h')"
proof -
  obtain loader objects where l: "cl_load px env file now r init_config_loader = Inr (loader, objects)"
    using assms by (auto simp: start_gateway_def split: sum.splits)
  obtain reg h' where b: "build_registry mk settings (cl_config loader) (place_objects r objects h) = (reg, h')"
    by (metis surj_pair)
  have "mc_enabled (h' a) = mc_enabled (place_objects r objects h a)" for a
    using b by (auto simp: build_registry_def split: prod.splits dest: register_models_heap)
  with that [of "(loader, objects)" h'] cl_load_init_parsed [OF l] l b assms show ?thesis
    by (auto simp: start_gateway_def Let_def)
qed

lemma gateway_inv_start:
  assumes "start_gateway px env mk settings i t file now redis qredis r h = Inr g"
  shows "gateway_inv g \<and> untouched g"
proof -
  obtain l h' where l: "parsed r l" "g_loader g = fst l" "g_next g = r + length (snd l)" "as_heap (g_app g) = h'"
    "\<And>a. mc_enabled (h' a) = mc_enabled (place_objects r (snd l) h a)"
    by (rule start_gateway_parts [OF assms]) blast
  have u: "untouched g" using assms l(2,4,5) placed_enabled [OF l(1)]
    by (auto simp: untouched_def start_gateway_def Let_def split: sum.splits prod.splits)
  have "canary_inv (canary_update_from_config now (cl_config (fst l)) [])"
    using l(1) by (intro canary_inv_update canary_inv_Nil) (auto simp: parsed_def config_inv_def)
  moreover have "tracked h' (config_models (cl_config (fst l)))
      (hm_model_states (hm_start (hm_update_from_config h' (cl_config (fst l))
         (set_provider_registry (init_health_manager i t 3 1)))))"
    using tracked_update [of "set_provider_registry (init_health_manager i t 3 1)" h' "cl_config (fst l)"]
    by (auto simp: hm_start_def set_provider_registry_def init_health_manager_def)
  ultimately have "gateway_inv g" using assms l
    by (auto simp: start_gateway_def Let_def gateway_inv_def parsed_def init_degradation_def
        degradation_inv_init [unfolded init_degradation_def] split: sum.splits prod.splits)
  with u show ?thesis by blast
qed

definition started ::
    "pydantic \<Rightarrow> (string \<Rightarrow> string) \<Rightarrow> (adapter_spec \<Rightarrow> 'w adapter) \<Rightarrow> gateway_settings \<Rightarrow> ('r, 'q, 'w) gateway \<Rightarrow> bool" where
  "started px env mk settings g \<longleftrightarrow>
     (\<exists>i t cfile now redis qredis r h. start_gateway px env mk settings i t cfile now redis qredis r h = Inr g)"

lemma share_redis_keeps [simp]:
  "gateway_inv (share_redis g1 g2) = gateway_inv g2"
  "as_registry (g_app (share_redis g1 g2)) = as_registry (g_app g2)"
  by (simp_all add: share_redis_def gateway_inv_def Let_def)

interpretation deployment_system: invariant_system
  "\<lambda>d. started px env mk settings (dp_agent d) \<and> started px env mk settings (dp_admin d)"
  "deployment_step px env sv"
  "\<lambda>d. gateway_inv (dp_agent d) \<and> untouched (dp_agent d) \<and> gateway_inv (dp_admin d)"
  for px :: pydantic and env :: "string \<Rightarrow> string" and mk :: "adapter_spec \<Rightarrow> 'w adapter"
    and settings :: gateway_settings and sv :: "('r, 'q, 'p) services"
  by unfold_locales
     (auto simp: started_def deployment_step.simps dest: gateway_inv_start agent_inv_step admin_inv_step)

text \<open>Neither application touches its registry, and only agent steps reach the agent application.\<close>

lemma loaded_keeps_registry [simp]: "as_registry (g_app (loaded now l g)) = as_registry (g_app g)"
  by (simp add: loaded_def on_config_reload_def)

lemma reload_keeps_registry [simp]:
  "as_registry (g_app (g_reload px env cfile now g)) = as_registry (g_app g)"
  using g_reload_cases [of px env cfile now g] by auto

lemma agent_keeps_registry:
  "agent_step px env sv g g' \<Longrightarrow> as_registry (g_app g') = as_registry (g_app g)"
  by (auto simp: file_changed_def elim!: agent_step.cases dest: complete_keeps)

lemma admin_keeps_registry:
  "admin_step px env g g' \<Longrightarrow> as_registry (g_app g') = as_registry (g_app g)"
  by (auto simp: file_changed_def admin_reload_config_def admin_update_routing_def admin_update_threshold_def
      admin_set_canary_def admin_promote_canary_def admin_rollback_canary_def end_canary_def admin_disable_model_def Let_def
      elim!: admin_step.cases split: option.split sum.split prod.split)

lemma deployment_runs:
  assumes "(deployment_step px env sv)\<^sup>*\<^sup>* d0 d"
  shows "(agent_step px env sv)\<^sup>*\<^sup>* (dp_agent d0) (dp_agent d)
    \<and> as_registry (g_app (dp_agent d)) = as_registry (g_app (dp_agent d0))
    \<and> as_registry (g_app (dp_admin d)) = as_registry (g_app (dp_admin d0))"
  using assms
proof (induction rule: rtranclp_induct)
  case (step d1 d2)
  from step(2) show ?case
  proof (cases rule: deployment_step.cases)
    case (on_agent g)
    with step.IH agent_keeps_registry [OF on_agent(2)] show ?thesis by auto
  next
    case (on_admin g)
    with step.IH admin_keeps_registry [OF on_admin(2)] show ?thesis by auto
  qed
qed simp

lemma started_registry:
  assumes "start_gateway px env mk settings i t file now redis qredis r h = Inr g"
  shows "registry_get (as_registry (g_app g)) m \<noteq> None \<longleftrightarrow>
    (\<exists>x \<in> set (config_models (cl_config (g_loader g))). mc_id (as_heap (g_app g) (snd x)) = m)"
proof -
  obtain l h' where l: "g_loader g = fst l" "as_heap (g_app g) = h'"
    "build_registry mk settings (cl_config (fst l)) (place_objects r (snd l) h) = (as_registry (g_app g), h')"
    by (rule start_gateway_parts [OF assms]) blast
  obtain specs where s: "register_models settings (map snd (config_models (cl_config (fst l)))) ([], place_objects r (snd l) h) = (specs, h')"
    "as_registry (g_app g) = map (\<lambda>(m, spec). (m, mk spec)) specs"
    using l(3) by (auto simp: build_registry_def split: prod.splits)
  have "registry_get (as_registry (g_app g)) m \<noteq> None \<longleftrightarrow> dict_get specs m \<noteq> None"
    unfolding registry_get_def s(2) by (simp add: map_of_map)
  with register_models_get [OF s(1), of m] register_models_heap [OF s(1)] l(1,2) show ?thesis by auto
qed

section \<open>Properties\<close>

text \<open>
  C33 (the gateway invariant): the two applications of the gateway are started, and then requests, health checks, file changes and admin
  calls happen in any order. In both applications the resolver, the escalation engine and the degradation manager hold the
  loader's configuration; every configured model has an object of its own; the health manager tracks exactly the configured model ids, each with
  a state that points to a configured object of that id; the experiments are stored under their own keys with valid shares, every degradation level is between
  0 and 4, and the metrics store holds at most 100,000 entries. The adapters are those of the models configured at the start. No admin call reaches the
  application that serves completions: its state is one that requests, checks and file changes alone produce, it
  has no confidence threshold, and every model it offers is enabled.
\<close>

theorem gateway_invariant:
  assumes "start_gateway px env mk settings i1 t1 file1 now1 redis1 queue1 r1 h1 = Inr agent"
    and "start_gateway px env mk settings i2 t2 file2 now2 redis2 queue2 r2 h2 = Inr admin"
    and "(deployment_step px env sv)\<^sup>*\<^sup>* \<lparr>dp_agent = agent, dp_admin = admin\<rparr> d"
  shows "gateway_inv (dp_agent d) \<and> gateway_inv (dp_admin d)
    \<and> (registry_get (as_registry (g_app (dp_agent d))) m \<noteq> None \<longleftrightarrow>
         (\<exists>x \<in> set (config_models (cl_config (g_loader agent))). mc_id (as_heap (g_app agent) (snd x)) = m))
    \<and> (registry_get (as_registry (g_app (dp_admin d))) m \<noteq> None \<longleftrightarrow>
         (\<exists>x \<in> set (config_models (cl_config (g_loader admin))). mc_id (as_heap (g_app admin) (snd x)) = m))
    \<and> (agent_step px env sv)\<^sup>*\<^sup>* agent (dp_agent d)
    \<and> as_thresholds (g_app (dp_agent d)) = []
    \<and> (\<forall>x \<in> set (config_models (cl_config (g_loader (dp_agent d)))). mc_enabled (as_heap (g_app (dp_agent d)) (snd x)))"
proof -
  let ?d = "\<lparr>dp_agent = agent, dp_admin = admin\<rparr>"
  have "gateway_inv (dp_agent d) \<and> untouched (dp_agent d) \<and> gateway_inv (dp_admin d)"
    using gateway_inv_start [OF assms(1)] gateway_inv_start [OF assms(2)]
    by (intro deployment_system.steps_inv [OF assms(3)]) simp
  with deployment_runs [OF assms(3)] started_registry [OF assms(1), of m] started_registry [OF assms(2), of m]
  show ?thesis by (auto simp: untouched_def)
qed

text \<open>
  (the admin key): an admin call passes exactly when a non-empty ASCII key is configured and the
  caller sent it; a missing header is 422, a missing configuration 503.
\<close>

theorem verify_admin_key_iff:
  "((verify_admin_key expected sent = Ok key) =
     (sent = Some key \<and> expected = key \<and> key \<noteq> [] \<and> is_ascii key))
   \<and> (verify_admin_key expected None = Http 422) \<and> (verify_admin_key [] (Some key) = Http 503)"
  by (auto simp: verify_admin_key_def compare_digest_def split: option.splits bool.splits if_splits)

text \<open>
  (a reload brings no adapters): after a hot reload no request calls a model whose id had
  no adapter before, even when the new configuration lists it as healthy and enabled: reloading
  does not touch the registry.
\<close>

theorem reload_adds_no_adapter:
  assumes "registry_get (as_registry (g_app g)) m = None"
    and "complete sv rd body (g_app (g_reload px env cfile now g), ev) = (out, a', ev')"
    and "(m, nr) \<in> set (ev_calls ev')"
  shows "(m, nr) \<in> set (ev_calls ev)"
proof (rule ccontr)
  assume new: "(m, nr) \<notin> set (ev_calls ev)"
  let ?a = "g_app (g_reload px env cfile now g)"
  have none: "registry_get (as_registry a1) m = None" if "admit sv rd body ?a = Inr a1" for a1
    using admit_keeps(5) [OF that] assms(1) by (simp add: reload_keeps_registry)
  from assms(2) show False
  proof (cases rule: complete_cases)
    case stopped
    with assms(3) new show False by simp
  qed (use complete_calls_registered [OF _ _ assms(3) new] none in blast)+
qed

section \<open>Witnesses\<close>

definition no_env :: "string \<Rightarrow> string" where
  "no_env v = []"

definition sample_start :: "load_error + (unit, string \<Rightarrow> queued_request list, unit) gateway" where
  "sample_start = start_gateway plain_pydantic no_env (\<lambda>spec. failing) sample_settings 30 5000 None 0
     ((), False) ((\<lambda>t. []), False) 0 sample_heap"

definition sample_update :: routing_update_request where
  "sample_update = \<lparr>ru_task_routing = Some [(''code'', YStr ''strong'')],
     ru_agent_routing = None, ru_tenant_routing = None\<rparr>"

theorem gateway_invariant_witness:
  "\<exists>g. sample_start = Inr g
     \<and> gateway_inv (snd (admin_update_routing plain_pydantic no_env routing_file 1 sample_update g))
     \<and> as_thresholds (g_app g) = []"
proof -
  have "\<exists>g. sample_start = Inr g"
    by (simp add: sample_start_def start_gateway_def cl_load_def Let_def split: prod.split)
  then obtain g where g: "sample_start = Inr g" by blast
  let ?g = "snd (admin_update_routing plain_pydantic no_env routing_file 1 sample_update g)"
  have "admin_step plain_pydantic no_env g ?g" by (rule admin_routing)
  then have "deployment_step plain_pydantic no_env sample_services
      \<lparr>dp_agent = g, dp_admin = g\<rparr> (\<lparr>dp_agent = g, dp_admin = g\<rparr>\<lparr>dp_admin := ?g\<rparr>)"
    by (intro on_admin) simp
  then have "(deployment_step plain_pydantic no_env sample_services)\<^sup>*\<^sup>*
      \<lparr>dp_agent = g, dp_admin = g\<rparr> (\<lparr>dp_agent = g, dp_admin = g\<rparr>\<lparr>dp_admin := ?g\<rparr>)"
    by blast
  from gateway_invariant [OF g [unfolded sample_start_def] g [unfolded sample_start_def] this] g
  show ?thesis by auto
qed

text \<open>A gateway whose registry lacks the model of its mid tier.\<close>

definition unregistered :: "(unit, string \<Rightarrow> queued_request list, unit) gateway" where
  "unregistered = \<lparr>g_app = sample_state\<lparr>as_registry := [(''small'', answering tool_response)]\<rparr>,
     g_loader = \<lparr>cl_config = sample_config, cl_last_load_time = 0\<rparr>, g_next = 3\<rparr>"

theorem reload_adds_no_adapter_witness:
  "\<forall>nr. registry_get (as_registry (g_app unregistered)) ''medium'' = None
   \<and> (''medium'', nr) \<notin> set (ev_calls (snd (snd (complete sample_services sample_readings (threshold_request 0.7)
        (g_app (g_reload plain_pydantic (\<lambda>v. []) routing_file 1 unregistered), no_calls)))))"
proof -
  let ?c = "complete sample_services sample_readings (threshold_request 0.7)
        (g_app (g_reload plain_pydantic (\<lambda>v. []) routing_file 1 unregistered), no_calls)"
  have r: "registry_get (as_registry (g_app unregistered)) ''medium'' = None"
    by (simp add: unregistered_def registry_get_def)
  have "?c = (fst ?c, fst (snd ?c), snd (snd ?c))" by simp
  from reload_adds_no_adapter [OF r this] r show ?thesis by (auto simp: no_calls_def)
qed

end
