(* ===== verification/Obs_Metrics.thy ===== *)
theory Obs_Metrics
  imports Py_Prelude
begin

text \<open>
  The observer's detection layer (\<^verbatim>\<open>observer/src/detection/aggregator.py\<close> and
  \<^verbatim>\<open>detector.py\<close>): log entries are grouped by task, model and tenant, each group is
  summarised, and threshold rules turn the summaries into issues. The texts of an issue
  (identifier, description, detection time) are not modelled; they only print the other
  fields.
\<close>

section \<open>Aggregation\<close>

record log_entry =
  le_task :: string
  le_model_used :: string
  le_tenant_id :: string
  le_escalated :: bool
  le_latency_ms :: int
  le_confidence :: real
  le_success :: bool
  le_error :: "string option"
  le_parse_success :: bool
  le_cost_usd :: real

record task_summary =
  ts_task :: string
  ts_sample_count :: nat
  ts_avg_confidence :: real
  ts_escalation_rate :: real
  ts_failure_rate :: real
  ts_parse_failure_rate :: real
  ts_avg_latency_ms :: real
  ts_p95_latency_ms :: real
  ts_avg_cost_usd :: real
  ts_total_cost_usd :: real
  ts_error_rate :: real

record model_summary =
  ms_model :: string
  ms_sample_count :: nat
  ms_error_rate :: real
  ms_avg_latency_ms :: real
  ms_p95_latency_ms :: real
  ms_avg_cost_usd :: real
  ms_total_cost_usd :: real
  ms_availability :: real

record tenant_summary =
  tn_tenant_id :: string
  tn_sample_count :: nat
  tn_total_cost_usd :: real
  tn_avg_cost_usd :: real
  tn_escalation_rate :: real
  tn_avg_confidence :: real

record aggregated_metrics =
  am_by_task :: "(string, task_summary) dict"
  am_by_model :: "(string, model_summary) dict"
  am_by_tenant :: "(string, tenant_summary) dict"
  am_total_entries :: nat
  am_window_minutes :: int

definition mean :: "real list \<Rightarrow> real" where
  "mean xs = (if xs = [] then 0 else sum_list xs / real (length xs))"

definition rate :: "('a \<Rightarrow> bool) \<Rightarrow> 'a list \<Rightarrow> real" where
  "rate p xs = (if xs = [] then 0 else real (count_if p xs) / real (length xs))"

definition percentile :: "real list \<Rightarrow> real \<Rightarrow> real" where
  "percentile values pct = (if values = [] then 0 else pct_value pct values)"

definition confidences :: "log_entry list \<Rightarrow> real list" where
  "confidences es = map le_confidence (filter (\<lambda>e. 0 < le_confidence e) es)"

definition latencies :: "log_entry list \<Rightarrow> real list" where
  "latencies es = map (\<lambda>e. real_of_int (le_latency_ms e)) es"

definition has_error :: "log_entry \<Rightarrow> bool" where
  "has_error e \<longleftrightarrow> str_truthy (le_error e)"

definition compute_task_metrics :: "string \<Rightarrow> log_entry list \<Rightarrow> task_summary" where
  "compute_task_metrics task es =
     \<lparr>ts_task = task, ts_sample_count = length es, ts_avg_confidence = mean (confidences es),
      ts_escalation_rate = rate le_escalated es, ts_failure_rate = rate (\<lambda>e. \<not> le_success e) es,
      ts_parse_failure_rate = rate (\<lambda>e. \<not> le_parse_success e) es,
      ts_avg_latency_ms = mean (latencies es), ts_p95_latency_ms = percentile (latencies es) 0.95,
      ts_avg_cost_usd = mean (map le_cost_usd es), ts_total_cost_usd = sum_list (map le_cost_usd es),
      ts_error_rate = rate has_error es\<rparr>"

definition compute_model_metrics :: "string \<Rightarrow> log_entry list \<Rightarrow> model_summary" where
  "compute_model_metrics model es =
     \<lparr>ms_model = model, ms_sample_count = length es, ms_error_rate = rate has_error es,
      ms_avg_latency_ms = mean (latencies es), ms_p95_latency_ms = percentile (latencies es) 0.95,
      ms_avg_cost_usd = mean (map le_cost_usd es), ms_total_cost_usd = sum_list (map le_cost_usd es),
      ms_availability = (if es = [] then 1 else rate le_success es)\<rparr>"

definition compute_tenant_metrics :: "string \<Rightarrow> log_entry list \<Rightarrow> tenant_summary" where
  "compute_tenant_metrics tenant_id es =
     \<lparr>tn_tenant_id = tenant_id, tn_sample_count = length es,
      tn_total_cost_usd = sum_list (map le_cost_usd es), tn_avg_cost_usd = mean (map le_cost_usd es),
      tn_escalation_rate = rate le_escalated es, tn_avg_confidence = mean (confidences es)\<rparr>"

definition add_to_group :: "('a \<Rightarrow> string) \<Rightarrow> 'a \<Rightarrow> (string, 'a list) dict \<Rightarrow> (string, 'a list) dict" where
  "add_to_group f e d = dict_set (f e) (dict_get_default d (f e) [] @ [e]) d"

definition group_by :: "('a \<Rightarrow> string) \<Rightarrow> 'a list \<Rightarrow> (string, 'a list) dict" where
  "group_by f es = fold (add_to_group f) es []"

definition summarise :: "(string \<Rightarrow> 'a list \<Rightarrow> 'b) \<Rightarrow> (string, 'a list) dict \<Rightarrow> (string, 'b) dict" where
  "summarise compute d = map (\<lambda>(k, es). (k, compute k es)) d"

definition aggregate :: "log_entry list \<Rightarrow> int \<Rightarrow> aggregated_metrics" where
  "aggregate entries window_minutes =
     \<lparr>am_by_task = summarise compute_task_metrics (group_by le_task entries),
      am_by_model = summarise compute_model_metrics (group_by le_model_used entries),
      am_by_tenant = summarise compute_tenant_metrics (group_by le_tenant_id entries),
      am_total_entries = length entries, am_window_minutes = window_minutes\<rparr>"

text \<open>The aggregator's only state is the baseline.\<close>

type_synonym baseline = "(string, task_summary) dict"

definition update_baseline :: "aggregated_metrics \<Rightarrow> baseline \<Rightarrow> baseline" where
  "update_baseline metrics bl = am_by_task metrics"

definition get_baseline :: "string \<Rightarrow> baseline \<Rightarrow> task_summary option" where
  "get_baseline task bl = dict_get bl task"

definition compute_trend :: "task_summary \<Rightarrow> task_summary option \<Rightarrow> (string, real) dict" where
  "compute_trend current bl =
     (case bl of
        None \<Rightarrow> []
      | Some b \<Rightarrow>
          if ts_sample_count b = 0 then []
          else (if 0 < ts_avg_confidence b
                then [(''confidence_delta'', ts_avg_confidence current - ts_avg_confidence b)] else [])
             @ [(''escalation_delta'', ts_escalation_rate current - ts_escalation_rate b),
                (''failure_delta'', ts_failure_rate current - ts_failure_rate b)]
             @ (if 0 < ts_p95_latency_ms b
                then [(''latency_ratio'', ts_p95_latency_ms current / ts_p95_latency_ms b)] else [])
             @ (if 0 < ts_avg_cost_usd b
                then [(''cost_ratio'', ts_avg_cost_usd current / ts_avg_cost_usd b)] else []))"

section \<open>Detection\<close>

datatype issue_type = HIGH_ESCALATION | LOW_CONFIDENCE | PARSE_FAILURES | COST_SPIKE
  | MODEL_ERRORS | LATENCY_SPIKE | STALE_PATTERNS | SKILL_DEGRADATION

datatype issue_severity = CRITICAL | HIGH | MEDIUM | LOW

fun severity_order :: "issue_severity \<Rightarrow> nat" where
  "severity_order CRITICAL = 0"
| "severity_order HIGH = 1"
| "severity_order MEDIUM = 2"
| "severity_order LOW = 3"

record detector_settings =
  detect_escalation_rate :: real
  detect_low_confidence :: real
  detect_parse_failure_rate :: real
  detect_cost_spike_multiplier :: real
  detect_error_rate :: real
  detect_latency_spike_multiplier :: real
  detect_min_samples :: int

record detected_issue =
  is_type :: issue_type
  is_severity :: issue_severity
  is_task :: string
  is_model :: string
  is_current_value :: real
  is_threshold_value :: real
  is_baseline_value :: real
  is_sample_count :: nat

definition task_issue ::
    "issue_type \<Rightarrow> issue_severity \<Rightarrow> task_summary \<Rightarrow> real \<Rightarrow> real \<Rightarrow> real \<Rightarrow> detected_issue" where
  "task_issue ty sev m value thr base =
     \<lparr>is_type = ty, is_severity = sev, is_task = ts_task m, is_model = [], is_current_value = value,
      is_threshold_value = thr, is_baseline_value = base, is_sample_count = ts_sample_count m\<rparr>"

definition base_value :: "(task_summary \<Rightarrow> real) \<Rightarrow> task_summary option \<Rightarrow> real" where
  "base_value f bl = (case bl of None \<Rightarrow> 0 | Some b \<Rightarrow> f b)"

text \<open>The two rules relative to a baseline: the ratio, when the baseline is positive.\<close>

definition spike :: "(task_summary \<Rightarrow> real) \<Rightarrow> task_summary \<Rightarrow> task_summary option \<Rightarrow> real option" where
  "spike f m bl =
     (case bl of None \<Rightarrow> None | Some b \<Rightarrow> if 0 < f b then Some (f m / f b) else None)"

definition spike_issue ::
    "issue_type \<Rightarrow> task_summary \<Rightarrow> real \<Rightarrow> real option \<Rightarrow> detected_issue list" where
  "spike_issue ty m multiplier ratio =
     (case ratio of
        None \<Rightarrow> []
      | Some r \<Rightarrow> if multiplier < r then [task_issue ty MEDIUM m r multiplier 1] else [])"

definition detect_task_issues :: "detector_settings \<Rightarrow> baseline \<Rightarrow> task_summary \<Rightarrow> detected_issue list" where
  "detect_task_issues st bl m =
     (let b = get_baseline (ts_task m) bl
      in (if detect_escalation_rate st < ts_escalation_rate m
          then [task_issue HIGH_ESCALATION HIGH m (ts_escalation_rate m) (detect_escalation_rate st)
                  (base_value ts_escalation_rate b)] else [])
         @ (if ts_avg_confidence m < detect_low_confidence st
            then [task_issue LOW_CONFIDENCE MEDIUM m (ts_avg_confidence m) (detect_low_confidence st)
                    (base_value ts_avg_confidence b)] else [])
         @ (if detect_parse_failure_rate st < ts_parse_failure_rate m
            then [task_issue PARSE_FAILURES HIGH m (ts_parse_failure_rate m) (detect_parse_failure_rate st)
                    (base_value ts_parse_failure_rate b)] else [])
         @ spike_issue COST_SPIKE m (detect_cost_spike_multiplier st) (spike ts_avg_cost_usd m b)
         @ spike_issue LATENCY_SPIKE m (detect_latency_spike_multiplier st) (spike ts_p95_latency_ms m b))"

definition detect_model_issues :: "detector_settings \<Rightarrow> model_summary \<Rightarrow> detected_issue list" where
  "detect_model_issues st m =
     (if detect_error_rate st < ms_error_rate m
      then [\<lparr>is_type = MODEL_ERRORS, is_severity = CRITICAL, is_task = [], is_model = ms_model m,
             is_current_value = ms_error_rate m, is_threshold_value = detect_error_rate st,
             is_baseline_value = 0, is_sample_count = ms_sample_count m\<rparr>] else [])"

definition detect :: "detector_settings \<Rightarrow> baseline \<Rightarrow> aggregated_metrics \<Rightarrow> detected_issue list" where
  "detect st bl metrics =
     (let enough = (\<lambda>n. detect_min_samples st \<le> int n);
          task_issues = concat (map (\<lambda>(t, m). if enough (ts_sample_count m) then detect_task_issues st bl m else [])
                          (am_by_task metrics));
          model_issues = concat (map (\<lambda>(k, m). if enough (ms_sample_count m) then detect_model_issues st m else [])
                          (am_by_model metrics))
      in sort_key (\<lambda>i. severity_order (is_severity i)) (task_issues @ model_issues))"

section \<open>Facts\<close>

lemma rate_bounds: "0 \<le> rate p xs" "rate p xs \<le> 1"
  by (auto simp: rate_def count_if_rate)

lemma group_from:
  "dict_get_default (fold (add_to_group f) es d) k [] = dict_get_default d k [] @ filter (\<lambda>e. f e = k) es"
  by (induction es arbitrary: d) (auto simp: add_to_group_def)

lemma group_get_default: "dict_get_default (group_by f es) k [] = filter (\<lambda>e. f e = k) es"
  by (simp add: group_by_def group_from)

lemma group_None:
  "dict_get (fold (add_to_group f) es d) k = None \<longleftrightarrow> dict_get d k = None \<and> k \<notin> f ` set es"
  by (induction es arbitrary: d) (auto simp: add_to_group_def simp del: map_of_eq_None_iff)

lemma group_get:
  "dict_get (group_by f es) k =
     (if k \<in> f ` set es then Some (filter (\<lambda>e. f e = k) es) else None)"
proof -
  have "dict_get (group_by f es) k = None \<longleftrightarrow> k \<notin> f ` set es"
    using group_None [of f es "[]" k] by (simp add: group_by_def)
  moreover have "dict_get (group_by f es) k = Some v \<Longrightarrow> v = filter (\<lambda>e. f e = k) es" for v
    using group_get_default [of f es k] by (simp add: dict_get_default_def)
  ultimately show ?thesis by (cases "dict_get (group_by f es) k") auto
qed

lemma group_ok: "dict_ok (group_by f es)"
proof -
  have "dict_ok d \<Longrightarrow> dict_ok (fold (add_to_group f) es d)" for d
    by (induction es arbitrary: d) (auto simp: add_to_group_def)
  then show ?thesis by (simp add: group_by_def)
qed

lemma summarise_get: "dict_get (summarise g d) k = map_option (g k) (dict_get d k)"
  by (induction d) (auto simp: summarise_def)

lemma summarise_ok: "dict_ok d \<Longrightarrow> dict_ok (summarise g d)"
  by (simp add: summarise_def dict_ok_def comp_def case_prod_unfold)

lemma summarise_mem:
  "dict_ok d \<Longrightarrow> (k, v) \<in> set (summarise g d) \<longleftrightarrow> (\<exists>es. dict_get d k = Some es \<and> v = g k es)"
  by (auto simp: summarise_def dest: dict_ok_get dict_get_mem)

lemma percentile_share:
  "es \<noteq> [] \<Longrightarrow> 0.95 * real (length es) \<le> real (count_if (\<lambda>x. x \<le> percentile es 0.95) es)"
  using pct_value_share [of es "0.95"] by (simp add: percentile_def)

lemma aggregate_get:
  "dict_get (summarise g (group_by f es)) k =
     (if filter (\<lambda>e. f e = k) es = [] then None else Some (g k (filter (\<lambda>e. f e = k) es)))"
  by (auto simp: summarise_get group_get filter_empty_conv)

lemma latencies_filter [simp]: "latencies es = [] \<longleftrightarrow> es = []" "length (latencies es) = length es"
  by (simp_all add: latencies_def)

lemma task_metrics_bounds:
  assumes "es \<noteq> []" and "s = compute_task_metrics t es"
  shows "0 \<le> ts_escalation_rate s" "ts_escalation_rate s \<le> 1" "0 \<le> ts_error_rate s" "ts_error_rate s \<le> 1"
    "0.95 * real (length es) \<le> real (count_if (\<lambda>x. x \<le> ts_p95_latency_ms s) (latencies es))"
  using assms rate_bounds percentile_share [of "latencies es"] by (simp_all add: compute_task_metrics_def)

text \<open>What the detector reports, by kind and subject.\<close>

definition task_reported :: "issue_type \<Rightarrow> string \<Rightarrow> detected_issue list \<Rightarrow> bool" where
  "task_reported ty t issues \<longleftrightarrow> list_ex (\<lambda>i. is_type i = ty \<and> is_task i = t) issues"

definition model_reported :: "issue_type \<Rightarrow> string \<Rightarrow> detected_issue list \<Rightarrow> bool" where
  "model_reported ty k issues \<longleftrightarrow> list_ex (\<lambda>i. is_type i = ty \<and> is_model i = k) issues"

lemma task_issue_fields [simp]:
  "is_type (task_issue ty sev m v thr b) = ty" "is_task (task_issue ty sev m v thr b) = ts_task m"
  "is_model (task_issue ty sev m v thr b) = []"
  by (simp_all add: task_issue_def)

lemma spike_issue_mem:
  "i \<in> set (spike_issue ty m mult r) \<longleftrightarrow>
     (\<exists>x. r = Some x \<and> mult < x \<and> i = task_issue ty MEDIUM m x mult 1)"
  by (auto simp: spike_issue_def split: option.splits)

lemma task_issues_of_task: "i \<in> set (detect_task_issues st bl m) \<Longrightarrow> is_task i = ts_task m"
  by (auto simp: detect_task_issues_def Let_def spike_issue_mem split: if_splits)

lemma spike_issue_ex:
  "list_ex (\<lambda>i. is_type i = ty) (spike_issue ty' m mult (spike f m bl)) \<longleftrightarrow>
     ty = ty' \<and> (\<exists>b. bl = Some b \<and> 0 < f b \<and> mult * f b < f m)"
  by (auto simp: spike_issue_def spike_def pos_less_divide_eq split: option.splits)

definition has_type :: "issue_type \<Rightarrow> detected_issue list \<Rightarrow> bool" where
  "has_type ty is \<longleftrightarrow> list_ex (\<lambda>i. is_type i = ty) is"

lemma has_type_simps:
  "has_type ty [] = False" "has_type ty (i # is) \<longleftrightarrow> is_type i = ty \<or> has_type ty is"
  "has_type ty (xs @ ys) \<longleftrightarrow> has_type ty xs \<or> has_type ty ys"
  "has_type ty (if c then xs else ys) \<longleftrightarrow> (if c then has_type ty xs else has_type ty ys)"
  "has_type ty (spike_issue ty' m mult (spike f m bl)) \<longleftrightarrow>
     ty = ty' \<and> (\<exists>b. bl = Some b \<and> 0 < f b \<and> mult * f b < f m)"
  by (simp_all add: has_type_def spike_issue_ex)

lemma task_issue_types:
  "has_type HIGH_ESCALATION (detect_task_issues st bl m) \<longleftrightarrow> detect_escalation_rate st < ts_escalation_rate m"
  "has_type LOW_CONFIDENCE (detect_task_issues st bl m) \<longleftrightarrow> ts_avg_confidence m < detect_low_confidence st"
  "has_type PARSE_FAILURES (detect_task_issues st bl m)
     \<longleftrightarrow> detect_parse_failure_rate st < ts_parse_failure_rate m"
  "has_type COST_SPIKE (detect_task_issues st bl m)
     \<longleftrightarrow> (\<exists>b. get_baseline (ts_task m) bl = Some b \<and> 0 < ts_avg_cost_usd b
           \<and> detect_cost_spike_multiplier st * ts_avg_cost_usd b < ts_avg_cost_usd m)"
  "has_type LATENCY_SPIKE (detect_task_issues st bl m)
     \<longleftrightarrow> (\<exists>b. get_baseline (ts_task m) bl = Some b \<and> 0 < ts_p95_latency_ms b
           \<and> detect_latency_spike_multiplier st * ts_p95_latency_ms b < ts_p95_latency_ms m)"
  by (simp_all add: detect_task_issues_def Let_def has_type_simps)

lemma model_issue_mem:
  "i \<in> set (detect_model_issues st m) \<Longrightarrow>
     is_type i = MODEL_ERRORS \<and> is_model i = ms_model m \<and> is_task i = [] \<and> detect_error_rate st < ms_error_rate m"
  by (auto simp: detect_model_issues_def split: if_splits)

lemma task_issue_not_model:
  "i \<in> set (detect_task_issues st bl m) \<Longrightarrow> is_type i \<noteq> MODEL_ERRORS \<and> is_type i \<noteq> STALE_PATTERNS \<and> is_type i \<noteq> SKILL_DEGRADATION"
  by (auto simp: detect_task_issues_def Let_def spike_issue_mem split: if_splits)

text \<open>An issue of a log comes from the summary of its own task or model.\<close>

lemma grouped_mem:
  "(\<exists>x\<in>set (summarise g (group_by f entries)). i \<in> set ((\<lambda>(t, m). if enough (n m) then h m else []) x))
     \<longleftrightarrow> (\<exists>t. filter (\<lambda>e. f e = t) entries \<noteq> [] \<and> enough (n (g t (filter (\<lambda>e. f e = t) entries)))
            \<and> i \<in> set (h (g t (filter (\<lambda>e. f e = t) entries))))" (is "?L \<longleftrightarrow> ?R")
proof -
  have "?L \<longleftrightarrow> (\<exists>t es. dict_get (group_by f entries) t = Some es \<and> enough (n (g t es)) \<and> i \<in> set (h (g t es)))"
    using summarise_mem [OF group_ok, of _ _ g f entries] by (fastforce split: if_splits)
  also have "\<dots> \<longleftrightarrow> ?R" by (auto simp: group_get filter_empty_conv)
  finally show ?thesis .
qed

lemma detect_mem:
  "i \<in> set (detect st bl (aggregate entries w)) \<longleftrightarrow>
     (\<exists>t. filter (\<lambda>e. le_task e = t) entries \<noteq> [] \<and> detect_min_samples st \<le> int (length (filter (\<lambda>e. le_task e = t) entries))
        \<and> i \<in> set (detect_task_issues st bl (compute_task_metrics t (filter (\<lambda>e. le_task e = t) entries))))
   \<or> (\<exists>k. filter (\<lambda>e. le_model_used e = k) entries \<noteq> [] \<and> detect_min_samples st \<le> int (length (filter (\<lambda>e. le_model_used e = k) entries))
        \<and> i \<in> set (detect_model_issues st (compute_model_metrics k (filter (\<lambda>e. le_model_used e = k) entries))))"
proof -
  have n1: "ts_sample_count (compute_task_metrics t es) = length es"
    and n2: "ms_sample_count (compute_model_metrics t es) = length es" for t es
    by (simp_all add: compute_task_metrics_def compute_model_metrics_def)
  show ?thesis
    unfolding detect_def Let_def aggregate_def
    using grouped_mem [of compute_task_metrics le_task entries i "\<lambda>n. detect_min_samples st \<le> int n"
        ts_sample_count "detect_task_issues st bl"]
      grouped_mem [of compute_model_metrics le_model_used entries i "\<lambda>n. detect_min_samples st \<le> int n"
        ms_sample_count "detect_model_issues st"]
    by (simp add: n1 n2)
qed

lemma task_reported_iff:
  assumes "ty \<noteq> MODEL_ERRORS"
  shows "task_reported ty t (detect st bl (aggregate entries w)) \<longleftrightarrow>
     (let mine = filter (\<lambda>e. le_task e = t) entries
      in mine \<noteq> [] \<and> detect_min_samples st \<le> int (length mine)
         \<and> has_type ty (detect_task_issues st bl (compute_task_metrics t mine)))" (is "?L = ?R")
proof
  have t: "ts_task (compute_task_metrics t es) = t" for t es by (simp add: compute_task_metrics_def)
  { assume ?L
    then obtain i where i: "i \<in> set (detect st bl (aggregate entries w))" "is_type i = ty" "is_task i = t"
      by (auto simp: task_reported_def list_ex_iff)
    have "i \<notin> set (detect_model_issues st m)" for m using model_issue_mem [of i st] i assms by auto
    with i(1) obtain t' where t': "filter (\<lambda>e. le_task e = t') entries \<noteq> []"
        "detect_min_samples st \<le> int (length (filter (\<lambda>e. le_task e = t') entries))"
        "i \<in> set (detect_task_issues st bl (compute_task_metrics t' (filter (\<lambda>e. le_task e = t') entries)))"
      unfolding detect_mem by blast
    moreover have "t' = t" using task_issues_of_task [OF t'(3)] i(3) t by simp
    ultimately show ?R using i(2) by (auto simp: Let_def has_type_def list_ex_iff) }
  { assume ?R
    then obtain i where "filter (\<lambda>e. le_task e = t) entries \<noteq> []"
        "detect_min_samples st \<le> int (length (filter (\<lambda>e. le_task e = t) entries))" "is_type i = ty"
        and i: "i \<in> set (detect_task_issues st bl (compute_task_metrics t (filter (\<lambda>e. le_task e = t) entries)))"
      by (auto simp: Let_def has_type_def list_ex_iff)
    moreover have "is_task i = t" using task_issues_of_task [OF i] t by simp
    ultimately show ?L unfolding task_reported_def list_ex_iff Bex_def detect_mem by blast }
qed

lemma model_reported_iff:
  "model_reported MODEL_ERRORS k (detect st bl (aggregate entries w)) \<longleftrightarrow>
     (let mine = filter (\<lambda>e. le_model_used e = k) entries
      in mine \<noteq> [] \<and> detect_min_samples st \<le> int (length mine) \<and> detect_error_rate st < rate has_error mine)"
  (is "?L = ?R")
proof
  have m: "ms_model (compute_model_metrics k es) = k"
    "ms_error_rate (compute_model_metrics k es) = rate has_error es" for k es
    by (simp_all add: compute_model_metrics_def)
  { assume ?L
    then obtain i where i: "i \<in> set (detect st bl (aggregate entries w))" "is_type i = MODEL_ERRORS" "is_model i = k"
      by (auto simp: model_reported_def list_ex_iff)
    have "i \<notin> set (detect_task_issues st bl m)" for m using task_issue_not_model [of i st bl] i by auto
    with i(1) obtain k' where k': "filter (\<lambda>e. le_model_used e = k') entries \<noteq> []"
        "detect_min_samples st \<le> int (length (filter (\<lambda>e. le_model_used e = k') entries))"
        "i \<in> set (detect_model_issues st (compute_model_metrics k' (filter (\<lambda>e. le_model_used e = k') entries)))"
      unfolding detect_mem by blast
    moreover have "k' = k" using model_issue_mem [OF k'(3)] i(3) m by simp
    ultimately show ?R using model_issue_mem [OF k'(3)] by (simp add: Let_def m) }
  { assume ?R
    then have e: "filter (\<lambda>e. le_model_used e = k) entries \<noteq> []"
        "detect_min_samples st \<le> int (length (filter (\<lambda>e. le_model_used e = k) entries))"
        "detect_error_rate st < rate has_error (filter (\<lambda>e. le_model_used e = k) entries)"
      by (auto simp: Let_def)
    let ?i = "hd (detect_model_issues st (compute_model_metrics k (filter (\<lambda>e. le_model_used e = k) entries)))"
    have "?i \<in> set (detect_model_issues st (compute_model_metrics k (filter (\<lambda>e. le_model_used e = k) entries)))"
      "is_type ?i = MODEL_ERRORS" "is_model ?i = k"
      using e(3) by (simp_all add: detect_model_issues_def m)
    with e show ?L unfolding model_reported_def list_ex_iff Bex_def detect_mem by blast }
qed

lemma detect_sorted: "sorted (map (\<lambda>i. severity_order (is_severity i)) (detect st bl m))"
  by (simp add: detect_def Let_def)

section \<open>Properties\<close>

text \<open>
  (aggregation is exact): every task, model and tenant that occurs in the log has exactly
  one summary and no other has one; each is computed from exactly the entries with that key, in
  order. A task's rates lie between 0 and 1, and its P95 latency is at least the latency of 95
  percent of its entries.
\<close>

theorem aggregation_exact:
  assumes "m = aggregate entries w" and "mine = filter (\<lambda>e. le_task e = task) entries"
  shows "dict_ok (am_by_task m) \<and> dict_ok (am_by_model m) \<and> dict_ok (am_by_tenant m)
    \<and> dict_get (am_by_task m) task = (if mine = [] then None else Some (compute_task_metrics task mine))
    \<and> dict_get (am_by_model m) k = (let es = filter (\<lambda>e. le_model_used e = k) entries
         in if es = [] then None else Some (compute_model_metrics k es))
    \<and> dict_get (am_by_tenant m) k = (let es = filter (\<lambda>e. le_tenant_id e = k) entries
         in if es = [] then None else Some (compute_tenant_metrics k es))
    \<and> (\<forall>s. dict_get (am_by_task m) task = Some s \<longrightarrow>
         0 \<le> ts_escalation_rate s \<and> ts_escalation_rate s \<le> 1 \<and> 0 \<le> ts_error_rate s \<and> ts_error_rate s \<le> 1
         \<and> 0.95 * real (length mine) \<le> real (count_if (\<lambda>x. x \<le> ts_p95_latency_ms s) (latencies mine)))"
  using task_metrics_bounds [of mine "compute_task_metrics task mine" task] assms
  by (simp add: aggregate_def group_ok summarise_ok aggregate_get Let_def)

definition sample_log :: "log_entry list" where
  "sample_log = map (\<lambda>n. \<lparr>le_task = ''summary'', le_model_used = ''m1'', le_tenant_id = ''acme'', le_escalated = n < 6,
       le_latency_ms = 100 * n, le_confidence = 0.5, le_success = True, le_error = None,
       le_parse_success = True, le_cost_usd = 0.01\<rparr>) [1..12]"

theorem aggregation_exact_witness:
  "dict_get (am_by_task (aggregate sample_log 60)) ''summary''
     = Some (compute_task_metrics ''summary'' sample_log)
   \<and> dict_get (am_by_task (aggregate sample_log 60)) ''chat'' = None"
proof -
  have a: "filter (\<lambda>e. le_task e = ''summary'') sample_log = sample_log"
    "filter (\<lambda>e. le_task e = ''chat'') sample_log = []" "sample_log \<noteq> []"
    by (simp_all add: sample_log_def upto_rec1)
  then show ?thesis
    using aggregation_exact [OF refl refl, of sample_log 60 "''summary''"]
      aggregation_exact [OF refl refl, of sample_log 60 "''chat''"] by simp
qed

text \<open>
  C34 (detection is exact): on the metrics of a log, a task is reported for high escalation, low
  confidence or parse failures exactly when it has the minimum number of entries and its own
  rate crosses the configured threshold, and for a cost or latency spike exactly when its
  figure exceeds the configured multiple of a positive baseline of that task; a model is
  reported exactly when it has enough entries and its error rate crosses the threshold. The
  issues come sorted by severity. Without a baseline there is no spike.
\<close>

theorem detection_exact:
  "let mine = filter (\<lambda>e. le_task e = t) entries; its = filter (\<lambda>e. le_model_used e = k) entries;
       issues = detect st bl (aggregate entries w);
       enough = (\<lambda>es :: log_entry list. es \<noteq> [] \<and> detect_min_samples st \<le> int (length es))
   in (task_reported HIGH_ESCALATION t issues \<longleftrightarrow>
         enough mine \<and> detect_escalation_rate st < rate le_escalated mine)
    \<and> (task_reported LOW_CONFIDENCE t issues \<longleftrightarrow>
         enough mine \<and> mean (confidences mine) < detect_low_confidence st)
    \<and> (task_reported PARSE_FAILURES t issues \<longleftrightarrow>
         enough mine \<and> detect_parse_failure_rate st < rate (\<lambda>e. \<not> le_parse_success e) mine)
    \<and> (task_reported COST_SPIKE t issues \<longleftrightarrow>
         enough mine \<and> (\<exists>b. dict_get bl t = Some b \<and> 0 < ts_avg_cost_usd b
           \<and> detect_cost_spike_multiplier st * ts_avg_cost_usd b < mean (map le_cost_usd mine)))
    \<and> (task_reported LATENCY_SPIKE t issues \<longleftrightarrow>
         enough mine \<and> (\<exists>b. dict_get bl t = Some b \<and> 0 < ts_p95_latency_ms b
           \<and> detect_latency_spike_multiplier st * ts_p95_latency_ms b < percentile (latencies mine) 0.95))
    \<and> (model_reported MODEL_ERRORS k issues \<longleftrightarrow> enough its \<and> detect_error_rate st < rate has_error its)
    \<and> sorted (map (\<lambda>i. severity_order (is_severity i)) issues)"
  using detect_sorted
  by (simp add: task_reported_iff model_reported_iff task_issue_types get_baseline_def Let_def
      compute_task_metrics_def)

end
