(* ===== verification/Obs_Diagnosis.thy ===== *)
theory Obs_Diagnosis
  imports Obs_Metrics Py_Json
begin

text \<open>
  The diagnosis engine (\<^verbatim>\<open>observer/src/diagnosis/engine.py\<close>): each issue is sent to the gateway,
  the answer is parsed into a diagnosis, and the money spent in a cycle is kept within a budget.
  The gateway is the argument \<open>post\<close>, which maps a request body and the state of the world to a
  reply; \<open>render\<close> is the text of the user prompt (formatted numbers) and \<open>uuid\<close> the source of
  identifiers. The reply's content is Latin-1 text. A Python exception that leaves an operation
  is a value of \<open>py_error\<close>.
\<close>

record issue = detected_issue +
  is_id :: string

record diagnosis =
  dg_id :: string
  dg_issue_id :: string
  dg_root_cause :: "nat list"
  dg_fix_type :: "nat list"
  dg_fix_description :: "nat list"
  dg_confidence :: pyfloat
  dg_requires_prompt_rewrite :: bool
  dg_cost_usd :: pyfloat
  dg_raw_response :: string

text \<open>
  The replies the engine distinguishes. In a JSON object the content is absent, not a string, or
  a text, and the cost is absent or a value.
\<close>

datatype llm_reply =
    TransportError
  | BadStatus int
  | NotJson
  | NotObject
  | Body "string option option" "json option"

datatype py_error = AttributeError | TypeError | OverflowError | ValueError | HttpxError

record diagnosis_engine =
  de_budget :: real
  de_started :: bool
  de_cycle_spend :: pyfloat

definition init_diagnosis_engine :: "real \<Rightarrow> diagnosis_engine" where
  "init_diagnosis_engine budget = \<lparr>de_budget = budget, de_started = False, de_cycle_spend = Fin 0\<rparr>"

definition de_start :: "diagnosis_engine \<Rightarrow> diagnosis_engine" where
  "de_start de = de\<lparr>de_started := True\<rparr>"

definition de_close :: "diagnosis_engine \<Rightarrow> diagnosis_engine" where
  "de_close de = de\<lparr>de_started := False\<rparr>"

definition reset_cycle_budget :: "diagnosis_engine \<Rightarrow> diagnosis_engine" where
  "reset_cycle_budget de = de\<lparr>de_cycle_spend := Fin 0\<rparr>"

text \<open>\<^verbatim>\<open>max(0.0, x)\<close>: the first argument unless the second is greater.\<close>

definition max_zero :: "pyfloat \<Rightarrow> pyfloat" where
  "max_zero x = (if pf_greater x 0 then x else Fin 0)"

definition remaining_budget :: "diagnosis_engine \<Rightarrow> pyfloat" where
  "remaining_budget de = max_zero (pf_add (Fin (de_budget de)) (pf_neg (de_cycle_spend de)))"

definition estimate_cost :: real where
  "estimate_cost = (real (200 + 5 * 500 + 1000) / 1000 * 0.015 + 500 / 1000 * 0.075) * 1.2"

section \<open>The request\<close>

definition diagnosis_system_prompt :: string where
  "diagnosis_system_prompt = str_join [CHR 0x0A]
    [''You are an expert AI system diagnostician analyzing performance issues in an LLM routing system.'',
     [],
     ''Given an issue with its metrics and sample data, diagnose the root cause and propose a fix.'',
     [],
     ''Your response MUST be valid JSON with exactly these fields:'',
     ''{'',
     ''  \"root_cause\": \"Clear description of why this issue is occurring\",'',
     ''  \"fix_type\": \"routing|prompt|threshold|model|pattern\",'',
     ''  \"fix_description\": \"Specific actionable fix to apply\",'',
     ''  \"confidence\": 0.0 to 1.0,'',
     ''  \"requires_prompt_rewrite\": true or false'',
     ''}'',
     [],
     ''Fix types:'',
     ''- routing: Move task to a different model tier (fast/mid/strong)'',
     ''- prompt: Rewrite or adjust the prompt template for the task'',
     ''- threshold: Adjust the confidence threshold that triggers escalation'',
     ''- model: Add, swap, or reconfigure a model in a tier'',
     ''- pattern: Record or remove a pattern in the memory service'',
     [],
     ''Be specific and actionable. Base your confidence on how certain you are about the root cause.'',
     []]"

definition diagnosis_payload :: "string \<Rightarrow> json" where
  "diagnosis_payload user_prompt =
     jobj [(''messages'', JArr [jobj [(''role'', jstr ''system''), (''content'', jstr diagnosis_system_prompt)],
                              jobj [(''role'', jstr ''user''), (''content'', jstr user_prompt)]]),
           (''task'', jstr ''complex_reasoning''), (''agent'', jstr ''observer''), (''max_tokens'', JInt 1000)]"

section \<open>Parsing the answer\<close>

fun block_lines :: "bool \<Rightarrow> string list \<Rightarrow> string list" where
  "block_lines in_block [] = []"
| "block_lines False (l # ls) = block_lines (str_startswith l ''```'') ls"
| "block_lines True (l # ls) = (if str_startswith l ''```'' then [] else l # block_lines True ls)"

definition unfenced :: "string \<Rightarrow> string" where
  "unfenced response_content =
     (let content = str_strip response_content
      in if str_startswith content ''```''
         then str_join [CHR 0x0A] (block_lines False (split_char (CHR 0x0A) content)) else content)"

definition get_text :: "(json \<Rightarrow> nat list) \<Rightarrow> (nat list, json) dict \<Rightarrow> string \<Rightarrow> nat list" where
  "get_text repr d k = str_of_json repr (dict_get_default d (ustr k) (JStr []))"

text \<open>
  The handler of the source catches ValueError (with its subclass JSONDecodeError) and TypeError
  and returns None; an OverflowError of \<open>float\<close> and the AttributeError of an answer that is not an
  object leave the function.
\<close>

definition parse_diagnosis_response ::
    "(json \<Rightarrow> nat list) \<Rightarrow> ('w \<Rightarrow> string \<times> 'w) \<Rightarrow> issue \<Rightarrow> string \<Rightarrow> pyfloat \<Rightarrow> 'w \<Rightarrow>
     (py_error + diagnosis option) \<times> 'w" where
  "parse_diagnosis_response repr uuid iss response_content cost w =
     (case json_loads (unfenced response_content) of
        Inl _ \<Rightarrow> (Inr None, w)
      | Inr (JObj d) \<Rightarrow>
          (case float_of_json (dict_get_default d (ustr ''confidence'') (JFloat (Fin 0))) of
             Inl FloatOverflowError \<Rightarrow> (Inl OverflowError, w)
           | Inl _ \<Rightarrow> (Inr None, w)
           | Inr c \<Rightarrow>
               (let (new_id, w) = uuid w
                in (Inr (Some \<lparr>dg_id = new_id, dg_issue_id = is_id iss,
                      dg_root_cause = get_text repr d ''root_cause'', dg_fix_type = get_text repr d ''fix_type'',
                      dg_fix_description = get_text repr d ''fix_description'', dg_confidence = c,
                      dg_requires_prompt_rewrite =
                        json_truthy (dict_get_default d (ustr ''requires_prompt_rewrite'') (JBool False)),
                      dg_cost_usd = cost, dg_raw_response = response_content\<rparr>), w)))
      | Inr _ \<Rightarrow> (Inl AttributeError, w))"

section \<open>One diagnosis and the batch\<close>

text \<open>The cost added to the cycle: only a number can be added.\<close>

fun numeric_cost :: "json option \<Rightarrow> py_error + pyfloat" where
  "numeric_cost None = Inr (Fin estimate_cost)"
| "numeric_cost (Some (JInt i)) = (case float_of_int i of Inr f \<Rightarrow> Inr f | Inl _ \<Rightarrow> Inl OverflowError)"
| "numeric_cost (Some (JBool b)) = Inr (Fin (if b then 1 else 0))"
| "numeric_cost (Some (JFloat f)) = Inr f"
| "numeric_cost (Some _) = Inl TypeError"

definition call_llm :: "(json \<Rightarrow> 'w \<Rightarrow> llm_reply \<times> 'w) \<Rightarrow> string \<Rightarrow> diagnosis_engine \<Rightarrow> 'w \<Rightarrow> llm_reply option \<times> 'w" where
  "call_llm post user_prompt de w =
     (if \<not> de_started de then (None, w)
      else let (reply, w) = post (diagnosis_payload user_prompt) w in (Some reply, w))"

definition diagnose ::
    "(json \<Rightarrow> nat list) \<Rightarrow> (issue \<Rightarrow> string) \<Rightarrow> (json \<Rightarrow> 'w \<Rightarrow> llm_reply \<times> 'w) \<Rightarrow> ('w \<Rightarrow> string \<times> 'w) \<Rightarrow>
     issue \<Rightarrow> diagnosis_engine \<Rightarrow> 'w \<Rightarrow> (py_error + diagnosis option) \<times> diagnosis_engine \<times> 'w" where
  "diagnose repr render post uuid iss de w =
     (if pf_less (remaining_budget de) estimate_cost then (Inr None, de, w)
      else case call_llm post (render iss) de w of
             (Some NotObject, w) \<Rightarrow> (Inl AttributeError, de, w)
           | (Some (Body content cost), w) \<Rightarrow>
               (case numeric_cost cost of
                  Inl e \<Rightarrow> (Inl e, de, w)
                | Inr actual_cost \<Rightarrow>
                    (let de = de\<lparr>de_cycle_spend := pf_add (de_cycle_spend de) actual_cost\<rparr>
                     in case content of
                          Some None \<Rightarrow> (Inl AttributeError, de, w)
                        | _ \<Rightarrow>
                            (let (r, w) = parse_diagnosis_response repr uuid iss
                                   (case content of Some (Some text) \<Rightarrow> text | _ \<Rightarrow> []) actual_cost w
                             in (r, de, w))))
           | (_, w) \<Rightarrow> (Inr None, de, w))"

definition exhausted :: "diagnosis_engine \<Rightarrow> bool" where
  "exhausted de \<longleftrightarrow> \<not> pf_greater (remaining_budget de) 0"

fun batch_loop ::
    "(json \<Rightarrow> nat list) \<Rightarrow> (issue \<Rightarrow> string) \<Rightarrow> (json \<Rightarrow> 'w \<Rightarrow> llm_reply \<times> 'w) \<Rightarrow> ('w \<Rightarrow> string \<times> 'w) \<Rightarrow>
     issue list \<Rightarrow> diagnosis_engine \<Rightarrow> 'w \<Rightarrow> (py_error + diagnosis list) \<times> diagnosis_engine \<times> 'w" where
  "batch_loop repr render post uuid [] de w = (Inr [], de, w)"
| "batch_loop repr render post uuid (iss # issues) de w =
     (if exhausted de then batch_loop repr render post uuid issues de w
      else case diagnose repr render post uuid iss de w of
             (Inl e, de, w) \<Rightarrow> (Inl e, de, w)
           | (Inr d, de, w) \<Rightarrow>
               (case batch_loop repr render post uuid issues de w of
                  (Inl e, de, w) \<Rightarrow> (Inl e, de, w)
                | (Inr ds, de, w) \<Rightarrow> (Inr (case d of None \<Rightarrow> ds | Some x \<Rightarrow> x # ds), de, w)))"

definition diagnose_batch ::
    "(json \<Rightarrow> nat list) \<Rightarrow> (issue \<Rightarrow> string) \<Rightarrow> (json \<Rightarrow> 'w \<Rightarrow> llm_reply \<times> 'w) \<Rightarrow> ('w \<Rightarrow> string \<times> 'w) \<Rightarrow>
     issue list \<Rightarrow> diagnosis_engine \<Rightarrow> 'w \<Rightarrow> (py_error + diagnosis list) \<times> diagnosis_engine \<times> 'w" where
  "diagnose_batch repr render post uuid issues de w =
     batch_loop repr render post uuid issues (reset_cycle_budget de) w"

section \<open>Facts\<close>

lemma estimate_cost_value: "estimate_cost = 0.1116"
  by (simp add: estimate_cost_def)

lemma remaining_finite:
  "de_cycle_spend de = Fin s \<Longrightarrow> remaining_budget de = Fin (max 0 (de_budget de - s))"
  by (simp add: remaining_budget_def max_zero_def)

text \<open>Every cost the gateway reports is a number between 0 and \<open>c\<close>.\<close>

definition costs_bounded :: "(json \<Rightarrow> 'w \<Rightarrow> llm_reply \<times> 'w) \<Rightarrow> real \<Rightarrow> bool" where
  "costs_bounded post c \<longleftrightarrow>
     (\<forall>body w content cost w'. post body w = (Body content cost, w') \<longrightarrow>
        (\<exists>x. numeric_cost cost = Inr (Fin x) \<and> 0 \<le> x \<and> x \<le> c))"

definition spend_ok :: "real \<Rightarrow> diagnosis_engine \<Rightarrow> bool" where
  "spend_ok c de \<longleftrightarrow>
     (\<exists>s. de_cycle_spend de = Fin s \<and> 0 \<le> s \<and> s \<le> max 0 (de_budget de - estimate_cost + c))"

lemma call_llm_reply:
  "call_llm post prompt de w = (Some reply, w') \<longleftrightarrow>
     de_started de \<and> post (diagnosis_payload prompt) w = (reply, w')"
  by (auto simp: call_llm_def split: prod.splits)

lemma diagnose_frame:
  "diagnose repr render post uuid iss de w = (r, de', w') \<Longrightarrow>
     de_budget de' = de_budget de \<and> de_started de' = de_started de"
  by (auto simp: diagnose_def Let_def split: if_splits prod.splits option.splits llm_reply.splits sum.splits)

lemma diagnose_spend:
  assumes "diagnose repr render post uuid iss de w = (r, de', w')"
  shows "de' = de \<or> (\<exists>content cost x w1 w2. post (diagnosis_payload (render iss)) w1 = (Body content cost, w2)
     \<and> numeric_cost cost = Inr x \<and> \<not> pf_less (remaining_budget de) estimate_cost
     \<and> de' = de\<lparr>de_cycle_spend := pf_add (de_cycle_spend de) x\<rparr>)"
proof (cases "pf_less (remaining_budget de) estimate_cost")
  case True
  then show ?thesis using assms by (simp add: diagnose_def)
next
  case False
  show ?thesis
  proof (cases "call_llm post (render iss) de w")
    case (Pair a w1)
    show ?thesis
    proof (cases "\<exists>content cost. a = Some (Body content cost)")
      case True
      then obtain content cost where a: "a = Some (Body content cost)" by blast
      then have "post (diagnosis_payload (render iss)) w = (Body content cost, w1)"
        using Pair by (simp add: call_llm_reply)
      then show ?thesis
        using assms False Pair a
        by (fastforce simp: diagnose_def Let_def split: sum.splits option.splits prod.splits)
    next
      case no: False
      have "de' = de" using assms False Pair no
        by (auto simp: diagnose_def split: option.splits llm_reply.splits)
      then show ?thesis by simp
    qed
  qed
qed

lemma diagnose_spend_ok:
  assumes "diagnose repr render post uuid iss de w = (r, de', w')"
    and "costs_bounded post c" and "spend_ok c de"
  shows "spend_ok c de'"
proof -
  obtain s where s: "de_cycle_spend de = Fin s" "0 \<le> s" "s \<le> max 0 (de_budget de - estimate_cost + c)"
    using assms(3) by (auto simp: spend_ok_def)
  from diagnose_spend [OF assms(1)] show ?thesis
  proof
    assume "de' = de" then show ?thesis using assms(3) by simp
  next
    assume "\<exists>content cost x w1 w2. post (diagnosis_payload (render iss)) w1 = (Body content cost, w2)
     \<and> numeric_cost cost = Inr x \<and> \<not> pf_less (remaining_budget de) estimate_cost
     \<and> de' = de\<lparr>de_cycle_spend := pf_add (de_cycle_spend de) x\<rparr>"
    then obtain content cost x w1 w2 where p: "post (diagnosis_payload (render iss)) w1 = (Body content cost, w2)"
      "numeric_cost cost = Inr x" "\<not> pf_less (remaining_budget de) estimate_cost"
      "de' = de\<lparr>de_cycle_spend := pf_add (de_cycle_spend de) x\<rparr>" by blast
    then obtain y where y: "x = Fin y" "0 \<le> y" "y \<le> c"
      using assms(2) unfolding costs_bounded_def by fastforce
    have "estimate_cost \<le> de_budget de - s"
      using p(3) s by (auto simp: remaining_finite estimate_cost_value max_def split: if_splits)
    then show ?thesis using p(4) y s(1,2) by (auto simp: spend_ok_def)
  qed
qed

lemma batch_loop_spend_ok:
  "batch_loop repr render post uuid issues de w = (r, de', w') \<Longrightarrow> costs_bounded post c \<Longrightarrow>
     spend_ok c de \<Longrightarrow> spend_ok c de' \<and> de_budget de' = de_budget de"
proof (induction issues arbitrary: de w r de' w')
  case (Cons iss issues)
  show ?case
  proof (cases "exhausted de")
    case True
    then have "batch_loop repr render post uuid issues de w = (r, de', w')" using Cons.prems(1) by simp
    then show ?thesis using Cons.IH Cons.prems(2,3) by blast
  next
    case False
    obtain d de1 w1 where d: "diagnose repr render post uuid iss de w = (d, de1, w1)"
      by (metis prod_cases3)
    obtain r2 de2 w2 where b: "batch_loop repr render post uuid issues de1 w1 = (r2, de2, w2)"
      by (metis prod_cases3)
    have "spend_ok c de1" "de_budget de1 = de_budget de"
      using diagnose_spend_ok [OF d] diagnose_frame [OF d] Cons.prems by auto
    moreover have "spend_ok c de2" "de_budget de2 = de_budget de1"
      using Cons.IH [OF b] Cons.prems(2) \<open>spend_ok c de1\<close> by auto
    ultimately show ?thesis
      using Cons.prems(1) False d b by (auto split: sum.splits)
  qed
qed simp

text \<open>The diagnoses of a batch are those of some of its issues, in order.\<close>

lemma parse_issue:
  assumes "parse_diagnosis_response repr uuid iss text cost w = (Inr (Some d), w')"
  shows "dg_issue_id d = is_id iss"
proof (cases "json_loads (unfenced text)")
  case (Inl e)
  then show ?thesis using assms by (simp add: parse_diagnosis_response_def)
next
  case (Inr v)
  show ?thesis
  proof (cases v)
    case (JObj dct)
    note eq = assms [unfolded parse_diagnosis_response_def Inr JObj sum.case json.case]
    show ?thesis
    proof (cases "float_of_json (dict_get_default dct (ustr ''confidence'') (JFloat (Fin 0)))")
      case i: (Inl e)
      then show ?thesis using eq by (cases e) simp_all
    next
      case c: (Inr c)
      then show ?thesis using eq by (cases "uuid w") (simp, metis diagnosis.select_convs(2))
    qed
  qed (use assms Inr in \<open>simp_all add: parse_diagnosis_response_def\<close>)
qed

lemma diagnose_issue:
  assumes "diagnose repr render post uuid iss de w = (Inr (Some d), de', w')"
  shows "dg_issue_id d = is_id iss"
proof -
  have low: "\<not> pf_less (remaining_budget de) estimate_cost" using assms by (auto simp: diagnose_def)
  obtain a w1 where a: "call_llm post (render iss) de w = (a, w1)" by fastforce
  obtain content cost where b: "a = Some (Body content cost)"
    using assms low a by (auto simp: diagnose_def split: option.splits llm_reply.splits)
  obtain x where c: "numeric_cost cost = Inr x"
    using assms low a b by (auto simp: diagnose_def split: sum.splits)
  show ?thesis
    using assms low a b c by (auto simp: diagnose_def Let_def split: option.splits prod.splits dest!: parse_issue)
qed

lemma batch_loop_subseq:
  "batch_loop repr render post uuid issues de w = (Inr ds, de', w') \<Longrightarrow>
     subseq (map dg_issue_id ds) (map is_id issues)"
proof (induction issues arbitrary: de w ds de' w')
  case (Cons iss issues)
  show ?case
  proof (cases "exhausted de")
    case True
    then have "batch_loop repr render post uuid issues de w = (Inr ds, de', w')" using Cons.prems by simp
    then show ?thesis using Cons.IH by (simp add: list_emb_Cons)
  next
    case False
    obtain d de1 w1 where d: "diagnose repr render post uuid iss de w = (d, de1, w1)"
      by (metis prod_cases3)
    obtain r2 de2 w2 where b: "batch_loop repr render post uuid issues de1 w1 = (r2, de2, w2)"
      by (metis prod_cases3)
    from Cons.prems False d b obtain x ds2 where x: "d = Inr x" "r2 = Inr ds2"
      "ds = (case x of None \<Rightarrow> ds2 | Some y \<Rightarrow> y # ds2)" by (auto split: sum.splits)
    have "subseq (map dg_issue_id ds2) (map is_id issues)" using Cons.IH b x by simp
    then show ?thesis using x diagnose_issue [of repr render post uuid iss de w _ de1 w1] d
      by (auto split: option.splits)
  qed
qed simp

section \<open>Properties\<close>

text \<open>
  (diagnosis budget): when the gateway reports costs between 0 and \<open>c\<close>, a batch of diagnoses
  spends at most the cycle's budget minus the estimate plus one call's actual cost, whatever the
  issues and however the batch ends; and the diagnoses it returns belong to a subsequence of the
  issues, in their order.
\<close>

theorem diagnosis_batch_within_budget:
  assumes "diagnose_batch repr render post uuid issues de w = (r, de', w')"
    and "costs_bounded post c"
  shows "(\<exists>s. de_cycle_spend de' = Fin s \<and> 0 \<le> s \<and> s \<le> max 0 (de_budget de - 0.1116 + c))
    \<and> (\<forall>ds. r = Inr ds \<longrightarrow> subseq (map dg_issue_id ds) (map is_id issues))"
proof -
  have "spend_ok c (reset_cycle_budget de)" by (simp add: spend_ok_def reset_cycle_budget_def)
  with assms have "spend_ok c de' \<and> de_budget de' = de_budget de"
    unfolding diagnose_batch_def by (auto dest: batch_loop_spend_ok simp: reset_cycle_budget_def)
  then show ?thesis
    using assms(1) batch_loop_subseq
    by (auto simp: spend_ok_def estimate_cost_value diagnose_batch_def)
qed

definition sample_post :: "json \<Rightarrow> nat \<Rightarrow> llm_reply \<times> nat" where
  "sample_post body w = (Body (Some (Some [])) (Some (JFloat (Fin 0.5))), w + 1)"

definition sample_issue :: "string \<Rightarrow> issue" where
  "sample_issue i =
     \<lparr>is_type = HIGH_ESCALATION, is_severity = HIGH, is_task = ''summary'', is_model = [], is_current_value = 0.6,
      is_threshold_value = 0.4, is_baseline_value = 0, is_sample_count = 12, is_id = i\<rparr>"

theorem diagnosis_batch_within_budget_witness:
  "\<exists>s. de_cycle_spend (fst (snd (diagnose_batch (\<lambda>v. []) (\<lambda>i. []) sample_post (\<lambda>w. ([], w))
      [sample_issue ''i1'', sample_issue ''i2''] (de_start (init_diagnosis_engine 5)) (0 :: nat)))) = Fin s
   \<and> s \<le> 5.3884"
proof -
  have b: "costs_bounded sample_post 0.5"
    unfolding costs_bounded_def sample_post_def by (auto intro!: exI [of _ "1 / 2"])
  obtain r de' w' where e: "diagnose_batch (\<lambda>v. []) (\<lambda>i. []) sample_post (\<lambda>w. ([], w))
      [sample_issue ''i1'', sample_issue ''i2''] (de_start (init_diagnosis_engine 5)) (0 :: nat) = (r, de', w')"
    by (metis prod_cases3)
  have "de_budget (de_start (init_diagnosis_engine 5)) = 5" by (simp add: de_start_def init_diagnosis_engine_def)
  then obtain s where "de_cycle_spend de' = Fin s" "s \<le> 5.3884"
    using diagnosis_batch_within_budget [OF e b] by auto
  then show ?thesis by (simp add: e)
qed

end
