(* ===== verification/Obs_Changes.thy ===== *)
theory Obs_Changes
  imports Obs_Diagnosis
begin

text \<open>
  Changes and their proposal (\<^verbatim>\<open>observer/src/changes/proposal.py\<close>), and the comparison of metrics
  that validates an applied change (\<^verbatim>\<open>observer/src/changes/validator.py\<close>, its pure part).
  Instants are real numbers; an identifier and the time of creation are arguments.
\<close>

datatype change_type = ROUTING | PROMPT | THRESHOLD | MODEL | PATTERN

datatype change_status = PROPOSED | APPROVED | REJECTED | APPLIED | CANARY_RUNNING | CANARY_PASSED
  | CANARY_FAILED | VALIDATED | ROLLED_BACK | QUEUED

datatype apply_tier = AUTO | CANARY | HUMAN

record snapshot =
  sn_taken_at :: real
  sn_change_id :: string
  sn_metrics :: "json option"
  sn_routing :: "json option"

text \<open>An empty snapshot dictionary is \<open>None\<close>.\<close>

record change =
  ch_id :: string
  ch_type :: change_type
  ch_tier :: apply_tier
  ch_status :: change_status
  ch_task :: string
  ch_model :: string
  ch_description :: "nat list"
  ch_config_diff :: "(string \<times> json) list"
  ch_confidence :: pyfloat
  ch_sample_count :: nat
  ch_diagnosis_id :: string
  ch_issue_id :: string
  ch_snapshot :: "snapshot option"
  ch_proposed_at :: real
  ch_applied_at :: "real option"
  ch_validated_at :: "real option"
  ch_rolled_back_at :: "real option"
  ch_metrics_before :: json
  ch_metrics_after :: json

definition fix_type_to_change :: "(string, change_type) dict" where
  "fix_type_to_change =
     [(''routing'', ROUTING), (''prompt'', PROMPT), (''threshold'', THRESHOLD), (''model'', MODEL),
      (''pattern'', PATTERN)]"

definition default_tiers :: "(change_type, apply_tier) dict" where
  "default_tiers = [(ROUTING, AUTO), (THRESHOLD, AUTO), (PATTERN, AUTO), (PROMPT, CANARY), (MODEL, CANARY)]"

record proposer_settings =
  auto_apply_min_confidence :: real
  auto_apply_min_samples :: int
  max_auto_applies_per_day :: int
  max_concurrent_canaries :: int

record proposer =
  pr_failed_types :: "change_type list"
  pr_daily_auto_count :: int
  pr_daily_reset_date :: string
  pr_active_canaries :: int

definition init_proposer :: proposer where
  "init_proposer =
     \<lparr>pr_failed_types = [], pr_daily_auto_count = 0, pr_daily_reset_date = [], pr_active_canaries = 0\<rparr>"

definition classify_tier ::
    "proposer_settings \<Rightarrow> proposer \<Rightarrow> change_type \<Rightarrow> pyfloat \<Rightarrow> nat \<Rightarrow> apply_tier" where
  "classify_tier st pr ty confidence sample_count =
     (if ty \<in> set (pr_failed_types pr) then HUMAN
      else case dict_get_default default_tiers ty HUMAN of
             AUTO \<Rightarrow>
               if pf_less confidence (auto_apply_min_confidence st) then CANARY
               else if int sample_count < auto_apply_min_samples st then CANARY
               else if max_auto_applies_per_day st \<le> pr_daily_auto_count pr then CANARY
               else AUTO
           | CANARY \<Rightarrow>
               if pf_less confidence 0.70 then HUMAN
               else if max_concurrent_canaries st \<le> pr_active_canaries pr then HUMAN
               else CANARY
           | HUMAN \<Rightarrow> HUMAN)"

fun build_config_diff :: "change_type \<Rightarrow> diagnosis \<Rightarrow> issue \<Rightarrow> (string \<times> json) list" where
  "build_config_diff ROUTING dg iss =
     [(''task_routing'', jobj [(is_task iss, jstr (if 0.5 < is_current_value iss then ''strong'' else ''mid''))]),
      (''reason'', JStr (dg_root_cause dg))]"
| "build_config_diff THRESHOLD dg iss =
     (let current_threshold = is_threshold_value iss;
          adjustment = (if pf_greater (dg_confidence dg) 0.85 then 0.05 else 0.03)
      in [(''task'', jstr (is_task iss)),
          (''threshold'', JFloat (Fin (min 0.95 (current_threshold + adjustment)))),
          (''previous_threshold'', JFloat (Fin current_threshold))])"
| "build_config_diff PROMPT dg iss =
     [(''task'', jstr (is_task iss)), (''action'', jstr ''rewrite''), (''reason'', JStr (dg_root_cause dg)),
      (''fix_description'', JStr (dg_fix_description dg))]"
| "build_config_diff MODEL dg iss =
     [(''task'', jstr (is_task iss)), (''model'', jstr (is_model iss)),
      (''action'', jstr (if is_model iss \<noteq> [] then ''swap'' else ''add'')), (''reason'', JStr (dg_root_cause dg))]"
| "build_config_diff PATTERN dg iss =
     [(''task'', jstr (is_task iss)), (''action'', jstr ''record''),
      (''pattern_description'', JStr (dg_fix_description dg))]"

definition change_type_of :: "nat list \<Rightarrow> change_type option" where
  "change_type_of fix_type = map_of (map (\<lambda>(k, v). (ustr k, v)) fix_type_to_change) fix_type"

definition propose ::
    "proposer_settings \<Rightarrow> proposer \<Rightarrow> diagnosis \<Rightarrow> issue \<Rightarrow> string \<Rightarrow> real \<Rightarrow> change option" where
  "propose st pr dg iss new_id now =
     (if pf_less (dg_confidence dg) 0.6 then None
      else case change_type_of (dg_fix_type dg) of
             None \<Rightarrow> None
           | Some ty \<Rightarrow>
               Some \<lparr>ch_id = new_id, ch_type = ty,
                 ch_tier = classify_tier st pr ty (dg_confidence dg) (is_sample_count iss),
                 ch_status = PROPOSED, ch_task = is_task iss, ch_model = is_model iss,
                 ch_description = dg_fix_description dg, ch_config_diff = build_config_diff ty dg iss,
                 ch_confidence = dg_confidence dg, ch_sample_count = is_sample_count iss,
                 ch_diagnosis_id = dg_id dg, ch_issue_id = is_id iss, ch_snapshot = None,
                 ch_proposed_at = now, ch_applied_at = None, ch_validated_at = None,
                 ch_rolled_back_at = None, ch_metrics_before = JObj [], ch_metrics_after = JObj []\<rparr>)"

text \<open>\<^verbatim>\<open>record_failure\<close> is given the value of a change type.\<close>

definition record_failure :: "change_type \<Rightarrow> proposer \<Rightarrow> proposer" where
  "record_failure ty pr = pr\<lparr>pr_failed_types := List.insert ty (pr_failed_types pr)\<rparr>"

definition increment_daily_auto_count :: "string \<Rightarrow> proposer \<Rightarrow> proposer" where
  "increment_daily_auto_count today pr =
     (let pr = (if pr_daily_reset_date pr \<noteq> today
                then pr\<lparr>pr_daily_auto_count := 0, pr_daily_reset_date := today\<rparr> else pr)
      in pr\<lparr>pr_daily_auto_count := pr_daily_auto_count pr + 1\<rparr>)"

definition set_active_canaries :: "int \<Rightarrow> proposer \<Rightarrow> proposer" where
  "set_active_canaries n pr = pr\<lparr>pr_active_canaries := n\<rparr>"

section \<open>Comparing metrics\<close>

datatype validation_result = PASSED | FAILED | INSUFFICIENT_DATA

datatype criterion = EscalationRate | AvgConfidence | FailureRate | P95Latency

record validation_report =
  vr_change_id :: string
  vr_result :: validation_result
  vr_escalation_delta :: pyfloat
  vr_confidence_delta :: pyfloat
  vr_failure_delta :: pyfloat
  vr_latency_ratio :: pyfloat
  vr_breached :: "criterion list"

definition insufficient :: "string \<Rightarrow> validation_report" where
  "insufficient cid =
     \<lparr>vr_change_id = cid, vr_result = INSUFFICIENT_DATA, vr_escalation_delta = Fin 0, vr_confidence_delta = Fin 0,
      vr_failure_delta = Fin 0, vr_latency_ratio = Fin 1, vr_breached = []\<rparr>"

fun py_error_of :: "float_error \<Rightarrow> py_error" where
  "py_error_of FloatValueError = ValueError"
| "py_error_of FloatTypeError = TypeError"
| "py_error_of FloatOverflowError = OverflowError"

text \<open>\<^verbatim>\<open>float(d.get(key, default))\<close> of a value that may not be a dictionary.\<close>

definition metric :: "json \<Rightarrow> string \<Rightarrow> real \<Rightarrow> py_error + pyfloat" where
  "metric m key dflt =
     (case m of
        JObj d \<Rightarrow>
          (case dict_get d (ustr key) of
             None \<Rightarrow> Inr (Fin dflt)
           | Some v \<Rightarrow> map_sum py_error_of id (float_of_json v))
      | _ \<Rightarrow> Inl AttributeError)"

definition pf_sub :: "pyfloat \<Rightarrow> pyfloat \<Rightarrow> pyfloat" where
  "pf_sub x y = pf_add x (pf_neg y)"

text \<open>Division by a positive float.\<close>

fun pf_div_pos :: "pyfloat \<Rightarrow> pyfloat \<Rightarrow> pyfloat" where
  "pf_div_pos (Fin x) (Fin y) = Fin (x / y)"
| "pf_div_pos (Fin x) y = (if y = NaN then NaN else Fin 0)"
| "pf_div_pos x (Fin y) = x"
| "pf_div_pos x y = NaN"

fun sequence_res :: "('e + 'a) list \<Rightarrow> 'e + 'a list" where
  "sequence_res [] = Inr []"
| "sequence_res (Inl e # rs) = Inl e"
| "sequence_res (Inr x # rs) = (case sequence_res rs of Inl e \<Rightarrow> Inl e | Inr xs \<Rightarrow> Inr (x # xs))"

definition judge :: "string \<Rightarrow> pyfloat \<Rightarrow> pyfloat \<Rightarrow> pyfloat \<Rightarrow> pyfloat \<Rightarrow> validation_report" where
  "judge cid escalation_delta confidence_delta failure_delta latency_ratio =
     (let breached = (if pf_greater escalation_delta 0.10 then [EscalationRate] else [])
            @ (if pf_greater confidence_delta 0.10 then [AvgConfidence] else [])
            @ (if pf_greater failure_delta 0.05 then [FailureRate] else [])
            @ (if pf_greater latency_ratio 1.5 then [P95Latency] else [])
      in \<lparr>vr_change_id = cid, vr_result = (if breached \<noteq> [] then FAILED else PASSED),
          vr_escalation_delta = escalation_delta, vr_confidence_delta = confidence_delta,
          vr_failure_delta = failure_delta, vr_latency_ratio = latency_ratio, vr_breached = breached\<rparr>)"

definition compare_metrics :: "string \<Rightarrow> json \<Rightarrow> json \<Rightarrow> py_error + validation_report" where
  "compare_metrics cid before after =
     (case sequence_res
        [metric before ''escalation_rate'' 0, metric after ''escalation_rate'' 0,
         metric before ''avg_confidence'' 1, metric after ''avg_confidence'' 1,
         metric before ''failure_rate'' 0, metric after ''failure_rate'' 0,
         metric before ''p95_latency_ms'' 1, metric after ''p95_latency_ms'' 1] of
        Inr [be, ae, bc, ac, bf, af, bl, al] \<Rightarrow>
          Inr (judge cid (pf_sub ae be) (pf_sub bc ac) (pf_sub af bf)
                 (if pf_greater bl 0 then pf_div_pos al bl else Fin 1))
      | Inl e \<Rightarrow> Inl e
      | Inr _ \<Rightarrow> Inl TypeError)"

section \<open>Facts\<close>

lemma default_tier: "dict_get_default default_tiers ty HUMAN = (if ty = PROMPT \<or> ty = MODEL then CANARY else AUTO)"
  by (cases ty) (simp_all add: default_tiers_def dict_get_default_def)

lemma classify_auto:
  "classify_tier st pr ty c n = AUTO \<longleftrightarrow>
     ty \<notin> set (pr_failed_types pr) \<and> ty \<noteq> PROMPT \<and> ty \<noteq> MODEL \<and> \<not> pf_less c (auto_apply_min_confidence st)
     \<and> auto_apply_min_samples st \<le> int n \<and> pr_daily_auto_count pr < max_auto_applies_per_day st"
  by (auto simp: classify_tier_def default_tier)

lemma classify_human:
  "classify_tier st pr ty c n = HUMAN \<longleftrightarrow>
     ty \<in> set (pr_failed_types pr) \<or>
     (ty = PROMPT \<or> ty = MODEL) \<and> (pf_less c 0.70 \<or> max_concurrent_canaries st \<le> pr_active_canaries pr)"
  by (auto simp: classify_tier_def default_tier)

lemma propose_Some:
  "propose st pr dg iss i now = Some ch \<Longrightarrow>
     \<not> pf_less (dg_confidence dg) 0.6 \<and> change_type_of (dg_fix_type dg) = Some (ch_type ch)
     \<and> ch_tier ch = classify_tier st pr (ch_type ch) (dg_confidence dg) (is_sample_count iss)
     \<and> ch_status ch = PROPOSED \<and> ch_task ch = is_task iss \<and> ch_issue_id ch = is_id iss
     \<and> ch_diagnosis_id ch = dg_id dg \<and> ch_config_diff ch = build_config_diff (ch_type ch) dg iss \<and> ch_id ch = i"
  by (auto simp: propose_def split: if_splits option.splits)

lemma compare_metrics_finite:
  assumes "metric before ''escalation_rate'' 0 = Inr (Fin be)" "metric after ''escalation_rate'' 0 = Inr (Fin ae)"
    "metric before ''avg_confidence'' 1 = Inr (Fin bc)" "metric after ''avg_confidence'' 1 = Inr (Fin ac)"
    "metric before ''failure_rate'' 0 = Inr (Fin bf)" "metric after ''failure_rate'' 0 = Inr (Fin af)"
    "metric before ''p95_latency_ms'' 1 = Inr (Fin bl)" "metric after ''p95_latency_ms'' 1 = Inr (Fin al)"
  shows "compare_metrics cid before after = Inr (judge cid (Fin (ae - be)) (Fin (bc - ac)) (Fin (af - bf))
           (Fin (if 0 < bl then al / bl else 1)))"
  unfolding compare_metrics_def assms by (simp add: pf_sub_def)

lemma judge_failed:
  "vr_result (judge cid (Fin e) (Fin c) (Fin f) (Fin l)) = (if 0.10 < e \<or> 0.10 < c \<or> 0.05 < f \<or> 1.5 < l then FAILED else PASSED)"
  by (simp add: judge_def Let_def)

section \<open>Properties\<close>

text \<open>
  The decision tree of \<^verbatim>\<open>observer/DESIGN.md\<close> (Apply Engine Decision Tree), with its thresholds as settings: a change that is not
  applied automatically becomes eligible for a canary, and is judged as one.
\<close>

datatype design_decision = Tier apply_tier | QueueForCanarySlot

definition design_canary :: "proposer_settings \<Rightarrow> proposer \<Rightarrow> pyfloat \<Rightarrow> design_decision" where
  "design_canary st pr confidence =
     (if pf_less confidence 0.70 then Tier HUMAN
      else if max_concurrent_canaries st \<le> pr_active_canaries pr then QueueForCanarySlot
      else Tier CANARY)"

definition design_tier ::
    "proposer_settings \<Rightarrow> proposer \<Rightarrow> change_type \<Rightarrow> pyfloat \<Rightarrow> nat \<Rightarrow> design_decision" where
  "design_tier st pr ty confidence samples =
     (if ty \<in> set (pr_failed_types pr) then Tier HUMAN
      else if ty \<in> {ROUTING, THRESHOLD, PATTERN} \<and> \<not> pf_less confidence (auto_apply_min_confidence st)
              \<and> auto_apply_min_samples st \<le> int samples \<and> pr_daily_auto_count pr < max_auto_applies_per_day st
      then Tier AUTO else design_canary st pr confidence)"


definition sample_diagnosis :: "pyfloat \<Rightarrow> string \<Rightarrow> diagnosis" where
  "sample_diagnosis c ty =
     \<lparr>dg_id = ''diag_1'', dg_issue_id = ''iss_1'', dg_root_cause = ustr ''slow'', dg_fix_type = ustr ty,
      dg_fix_description = ustr ''fix'', dg_confidence = c, dg_requires_prompt_rewrite = False,
      dg_cost_usd = Fin 0.1, dg_raw_response = []\<rparr>"

definition sample_proposer_settings :: proposer_settings where
  "sample_proposer_settings =
     \<lparr>auto_apply_min_confidence = 0.8, auto_apply_min_samples = 10, max_auto_applies_per_day = 10,
      max_concurrent_canaries = 3\<rparr>"


text \<open>
  (a diagnosis that is not a number passes every gate): a confidence of NaN, which
  \<^verbatim>\<open>json.loads\<close> accepts, is treated like full confidence: the same change is proposed, in the same
  tier.
\<close>

theorem nan_confidence_passes:
  "map_option (\<lambda>ch. (ch_type ch, ch_tier ch))
     (propose st pr (dg\<lparr>dg_confidence := NaN\<rparr>) iss new_id now)
   = map_option (\<lambda>ty. (ty, if ty \<in> set (pr_failed_types pr) then HUMAN
         else if ty \<in> {PROMPT, MODEL}
              then if max_concurrent_canaries st \<le> pr_active_canaries pr then HUMAN else CANARY
              else if int (is_sample_count iss) < auto_apply_min_samples st
                      \<or> max_auto_applies_per_day st \<le> pr_daily_auto_count pr then CANARY else AUTO))
       (change_type_of (dg_fix_type dg))"
  by (auto simp: propose_def classify_tier_def default_tier split: option.splits)

text \<open>
  (threshold changes): a change of a threshold sends the detector's own limit for the issue,
  raised by 0.03 or 0.05 and capped at 0.95, whatever that limit measures; a limit of 0.95 or more
  (such as the multiplier of a spike) becomes 0.95.
\<close>

theorem threshold_change_value:
  assumes "propose st pr dg iss new_id now = Some ch" and "ch_type ch = THRESHOLD"
  shows "\<exists>t. map_of (ch_config_diff ch) ''threshold'' = Some (JFloat (Fin t)) \<and> t \<le> 0.95
    \<and> (is_threshold_value iss \<le> 0.9 \<longrightarrow>
        t = is_threshold_value iss + (if pf_greater (dg_confidence dg) 0.85 then 0.05 else 0.03))
    \<and> (0.95 \<le> is_threshold_value iss \<longrightarrow> t = 0.95)"
  using propose_Some [OF assms(1)] assms(2) by (auto simp: Let_def min_def)

theorem threshold_change_value_witness:
  "\<exists>ch. propose sample_proposer_settings init_proposer (sample_diagnosis (Fin 0.9) ''threshold'')
     (sample_issue ''iss_1'') ''chg_1'' 0 = Some ch
   \<and> map_of (ch_config_diff ch) ''threshold'' = Some (JFloat (Fin 0.45))"
proof -
  have t: "change_type_of (ustr ''threshold'') = Some THRESHOLD"
    by (simp add: change_type_of_def fix_type_to_change_def)
  obtain ch where ch: "propose sample_proposer_settings init_proposer (sample_diagnosis (Fin 0.9) ''threshold'')
     (sample_issue ''iss_1'') ''chg_1'' 0 = Some ch" and f: "ch_type ch = THRESHOLD"
    by (simp add: propose_def sample_diagnosis_def sample_issue_def t)
  have "map_of (ch_config_diff ch) ''threshold'' = Some (JFloat (Fin 0.45))"
    using threshold_change_value [OF ch f] by (auto simp: sample_issue_def sample_diagnosis_def)
  with ch show ?thesis by blast
qed

end
