(* ===== verification/Obs_Apply.thy ===== *)
theory Obs_Apply
  imports Obs_Changes Gw_Metrics
begin

text \<open>
  Applying, validating and rolling back changes (\<^verbatim>\<open>observer/src/changes/applier.py\<close>,
  \<^verbatim>\<open>validator.py\<close> and \<^verbatim>\<open>rollback.py\<close>). Changes are shared objects: a heap holds them, and the
  approval queue and the history of the self-regulation hold their addresses. The HTTP services
  are the argument \<open>http\<close> (service, method, path with its query, JSON body, world), the clock is
  \<open>clock\<close>. A reply is a transport error or a status with the parsed body, if it is JSON.
\<close>

datatype service = GatewayAdmin | MemoryService

datatype http_method = GET | POST

datatype http_reply = HttpError | Reply int "json option"

type_synonym 'w http = "service \<Rightarrow> http_method \<Rightarrow> string \<Rightarrow> json option \<Rightarrow> 'w \<Rightarrow> http_reply \<times> 'w"

type_synonym 'w clock = "'w \<Rightarrow> real \<times> 'w"

type_synonym heap = "change list"

record applier_settings =
  canary_traffic_pct :: int
  canary_min_samples :: int
  validation_delay_minutes :: int

record pending_validation =
  pv_change_id :: string
  pv_scheduled_at :: real
  pv_delay_minutes :: int

record applier =
  ap_started :: bool
  ap_pending_validations :: "pending_validation list"
  ap_human_queue :: "nat list"

definition init_applier :: applier where
  "init_applier = \<lparr>ap_started = False, ap_pending_validations = [], ap_human_queue = []\<rparr>"

definition ap_start :: "applier \<Rightarrow> applier" where
  "ap_start ap = ap\<lparr>ap_started := True\<rparr>"

definition ap_close :: "applier \<Rightarrow> applier" where
  "ap_close ap = ap\<lparr>ap_started := False\<rparr>"

definition task_name :: "change \<Rightarrow> string" where
  "task_name ch = (if ch_task ch \<noteq> [] then ch_task ch else ''default'')"

definition ok :: "http_reply \<Rightarrow> bool" where
  "ok r \<longleftrightarrow> (case r of Reply status _ \<Rightarrow> status = 200 | HttpError \<Rightarrow> False)"

section \<open>Applying\<close>

text \<open>A transport error ends the snapshot early; a 200 reply that is not JSON raises ValueError.\<close>

definition take_snapshot ::
    "'w http \<Rightarrow> 'w clock \<Rightarrow> applier \<Rightarrow> change \<Rightarrow> 'w \<Rightarrow> (py_error + snapshot option) \<times> 'w" where
  "take_snapshot http clock ap ch w =
     (if \<not> ap_started ap then (Inr None, w)
      else let (now, w) = clock w;
               empty = \<lparr>sn_taken_at = now, sn_change_id = ch_id ch, sn_metrics = None, sn_routing = None\<rparr>;
               (r1, w) = http GatewayAdmin GET (''/admin/metrics/'' @ task_name ch) None w
           in case r1 of
                HttpError \<Rightarrow> (Inr (Some empty), w)
              | Reply s1 b1 \<Rightarrow>
                  if s1 = 200 \<and> b1 = None then (Inl py_error.ValueError, w)
                  else let sn = (if s1 = 200 then empty\<lparr>sn_metrics := b1\<rparr> else empty);
                           (r2, w) = http GatewayAdmin GET ''/admin/routing'' None w
                       in case r2 of
                            HttpError \<Rightarrow> (Inr (Some sn), w)
                          | Reply s2 b2 \<Rightarrow>
                              if s2 = 200 \<and> b2 = None then (Inl py_error.ValueError, w)
                              else (Inr (Some (if s2 = 200 then sn\<lparr>sn_routing := b2\<rparr> else sn)), w))"

definition apply_pattern_change :: "'w http \<Rightarrow> change \<Rightarrow> 'w \<Rightarrow> bool \<times> 'w" where
  "apply_pattern_change http ch w =
     (let (r, w) = http MemoryService POST ''/patterns'' (Some (jobj (ch_config_diff ch))) w
      in (case r of Reply status _ \<Rightarrow> status = 200 \<or> status = 201 | HttpError \<Rightarrow> False, w))"

definition execute_change :: "'w http \<Rightarrow> applier \<Rightarrow> change \<Rightarrow> 'w \<Rightarrow> bool \<times> 'w" where
  "execute_change http ap ch w =
     (if \<not> ap_started ap then (False, w)
      else case ch_type ch of
             ROUTING \<Rightarrow> apfst ok (http GatewayAdmin POST ''/admin/routing'' (Some (jobj (ch_config_diff ch))) w)
           | THRESHOLD \<Rightarrow> apfst ok (http GatewayAdmin POST ''/admin/threshold'' (Some (jobj (ch_config_diff ch))) w)
           | PATTERN \<Rightarrow> apply_pattern_change http ch w
           | _ \<Rightarrow> (False, w))"

definition apply_auto ::
    "applier_settings \<Rightarrow> 'w http \<Rightarrow> 'w clock \<Rightarrow> change \<Rightarrow> applier \<Rightarrow> 'w \<Rightarrow>
     (py_error + unit) \<times> change \<times> applier \<times> 'w" where
  "apply_auto st http clock ch ap w =
     (case take_snapshot http clock ap ch w of
        (Inl e, w) \<Rightarrow> (Inl e, ch, ap, w)
      | (Inr sn, w) \<Rightarrow>
          (let ch = ch\<lparr>ch_snapshot := sn\<rparr>;
               (success, w) = execute_change http ap ch w
           in if success
              then let (t1, w) = clock w; (t2, w) = clock w
                   in (Inr (), ch\<lparr>ch_status := APPLIED, ch_applied_at := Some t1\<rparr>,
                       ap\<lparr>ap_pending_validations := ap_pending_validations ap
                         @ [\<lparr>pv_change_id = ch_id ch, pv_scheduled_at = t2,
                             pv_delay_minutes = validation_delay_minutes st\<rparr>]\<rparr>, w)
              else (Inr (), ch\<lparr>ch_status := ROLLED_BACK\<rparr>, ap, w)))"

definition canary_payload :: "applier_settings \<Rightarrow> change \<Rightarrow> (string \<times> json) list" where
  "canary_payload st ch =
     [(''traffic_pct'', JInt (canary_traffic_pct st)), (''min_samples'', JInt (canary_min_samples st)),
      (''change_id'', jstr (ch_id ch))]
     @ (if ch_config_diff ch \<noteq> [] then [(''config'', jobj (ch_config_diff ch))] else [])"

definition apply_canary ::
    "applier_settings \<Rightarrow> 'w http \<Rightarrow> 'w clock \<Rightarrow> change \<Rightarrow> applier \<Rightarrow> 'w \<Rightarrow> change \<times> 'w" where
  "apply_canary st http clock ch ap w =
     (if \<not> ap_started ap then (ch\<lparr>ch_status := PROPOSED\<rparr>, w)
      else let (r, w) = http GatewayAdmin POST (''/admin/canary/'' @ task_name ch @ ''/set'')
                          (Some (jobj (canary_payload st ch))) w
           in if ok r then let (t, w) = clock w in (ch\<lparr>ch_status := CANARY_RUNNING, ch_applied_at := Some t\<rparr>, w)
              else (ch\<lparr>ch_status := PROPOSED\<rparr>, w))"

definition queue_for_human :: "nat \<Rightarrow> heap \<Rightarrow> applier \<Rightarrow> heap \<times> applier" where
  "queue_for_human r hp ap =
     (hp[r := (hp ! r)\<lparr>ch_status := PROPOSED\<rparr>], ap\<lparr>ap_human_queue := ap_human_queue ap @ [r]\<rparr>)"

definition force_human :: "bool \<Rightarrow> change \<Rightarrow> change" where
  "force_human breaker_open ch =
     (if breaker_open \<and> ch_tier ch \<noteq> HUMAN then ch\<lparr>ch_tier := HUMAN\<rparr> else ch)"

definition apply_change ::
    "applier_settings \<Rightarrow> 'w http \<Rightarrow> 'w clock \<Rightarrow> bool \<Rightarrow> nat \<Rightarrow> heap \<Rightarrow> applier \<Rightarrow> 'w \<Rightarrow>
     (py_error + unit) \<times> heap \<times> applier \<times> 'w" where
  "apply_change st http clock breaker_open r hp ap w =
     (let hp = hp[r := force_human breaker_open (hp ! r)]
      in case ch_tier (hp ! r) of
           AUTO \<Rightarrow> (let (res, ch, ap, w) = apply_auto st http clock (hp ! r) ap w in (res, hp[r := ch], ap, w))
         | CANARY \<Rightarrow> (let (ch, w) = apply_canary st http clock (hp ! r) ap w in (Inr (), hp[r := ch], ap, w))
         | HUMAN \<Rightarrow> (let (hp, ap) = queue_for_human r hp ap in (Inr (), hp, ap, w)))"

definition clear_validation :: "string \<Rightarrow> applier \<Rightarrow> applier" where
  "clear_validation cid ap =
     ap\<lparr>ap_pending_validations := filter (\<lambda>v. pv_change_id v \<noteq> cid) (ap_pending_validations ap)\<rparr>"

text \<open>The first queued change with an identifier, and the queue without it.\<close>

fun pop_first :: "(nat \<Rightarrow> bool) \<Rightarrow> nat list \<Rightarrow> (nat \<times> nat list) option" where
  "pop_first p [] = None"
| "pop_first p (r # rs) = (if p r then Some (r, rs) else map_option (apsnd (Cons r)) (pop_first p rs))"

definition settle_change ::
    "change_status \<Rightarrow> string \<Rightarrow> heap \<Rightarrow> applier \<Rightarrow> nat option \<times> heap \<times> applier" where
  "settle_change status cid hp ap =
     (case pop_first (\<lambda>r. ch_id (hp ! r) = cid) (ap_human_queue ap) of
        None \<Rightarrow> (None, hp, ap)
      | Some (r, rs) \<Rightarrow> (Some r, hp[r := (hp ! r)\<lparr>ch_status := status\<rparr>], ap\<lparr>ap_human_queue := rs\<rparr>))"

definition approve_change :: "string \<Rightarrow> heap \<Rightarrow> applier \<Rightarrow> nat option \<times> heap \<times> applier" where
  "approve_change = settle_change APPROVED"

definition reject_change :: "string \<Rightarrow> heap \<Rightarrow> applier \<Rightarrow> nat option \<times> heap \<times> applier" where
  "reject_change = settle_change REJECTED"

section \<open>Validation\<close>

text \<open>
  The empty dictionary stands for a failed request. A 200 reply that is not JSON raises
  ValueError.
\<close>

definition fetch_current_metrics :: "'w http \<Rightarrow> bool \<Rightarrow> string \<Rightarrow> 'w \<Rightarrow> (py_error + json) \<times> 'w" where
  "fetch_current_metrics http started task w =
     (if \<not> started then (Inr (JObj []), w)
      else let (r, w) = http GatewayAdmin GET
                 (''/admin/metrics/'' @ (if task \<noteq> [] then task else ''default'') @ ''?window=1h'') None w
           in case r of
                Reply status body \<Rightarrow>
                  if status = 200 then (case body of None \<Rightarrow> Inl py_error.ValueError | Some j \<Rightarrow> Inr j, w)
                  else (Inr (JObj []), w)
              | HttpError \<Rightarrow> (Inr (JObj []), w))"

definition snapshot_metrics :: "change \<Rightarrow> json" where
  "snapshot_metrics ch =
     (case ch_snapshot ch of None \<Rightarrow> JObj []
      | Some sn \<Rightarrow> (case sn_metrics sn of None \<Rightarrow> JObj [] | Some m \<Rightarrow> m))"

definition validate ::
    "'w http \<Rightarrow> bool \<Rightarrow> change \<Rightarrow> 'w \<Rightarrow> (py_error + validation_report) \<times> change \<times> 'w" where
  "validate http started ch w =
     (let before = snapshot_metrics ch
      in if \<not> json_truthy before then (Inr (insufficient (ch_id ch)), ch, w)
         else case fetch_current_metrics http started (ch_task ch) w of
                (Inl e, w) \<Rightarrow> (Inl e, ch, w)
              | (Inr after, w) \<Rightarrow>
                  if \<not> json_truthy after then (Inr (insufficient (ch_id ch)), ch, w)
                  else (case compare_metrics (ch_id ch) before after of
                          Inl e \<Rightarrow> (Inl e, ch, w)
                        | Inr rep \<Rightarrow>
                            (Inr rep, ch\<lparr>ch_metrics_before := before, ch_metrics_after := after\<rparr>, w)))"

section \<open>Rollback\<close>

record rollback_entry =
  rb_change_id :: string
  rb_rolled_back_at :: real
  rb_change_type :: change_type
  rb_task :: string
  rb_was_canary :: bool

record rollback_engine =
  re_started :: bool
  re_history :: "rollback_entry list"

definition restore_snapshot :: "'w http \<Rightarrow> rollback_engine \<Rightarrow> change \<Rightarrow> 'w \<Rightarrow> bool \<times> 'w" where
  "restore_snapshot http re ch w =
     (case (re_started re, ch_snapshot ch) of
        (True, Some sn) \<Rightarrow>
          (case sn_routing sn of
             None \<Rightarrow> (False, w)
           | Some routing \<Rightarrow>
               if \<not> json_truthy routing then (False, w)
               else apfst ok (http GatewayAdmin POST ''/admin/routing'' (Some routing) w))
      | _ \<Rightarrow> (False, w))"

definition log_rollback :: "bool \<Rightarrow> real \<Rightarrow> change \<Rightarrow> rollback_engine \<Rightarrow> rollback_engine" where
  "log_rollback was_canary t ch re =
     re\<lparr>re_history := re_history re @ [\<lparr>rb_change_id = ch_id ch, rb_rolled_back_at = t,
          rb_change_type = ch_type ch, rb_task = ch_task ch, rb_was_canary = was_canary\<rparr>]\<rparr>"

definition rollback ::
    "'w http \<Rightarrow> 'w clock \<Rightarrow> change \<Rightarrow> rollback_engine \<Rightarrow> 'w \<Rightarrow> bool \<times> change \<times> rollback_engine \<times> 'w" where
  "rollback http clock ch re w =
     (if ch_snapshot ch = None then (False, ch, re, w)
      else let (success, w) = restore_snapshot http re ch w
           in if success
              then let (t, w) = clock w
                   in (True, ch\<lparr>ch_status := ROLLED_BACK, ch_rolled_back_at := Some t\<rparr>, log_rollback False t ch re, w)
              else (False, ch, re, w))"

definition rollback_canary_change ::
    "'w http \<Rightarrow> 'w clock \<Rightarrow> change \<Rightarrow> rollback_engine \<Rightarrow> 'w \<Rightarrow> bool \<times> change \<times> rollback_engine \<times> 'w" where
  "rollback_canary_change http clock ch re w =
     (if \<not> re_started re then (False, ch, re, w)
      else let (r, w) = http GatewayAdmin POST (''/admin/canary/'' @ task_name ch @ ''/rollback'') None w
           in if ok r
              then let (t, w) = clock w
                   in (True, ch\<lparr>ch_status := CANARY_FAILED, ch_rolled_back_at := Some t\<rparr>, log_rollback True t ch re, w)
              else (False, ch, re, w))"

definition get_recent_rollbacks :: "real \<Rightarrow> real \<Rightarrow> rollback_engine \<Rightarrow> rollback_entry list" where
  "get_recent_rollbacks now window_hours re =
     filter (\<lambda>rb. (now - rb_rolled_back_at rb) / 3600 \<le> window_hours) (re_history re)"

section \<open>Facts\<close>

lemma apply_auto_outcome:
  assumes "apply_auto st http clock ch ap w = (Inr (), ch', ap', w')"
  shows "\<exists>sn. (ch_status ch' = APPLIED \<and> (\<exists>t. ch' = ch\<lparr>ch_snapshot := sn, ch_status := APPLIED, ch_applied_at := Some t\<rparr>)
           \<and> (\<exists>t. ap' = ap\<lparr>ap_pending_validations := ap_pending_validations ap
                @ [\<lparr>pv_change_id = ch_id ch, pv_scheduled_at = t, pv_delay_minutes = validation_delay_minutes st\<rparr>]\<rparr>))
       \<or> (ch' = ch\<lparr>ch_snapshot := sn, ch_status := ROLLED_BACK\<rparr> \<and> ap' = ap)"
  using assms
  by (auto simp: apply_auto_def Let_def split: prod.splits sum.splits if_splits)

lemma apply_canary_outcome:
  "apply_canary st http clock ch ap w = (ch', w') \<Longrightarrow>
     ch' = ch\<lparr>ch_status := PROPOSED\<rparr> \<or> (\<exists>t. ch' = ch\<lparr>ch_status := CANARY_RUNNING, ch_applied_at := Some t\<rparr>)"
  by (auto simp: apply_canary_def Let_def split: prod.splits if_splits)

text \<open>The fields that identify a change and say what it does.\<close>

definition same_change :: "change \<Rightarrow> change \<Rightarrow> bool" where
  "same_change a b \<longleftrightarrow> ch_id a = ch_id b \<and> ch_type a = ch_type b \<and> ch_task a = ch_task b
     \<and> ch_config_diff a = ch_config_diff b \<and> ch_issue_id a = ch_issue_id b
     \<and> ch_proposed_at a = ch_proposed_at b"

lemma same_change_refl [simp]: "same_change c c"
  by (simp add: same_change_def)

lemma pop_first_Some:
  "pop_first p rs = Some (r, rs') \<Longrightarrow>
     \<exists>xs ys. rs = xs @ r # ys \<and> rs' = xs @ ys \<and> p r \<and> list_all (\<lambda>x. \<not> p x) xs"
proof (induction rs arbitrary: rs')
  case (Cons a rs)
  show ?case
  proof (cases "p a")
    case True
    then show ?thesis using Cons.prems by force
  next
    case False
    then obtain rs2 where "pop_first p rs = Some (r, rs2)" "rs' = a # rs2" using Cons.prems by auto
    moreover from this Cons.IH obtain xs ys where
      "rs = xs @ r # ys" "rs2 = xs @ ys" "p r" "list_all (\<lambda>x. \<not> p x) xs" by blast
    ultimately have "a # rs = (a # xs) @ r # ys" "rs' = (a # xs) @ ys" "list_all (\<lambda>x. \<not> p x) (a # xs)"
      using False by auto
    with \<open>p r\<close> show ?thesis by blast
  qed
qed simp

lemma pop_first_None: "pop_first p rs = None \<longleftrightarrow> list_all (\<lambda>r. \<not> p r) rs"
  by (induction rs) auto

text \<open>A queue whose addresses are valid stays valid.\<close>

definition applier_ok :: "heap \<Rightarrow> applier \<Rightarrow> bool" where
  "applier_ok hp ap \<longleftrightarrow> list_all (\<lambda>r. r < length hp) (ap_human_queue ap)"

lemma apply_change_heap:
  assumes "apply_change st http clock b r hp ap w = (res, hp', ap', w')"
  shows "length hp' = length hp \<and> (\<forall>s. s \<noteq> r \<longrightarrow> hp' ! s = hp ! s)
    \<and> (ap_human_queue ap' = ap_human_queue ap \<or> ap_human_queue ap' = ap_human_queue ap @ [r])"
proof -
  have q: "ap_human_queue ap2 = ap_human_queue ap"
    if "apply_auto st http clock ch ap w = (x, ch2, ap2, w2)" for ch x ch2 ap2 w2
    using that by (auto simp: apply_auto_def Let_def split: prod.splits sum.splits if_splits)
  show ?thesis
    using assms
    by (auto simp: apply_change_def Let_def queue_for_human_def split: prod.splits apply_tier.splits dest: q)
qed

lemma applier_ok_apply:
  "apply_change st http clock b r hp ap w = (res, hp', ap', w') \<Longrightarrow> r < length hp \<Longrightarrow> applier_ok hp ap \<Longrightarrow>
     applier_ok hp' ap'"
  using apply_change_heap [of st http clock b r hp ap w res hp' ap' w'] by (auto simp: applier_ok_def)

lemma apply_change_same:
  assumes "apply_change st http clock b r hp ap w = (res, hp', ap', w')" and "r < length hp"
  shows "same_change (hp' ! r) (hp ! r)"
proof -
  have f: "same_change (force_human b (hp ! r)) (hp ! r)" by (simp add: force_human_def same_change_def)
  have a: "same_change ch2 ch" if "apply_auto st http clock ch ap w = (x, ch2, ap2, w2)" for ch x ch2 ap2 w2
    using that by (auto simp: apply_auto_def Let_def same_change_def split: prod.splits sum.splits if_splits)
  have c: "same_change ch2 ch" if "apply_canary st http clock ch ap w = (ch2, w2)" for ch ch2 w2
    using apply_canary_outcome [OF that] by (auto simp: same_change_def)
  have s: "same_change (c\<lparr>ch_status := x\<rparr>) y \<longleftrightarrow> same_change c y" for c x y by (simp add: same_change_def)
  have tr: "same_change x y \<Longrightarrow> same_change y z \<Longrightarrow> same_change x z" for x y z
    by (simp add: same_change_def)
  show ?thesis
  proof (cases "ch_tier (force_human b (hp ! r))")
    case AUTO
    then show ?thesis using assms tr [OF a f] by (auto simp: apply_change_def Let_def split: prod.splits)
  next
    case CANARY
    then show ?thesis using assms tr [OF c f] by (auto simp: apply_change_def Let_def split: prod.splits)
  next
    case HUMAN
    then show ?thesis using assms f by (auto simp: apply_change_def Let_def queue_for_human_def s)
  qed
qed

lemma force_human_open: "force_human True ch = ch\<lparr>ch_tier := HUMAN\<rparr>"
  by (cases ch) (simp add: force_human_def)

section \<open>Properties\<close>

text \<open>
  (an open circuit breaker only queues): with the breaker open, applying a change makes no
  request, marks it as a human's decision and puts it at the end of the approval queue; nothing
  else changes.
\<close>

theorem open_breaker_only_queues:
  assumes "r < length hp"
  shows "apply_change st http clock True r hp ap w =
    (Inr (), hp[r := (hp ! r)\<lparr>ch_tier := HUMAN, ch_status := PROPOSED\<rparr>],
     ap\<lparr>ap_human_queue := ap_human_queue ap @ [r]\<rparr>, w)"
  using assms by (simp add: apply_change_def Let_def force_human_open queue_for_human_def)

text \<open>
  What the service that serves a change's type answered to the request that applies it: a 200, or a 201 of the pattern store;
  types without an endpoint and an applier that was not started are never accepted.
\<close>

definition service_accepts :: "'w http \<Rightarrow> applier \<Rightarrow> change \<Rightarrow> 'w \<Rightarrow> bool" where
  "service_accepts http ap ch w \<longleftrightarrow>
     ap_started ap
     \<and> (case ch_type ch of
          ROUTING \<Rightarrow> \<exists>b. fst (http GatewayAdmin POST ''/admin/routing'' (Some (jobj (ch_config_diff ch))) w) = Reply 200 b
        | THRESHOLD \<Rightarrow> \<exists>b. fst (http GatewayAdmin POST ''/admin/threshold'' (Some (jobj (ch_config_diff ch))) w) = Reply 200 b
        | PATTERN \<Rightarrow> \<exists>b. fst (http MemoryService POST ''/patterns'' (Some (jobj (ch_config_diff ch))) w) \<in> {Reply 200 b, Reply 201 b}
        | _ \<Rightarrow> False)"

lemma ok_iff: "ok r \<longleftrightarrow> (\<exists>b. r = Reply 200 b)"
  by (cases r) (auto simp: ok_def)

lemma execute_change_accepted: "fst (execute_change http ap (ch\<lparr>ch_snapshot := sn\<rparr>) w) \<longleftrightarrow> service_accepts http ap ch w"
  by (auto simp: execute_change_def service_accepts_def apply_pattern_change_def ok_iff split: change_type.split prod.split http_reply.split)

lemma apply_auto_exact:
  assumes "apply_auto st http clock ch ap w = (res, ch', ap', w')"
  shows "case take_snapshot http clock ap ch w of
      (Inl e, w1) \<Rightarrow> res = Inl e \<and> ch' = ch \<and> ap' = ap
    | (Inr sn, w1) \<Rightarrow> res = Inr ()
        \<and> (if service_accepts http ap ch w1
           then (\<exists>t. ch' = ch\<lparr>ch_snapshot := sn, ch_status := APPLIED, ch_applied_at := Some t\<rparr>)
             \<and> (\<exists>t. ap' = ap\<lparr>ap_pending_validations := ap_pending_validations ap @
                  [\<lparr>pv_change_id = ch_id ch, pv_scheduled_at = t, pv_delay_minutes = validation_delay_minutes st\<rparr>]\<rparr>)
           else ch' = ch\<lparr>ch_snapshot := sn, ch_status := ROLLED_BACK\<rparr> \<and> ap' = ap)"
proof -
  obtain x w1 where sn: "take_snapshot http clock ap ch w = (x, w1)" by fastforce
  show ?thesis
  proof (cases x)
    case (Inl e)
    then show ?thesis using assms sn by (simp add: apply_auto_def)
  next
    case (Inr sn')
    obtain b w2 where ex: "execute_change http ap (ch\<lparr>ch_snapshot := sn'\<rparr>) w1 = (b, w2)" by fastforce
    have "b \<longleftrightarrow> service_accepts http ap ch w1" using execute_change_accepted [where http = http and ap = ap and ch = ch and sn = sn' and w = w1] ex by simp
    then show ?thesis using assms sn Inr ex by (auto simp: apply_auto_def Let_def split: prod.splits)
  qed
qed

lemma apply_canary_exact:
  assumes "apply_canary st http clock ch ap w = (ch', w')"
  shows "if ap_started ap \<and> (\<exists>b. fst (http GatewayAdmin POST (''/admin/canary/'' @ task_name ch @ ''/set'')
           (Some (jobj (canary_payload st ch))) w) = Reply 200 b)
      then \<exists>t. ch' = ch\<lparr>ch_status := CANARY_RUNNING, ch_applied_at := Some t\<rparr>
      else ch' = ch\<lparr>ch_status := PROPOSED\<rparr>"
  using assms by (auto simp: apply_canary_def Let_def ok_iff split: prod.splits if_splits)

text \<open>
  C36 (applying one change): applying a change keeps its identity and all other changes, and its outcome is what the services answered. An
  automatic change takes its snapshot first: an exception there leaves it as it was. Otherwise it is applied, with exactly one
  validation scheduled for it, when the service accepts it, and rolled back without one when not. A canary runs exactly when the gateway
  answers its request with a 200 and is back to proposed otherwise. A human's change, and any change while the breaker is
  open, is only queued, without a request.
\<close>

theorem apply_outcome:
  assumes run: "apply_change st http clock breaker_open r hp ap w = (res, hp', ap', w')" and r: "r < length hp"
    and ch: "ch = (if breaker_open then (hp ! r)\<lparr>ch_tier := HUMAN\<rparr> else hp ! r)"
  shows "length hp' = length hp \<and> (\<forall>s. s \<noteq> r \<longrightarrow> hp' ! s = hp ! s) \<and> same_change (hp' ! r) (hp ! r)
    \<and> (case ch_tier ch of
         AUTO \<Rightarrow>
           (case take_snapshot http clock ap ch w of
              (Inl e, w1) \<Rightarrow> res = Inl e \<and> hp' ! r = ch \<and> ap' = ap
            | (Inr sn, w1) \<Rightarrow> res = Inr ()
                \<and> (if service_accepts http ap ch w1
                   then (\<exists>t. hp' ! r = ch\<lparr>ch_snapshot := sn, ch_status := APPLIED, ch_applied_at := Some t\<rparr>)
                     \<and> (\<exists>t. ap' = ap\<lparr>ap_pending_validations := ap_pending_validations ap @
                          [\<lparr>pv_change_id = ch_id ch, pv_scheduled_at = t, pv_delay_minutes = validation_delay_minutes st\<rparr>]\<rparr>)
                   else hp' ! r = ch\<lparr>ch_snapshot := sn, ch_status := ROLLED_BACK\<rparr> \<and> ap' = ap))
       | CANARY \<Rightarrow> res = Inr () \<and> ap' = ap
           \<and> (if ap_started ap \<and> (\<exists>b. fst (http GatewayAdmin POST (''/admin/canary/'' @ task_name ch @ ''/set'')
                   (Some (jobj (canary_payload st ch))) w) = Reply 200 b)
              then \<exists>t. hp' ! r = ch\<lparr>ch_status := CANARY_RUNNING, ch_applied_at := Some t\<rparr>
              else hp' ! r = ch\<lparr>ch_status := PROPOSED\<rparr>)
       | HUMAN \<Rightarrow> res = Inr () \<and> w' = w \<and> hp' ! r = ch\<lparr>ch_status := PROPOSED\<rparr>
           \<and> ap' = ap\<lparr>ap_human_queue := ap_human_queue ap @ [r]\<rparr>)"
proof -
  have forced: "force_human breaker_open (hp ! r) = ch"
    using ch by (cases "hp ! r") (simp add: force_human_def)
  have others: "length hp' = length hp" "\<forall>s. s \<noteq> r \<longrightarrow> hp' ! s = hp ! s" using apply_change_heap [OF run] by auto
  have same: "same_change (hp' ! r) (hp ! r)" by (rule apply_change_same [OF run r])
  show ?thesis
  proof (cases "ch_tier ch")
    case AUTO
    obtain x ch2 ap2 w2 where a: "apply_auto st http clock ch ap w = (x, ch2, ap2, w2)" by (cases "apply_auto st http clock ch ap w") blast
    then have eqs: "res = x" "hp' ! r = ch2" "ap' = ap2" using run r forced AUTO by (auto simp: apply_change_def Let_def)
    show ?thesis using apply_auto_exact [OF a] others same AUTO unfolding eqs by simp
  next
    case CANARY
    obtain ch2 w2 where a: "apply_canary st http clock ch ap w = (ch2, w2)" by (cases "apply_canary st http clock ch ap w") blast
    then have eqs: "res = Inr ()" "hp' ! r = ch2" "ap' = ap" using run r forced CANARY by (auto simp: apply_change_def Let_def)
    show ?thesis using apply_canary_exact [OF a] others same CANARY unfolding eqs by simp
  next
    case HUMAN
    then show ?thesis using run r forced others same
      by (auto simp: apply_change_def Let_def queue_for_human_def split: prod.splits)
  qed
qed

text \<open>
  (a human's decision): approving or rejecting settles the first queued change with that
  identifier, and only that one: its status is set in the shared object, so every holder sees it,
  and it leaves the queue; with no such change nothing happens.
\<close>

theorem approval_settles_first:
  "(\<exists>xs r ys. ap_human_queue ap = xs @ r # ys \<and> ch_id (hp ! r) = cid \<and> list_all (\<lambda>x. ch_id (hp ! x) \<noteq> cid) xs
      \<and> approve_change cid hp ap = (Some r, hp[r := (hp ! r)\<lparr>ch_status := APPROVED\<rparr>], ap\<lparr>ap_human_queue := xs @ ys\<rparr>)
      \<and> reject_change cid hp ap = (Some r, hp[r := (hp ! r)\<lparr>ch_status := REJECTED\<rparr>], ap\<lparr>ap_human_queue := xs @ ys\<rparr>))
   \<or> list_all (\<lambda>x. ch_id (hp ! x) \<noteq> cid) (ap_human_queue ap)
      \<and> approve_change cid hp ap = (None, hp, ap) \<and> reject_change cid hp ap = (None, hp, ap)"
proof (cases "pop_first (\<lambda>r. ch_id (hp ! r) = cid) (ap_human_queue ap)")
  case None
  then have "list_all (\<lambda>x. ch_id (hp ! x) \<noteq> cid) (ap_human_queue ap)" by (simp only: pop_first_None)
  then show ?thesis by (simp add: approve_change_def reject_change_def settle_change_def None)
next
  case (Some a)
  obtain r rs where a: "a = (r, rs)" by (cases a)
  from pop_first_Some [OF Some [unfolded a]] obtain xs ys where
    "ap_human_queue ap = xs @ r # ys" "rs = xs @ ys" "ch_id (hp ! r) = cid" "list_all (\<lambda>x. ch_id (hp ! x) \<noteq> cid) xs"
    by blast
  then show ?thesis using Some a by (auto simp: approve_change_def reject_change_def settle_change_def)
qed

definition no_routing_endpoint :: "'w http \<Rightarrow> bool" where
  "no_routing_endpoint http \<longleftrightarrow> (\<forall>w. \<not> ok (fst (http GatewayAdmin GET ''/admin/routing'' None w)))"

lemma snapshot_without_routing:
  assumes "no_routing_endpoint http" and "take_snapshot http clock ap ch w = (Inr (Some sn), w')"
  shows "sn_routing sn = None"
proof -
  have "\<not> ok r" if "http GatewayAdmin GET ''/admin/routing'' None w1 = (r, w2)" for w1 r w2
    using assms(1) that by (auto simp: no_routing_endpoint_def dest!: spec [of _ w1])
  then show ?thesis
    using assms(2)
    by (fastforce simp: take_snapshot_def Let_def ok_def split: prod.splits if_splits http_reply.splits)
qed

text \<open>
  (an automatic change cannot be rolled back): the gateway serves no \<^verbatim>\<open>GET /admin/routing\<close>, so
  the snapshot of an automatic change never holds a routing configuration, and rolling the change
  back fails without a request and without a trace.
\<close>

theorem automatic_change_not_restorable:
  assumes "no_routing_endpoint http" and "apply_auto st http clock ch ap w = (Inr (), ch', ap', w')"
  shows "rollback http clock ch' re w2 = (False, ch', re, w2)"
proof -
  obtain sn w1 where sn: "take_snapshot http clock ap ch w = (Inr sn, w1)"
    using assms(2) by (auto simp: apply_auto_def split: prod.splits sum.splits)
  have "ch_snapshot ch' = sn"
    using assms(2) sn by (auto simp: apply_auto_def Let_def split: prod.splits if_splits)
  then show ?thesis
    using snapshot_without_routing [OF assms(1)] sn
    by (auto simp: rollback_def restore_snapshot_def split: option.splits bool.splits)
qed

definition sample_http :: "nat http" where
  "sample_http s m path body w =
     (if m = POST then Reply 200 (Some (JObj [])) else if path = ''/admin/routing'' then Reply 405 None
      else Reply 200 (Some (jobj [(''avg_confidence'', JFloat (Fin 0.8))])), w + 1)"

definition sample_change :: change where
  "sample_change =
     \<lparr>ch_id = ''chg_1'', ch_type = ROUTING, ch_tier = AUTO, ch_status = PROPOSED, ch_task = ''summary'',
      ch_model = [], ch_description = [], ch_config_diff = [], ch_confidence = Fin 0.9, ch_sample_count = 30,
      ch_diagnosis_id = [], ch_issue_id = [], ch_snapshot = None, ch_proposed_at = 0, ch_applied_at = None,
      ch_validated_at = None, ch_rolled_back_at = None, ch_metrics_before = JObj [], ch_metrics_after = JObj []\<rparr>"

definition sample_applier_settings :: applier_settings where
  "sample_applier_settings = \<lparr>canary_traffic_pct = 20, canary_min_samples = 30, validation_delay_minutes = 60\<rparr>"

lemmas sample_apply_defs = sample_http_def sample_change_def sample_applier_settings_def init_applier_def ap_start_def

theorem automatic_change_not_restorable_witness:
  "\<exists>ch' ap'. apply_auto sample_applier_settings sample_http (\<lambda>w. (real w, w)) sample_change (ap_start init_applier) 0
      = (Inr (), ch', ap', 3) \<and> ch_status ch' = APPLIED
    \<and> rollback sample_http (\<lambda>w. (real w, w)) ch' \<lparr>re_started = True, re_history = []\<rparr> 3
      = (False, ch', \<lparr>re_started = True, re_history = []\<rparr>, 3)"
proof -
  have n: "no_routing_endpoint sample_http" by (simp add: no_routing_endpoint_def sample_http_def ok_def)
  obtain ch' ap' where a: "apply_auto sample_applier_settings sample_http (\<lambda>w. (real w, w)) sample_change
      (ap_start init_applier) 0 = (Inr (), ch', ap', 3)" and b: "ch_status ch' = APPLIED"
    by (simp add: apply_auto_def take_snapshot_def execute_change_def ok_def Let_def sample_apply_defs)
  show ?thesis using automatic_change_not_restorable [OF n a] a b by blast
qed

theorem open_breaker_only_queues_witness:
  "apply_change sample_applier_settings sample_http (\<lambda>w. (real w, w)) True 0 [sample_change] init_applier 0 =
    (Inr (), [sample_change\<lparr>ch_tier := HUMAN, ch_status := PROPOSED\<rparr>], init_applier\<lparr>ap_human_queue := [0]\<rparr>, 0)"
  by (subst open_breaker_only_queues) (simp_all add: init_applier_def)

theorem apply_outcome_witness:
  "\<exists>hp' ap' w' t. apply_change sample_applier_settings sample_http (\<lambda>w. (real w, w)) False 0 [sample_change\<lparr>ch_tier := CANARY\<rparr>]
      (ap_start init_applier) 0 = (Inr (), hp', ap', w')
    \<and> hp' ! 0 = sample_change\<lparr>ch_tier := CANARY, ch_status := CANARY_RUNNING, ch_applied_at := Some t\<rparr>"
proof -
  obtain res hp' ap' w' where a: "apply_change sample_applier_settings sample_http (\<lambda>w. (real w, w)) False 0
      [sample_change\<lparr>ch_tier := CANARY\<rparr>] (ap_start init_applier) 0 = (res, hp', ap', w')"
    by (cases "apply_change sample_applier_settings sample_http (\<lambda>w. (real w, w)) False 0
      [sample_change\<lparr>ch_tier := CANARY\<rparr>] (ap_start init_applier) 0") blast
  have "res = Inr () \<and> (\<exists>t. hp' ! 0 = sample_change\<lparr>ch_tier := CANARY, ch_status := CANARY_RUNNING, ch_applied_at := Some t\<rparr>)"
    using apply_outcome [OF a _ refl] by (simp add: sample_http_def sample_change_def ap_start_def)
  with a show ?thesis by auto
qed

definition task_metrics_json :: "task_metrics \<Rightarrow> json" where
  "task_metrics_json m =
     jobj [(''task'', jstr (tm_task m)), (''total_requests'', JInt (tm_total_requests m)),
           (''avg_latency_ms'', JFloat (Fin (tm_avg_latency_ms m))), (''avg_confidence'', JFloat (Fin (tm_avg_confidence m))),
           (''error_rate'', JFloat (Fin (tm_error_rate m))), (''escalation_rate'', JFloat (Fin (tm_escalation_rate m)))]"

lemma metric_jobj:
  "metric (jobj kvs) k d =
     (case map_of kvs k of None \<Rightarrow> Inr (Fin d) | Some v \<Rightarrow> map_sum py_error_of id (float_of_json v))"
  using json_field_jobj [of k kvs] by (simp add: metric_def jobj_def json_field_def)

text \<open>
  (validation sees only two of its four criteria): on the metrics the gateway returns for a
  task, which name neither a failure rate nor a P95 latency, a change fails validation exactly when
  the escalation rate rose or the mean confidence fell by more than 0.10; the error rate and the
  latency of the gateway's answer have no influence.
\<close>

theorem validation_criteria_seen:
  "\<exists>rep. compare_metrics cid (task_metrics_json before) (task_metrics_json after) = Inr rep
    \<and> vr_result rep = (if 0.10 < tm_escalation_rate after - tm_escalation_rate before
         \<or> 0.10 < tm_avg_confidence before - tm_avg_confidence after then FAILED else PASSED)"
proof -
  have "compare_metrics cid (task_metrics_json before) (task_metrics_json after) =
    Inr (judge cid (Fin (tm_escalation_rate after - tm_escalation_rate before))
      (Fin (tm_avg_confidence before - tm_avg_confidence after)) (Fin (0 - 0)) (Fin (if (0 :: real) < 1 then 1 / 1 else 1)))"
    by (rule compare_metrics_finite) (simp_all add: task_metrics_json_def metric_jobj)
  then show ?thesis by (simp add: judge_failed)
qed

end
