(* ===== verification/Obs_SelfReg.thy ===== *)
theory Obs_SelfReg
  imports Obs_Apply
begin

text \<open>
  Self-regulation (\<^verbatim>\<open>observer/src/self_regulation.py\<close>): the history of changes, the weekly
  evaluation and the autonomy level, which the memory service keeps across restarts. The argument
  \<open>isoformat\<close> prints an instant; the history holds addresses of changes.
\<close>

section \<open>State\<close>

record autonomy_level =
  al_level :: string
  al_min_confidence :: real
  al_min_samples :: int
  al_max_auto_applies_per_day :: int
  al_allowed_auto_types :: "string list"
  al_last_adjusted :: string
  al_reason :: string

record regulator_settings =
  rs_auto_apply_min_confidence :: real
  rs_auto_apply_min_samples :: int
  rs_max_auto_applies_per_day :: int
  rs_min_confidence_floor :: real
  rs_min_confidence_ceiling :: real
  rs_min_samples_floor :: int
  rs_min_samples_ceiling :: int

record self_eval_result =
  se_period_start :: real
  se_period_end :: real
  se_total_changes :: nat
  se_applied_count :: nat
  se_rolled_back_count :: nat
  se_validated_count :: nat
  se_success_rate :: real
  se_previous_autonomy :: string
  se_new_autonomy :: string
  se_adjustment_made :: bool

record self_regulator =
  sr_autonomy :: autonomy_level
  sr_eval_history :: "self_eval_result list"
  sr_change_history :: "nat list"
  sr_started :: bool

definition standard_types :: "string list" where
  "standard_types = [''routing'', ''threshold'', ''pattern'']"

definition init_autonomy :: "regulator_settings \<Rightarrow> string \<Rightarrow> autonomy_level" where
  "init_autonomy st now =
     \<lparr>al_level = ''standard'', al_min_confidence = rs_auto_apply_min_confidence st,
      al_min_samples = rs_auto_apply_min_samples st, al_max_auto_applies_per_day = rs_max_auto_applies_per_day st,
      al_allowed_auto_types = standard_types, al_last_adjusted = now, al_reason = ''initial''\<rparr>"

definition init_regulator :: "regulator_settings \<Rightarrow> string \<Rightarrow> self_regulator" where
  "init_regulator st now =
     \<lparr>sr_autonomy = init_autonomy st now, sr_eval_history = [], sr_change_history = [], sr_started = False\<rparr>"

section \<open>History\<close>

text \<open>The slice \<^verbatim>\<open>xs[-n:]\<close>: the last \<open>n\<close> elements, the whole list for 0, a suffix for a negative \<open>n\<close>.\<close>

definition slice_from_end :: "int \<Rightarrow> 'a list \<Rightarrow> 'a list" where
  "slice_from_end n xs = (if 0 < n then last_n (nat n) xs else drop (nat (- n)) xs)"

definition record_change :: "regulator_settings \<Rightarrow> nat \<Rightarrow> self_regulator \<Rightarrow> self_regulator" where
  "record_change st r sr =
     (let h = sr_change_history sr @ [r]; max_history = rs_max_auto_applies_per_day st * 30
      in sr\<lparr>sr_change_history := (if max_history < int (length h) then slice_from_end max_history h else h)\<rparr>)"

section \<open>Autonomy\<close>

definition reset_to_standard :: "regulator_settings \<Rightarrow> autonomy_level \<Rightarrow> autonomy_level" where
  "reset_to_standard st al =
     al\<lparr>al_level := ''standard'', al_min_confidence := rs_auto_apply_min_confidence st,
        al_min_samples := rs_auto_apply_min_samples st,
        al_max_auto_applies_per_day := rs_max_auto_applies_per_day st,
        al_allowed_auto_types := standard_types\<rparr>"

definition stamp :: "string \<Rightarrow> string \<Rightarrow> autonomy_level \<Rightarrow> autonomy_level" where
  "stamp now reason al = al\<lparr>al_last_adjusted := now, al_reason := reason\<rparr>"

definition expand_autonomy :: "regulator_settings \<Rightarrow> string \<Rightarrow> autonomy_level \<Rightarrow> bool \<times> autonomy_level" where
  "expand_autonomy st now al =
     (if al_level al = ''expanded'' then (False, al)
      else let previous = al_level al;
               al2 = (if previous = ''restricted'' then reset_to_standard st al
                      else if previous = ''standard'' then
                        al\<lparr>al_level := ''expanded'',
                           al_min_confidence := max (rs_min_confidence_floor st) (al_min_confidence al - 0.05),
                           al_min_samples := max (rs_min_samples_floor st) (al_min_samples al - 5),
                           al_max_auto_applies_per_day := min 20 (al_max_auto_applies_per_day al + 5),
                           al_allowed_auto_types := standard_types @ [''prompt'']\<rparr>
                      else al)
           in (True, stamp now (''expanded from '' @ previous @ '' (success rate > 90%)'') al2))"

definition restrict_autonomy :: "regulator_settings \<Rightarrow> string \<Rightarrow> autonomy_level \<Rightarrow> bool \<times> autonomy_level" where
  "restrict_autonomy st now al =
     (if al_level al = ''restricted'' then (False, al)
      else let previous = al_level al;
               al2 = (if previous = ''expanded'' then reset_to_standard st al
                      else if previous = ''standard'' then
                        al\<lparr>al_level := ''restricted'',
                           al_min_confidence := min (rs_min_confidence_ceiling st) (al_min_confidence al + 0.10),
                           al_min_samples := min (rs_min_samples_ceiling st) (al_min_samples al + 20),
                           al_max_auto_applies_per_day := max 2 (al_max_auto_applies_per_day al - 5),
                           al_allowed_auto_types := [''threshold'']\<rparr>
                      else al)
           in (True, stamp now (''restricted from '' @ previous @ '' (success rate < 70%)'') al2))"

section \<open>Persistence\<close>

definition autonomy_data :: "autonomy_level \<Rightarrow> json" where
  "autonomy_data al =
     jobj [(''level'', jstr (al_level al)), (''min_confidence'', JFloat (Fin (al_min_confidence al))),
           (''min_samples'', JInt (al_min_samples al)),
           (''max_auto_applies_per_day'', JInt (al_max_auto_applies_per_day al)),
           (''allowed_auto_types'', JArr (map jstr (al_allowed_auto_types al))),
           (''last_adjusted'', jstr (al_last_adjusted al)), (''reason'', jstr (al_reason al))]"

definition autonomy_payload :: "autonomy_level \<Rightarrow> json" where
  "autonomy_payload al = jobj [(''type'', jstr ''observer_autonomy''), (''data'', autonomy_data al)]"

text \<open>The reply is only logged.\<close>

definition persist_autonomy_level :: "'w http \<Rightarrow> self_regulator \<Rightarrow> 'w \<Rightarrow> 'w" where
  "persist_autonomy_level http sr w =
     (if \<not> sr_started sr then w
      else snd (http MemoryService POST ''/patterns'' (Some (autonomy_payload (sr_autonomy sr))) w))"

text \<open>
  What a restart finds: the fields absent from the stored data keep their value. A field of
  another type than the service writes is not modelled (\<open>OtherTypes\<close>).
\<close>

datatype restored = Restored autonomy_level | Raised py_error | OtherTypes

fun as_text :: "json \<Rightarrow> string option" where
  "as_text (JStr us) = (if list_all (\<lambda>u. u < 256) us then Some (map char_of us) else None)"
| "as_text _ = None"

fun as_real :: "json \<Rightarrow> real option" where
  "as_real (JFloat (Fin x)) = Some x"
| "as_real _ = None"

fun as_int :: "json \<Rightarrow> int option" where
  "as_int (JInt i) = Some i"
| "as_int _ = None"

fun as_texts :: "json \<Rightarrow> string list option" where
  "as_texts (JArr vs) = those (map as_text vs)"
| "as_texts _ = None"

definition stored_get :: "(json \<Rightarrow> 'a option) \<Rightarrow> string \<Rightarrow> 'a \<Rightarrow> json \<Rightarrow> 'a option" where
  "stored_get as key dflt stored = (case json_field key stored of None \<Rightarrow> Some dflt | Some v \<Rightarrow> as v)"

definition decode_autonomy :: "json \<Rightarrow> autonomy_level \<Rightarrow> autonomy_level option" where
  "decode_autonomy stored al =
     (case (stored_get as_text ''level'' (al_level al) stored,
            stored_get as_real ''min_confidence'' (al_min_confidence al) stored,
            stored_get as_int ''min_samples'' (al_min_samples al) stored,
            stored_get as_int ''max_auto_applies_per_day'' (al_max_auto_applies_per_day al) stored,
            stored_get as_texts ''allowed_auto_types'' (al_allowed_auto_types al) stored,
            stored_get as_text ''last_adjusted'' (al_last_adjusted al) stored,
            stored_get as_text ''reason'' (al_reason al) stored) of
        (Some l, Some c, Some n, Some m, Some ts, Some t, Some r) \<Rightarrow>
          Some \<lparr>al_level = l, al_min_confidence = c, al_min_samples = n, al_max_auto_applies_per_day = m,
                al_allowed_auto_types = ts, al_last_adjusted = t, al_reason = r\<rparr>
      | _ \<Rightarrow> None)"

definition restore_items :: "json list \<Rightarrow> autonomy_level \<Rightarrow> restored" where
  "restore_items items al =
     (case items of
        [] \<Rightarrow> Restored al
      | JObj d # _ \<Rightarrow>
          (case dict_get_default d (ustr ''data'') (JObj []) of
             JObj s \<Rightarrow> (case decode_autonomy (JObj s) al of None \<Rightarrow> OtherTypes | Some a \<Rightarrow> Restored a)
           | _ \<Rightarrow> Raised AttributeError)
      | _ \<Rightarrow> Raised AttributeError)"

definition restore_reply :: "http_reply \<Rightarrow> autonomy_level \<Rightarrow> restored" where
  "restore_reply r al =
     (case r of
        HttpError \<Rightarrow> Restored al
      | Reply status body \<Rightarrow>
          if status \<noteq> 200 then Restored al
          else case body of
                 None \<Rightarrow> Raised py_error.ValueError
               | Some (JArr items) \<Rightarrow> restore_items items al
               | Some (JObj d) \<Rightarrow>
                   (case dict_get_default d (ustr ''items'') (JArr []) of
                      JArr items \<Rightarrow> restore_items items al
                    | v \<Rightarrow> if json_truthy v then OtherTypes else Restored al)
               | Some _ \<Rightarrow> Raised AttributeError)"

definition sr_start :: "'w http \<Rightarrow> self_regulator \<Rightarrow> 'w \<Rightarrow> restored \<times> self_regulator \<times> 'w" where
  "sr_start http sr w =
     (let sr = sr\<lparr>sr_started := True\<rparr>;
          (r, w) = http MemoryService GET ''/patterns?type=observer_autonomy&limit=1'' None w;
          res = restore_reply r (sr_autonomy sr)
      in (res, (case res of Restored al \<Rightarrow> sr\<lparr>sr_autonomy := al\<rparr> | _ \<Rightarrow> sr), w))"

section \<open>The weekly evaluation\<close>

definition week :: real where
  "week = 7 * 24 * 3600"

definition recent_changes :: "real \<Rightarrow> heap \<Rightarrow> self_regulator \<Rightarrow> change list" where
  "recent_changes now hp sr =
     filter (\<lambda>c. now - week \<le> ch_proposed_at c) (map ((!) hp) (sr_change_history sr))"

definition count_status :: "change_status list \<Rightarrow> change list \<Rightarrow> nat" where
  "count_status ss cs = count_if (\<lambda>c. ch_status c \<in> set ss) cs"

definition adjust_autonomy ::
    "regulator_settings \<Rightarrow> string \<Rightarrow> nat \<Rightarrow> real \<Rightarrow> autonomy_level \<Rightarrow> bool \<times> autonomy_level" where
  "adjust_autonomy st now total_resolved success_rate al =
     (if 5 \<le> total_resolved
      then if 0.90 < success_rate then expand_autonomy st now al
           else if success_rate < 0.70 then restrict_autonomy st now al
           else (False, al)
      else (False, al))"

definition evaluate ::
    "regulator_settings \<Rightarrow> (real \<Rightarrow> string) \<Rightarrow> 'w http \<Rightarrow> real \<Rightarrow> real \<Rightarrow> heap \<Rightarrow> self_regulator \<Rightarrow> 'w \<Rightarrow>
     self_eval_result \<times> self_regulator \<times> 'w" where
  "evaluate st isoformat http now now2 hp sr w =
     (let cs = recent_changes now hp sr;
          applied_count = count_status [APPLIED, VALIDATED, CANARY_PASSED] cs;
          rolled_back_count = count_status [ROLLED_BACK, CANARY_FAILED] cs;
          validated_count = count_status [VALIDATED] cs;
          total_resolved = applied_count + rolled_back_count;
          success_rate = (if 0 < total_resolved then real validated_count / real total_resolved else 1);
          previous = al_level (sr_autonomy sr);
          (made, al) = adjust_autonomy st (isoformat now2) total_resolved success_rate (sr_autonomy sr);
          result = \<lparr>se_period_start = now - week, se_period_end = now, se_total_changes = length cs,
                    se_applied_count = applied_count, se_rolled_back_count = rolled_back_count,
                    se_validated_count = validated_count, se_success_rate = success_rate,
                    se_previous_autonomy = previous, se_new_autonomy = al_level al, se_adjustment_made = made\<rparr>;
          h = sr_eval_history sr @ [result];
          sr = sr\<lparr>sr_autonomy := al, sr_eval_history := (if 52 < length h then last_n 52 h else h)\<rparr>
      in (result, sr, persist_autonomy_level http sr w))"

section \<open>The regulator as a transition system\<close>

text \<open>The state after an evaluation does not depend on the world, which is a number here.\<close>

inductive regulator_step :: "regulator_settings \<Rightarrow> self_regulator \<Rightarrow> self_regulator \<Rightarrow> bool"
  for st :: regulator_settings where
  noted: "regulator_step st sr (record_change st r sr)"
| weekly: "evaluate st isoformat http now now2 hp sr (w :: nat) = (res, sr', w') \<Longrightarrow> regulator_step st sr sr'"

text \<open>The three levels the service can be in, each with its own parameters.\<close>

definition autonomy_form :: "regulator_settings \<Rightarrow> autonomy_level \<Rightarrow> bool" where
  "autonomy_form st al \<longleftrightarrow>
     (let c = rs_auto_apply_min_confidence st; n = rs_auto_apply_min_samples st; m = rs_max_auto_applies_per_day st
      in (al_level al, al_min_confidence al, al_min_samples al, al_max_auto_applies_per_day al, al_allowed_auto_types al) \<in>
         {(''standard'', c, n, m, standard_types),
          (''expanded'', max (rs_min_confidence_floor st) (c - 0.05), max (rs_min_samples_floor st) (n - 5),
             min 20 (m + 5), standard_types @ [''prompt'']),
          (''restricted'', min (rs_min_confidence_ceiling st) (c + 0.10), min (rs_min_samples_ceiling st) (n + 20),
             max 2 (m - 5), [''threshold''])})"

definition regulator_inv :: "regulator_settings \<Rightarrow> self_regulator \<Rightarrow> bool" where
  "regulator_inv st sr \<longleftrightarrow>
     autonomy_form st (sr_autonomy sr) \<and> length (sr_eval_history sr) \<le> 52
     \<and> (0 < rs_max_auto_applies_per_day st \<longrightarrow>
         int (length (sr_change_history sr)) \<le> rs_max_auto_applies_per_day st * 30)"

lemma autonomy_form_stamp [simp]: "autonomy_form st (stamp now reason al) = autonomy_form st al"
  by (simp add: autonomy_form_def stamp_def)

lemma reset_to_standard_form [simp]: "autonomy_form st (reset_to_standard st al)"
  by (simp add: autonomy_form_def reset_to_standard_def)

lemma standard_parts:
  "autonomy_form st al \<Longrightarrow> al_level al = ''standard'' \<Longrightarrow>
     al_min_confidence al = rs_auto_apply_min_confidence st \<and> al_min_samples al = rs_auto_apply_min_samples st
     \<and> al_max_auto_applies_per_day al = rs_max_auto_applies_per_day st"
  by (simp add: autonomy_form_def Let_def)

lemma autonomy_levels:
  "autonomy_form st al \<Longrightarrow> al_level al \<in> {''standard'', ''expanded'', ''restricted''}"
  by (auto simp: autonomy_form_def Let_def)

lemma expand_form: "autonomy_form st al \<Longrightarrow> autonomy_form st (snd (expand_autonomy st now al))"
  using standard_parts [of st al] autonomy_levels [of st al]
  by (simp add: expand_autonomy_def Let_def) (simp add: autonomy_form_def Let_def)

lemma restrict_form: "autonomy_form st al \<Longrightarrow> autonomy_form st (snd (restrict_autonomy st now al))"
  using standard_parts [of st al] autonomy_levels [of st al]
  by (simp add: restrict_autonomy_def Let_def) (simp add: autonomy_form_def Let_def)

lemma adjust_autonomy_form:
  "autonomy_form st al \<Longrightarrow> adjust_autonomy st now n q al = (made, al') \<Longrightarrow> autonomy_form st al'"
  using expand_form [of st al now] restrict_form [of st al now]
  by (auto simp: adjust_autonomy_def split: if_splits)

lemma evaluate_parts:
  assumes "evaluate st isoformat http now now2 hp sr w = (res, sr', w')"
  defines "n \<equiv> se_applied_count res + se_rolled_back_count res"
  shows "adjust_autonomy st (isoformat now2) n (se_success_rate res) (sr_autonomy sr)
       = (se_adjustment_made res, sr_autonomy sr')"
    and "se_validated_count res = count_status [VALIDATED] (recent_changes now hp sr)"
    and "se_success_rate res = (if 0 < n then real (se_validated_count res) / real n else 1)"
    and "sr_eval_history sr' = last_n 52 (sr_eval_history sr @ [res])"
    and "sr_change_history sr' = sr_change_history sr"
proof -
  define k where "k = count_status [APPLIED, VALIDATED, CANARY_PASSED] (recent_changes now hp sr)
    + count_status [ROLLED_BACK, CANARY_FAILED] (recent_changes now hp sr)"
  define q where "q = (if 0 < k then real (count_status [VALIDATED] (recent_changes now hp sr)) / real k else 1)"
  obtain made al where a: "adjust_autonomy st (isoformat now2) k q (sr_autonomy sr) = (made, al)" by fastforce
  have res: "se_applied_count res + se_rolled_back_count res = k \<and> se_success_rate res = q
    \<and> se_validated_count res = count_status [VALIDATED] (recent_changes now hp sr) \<and> se_adjustment_made res = made"
    using assms(1) [unfolded evaluate_def Let_def, folded k_def, folded q_def] a by (auto simp: k_def)
  have e: "sr_autonomy sr' = al \<and> sr_change_history sr' = sr_change_history sr
    \<and> sr_eval_history sr' = (let h = sr_eval_history sr @ [res] in if 52 < length h then last_n 52 h else h)"
    using assms(1) [unfolded evaluate_def Let_def, folded k_def, folded q_def] a by (auto simp: Let_def)
  then show "sr_eval_history sr' = last_n 52 (sr_eval_history sr @ [res])" by (simp add: Let_def last_n_def)
  show "adjust_autonomy st (isoformat now2) n (se_success_rate res) (sr_autonomy sr)
       = (se_adjustment_made res, sr_autonomy sr')"
    "se_validated_count res = count_status [VALIDATED] (recent_changes now hp sr)"
    "se_success_rate res = (if 0 < n then real (se_validated_count res) / real n else 1)"
    "sr_change_history sr' = sr_change_history sr"
    using res e a by (simp_all add: n_def q_def)
qed

lemma regulator_inv_init: "regulator_inv st (init_regulator st now)"
  by (simp add: regulator_inv_def init_regulator_def init_autonomy_def autonomy_form_def)

lemma regulator_inv_step: "regulator_inv st sr \<Longrightarrow> regulator_step st sr sr' \<Longrightarrow> regulator_inv st sr'"
proof (erule regulator_step.cases)
  fix s r assume "regulator_inv st sr" "sr = s" "sr' = record_change st r s"
  then show ?thesis
    by (auto simp: regulator_inv_def record_change_def slice_from_end_def last_n_def Let_def)
next
  fix isoformat http now now2 hp s res s' and w w' :: nat
  assume i: "regulator_inv st sr" and e: "sr = s" "sr' = s'"
    and ev: "evaluate st isoformat http now now2 hp s w = (res, s', w')"
  have "autonomy_form st (sr_autonomy s')"
    using adjust_autonomy_form [OF _ evaluate_parts(1) [OF ev]] i e by (simp add: regulator_inv_def)
  then show ?thesis
    using evaluate_parts(4,5) [OF ev] i e by (simp add: regulator_inv_def last_n_def)
qed

interpretation regulator: invariant_system "\<lambda>sr. \<exists>now. sr = init_regulator st now" "regulator_step st" "regulator_inv st"
  for st :: regulator_settings
  by unfold_locales (auto intro: regulator_inv_init regulator_inv_step)

section \<open>Facts\<close>

lemma as_text_jstr [simp]: "as_text (jstr s) = Some s"
  by (simp add: jstr_def ustr_def list_all_iff comp_def)

lemma those_jstr: "those (map as_text (map jstr ts)) = Some ts"
  by (induction ts) simp_all

lemma decode_autonomy_data: "decode_autonomy (autonomy_data al) al2 = Some al"
  by (simp add: decode_autonomy_def autonomy_data_def stored_get_def json_field_jobj those_jstr del: map_map)

lemma count_if_zero: "list_all (\<lambda>x. \<not> p x) xs \<Longrightarrow> count_if p xs = 0"
  by (auto simp: count_if_def list_all_iff)

section \<open>Properties\<close>

text \<open>
  (autonomy has three levels): after any sequence of recorded changes and weekly evaluations
  the autonomy is one of three levels, each with the parameters its name stands for; the evaluation
  history holds at most 52 results and the change history at most 30 days of the daily limit.
\<close>

theorem regulator_invariant:
  assumes "reachable (\<lambda>sr. \<exists>now. sr = init_regulator st now) (regulator_step st) sr"
  shows "autonomy_form st (sr_autonomy sr) \<and> length (sr_eval_history sr) \<le> 52
    \<and> (0 < rs_max_auto_applies_per_day st \<longrightarrow>
         int (length (sr_change_history sr)) \<le> rs_max_auto_applies_per_day st * 30)"
  using regulator.reachable_inv [OF assms] by (simp add: regulator_inv_def)

definition sample_regulator_settings :: regulator_settings where
  "sample_regulator_settings =
     \<lparr>rs_auto_apply_min_confidence = 0.8, rs_auto_apply_min_samples = 20, rs_max_auto_applies_per_day = 10,
      rs_min_confidence_floor = 0.6, rs_min_confidence_ceiling = 0.95, rs_min_samples_floor = 10,
      rs_min_samples_ceiling = 100\<rparr>"

theorem regulator_invariant_witness:
  "autonomy_form sample_regulator_settings
     (sr_autonomy (record_change sample_regulator_settings 0 (init_regulator sample_regulator_settings ''t'')))"
proof -
  have "reachable (\<lambda>sr. \<exists>now. sr = init_regulator sample_regulator_settings now) (regulator_step sample_regulator_settings)
     (record_change sample_regulator_settings 0 (init_regulator sample_regulator_settings ''t''))"
    by (blast intro: reachable_step [where step = "regulator_step sample_regulator_settings"] reachable_init regulator_step.noted)
  from regulator_invariant [OF this] show ?thesis by blast
qed

text \<open>
  (the autonomy survives a restart): when the memory service returns what was posted to it, a
  restarted regulator has exactly the persisted autonomy level, whatever level it started with.
\<close>

theorem autonomy_roundtrip:
  assumes "http MemoryService GET ''/patterns?type=observer_autonomy&limit=1'' None w =
      (Reply 200 (Some (JArr [autonomy_payload (sr_autonomy sr)])), w')"
  shows "sr_start http sr2 w =
      (Restored (sr_autonomy sr), sr2\<lparr>sr_started := True, sr_autonomy := sr_autonomy sr\<rparr>, w')"
proof -
  have "dict_get_default (map (\<lambda>(k, v). (ustr k, v)) [(''type'', jstr ''observer_autonomy''), (''data'', autonomy_data a)])
      (ustr ''data'') (JObj []) = autonomy_data a" for a
    by (simp add: dict_get_default_def)
  moreover obtain d where "autonomy_data (sr_autonomy sr) = JObj d" by (simp add: autonomy_data_def jobj_def)
  ultimately show ?thesis
    using assms decode_autonomy_data [of "sr_autonomy sr" "sr_autonomy sr2"]
    by (simp add: sr_start_def restore_reply_def restore_items_def autonomy_payload_def jobj_def Let_def)
qed

theorem autonomy_roundtrip_witness:
  "\<exists>sr w'. sr_start (\<lambda>s m p b w. (Reply 200 (Some (JArr [autonomy_payload (init_autonomy sample_regulator_settings ''t'')])), w))
     (init_regulator sample_regulator_settings ''u'') (0 :: nat) = (Restored (init_autonomy sample_regulator_settings ''t''), sr, w')"
proof -
  have "(\<lambda>s m p b w. (Reply 200 (Some (JArr [autonomy_payload (init_autonomy sample_regulator_settings ''t'')])), w))
      MemoryService GET ''/patterns?type=observer_autonomy&limit=1'' None (0 :: nat)
    = (Reply 200 (Some (JArr [autonomy_payload (sr_autonomy (init_regulator sample_regulator_settings ''t''))])), 0)"
    by (simp add: init_regulator_def)
  from autonomy_roundtrip [where http = "\<lambda>s m p b w. (Reply 200 (Some (JArr [autonomy_payload (init_autonomy sample_regulator_settings ''t'')])), w)"
      and sr = "init_regulator sample_regulator_settings ''t''", OF this, of "init_regulator sample_regulator_settings ''u''"]
  show ?thesis
    by (simp add: init_regulator_def)
qed

text \<open>
  (without validated changes autonomy only shrinks): when no change of the history is marked
  validated, which is the status the service never sets, the evaluation never expands the autonomy;
  with five or more resolved changes in the week it restricts it, even if none was rolled back.
\<close>

theorem unvalidated_changes_restrict:
  assumes "list_all (\<lambda>c. ch_status c \<noteq> VALIDATED) (recent_changes now hp sr)"
    and "evaluate st isoformat http now now2 hp sr w = (res, sr', w')"
    and "5 \<le> se_applied_count res + se_rolled_back_count res"
  shows "se_success_rate res = 0 \<and> se_validated_count res = 0
    \<and> (se_adjustment_made res, sr_autonomy sr') = restrict_autonomy st (isoformat now2) (sr_autonomy sr)"
proof -
  have "se_validated_count res = 0"
    using assms(1) evaluate_parts(2) [OF assms(2)] by (simp add: count_status_def count_if_zero)
  moreover from this have "se_success_rate res = 0" using evaluate_parts(3) [OF assms(2)] assms(3)
    by (cases "se_applied_count res") auto
  ultimately show ?thesis
    using evaluate_parts(1) [OF assms(2)] assms(3) by (simp add: adjust_autonomy_def)
qed

theorem unvalidated_changes_restrict_witness:
  "al_level (sr_autonomy (fst (snd (evaluate sample_regulator_settings (\<lambda>t. ''t'') (\<lambda>s m p b w. (HttpError, w)) 0 0
      [sample_change\<lparr>ch_status := APPLIED\<rparr>]
      ((init_regulator sample_regulator_settings ''t'')\<lparr>sr_change_history := [0, 0, 0, 0, 0]\<rparr>) (0 :: nat))))) = ''restricted''"
proof -
  let ?sr = "(init_regulator sample_regulator_settings ''t'')\<lparr>sr_change_history := [0, 0, 0, 0, 0]\<rparr>"
  let ?hp = "[sample_change\<lparr>ch_status := APPLIED\<rparr>]"
  have c: "recent_changes 0 ?hp ?sr = replicate 5 (sample_change\<lparr>ch_status := APPLIED\<rparr>)"
    by (simp add: recent_changes_def week_def sample_change_def numeral_eq_Suc)
  obtain res sr' w' where e: "evaluate sample_regulator_settings (\<lambda>t. ''t'') (\<lambda>s m p b w. (HttpError, w)) 0 0
      ?hp ?sr (0 :: nat) = (res, sr', w')" by (metis prod_cases3)
  have "5 \<le> se_applied_count res + se_rolled_back_count res"
    using e c by (auto simp: evaluate_def Let_def count_status_def count_if_def split: prod.splits)
  moreover have "list_all (\<lambda>c. ch_status c \<noteq> VALIDATED) (recent_changes 0 ?hp ?sr)" by (simp add: c list_all_iff)
  ultimately have "(se_adjustment_made res, sr_autonomy sr') = restrict_autonomy sample_regulator_settings ''t'' (sr_autonomy ?sr)"
    using unvalidated_changes_restrict [OF _ e] by simp
  then have "al_level (sr_autonomy sr') = ''restricted''"
    by (simp add: restrict_autonomy_def init_regulator_def init_autonomy_def stamp_def Let_def)
  then show ?thesis by (simp only: e fst_conv snd_conv)
qed

end
