(* ===== verification/Obs_Breaker.thy ===== *)
theory Obs_Breaker
  imports Py_Prelude
begin

text \<open>
  The observer's circuit breaker (\<^verbatim>\<open>observer/src/circuit_breaker.py\<close>). Instants are real
  numbers of seconds, and every clock reading is an argument; ISO timestamps are represented by
  the instants they print.
\<close>

record breaker_settings =
  max_rollbacks :: int
  window_hours :: int
  cooldown_hours :: int

datatype breaker_state = CLOSED | OPEN | HALF_OPEN

record circuit_breaker =
  cb_state :: breaker_state
  cb_tripped_at :: "real option"
  cb_rollbacks :: "real list"
  cb_half_open_probe_used :: bool

definition init_breaker :: circuit_breaker where
  "init_breaker =
     \<lparr>cb_state = CLOSED, cb_tripped_at = None, cb_rollbacks = [], cb_half_open_probe_used = False\<rparr>"

definition hours :: "int \<Rightarrow> real" where
  "hours n = 3600 * real_of_int n"

definition trip :: "real \<Rightarrow> circuit_breaker \<Rightarrow> circuit_breaker" where
  "trip since b = b\<lparr>cb_state := OPEN, cb_tripped_at := Some since, cb_half_open_probe_used := False\<rparr>"

definition check_cooldown :: "breaker_settings \<Rightarrow> real \<Rightarrow> circuit_breaker \<Rightarrow> circuit_breaker" where
  "check_cooldown st now b =
     (case cb_tripped_at b of
        None \<Rightarrow> b
      | Some since \<Rightarrow>
          if cb_state b = OPEN \<and> since + hours (cooldown_hours st) \<le> now
          then b\<lparr>cb_state := HALF_OPEN, cb_half_open_probe_used := False\<rparr> else b)"

definition count_recent_rollbacks :: "breaker_settings \<Rightarrow> real \<Rightarrow> circuit_breaker \<Rightarrow> nat" where
  "count_recent_rollbacks st now b =
     count_if (\<lambda>rb. now - hours (window_hours st) \<le> rb) (cb_rollbacks b)"

definition is_open :: "breaker_settings \<Rightarrow> real \<Rightarrow> circuit_breaker \<Rightarrow> bool \<times> circuit_breaker" where
  "is_open st now b =
     (let b = check_cooldown st now b in (cb_state b = OPEN \<or> cb_state b = HALF_OPEN, b))"

definition breaker_state_of ::
    "breaker_settings \<Rightarrow> real \<Rightarrow> circuit_breaker \<Rightarrow> breaker_state \<times> circuit_breaker" where
  "breaker_state_of st now b = (let b = check_cooldown st now b in (cb_state b, b))"

text \<open>The second clock reading is the one of the count.\<close>

definition record_rollback ::
    "breaker_settings \<Rightarrow> real \<Rightarrow> real \<Rightarrow> circuit_breaker \<Rightarrow> bool \<times> circuit_breaker" where
  "record_rollback st now now2 b =
     (let b = b\<lparr>cb_rollbacks := cb_rollbacks b @ [now]\<rparr>
      in if cb_state b = HALF_OPEN then (True, trip now b)
         else if max_rollbacks st \<le> int (count_recent_rollbacks st now2 b) then (True, trip now b)
         else (False, b))"

definition record_success :: "circuit_breaker \<Rightarrow> circuit_breaker" where
  "record_success b =
     (if cb_state b = HALF_OPEN
      then b\<lparr>cb_state := CLOSED, cb_tripped_at := None, cb_half_open_probe_used := False\<rparr> else b)"

definition can_auto_apply :: "breaker_settings \<Rightarrow> real \<Rightarrow> circuit_breaker \<Rightarrow> bool \<times> circuit_breaker" where
  "can_auto_apply st now b =
     (let b = check_cooldown st now b
      in case cb_state b of
           CLOSED \<Rightarrow> (True, b)
         | HALF_OPEN \<Rightarrow>
             if \<not> cb_half_open_probe_used b then (True, b\<lparr>cb_half_open_probe_used := True\<rparr>) else (False, b)
         | OPEN \<Rightarrow> (False, b))"

definition reset_breaker :: "circuit_breaker \<Rightarrow> breaker_state \<times> circuit_breaker" where
  "reset_breaker b =
     (cb_state b, b\<lparr>cb_state := CLOSED, cb_tripped_at := None, cb_half_open_probe_used := False\<rparr>)"

record breaker_status =
  cbs_state :: breaker_state
  cbs_rollback_count :: nat
  cbs_tripped_at :: "real option"
  cbs_cooldown_ends_at :: "real option"
  cbs_half_open_probe_used :: bool

definition breaker_get_status ::
    "breaker_settings \<Rightarrow> real \<Rightarrow> real \<Rightarrow> circuit_breaker \<Rightarrow> breaker_status \<times> circuit_breaker" where
  "breaker_get_status st now now2 b =
     (let b = check_cooldown st now b
      in (\<lparr>cbs_state = cb_state b, cbs_rollback_count = count_recent_rollbacks st now2 b,
           cbs_tripped_at = cb_tripped_at b,
           cbs_cooldown_ends_at = map_option (\<lambda>since. since + hours (cooldown_hours st)) (cb_tripped_at b),
           cbs_half_open_probe_used = cb_half_open_probe_used b\<rparr>, b))"

section \<open>The state machine\<close>

inductive breaker_step :: "breaker_settings \<Rightarrow> circuit_breaker \<Rightarrow> circuit_breaker \<Rightarrow> bool"
  for st :: breaker_settings where
  ask_open: "breaker_step st b (snd (is_open st now b))"
| ask_apply: "breaker_step st b (snd (can_auto_apply st now b))"
| ask_state: "breaker_step st b (snd (breaker_state_of st now b))"
| ask_status: "breaker_step st b (snd (breaker_get_status st now now2 b))"
| rollback: "breaker_step st b (snd (record_rollback st now now2 b))"
| success: "breaker_step st b (record_success b)"
| reset: "breaker_step st b (snd (reset_breaker b))"

definition breaker_inv :: "circuit_breaker \<Rightarrow> bool" where
  "breaker_inv b \<longleftrightarrow>
     (cb_state b = CLOSED \<longleftrightarrow> cb_tripped_at b = None)
     \<and> (cb_half_open_probe_used b \<longrightarrow> cb_state b = HALF_OPEN)
     \<and> (\<forall>t. cb_tripped_at b = Some t \<longrightarrow> t \<in> set (cb_rollbacks b))"

lemma breaker_inv_init [inv_intros]: "breaker_inv init_breaker"
  by (simp add: breaker_inv_def init_breaker_def)

lemma breaker_inv_cooldown [inv_intros]: "breaker_inv b \<Longrightarrow> breaker_inv (check_cooldown st now b)"
  by (auto simp: breaker_inv_def check_cooldown_def split: option.split)

lemma breaker_inv_can_auto_apply [inv_intros]:
  "breaker_inv b \<Longrightarrow> breaker_inv (snd (can_auto_apply st now b))"
  using breaker_inv_cooldown [of b st now]
  by (auto simp: can_auto_apply_def breaker_inv_def Let_def split: breaker_state.split)

lemma breaker_inv_rollback [inv_intros]:
  "breaker_inv b \<Longrightarrow> breaker_inv (snd (record_rollback st now now2 b))"
  by (auto simp: breaker_inv_def record_rollback_def trip_def Let_def)

lemma breaker_inv_success [inv_intros]: "breaker_inv b \<Longrightarrow> breaker_inv (record_success b)"
  by (auto simp: breaker_inv_def record_success_def)

lemma breaker_inv_reset [inv_intros]: "breaker_inv b \<Longrightarrow> breaker_inv (snd (reset_breaker b))"
  by (auto simp: breaker_inv_def reset_breaker_def)

lemma breaker_inv_step: "breaker_inv b \<Longrightarrow> breaker_step st b b' \<Longrightarrow> breaker_inv b'"
  by (erule breaker_step.cases)
     (auto simp: is_open_def breaker_state_of_def breaker_get_status_def Let_def intro: inv_intros)

interpretation breaker: invariant_system "\<lambda>b. b = init_breaker" "breaker_step st" breaker_inv
  for st :: breaker_settings
  by unfold_locales (auto intro: breaker_inv_init breaker_inv_step)

text \<open>A run of \<open>can_auto_apply\<close> calls, one for each clock reading: the answers.\<close>

fun ask_all :: "breaker_settings \<Rightarrow> real list \<Rightarrow> circuit_breaker \<Rightarrow> bool list \<times> circuit_breaker" where
  "ask_all st [] b = ([], b)"
| "ask_all st (t # ts) b =
     (let (ans, b1) = can_auto_apply st t b; (rest, b2) = ask_all st ts b1 in (ans # rest, b2))"

lemma fst_ask_all_Cons:
  "fst (ask_all st (t # ts) b) =
     fst (can_auto_apply st t b) # fst (ask_all st ts (snd (can_auto_apply st t b)))"
  by (simp split: prod.split)

declare ask_all.simps(2) [simp del]

lemma can_auto_apply_half_open:
  "cb_state b = HALF_OPEN \<Longrightarrow> can_auto_apply st t b =
     (\<not> cb_half_open_probe_used b, b\<lparr>cb_half_open_probe_used := True\<rparr>)"
  by (cases b) (auto simp: can_auto_apply_def check_cooldown_def Let_def split: option.split)

lemma ask_used:
  "cb_state b = HALF_OPEN \<Longrightarrow> cb_half_open_probe_used b \<Longrightarrow> count_if id (fst (ask_all st ts b)) = 0"
  by (induction ts arbitrary: b) (auto simp: fst_ask_all_Cons can_auto_apply_half_open)

lemma ask_half_open:
  "cb_state b = HALF_OPEN \<Longrightarrow> count_if id (fst (ask_all st ts b)) \<le> 1"
  by (cases ts) (auto simp: fst_ask_all_Cons can_auto_apply_half_open ask_used)

lemma ask_all_cooldown:
  "fst (ask_all st (t # ts) b) = fst (ask_all st (t # ts) (check_cooldown st t b))"
proof -
  have "check_cooldown st t (check_cooldown st t b) = check_cooldown st t b"
    by (auto simp: check_cooldown_def split: option.split)
  then show ?thesis by (simp add: fst_ask_all_Cons can_auto_apply_def Let_def)
qed

lemma ask_open_once:
  "breaker_inv b \<Longrightarrow> cb_state b \<noteq> CLOSED \<Longrightarrow> count_if id (fst (ask_all st ts b)) \<le> 1"
proof (induction ts arbitrary: b)
  case (Cons t ts)
  show ?case
  proof (cases "cb_state (check_cooldown st t b)")
    case CLOSED
    with Cons.prems show ?thesis by (auto simp: check_cooldown_def split: option.splits if_splits)
  next
    case OPEN
    with Cons.IH [OF breaker_inv_cooldown [OF Cons.prems(1), of st t]] show ?thesis
      by (simp add: fst_ask_all_Cons can_auto_apply_def Let_def)
  next
    case HALF_OPEN
    from ask_half_open [OF HALF_OPEN, of st "t # ts"] show ?thesis
      by (subst ask_all_cooldown)
  qed
qed simp

lemma ask_before_cooldown:
  "cb_state b = OPEN \<Longrightarrow> cb_tripped_at b = Some t0 \<Longrightarrow> \<forall>t \<in> set ts. t < t0 + hours (cooldown_hours st) \<Longrightarrow>
   count_if id (fst (ask_all st ts b)) = 0"
proof (induction ts)
  case (Cons t ts)
  then have "check_cooldown st t b = b" by (simp add: check_cooldown_def)
  with Cons show ?case by (simp add: fst_ask_all_Cons can_auto_apply_def Let_def)
qed simp

section \<open>Properties\<close>

text \<open>
  (the breaker's state machine): in every reachable state the breaker is closed exactly
  when it holds no trip time, the probe is used only when half open, and a trip time is the
  time of a recorded rollback.
\<close>

theorem breaker_invariant:
  assumes "reachable (\<lambda>b. b = init_breaker) (breaker_step st) b"
  shows "breaker_inv b"
  using breaker.reachable_inv [OF assms] .

text \<open>
  (at most one probe): in a reachable state that is not closed, however often and whenever
  the breaker is asked, it lets at most one change through until a success, a rollback
  or a reset; and none at all before the cooldown after its last trip has passed.
\<close>

theorem at_most_one_probe:
  assumes "reachable (\<lambda>b. b = init_breaker) (breaker_step st) b" and "cb_state b \<noteq> CLOSED"
  shows "count_if id (fst (ask_all st ts b)) \<le> 1
    \<and> (\<forall>t0. cb_state b = OPEN \<and> cb_tripped_at b = Some t0
          \<and> (\<forall>t \<in> set ts. t < t0 + hours (cooldown_hours st)) \<longrightarrow>
        count_if id (fst (ask_all st ts b)) = 0)"
  using ask_open_once [OF breaker.reachable_inv [OF assms(1)] assms(2)] ask_before_cooldown by blast

text \<open>
  (when the breaker trips): a rollback trips the breaker exactly when it is half open or
  the rollbacks of the window, this one included, reach the limit; the trip is at the time of
  the rollback. Otherwise the state is unchanged. Every rollback is remembered.
\<close>

theorem rollback_trips_iff:
  assumes "record_rollback st now now2 b = (tripped, b')"
    and "now2 - hours (window_hours st) \<le> now"
  shows "tripped = (cb_state b = HALF_OPEN
           \<or> max_rollbacks st \<le> int (count_recent_rollbacks st now2 b) + 1)
    \<and> cb_rollbacks b' = cb_rollbacks b @ [now]
    \<and> (if tripped then cb_state b' = OPEN \<and> cb_tripped_at b' = Some now
       else cb_state b' = cb_state b \<and> cb_tripped_at b' = cb_tripped_at b)"
  using assms by (auto simp: record_rollback_def trip_def count_recent_rollbacks_def Let_def split: if_splits)

text \<open>
  (a reset keeps the history): resetting closes the breaker but forgets no
  rollback, so when one rollback less than the limit lies in the window the first rollback after
  the reset trips it again.
\<close>

theorem reset_keeps_rollbacks:
  assumes "max_rollbacks st \<le> int (count_recent_rollbacks st now2 b) + 1"
    and "now2 - hours (window_hours st) \<le> now"
  shows "cb_state (snd (reset_breaker b)) = CLOSED
    \<and> fst (record_rollback st now now2 (snd (reset_breaker b)))"
  using assms by (simp add: reset_breaker_def record_rollback_def count_recent_rollbacks_def Let_def)

section \<open>Witnesses\<close>

definition default_breaker :: breaker_settings where
  "default_breaker = \<lparr>max_rollbacks = 3, window_hours = 6, cooldown_hours = 12\<rparr>"

definition tripped_breaker :: circuit_breaker where
  "tripped_breaker =
     \<lparr>cb_state = OPEN, cb_tripped_at = Some 200, cb_rollbacks = [0, 100, 200], cb_half_open_probe_used = False\<rparr>"

lemma breaker_rollbacks:
  "snd (record_rollback default_breaker 0 0 init_breaker) = init_breaker\<lparr>cb_rollbacks := [0]\<rparr>"
  "snd (record_rollback default_breaker 100 100 (init_breaker\<lparr>cb_rollbacks := [0]\<rparr>)) = init_breaker\<lparr>cb_rollbacks := [0, 100]\<rparr>"
  "snd (record_rollback default_breaker 200 200 (init_breaker\<lparr>cb_rollbacks := [0, 100]\<rparr>)) = tripped_breaker"
  by (simp_all add: record_rollback_def default_breaker_def init_breaker_def count_recent_rollbacks_def
      hours_def trip_def tripped_breaker_def Let_def)

lemma tripped_reachable: "reachable (\<lambda>b. b = init_breaker) (breaker_step default_breaker) tripped_breaker"
proof -
  have 0: "reachable (\<lambda>b. b = init_breaker) (breaker_step default_breaker) init_breaker"
    by (rule reachable_init) simp
  note 1 = reachable_step [OF 0 rollback [of default_breaker init_breaker 0 0], unfolded breaker_rollbacks]
  note 2 = reachable_step [OF 1 rollback [of default_breaker _ 100 100], unfolded breaker_rollbacks]
  show ?thesis
    using reachable_step [OF 2 rollback [of default_breaker _ 200 200], unfolded breaker_rollbacks] .
qed

theorem breaker_invariant_witness: "breaker_inv tripped_breaker \<and> cb_state tripped_breaker = OPEN"
  using breaker_invariant [OF tripped_reachable] by (simp add: tripped_breaker_def)

theorem at_most_one_probe_witness:
  "count_if id (fst (ask_all default_breaker [300, 50000, 50001] tripped_breaker)) \<le> 1
   \<and> count_if id (fst (ask_all default_breaker [300, 43000] tripped_breaker)) = 0"
proof -
  have "cb_state tripped_breaker \<noteq> CLOSED" by (simp add: tripped_breaker_def)
  from at_most_one_probe [OF tripped_reachable this, of "[300, 50000, 50001]"]
    at_most_one_probe [OF tripped_reachable this, of "[300, 43000]"]
  show ?thesis by (simp add: tripped_breaker_def default_breaker_def hours_def)
qed

theorem rollback_trips_iff_witness:
  "fst (record_rollback default_breaker 200 200 (init_breaker\<lparr>cb_rollbacks := [0, 100]\<rparr>))
   \<and> \<not> fst (record_rollback default_breaker 200 200 (init_breaker\<lparr>cb_rollbacks := [100]\<rparr>))"
proof -
  have h: "200 - hours (window_hours default_breaker) \<le> 200"
    by (simp add: default_breaker_def hours_def)
  have c: "count_recent_rollbacks default_breaker 200 (init_breaker\<lparr>cb_rollbacks := [0, 100]\<rparr>) = 2"
    "count_recent_rollbacks default_breaker 200 (init_breaker\<lparr>cb_rollbacks := [100]\<rparr>) = 1"
    by (simp_all add: count_recent_rollbacks_def default_breaker_def hours_def)
  have d: "max_rollbacks default_breaker = 3" "cb_state (init_breaker\<lparr>cb_rollbacks := rs\<rparr>) = CLOSED" for rs
    by (simp_all add: default_breaker_def init_breaker_def)
  from rollback_trips_iff [OF surjective_pairing h, of "init_breaker\<lparr>cb_rollbacks := [0, 100]\<rparr>", THEN conjunct1]
    rollback_trips_iff [OF surjective_pairing h, of "init_breaker\<lparr>cb_rollbacks := [100]\<rparr>", THEN conjunct1]
  show ?thesis unfolding c d by simp
qed

theorem reset_keeps_rollbacks_witness:
  "cb_state (snd (reset_breaker tripped_breaker)) = CLOSED
   \<and> fst (record_rollback default_breaker 300 300 (snd (reset_breaker tripped_breaker)))"
  by (rule reset_keeps_rollbacks)
     (simp_all add: count_recent_rollbacks_def default_breaker_def hours_def tripped_breaker_def)

end
