(* ===== verification/Obs_Cycle.thy ===== *)
theory Obs_Cycle
  imports Obs_SelfReg Obs_Breaker
begin

text \<open>
  The hourly quality check of the observer (\<^verbatim>\<open>observer/src/main.py\<close>, \<open>_run_quality_check\<close>): log
  entries are aggregated, issues detected and diagnosed, and every diagnosis is turned into a
  change that is applied and recorded. What the check uses of the outside world is the record
  \<open>observer_env\<close>; its log entries and the identifiers of the issues are arguments.
\<close>

record 'w observer_env =
  oe_http :: "'w http"
  oe_post :: "json \<Rightarrow> 'w \<Rightarrow> llm_reply \<times> 'w"
  oe_clock :: "'w clock"
  oe_uuid :: "'w \<Rightarrow> string \<times> 'w"
  oe_repr :: "json \<Rightarrow> nat list"
  oe_render :: "issue \<Rightarrow> string"
  oe_detector :: detector_settings
  oe_proposer :: proposer_settings
  oe_applier :: applier_settings
  oe_breaker :: breaker_settings
  oe_regulator :: regulator_settings

record observer =
  ob_baseline :: baseline
  ob_engine :: diagnosis_engine
  ob_proposer :: proposer
  ob_applier :: applier
  ob_breaker :: circuit_breaker
  ob_regulator :: self_regulator
  ob_heap :: heap

definition label_issue :: "detected_issue \<times> string \<Rightarrow> issue" where
  "label_issue x = detected_issue.extend (fst x) (issue.fields (snd x))"

text \<open>One pair of the loop: propose, allocate, apply, record.\<close>

definition handle_pair ::
    "'w observer_env \<Rightarrow> diagnosis \<Rightarrow> issue \<Rightarrow> observer \<Rightarrow> 'w \<Rightarrow> (py_error + unit) \<times> observer \<times> 'w" where
  "handle_pair env dg iss ob w =
     (case propose (oe_proposer env) (ob_proposer ob) dg iss [] 0 of
        None \<Rightarrow> (Inr (), ob, w)
      | Some ch \<Rightarrow>
          (let (new_id, w) = oe_uuid env w; (now, w) = oe_clock env w;
               r = length (ob_heap ob); hp = ob_heap ob @ [ch\<lparr>ch_id := new_id, ch_proposed_at := now\<rparr>];
               (t, w) = oe_clock env w; (opened, b) = is_open (oe_breaker env) t (ob_breaker ob);
               (res, hp, ap, w) = apply_change (oe_applier env) (oe_http env) (oe_clock env) opened r hp (ob_applier ob) w;
               ob = ob\<lparr>ob_breaker := b, ob_applier := ap, ob_heap := hp\<rparr>
           in case res of
                Inl e \<Rightarrow> (Inl e, ob, w)
              | Inr _ \<Rightarrow> (Inr (), ob\<lparr>ob_regulator := record_change (oe_regulator env) r (ob_regulator ob)\<rparr>, w)))"

fun pair_loop ::
    "'w observer_env \<Rightarrow> (diagnosis \<times> issue) list \<Rightarrow> observer \<Rightarrow> 'w \<Rightarrow> (py_error + unit) \<times> observer \<times> 'w" where
  "pair_loop env [] ob w = (Inr (), ob, w)"
| "pair_loop env ((dg, iss) # ps) ob w =
     (case handle_pair env dg iss ob w of
        (Inl e, ob, w) \<Rightarrow> (Inl e, ob, w)
      | (Inr _, ob, w) \<Rightarrow> pair_loop env ps ob w)"

definition resolve_issues ::
    "'w observer_env \<Rightarrow> issue list \<Rightarrow> observer \<Rightarrow> 'w \<Rightarrow> (py_error + unit) \<times> observer \<times> 'w" where
  "resolve_issues env issues ob w =
     (case diagnose_batch (oe_repr env) (oe_render env) (oe_post env) (oe_uuid env) issues (ob_engine ob) w of
        (Inl e, de, w) \<Rightarrow> (Inl e, ob\<lparr>ob_engine := de\<rparr>, w)
      | (Inr ds, de, w) \<Rightarrow> pair_loop env (zip ds issues) (ob\<lparr>ob_engine := de\<rparr>) w)"

definition run_quality_check ::
    "'w observer_env \<Rightarrow> log_entry list \<Rightarrow> string list \<Rightarrow> observer \<Rightarrow> 'w \<Rightarrow> (py_error + unit) \<times> observer \<times> 'w" where
  "run_quality_check env entries ids ob w =
     (if entries = [] then (Inr (), ob, w)
      else let found = detect (oe_detector env) (ob_baseline ob) (aggregate entries 60)
           in if found = [] then (Inr (), ob, w)
              else resolve_issues env (map label_issue (zip found ids)) ob w)"

section \<open>Facts\<close>

lemma label_issue_fields [simp]:
  "is_id (label_issue (d, i)) = i" "is_type (label_issue (d, i)) = is_type d" "is_task (label_issue (d, i)) = is_task d"
  "is_model (label_issue (d, i)) = is_model d"
  by (cases d; simp add: label_issue_def detected_issue.defs issue.defs)+

text \<open>Where a change comes from: its issue, the task of the issue and its diagnosis.\<close>

definition origin :: "change \<Rightarrow> string \<times> string \<times> string" where
  "origin ch = (ch_issue_id ch, ch_task ch, ch_diagnosis_id ch)"

lemma origin_apply:
  assumes "apply_change st http clock b r hp ap w = (res, hp', ap', w')" and "r < length hp"
  shows "map origin hp' = map origin hp"
proof -
  have a: "origin ch2 = origin ch" if "apply_auto st http clock ch ap w = (x, ch2, ap2, w2)" for ch x ch2 ap2 w2
    using that by (auto simp: apply_auto_def Let_def origin_def split: prod.splits sum.splits if_splits)
  have c: "origin ch2 = origin ch" if "apply_canary st http clock ch ap w = (ch2, w2)" for ch ch2 w2
    using apply_canary_outcome [OF that] by (auto simp: origin_def)
  have f: "origin (force_human b ch) = origin ch" for ch by (simp add: force_human_def origin_def)
  have s: "origin (ch\<lparr>ch_status := x\<rparr>) = origin ch" for ch x by (simp add: origin_def)
  have u: "map origin (hp[r := ch]) = map origin hp" if "origin ch = origin (hp ! r)" for ch
    using that assms(2) by (simp add: map_update list_update_same_conv)
  show ?thesis
  proof (cases "ch_tier (force_human b (hp ! r))")
    case AUTO
    then show ?thesis using assms f a u by (auto simp: apply_change_def Let_def split: prod.splits)
  next
    case CANARY
    then show ?thesis using assms f c u by (auto simp: apply_change_def Let_def split: prod.splits)
  next
    case HUMAN
    then show ?thesis using assms f s u by (auto simp: apply_change_def Let_def queue_for_human_def)
  qed
qed

text \<open>The change that a pair leads to, if its diagnosis is proposed; proposing does not depend on the loop.\<close>

definition pair_origins :: "'w observer_env \<Rightarrow> observer \<Rightarrow> (diagnosis \<times> issue) list \<Rightarrow> (string \<times> string \<times> string) list" where
  "pair_origins env ob ps =
     map (\<lambda>(dg, iss). (is_id iss, is_task iss, dg_id dg))
       (filter (\<lambda>(dg, iss). propose (oe_proposer env) (ob_proposer ob) dg iss [] 0 \<noteq> None) ps)"

lemma handle_pair_heap:
  assumes "handle_pair env dg iss ob w = (res, ob', w')"
  shows "map origin (ob_heap ob') = map origin (ob_heap ob) @ pair_origins env ob [(dg, iss)]
    \<and> ob_baseline ob' = ob_baseline ob \<and> ob_proposer ob' = ob_proposer ob"
proof (cases "propose (oe_proposer env) (ob_proposer ob) dg iss [] 0")
  case None
  then show ?thesis using assms by (simp add: handle_pair_def pair_origins_def)
next
  case (Some ch)
  have ch: "origin ch = (is_id iss, is_task iss, dg_id dg)"
    using propose_Some [OF Some] by (simp add: origin_def)
  obtain i w1 where i: "oe_uuid env w = (i, w1)" by fastforce
  obtain now w2 where now: "oe_clock env w1 = (now, w2)" by fastforce
  obtain t w3 where t: "oe_clock env w2 = (t, w3)" by fastforce
  obtain opened b where o2: "is_open (oe_breaker env) t (ob_breaker ob) = (opened, b)" by fastforce
  obtain res2 hp ap w4 where ap: "apply_change (oe_applier env) (oe_http env) (oe_clock env) opened (length (ob_heap ob))
      (ob_heap ob @ [ch\<lparr>ch_id := i, ch_proposed_at := now\<rparr>]) (ob_applier ob) w3 = (res2, hp, ap, w4)"
    by (metis prod_cases4)
  have "ob_heap ob' = hp \<and> ob_baseline ob' = ob_baseline ob \<and> ob_proposer ob' = ob_proposer ob"
    using assms Some i now t o2 ap by (cases res2) (auto simp: handle_pair_def Let_def)
  moreover have "map origin hp = map origin (ob_heap ob) @ [origin ch]"
    using origin_apply [OF ap] by (simp add: origin_def)
  ultimately show ?thesis using ch Some by (simp add: pair_origins_def)
qed

lemma pair_loop_heap:
  "pair_loop env ps ob w = (res, ob', w') \<Longrightarrow>
     (\<exists>new. map origin (ob_heap ob') = map origin (ob_heap ob) @ new \<and> prefix new (pair_origins env ob ps)
        \<and> (res = Inr () \<longrightarrow> new = pair_origins env ob ps))
     \<and> ob_baseline ob' = ob_baseline ob"
proof (induction ps arbitrary: ob w)
  case (Cons p ps)
  obtain dg iss where p: "p = (dg, iss)" by (cases p)
  obtain r1 ob1 w1 where h: "handle_pair env dg iss ob w = (r1, ob1, w1)" by (metis prod_cases3)
  note one = handle_pair_heap [OF h]
  have split: "pair_origins env ob (p # ps) = pair_origins env ob [(dg, iss)] @ pair_origins env ob1 ps"
    using one by (simp add: pair_origins_def p)
  show ?case
  proof (cases r1)
    case (Inl e)
    then have "ob' = ob1" "res = Inl e" using Cons.prems p h by simp_all
    then show ?thesis using one unfolding split by auto
  next
    case (Inr u)
    then have "pair_loop env ps ob1 w1 = (res, ob', w')" using Cons.prems p h by simp
    from Cons.IH [OF this] obtain new where "map origin (ob_heap ob') = map origin (ob_heap ob1) @ new"
      "prefix new (pair_origins env ob1 ps)" "res = Inr () \<longrightarrow> new = pair_origins env ob1 ps" "ob_baseline ob' = ob_baseline ob1"
      by blast
    then show ?thesis using one unfolding split
      by (intro conjI exI [of _ "pair_origins env ob [(dg, iss)] @ new"]) auto
  qed
qed (simp add: pair_origins_def)

text \<open>A subsequence of a list without duplicates only ever lags behind it.\<close>

lemma subseq_nth: "subseq xs ys \<Longrightarrow> j < length xs \<Longrightarrow> xs ! j \<in> set ys"
  by (erule list_emb_set [OF _ nth_mem]) auto

lemma subseq_lags:
  "subseq xs ys \<Longrightarrow> distinct ys \<Longrightarrow> j < length xs \<Longrightarrow> i < length ys \<Longrightarrow> xs ! j = ys ! i \<Longrightarrow> j \<le> i"
proof (induction arbitrary: j i rule: list_emb.induct)
  case (list_emb_Cons xs ys y)
  have "xs ! j \<in> set ys" using list_emb_Cons.hyps list_emb_Cons.prems(2) by (rule subseq_nth)
  then show ?case using list_emb_Cons.IH [of j "i - 1"] list_emb_Cons.prems by (cases i) auto
next
  case (list_emb_Cons2 x y xs ys)
  show ?case
  proof (cases j)
    case (Suc j')
    then have "xs ! j' \<in> set ys" using list_emb_Cons2.hyps list_emb_Cons2.prems(2) by (intro subseq_nth) simp_all
    then show ?thesis using Suc list_emb_Cons2.IH [of j' "i - 1"] list_emb_Cons2.prems list_emb_Cons2.hyps by (cases i) auto
  qed simp
qed simp

lemma subseq_shifted:
  "subseq xs ys \<Longrightarrow> distinct ys \<Longrightarrow> k < length ys \<Longrightarrow> ys ! k \<notin> set xs \<Longrightarrow> k \<le> j \<Longrightarrow> j < length xs \<Longrightarrow> xs ! j \<noteq> ys ! j"
proof (induction arbitrary: j k rule: list_emb.induct)
  case (list_emb_Cons xs ys y)
  have "xs ! j \<in> set ys" using list_emb_Cons.hyps list_emb_Cons.prems(5) by (rule subseq_nth)
  moreover have "\<not> j \<le> j - 1" if "0 < j" using that by simp
  ultimately show ?case
    using subseq_lags [OF list_emb_Cons.hyps, of j "j - 1"] list_emb_Cons.prems list_emb_length [OF list_emb_Cons.hyps]
    by (cases j) auto
next
  case (list_emb_Cons2 x y xs ys)
  then show ?case using list_emb_Cons2.IH [of "k - 1" "j - 1"] by (cases k; cases j) auto
qed simp

lemma resolve_issues_baseline:
  assumes "resolve_issues env issues ob w = (res, ob', w')"
  shows "ob_baseline ob' = ob_baseline ob"
  using assms
  by (auto simp: resolve_issues_def split: prod.splits sum.splits dest: pair_loop_heap)

lemma run_quality_check_baseline:
  "run_quality_check env entries ids ob w = (res, ob', w') \<Longrightarrow> ob_baseline ob' = ob_baseline ob"
  by (auto simp: run_quality_check_def Let_def split: if_splits dest: resolve_issues_baseline)

section \<open>Properties\<close>

text \<open>
  C15 (how diagnoses meet issues): let a batch of issues be diagnosed. If that raises, no change is made. Otherwise the diagnoses it returned are those of some
  of the issues, in order, and the changes made are exactly those of the pairs of a diagnosis and the issue at the same position of the two
  lists, one for every pair whose diagnosis is proposed, in order; an exception while one is applied ends the list there. When every issue got a diagnosis
  these are the diagnoses of those issues. When the issue at position \<open>k\<close> got none, every diagnosis from position \<open>k\<close> on is paired with an issue it is not
  about, so that its change carries that issue's identifier and task.
\<close>

theorem changes_pair_by_position:
  assumes batch: "diagnose_batch (oe_repr env) (oe_render env) (oe_post env) (oe_uuid env) issues (ob_engine ob) w = (r, de, w1)"
    and run: "resolve_issues env issues ob w = (res, ob', w')"
  shows "case r of
      Inl e \<Rightarrow> res = Inl e \<and> ob_heap ob' = ob_heap ob
    | Inr ds \<Rightarrow> subseq (map dg_issue_id ds) (map is_id issues)
        \<and> (\<exists>new. map origin (ob_heap ob') = map origin (ob_heap ob) @ new
             \<and> prefix new (pair_origins env ob (zip ds issues)) \<and> (res = Inr () \<longrightarrow> new = pair_origins env ob (zip ds issues)))
        \<and> (length ds = length issues \<longrightarrow> map dg_issue_id ds = map is_id issues)
        \<and> (\<forall>k j. distinct (map is_id issues) \<and> k < length issues \<and> is_id (issues ! k) \<notin> dg_issue_id ` set ds \<and> k \<le> j \<and> j < length ds
             \<longrightarrow> dg_issue_id (ds ! j) \<noteq> is_id (issues ! j))"
proof (cases r)
  case (Inl e)
  then show ?thesis using batch run by (auto simp: resolve_issues_def)
next
  case (Inr ds)
  then have p: "pair_loop env (zip ds issues) (ob\<lparr>ob_engine := de\<rparr>) w1 = (res, ob', w')"
    using batch run by (simp add: resolve_issues_def)
  have sub: "subseq (map dg_issue_id ds) (map is_id issues)"
    using batch Inr batch_loop_subseq unfolding diagnose_batch_def by fast
  have len: "length ds \<le> length issues" using list_emb_length [OF sub] by simp
  have "pair_origins env (ob\<lparr>ob_engine := de\<rparr>) ps = pair_origins env ob ps" for ps by (simp add: pair_origins_def)
  then have new: "\<exists>new. map origin (ob_heap ob') = map origin (ob_heap ob) @ new
      \<and> prefix new (pair_origins env ob (zip ds issues)) \<and> (res = Inr () \<longrightarrow> new = pair_origins env ob (zip ds issues))"
    using pair_loop_heap [OF p] by simp
  have shift: "dg_issue_id (ds ! j) \<noteq> is_id (issues ! j)" if "distinct (map is_id issues)" "k < length issues"
      "is_id (issues ! k) \<notin> dg_issue_id ` set ds" "k \<le> j" "j < length ds" for k j
    using subseq_shifted [OF sub that(1), of k j] that len by simp
  show ?thesis unfolding Inr sum.case using sub new subseq_same_length [OF sub] by (intro conjI allI impI) (auto dest: shift)
qed

text \<open>
  (a failed diagnosis shifts the others): when the first of two issues gets no diagnosis and the
  second does, the change built from the second issue's diagnosis names the first issue and its
  task.
\<close>

theorem failed_diagnosis_shifts:
  assumes "diagnose_batch (oe_repr env) (oe_render env) (oe_post env) (oe_uuid env) [first, second] (ob_engine ob) w
      = (Inr [dg], de, w1)"
    and "dg_issue_id dg = is_id second" and "is_id first \<noteq> is_id second"
    and "\<not> pf_less (dg_confidence dg) 0.6" and "change_type_of (dg_fix_type dg) \<noteq> None"
    and "resolve_issues env [first, second] ob w = (res, ob', w')"
  shows "map origin (ob_heap ob') = map origin (ob_heap ob) @ [(is_id first, is_task first, dg_id dg)]
    \<and> dg_issue_id dg \<noteq> is_id first"
proof -
  let ?ob = "ob\<lparr>ob_engine := de\<rparr>"
  obtain ch where ch: "propose (oe_proposer env) (ob_proposer ob) dg first [] 0 = Some ch"
    using assms(4,5) by (auto simp: propose_def)
  obtain r2 ob2 w2 where h: "handle_pair env dg first ?ob w1 = (r2, ob2, w2)" by (metis prod_cases3)
  have "ob' = ob2" using assms(1,6) h by (auto simp: resolve_issues_def split: sum.splits)
  moreover have "length (ob_heap ob2) = length (ob_heap ob) + 1"
    using h ch apply_change_heap
    by (fastforce simp: handle_pair_def Let_def split: prod.splits sum.splits)
  moreover from this have "map origin (ob_heap ob2) \<noteq> map origin (ob_heap ?ob)"
    by (auto dest: map_eq_imp_length_eq)
  ultimately show ?thesis using handle_pair_heap [OF h] assms(2,3) ch by (auto simp: pair_origins_def)
qed

inductive observer_step :: "nat observer_env \<Rightarrow> observer \<Rightarrow> observer \<Rightarrow> bool" for env :: "nat observer_env" where
  checked: "run_quality_check env entries ids ob w = (res, ob', w') \<Longrightarrow> observer_step env ob ob'"

interpretation observer_system: invariant_system "\<lambda>ob. ob_baseline ob = []" "observer_step env" "\<lambda>ob. ob_baseline ob = []"
  for env :: "nat observer_env"
  by unfold_locales (auto elim!: observer_step.cases dest: run_quality_check_baseline)

text \<open>
  (spikes are never reported): the check leaves the baseline as it is and nothing else sets it,
  so after any number of quality checks of a new observer no cost or latency spike of any task is
  ever detected.
\<close>

theorem spikes_never_reported:
  assumes "reachable (\<lambda>ob. ob_baseline ob = []) (observer_step env) ob"
  shows "\<not> task_reported COST_SPIKE t (detect st (ob_baseline ob) (aggregate entries minutes))
    \<and> \<not> task_reported LATENCY_SPIKE t (detect st (ob_baseline ob) (aggregate entries minutes))"
  using observer_system.reachable_inv [OF assms]
  by (simp add: task_reported_iff task_issue_types get_baseline_def Let_def)

section \<open>Witnesses\<close>

text \<open>A gateway that fails on the first request and then answers with a diagnosis.\<close>

definition sample_answer :: string where
  "sample_answer = ''{\"confidence\":1,\"fix_type\":\"routing\"}''"

definition flaky_post :: "json \<Rightarrow> nat \<Rightarrow> llm_reply \<times> nat" where
  "flaky_post body w = (if w = 0 then BadStatus 503 else Body (Some (Some sample_answer)) None, w + 1)"

definition sample_env :: "nat observer_env" where
  "sample_env =
     \<lparr>oe_http = sample_http, oe_post = flaky_post, oe_clock = (\<lambda>w. (real w, w)), oe_uuid = (\<lambda>w. (''u'', w)),
      oe_repr = (\<lambda>v. []), oe_render = (\<lambda>i. []),
      oe_detector = \<lparr>detect_escalation_rate = 0.4, detect_low_confidence = 0.7, detect_parse_failure_rate = 0.15,
        detect_cost_spike_multiplier = 2, detect_error_rate = 0.05, detect_latency_spike_multiplier = 2,
        detect_min_samples = 10\<rparr>,
      oe_proposer = sample_proposer_settings, oe_applier = sample_applier_settings,
      oe_breaker = \<lparr>max_rollbacks = 3, window_hours = 6, cooldown_hours = 12\<rparr>,
      oe_regulator = sample_regulator_settings\<rparr>"

definition sample_observer :: observer where
  "sample_observer =
     \<lparr>ob_baseline = [], ob_engine = de_start (init_diagnosis_engine 5), ob_proposer = init_proposer,
      ob_applier = ap_start init_applier, ob_breaker = init_breaker,
      ob_regulator = init_regulator sample_regulator_settings [], ob_heap = []\<rparr>"

definition sample_result :: diagnosis where
  "sample_result =
     \<lparr>dg_id = ''u'', dg_issue_id = ''i2'', dg_root_cause = [], dg_fix_type = ustr ''routing'',
      dg_fix_description = [], dg_confidence = Fin 1, dg_requires_prompt_rewrite = False,
      dg_cost_usd = Fin estimate_cost, dg_raw_response = sample_answer\<rparr>"

lemma sample_answer_parses:
  "json_loads (unfenced sample_answer) =
     Inr (JObj [(ustr ''confidence'', JInt 1), (ustr ''fix_type'', JStr (ustr ''routing''))])"
  by code_simp

lemma sample_diagnosis_first:
  "diagnose (\<lambda>v. []) (\<lambda>i. []) flaky_post (\<lambda>w. (''u'', w)) i (reset_cycle_budget (de_start (init_diagnosis_engine 5))) 0
     = (Inr None, reset_cycle_budget (de_start (init_diagnosis_engine 5)), 1)"
  by (simp add: diagnose_def call_llm_def flaky_post_def reset_cycle_budget_def de_start_def init_diagnosis_engine_def
      remaining_budget_def max_zero_def estimate_cost_value)

lemma sample_diagnosis_second:
  "diagnose (\<lambda>v. []) (\<lambda>i. []) flaky_post (\<lambda>w. (''u'', w)) (sample_issue ''i2'')
       (reset_cycle_budget (de_start (init_diagnosis_engine 5))) 1
     = (Inr (Some sample_result), \<lparr>de_budget = 5, de_started = True, de_cycle_spend = Fin estimate_cost\<rparr>, 2)"
  by (simp add: diagnose_def call_llm_def flaky_post_def reset_cycle_budget_def de_start_def init_diagnosis_engine_def
      remaining_budget_def max_zero_def estimate_cost_value parse_diagnosis_response_def sample_answer_parses
      sample_result_def get_text_def dict_get_default_def sample_issue_def json_truthy_def float_of_int_def Let_def)

lemma sample_batch:
  "diagnose_batch (oe_repr sample_env) (oe_render sample_env) (oe_post sample_env) (oe_uuid sample_env)
       [sample_issue ''i1'', sample_issue ''i2''] (ob_engine sample_observer) 0
     = (Inr [sample_result], \<lparr>de_budget = 5, de_started = True, de_cycle_spend = Fin estimate_cost\<rparr>, 2)"
proof -
  have "\<not> exhausted (reset_cycle_budget (de_start (init_diagnosis_engine 5)))"
    by (simp add: exhausted_def remaining_budget_def max_zero_def reset_cycle_budget_def de_start_def init_diagnosis_engine_def)
  then show ?thesis
    by (simp add: diagnose_batch_def sample_env_def sample_observer_def sample_diagnosis_first
        sample_diagnosis_second [simplified] sample_diagnosis_second)
qed

lemma sample_pair_applies:
  "fst (pair_loop sample_env (zip [sample_result] [sample_issue ''i1'', sample_issue ''i2'']) (sample_observer\<lparr>ob_engine := de\<rparr>) 2) = Inr ()"
proof -
  have "change_type_of (ustr ''routing'') = Some ROUTING" by (simp add: change_type_of_def fix_type_to_change_def)
  then show ?thesis
    by (simp add: handle_pair_def propose_def sample_result_def sample_env_def sample_observer_def classify_tier_def default_tier
        sample_issue_def sample_proposer_settings_def init_proposer_def is_open_def init_breaker_def apply_change_def force_human_def
        apply_auto_def take_snapshot_def execute_change_def sample_http_def ap_start_def init_applier_def ok_def Let_def check_cooldown_def queue_for_human_def)
qed

theorem failed_diagnosis_shifts_witness:
  "\<exists>res ob' w'. resolve_issues sample_env [sample_issue ''i1'', sample_issue ''i2''] sample_observer 0 = (res, ob', w')
     \<and> map origin (ob_heap ob') = [(''i1'', ''summary'', ''u'')] \<and> dg_issue_id sample_result = ''i2''"
proof -
  obtain res ob' w' where r: "resolve_issues sample_env [sample_issue ''i1'', sample_issue ''i2''] sample_observer 0
      = (res, ob', w')" by (metis prod_cases3)
  have f: "dg_issue_id sample_result = is_id (sample_issue ''i2'')" "is_id (sample_issue ''i1'') \<noteq> is_id (sample_issue ''i2'')"
    "\<not> pf_less (dg_confidence sample_result) 0.6" "change_type_of (dg_fix_type sample_result) \<noteq> None"
    by (simp_all add: sample_result_def sample_issue_def change_type_of_def fix_type_to_change_def)
  from failed_diagnosis_shifts [OF sample_batch f r] r show ?thesis
    by (auto simp: sample_observer_def sample_issue_def sample_result_def)
qed

theorem changes_pair_by_position_witness:
  "\<exists>ob' w'. resolve_issues sample_env [sample_issue ''i1'', sample_issue ''i2''] sample_observer 0 = (Inr (), ob', w')
     \<and> map origin (ob_heap ob') = [(''i1'', ''summary'', ''u'')] \<and> dg_issue_id sample_result \<noteq> ''i1''"
proof -
  let ?issues = "[sample_issue ''i1'', sample_issue ''i2'']"
  obtain res ob' w' where r: "resolve_issues sample_env ?issues sample_observer 0 = (res, ob', w')" by (metis prod_cases3)
  have res: "res = Inr ()"
    using r sample_batch sample_pair_applies by (auto simp: resolve_issues_def simp del: pair_loop.simps zip_Cons_Cons) (metis fst_conv)
  have "propose (oe_proposer sample_env) (ob_proposer sample_observer) sample_result (sample_issue ''i1'') [] 0 \<noteq> None"
    by (simp add: propose_def sample_result_def change_type_of_def fix_type_to_change_def)
  then have "pair_origins sample_env sample_observer (zip [sample_result] ?issues) = [(''i1'', ''summary'', ''u'')]"
    by (simp add: pair_origins_def sample_issue_def sample_result_def)
  moreover have "ob_heap sample_observer = []" by (simp add: sample_observer_def)
  moreover have "dg_issue_id (([sample_result] ! 0) :: diagnosis) \<noteq> is_id (?issues ! 0)" "map origin (ob_heap ob')
      = map origin (ob_heap sample_observer) @ pair_origins sample_env sample_observer (zip [sample_result] ?issues)"
    using changes_pair_by_position [OF sample_batch r] res
    by (auto simp: sample_issue_def sample_result_def dest: spec [of _ 0])
  ultimately show ?thesis using r res by (simp add: sample_issue_def)
qed

theorem spikes_never_reported_witness:
  "\<not> task_reported COST_SPIKE ''summary'' (detect (oe_detector sample_env) (ob_baseline sample_observer) (aggregate sample_log 60))"
proof -
  have "reachable (\<lambda>ob. ob_baseline ob = []) (observer_step sample_env) sample_observer"
    by (rule reachable_init) (simp add: sample_observer_def)
  from spikes_never_reported [OF this] show ?thesis by blast
qed

end
