(* ===== verification/Ev_Models.thy ===== *)
theory Ev_Models
  imports Py_Json
begin

text \<open>
  The data of the evidence evaluator (\<^verbatim>\<open>agent-eval/src/models.py\<close>): criteria, evidence,
  results and statuses. Dates are seconds since the epoch; the reason texts of results are not
  modelled. A value of \<^verbatim>\<open>check_params\<close> or \<^verbatim>\<open>schema_info\<close> is any JSON value with Latin-1
  strings.
\<close>

section \<open>Dynamically typed values\<close>

datatype pyval =
    PNone
  | PBool bool
  | PInt int
  | PFloat pyfloat
  | PStr string
  | PList "pyval list"
  | PDict "(string \<times> pyval) list"

definition py_truthy :: "pyval \<Rightarrow> bool" where
  "py_truthy v \<longleftrightarrow> v \<notin> {PNone, PBool False, PInt 0, PFloat (Fin 0), PStr [], PList [], PDict []}"

text \<open>Iterating over a value (None: a TypeError), and reading a list of strings out of it.\<close>

fun py_iter :: "pyval \<Rightarrow> pyval list option" where
  "py_iter (PStr s) = Some (map (\<lambda>c. PStr [c]) s)"
| "py_iter (PList vs) = Some vs"
| "py_iter (PDict kvs) = Some (map (\<lambda>(k, v). PStr k) kvs)"
| "py_iter _ = None"

fun as_str :: "pyval \<Rightarrow> string option" where
  "as_str (PStr s) = Some s"
| "as_str _ = None"

fun opt_map :: "('a \<Rightarrow> 'b option) \<Rightarrow> 'a list \<Rightarrow> 'b list option" where
  "opt_map f [] = Some []"
| "opt_map f (x # xs) =
     (case f x of None \<Rightarrow> None | Some y \<Rightarrow> (case opt_map f xs of None \<Rightarrow> None | Some ys \<Rightarrow> Some (y # ys)))"

definition py_strings :: "pyval \<Rightarrow> string list option" where
  "py_strings v = (case py_iter v of None \<Rightarrow> None | Some vs \<Rightarrow> opt_map as_str vs)"

text \<open>Numbers: ints, bools and floats, as they compare with each other.\<close>

fun as_number :: "pyval \<Rightarrow> pyfloat option" where
  "as_number (PBool b) = Some (Fin (if b then 1 else 0))"
| "as_number (PInt i) = Some (Fin (real_of_int i))"
| "as_number (PFloat f) = Some f"
| "as_number _ = None"

text \<open>\<^verbatim>\<open>float(v)\<close> and the comparisons of floats.\<close>

fun py_float :: "pyval \<Rightarrow> float_error + pyfloat" where
  "py_float (PInt i) = float_of_int i"
| "py_float (PBool b) = Inr (Fin (if b then 1 else 0))"
| "py_float (PFloat f) = Inr f"
| "py_float (PStr s) = (case float_of_text (ustr s) of None \<Rightarrow> Inl FloatValueError | Some f \<Rightarrow> Inr f)"
| "py_float _ = Inl FloatTypeError"

fun pf_le :: "pyfloat \<Rightarrow> pyfloat \<Rightarrow> bool" where
  "pf_le NaN y \<longleftrightarrow> False"
| "pf_le x NaN \<longleftrightarrow> False"
| "pf_le (Fin x) (Fin y) \<longleftrightarrow> x \<le> y"
| "pf_le NegInf y \<longleftrightarrow> True"
| "pf_le x PosInf \<longleftrightarrow> True"
| "pf_le x y \<longleftrightarrow> False"

fun pf_lt :: "pyfloat \<Rightarrow> pyfloat \<Rightarrow> bool" where
  "pf_lt NaN y \<longleftrightarrow> False"
| "pf_lt x NaN \<longleftrightarrow> False"
| "pf_lt (Fin x) (Fin y) \<longleftrightarrow> x < y"
| "pf_lt NegInf y \<longleftrightarrow> y \<noteq> NegInf"
| "pf_lt (Fin x) PosInf \<longleftrightarrow> True"
| "pf_lt x y \<longleftrightarrow> False"

lemma pf_le_trans: "pf_le x y \<Longrightarrow> pf_le y z \<Longrightarrow> pf_le x z"
  by (cases x; cases y; cases z) auto

lemma pf_lt_not_le: "pf_lt x y \<Longrightarrow> \<not> pf_le y x"
  by (cases x; cases y) auto

lemma opt_map_Some:
  "opt_map f xs = Some ys \<longleftrightarrow> length ys = length xs \<and> (\<forall>i < length xs. f (xs ! i) = Some (ys ! i))"
proof (induction xs arbitrary: ys)
  case (Cons x xs)
  show ?case
  proof (cases ys)
    case (Cons y zs)
    then show ?thesis using Cons.IH [of zs]
      by (auto simp: nth_Cons less_Suc_eq_0_disj split: option.splits nat.splits)
  qed (auto split: option.splits)
qed auto

lemma opt_map_set: "opt_map f xs = Some ys \<Longrightarrow> y \<in> set ys \<Longrightarrow> \<exists>x \<in> set xs. f x = Some y"
  by (induction xs arbitrary: ys) (auto split: option.splits)

lemma opt_map_total: "(\<And>x. x \<in> set xs \<Longrightarrow> f x = Some (g x)) \<Longrightarrow> opt_map f xs = Some (map g xs)"
  by (induction xs) auto

section \<open>Enumerations\<close>

datatype criterion_result_enum =
  PASS | PARTIAL | FAIL | NEEDS_JUDGMENT | CANNOT_ASSESS | INSUFFICIENT_EVIDENCE

datatype compliance_status =
  COMPLIANT | PARTIALLY_COMPLIANT | NON_COMPLIANT | STATUS_INSUFFICIENT_EVIDENCE | PARTIAL_EVALUATION

datatype eval_method =
    RULE_FILE_EXISTENCE | RULE_FRESHNESS | RULE_SCHEMA_PRESENCE | RULE_ROW_COUNT | RULE_NULL_RATE
  | RULE_CROSS_REFERENCE | RULE_QUANTITATIVE | RULE_KEYWORD_PRESENCE | LLM_JUDGMENT | CACHED | DEGRADED

section \<open>Criteria, evidence and results\<close>

record eval_criterion =
  crit_id :: string
  crit_category :: string
  question :: string
  evidence_type :: string
  pass_condition :: string
  fail_condition :: string
  crit_weight :: real
  check_type :: "string option"
  check_params :: "(string, pyval) dict"

record testing_criteria =
  tc_control_id :: string
  tc_framework :: string
  control_objective :: string
  tc_criteria :: "eval_criterion list"

record evidence_file =
  ef_storage_key :: string
  ef_filename :: string
  ef_file_type :: string
  ef_size :: int
  last_modified :: real
  content_hash :: string

record evidence_metadata =
  em_storage_key :: string
  em_file_type :: string
  columns :: "string list"
  row_count :: int
  sheet_names :: "string list"
  text_content :: string
  extracted_at :: real
  schema_info :: "(string, pyval) dict"

record criterion_result =
  criterion_id :: string
  category :: string
  cr_result :: criterion_result_enum
  cr_method :: eval_method
  cr_confidence :: "real option"
  evidence_used :: "string list"

record layer_stats =
  layer1_resolved :: nat
  layer2_resolved :: nat
  total_criteria :: nat
  llm_calls :: nat
  sandbox_calls :: nat

text \<open>The results a rule can return for its criterion.\<close>

definition verdict ::
    "eval_criterion \<Rightarrow> criterion_result_enum \<Rightarrow> eval_method \<Rightarrow> string list \<Rightarrow> criterion_result" where
  "verdict c r m used =
     \<lparr>criterion_id = crit_id c, category = crit_category c, cr_result = r, cr_method = m,
      cr_confidence = None, evidence_used = used\<rparr>"

abbreviation judge_it :: "eval_criterion \<Rightarrow> criterion_result" where
  "judge_it c \<equiv> verdict c NEEDS_JUDGMENT LLM_JUDGMENT []"

lemma verdict_sel [simp]:
  "criterion_id (verdict c r m used) = crit_id c" "category (verdict c r m used) = crit_category c"
  "cr_result (verdict c r m used) = r" "cr_method (verdict c r m used) = m"
  "cr_confidence (verdict c r m used) = None" "evidence_used (verdict c r m used) = used"
  by (simp_all add: verdict_def)

definition sample_criterion :: eval_criterion where
  "sample_criterion =
     \<lparr>crit_id = ''AC-2-01'', crit_category = ''policy'', question = ''Is there a policy?'',
      evidence_type = ''document'', pass_condition = ''Policy exists'', fail_condition = ''No policy'',
      crit_weight = 1 / 2, check_type = None, check_params = []\<rparr>"

definition sample_metadata :: evidence_metadata where
  "sample_metadata =
     \<lparr>em_storage_key = ''acme/policy.pdf'', em_file_type = ''pdf'', columns = [], row_count = 0,
      sheet_names = [], text_content = ''Access control policy'', extracted_at = 0, schema_info = []\<rparr>"

end
