(* ===== verification/Py_Re.thy ===== *)
theory Py_Re
  imports Py_Prelude
begin

text \<open>
  The regular expressions of Python's \<^verbatim>\<open>re\<close> module that the services use, on Latin-1 text: a
  matcher that lists the matches at a position in the order the backtracking engine tries them
  (alternatives from the left, greedy or lazy repetition), and the search, split and findall
  operations on top of it. A repetition goes on only while it consumes text.
\<close>

section \<open>Character classes\<close>

definition re_digit :: "char \<Rightarrow> bool" where
  "re_digit c \<longleftrightarrow> (let n = of_char c :: nat in 48 \<le> n \<and> n \<le> 57)"

definition re_word :: "char \<Rightarrow> bool" where
  "re_word c \<longleftrightarrow>
     (let n = of_char c :: nat
      in (48 \<le> n \<and> n \<le> 57) \<or> (65 \<le> n \<and> n \<le> 90) \<or> n = 95 \<or> (97 \<le> n \<and> n \<le> 122)
         \<or> n \<in> {170, 178, 179, 181, 185, 186, 188, 189, 190}
         \<or> (192 \<le> n \<and> n \<noteq> 215 \<and> n \<noteq> 247))"

definition re_not_newline :: "char \<Rightarrow> bool" where
  "re_not_newline c \<longleftrightarrow> c \<noteq> CHR 0x0A"

section \<open>Expressions\<close>

text \<open>
  \<open>RBound\<close> is a word boundary, \<open>REnd\<close> the end of the text or the position before a final newline,
  \<open>RGroup\<close> the only capturing group of an expression.
\<close>

datatype re =
    REps
  | RSet "char \<Rightarrow> bool"
  | RSeq re re
  | RAlt re re
  | RStar re
  | RLazy re
  | RGroup re
  | RBound
  | REnd

definition RPlus :: "re \<Rightarrow> re" where
  "RPlus r = RSeq r (RStar r)"

definition ROpt :: "re \<Rightarrow> re" where
  "ROpt r = RAlt r REps"

definition RChar :: "char \<Rightarrow> re" where
  "RChar c = RSet (\<lambda>x. x = c)"

text \<open>A literal, case-sensitive or (for lower-case text) ignoring case.\<close>

primrec RLit :: "string \<Rightarrow> re" where
  "RLit [] = REps"
| "RLit (c # cs) = RSeq (RChar c) (RLit cs)"

primrec RLitI :: "string \<Rightarrow> re" where
  "RLitI [] = REps"
| "RLitI (c # cs) = RSeq (RSet (\<lambda>x. char_lower x = c)) (RLitI cs)"

fun RAlts :: "re list \<Rightarrow> re" where
  "RAlts [] = RSet (\<lambda>c. False)"
| "RAlts [r] = r"
| "RAlts (r # rs) = RAlt r (RAlts rs)"

fun RSeqs :: "re list \<Rightarrow> re" where
  "RSeqs [] = REps"
| "RSeqs [r] = r"
| "RSeqs (r # rs) = RSeq r (RSeqs rs)"

section \<open>Matching\<close>

text \<open>A position is the character before it and the text after it.\<close>

type_synonym re_pos = "char option \<times> string"

type_synonym re_match = "re_pos \<times> string option"

definition later :: "string option \<Rightarrow> string option \<Rightarrow> string option" where
  "later c1 c2 = (case c2 of None \<Rightarrow> c1 | Some x \<Rightarrow> c2)"

definition then_match :: "re_match list \<Rightarrow> (re_pos \<Rightarrow> re_match list) \<Rightarrow> re_match list" where
  "then_match ms f = concat (map (\<lambda>(p, c). map (\<lambda>(p2, c2). (p2, later c c2)) (f p)) ms)"

text \<open>Repetition with as much fuel as there is text: a round that consumes nothing is cut off.\<close>

primrec star_matches :: "bool \<Rightarrow> (re_pos \<Rightarrow> re_match list) \<Rightarrow> nat \<Rightarrow> re_pos \<Rightarrow> re_match list" where
  "star_matches greedy f 0 p = [(p, None)]"
| "star_matches greedy f (Suc n) p =
     (let more = then_match (filter (\<lambda>(q, c). length (snd q) < length (snd p)) (f p)) (star_matches greedy f n)
      in if greedy then more @ [(p, None)] else (p, None) # more)"

definition at_boundary :: "re_pos \<Rightarrow> bool" where
  "at_boundary p \<longleftrightarrow>
     (case fst p of None \<Rightarrow> False | Some c \<Rightarrow> re_word c) \<noteq> (case snd p of [] \<Rightarrow> False | c # _ \<Rightarrow> re_word c)"

primrec re_matches :: "re \<Rightarrow> re_pos \<Rightarrow> re_match list" where
  "re_matches REps p = [(p, None)]"
| "re_matches (RSet f) p = (case snd p of [] \<Rightarrow> [] | c # cs \<Rightarrow> if f c then [((Some c, cs), None)] else [])"
| "re_matches (RSeq r s) p = then_match (re_matches r p) (re_matches s)"
| "re_matches (RAlt r s) p = re_matches r p @ re_matches s p"
| "re_matches (RStar r) p = star_matches True (re_matches r) (length (snd p)) p"
| "re_matches (RLazy r) p = star_matches False (re_matches r) (length (snd p)) p"
| "re_matches (RGroup r) p =
     map (\<lambda>(q, c). (q, Some (take (length (snd p) - length (snd q)) (snd p)))) (re_matches r p)"
| "re_matches RBound p = (if at_boundary p then [(p, None)] else [])"
| "re_matches REnd p = (if snd p = [] \<or> snd p = [CHR 0x0A] then [(p, None)] else [])"

text \<open>The leftmost match: the text before it, its own text, its group, and where it ends.\<close>

fun re_find :: "re \<Rightarrow> char option \<Rightarrow> string \<Rightarrow> (string \<times> string \<times> string option \<times> re_pos) option" where
  "re_find r prev s =
     (case re_matches r (prev, s) of
        (q, c) # _ \<Rightarrow> Some ([], take (length s - length (snd q)) s, c, q)
      | [] \<Rightarrow>
          (case s of
             [] \<Rightarrow> None
           | x # xs \<Rightarrow> map_option (\<lambda>(b, m). (x # b, m)) (re_find r (Some x) xs)))"

declare re_find.simps [simp del]

definition re_search :: "re \<Rightarrow> string \<Rightarrow> bool" where
  "re_search r s \<longleftrightarrow> re_find r None s \<noteq> None"

definition re_group :: "re \<Rightarrow> string \<Rightarrow> string option" where
  "re_group r s = (case re_find r None s of None \<Rightarrow> None | Some (b, m, c, q) \<Rightarrow> c)"

text \<open>
  Splitting and finding all matches, for expressions that consume at least one character: the
  fuel is the length of the text.
\<close>

primrec split_from :: "re \<Rightarrow> nat \<Rightarrow> char option \<Rightarrow> string \<Rightarrow> string list" where
  "split_from r 0 prev s = [s]"
| "split_from r (Suc n) prev s =
     (case re_find r prev s of None \<Rightarrow> [s] | Some (b, m, c, (prev2, rest)) \<Rightarrow> b # split_from r n prev2 rest)"

definition re_split :: "re \<Rightarrow> string \<Rightarrow> string list" where
  "re_split r s = split_from r (length s) None s"

primrec findall_from :: "re \<Rightarrow> nat \<Rightarrow> char option \<Rightarrow> string \<Rightarrow> string list" where
  "findall_from r 0 prev s = []"
| "findall_from r (Suc n) prev s =
     (case re_find r prev s of
        None \<Rightarrow> []
      | Some (b, m, c, (prev2, rest)) \<Rightarrow> (case c of None \<Rightarrow> m | Some g \<Rightarrow> g) # findall_from r n prev2 rest)"

definition re_findall :: "re \<Rightarrow> string \<Rightarrow> string list" where
  "re_findall r s = findall_from r (length s) None s"

section \<open>Facts\<close>

text \<open>A match never moves back, and its text is a prefix of what is left.\<close>

definition advances :: "re_pos \<Rightarrow> re_pos \<Rightarrow> bool" where
  "advances p q \<longleftrightarrow> suffix (snd q) (snd p)"

lemma advances_refl [simp]: "advances p p"
  by (simp add: advances_def)

lemma advances_trans: "advances p q \<Longrightarrow> advances q r \<Longrightarrow> advances p r"
  by (auto simp: advances_def suffix_def)

lemma then_match_mem:
  "(q, c) \<in> set (then_match ms f) \<longleftrightarrow>
     (\<exists>p c1 c2. (p, c1) \<in> set ms \<and> (q, c2) \<in> set (f p) \<and> c = later c1 c2)"
  by (force simp: then_match_def)

lemma then_match_Nil [simp]: "then_match ms f = [] \<longleftrightarrow> (\<forall>(p, c) \<in> set ms. f p = [])"
  by (auto simp: then_match_def)

lemma star_matches_advance:
  assumes "\<And>p q c. (q, c) \<in> set (f p) \<Longrightarrow> advances p q"
  shows "(q, c) \<in> set (star_matches g f n p) \<Longrightarrow> advances p q"
proof (induction n arbitrary: p q c)
  case (Suc n)
  then consider "q = p" | p1 c1 c2 where "(p1, c1) \<in> set (f p)" "(q, c2) \<in> set (star_matches g f n p1)"
    by (auto simp: then_match_mem Let_def split: if_splits)
  then show ?case
  proof cases
    case 2
    then show ?thesis using assms Suc.IH advances_trans by blast
  qed simp
qed simp

lemma re_matches_advance: "(q, c) \<in> set (re_matches r p) \<Longrightarrow> advances p q"
proof (induction r arbitrary: p q c)
  case (RSet f)
  then show ?case by (cases "snd p") (auto simp: advances_def suffix_def split: if_splits)
next
  case (RSeq r s)
  then show ?case by (simp add: then_match_mem) (meson advances_trans)
next
  case (RStar r)
  then show ?case by (auto elim!: star_matches_advance [rotated])
next
  case (RLazy r)
  then show ?case by (auto elim!: star_matches_advance [rotated])
qed (auto split: if_splits)

lemma re_find_parts:
  "re_find r prev s = Some (b, m, c, (prev2, rest)) \<Longrightarrow> s = b @ m @ rest"
proof (induction r prev s arbitrary: b rule: re_find.induct)
  case (1 r prev s)
  show ?case
  proof (cases "re_matches r (prev, s)")
    case Nil
    then show ?thesis using "1.prems" "1.IH"
      by (subst (asm) re_find.simps) (auto split: list.splits)
  next
    case (Cons a ms)
    then obtain q d where a: "a = (q, d)" by (cases a)
    have "suffix (snd q) s" using re_matches_advance [of q d r "(prev, s)"] Cons a by (simp add: advances_def)
    then show ?thesis using "1.prems" Cons a
      by (subst (asm) re_find.simps) (auto simp: suffix_def)
  qed
qed

text \<open>A literal is found exactly where it is a substring.\<close>

lemma RLit_matches:
  "re_matches (RLit w) (prev, s) = (if prefix w s then [((if w = [] then prev else Some (last w), drop (length w) s), None)] else [])"
proof (induction w arbitrary: prev s)
  case (Cons x xs)
  show ?case
  proof (cases s)
    case (Cons y ys)
    then show ?thesis using Cons.IH [of "Some y" ys]
      by (auto simp: RChar_def then_match_def later_def)
  qed (simp add: RChar_def then_match_def)
qed simp

lemma re_find_None:
  "re_find r prev s = None \<longleftrightarrow>
     re_matches r (prev, s) = [] \<and> (case s of [] \<Rightarrow> True | x # xs \<Rightarrow> re_find r (Some x) xs = None)"
  by (subst re_find.simps) (auto split: list.splits)

lemma re_search_literal: "re_search (RLit w) s \<longleftrightarrow> sublist w s"
proof -
  have "re_find (RLit w) prev s = None \<longleftrightarrow> \<not> sublist w s" for prev
  proof (induction s arbitrary: prev)
    case (Cons x xs)
    then show ?case
      by (subst re_find_None) (auto simp: RLit_matches sublist_Cons_right)
  qed (subst re_find_None, auto simp: RLit_matches)
  then show ?thesis by (simp add: re_search_def)
qed

end
