(* ===== verification/Ev_Rules.thy ===== *)
theory Ev_Rules
  imports Ev_Models Py_Re
begin

text \<open>
  The deterministic rules of the evaluator's first layer (\<^verbatim>\<open>agent-eval/src/rules/*.py\<close> and
  \<^verbatim>\<open>graph/rules_engine.py\<close>). A rule returns None where the Python function raises; the dispatcher
  turns that into a request for a judgment. The only expression a user can supply, the
  \<^verbatim>\<open>name_pattern\<close> of the file rule, is a parameter: \<open>usearch p s\<close> is what \<^verbatim>\<open>re.search\<close> answers,
  None when the pattern does not compile.
\<close>

section \<open>Shared pieces\<close>

definition structured :: "string \<Rightarrow> bool" where
  "structured ft \<longleftrightarrow> ft \<in> {''spreadsheet'', ''csv'', ''json''}"

definition param :: "eval_criterion \<Rightarrow> string \<Rightarrow> pyval option" where
  "param c k = dict_get (check_params c) k"

text \<open>\<^verbatim>\<open>check_params.get(k)\<close> with its test against None.\<close>

definition param_or_none :: "eval_criterion \<Rightarrow> string \<Rightarrow> pyval" where
  "param_or_none c k = (case param c k of None \<Rightarrow> PNone | Some v \<Rightarrow> v)"

text \<open>Filtering with a test that can raise.\<close>

fun opt_filter :: "('a \<Rightarrow> bool option) \<Rightarrow> 'a list \<Rightarrow> 'a list option" where
  "opt_filter f [] = Some []"
| "opt_filter f (x # xs) =
     (case f x of
        None \<Rightarrow> None
      | Some b \<Rightarrow> map_option (\<lambda>ys. if b then x # ys else ys) (opt_filter f xs))"

lemma opt_filter_set: "opt_filter f xs = Some ys \<Longrightarrow> y \<in> set ys \<longleftrightarrow> y \<in> set xs \<and> f y = Some True"
  by (induction xs arbitrary: ys) (auto split: option.splits if_splits)

lemma opt_filter_total: "opt_filter (\<lambda>x. Some (f x)) xs = Some (filter f xs)"
  by (induction xs) auto

abbreviation re_spaces :: re where
  "re_spaces \<equiv> RStar (RSet py_space)"

abbreviation re_spaces1 :: re where
  "re_spaces1 \<equiv> RPlus (RSet py_space)"

abbreviation re_digits :: re where
  "re_digits \<equiv> RPlus (RSet re_digit)"

text \<open>\<^verbatim>\<open>\d+(?:\.\d+)?\<close> and \<^verbatim>\<open>\d[\d,]*\<close>\<close>

definition re_decimal :: re where
  "re_decimal = RSeq re_digits (ROpt (RSeq (RChar (CHR ''.'')) re_digits))"

definition re_count :: re where
  "re_count = RSeq (RSet re_digit) (RStar (RSet (\<lambda>c. re_digit c \<or> c = CHR '','')))"

definition re_colon_or_space :: re where
  "re_colon_or_space = RPlus (RSet (\<lambda>c. c = CHR '':'' \<or> py_space c))"

section \<open>File existence\<close>

definition name_hints :: "string list" where
  "name_hints =
     [''policy'', ''procedure'', ''access'', ''review'', ''termination'', ''monitoring'', ''audit'', ''log'',
      ''certificate'', ''report'']"

definition extract_name_hint :: "string \<Rightarrow> string list" where
  "extract_name_hint cond = take 3 (filter (\<lambda>k. str_in k cond) name_hints)"

datatype name_pattern = NoPattern | Hints "string list" | UserPattern pyval

definition name_pattern_of :: "eval_criterion \<Rightarrow> name_pattern" where
  "name_pattern_of c =
     (let v = (case param c ''name_pattern'' of None \<Rightarrow> PStr [] | Some v \<Rightarrow> v);
          hints = extract_name_hint (str_lower (pass_condition c))
      in if py_truthy v then UserPattern v else if hints = [] then NoPattern else Hints hints)"

definition pattern_search ::
    "(string \<Rightarrow> string \<Rightarrow> bool option) \<Rightarrow> name_pattern \<Rightarrow> string \<Rightarrow> bool option" where
  "pattern_search usearch p s =
     (case p of
        NoPattern \<Rightarrow> Some True
      | Hints ws \<Rightarrow> Some (re_search (RAlts (map RLit ws)) s)
      | UserPattern v \<Rightarrow> (case as_str v of None \<Rightarrow> None | Some t \<Rightarrow> usearch t s))"

definition acceptable_types :: "string \<Rightarrow> string list" where
  "acceptable_types t =
     (if t = ''document'' then [''pdf'', ''document'', ''text'']
      else if t = ''structured_data'' then [''spreadsheet'', ''csv'', ''json'']
      else if t = ''unstructured'' then [''pdf'', ''document'', ''text'', ''image'']
      else [])"

definition type_accepted :: "eval_criterion \<Rightarrow> string \<Rightarrow> bool" where
  "type_accepted c ft =
     (let ts = acceptable_types (str_lower (evidence_type c)) in ts = [] \<or> ft \<in> set ts)"

definition file_matches ::
    "(string \<Rightarrow> string \<Rightarrow> bool option) \<Rightarrow> eval_criterion \<Rightarrow> string \<Rightarrow> string \<Rightarrow> bool option" where
  "file_matches usearch c ft key =
     (if type_accepted c ft then pattern_search usearch (name_pattern_of c) (str_lower key) else Some False)"

definition matching_metadata ::
    "(string \<Rightarrow> string \<Rightarrow> bool option) \<Rightarrow> eval_criterion \<Rightarrow> evidence_metadata list \<Rightarrow> string list option" where
  "matching_metadata usearch c ms =
     map_option (map em_storage_key) (opt_filter (\<lambda>m. file_matches usearch c (em_file_type m) (em_storage_key m)) ms)"

definition matching_files ::
    "(string \<Rightarrow> string \<Rightarrow> bool option) \<Rightarrow> eval_criterion \<Rightarrow> evidence_file list \<Rightarrow> string list option" where
  "matching_files usearch c fs =
     map_option (map ef_storage_key) (opt_filter (\<lambda>e. file_matches usearch c (ef_file_type e) (ef_storage_key e)) fs)"

definition check_file_existence ::
    "(string \<Rightarrow> string \<Rightarrow> bool option) \<Rightarrow> eval_criterion \<Rightarrow> evidence_metadata list \<Rightarrow> evidence_file list
     \<Rightarrow> criterion_result option" where
  "check_file_existence usearch c ms fs =
     (case matching_metadata usearch c ms of
        None \<Rightarrow> None
      | Some found \<Rightarrow>
          (case (if found = [] then matching_files usearch c fs else Some found) of
             None \<Rightarrow> None
           | Some [] \<Rightarrow> Some (verdict c FAIL RULE_FILE_EXISTENCE [])
           | Some keys \<Rightarrow> Some (verdict c PASS RULE_FILE_EXISTENCE (take 5 keys))))"

section \<open>Freshness\<close>

text \<open>The first and the last second a Python \<^verbatim>\<open>datetime\<close> can hold.\<close>

definition datetime_min :: real where
  "datetime_min = -62135596800"

definition datetime_max :: real where
  "datetime_max = 253402300800"

definition first_int :: "re \<Rightarrow> string \<Rightarrow> int option" where
  "first_int r s = map_option digits_val (re_group r s)"

definition re_amount :: "string \<Rightarrow> re" where
  "re_amount w = RSeq (RGroup re_digits) (RSeq re_spaces (RSeq (RLit w) (ROpt (RChar (CHR ''s'')))))"

definition extract_max_age :: "string \<Rightarrow> int option" where
  "extract_max_age cond =
     (case first_int (re_amount ''month'') cond of
        Some n \<Rightarrow> Some (n * 30)
      | None \<Rightarrow>
          (case first_int (re_amount ''day'') cond of
             Some n \<Rightarrow> Some n
           | None \<Rightarrow>
               (case first_int (re_amount ''year'') cond of
                  Some n \<Rightarrow> Some (n * 365)
                | None \<Rightarrow>
                    if str_in ''annual'' cond then Some 365
                    else if str_in ''quarterly'' cond then Some 90
                    else if str_in ''monthly'' cond then Some 30
                    else None)))"

text \<open>
  \<^verbatim>\<open>now - timedelta(days=v)\<close>: a TypeError for a value that is no number, a ValueError for NaN and
  an OverflowError outside the years 1 to 9999. (Python's limit of 4300 digits when it parses an age is
  not modelled: an age that long overflows here too, unless its leading digits are zeros.)
\<close>

definition threshold_date :: "real \<Rightarrow> pyval \<Rightarrow> real option" where
  "threshold_date now v =
     (case as_number v of
        Some (Fin d) \<Rightarrow> (let t = now - 86400 * d in if datetime_min \<le> t \<and> t < datetime_max then Some t else None)
      | _ \<Rightarrow> None)"

definition fresh_files :: "real \<Rightarrow> evidence_metadata list \<Rightarrow> evidence_file list \<Rightarrow> string list" where
  "fresh_files t ms fs =
     foldl (\<lambda>acc m. if t \<le> extracted_at m \<and> em_storage_key m \<notin> set acc then acc @ [em_storage_key m] else acc)
       (map ef_storage_key (filter (\<lambda>e. t \<le> last_modified e) fs)) ms"

definition stale_files :: "real \<Rightarrow> evidence_file list \<Rightarrow> string list" where
  "stale_files t fs = map ef_storage_key (filter (\<lambda>e. last_modified e < t) fs)"

definition check_freshness ::
    "real \<Rightarrow> eval_criterion \<Rightarrow> evidence_metadata list \<Rightarrow> evidence_file list \<Rightarrow> criterion_result option" where
  "check_freshness now c ms fs =
     (let given = param_or_none c ''max_age_days'';
          age = (if given = PNone then (case extract_max_age (str_lower (pass_condition c)) of
                                          None \<Rightarrow> PNone | Some n \<Rightarrow> PInt n) else given)
      in if age = PNone then Some (judge_it c)
         else (case threshold_date now age of
                 None \<Rightarrow> None
               | Some t \<Rightarrow>
                   (let fresh = fresh_files t ms fs; stale = stale_files t fs
                    in if fresh = [] \<and> stale = [] then Some (judge_it c)
                       else if stale = [] then Some (verdict c PASS RULE_FRESHNESS (take 5 fresh))
                       else if fresh = [] then Some (verdict c FAIL RULE_FRESHNESS (take 5 stale))
                       else Some (judge_it c))))"

section \<open>Schema presence\<close>

definition common_fields :: "string list" where
  "common_fields =
     [''reviewer'', ''date'', ''outcome'', ''user'', ''action'', ''approval'', ''status'', ''timestamp'']"

definition re_columns :: re where
  "re_columns =
     RSeqs [RLit ''column'', ROpt (RChar (CHR ''s'')), re_colon_or_space, RGroup (RPlus (RSet (\<lambda>c. c \<noteq> CHR ''.'')))]"

definition extract_required_columns :: "string \<Rightarrow> string list" where
  "extract_required_columns cond =
     (case re_group re_columns cond of
        Some raw \<Rightarrow> filter (\<lambda>p. p \<noteq> [] \<and> length p < 30) (map str_strip (split_char (CHR '','') raw))
      | None \<Rightarrow> filter (\<lambda>f. str_in f cond) common_fields)"

definition normalized :: "string \<Rightarrow> string" where
  "normalized s = str_strip (str_lower s)"

definition all_columns :: "evidence_metadata list \<Rightarrow> string list" where
  "all_columns ms =
     concat (map (\<lambda>m. map normalized (columns m)) (filter (\<lambda>m. structured (em_file_type m)) ms))"

definition column_files :: "evidence_metadata list \<Rightarrow> string list" where
  "column_files ms =
     map em_storage_key (filter (\<lambda>m. structured (em_file_type m) \<and> columns m \<noteq> []) ms)"

definition column_present :: "string list \<Rightarrow> string \<Rightarrow> bool" where
  "column_present cols w \<longleftrightarrow> w \<in> set cols \<or> list_ex (\<lambda>e. str_in w e) cols"

definition required_columns :: "eval_criterion \<Rightarrow> pyval" where
  "required_columns c =
     (let v = (case param c ''required_columns'' of None \<Rightarrow> PList [] | Some v \<Rightarrow> v)
      in if py_truthy v then v
         else PList (map PStr (extract_required_columns (str_lower (pass_condition c)))))"

definition check_schema_presence ::
    "eval_criterion \<Rightarrow> evidence_metadata list \<Rightarrow> evidence_file list \<Rightarrow> criterion_result option" where
  "check_schema_presence c ms fs =
     (let required = required_columns c; cols = all_columns ms; used = take 3 (column_files ms)
      in if \<not> py_truthy required then Some (judge_it c)
         else if cols = [] then Some (judge_it c)
         else (case py_strings required of
                 None \<Rightarrow> None
               | Some ws \<Rightarrow>
                   if list_all (column_present cols) (map normalized ws)
                   then Some (verdict c PASS RULE_SCHEMA_PRESENCE used)
                   else Some (verdict c FAIL RULE_SCHEMA_PRESENCE used)))"

section \<open>Row count\<close>

definition min_rows_patterns :: "re list" where
  "min_rows_patterns =
     [RSeqs [RLit ''min'', ROpt (RLit ''imum''), re_colon_or_space, RGroup re_count],
      RSeqs [RLit ''at'', re_spaces1, RLit ''least'', re_spaces1, RGroup re_count],
      RSeqs [RChar (CHR ''>''), ROpt (RChar (CHR ''='')), re_spaces, RGroup re_count],
      RSeqs [RGroup re_count, re_spaces,
             RAlts [RLit ''or more'', RLit ''records'', RLit ''rows'', RLit ''entries'']]]"

text \<open>\<^verbatim>\<open>int(s)\<close> of a string of digits: a ValueError beyond 4300 digits.\<close>

definition int_of_digits :: "string \<Rightarrow> int option" where
  "int_of_digits ds = (if 4300 < length ds then None else Some (digits_val ds))"

fun first_count :: "re list \<Rightarrow> string \<Rightarrow> int option" where
  "first_count [] cond = None"
| "first_count (r # rs) cond =
     (case re_group r cond of
        None \<Rightarrow> first_count rs cond
      | Some g \<Rightarrow>
          (case int_of_digits (filter (\<lambda>c. c \<noteq> CHR '','') g) of
             None \<Rightarrow> first_count rs cond
           | Some n \<Rightarrow> Some n))"

definition extract_min_rows :: "string \<Rightarrow> int option" where
  "extract_min_rows cond =
     (case first_count min_rows_patterns cond of
        Some n \<Rightarrow> Some n
      | None \<Rightarrow> if str_in ''exist'' cond \<or> str_in ''present'' cond then Some 1 else None)"

definition min_rows :: "eval_criterion \<Rightarrow> pyval" where
  "min_rows c =
     (let given = param_or_none c ''min_rows''
      in if given \<noteq> PNone then given
         else (case extract_min_rows (str_lower (pass_condition c)) of None \<Rightarrow> PInt 1 | Some n \<Rightarrow> PInt n))"

definition counted :: "evidence_metadata list \<Rightarrow> evidence_metadata list" where
  "counted ms = filter (\<lambda>m. structured (em_file_type m) \<and> 0 < row_count m) ms"

definition total_rows :: "evidence_metadata list \<Rightarrow> int" where
  "total_rows ms = sum_list (map row_count (counted ms))"

definition check_row_count ::
    "eval_criterion \<Rightarrow> evidence_metadata list \<Rightarrow> evidence_file list \<Rightarrow> criterion_result option" where
  "check_row_count c ms fs =
     (let used = take 3 (map em_storage_key (counted ms))
      in if total_rows ms = 0 \<and> counted ms = [] then Some (verdict c FAIL RULE_ROW_COUNT [])
         else (case as_number (min_rows c) of
                 None \<Rightarrow> None
               | Some n \<Rightarrow>
                   if pf_le n (Fin (real_of_int (total_rows ms))) then Some (verdict c PASS RULE_ROW_COUNT used)
                   else Some (verdict c FAIL RULE_ROW_COUNT used)))"

section \<open>Keyword presence\<close>

definition quote_char :: "char \<Rightarrow> bool" where
  "quote_char c \<longleftrightarrow> c = CHR 0x27 \<or> c = CHR 0x22"

definition re_quoted :: re where
  "re_quoted = RSeqs [RSet quote_char, RGroup (RPlus (RSet (\<lambda>c. \<not> quote_char c))), RSet quote_char]"

definition re_covers :: re where
  "re_covers =
     RSeqs [RAlts (map RLitI [''covers'', ''mentions'', ''includes'', ''addresses'', ''contains'']), re_spaces1,
            RGroup (RSeq (RSet re_not_newline) (RLazy (RSet re_not_newline))), RAlt (RChar (CHR ''.'')) REnd]"

definition re_item_separator :: re where
  "re_item_separator =
     RAlt (RSeq (RChar (CHR '','')) re_spaces) (RSeqs [re_spaces1, RLit ''and'', re_spaces1])"

definition compliance_terms :: "string list" where
  "compliance_terms =
     [''provisioning'', ''de-provisioning'', ''least privilege'', ''review cadence'', ''periodic review'',
      ''access control'', ''multi-factor'', ''mfa'', ''encryption'', ''audit trail'',
      ''segregation of duties'', ''change management'', ''incident response'', ''backup'', ''recovery'',
      ''monitoring'', ''logging'']"

definition add_item :: "string list \<Rightarrow> string \<Rightarrow> string list" where
  "add_item kws raw =
     (let item = str_strip raw in if 2 < length item \<and> item \<notin> set kws then kws @ [item] else kws)"

definition extract_keywords :: "string \<Rightarrow> string list" where
  "extract_keywords cond =
     (let quoted = re_findall re_quoted cond;
          kws = (case re_group re_covers cond of
                   None \<Rightarrow> quoted
                 | Some items \<Rightarrow> foldl add_item quoted (re_split re_item_separator items))
      in if kws = [] then filter (\<lambda>t. str_in t (str_lower cond)) compliance_terms else kws)"

definition re_whole_word :: "string \<Rightarrow> re" where
  "re_whole_word w = RSeqs [RBound, RLit w, RBound]"

definition keyword_found :: "string \<Rightarrow> string \<Rightarrow> bool" where
  "keyword_found text keyword \<longleftrightarrow>
     (let k = str_lower keyword
      in if CHR '' '' \<in> set k then str_in k text
         else re_search (re_whole_word k) text)"

definition all_text :: "evidence_metadata list \<Rightarrow> string" where
  "all_text ms = concat (map (\<lambda>m. '' '' @ text_content m) (filter (\<lambda>m. text_content m \<noteq> []) ms))"

definition text_files :: "evidence_metadata list \<Rightarrow> string list" where
  "text_files ms = map em_storage_key (filter (\<lambda>m. text_content m \<noteq> []) ms)"

definition required_keywords :: "eval_criterion \<Rightarrow> pyval" where
  "required_keywords c =
     (let v = (case param c ''keywords'' of None \<Rightarrow> PList [] | Some v \<Rightarrow> v)
      in if py_truthy v then v else PList (map PStr (extract_keywords (pass_condition c))))"

definition check_keyword_presence ::
    "eval_criterion \<Rightarrow> evidence_metadata list \<Rightarrow> evidence_file list \<Rightarrow> criterion_result option" where
  "check_keyword_presence c ms fs =
     (let required = required_keywords c; used = take 3 (text_files ms)
      in if \<not> py_truthy required then Some (judge_it c)
         else if str_strip (all_text ms) = [] then Some (judge_it c)
         else (case py_strings required of
                 None \<Rightarrow> None
               | Some kws \<Rightarrow>
                   (let found = filter (keyword_found (str_lower (all_text ms))) kws
                    in if length found = length kws then Some (verdict c PASS RULE_KEYWORD_PRESENCE used)
                       else if found = [] then Some (verdict c FAIL RULE_KEYWORD_PRESENCE used)
                       else Some (verdict c NEEDS_JUDGMENT LLM_JUDGMENT used))))"

section \<open>Null rate\<close>

definition re_percent :: re where
  "re_percent = RSeqs [RGroup re_decimal, re_spaces, RChar (CHR ''%'')]"

definition percent_of :: "pyfloat \<Rightarrow> pyfloat" where
  "percent_of f = (if pf_greater f 1 then (case f of Fin x \<Rightarrow> Fin (x / 100) | _ \<Rightarrow> f) else f)"

definition group_float :: "re \<Rightarrow> string \<Rightarrow> pyfloat option" where
  "group_float r s = (case re_group r s of None \<Rightarrow> None | Some g \<Rightarrow> float_of_text (ustr g))"

definition min_populated :: "eval_criterion \<Rightarrow> pyval" where
  "min_populated c =
     (let given = param_or_none c ''min_populated_rate''
      in if given \<noteq> PNone then given
         else (case group_float re_percent (str_lower (pass_condition c)) of
                 None \<Rightarrow> PFloat (Fin (95 / 100))
               | Some f \<Rightarrow> PFloat (percent_of f)))"

definition re_target_columns :: re where
  "re_target_columns =
     RSeqs [RGroup (RPlus (RSet re_word)), re_spaces1, RAlts [RLit ''column'', RLit ''field'']]"

definition target_columns :: "eval_criterion \<Rightarrow> pyval" where
  "target_columns c =
     (let v = (case param c ''columns'' of None \<Rightarrow> PList [] | Some v \<Rightarrow> v)
      in if py_truthy v then v
         else PList (map PStr (re_findall re_target_columns (str_lower (pass_condition c)))))"

text \<open>A number in float arithmetic (None: a TypeError or an OverflowError).\<close>

definition float_operand :: "pyval \<Rightarrow> pyfloat option" where
  "float_operand v =
     (case as_str v of
        Some s \<Rightarrow> None
      | None \<Rightarrow> (case py_float v of Inl e \<Rightarrow> None | Inr f \<Rightarrow> Some f))"

definition matched_rate :: "(string, pyval) dict \<Rightarrow> string \<Rightarrow> pyval" where
  "matched_rate rates col =
     (case find (\<lambda>(k, v). str_lower k = str_lower col \<or> str_in (str_lower col) (str_lower k)) rates of
        None \<Rightarrow> PNone | Some (k, v) \<Rightarrow> v)"

text \<open>Whether the text of a violation can be formatted: \<^verbatim>\<open>f"{min_populated*100:.0f}"\<close>.\<close>

fun percent_formats :: "pyval \<Rightarrow> bool" where
  "percent_formats (PInt i) \<longleftrightarrow> (case float_of_int (i * 100) of Inl e \<Rightarrow> False | Inr f \<Rightarrow> True)"
| "percent_formats v \<longleftrightarrow> True"

text \<open>One column: unknown (outer Some, inner None), or whether it meets the threshold; None where it raises.\<close>

definition column_populated :: "(string, pyval) dict \<Rightarrow> pyval \<Rightarrow> string \<Rightarrow> bool option option" where
  "column_populated rates minimum col =
     (let rate = matched_rate rates col
      in if rate = PNone then Some None
         else (case (float_operand rate, as_number minimum) of
                 (Some r, Some m) \<Rightarrow>
                   if pf_le m (pf_add (Fin 1) (pf_neg r)) then Some (Some True)
                   else if percent_formats minimum then Some (Some False) else None
               | _ \<Rightarrow> None))"

definition evaluate_null_rates ::
    "eval_criterion \<Rightarrow> (string, pyval) dict \<Rightarrow> pyval \<Rightarrow> pyval \<Rightarrow> string \<Rightarrow> criterion_result option" where
  "evaluate_null_rates c rates targets minimum key =
     (case (if py_truthy targets then py_strings targets else Some (dict_keys rates)) of
        None \<Rightarrow> None
      | Some cols \<Rightarrow>
          (case opt_map (column_populated rates minimum) cols of
             None \<Rightarrow> None
           | Some marks \<Rightarrow>
               if Some False \<in> set marks then Some (verdict c FAIL RULE_NULL_RATE [key])
               else if Some True \<in> set marks then Some (verdict c PASS RULE_NULL_RATE [key])
               else Some (judge_it c)))"

fun null_rate_scan :: "eval_criterion \<Rightarrow> evidence_metadata list \<Rightarrow> criterion_result option" where
  "null_rate_scan c [] = Some (judge_it c)"
| "null_rate_scan c (m # ms) =
     (if \<not> structured (em_file_type m) then null_rate_scan c ms
      else let rates = (case dict_get (schema_info m) ''null_rates'' of None \<Rightarrow> PDict [] | Some v \<Rightarrow> v)
           in if py_truthy rates then
                (case rates of
                   PDict d \<Rightarrow> evaluate_null_rates c d (target_columns c) (min_populated c) (em_storage_key m)
                 | _ \<Rightarrow> None)
              else if 0 < row_count m \<and> columns m \<noteq> [] then Some (judge_it c)
              else null_rate_scan c ms)"

definition check_null_rate ::
    "eval_criterion \<Rightarrow> evidence_metadata list \<Rightarrow> evidence_file list \<Rightarrow> criterion_result option" where
  "check_null_rate c ms fs = null_rate_scan c ms"

section \<open>Cross references\<close>

definition dataset_files :: "evidence_metadata list \<Rightarrow> evidence_metadata list" where
  "dataset_files ms = filter (\<lambda>m. structured (em_file_type m) \<and> columns m \<noteq> []) ms"

definition lower_columns :: "evidence_metadata \<Rightarrow> string list" where
  "lower_columns m = map str_lower (columns m)"

definition joinable_by_column :: "evidence_metadata list \<Rightarrow> string \<Rightarrow> bool" where
  "joinable_by_column ms w \<longleftrightarrow>
     2 \<le> count_if (\<lambda>m. str_lower w \<in> set (lower_columns m)
                        \<or> list_ex (\<lambda>col. str_in (str_lower w) col) (lower_columns m)) ms"

definition generic_columns :: "string list" where
  "generic_columns =
     [''id'', ''date'', ''timestamp'', ''created_at'', ''updated_at'', ''type'', ''status'']"

definition shares_columns :: "evidence_metadata \<Rightarrow> evidence_metadata \<Rightarrow> bool" where
  "shares_columns m m2 \<longleftrightarrow>
     (let common = filter (\<lambda>col. col \<in> set (lower_columns m2)) (lower_columns m)
      in filter (\<lambda>col. col \<notin> set generic_columns) common \<noteq> [] \<or> common \<noteq> [])"

fun joinable_auto :: "evidence_metadata list \<Rightarrow> bool" where
  "joinable_auto [] = False"
| "joinable_auto (m # ms) = (list_ex (shares_columns m) ms \<or> joinable_auto ms)"

definition py_zero :: "pyval \<Rightarrow> bool" where
  "py_zero v \<longleftrightarrow> as_number v = Some (Fin 0)"

definition xref_value :: "(string, pyval) dict \<Rightarrow> string \<Rightarrow> pyval" where
  "xref_value d k = (case dict_get d k of None \<Rightarrow> PInt 0 | Some v \<Rightarrow> v)"

text \<open>The first dataset with precomputed results decides; the text needs a number of checked records.\<close>

fun xref_scan ::
    "eval_criterion \<Rightarrow> string list \<Rightarrow> evidence_metadata list \<Rightarrow> criterion_result option" where
  "xref_scan c used [] = Some (verdict c NEEDS_JUDGMENT LLM_JUDGMENT used)"
| "xref_scan c used (m # ms) =
     (case dict_get (schema_info m) ''cross_reference_results'' of
        None \<Rightarrow> xref_scan c used ms
      | Some PNone \<Rightarrow> xref_scan c used ms
      | Some (PDict d) \<Rightarrow>
          (case as_number (xref_value d ''total_checked'') of
             None \<Rightarrow> None
           | Some n \<Rightarrow>
               Some (verdict c (if py_zero (xref_value d ''violations'') then PASS else FAIL)
                       RULE_CROSS_REFERENCE used))
      | Some v \<Rightarrow> None)"

definition check_cross_reference ::
    "eval_criterion \<Rightarrow> evidence_metadata list \<Rightarrow> evidence_file list \<Rightarrow> criterion_result option" where
  "check_cross_reference c ms fs =
     (let join = (case param c ''join_column'' of None \<Rightarrow> PStr [] | Some v \<Rightarrow> v);
          ds = dataset_files ms;
          used = take 3 (map em_storage_key ds)
      in if ds = [] then Some (verdict c FAIL RULE_CROSS_REFERENCE [])
         else if length ds < 2 then Some (judge_it c)
         else (case (if py_truthy join then map_option (joinable_by_column ds) (as_str join)
                     else Some (joinable_auto ds)) of
                 None \<Rightarrow> None
               | Some False \<Rightarrow> Some (judge_it c)
               | Some True \<Rightarrow> xref_scan c used ds))"

section \<open>Quantitative thresholds\<close>

definition threshold_patterns :: "re list" where
  "threshold_patterns =
     [RSeqs [RLit ''max'', re_spaces1, RGroup re_decimal],
      RSeqs [RLit ''within'', re_spaces1, RGroup re_decimal],
      RSeqs [RAlt (RSeq (RChar (CHR ''<'')) (ROpt (RChar (CHR ''=''))))
                  (RSeq (RChar (CHR ''>'')) (ROpt (RChar (CHR ''='')))), re_spaces, RGroup re_decimal],
      RSeqs [RLit ''threshold'', re_colon_or_space, RGroup re_decimal],
      RSeqs [RGroup re_decimal, re_spaces,
             RAlts [RSeq (RLit ''hour'') (ROpt (RChar (CHR ''s''))), RSeq (RLit ''day'') (ROpt (RChar (CHR ''s''))),
                    RSeq (RLit ''h'') RBound]]]"

fun first_float :: "re list \<Rightarrow> string \<Rightarrow> pyfloat option" where
  "first_float [] cond = None"
| "first_float (r # rs) cond = (case group_float r cond of None \<Rightarrow> first_float rs cond | Some f \<Rightarrow> Some f)"

definition threshold_value :: "eval_criterion \<Rightarrow> pyval" where
  "threshold_value c =
     (let given = param_or_none c ''threshold_value''
      in if given \<noteq> PNone then given
         else (case first_float threshold_patterns (str_lower (pass_condition c)) of
                 None \<Rightarrow> PNone | Some f \<Rightarrow> PFloat f))"

text \<open>\<^verbatim>\<open>{**metrics, **computed_stats, **summary}\<close>, a TypeError unless all three are dictionaries.\<close>

definition info_dict :: "evidence_metadata \<Rightarrow> string \<Rightarrow> (string, pyval) dict option" where
  "info_dict m k =
     (case dict_get (schema_info m) k of
        None \<Rightarrow> Some [] | Some v \<Rightarrow> (case v of PDict d \<Rightarrow> Some d | _ \<Rightarrow> None))"

definition merge_dict :: "('k, 'v) dict \<Rightarrow> ('k, 'v) dict \<Rightarrow> ('k, 'v) dict" where
  "merge_dict d e = foldl (\<lambda>acc (k, v). dict_set k v acc) d e"

definition all_metrics :: "evidence_metadata \<Rightarrow> (string, pyval) dict option" where
  "all_metrics m =
     (case (info_dict m ''metrics'', info_dict m ''computed_stats'', info_dict m ''summary'') of
        (Some a, Some b, Some d) \<Rightarrow> Some (merge_dict (merge_dict (merge_dict [] a) b) d)
      | _ \<Rightarrow> None)"

definition fuzzy_find_metric :: "string \<Rightarrow> (string, pyval) dict \<Rightarrow> pyval" where
  "fuzzy_find_metric name d =
     (case find (\<lambda>(k, v). str_in (str_lower name) (str_lower k) \<or> str_in (str_lower k) (str_lower name)) d of
        None \<Rightarrow> PNone | Some (k, v) \<Rightarrow> v)"

definition metric_keywords :: "string list list" where
  "metric_keywords =
     [[''sla'', ''time'', ''duration'', ''hours'', ''latency''],
      [''rate'', ''percentage'', ''ratio''],
      [''count'', ''total'', ''number''],
      [''max'', ''maximum'', ''peak''],
      [''avg'', ''average'', ''mean'']]"

fun infer_from :: "string list list \<Rightarrow> string \<Rightarrow> (string, pyval) dict \<Rightarrow> pyval" where
  "infer_from [] cond d = PNone"
| "infer_from (kws # rest) cond d =
     (if list_ex (\<lambda>kw. str_in kw cond) kws then
        (case find (\<lambda>(k, v). list_ex (\<lambda>kw. str_in kw (str_lower k)) kws) d of
           None \<Rightarrow> infer_from rest cond d | Some (k, v) \<Rightarrow> v)
      else infer_from rest cond d)"

definition infer_metric_value :: "string \<Rightarrow> (string, pyval) dict \<Rightarrow> pyval" where
  "infer_metric_value cond d = infer_from metric_keywords cond d"

text \<open>The value of the metric; a metric name that is no string raises (no such key, no \<^verbatim>\<open>lower\<close>).\<close>

definition actual_value :: "eval_criterion \<Rightarrow> (string, pyval) dict \<Rightarrow> pyval option" where
  "actual_value c d =
     (let name = (case param c ''metric_name'' of None \<Rightarrow> PStr [] | Some v \<Rightarrow> v)
      in if py_truthy name then
           (case as_str name of
              None \<Rightarrow> None
            | Some s \<Rightarrow>
                Some (case dict_get d s of
                        None \<Rightarrow> fuzzy_find_metric s d
                      | Some v \<Rightarrow> if v = PNone then fuzzy_find_metric s d else v))
         else Some (infer_metric_value (str_lower (pass_condition c)) d))"

text \<open>\<^verbatim>\<open>ops.get(operator, ops["<="])\<close>: an unhashable operator raises, an unknown one means at most.\<close>

fun compare_ok :: "pyfloat \<Rightarrow> pyval \<Rightarrow> pyfloat \<Rightarrow> bool option" where
  "compare_ok a (PList vs) t = None"
| "compare_ok a (PDict d) t = None"
| "compare_ok a op t =
     Some (if op = PStr ''>='' then pf_le t a
           else if op = PStr ''<'' then pf_lt a t
           else if op = PStr ''>'' then pf_lt t a
           else if op = PStr ''=='' then
             (case pf_add a (pf_neg t) of Fin x \<Rightarrow> \<bar>x\<bar> < 1 / 1000 | _ \<Rightarrow> False)
           else pf_le a t)"

definition operator_of :: "eval_criterion \<Rightarrow> pyval" where
  "operator_of c = (case param c ''operator'' of None \<Rightarrow> PStr ''<='' | Some v \<Rightarrow> v)"

text \<open>One file: no answer (outer Some, inner None), or whether the threshold is met.\<close>

definition metric_check :: "eval_criterion \<Rightarrow> evidence_metadata \<Rightarrow> bool option option" where
  "metric_check c m =
     (case all_metrics m of
        None \<Rightarrow> None
      | Some d \<Rightarrow>
          if d = [] then Some None
          else (case actual_value c d of
                  None \<Rightarrow> None
                | Some v \<Rightarrow>
                    if v = PNone \<or> threshold_value c = PNone then Some None
                    else (case py_float v of
                            Inl FloatOverflowError \<Rightarrow> None
                          | Inl e \<Rightarrow> Some None
                          | Inr a \<Rightarrow>
                              (case py_float (threshold_value c) of
                                 Inl FloatOverflowError \<Rightarrow> None
                               | Inl e \<Rightarrow> Some None
                               | Inr t \<Rightarrow> map_option Some (compare_ok a (operator_of c) t)))))"

fun metric_scan :: "eval_criterion \<Rightarrow> evidence_metadata list \<Rightarrow> criterion_result option" where
  "metric_scan c [] = Some (judge_it c)"
| "metric_scan c (m # ms) =
     (case metric_check c m of
        None \<Rightarrow> None
      | Some None \<Rightarrow> metric_scan c ms
      | Some (Some ok) \<Rightarrow> Some (verdict c (if ok then PASS else FAIL) RULE_QUANTITATIVE [em_storage_key m]))"

definition check_quantitative ::
    "eval_criterion \<Rightarrow> evidence_metadata list \<Rightarrow> evidence_file list \<Rightarrow> criterion_result option" where
  "check_quantitative c ms fs = metric_scan c ms"

section \<open>Dispatch\<close>

definition rule_handler ::
    "(string \<Rightarrow> string \<Rightarrow> bool option) \<Rightarrow> real \<Rightarrow> string
     \<Rightarrow> (eval_criterion \<Rightarrow> evidence_metadata list \<Rightarrow> evidence_file list \<Rightarrow> criterion_result option) option" where
  "rule_handler usearch now t =
     map_of [(''file_existence'', check_file_existence usearch), (''freshness'', check_freshness now),
             (''schema_presence'', check_schema_presence), (''row_count'', check_row_count),
             (''null_rate'', check_null_rate), (''cross_reference'', check_cross_reference),
             (''quantitative'', check_quantitative), (''keyword_presence'', check_keyword_presence)] t"

definition dispatch_rule ::
    "(string \<Rightarrow> string \<Rightarrow> bool option) \<Rightarrow> real \<Rightarrow> string \<Rightarrow> eval_criterion \<Rightarrow> evidence_metadata list
     \<Rightarrow> evidence_file list \<Rightarrow> criterion_result" where
  "dispatch_rule usearch now t c ms fs =
     (case rule_handler usearch now t of
        None \<Rightarrow> judge_it c
      | Some h \<Rightarrow> (case h c ms fs of None \<Rightarrow> judge_it c | Some r \<Rightarrow> r))"

text \<open>\<^verbatim>\<open>s.split()\<close>\<close>

fun words_from :: "string \<Rightarrow> string \<Rightarrow> string list" where
  "words_from acc [] = (if acc = [] then [] else [rev acc])"
| "words_from acc (c # cs) =
     (if py_space c then (if acc = [] then words_from [] cs else rev acc # words_from [] cs)
      else words_from (c # acc) cs)"

definition str_words :: "string \<Rightarrow> string list" where
  "str_words s = words_from [] s"

definition infer_check_type :: "eval_criterion \<Rightarrow> string option" where
  "infer_check_type c =
     (let et = str_lower (evidence_type c); cond = str_lower (pass_condition c)
      in if et = ''document'' then
           (if str_in ''exists'' cond \<or> ''policy'' \<in> set (take 3 (str_words cond)) then Some ''file_existence''
            else if str_in ''reviewed within'' cond \<or> str_in ''months'' cond then Some ''freshness''
            else if str_in ''mentions'' cond \<or> str_in ''contains'' cond \<or> str_in ''covers'' cond
            then Some ''keyword_presence'' else None)
         else if et = ''structured_data'' then
           (if str_in ''count'' cond \<or> str_in ''records exist'' cond then Some ''row_count''
            else if str_in ''populated'' cond \<or> str_in ''null'' cond then Some ''null_rate''
            else if str_in ''cross-reference'' cond \<or> str_in ''no active'' cond then Some ''cross_reference''
            else if str_in ''columns'' cond \<or> str_in ''fields'' cond then Some ''schema_presence''
            else if list_ex (\<lambda>w. str_in w cond) [''threshold'', ''within'', ''max'', ''minimum'']
            then Some ''quantitative'' else Some ''row_count'')
         else None)"

definition evaluate_criterion_with_rules ::
    "(string \<Rightarrow> string \<Rightarrow> bool option) \<Rightarrow> real \<Rightarrow> evidence_metadata list \<Rightarrow> evidence_file list \<Rightarrow> eval_criterion
     \<Rightarrow> criterion_result" where
  "evaluate_criterion_with_rules usearch now ms fs c =
     (case (if str_truthy (check_type c) then check_type c else infer_check_type c) of
        None \<Rightarrow> judge_it c
      | Some t \<Rightarrow> dispatch_rule usearch now t c ms fs)"

record rules_outcome =
  rule_results :: "(string, criterion_result) dict"
  needs_judgment :: "string list"
  rules_resolved :: nat

definition rules_step ::
    "(eval_criterion \<Rightarrow> criterion_result) \<Rightarrow> rules_outcome \<Rightarrow> eval_criterion \<Rightarrow> rules_outcome" where
  "rules_step evaluate out c =
     (let r = evaluate c; out2 = out\<lparr>rule_results := dict_set (crit_id c) r (rule_results out)\<rparr>
      in if cr_result r = NEEDS_JUDGMENT then out2\<lparr>needs_judgment := needs_judgment out @ [crit_id c]\<rparr>
         else out2\<lparr>rules_resolved := Suc (rules_resolved out)\<rparr>)"

definition rules_engine_node ::
    "(string \<Rightarrow> string \<Rightarrow> bool option) \<Rightarrow> real \<Rightarrow> eval_criterion list \<Rightarrow> evidence_metadata list
     \<Rightarrow> evidence_file list \<Rightarrow> rules_outcome" where
  "rules_engine_node usearch now cs ms fs =
     foldl (rules_step (evaluate_criterion_with_rules usearch now ms fs))
       \<lparr>rule_results = [], needs_judgment = [], rules_resolved = 0\<rparr> cs"

section \<open>What every rule promises\<close>

text \<open>
  An answer is about its criterion, settles it under the rule's own method or asks for a judgment,
  and cites at most five files, all of them given.
\<close>

definition evidence_keys :: "evidence_metadata list \<Rightarrow> evidence_file list \<Rightarrow> string set" where
  "evidence_keys ms fs = em_storage_key ` set ms \<union> ef_storage_key ` set fs"

definition rule_ok ::
    "eval_method set \<Rightarrow> eval_criterion \<Rightarrow> evidence_metadata list \<Rightarrow> evidence_file list \<Rightarrow> criterion_result \<Rightarrow> bool" where
  "rule_ok methods c ms fs r \<longleftrightarrow>
     criterion_id r = crit_id c \<and> category r = crit_category c \<and>
     (cr_result r \<in> {PASS, FAIL} \<and> cr_method r \<in> methods
      \<or> cr_result r = NEEDS_JUDGMENT \<and> cr_method r = LLM_JUDGMENT) \<and>
     length (evidence_used r) \<le> 5 \<and> set (evidence_used r) \<subseteq> evidence_keys ms fs"

lemma rule_ok_judge [simp]: "rule_ok methods c ms fs (judge_it c)"
  by (simp add: rule_ok_def)

lemma rule_ok_verdict [intro]:
  assumes "length used \<le> 5" "set used \<subseteq> evidence_keys ms fs"
    and "r \<in> {PASS, FAIL} \<and> m \<in> methods \<or> r = NEEDS_JUDGMENT \<and> m = LLM_JUDGMENT"
  shows "rule_ok methods c ms fs (verdict c r m used)"
  using assms by (auto simp: rule_ok_def)

lemma rule_ok_mono: "rule_ok A c ms fs r \<Longrightarrow> A \<subseteq> B \<Longrightarrow> rule_ok B c ms fs r"
  by (auto simp: rule_ok_def)

lemma taken_keys:
  "set xs \<subseteq> set ms \<Longrightarrow> set (take n (map em_storage_key xs)) \<subseteq> evidence_keys ms fs"
  "set ys \<subseteq> set fs \<Longrightarrow> set (take n (map ef_storage_key ys)) \<subseteq> evidence_keys ms fs"
  by (fastforce simp: evidence_keys_def dest: in_set_takeD)+

locale evidence_rule =
  fixes check :: "eval_criterion \<Rightarrow> evidence_metadata list \<Rightarrow> evidence_file list \<Rightarrow> criterion_result option"
    and methods :: "eval_method set"
  assumes answer_ok: "check c ms fs = Some r \<Longrightarrow> rule_ok methods c ms fs r"
begin

lemma guarded_ok: "rule_ok methods c ms fs (case check c ms fs of None \<Rightarrow> judge_it c | Some r \<Rightarrow> r)"
  using answer_ok by (auto split: option.split)

lemma settled_by_method:
  "check c ms fs = Some r \<Longrightarrow> cr_result r \<noteq> NEEDS_JUDGMENT \<Longrightarrow> cr_method r \<in> methods"
  using answer_ok [of c ms fs r] by (auto simp: rule_ok_def)

end

interpretation file_rule: evidence_rule "check_file_existence usearch" "{RULE_FILE_EXISTENCE}" for usearch
proof
  fix c ms fs r
  assume r: "check_file_existence usearch c ms fs = Some r"
  have sub: "set ks \<subseteq> evidence_keys ms fs"
    if "matching_metadata usearch c ms = Some ks \<or> matching_files usearch c fs = Some ks" for ks
    using that by (auto simp: matching_metadata_def matching_files_def evidence_keys_def opt_filter_set)
  from r consider "r = verdict c FAIL RULE_FILE_EXISTENCE []"
    | keys where "matching_metadata usearch c ms = Some keys \<or> matching_files usearch c fs = Some keys"
        "r = verdict c PASS RULE_FILE_EXISTENCE (take 5 keys)"
    unfolding check_file_existence_def
    by (fastforce simp del: take_Cons_numeral split: option.splits list.splits if_splits)
  then show "rule_ok {RULE_FILE_EXISTENCE} c ms fs r"
  proof cases
    case 1
    then show ?thesis by (simp add: rule_ok_def)
  next
    case 2
    have "set (take 5 keys) \<subseteq> evidence_keys ms fs" using sub [OF 2(1)] by (auto dest: in_set_takeD)
    then show ?thesis unfolding 2(2) by (intro rule_ok_verdict) auto
  qed
qed

lemma fresh_files_keys: "set (fresh_files t ms fs) \<subseteq> evidence_keys ms fs"
proof -
  have "set (foldl (\<lambda>acc m. if t \<le> extracted_at m \<and> em_storage_key m \<notin> set acc
                            then acc @ [em_storage_key m] else acc) acc ms)
        \<subseteq> set acc \<union> em_storage_key ` set ms" for acc
  proof (induction ms arbitrary: acc)
    case (Cons m ms)
    from Cons [of acc] Cons [of "acc @ [em_storage_key m]"] show ?case by auto
  qed simp
  then show ?thesis unfolding fresh_files_def evidence_keys_def by fastforce
qed

interpretation freshness_rule: evidence_rule "check_freshness now" "{RULE_FRESHNESS}" for now
proof
  fix c ms fs r
  assume "check_freshness now c ms fs = Some r"
  then show "rule_ok {RULE_FRESHNESS} c ms fs r"
    using fresh_files_keys [of _ ms fs]
    by (auto simp: check_freshness_def Let_def stale_files_def split: if_splits option.splits
        intro!: rule_ok_verdict taken_keys dest!: in_set_takeD) 
qed

interpretation schema_rule: evidence_rule check_schema_presence "{RULE_SCHEMA_PRESENCE}"
  by unfold_locales
    (auto simp: check_schema_presence_def Let_def column_files_def
      split: if_splits option.splits intro!: rule_ok_verdict taken_keys)

interpretation row_rule: evidence_rule check_row_count "{RULE_ROW_COUNT}"
  by unfold_locales
    (auto simp: check_row_count_def Let_def counted_def
      split: if_splits option.splits intro!: rule_ok_verdict taken_keys)

interpretation keyword_rule: evidence_rule check_keyword_presence "{RULE_KEYWORD_PRESENCE}"
  by unfold_locales
    (auto simp: check_keyword_presence_def Let_def text_files_def
      split: if_splits option.splits intro!: rule_ok_verdict taken_keys)

lemma null_rate_scan_ok: "null_rate_scan c ms = Some r \<Longrightarrow> rule_ok {RULE_NULL_RATE} c ms fs r"
proof (induction c ms rule: null_rate_scan.induct)
  case (2 c m ms)
  have "rule_ok A c ms fs r \<Longrightarrow> rule_ok A c (m # ms) fs r" for A
    by (auto simp: rule_ok_def evidence_keys_def)
  with 2 show ?case
    by (auto simp: Let_def evaluate_null_rates_def evidence_keys_def
        split: if_splits option.splits pyval.splits intro!: rule_ok_verdict)
qed auto

interpretation null_rule: evidence_rule check_null_rate "{RULE_NULL_RATE}"
  by unfold_locales (simp add: check_null_rate_def null_rate_scan_ok)

lemma metric_scan_ok: "metric_scan c ms = Some r \<Longrightarrow> rule_ok {RULE_QUANTITATIVE} c ms fs r"
proof (induction c ms rule: metric_scan.induct)
  case (2 c m ms)
  have "rule_ok A c ms fs r \<Longrightarrow> rule_ok A c (m # ms) fs r" for A
    by (auto simp: rule_ok_def evidence_keys_def)
  with 2 show ?case
    by (auto simp: evidence_keys_def split: if_splits option.splits intro!: rule_ok_verdict)
qed auto

interpretation quantitative_rule: evidence_rule check_quantitative "{RULE_QUANTITATIVE}"
  by unfold_locales (simp add: check_quantitative_def metric_scan_ok)

lemma xref_scan_ok:
  "xref_scan c used ds = Some r \<Longrightarrow> length used \<le> 5 \<Longrightarrow> set used \<subseteq> evidence_keys ms fs
   \<Longrightarrow> rule_ok {RULE_CROSS_REFERENCE} c ms fs r"
  by (induction c used ds rule: xref_scan.induct)
    (auto split: if_splits option.splits pyval.splits intro!: rule_ok_verdict)

interpretation xref_rule: evidence_rule check_cross_reference "{RULE_CROSS_REFERENCE}"
proof
  fix c ms fs r
  have "set (take 3 (map em_storage_key (dataset_files ms))) \<subseteq> evidence_keys ms fs"
    by (intro taken_keys) (auto simp: dataset_files_def)
  moreover assume "check_cross_reference c ms fs = Some r"
  ultimately show "rule_ok {RULE_CROSS_REFERENCE} c ms fs r"
    by (auto simp: check_cross_reference_def Let_def
        split: if_splits option.splits bool.splits intro!: rule_ok_verdict intro: xref_scan_ok)
qed

section \<open>Layer 1\<close>

definition rule_methods :: "eval_method set" where
  "rule_methods =
     {RULE_FILE_EXISTENCE, RULE_FRESHNESS, RULE_SCHEMA_PRESENCE, RULE_ROW_COUNT, RULE_NULL_RATE,
      RULE_CROSS_REFERENCE, RULE_QUANTITATIVE, RULE_KEYWORD_PRESENCE}"

lemma handler_ok:
  assumes "rule_handler usearch now t = Some h"
  shows "\<exists>m \<in> rule_methods. evidence_rule h {m}"
proof -
  from assms have "h \<in> {check_file_existence usearch, check_freshness now, check_schema_presence,
      check_row_count, check_null_rate, check_cross_reference, check_quantitative, check_keyword_presence}"
    by (auto simp: rule_handler_def split: if_splits)
  then show ?thesis
    using file_rule.evidence_rule_axioms freshness_rule.evidence_rule_axioms schema_rule.evidence_rule_axioms
      row_rule.evidence_rule_axioms null_rule.evidence_rule_axioms xref_rule.evidence_rule_axioms
      quantitative_rule.evidence_rule_axioms keyword_rule.evidence_rule_axioms
    unfolding rule_methods_def by blast
qed

lemma dispatch_ok: "rule_ok rule_methods c ms fs (dispatch_rule usearch now t c ms fs)"
proof (cases "rule_handler usearch now t")
  case (Some h)
  then obtain m where "m \<in> rule_methods" "evidence_rule h {m}" using handler_ok by blast
  then show ?thesis
    using evidence_rule.guarded_ok [of h "{m}" c ms fs] rule_ok_mono [of "{m}" c ms fs _ rule_methods] Some
    by (auto simp: dispatch_rule_def)
qed (simp add: dispatch_rule_def)

text \<open>
  C24 (rules_answer_for_their_criterion): whatever the criterion, the evidence and the rule, a handler
  that raises included, layer 1 answers under the criterion's own id and category; the answer is
  PASS or FAIL under one of the eight rule methods or NEEDS_JUDGMENT under the judge's, and cites at
  most five files, all of them among the evidence it was given.
\<close>

theorem rules_answer_for_their_criterion:
  "rule_ok rule_methods c ms fs (evaluate_criterion_with_rules usearch now ms fs c)"
  by (auto simp: evaluate_criterion_with_rules_def dispatch_ok split: option.split)

lemma rules_steps:
  "foldl (rules_step ev) out cs =
     \<lparr>rule_results = foldl (\<lambda>d c. dict_set (crit_id c) (ev c) d) (rule_results out) cs,
      needs_judgment = needs_judgment out @ map crit_id (filter (\<lambda>c. cr_result (ev c) = NEEDS_JUDGMENT) cs),
      rules_resolved = rules_resolved out + count_if (\<lambda>c. cr_result (ev c) \<noteq> NEEDS_JUDGMENT) cs\<rparr>"
  by (induction cs arbitrary: out) (auto simp: rules_step_def Let_def)

lemma foldl_dict_set_get:
  "dict_get (foldl (\<lambda>d c. dict_set (k c) (v c) d) d0 cs) i =
     (case find (\<lambda>c. k c = i) (rev cs) of None \<Rightarrow> dict_get d0 i | Some c \<Rightarrow> Some (v c))"
  by (induction cs rule: rev_induct) auto

lemma find_unique:
  "distinct (map k cs) \<Longrightarrow> c \<in> set cs \<Longrightarrow> find (\<lambda>x. k x = k c) (rev cs) = Some c"
  by (induction cs rule: rev_induct) (auto simp: image_iff)

text \<open>
  (layer_one_partitions_criteria): when criterion ids are distinct, every criterion has exactly the
  result its rule gave, the list handed to the judges is exactly the criteria whose rule asked for a
  judgment, in their order, and the criteria counted as resolved are the others.
\<close>

theorem layer_one_partitions_criteria:
  assumes "distinct (map crit_id cs)"
  shows "(\<forall>c \<in> set cs. dict_get (rule_results (rules_engine_node usearch now cs ms fs)) (crit_id c)
                       = Some (evaluate_criterion_with_rules usearch now ms fs c))
     \<and> needs_judgment (rules_engine_node usearch now cs ms fs)
       = map crit_id (filter (\<lambda>c. cr_result (evaluate_criterion_with_rules usearch now ms fs c) = NEEDS_JUDGMENT) cs)
     \<and> rules_resolved (rules_engine_node usearch now cs ms fs)
       + length (needs_judgment (rules_engine_node usearch now cs ms fs)) = length cs"
proof -
  have "count_if (\<lambda>c. \<not> p c) cs + length (filter p cs) = length cs" for p
    by (induction cs) auto
  then show ?thesis
    using find_unique [OF assms]
    by (simp add: rules_engine_node_def rules_steps foldl_dict_set_get)
qed

theorem layer_one_partitions_criteria_witness:
  "distinct (map crit_id [sample_criterion])
   \<and> rules_resolved (rules_engine_node (\<lambda>p s. None) 0 [sample_criterion] [sample_metadata] [])
     + length (needs_judgment (rules_engine_node (\<lambda>p s. None) 0 [sample_criterion] [sample_metadata] []))
     = length [sample_criterion]"
proof -
  have "distinct (map crit_id [sample_criterion])" by simp
  from this layer_one_partitions_criteria [OF this, of "\<lambda>p s. None" 0 "[sample_metadata]" "[]"]
  show ?thesis by blast
qed

section \<open>Words, rows and dates\<close>

text \<open>A word is found exactly where it stands between word boundaries.\<close>

definition boundary_between :: "string \<Rightarrow> string \<Rightarrow> bool" where
  "boundary_between b e \<longleftrightarrow>
     (b \<noteq> [] \<and> re_word (last b)) \<noteq> (e \<noteq> [] \<and> re_word (hd e))"

definition whole_word_in :: "string \<Rightarrow> string \<Rightarrow> bool" where
  "whole_word_in w s \<longleftrightarrow>
     (\<exists>b e. s = b @ w @ e \<and> boundary_between b (w @ e) \<and> boundary_between (b @ w) e)"

lemma at_boundary_split:
  "at_boundary (if b = [] then None else Some (last b), e) \<longleftrightarrow> boundary_between b e"
  by (cases e) (auto simp: at_boundary_def boundary_between_def)

lemma whole_word_matches:
  "re_matches (re_whole_word w) (if b = [] then None else Some (last b), s) = [] \<longleftrightarrow>
     \<not> (\<exists>e. s = w @ e \<and> boundary_between b (w @ e) \<and> boundary_between (b @ w) e)"
proof -
  let ?p = "if b = [] then None else Some (last b)"
  have prev: "(if w = [] then ?p else Some (last w)) = (if b @ w = [] then None else Some (last (b @ w)))"
    by simp
  show ?thesis
  proof (cases "prefix w s")
    case True
    then obtain e where s: "s = w @ e" by (auto simp: prefix_def)
    have "re_matches (re_whole_word w) (?p, s) = [] \<longleftrightarrow>
        \<not> (at_boundary (?p, s) \<and> at_boundary (if w = [] then ?p else Some (last w), e))"
      using s by (auto simp: re_whole_word_def RLit_matches)
    then show ?thesis unfolding prev at_boundary_split using s by auto
  next
    case False
    then show ?thesis by (auto simp: re_whole_word_def RLit_matches prefix_def)
  qed
qed

lemma whole_word_search: "re_search (re_whole_word w) s \<longleftrightarrow> whole_word_in w s"
proof -
  have "re_find (re_whole_word w) (if b = [] then None else Some (last b)) t = None \<longleftrightarrow>
      \<not> (\<exists>b1 e. t = b1 @ w @ e \<and> boundary_between (b @ b1) (w @ e) \<and> boundary_between (b @ b1 @ w) e)" for b t
  proof (induction t arbitrary: b)
    case Nil
    show ?case by (subst re_find_None) (auto simp: whole_word_matches)
  next
    case (Cons x xs)
    have "(\<exists>b1 e. x # xs = b1 @ w @ e \<and> boundary_between (b @ b1) (w @ e) \<and> boundary_between (b @ b1 @ w) e) \<longleftrightarrow>
        (\<exists>e. x # xs = w @ e \<and> boundary_between b (w @ e) \<and> boundary_between (b @ w) e) \<or>
        (\<exists>b1 e. xs = b1 @ w @ e \<and> boundary_between (b @ x # b1) (w @ e) \<and> boundary_between (b @ (x # b1) @ w) e)"
      (is "?all \<longleftrightarrow> ?here \<or> ?later")
    proof
      assume ?all
      then obtain b1 e where "x # xs = b1 @ w @ e" "boundary_between (b @ b1) (w @ e)"
          "boundary_between (b @ b1 @ w) e" by blast
      then show "?here \<or> ?later" by (cases b1) auto
    next
      assume "?here \<or> ?later"
      then show ?all by (metis append_Cons append_Nil append_Nil2)
    qed
    then show ?case using Cons.IH [of "b @ [x]"]
      by (subst re_find_None) (simp add: whole_word_matches)
  qed
  from this [of "[]" s] show ?thesis by (auto simp: re_search_def whole_word_in_def)
qed

definition keyword_occurs :: "string \<Rightarrow> string \<Rightarrow> bool" where
  "keyword_occurs text k \<longleftrightarrow>
     (if CHR '' '' \<in> set (str_lower k) then sublist (str_lower k) text else whole_word_in (str_lower k) text)"

lemma keyword_found_iff: "keyword_found text k \<longleftrightarrow> keyword_occurs text k"
  by (simp add: keyword_found_def keyword_occurs_def whole_word_search str_in_def Let_def)

lemma filter_all_iff: "length (filter p xs) = length xs \<longleftrightarrow> (\<forall>x \<in> set xs. p x)"
  by (metis filter_True filter_id_conv length_filter_less less_irrefl)

text \<open>
  C31 (keyword_rule_exact): with keywords to look for and text to look in, the keyword rule passes
  exactly when every keyword occurs in the text ignoring case, a phrase with a space in it anywhere
  and a single word between word boundaries, it fails exactly when none occurs, and asks for a
  judgment when some do.
\<close>

theorem keyword_rule_exact:
  assumes "py_strings (required_keywords c) = Some kws" and "py_truthy (required_keywords c)"
    and "str_strip (all_text ms) \<noteq> []" and "kws \<noteq> []"
  shows "map_option cr_result (check_keyword_presence c ms fs) =
     Some (if \<forall>k \<in> set kws. keyword_occurs (str_lower (all_text ms)) k then PASS
           else if \<forall>k \<in> set kws. \<not> keyword_occurs (str_lower (all_text ms)) k then FAIL
           else NEEDS_JUDGMENT)"
  using assms
  by (auto simp: check_keyword_presence_def Let_def keyword_found_iff filter_all_iff filter_empty_conv)

definition mfa_criterion :: eval_criterion where
  "mfa_criterion = sample_criterion\<lparr>check_params := [(''keywords'', PList [PStr ''policy'', PStr ''access control''])]\<rparr>"

theorem keyword_rule_exact_witness:
  "map_option cr_result (check_keyword_presence mfa_criterion [sample_metadata] []) = Some PASS"
proof -
  let ?t = "''access control policy''"
  have kws: "required_keywords mfa_criterion = PList [PStr ''policy'', PStr ''access control'']"
    by (simp add: required_keywords_def mfa_criterion_def param_def py_truthy_def)
  have low_text: "str_lower (all_text [sample_metadata]) = '' access control policy''"
    by code_simp
  have strip: "str_strip (all_text [sample_metadata]) \<noteq> []"
    by (simp add: all_text_def sample_metadata_def str_strip_def py_space_def)
  have low: "str_lower ''policy'' = ''policy''" "str_lower ''access control'' = ''access control''"
    by (simp_all add: str_lower_def char_lower_def)
  have "whole_word_in ''policy'' '' access control policy''"
    unfolding whole_word_in_def boundary_between_def
    by (rule exI [of _ "'' access control ''"], rule exI [of _ "[]"]) (simp add: re_word_def)
  moreover have "sublist ''access control'' '' access control policy''"
    unfolding sublist_def by (rule exI [of _ "'' ''"], rule exI [of _ "'' policy''"]) simp
  ultimately have "\<forall>k \<in> set [''policy'', ''access control''].
      keyword_occurs (str_lower (all_text [sample_metadata])) k"
    by (simp add: low_text keyword_occurs_def low)
  then show ?thesis
    using keyword_rule_exact [of mfa_criterion "[''policy'', ''access control'']" "[sample_metadata]" "[]"]
      kws strip by (simp add: py_strings_def py_truthy_def)
qed

lemma total_rows_append: "total_rows (ms @ extra) = total_rows ms + total_rows extra"
  by (simp add: total_rows_def counted_def)

lemma total_rows_nonneg: "0 \<le> total_rows ms"
  unfolding total_rows_def counted_def by (rule sum_list_nonneg) auto

text \<open>
  (more_rows_keep_passing): once the row-count rule passes it passes with any further evidence added,
  whatever the minimum and however it was given.
\<close>

theorem more_rows_keep_passing:
  assumes "map_option cr_result (check_row_count c ms fs) = Some PASS"
  shows "map_option cr_result (check_row_count c (ms @ extra) fs2) = Some PASS"
proof -
  have counted: "counted ms \<noteq> []"
    using assms by (auto simp: check_row_count_def Let_def total_rows_def split: if_splits)
  obtain n where n: "as_number (min_rows c) = Some n" "pf_le n (Fin (real_of_int (total_rows ms)))"
    using assms by (auto simp: check_row_count_def Let_def split: if_splits option.splits)
  have "pf_le n (Fin (real_of_int (total_rows (ms @ extra))))"
    using n(2) by (rule pf_le_trans) (simp add: total_rows_append total_rows_nonneg)
  moreover have "counted (ms @ extra) \<noteq> []" using counted by (simp add: counted_def)
  ultimately show ?thesis using n(1) by (simp add: check_row_count_def Let_def)
qed

definition sheet_metadata :: evidence_metadata where
  "sheet_metadata = sample_metadata\<lparr>em_file_type := ''csv'', row_count := 20\<rparr>"

theorem more_rows_keep_passing_witness:
  "map_option cr_result (check_row_count (sample_criterion\<lparr>check_params := [(''min_rows'', PInt 10)]\<rparr>)
     ([sheet_metadata] @ [sample_metadata]) []) = Some PASS"
  by (rule more_rows_keep_passing [where fs = "[]"])
    (simp add: check_row_count_def min_rows_def param_or_none_def param_def total_rows_def counted_def
      sheet_metadata_def sample_metadata_def sample_criterion_def structured_def)

lemma fresh_files_Nil:
  "fresh_files t ms fs = [] \<longleftrightarrow> (\<forall>e \<in> set fs. last_modified e < t) \<and> (\<forall>m \<in> set ms. extracted_at m < t)"
proof -
  have "foldl (\<lambda>acc m. if t \<le> extracted_at m \<and> em_storage_key m \<notin> set acc
                       then acc @ [em_storage_key m] else acc) acc ms = []
        \<longleftrightarrow> acc = [] \<and> (\<forall>m \<in> set ms. extracted_at m < t)" for acc
    by (induction ms arbitrary: acc) (auto simp: not_le)
  then show ?thesis by (auto simp: fresh_files_def filter_empty_conv not_le)
qed

text \<open>
  (stale_evidence_never_passes): the freshness rule never passes while one of the evidence files is
  older than the age the criterion allows, and it fails only when every file and every extraction is.
\<close>

theorem stale_evidence_never_passes:
  assumes "check_freshness now c ms fs = Some r"
    and "e \<in> set fs" and "threshold_date now (param_or_none c ''max_age_days'') = Some t"
  shows "(last_modified e < t \<longrightarrow> cr_result r \<noteq> PASS)
     \<and> (cr_result r = FAIL \<longrightarrow> (\<forall>e \<in> set fs. last_modified e < t) \<and> (\<forall>m \<in> set ms. extracted_at m < t))"
proof -
  have "param_or_none c ''max_age_days'' \<noteq> PNone"
    using assms(3) by (auto simp: threshold_date_def)
  then show ?thesis
    using assms
    by (auto simp: check_freshness_def Let_def stale_files_def filter_empty_conv fresh_files_Nil not_less
        split: if_splits)
qed

theorem stale_evidence_never_passes_witness:
  "\<exists>r. check_freshness 1000000 (sample_criterion\<lparr>check_params := [(''max_age_days'', PInt 1)]\<rparr>) []
        [\<lparr>ef_storage_key = ''acme/old.pdf'', ef_filename = ''old.pdf'', ef_file_type = ''pdf'', ef_size = 1,
          last_modified = 0, content_hash = []\<rparr>] = Some r \<and> cr_result r \<noteq> PASS"
proof -
  let ?c = "sample_criterion\<lparr>check_params := [(''max_age_days'', PInt 1)]\<rparr>"
  let ?e = "\<lparr>ef_storage_key = ''acme/old.pdf'', ef_filename = ''old.pdf'', ef_file_type = ''pdf'', ef_size = 1,
          last_modified = 0, content_hash = []\<rparr>"
  have t: "threshold_date 1000000 (param_or_none ?c ''max_age_days'') = Some 913600"
    by (simp add: threshold_date_def param_or_none_def param_def datetime_min_def datetime_max_def)
  obtain r where r: "check_freshness 1000000 ?c [] [?e] = Some r"
    by (simp add: check_freshness_def Let_def t param_or_none_def param_def fresh_files_def
        stale_files_def threshold_date_def datetime_min_def datetime_max_def)
  from stale_evidence_never_passes [OF r _ t, of ?e] r show ?thesis by simp
qed

end
