(* ===== verification/Ev_Scoring.thy ===== *)
theory Ev_Scoring
  imports Ev_Models
begin

text \<open>
  The evaluator's third layer, the deterministic score (\<^verbatim>\<open>agent-eval/src/graph/scoring.py\<close>): the weighted
  mean of the assessable criteria, its floor rules and the mapping to a compliance status. Weights
  and scores are exact reals.
\<close>

section \<open>Definitions\<close>

fun score_value :: "criterion_result_enum \<Rightarrow> real" where
  "score_value PASS = 1"
| "score_value PARTIAL = 1 / 2"
| "score_value _ = 0"

definition compliant_threshold :: real where
  "compliant_threshold = 85 / 100"

definition partial_threshold :: real where
  "partial_threshold = 60 / 100"

definition merge_results ::
    "(string, criterion_result) dict \<Rightarrow> (string, criterion_result) dict \<Rightarrow> (string, criterion_result) dict" where
  "merge_results rules judged = foldl (\<lambda>d (k, r). dict_set k r d) (foldl (\<lambda>d (k, r). dict_set k r d) [] rules) judged"

definition assessable :: "(string, criterion_result) dict \<Rightarrow> eval_criterion \<Rightarrow> bool" where
  "assessable res c \<longleftrightarrow>
     (case dict_get res (crit_id c) of
        None \<Rightarrow> False | Some r \<Rightarrow> cr_result r \<notin> {CANNOT_ASSESS, INSUFFICIENT_EVIDENCE})"

definition weight_of :: "eval_criterion list \<Rightarrow> real" where
  "weight_of cs = sum_list (map crit_weight cs)"

definition result_value :: "(string, criterion_result) dict \<Rightarrow> eval_criterion \<Rightarrow> real" where
  "result_value res c =
     (case dict_get res (crit_id c) of None \<Rightarrow> 0 | Some r \<Rightarrow> score_value (cr_result r))"

definition weighted_sum :: "(string, criterion_result) dict \<Rightarrow> eval_criterion list \<Rightarrow> real" where
  "weighted_sum res cs =
     sum_list (map (\<lambda>c. crit_weight c * result_value res c) (filter (assessable res) cs))"

definition check_policy_fail :: "(string, criterion_result) dict \<Rightarrow> bool" where
  "check_policy_fail res \<longleftrightarrow> list_ex (\<lambda>(k, r). category r = ''policy'' \<and> cr_result r = FAIL) res"

definition implementation_fail_ratio :: "(string, criterion_result) dict \<Rightarrow> real" where
  "implementation_fail_ratio res =
     (let impl = filter (\<lambda>(k, r). category r = ''implementation'') res
      in if impl = [] then 0
         else real (count_if (\<lambda>(k, r). cr_result r = FAIL) impl) / real (length impl))"

text \<open>Floor rule 1: a failed policy criterion caps the score.\<close>

definition policy_cap :: "bool \<Rightarrow> real \<Rightarrow> real" where
  "policy_cap policy_fail raw = (if policy_fail \<and> 84 / 100 < raw then 84 / 100 else raw)"

definition status_of :: "bool \<Rightarrow> real \<Rightarrow> compliance_status" where
  "status_of partial_evaluation score =
     (if partial_evaluation then PARTIAL_EVALUATION
      else if compliant_threshold \<le> score then COMPLIANT
      else if partial_threshold \<le> score then PARTIALLY_COMPLIANT
      else NON_COMPLIANT)"

definition calculate_score ::
    "(string, criterion_result) dict \<Rightarrow> eval_criterion list \<Rightarrow> bool \<Rightarrow> real \<times> compliance_status" where
  "calculate_score res cs partial_evaluation =
     (let total = weight_of cs;
          good = weight_of (filter (assessable res) cs);
          bad = weight_of (filter (\<lambda>c. \<not> assessable res c) cs)
      in if 0 < total \<and> 1 / 2 \<le> bad / total then (0, STATUS_INSUFFICIENT_EVIDENCE)
         else if good = 0 then (0, STATUS_INSUFFICIENT_EVIDENCE)
         else (let score = policy_cap (check_policy_fail res) (weighted_sum res cs / good)
               in if 25 / 100 < implementation_fail_ratio res then (score, NON_COMPLIANT)
                  else (score, status_of partial_evaluation score)))"

definition scoring_node ::
    "testing_criteria option \<Rightarrow> (string, criterion_result) dict \<Rightarrow> (string, criterion_result) dict \<Rightarrow> bool
     \<Rightarrow> real \<times> compliance_status" where
  "scoring_node tc rules judged partial_evaluation =
     (case tc of
        None \<Rightarrow> (0, STATUS_INSUFFICIENT_EVIDENCE)
      | Some t \<Rightarrow> calculate_score (merge_results rules judged) (tc_criteria t) partial_evaluation)"

section \<open>The score is a share\<close>

definition weights_ok :: "eval_criterion list \<Rightarrow> bool" where
  "weights_ok cs \<longleftrightarrow> (\<forall>c \<in> set cs. 0 \<le> crit_weight c)"

lemma result_value_bounds: "0 \<le> result_value res c" "result_value res c \<le> 1"
proof -
  have "0 \<le> score_value r \<and> score_value r \<le> 1" for r by (cases r) auto
  then show "0 \<le> result_value res c" "result_value res c \<le> 1"
    by (auto simp: result_value_def split: option.split)
qed

lemma weight_of_nonneg: "weights_ok cs \<Longrightarrow> 0 \<le> weight_of (filter p cs)"
  unfolding weight_of_def weights_ok_def by (rule sum_list_nonneg) auto

lemma weighted_sum_bounds:
  assumes "weights_ok cs"
  shows "0 \<le> weighted_sum res cs" "weighted_sum res cs \<le> weight_of (filter (assessable res) cs)"
proof -
  show "0 \<le> weighted_sum res cs"
    unfolding weighted_sum_def using assms result_value_bounds
    by (intro sum_list_nonneg) (auto simp: weights_ok_def)
  show "weighted_sum res cs \<le> weight_of (filter (assessable res) cs)"
    unfolding weighted_sum_def weight_of_def using assms result_value_bounds
    by (intro sum_list_mono) (auto simp: weights_ok_def mult_left_le)
qed

lemma raw_score_bounds:
  assumes "weights_ok cs"
  shows "0 \<le> weighted_sum res cs / weight_of (filter (assessable res) cs)"
    "weighted_sum res cs / weight_of (filter (assessable res) cs) \<le> 1"
  using weighted_sum_bounds [OF assms, of res] weight_of_nonneg [OF assms, of "assessable res"]
  by (auto simp: divide_le_eq)

text \<open>
  C7 (score_is_a_share): with non-negative weights the score is always between 0 and 1; a policy criterion
  that failed keeps it at most 0.84, so that a control with a failed policy criterion is never
  reported compliant; and when more than a quarter of the implementation criteria failed the status
  is non-compliant or insufficient evidence, partial evaluation or not.
\<close>

theorem score_is_a_share:
  assumes "weights_ok cs"
  shows "0 \<le> fst (calculate_score res cs p) \<and> fst (calculate_score res cs p) \<le> 1
     \<and> (check_policy_fail res \<longrightarrow>
          fst (calculate_score res cs p) \<le> 84 / 100 \<and> snd (calculate_score res cs p) \<noteq> COMPLIANT)
     \<and> (25 / 100 < implementation_fail_ratio res \<longrightarrow>
          snd (calculate_score res cs p) \<in> {NON_COMPLIANT, STATUS_INSUFFICIENT_EVIDENCE})"
  using raw_score_bounds [OF assms, of res]
  by (auto simp: calculate_score_def Let_def status_of_def compliant_threshold_def policy_cap_def)

definition failed_policy :: "(string, criterion_result) dict" where
  "failed_policy = [(crit_id sample_criterion, verdict sample_criterion FAIL RULE_FILE_EXISTENCE [])]"

theorem score_is_a_share_witness:
  "check_policy_fail failed_policy \<and> snd (calculate_score failed_policy [sample_criterion] False) \<noteq> COMPLIANT"
proof -
  have "weights_ok [sample_criterion]" by (simp add: weights_ok_def sample_criterion_def)
  moreover have "check_policy_fail failed_policy"
    by (simp add: check_policy_fail_def failed_policy_def sample_criterion_def)
  ultimately show ?thesis using score_is_a_share [of "[sample_criterion]" failed_policy False] by blast
qed

section \<open>Better results never score worse\<close>

text \<open>
  A result is at least as good as another when it keeps its criterion assessable or not, is worth as
  much, and is no new failure.
\<close>

definition as_good :: "criterion_result \<Rightarrow> criterion_result \<Rightarrow> bool" where
  "as_good r s \<longleftrightarrow>
     category s = category r
     \<and> (cr_result r \<in> {CANNOT_ASSESS, INSUFFICIENT_EVIDENCE} \<longleftrightarrow> cr_result s \<in> {CANNOT_ASSESS, INSUFFICIENT_EVIDENCE})
     \<and> score_value (cr_result r) \<le> score_value (cr_result s) \<and> (cr_result s = FAIL \<longrightarrow> cr_result r = FAIL)"

definition improves :: "(string, criterion_result) dict \<Rightarrow> (string, criterion_result) dict \<Rightarrow> bool" where
  "improves res res2 \<longleftrightarrow> list_all2 (\<lambda>(k, r) (l, s). l = k \<and> as_good r s) res res2"

lemma improves_get:
  "improves res res2 \<Longrightarrow>
     (dict_get res i = None \<and> dict_get res2 i = None)
     \<or> (\<exists>r s. dict_get res i = Some r \<and> dict_get res2 i = Some s \<and> as_good r s)"
  unfolding improves_def by (induction rule: list_all2_induct) auto

lemma improves_assessable: "improves res res2 \<Longrightarrow> assessable res2 = assessable res"
proof (rule ext)
  fix c :: eval_criterion
  assume "improves res res2"
  from improves_get [OF this, of "crit_id c"] show "assessable res2 c = assessable res c"
    by (auto simp: assessable_def as_good_def)
qed

lemma improves_value: "improves res res2 \<Longrightarrow> result_value res c \<le> result_value res2 c"
  using improves_get [of res res2 "crit_id c"] by (auto simp: result_value_def as_good_def)

lemma improves_policy: "improves res res2 \<Longrightarrow> check_policy_fail res2 \<Longrightarrow> check_policy_fail res"
  unfolding improves_def check_policy_fail_def
  by (induction rule: list_all2_induct) (auto simp: as_good_def)

lemma improves_ratio:
  assumes "improves res res2"
  shows "implementation_fail_ratio res2 \<le> implementation_fail_ratio res"
proof -
  let ?i = "\<lambda>(k :: string, r). category r = ''implementation''" and ?f = "\<lambda>(k :: string, r). cr_result r = FAIL"
  have both: "length (filter ?i res2) = length (filter ?i res)
      \<and> count_if ?f (filter ?i res2) \<le> count_if ?f (filter ?i res)"
    using assms unfolding improves_def by (induction rule: list_all2_induct) (auto simp: as_good_def)
  show ?thesis
  proof (cases "filter ?i res = []")
    case True
    then have "filter ?i res2 = []" using both by simp
    then show ?thesis using True by (simp only: implementation_fail_ratio_def Let_def if_True order_refl)
  next
    case False
    then have "filter ?i res2 \<noteq> []" using both by auto
    then show ?thesis
      using False both by (simp only: implementation_fail_ratio_def Let_def) (simp add: divide_right_mono)
  qed
qed

fun status_rank :: "compliance_status \<Rightarrow> nat" where
  "status_rank COMPLIANT = 2"
| "status_rank PARTIALLY_COMPLIANT = 1"
| "status_rank _ = 0"

lemma policy_cap_mono: "x \<le> y \<Longrightarrow> (q \<longrightarrow> p) \<Longrightarrow> policy_cap p x \<le> policy_cap q y"
  by (auto simp: policy_cap_def)

lemma status_of_mono: "x \<le> y \<Longrightarrow> status_rank (status_of p x) \<le> status_rank (status_of p y)"
  by (auto simp: status_of_def compliant_threshold_def partial_threshold_def)

text \<open>
  (better_results_never_score_worse): when results only improve, criterion by criterion and without
  changing which criteria could be assessed, neither the score nor the compliance status gets worse.
\<close>

theorem better_results_never_score_worse:
  assumes "weights_ok cs" and "improves res res2"
  shows "fst (calculate_score res cs p) \<le> fst (calculate_score res2 cs p)
     \<and> status_rank (snd (calculate_score res cs p)) \<le> status_rank (snd (calculate_score res2 cs p))"
proof -
  let ?g = "weight_of (filter (assessable res) cs)"
  have "weighted_sum res cs \<le> weighted_sum res2 cs"
    unfolding weighted_sum_def improves_assessable [OF assms(2)]
    using assms(1) improves_value [OF assms(2)]
    by (intro sum_list_mono) (auto simp: weights_ok_def intro: mult_left_mono)
  then have raw: "weighted_sum res cs / ?g \<le> weighted_sum res2 cs / ?g"
    using weight_of_nonneg [OF assms(1)] by (intro divide_right_mono) auto
  let ?a = "policy_cap (check_policy_fail res) (weighted_sum res cs / ?g)"
  let ?b = "policy_cap (check_policy_fail res2) (weighted_sum res2 cs / ?g)"
  have le: "?a \<le> ?b" using policy_cap_mono [OF raw] improves_policy [OF assms(2)] by blast
  have "0 \<le> ?b"
    using raw_score_bounds(1) [OF assms(1), of res2]
    by (simp add: policy_cap_def improves_assessable [OF assms(2)])
  with le show ?thesis
    using status_of_mono [OF le] improves_ratio [OF assms(2)]
    by (simp add: calculate_score_def Let_def improves_assessable [OF assms(2)])
qed

theorem better_results_never_score_worse_witness:
  "fst (calculate_score failed_policy [sample_criterion] False)
   \<le> fst (calculate_score [(crit_id sample_criterion, verdict sample_criterion PASS RULE_FILE_EXISTENCE [])]
          [sample_criterion] False)"
proof -
  have "weights_ok [sample_criterion]" by (simp add: weights_ok_def sample_criterion_def)
  moreover have "improves failed_policy [(crit_id sample_criterion, verdict sample_criterion PASS RULE_FILE_EXISTENCE [])]"
    by (simp add: improves_def failed_policy_def as_good_def)
  ultimately show ?thesis using better_results_never_score_worse by blast
qed

end
