(* ===== verification/Ev_Judging.thy ===== *)
theory Ev_Judging
  imports Ev_Models
begin

text \<open>
  The evaluator's second layer (\<^verbatim>\<open>agent-eval/src/graph/evaluation.py\<close> and \<^verbatim>\<open>tribunal.py\<close>): a
  criterion no rule could settle is judged by a language model, by weight in a full tribunal
  (prosecutor, defender, judge), a simplified one or a single call. The model client is a
  parameter, a function of the request and of the world it changes; a request is the task and what
  its prompt template is filled with. An operation that raises is the left part of a sum.
\<close>

section \<open>Talking to the model\<close>

datatype judge_error = CreditExhausted | LLMUnavailable | Crashed

datatype evidence_piece =
    TextPiece string string
  | DataPiece string "string list" int "(string, pyval) dict"

text \<open>What a role's prompt is filled with; \<open>defense = None\<close> is the note that no defender was called.\<close>

datatype llm_request =
    EvaluateControl eval_criterion "evidence_piece list"
  | Prosecute eval_criterion "evidence_piece list"
  | Defend eval_criterion "evidence_piece list"
  | JudgeBoth eval_criterion "json list" "json list option"

type_synonym 'w llm_client = "llm_request \<Rightarrow> 'w \<Rightarrow> (judge_error + string) \<times> 'w"

type_synonym ('a, 'w) action = "'w \<Rightarrow> (judge_error + 'a) \<times> 'w"

definition pure :: "judge_error + 'a \<Rightarrow> ('a, 'w) action" where
  "pure r w = (r, w)"

definition chain :: "('a, 'w) action \<Rightarrow> ('a \<Rightarrow> ('b, 'w) action) \<Rightarrow> ('b, 'w) action" where
  "chain m f w = (case m w of (Inl e, w2) \<Rightarrow> (Inl e, w2) | (Inr x, w2) \<Rightarrow> f x w2)"

lemma chain_Inr: "chain m f w = (Inr y, w2) \<longleftrightarrow> (\<exists>x w1. m w = (Inr x, w1) \<and> f x w1 = (Inr y, w2))"
  by (auto simp: chain_def split: prod.splits sum.splits)

section \<open>Reading replies\<close>

text \<open>\<^verbatim>\<open>"\n".join(line for line in s.split("\n") if not line.startswith("```"))\<close>\<close>

definition drop_fences :: "string \<Rightarrow> string" where
  "drop_fences s = str_join [CHR 0x0A] (filter (\<lambda>l. \<not> prefix ''```'' l) (split_char (CHR 0x0A) s))"

definition strip_fences :: "string \<Rightarrow> string" where
  "strip_fences content =
     (let s = str_strip content in if prefix ''```'' s then str_strip (drop_fences s) else s)"

text \<open>
  \<^verbatim>\<open>s.upper()\<close> on code points, exact on those whose upper case is made of ASCII letters: the dotless i, the
  long and the sharp s and the Latin ligatures are such.
\<close>

definition upper_point :: "nat \<Rightarrow> nat list" where
  "upper_point u =
     (if 97 \<le> u \<and> u \<le> 122 then [u - 32]
      else if u = 223 then [83, 83]
      else if u = 305 then [73]
      else if u = 383 then [83]
      else case map_of [(64256, ''FF''), (64257, ''FI''), (64258, ''FL''), (64259, ''FFI''), (64260, ''FFL''),
                        (64261, ''ST''), (64262, ''ST'')] u of
             None \<Rightarrow> [u] | Some s \<Rightarrow> ustr s)"

definition verdict_of_text :: "nat list \<Rightarrow> criterion_result_enum" where
  "verdict_of_text us =
     (let up = concat (map upper_point us)
      in if up = ustr ''PASS'' then PASS else if up = ustr ''PARTIAL'' then PARTIAL else FAIL)"

text \<open>The fallback for a reply that is no JSON: the first of two words the text contains.\<close>

definition verdict_in_text :: "string \<Rightarrow> criterion_result_enum" where
  "verdict_in_text content =
     (let low = str_lower content
      in if str_in ''pass'' low then PASS else if str_in ''partial'' low then PARTIAL else FAIL)"

text \<open>A reason must be a string without lone surrogates, or the result does not validate.\<close>

fun valid_reason :: "json \<Rightarrow> bool" where
  "valid_reason (JStr us) \<longleftrightarrow> list_all (\<lambda>u. u < 55296 \<or> 57343 < u) us"
| "valid_reason _ \<longleftrightarrow> False"

definition field_or :: "(nat list \<times> json) list \<Rightarrow> string \<Rightarrow> json \<Rightarrow> json" where
  "field_or kvs k v = (case map_of kvs (ustr k) of None \<Rightarrow> v | Some x \<Rightarrow> x)"

definition llm_verdict :: "eval_criterion \<Rightarrow> criterion_result_enum \<Rightarrow> real option \<Rightarrow> criterion_result" where
  "llm_verdict c r conf =
     \<lparr>criterion_id = crit_id c, category = crit_category c, cr_result = r, cr_method = LLM_JUDGMENT,
      cr_confidence = conf, evidence_used = []\<rparr>"

definition parse_judgment_response :: "string \<Rightarrow> eval_criterion \<Rightarrow> judge_error + criterion_result" where
  "parse_judgment_response content c =
     (let s = str_strip content;
          body = (if prefix ''```'' s then drop_fences s else s)
      in case json_loads body of
           Inl DecodeError \<Rightarrow> Inr (llm_verdict c (verdict_in_text content) None)
         | Inl e \<Rightarrow> Inl Crashed
         | Inr (JObj kvs) \<Rightarrow>
             (case field_or kvs ''result'' (jstr ''FAIL'') of
                JStr us \<Rightarrow>
                  if valid_reason (field_or kvs ''reason'' (jstr []))
                  then Inr (llm_verdict c (verdict_of_text us) None) else Inl Crashed
              | _ \<Rightarrow> Inl Crashed)
         | Inr v \<Rightarrow> Inl Crashed)"

section \<open>The tribunal\<close>

record tribunal_result =
  tr_criterion_id :: string
  tr_verdict :: criterion_result_enum
  tr_confidence :: real
  tr_justification :: json
  prosecution_args :: json
  defense_args :: json
  prosecution_accepted :: json
  prosecution_rejected :: json
  defense_accepted :: json
  defense_rejected :: json

definition to_criterion_result :: "tribunal_result \<Rightarrow> string \<Rightarrow> judge_error + criterion_result" where
  "to_criterion_result t cat =
     (if valid_reason (tr_justification t) then
        Inr \<lparr>criterion_id = tr_criterion_id t, category = cat, cr_result = tr_verdict t,
             cr_method = LLM_JUDGMENT, cr_confidence = Some (tr_confidence t), evidence_used = []\<rparr>
      else Inl Crashed)"

text \<open>\<^verbatim>\<open>min(1.0, max(0.0, x))\<close>: NaN counts as 0.\<close>

fun clamp_confidence :: "pyfloat \<Rightarrow> real" where
  "clamp_confidence (Fin x) = min 1 (max 0 x)"
| "clamp_confidence PosInf = 1"
| "clamp_confidence _ = 0"

text \<open>\<^verbatim>\<open>s.lstrip("- *")\<close> (the bullet character is outside the alphabet), and the bullet lines.\<close>

definition bullet :: "char \<Rightarrow> bool" where
  "bullet c \<longleftrightarrow> c = CHR ''-'' \<or> c = CHR ''*''"

definition bullet_lines :: "string \<Rightarrow> string list" where
  "bullet_lines s =
     map (\<lambda>l. dropWhile (\<lambda>c. bullet c \<or> c = CHR '' '') (str_strip l))
       (filter (\<lambda>l. str_strip l \<noteq> [] \<and> bullet (hd (str_strip l))) (split_char (CHR 0x0A) s))"

definition parse_arguments :: "string \<Rightarrow> judge_error + json" where
  "parse_arguments raw =
     (let content = strip_fences raw
      in case json_loads content of
           Inl DecodeError \<Rightarrow>
             (let ls = bullet_lines content in Inr (JArr (map jstr (if ls = [] then [take 300 content] else ls))))
         | Inl e \<Rightarrow> Inl Crashed
         | Inr (JObj kvs) \<Rightarrow> Inr (field_or kvs ''arguments'' (JArr []))
         | Inr v \<Rightarrow> Inl Crashed)"

text \<open>Iterating over what came back as the arguments.\<close>

fun argument_list :: "json \<Rightarrow> judge_error + json list" where
  "argument_list (JArr vs) = Inr vs"
| "argument_list (JStr us) = Inr (map (\<lambda>u. JStr [u]) us)"
| "argument_list (JObj kvs) = Inr (map (\<lambda>(k, v). JStr k) kvs)"
| "argument_list _ = Inl Crashed"

definition text_verdict :: "string \<Rightarrow> string \<Rightarrow> json \<Rightarrow> json \<Rightarrow> tribunal_result" where
  "text_verdict content cid pros defs =
     \<lparr>tr_criterion_id = cid, tr_verdict = verdict_in_text content, tr_confidence = 1 / 2,
      tr_justification = jstr (take 200 content), prosecution_args = pros, defense_args = defs,
      prosecution_accepted = JArr [], prosecution_rejected = JArr [], defense_accepted = JArr [],
      defense_rejected = JArr []\<rparr>"

definition parse_judge_response :: "string \<Rightarrow> string \<Rightarrow> json \<Rightarrow> json \<Rightarrow> judge_error + tribunal_result" where
  "parse_judge_response raw cid pros defs =
     (let content = strip_fences raw
      in case json_loads content of
           Inl e \<Rightarrow> Inr (text_verdict content cid pros defs)
         | Inr (JObj kvs) \<Rightarrow>
             (case field_or kvs ''verdict'' (jstr ''FAIL'') of
                JStr us \<Rightarrow>
                  (case float_of_json (field_or kvs ''confidence'' (JFloat (Fin (1 / 2)))) of
                     Inl FloatOverflowError \<Rightarrow> Inl Crashed
                   | Inl e \<Rightarrow> Inr (text_verdict content cid pros defs)
                   | Inr f \<Rightarrow>
                       Inr \<lparr>tr_criterion_id = cid, tr_verdict = verdict_of_text us,
                            tr_confidence = clamp_confidence f,
                            tr_justification = field_or kvs ''justification'' (jstr []),
                            prosecution_args = pros, defense_args = defs,
                            prosecution_accepted = field_or kvs ''prosecution_points_accepted'' (JArr []),
                            prosecution_rejected = field_or kvs ''prosecution_points_rejected'' (JArr []),
                            defense_accepted = field_or kvs ''defense_points_accepted'' (JArr []),
                            defense_rejected = field_or kvs ''defense_points_rejected'' (JArr [])\<rparr>)
              | _ \<Rightarrow> Inl Crashed)
         | Inr v \<Rightarrow> Inl Crashed)"

definition run_prosecutor :: "'w llm_client \<Rightarrow> eval_criterion \<Rightarrow> evidence_piece list \<Rightarrow> (json, 'w) action" where
  "run_prosecutor llm c ev = chain (llm (Prosecute c ev)) (\<lambda>reply. pure (parse_arguments reply))"

definition run_defender :: "'w llm_client \<Rightarrow> eval_criterion \<Rightarrow> evidence_piece list \<Rightarrow> (json, 'w) action" where
  "run_defender llm c ev = chain (llm (Defend c ev)) (\<lambda>reply. pure (parse_arguments reply))"

definition no_defense :: json where
  "no_defense = JArr [JStr (ustr ''(Defense not called '' @ [8212] @ ustr '' Judge considers both sides)'')]"

definition run_judge :: "'w llm_client \<Rightarrow> eval_criterion \<Rightarrow> json \<Rightarrow> json option \<Rightarrow> (tribunal_result, 'w) action" where
  "run_judge llm c pros defs =
     chain (pure (argument_list pros)) (\<lambda>ps.
     chain (case defs of None \<Rightarrow> pure (Inr None) | Some d \<Rightarrow> chain (pure (argument_list d)) (\<lambda>ds. pure (Inr (Some ds)))) (\<lambda>ds.
     chain (llm (JudgeBoth c ps ds)) (\<lambda>reply.
       pure (parse_judge_response reply (crit_id c) pros (case defs of None \<Rightarrow> no_defense | Some d \<Rightarrow> d)))))"

definition run_tribunal :: "'w llm_client \<Rightarrow> eval_criterion \<Rightarrow> evidence_piece list \<Rightarrow> (tribunal_result, 'w) action" where
  "run_tribunal llm c ev =
     chain (run_prosecutor llm c ev) (\<lambda>pros.
     chain (run_defender llm c ev) (\<lambda>defs. run_judge llm c pros (Some defs)))"

definition run_simplified_tribunal ::
    "'w llm_client \<Rightarrow> eval_criterion \<Rightarrow> evidence_piece list \<Rightarrow> (tribunal_result, 'w) action" where
  "run_simplified_tribunal llm c ev =
     chain (run_prosecutor llm c ev) (\<lambda>pros. run_judge llm c pros None)"

section \<open>One criterion\<close>

record eval_settings =
  consensus_weight_threshold :: real
  tribunal_confidence_threshold :: real
  tribunal_max_retries :: int
  max_sandbox_retries :: int

definition default_settings :: eval_settings where
  "default_settings =
     \<lparr>consensus_weight_threshold = 20 / 100, tribunal_confidence_threshold = 70 / 100,
      tribunal_max_retries = 1, max_sandbox_retries = 2\<rparr>"

definition evidence_piece_of :: "string \<Rightarrow> evidence_metadata \<Rightarrow> evidence_piece list" where
  "evidence_piece_of et m =
     (if et = ''document'' \<and> em_file_type m \<in> {''pdf'', ''document'', ''text''} then
        (if text_content m = [] then [] else [TextPiece (em_storage_key m) (take 3000 (text_content m))])
      else if et = ''structured_data'' \<and> em_file_type m \<in> {''spreadsheet'', ''csv'', ''json''} then
        (if columns m = [] \<and> row_count m = 0 \<and> schema_info m = [] then []
         else [DataPiece (em_storage_key m) (columns m) (row_count m) (schema_info m)])
      else if et = ''unstructured'' then
        (if text_content m = [] then [] else [TextPiece (em_storage_key m) (take 2000 (text_content m))])
      else [])"

definition extract_relevant_evidence :: "eval_criterion \<Rightarrow> evidence_metadata list \<Rightarrow> evidence_piece list" where
  "extract_relevant_evidence c ms = take 5 (concat (map (evidence_piece_of (evidence_type c)) ms))"

definition tribunal_answer ::
    "eval_criterion \<Rightarrow> tribunal_result \<Rightarrow> (criterion_result \<times> tribunal_result option, 'w) action" where
  "tribunal_answer c t = chain (pure (to_criterion_result t (crit_category c))) (\<lambda>r. pure (Inr (r, Some t)))"

text \<open>A verdict below the confidence threshold is tried a second time.\<close>

definition settle_retry ::
    "eval_criterion \<Rightarrow> tribunal_result \<Rightarrow> tribunal_result \<Rightarrow> (criterion_result \<times> tribunal_result option, 'w) action" where
  "settle_retry c t t2 =
     (if tr_verdict t2 = tr_verdict t
      then tribunal_answer c (t\<lparr>tr_confidence := (tr_confidence t + tr_confidence t2) / 2\<rparr>)
      else if tr_confidence t < tr_confidence t2 then tribunal_answer c t2
      else pure (Inr (llm_verdict c CANNOT_ASSESS (Some 0), None)))"

definition judge_single_criterion ::
    "'w llm_client \<Rightarrow> eval_settings \<Rightarrow> evidence_metadata list \<Rightarrow> eval_criterion
     \<Rightarrow> (criterion_result \<times> tribunal_result option, 'w) action" where
  "judge_single_criterion llm cfg ms c =
     (let ev = extract_relevant_evidence c ms
      in if consensus_weight_threshold cfg \<le> crit_weight c then
           chain (run_tribunal llm c ev) (\<lambda>t.
             if tr_confidence t < tribunal_confidence_threshold cfg \<and> 0 < tribunal_max_retries cfg
             then chain (run_tribunal llm c ev) (settle_retry c t)
             else tribunal_answer c t)
         else if 10 / 100 \<le> crit_weight c then
           chain (run_simplified_tribunal llm c ev) (tribunal_answer c)
         else
           chain (llm (EvaluateControl c ev)) (\<lambda>reply.
             chain (pure (parse_judgment_response reply c)) (\<lambda>r. pure (Inr (r, None)))))"

section \<open>The node\<close>

record judging =
  judgment_results :: "(string, criterion_result) dict"
  tribunal_justifications :: "(string, tribunal_result) dict"
  judge_calls :: nat
  partial_evaluation :: bool

definition criteria_map :: "eval_criterion list \<Rightarrow> string \<Rightarrow> eval_criterion option" where
  "criteria_map cs i = find (\<lambda>c. crit_id c = i) (rev cs)"

definition degraded ::
    "eval_criterion list \<Rightarrow> string \<Rightarrow> criterion_result_enum \<Rightarrow> criterion_result" where
  "degraded cs i r =
     \<lparr>criterion_id = i, category = (case criteria_map cs i of None \<Rightarrow> ''unknown'' | Some c \<Rightarrow> crit_category c),
      cr_result = r, cr_method = DEGRADED, cr_confidence = None, evidence_used = []\<rparr>"

definition fill_remaining ::
    "eval_criterion list \<Rightarrow> string list \<Rightarrow> (string, criterion_result) dict \<Rightarrow> (string, criterion_result) dict" where
  "fill_remaining cs ids d =
     foldl (\<lambda>d i. if dict_has d i then d else dict_set i (degraded cs i INSUFFICIENT_EVIDENCE) d) d ids"

fun judge_loop ::
    "'w llm_client \<Rightarrow> eval_settings \<Rightarrow> evidence_metadata list \<Rightarrow> eval_criterion list \<Rightarrow> string list \<Rightarrow> string list
     \<Rightarrow> judging \<Rightarrow> (judging, 'w) action" where
  "judge_loop llm cfg ms cs ids [] acc w = (Inr acc, w)"
| "judge_loop llm cfg ms cs ids (i # rest) acc w =
     (case criteria_map cs i of
        None \<Rightarrow> judge_loop llm cfg ms cs ids rest acc w
      | Some c \<Rightarrow>
          (case judge_single_criterion llm cfg ms c w of
             (Inr (r, doc), w2) \<Rightarrow>
               judge_loop llm cfg ms cs ids rest
                 (acc\<lparr>judgment_results := dict_set i r (judgment_results acc),
                      tribunal_justifications :=
                        (case doc of None \<Rightarrow> tribunal_justifications acc
                         | Some t \<Rightarrow> dict_set i t (tribunal_justifications acc)),
                      judge_calls := Suc (judge_calls acc)\<rparr>) w2
           | (Inl CreditExhausted, w2) \<Rightarrow>
               (Inr (acc\<lparr>partial_evaluation := True,
                         judgment_results := fill_remaining cs ids (judgment_results acc)\<rparr>), w2)
           | (Inl LLMUnavailable, w2) \<Rightarrow>
               judge_loop llm cfg ms cs ids rest
                 (acc\<lparr>judgment_results := dict_set i (degraded cs i CANNOT_ASSESS) (judgment_results acc)\<rparr>) w2
           | (Inl Crashed, w2) \<Rightarrow> (Inl Crashed, w2)))"

definition no_judging :: judging where
  "no_judging =
     \<lparr>judgment_results = [], tribunal_justifications = [], judge_calls = 0, partial_evaluation = False\<rparr>"

definition evaluation_node ::
    "'w llm_client \<Rightarrow> eval_settings \<Rightarrow> eval_criterion list option \<Rightarrow> evidence_metadata list \<Rightarrow> string list
     \<Rightarrow> (judging, 'w) action" where
  "evaluation_node llm cfg tc ms ids w =
     (case tc of
        None \<Rightarrow> (Inr no_judging, w)
      | Some cs \<Rightarrow> if ids = [] then (Inr no_judging, w) else judge_loop llm cfg ms cs ids ids no_judging w)"

section \<open>What a judgment is\<close>

text \<open>A judgment is about its criterion, gives a verdict, and any confidence is a share.\<close>

definition judgment_ok :: "eval_criterion \<Rightarrow> criterion_result \<Rightarrow> bool" where
  "judgment_ok c r \<longleftrightarrow>
     criterion_id r = crit_id c \<and> category r = crit_category c \<and> cr_method r = LLM_JUDGMENT
     \<and> cr_result r \<in> {PASS, PARTIAL, FAIL, CANNOT_ASSESS}
     \<and> (\<forall>x. cr_confidence r = Some x \<longrightarrow> 0 \<le> x \<and> x \<le> 1)"

definition tribunal_ok :: "eval_criterion \<Rightarrow> tribunal_result \<Rightarrow> bool" where
  "tribunal_ok c t \<longleftrightarrow>
     tr_criterion_id t = crit_id c \<and> tr_verdict t \<in> {PASS, PARTIAL, FAIL}
     \<and> 0 \<le> tr_confidence t \<and> tr_confidence t \<le> 1"

lemma clamp_confidence_bounds: "0 \<le> clamp_confidence f" "clamp_confidence f \<le> 1"
  by (cases f; simp)+

lemma verdict_kinds:
  "verdict_of_text us \<in> {PASS, PARTIAL, FAIL}" "verdict_in_text s \<in> {PASS, PARTIAL, FAIL}"
  by (auto simp: verdict_of_text_def verdict_in_text_def Let_def)

lemma parse_judge_ok: "parse_judge_response reply (crit_id c) pros defs = Inr t \<Longrightarrow> tribunal_ok c t"
  using verdict_kinds clamp_confidence_bounds
  by (fastforce simp: parse_judge_response_def tribunal_ok_def text_verdict_def Let_def
      split: sum.splits json.splits float_error.splits)

lemma run_judge_ok: "run_judge llm c pros defs w = (Inr t, w2) \<Longrightarrow> tribunal_ok c t"
  by (auto simp: run_judge_def chain_Inr pure_def intro: parse_judge_ok)

lemma tribunals_ok:
  "run_tribunal llm c ev w = (Inr t, w2) \<Longrightarrow> tribunal_ok c t"
  "run_simplified_tribunal llm c ev w = (Inr t, w2) \<Longrightarrow> tribunal_ok c t"
  by (auto simp: run_tribunal_def run_simplified_tribunal_def chain_Inr intro: run_judge_ok)

lemma tribunal_answer_ok:
  "tribunal_answer c t w = (Inr (r, doc), w2) \<Longrightarrow> tribunal_ok c t \<Longrightarrow> judgment_ok c r"
  by (auto simp: tribunal_answer_def chain_Inr pure_def to_criterion_result_def judgment_ok_def
      tribunal_ok_def split: if_splits)

lemma cannot_assess_ok: "judgment_ok c (llm_verdict c CANNOT_ASSESS (Some 0))"
  by (simp add: judgment_ok_def llm_verdict_def)

lemma settle_retry_ok:
  assumes "settle_retry c t t2 w = (Inr (r, doc), w2)" "tribunal_ok c t" "tribunal_ok c t2"
  shows "judgment_ok c r"
proof -
  have mean: "tribunal_ok c (t\<lparr>tr_confidence := (tr_confidence t + tr_confidence t2) / 2\<rparr>)"
    using assms(2,3) by (simp add: tribunal_ok_def)
  show ?thesis
    using assms mean cannot_assess_ok [of c]
    by (auto simp: settle_retry_def pure_def split: if_splits intro: tribunal_answer_ok)
qed

lemma parse_judgment_ok: "parse_judgment_response reply c = Inr r \<Longrightarrow> judgment_ok c r"
  using verdict_kinds
  by (fastforce simp: parse_judgment_response_def judgment_ok_def llm_verdict_def Let_def
      split: sum.splits json_error.splits json.splits if_splits)

lemma judge_single_ok:
  assumes "judge_single_criterion llm cfg ms c w = (Inr (r, doc), w2)"
  shows "judgment_ok c r"
  using assms
  by (auto simp: judge_single_criterion_def Let_def chain_Inr pure_def split: if_splits
      intro: tribunal_answer_ok tribunals_ok settle_retry_ok parse_judgment_ok)

text \<open>
  C23 (judgments_are_verdicts): whatever the model client answers, the judgment of a criterion carries the
  criterion's id and category, is PASS, PARTIAL, FAIL or CANNOT_ASSESS and never a request for
  another judgment, and its confidence, also after a second tribunal, is between 0 and 1, however
  the judge wrote it.
\<close>

theorem judgments_are_verdicts:
  assumes "judge_single_criterion llm cfg ms c w = (Inr (r, doc), w2)"
  shows "judgment_ok c r"
  using assms by (rule judge_single_ok)

definition echo_llm :: "string \<Rightarrow> nat llm_client" where
  "echo_llm reply req n = (Inr reply, Suc n)"

lemma pass_not_json: "json_loads ''pass'' = Inl DecodeError"
  by code_simp

theorem judgments_are_verdicts_witness:
  "\<exists>r doc w. judge_single_criterion (echo_llm ''pass'') default_settings [] sample_criterion 0 = (Inr (r, doc), w)
     \<and> judgment_ok sample_criterion r"
proof -
  have fences: "strip_fences ''pass'' = ''pass''" by code_simp
  have lines: "bullet_lines ''pass'' = []" by code_simp
  have "\<exists>r doc w. judge_single_criterion (echo_llm ''pass'') default_settings [] sample_criterion 0 = (Inr (r, doc), w)"
    by (simp add: judge_single_criterion_def default_settings_def sample_criterion_def chain_def run_tribunal_def
        run_prosecutor_def run_defender_def run_judge_def echo_llm_def pure_def parse_arguments_def
        parse_judge_response_def fences lines pass_not_json settle_retry_def tribunal_answer_def
        to_criterion_result_def text_verdict_def jstr_def ustr_def Let_def)
  then obtain r doc w where j: "judge_single_criterion (echo_llm ''pass'') default_settings [] sample_criterion 0
      = (Inr (r, doc), w)" by blast
  show ?thesis using j judgments_are_verdicts [OF j] by blast
qed

section \<open>The node settles everything it is given\<close>

text \<open>Every recorded result is about its key and is a verdict; insufficient evidence only when credits ran out.\<close>

definition settled_result :: "bool \<Rightarrow> string \<Rightarrow> criterion_result \<Rightarrow> bool" where
  "settled_result exhausted i r \<longleftrightarrow>
     criterion_id r = i \<and> cr_result r \<noteq> NEEDS_JUDGMENT \<and> (cr_result r = INSUFFICIENT_EVIDENCE \<longrightarrow> exhausted)"

definition judging_ok :: "judging \<Rightarrow> bool" where
  "judging_ok j \<longleftrightarrow>
     (\<forall>i r. dict_get (judgment_results j) i = Some r \<longrightarrow> settled_result (partial_evaluation j) i r)"

lemma criteria_map_id: "criteria_map cs i = Some c \<Longrightarrow> crit_id c = i"
  unfolding criteria_map_def by (auto simp: find_Some_iff)

lemma fill_remaining_get:
  "dict_get (fill_remaining cs ids d) i =
     (case dict_get d i of
        Some r \<Rightarrow> Some r
      | None \<Rightarrow> if i \<in> set ids then Some (degraded cs i INSUFFICIENT_EVIDENCE) else None)"
proof -
  let ?f = "\<lambda>d i. if dict_has d i then d else dict_set i (degraded cs i INSUFFICIENT_EVIDENCE) d"
  have "dict_get (foldl ?f d ids) i =
      (case dict_get d i of Some r \<Rightarrow> Some r
       | None \<Rightarrow> if i \<in> set ids then Some (degraded cs i INSUFFICIENT_EVIDENCE) else None)" for d
    by (induction ids arbitrary: d) (auto simp: dict_has_def split: option.splits)
  then show ?thesis by (simp add: fill_remaining_def)
qed

lemma judging_ok_set:
  "judging_ok acc \<Longrightarrow> settled_result (partial_evaluation acc) i r
   \<Longrightarrow> judging_ok (acc\<lparr>judgment_results := dict_set i r (judgment_results acc),
                        tribunal_justifications := t, judge_calls := n\<rparr>)"
  by (auto simp: judging_ok_def)

lemma judging_ok_filled:
  "judging_ok acc \<Longrightarrow>
     judging_ok (acc\<lparr>partial_evaluation := True, judgment_results := fill_remaining cs ids (judgment_results acc)\<rparr>)"
  by (fastforce simp: judging_ok_def settled_result_def fill_remaining_get degraded_def
      split: option.splits if_splits)

text \<open>
  What a run of the loop gives: the results are settled, every identifier of a criterion is covered,
  and identifiers not judged any more keep the result they had.
\<close>

definition loop_gives ::
    "eval_criterion list \<Rightarrow> string list \<Rightarrow> judging \<Rightarrow> judging \<Rightarrow> bool" where
  "loop_gives cs todo acc out \<longleftrightarrow>
     judging_ok out
     \<and> (\<forall>i \<in> set todo. criteria_map cs i \<noteq> None \<longrightarrow> dict_get (judgment_results out) i \<noteq> None)
     \<and> (\<forall>i r. dict_get (judgment_results acc) i = Some r \<longrightarrow> i \<notin> set todo
          \<longrightarrow> dict_get (judgment_results out) i = Some r)
     \<and> (\<forall>i. dict_get (judgment_results acc) i \<noteq> None \<longrightarrow> dict_get (judgment_results out) i \<noteq> None)"

lemma loop_gives_step:
  assumes "loop_gives cs rest acc2 out"
    and "\<And>j. j \<noteq> i \<Longrightarrow> dict_get (judgment_results acc2) j = dict_get (judgment_results acc) j"
    and "criteria_map cs i \<noteq> None \<Longrightarrow> dict_get (judgment_results acc2) i \<noteq> None"
    and "criteria_map cs i = None \<Longrightarrow> acc2 = acc"
  shows "loop_gives cs (i # rest) acc out"
  unfolding loop_gives_def
proof (intro conjI allI ballI impI)
  show "judging_ok out" using assms(1) by (simp add: loop_gives_def)
next
  fix j assume "j \<in> set (i # rest)" "criteria_map cs j \<noteq> None"
  then show "dict_get (judgment_results out) j \<noteq> None"
    using assms(1,3) by (cases "j \<in> set rest") (auto simp: loop_gives_def)
next
  fix j r assume "dict_get (judgment_results acc) j = Some r" "j \<notin> set (i # rest)"
  then show "dict_get (judgment_results out) j = Some r"
    using assms(1,2) by (simp add: loop_gives_def)
next
  fix j assume j: "dict_get (judgment_results acc) j \<noteq> None"
  then have "dict_get (judgment_results acc2) j \<noteq> None"
    using assms(2-4) by (cases "j = i"; cases "criteria_map cs i") auto
  then show "dict_get (judgment_results out) j \<noteq> None" using assms(1) by (simp add: loop_gives_def)
qed

lemma judge_loop_gives:
  "judge_loop llm cfg ms cs ids todo acc w = (Inr out, w2) \<Longrightarrow> judging_ok acc \<Longrightarrow> set todo \<subseteq> set ids
   \<Longrightarrow> loop_gives cs todo acc out"
proof (induction todo arbitrary: acc w)
  case Nil
  then show ?case by (simp add: loop_gives_def)
next
  case (Cons i rest)
  note run = Cons.prems(1) and ok = Cons.prems(2)
  have rest: "set rest \<subseteq> set ids" using Cons.prems(3) by simp
  show ?case
  proof (cases "criteria_map cs i")
    case None
    then show ?thesis
      using run Cons.IH [OF _ ok rest] by (auto intro: loop_gives_step)
  next
    case (Some c)
    obtain a w3 where a: "judge_single_criterion llm cfg ms c w = (a, w3)" by fastforce
    show ?thesis
    proof (cases a)
      case (Inr p)
      obtain r doc where p: "p = (r, doc)" by (cases p)
      let ?acc = "acc\<lparr>judgment_results := dict_set i r (judgment_results acc),
          tribunal_justifications := (case doc of None \<Rightarrow> tribunal_justifications acc
                                      | Some t \<Rightarrow> dict_set i t (tribunal_justifications acc)),
          judge_calls := Suc (judge_calls acc)\<rparr>"
      have "judgment_ok c r" using a Inr p by (auto intro: judge_single_ok)
      then have "settled_result (partial_evaluation acc) i r"
        using criteria_map_id [OF Some] by (auto simp: judgment_ok_def settled_result_def)
      then have "judging_ok ?acc" by (rule judging_ok_set [OF ok])
      moreover have "judge_loop llm cfg ms cs ids rest ?acc w3 = (Inr out, w2)"
        using run Some a Inr p by simp
      ultimately have "loop_gives cs rest ?acc out" by (intro Cons.IH rest)
      then show ?thesis by (rule loop_gives_step) (use Some in auto)
    next
      case (Inl e)
      show ?thesis
      proof (cases e)
        case CreditExhausted
        let ?acc = "acc\<lparr>partial_evaluation := True,
            judgment_results := fill_remaining cs ids (judgment_results acc)\<rparr>"
        have out: "out = ?acc" using run Some a Inl CreditExhausted by simp
        show ?thesis
          unfolding out loop_gives_def using judging_ok_filled [OF ok] Cons.prems(3)
          by (auto simp: fill_remaining_get split: option.splits)
      next
        case LLMUnavailable
        let ?acc = "acc\<lparr>judgment_results := dict_set i (degraded cs i CANNOT_ASSESS) (judgment_results acc)\<rparr>"
        have "judging_ok ?acc"
          using ok by (auto simp: judging_ok_def settled_result_def degraded_def)
        moreover have "judge_loop llm cfg ms cs ids rest ?acc w3 = (Inr out, w2)"
          using run Some a Inl LLMUnavailable by simp
        ultimately have "loop_gives cs rest ?acc out" by (intro Cons.IH rest)
        then show ?thesis by (rule loop_gives_step) (use Some in auto)
      next
        case Crashed
        then show ?thesis using run Some a Inl by simp
      qed
    qed
  qed
qed

text \<open>The library form of what the node settles.\<close>

lemma evaluation_node_settles:
  assumes "evaluation_node llm cfg (Some cs) ms ids w = (Inr out, w2)"
    and "i \<in> set ids" and "criteria_map cs i \<noteq> None"
  shows "\<exists>r. dict_get (judgment_results out) i = Some r \<and> settled_result (partial_evaluation out) i r"
proof -
  have "judge_loop llm cfg ms cs ids ids no_judging w = (Inr out, w2)"
    using assms(1,2) by (auto simp: evaluation_node_def split: if_splits)
  then have "loop_gives cs ids no_judging out"
    by (rule judge_loop_gives) (simp_all add: judging_ok_def no_judging_def)
  then show ?thesis
    using assms(2,3) by (fastforce simp: loop_gives_def judging_ok_def)
qed

text \<open>
  (evaluation_settles_every_criterion): when the evaluation node returns, every criterion that needed
  a judgment has a result of its own, none of them asks for a judgment again, and a result says
  insufficient evidence only in a run marked as partial, that is after the credits ran out.
\<close>

theorem evaluation_settles_every_criterion:
  assumes "evaluation_node llm cfg (Some cs) ms ids w = (Inr out, w2)"
    and "i \<in> set ids" and "criteria_map cs i \<noteq> None"
  shows "\<exists>r. dict_get (judgment_results out) i = Some r \<and> criterion_id r = i
     \<and> cr_result r \<noteq> NEEDS_JUDGMENT \<and> (cr_result r = INSUFFICIENT_EVIDENCE \<longrightarrow> partial_evaluation out)"
  using evaluation_node_settles [OF assms] by (auto simp: settled_result_def)

definition broke_llm :: "nat llm_client" where
  "broke_llm req n = (Inl CreditExhausted, Suc n)"

lemma broke_run:
  "evaluation_node broke_llm default_settings (Some [sample_criterion]) [] [crit_id sample_criterion] 0 =
     (Inr (no_judging\<lparr>partial_evaluation := True,
             judgment_results := fill_remaining [sample_criterion] [crit_id sample_criterion] []\<rparr>), 1)"
  by (simp add: evaluation_node_def judge_single_criterion_def default_settings_def sample_criterion_def
      criteria_map_def chain_def run_tribunal_def run_prosecutor_def broke_llm_def no_judging_def Let_def)

theorem evaluation_settles_every_criterion_witness:
  "\<exists>out w r. evaluation_node broke_llm default_settings (Some [sample_criterion]) [] [crit_id sample_criterion] 0
       = (Inr out, w) \<and> dict_get (judgment_results out) (crit_id sample_criterion) = Some r
       \<and> cr_result r \<noteq> NEEDS_JUDGMENT"
  using evaluation_settles_every_criterion [OF broke_run, of "crit_id sample_criterion"] broke_run
  by (auto simp: criteria_map_def)

text \<open>Verdicts already there survive.\<close>

lemma judge_loop_keeps:
  "judge_loop llm cfg ms cs ids todo acc w = (Inr out, w2) \<Longrightarrow> i \<notin> set todo
   \<Longrightarrow> dict_get (judgment_results acc) i = Some r \<Longrightarrow> dict_get (judgment_results out) i = Some r"
  by (induction llm cfg ms cs ids todo acc w rule: judge_loop.induct)
    (auto simp: fill_remaining_get split: option.splits prod.splits sum.splits judge_error.splits)

text \<open>
  (credit_exhaustion_keeps_verdicts): when the credits run out at one of the criteria, every verdict
  reached before stays, and exactly the criteria left without one are marked as insufficient
  evidence; the run is marked as partial.
\<close>

theorem credit_exhaustion_keeps_verdicts:
  assumes "criteria_map cs i = Some c"
    and "judge_single_criterion llm cfg ms c w = (Inl CreditExhausted, w2)"
    and "judge_loop llm cfg ms cs ids (i # rest) acc w = (Inr out, w3)"
  shows "partial_evaluation out
     \<and> (\<forall>j. dict_get (judgment_results out) j =
          (case dict_get (judgment_results acc) j of
             Some r \<Rightarrow> Some r
           | None \<Rightarrow> if j \<in> set ids then Some (degraded cs j INSUFFICIENT_EVIDENCE) else None))"
  using assms by (auto simp: fill_remaining_get)

theorem credit_exhaustion_keeps_verdicts_witness:
  "\<exists>out w. judge_loop broke_llm default_settings [] [sample_criterion] [crit_id sample_criterion]
        [crit_id sample_criterion] no_judging 0 = (Inr out, w) \<and> partial_evaluation out"
proof -
  have c: "criteria_map [sample_criterion] (crit_id sample_criterion) = Some sample_criterion"
    by (simp add: criteria_map_def)
  have j: "judge_single_criterion broke_llm default_settings [] sample_criterion 0 = (Inl CreditExhausted, 1)"
    by (simp add: judge_single_criterion_def default_settings_def sample_criterion_def chain_def run_tribunal_def
        run_prosecutor_def broke_llm_def Let_def)
  obtain out w where l: "judge_loop broke_llm default_settings [] [sample_criterion] [crit_id sample_criterion]
        [crit_id sample_criterion] no_judging 0 = (Inr out, w)"
    by (simp add: c j)
  show ?thesis using l credit_exhaustion_keeps_verdicts [OF c j l] by blast
qed

section \<open>How many calls a run makes\<close>

text \<open>A client that counts its calls, with any answers.\<close>

definition counting :: "(llm_request \<Rightarrow> nat \<Rightarrow> judge_error + string) \<Rightarrow> nat llm_client" where
  "counting answer req n = (answer req n, Suc n)"

definition at_most :: "nat \<Rightarrow> ('a, nat) action \<Rightarrow> bool" where
  "at_most k m \<longleftrightarrow> (\<forall>w. w \<le> snd (m w) \<and> snd (m w) \<le> w + k)"

lemma at_most_pure [simp]: "at_most 0 (pure r)"
  by (simp add: at_most_def pure_def)

lemma at_most_call [simp]: "at_most 1 (counting answer req)"
  by (simp add: at_most_def counting_def)

lemma at_most_chain:
  assumes "at_most k m" "\<And>x. at_most l (f x)"
  shows "at_most (k + l) (chain m f)"
  unfolding at_most_def
proof
  fix w
  have m: "w \<le> snd (m w)" "snd (m w) \<le> w + k" using assms(1) by (simp_all add: at_most_def)
  show "w \<le> snd (chain m f w) \<and> snd (chain m f w) \<le> w + (k + l)"
  proof (cases "m w")
    case (Pair a w2)
    show ?thesis
    proof (cases a)
      case (Inr x)
      have "w2 \<le> snd (f x w2) \<and> snd (f x w2) \<le> w2 + l" using assms(2) [of x] by (simp add: at_most_def)
      then show ?thesis using m Pair Inr by (simp add: chain_def)
    qed (use m Pair in \<open>simp add: chain_def\<close>)
  qed
qed

lemma at_most_mono: "at_most k m \<Longrightarrow> k \<le> l \<Longrightarrow> at_most l m"
  by (simp add: at_most_def) (meson add_left_mono order_trans)

lemma role_calls:
  "at_most 1 (run_prosecutor (counting answer) c ev)" "at_most 1 (run_defender (counting answer) c ev)"
  using at_most_chain [OF at_most_call at_most_pure] by (simp_all add: run_prosecutor_def run_defender_def)

lemma judge_calls: "at_most 1 (run_judge (counting answer) c pros defs)"
proof -
  have d: "at_most 0 (case defs of None \<Rightarrow> pure (Inr None)
      | Some d \<Rightarrow> chain (pure (argument_list d)) (\<lambda>ds. pure (Inr (Some ds))))"
    using at_most_chain [OF at_most_pure at_most_pure] by (auto split: option.split)
  have "at_most (0 + (0 + (1 + 0))) (run_judge (counting answer) c pros defs)"
    unfolding run_judge_def by (intro at_most_chain at_most_pure at_most_call d)
  then show ?thesis by simp
qed

lemma tribunal_calls:
  "at_most 3 (run_tribunal (counting answer) c ev)"
  "at_most 2 (run_simplified_tribunal (counting answer) c ev)"
proof -
  have "at_most (1 + (1 + 1)) (run_tribunal (counting answer) c ev)"
    unfolding run_tribunal_def by (intro at_most_chain role_calls judge_calls)
  then show "at_most 3 (run_tribunal (counting answer) c ev)" by (simp add: numeral_3_eq_3)
  have "at_most (1 + 1) (run_simplified_tribunal (counting answer) c ev)"
    unfolding run_simplified_tribunal_def by (intro at_most_chain role_calls judge_calls)
  then show "at_most 2 (run_simplified_tribunal (counting answer) c ev)" by (simp add: numeral_2_eq_2)
qed

lemma answer_calls: "at_most 0 (tribunal_answer c t)" "at_most 0 (settle_retry c t t2)"
  using at_most_chain [OF at_most_pure at_most_pure] by (auto simp: tribunal_answer_def settle_retry_def)

lemma judge_single_calls: "at_most 6 (judge_single_criterion (counting answer) cfg ms c)"
proof -
  have full: "at_most (3 + 3) (chain (run_tribunal (counting answer) c ev) (\<lambda>t. if b t
      then chain (run_tribunal (counting answer) c ev) (settle_retry c t) else tribunal_answer c t))" for ev b
    by (intro at_most_chain tribunal_calls)
      (auto intro: at_most_mono [OF answer_calls(1)] at_most_chain [OF tribunal_calls(1) answer_calls(2), simplified])
  have mid: "at_most (2 + 0) (chain (run_simplified_tribunal (counting answer) c ev) (tribunal_answer c))" for ev
    by (intro at_most_chain tribunal_calls answer_calls)
  have low: "at_most (1 + (0 + 0)) (chain (counting answer (EvaluateControl c ev)) (\<lambda>reply.
      chain (pure (parse_judgment_response reply c)) (\<lambda>r. pure (Inr (r, None :: tribunal_result option)))))" for ev
    by (intro at_most_chain at_most_call at_most_pure)
  show ?thesis
    unfolding judge_single_criterion_def Let_def
    using full at_most_mono [OF mid, of 6] at_most_mono [OF low, of 6] by simp
qed

lemma judge_loop_calls:
  "w \<le> snd (judge_loop (counting answer) cfg ms cs ids todo acc w)
   \<and> snd (judge_loop (counting answer) cfg ms cs ids todo acc w) \<le> w + 6 * length todo"
proof (induction todo arbitrary: acc w)
  case (Cons i rest)
  have one: "w \<le> snd (judge_single_criterion (counting answer) cfg ms c w)
      \<and> snd (judge_single_criterion (counting answer) cfg ms c w) \<le> w + 6" for c
    using judge_single_calls by (simp add: at_most_def)
  show ?case
  proof (cases "criteria_map cs i")
    case None
    then show ?thesis using Cons.IH [of w acc] by simp
  next
    case (Some c)
    obtain a w3 where a: "judge_single_criterion (counting answer) cfg ms c w = (a, w3)" by fastforce
    have w3: "w \<le> w3" "w3 \<le> w + 6" using one [of c] a by simp_all
    have step: "w \<le> snd (judge_loop (counting answer) cfg ms cs ids rest acc2 w3)
        \<and> snd (judge_loop (counting answer) cfg ms cs ids rest acc2 w3) \<le> w + 6 * length (i # rest)" for acc2
      using Cons.IH [of w3 acc2] w3 by simp
    show ?thesis using Some a step w3 by (auto split: sum.splits judge_error.splits)
  qed
qed simp

text \<open>
  (judging_calls_bounded): the evaluation node makes at most six model calls per criterion it judges, two
  full tribunals of three calls each, whatever the client answers and wherever it fails.
\<close>

theorem judging_calls_bounded:
  "snd (evaluation_node (counting answer) cfg tc ms ids w) \<le> w + 6 * length ids"
  using judge_loop_calls [of w answer cfg ms _ ids ids no_judging]
  by (auto simp: evaluation_node_def split: option.split)

section \<open>Two ways a verdict is not what the judge said\<close>

text \<open>
  (pass_anywhere_passes): a reply that is no JSON passes its criterion as soon as the letters "pass"
  occur in it anywhere, in any case and whatever is said about them.
\<close>

theorem pass_anywhere_passes:
  assumes "json_loads (let s = str_strip content in if prefix ''```'' s then drop_fences s else s) = Inl DecodeError"
    and "sublist ''pass'' (str_lower content)"
  shows "\<exists>r. parse_judgment_response content c = Inr r \<and> cr_result r = PASS"
  using assms
  by (auto simp: parse_judgment_response_def llm_verdict_def verdict_in_text_def str_in_def Let_def)

theorem pass_anywhere_passes_witness:
  "\<exists>r. parse_judgment_response ''This does not pass.'' sample_criterion = Inr r \<and> cr_result r = PASS"
proof -
  have "json_loads (let s = str_strip ''This does not pass.''
      in if prefix ''```'' s then drop_fences s else s) = Inl DecodeError"
    by code_simp
  moreover have "sublist ''pass'' (str_lower ''This does not pass.'')" by code_simp
  ultimately show ?thesis by (rule pass_anywhere_passes)
qed

text \<open>
  (confident_retry_overrides): when the second tribunal contradicts the first with more confidence its
  verdict is used, however low that confidence is; only a second verdict that is no more confident
  leads to "cannot assess".
\<close>

theorem confident_retry_overrides:
  assumes "tr_verdict t2 \<noteq> tr_verdict t" and "valid_reason (tr_justification t2)"
  shows "\<exists>r doc. settle_retry c t t2 w = (Inr (r, doc), w)
     \<and> cr_result r = (if tr_confidence t < tr_confidence t2 then tr_verdict t2 else CANNOT_ASSESS)"
  using assms
  by (auto simp: settle_retry_def tribunal_answer_def chain_def pure_def to_criterion_result_def llm_verdict_def)

theorem confident_retry_overrides_witness:
  "\<exists>r doc. settle_retry sample_criterion (text_verdict ''fail'' ''AC-2-01'' JNull JNull\<lparr>tr_confidence := 1 / 10\<rparr>)
       (text_verdict ''pass'' ''AC-2-01'' JNull JNull\<lparr>tr_confidence := 2 / 10\<rparr>) (0 :: nat) = (Inr (r, doc), 0)
     \<and> cr_result r = PASS"
proof -
  let ?t = "text_verdict ''fail'' ''AC-2-01'' JNull JNull\<lparr>tr_confidence := 1 / 10\<rparr>"
  let ?t2 = "text_verdict ''pass'' ''AC-2-01'' JNull JNull\<lparr>tr_confidence := 2 / 10\<rparr>"
  have words: "verdict_in_text ''fail'' = FAIL" "verdict_in_text ''pass'' = PASS" by code_simp+
  have "tr_verdict ?t2 \<noteq> tr_verdict ?t" by (simp add: text_verdict_def words)
  moreover have "valid_reason (tr_justification ?t2)" by (simp add: text_verdict_def jstr_def ustr_def)
  ultimately show ?thesis
    using confident_retry_overrides [of ?t2 ?t sample_criterion "0 :: nat"] by (simp add: text_verdict_def words)
qed

lemma dict_ok_fill: "dict_ok d \<Longrightarrow> dict_ok (fill_remaining cs ids d)"
proof -
  have "dict_ok d \<Longrightarrow> dict_ok (foldl (\<lambda>d i. if dict_has d i then d
      else dict_set i (degraded cs i INSUFFICIENT_EVIDENCE) d) d ids)" for d
    by (induction ids arbitrary: d) auto
  then show "dict_ok d \<Longrightarrow> dict_ok (fill_remaining cs ids d)" by (simp add: fill_remaining_def)
qed

lemma judge_loop_dict_ok:
  "judge_loop llm cfg ms cs ids todo acc w = (Inr out, w2) \<Longrightarrow> dict_ok (judgment_results acc)
   \<Longrightarrow> dict_ok (judgment_results out)"
  by (induction llm cfg ms cs ids todo acc w rule: judge_loop.induct)
    (auto simp: dict_ok_fill split: option.splits prod.splits sum.splits judge_error.splits)

lemma evaluation_node_dict_ok:
  "evaluation_node llm cfg tc ms ids w = (Inr out, w2) \<Longrightarrow> dict_ok (judgment_results out)"
  by (auto simp: evaluation_node_def no_judging_def split: option.splits if_splits
      dest!: judge_loop_dict_ok)

lemma evaluation_node_only_settled:
  assumes "evaluation_node llm cfg tc ms ids w = (Inr out, w2)"
    and "dict_get (judgment_results out) i = Some r"
  shows "settled_result (partial_evaluation out) i r"
proof (cases tc)
  case None
  then show ?thesis using assms by (auto simp: evaluation_node_def no_judging_def)
next
  case (Some cs)
  show ?thesis
  proof (cases "ids = []")
    case True
    then show ?thesis using assms Some by (auto simp: evaluation_node_def no_judging_def)
  next
    case False
    then have "judge_loop llm cfg ms cs ids ids no_judging w = (Inr out, w2)"
      using assms(1) Some by (simp add: evaluation_node_def)
    then have "loop_gives cs ids no_judging out"
      by (rule judge_loop_gives) (simp_all add: judging_ok_def no_judging_def)
    then show ?thesis using assms(2) by (simp add: loop_gives_def judging_ok_def)
  qed
qed

end
