(* ===== verification/Ev_Graph.thy ===== *)
theory Ev_Graph
  imports Ev_Rules Ev_Scoring Ev_Judging "HOL-Library.List_Lexorder" "HOL-Library.Char_ord"
begin

text \<open>
  The evaluation pipeline (\<^verbatim>\<open>agent-eval/src/graph/*.py\<close>): the state the nodes pass on, every node, the
  routing functions, and the run of the compiled graph from the router to its end. The services a
  node calls (storage, memory, preprocessor, sandbox, language model) are the fields of an
  environment, functions of the world; a call that raises is the left part of a sum. The clock is
  read from the world. Log lines and timings are not modelled.
\<close>

section \<open>State\<close>

record justification =
  layer1_count :: nat
  layer1_criteria :: "(string, criterion_result) dict"
  layer2_count :: nat
  layer2_criteria :: "(string, tribunal_result) dict"
  floor_rules_applied :: "string list"
  just_score :: real
  just_status :: compliance_status

record eval_result =
  evaluation_id :: string
  er_control_id :: string
  er_framework :: string
  er_tenant_id :: string
  er_score :: real
  er_status :: compliance_status
  er_evidence_hash :: string
  criteria_results :: "criterion_result list"
  er_justification :: "justification option"
  er_layer_stats :: layer_stats
  er_partial :: bool
  cached :: bool
  er_error :: "string option"

record eval_state =
  control_id :: string
  framework :: string
  tenant_id :: string
  bypass_cache :: bool
  intent :: string
  chat_message :: string
  evidence_files :: "evidence_file list"
  evidence_hash :: string
  es_error :: "string option"
  cached_result :: "eval_result option"
  es_metadata :: "evidence_metadata list"
  es_criteria :: "testing_criteria option"
  es_rule_results :: "(string, criterion_result) dict"
  es_needs_judgment :: "string list"
  es_judgment_results :: "(string, criterion_result) dict"
  es_justifications :: "(string, tribunal_result) dict"
  es_partial :: bool
  es_layer_stats :: "layer_stats option"
  final_score :: real
  final_status :: compliance_status
  sandbox_code :: string
  sandbox_output :: string
  sandbox_retries :: int
  evaluation_result :: "eval_result option"

text \<open>The state \<^verbatim>\<open>_execute_evaluation\<close> starts with.\<close>

definition initial_state :: "string \<Rightarrow> string \<Rightarrow> string \<Rightarrow> bool \<Rightarrow> eval_state" where
  "initial_state control fw tenant bypass =
     \<lparr>control_id = control, framework = fw, tenant_id = tenant, bypass_cache = bypass, intent = ''evaluate'',
      chat_message = [], evidence_files = [], evidence_hash = [], es_error = None, cached_result = None,
      es_metadata = [], es_criteria = None, es_rule_results = [], es_needs_judgment = [],
      es_judgment_results = [], es_justifications = [], es_partial = False, es_layer_stats = None,
      final_score = 0, final_status = STATUS_INSUFFICIENT_EVIDENCE, sandbox_code = [], sandbox_output = [],
      sandbox_retries = 0, evaluation_result = None\<rparr>"

section \<open>The services\<close>

record sandbox_reply =
  sb_success :: bool
  sb_stdout :: string
  sb_stderr :: string

text \<open>What the code model is asked: the criteria and files of the task, or a program and its error.\<close>

datatype code_request =
    GenerateCode string string "(string \<times> string) list" "evidence_metadata list"
  | FixCode string string

datatype memory_call =
    EvalStore eval_result
  | EvalDecisionCreate string real compliance_status
  | EvaluationCompleted string compliance_status real
  | ReadinessChanged string compliance_status compliance_status pyval real

datatype stored_reply = Stored "(string, pyval) dict" | NotStored | StoreFailed

record 'w eval_env =
  settings :: eval_settings
  clock :: "'w \<Rightarrow> real"
  fresh_id :: "'w \<Rightarrow> string"
  judge_client :: "'w llm_client"
  intent_client :: "string \<Rightarrow> (string, 'w) action"
  code_client :: "code_request \<Rightarrow> (string, 'w) action"
  sandbox_execute :: "string \<Rightarrow> (string, string) dict \<Rightarrow> (sandbox_reply, 'w) action"
  list_objects :: "string \<Rightarrow> (string list, 'w) action"
  stored_metadata :: "string \<Rightarrow> 'w \<Rightarrow> stored_reply \<times> 'w"
  preprocess :: "string \<Rightarrow> ((string, pyval) dict option, 'w) action"
  validate_metadata :: "string \<Rightarrow> real \<Rightarrow> (string, pyval) dict \<Rightarrow> evidence_metadata option"
  eval_recall :: "string \<Rightarrow> string \<Rightarrow> string \<Rightarrow> ((string, pyval) dict list, 'w) action"
  validate_result :: "pyval \<Rightarrow> eval_result option"
  memory_criteria :: "string \<Rightarrow> string \<Rightarrow> string \<Rightarrow> 'w \<Rightarrow> testing_criteria option \<times> 'w"
  rag_criteria :: "string \<Rightarrow> string \<Rightarrow> testing_criteria option"
  memory_send :: "memory_call \<Rightarrow> (bool, 'w) action"
  name_search :: "string \<Rightarrow> string \<Rightarrow> bool option"
  digest :: "(string \<times> real \<times> int) list \<Rightarrow> string"

section \<open>Router\<close>

abbreviation re_word_i :: "string \<Rightarrow> re" where
  "re_word_i w \<equiv> RSeqs [RBound, RLitI w, RBound]"

definition evaluate_patterns :: "re list" where
  "evaluate_patterns =
     [RSeqs [RBound, RLitI ''evaluat'', RAlt (RLitI ''e'') (RLitI ''ion''), RBound],
      re_word_i ''assess'', re_word_i ''check compliance'',
      RSeqs [RBound, RLitI ''run'', re_spaces1, ROpt (RSeq (RLitI ''the'') re_spaces1), RLitI ''eval'']]"

definition status_patterns :: "re list" where
  "status_patterns =
     [re_word_i ''status'', re_word_i ''progress'',
      RSeqs [RBound, RLitI ''result'', ROpt (RLitI ''s''), RBound],
      RSeqs [RBound, RLitI ''how'', re_spaces1, RAlt (RLitI ''is'') (RLitI ''are''), re_spaces1,
             RAlt (RLitI ''the'') (RLitI ''my''), RBound]]"

definition classify_heuristic :: "string \<Rightarrow> string option" where
  "classify_heuristic message =
     (if list_ex (\<lambda>r. re_search r message) evaluate_patterns then Some ''evaluate''
      else if list_ex (\<lambda>r. re_search r message) status_patterns then Some ''status''
      else None)"

definition router_node :: "'w eval_env \<Rightarrow> eval_state \<Rightarrow> (eval_state, 'w) action" where
  "router_node env st w =
     (if intent st \<noteq> [] then (Inr st, w)
      else if chat_message st = [] then (Inr (st\<lparr>intent := ''evaluate''\<rparr>), w)
      else (case classify_heuristic (chat_message st) of
              Some i \<Rightarrow> (Inr (st\<lparr>intent := i\<rparr>), w)
            | None \<Rightarrow>
                (case intent_client env (chat_message st) w of
                   (Inl e, w2) \<Rightarrow> (Inr (st\<lparr>intent := ''chat''\<rparr>), w2)
                 | (Inr reply, w2) \<Rightarrow>
                     (let i = str_lower (str_strip reply)
                      in (Inr (st\<lparr>intent := (if i \<in> {''evaluate'', ''status'', ''chat''} then i else ''chat'')\<rparr>), w2)))))"

section \<open>Discovery\<close>

definition tenant_prefix :: "string \<Rightarrow> string \<Rightarrow> string" where
  "tenant_prefix tenant path =
     (let slash = (\<lambda>c. c = CHR ''/'')
      in rev (dropWhile slash (rev (dropWhile slash tenant))) @ ''/'' @ dropWhile slash path)"

text \<open>\<^verbatim>\<open>key.rsplit("/", 1)[-1]\<close>\<close>

definition base_name :: "string \<Rightarrow> string" where
  "base_name key = last (split_char (CHR ''/'') key)"

definition detect_file_type :: "string \<Rightarrow> string" where
  "detect_file_type name =
     (let low = str_lower name; ends = \<lambda>exts. list_ex (str_endswith low) exts
      in if ends [''.xlsx'', ''.xls''] then ''spreadsheet''
         else if ends [''.csv''] then ''csv''
         else if ends [''.pdf''] then ''pdf''
         else if ends [''.doc'', ''.docx''] then ''document''
         else if ends [''.png'', ''.jpg'', ''.jpeg'', ''.gif''] then ''image''
         else if ends [''.ppt'', ''.pptx''] then ''presentation''
         else if ends [''.json''] then ''json''
         else if ends [''.txt'', ''.md''] then ''text''
         else ''unknown'')"

definition discovered :: "real \<Rightarrow> string \<Rightarrow> evidence_file" where
  "discovered now key =
     \<lparr>ef_storage_key = key, ef_filename = base_name key, ef_file_type = detect_file_type (base_name key),
      ef_size = 0, last_modified = now, content_hash = []\<rparr>"

definition evidence_object :: "string \<Rightarrow> bool" where
  "evidence_object key \<longleftrightarrow> \<not> (str_endswith key ''/'' \<or> str_endswith key ''metadata.json'')"

text \<open>The keys come out of a Python set; they are listed here as they are first met.\<close>

definition discovered_files :: "real \<Rightarrow> string list \<Rightarrow> string list \<Rightarrow> evidence_file list" where
  "discovered_files now specific general =
     map (discovered now) (filter evidence_object (remdups (specific @ general)))"

definition compute_evidence_hash :: "'w eval_env \<Rightarrow> evidence_file list \<Rightarrow> string" where
  "compute_evidence_hash env fs =
     digest env (map (\<lambda>e. (ef_storage_key e, last_modified e, ef_size e)) (sort_key ef_storage_key fs))"

definition pystr_or :: "(string, pyval) dict \<Rightarrow> string \<Rightarrow> pyval \<Rightarrow> pyval" where
  "pystr_or d k v = (case dict_get d k of None \<Rightarrow> v | Some x \<Rightarrow> x)"

definition check_evidence_cache :: "'w eval_env \<Rightarrow> eval_state \<Rightarrow> string \<Rightarrow> (eval_result option, 'w) action" where
  "check_evidence_cache env st hash =
     chain (eval_recall env (tenant_id st) (framework st) (control_id st)) (\<lambda>previous.
       pure (Inr (case previous of
         [] \<Rightarrow> None
       | prev # _ \<Rightarrow>
           if pystr_or prev ''evidence_hash'' (PStr []) = PStr hash
           then map_option (cached_update (\<lambda>_. True)) (validate_result env (pystr_or prev ''result'' (PDict prev)))
           else None)))"

definition discovery_node :: "'w eval_env \<Rightarrow> eval_state \<Rightarrow> (eval_state, 'w) action" where
  "discovery_node env st =
     chain (list_objects env (tenant_prefix (tenant_id st) (''evidence/'' @ framework st @ ''/'' @ control_id st @ ''/''))) (\<lambda>specific.
     chain (list_objects env (tenant_prefix (tenant_id st) ''evidence/'')) (\<lambda>general w.
       (let files = discovered_files (clock env w) specific general;
            hash = compute_evidence_hash env files
        in if files = [] then
             (Inr (st\<lparr>evidence_files := [], evidence_hash := [],
                      es_error := Some ''No evidence files found for this control''\<rparr>), w)
           else if bypass_cache st then (Inr (st\<lparr>evidence_files := files, evidence_hash := hash\<rparr>), w)
           else chain (check_evidence_cache env st hash) (\<lambda>found.
                  pure (Inr (case found of
                    Some r \<Rightarrow> st\<lparr>evidence_files := files, evidence_hash := hash, cached_result := Some r\<rparr>
                  | None \<Rightarrow> st\<lparr>evidence_files := files, evidence_hash := hash\<rparr>))) w)))"

section \<open>Extraction and criteria\<close>

definition inline_extraction :: "real \<Rightarrow> evidence_file \<Rightarrow> evidence_metadata" where
  "inline_extraction now e =
     \<lparr>em_storage_key = ef_storage_key e, em_file_type = ef_file_type e, columns = [], row_count = 0,
      sheet_names = [], text_content = [], extracted_at = now,
      schema_info = [(''source'', PStr ''inline_fallback'')]\<rparr>"

text \<open>The fields read from a reply, with their defaults; slicing a text that is no string or list raises.\<close>

definition metadata_fields :: "evidence_file \<Rightarrow> (string, pyval) dict \<Rightarrow> (string, pyval) dict option" where
  "metadata_fields e d =
     (case (case pystr_or d ''text_content'' (PStr []) of
              PStr s \<Rightarrow> Some (PStr (take 5000 s)) | PList vs \<Rightarrow> Some (PList (take 5000 vs)) | _ \<Rightarrow> None) of
        None \<Rightarrow> None
      | Some txt \<Rightarrow>
          Some [(''file_type'', pystr_or d ''file_type'' (PStr (ef_file_type e))),
                (''columns'', pystr_or d ''columns'' (PList [])), (''row_count'', pystr_or d ''row_count'' (PInt 0)),
                (''sheet_names'', pystr_or d ''sheet_names'' (PList [])), (''text_content'', txt),
                (''schema_info'', pystr_or d ''schema_info'' (PDict []))])"

definition read_metadata :: "'w eval_env \<Rightarrow> real \<Rightarrow> evidence_file \<Rightarrow> (string, pyval) dict \<Rightarrow> evidence_metadata option" where
  "read_metadata env now e d =
     (case metadata_fields e d of
        None \<Rightarrow> None | Some ps \<Rightarrow> validate_metadata env (ef_storage_key e) now ps)"

definition extract_single_file :: "'w eval_env \<Rightarrow> evidence_file \<Rightarrow> (evidence_metadata, 'w) action" where
  "extract_single_file env e w =
     (case stored_metadata env (ef_storage_key e @ ''.metadata.json'') w of
        (reply, w2) \<Rightarrow>
          (case (case reply of Stored d \<Rightarrow> read_metadata env (clock env w2) e d | _ \<Rightarrow> None) of
             Some m \<Rightarrow> (Inr m, w2)
           | None \<Rightarrow>
               (case preprocess env (ef_storage_key e) w2 of
                  (Inl err, w3) \<Rightarrow> (Inl Crashed, w3)
                | (Inr None, w3) \<Rightarrow> (Inr (inline_extraction (clock env w3) e), w3)
                | (Inr (Some d), w3) \<Rightarrow>
                    (case read_metadata env (clock env w3) e d of
                       None \<Rightarrow> (Inl Crashed, w3) | Some m \<Rightarrow> (Inr m, w3)))))"

fun extract_all :: "'w eval_env \<Rightarrow> evidence_file list \<Rightarrow> (evidence_metadata list, 'w) action" where
  "extract_all env [] = pure (Inr [])"
| "extract_all env (e # es) =
     chain (extract_single_file env e) (\<lambda>m. chain (extract_all env es) (\<lambda>ms. pure (Inr (m # ms))))"

definition extractor_node :: "'w eval_env \<Rightarrow> eval_state \<Rightarrow> (eval_state, 'w) action" where
  "extractor_node env st =
     chain (extract_all env (evidence_files st)) (\<lambda>ms. pure (Inr (st\<lparr>es_metadata := ms\<rparr>)))"

definition default_criterion ::
    "string \<Rightarrow> string \<Rightarrow> string \<Rightarrow> string \<Rightarrow> string \<Rightarrow> string \<Rightarrow> string \<Rightarrow> real \<Rightarrow> string option \<Rightarrow> eval_criterion" where
  "default_criterion control n cat q et pass fail weight check =
     \<lparr>crit_id = ''TC-'' @ control @ ''-'' @ n, crit_category = cat, question = q, evidence_type = et,
      pass_condition = pass, fail_condition = fail, crit_weight = weight, check_type = check, check_params = []\<rparr>"

definition generate_default_criteria :: "string \<Rightarrow> string \<Rightarrow> testing_criteria" where
  "generate_default_criteria fw control =
     \<lparr>tc_control_id = control, tc_framework = fw,
      control_objective = ''Control '' @ control @ '' objective (default criteria)'',
      tc_criteria =
        [default_criterion control ''01'' ''policy'' ''Is there a documented policy for this control?'' ''document''
           ''Policy document exists, is current (within 12 months), and covers the control objective''
           ''No policy document, or document is expired or does not cover the control''
           (20 / 100) (Some ''file_existence''),
         default_criterion control ''02'' ''procedure''
           ''Is there a documented procedure for implementing this control?'' ''document''
           ''Procedure document exists and describes implementation steps''
           ''No procedure documentation found'' (15 / 100) (Some ''file_existence''),
         default_criterion control ''03'' ''implementation'' ''Is there evidence that the control is operating?''
           ''structured_data'' ''Records exist showing control activity during the audit period''
           ''No operational records found'' (30 / 100) (Some ''row_count''),
         default_criterion control ''04'' ''implementation'' ''Are control records complete and populated?''
           ''structured_data'' ''Key columns are populated with >= 95% completeness''
           ''Key columns have significant null/empty values'' (20 / 100) (Some ''null_rate''),
         default_criterion control ''05'' ''monitoring'' ''Is the control being monitored for effectiveness?''
           ''unstructured'' ''Monitoring evidence shows ongoing oversight of control effectiveness''
           ''No monitoring or review evidence found'' (15 / 100) None]\<rparr>"

definition load_testing_criteria_node :: "'w eval_env \<Rightarrow> eval_state \<Rightarrow> (eval_state, 'w) action" where
  "load_testing_criteria_node env st w =
     (case memory_criteria env (tenant_id st) (framework st) (control_id st) w of
        (found, w2) \<Rightarrow>
          (Inr (st\<lparr>es_criteria := Some (case found of
                     Some t \<Rightarrow> t
                   | None \<Rightarrow>
                       (case rag_criteria env (framework st) (control_id st) of
                          Some t \<Rightarrow> t
                        | None \<Rightarrow> generate_default_criteria (framework st) (control_id st)))\<rparr>), w2))"

section \<open>Layers 1 to 3\<close>

definition base_stats :: layer_stats where
  "base_stats = \<lparr>layer1_resolved = 0, layer2_resolved = 0, total_criteria = 0, llm_calls = 0, sandbox_calls = 0\<rparr>"

definition graph_rules_node :: "'w eval_env \<Rightarrow> eval_state \<Rightarrow> (eval_state, 'w) action" where
  "graph_rules_node env st w =
     (case es_criteria st of
        None \<Rightarrow> (Inr (st\<lparr>es_rule_results := [], es_needs_judgment := [],
                        es_error := Some ''No testing criteria available''\<rparr>), w)
      | Some tc \<Rightarrow>
          (let out = rules_engine_node (name_search env) (clock env w) (tc_criteria tc) (es_metadata st) (evidence_files st)
           in (Inr (st\<lparr>es_rule_results := rule_results out, es_needs_judgment := needs_judgment out,
                       es_layer_stats := Some (base_stats\<lparr>layer1_resolved := rules_resolved out,
                                                           total_criteria := length (tc_criteria tc)\<rparr>)\<rparr>), w)))"

text \<open>The statistics are rebuilt from the first layer's alone.\<close>

definition evaluation_stats :: "layer_stats option \<Rightarrow> judging \<Rightarrow> layer_stats" where
  "evaluation_stats old j =
     (case old of None \<Rightarrow> base_stats
      | Some s \<Rightarrow> base_stats\<lparr>layer1_resolved := layer1_resolved s, total_criteria := total_criteria s\<rparr>)
     \<lparr>layer2_resolved := length (judgment_results j), llm_calls := judge_calls j\<rparr>"

definition graph_evaluation_node :: "'w eval_env \<Rightarrow> eval_state \<Rightarrow> (eval_state, 'w) action" where
  "graph_evaluation_node env st =
     chain (evaluation_node (judge_client env) (settings env) (map_option tc_criteria (es_criteria st))
              (es_metadata st) (es_needs_judgment st)) (\<lambda>j.
       pure (Inr (st\<lparr>es_judgment_results := judgment_results j, es_justifications := tribunal_justifications j,
                     es_partial := partial_evaluation j,
                     es_layer_stats := Some (evaluation_stats (es_layer_stats st) j)\<rparr>)))"

definition graph_scoring_node :: "eval_state \<Rightarrow> (eval_state, 'w) action" where
  "graph_scoring_node st =
     (case scoring_node (es_criteria st) (es_rule_results st) (es_judgment_results st) (es_partial st) of
        (score, status) \<Rightarrow> pure (Inr (st\<lparr>final_score := score, final_status := status\<rparr>)))"

section \<open>Sandbox\<close>

definition extract_code :: "string \<Rightarrow> string" where
  "extract_code content =
     (let s = str_strip content;
          t = (if prefix ''```python'' s then str_strip (drop 9 s)
               else if prefix ''```'' s then str_strip (drop 3 s) else s)
      in if suffix ''```'' t then str_strip (take (length t - 3) t) else t)"

definition structured_metadata :: "eval_state \<Rightarrow> evidence_metadata list" where
  "structured_metadata st = filter (\<lambda>m. structured (em_file_type m)) (es_metadata st)"

definition sandbox_files :: "eval_state \<Rightarrow> (string, string) dict" where
  "sandbox_files st =
     foldl (\<lambda>d m. dict_set (base_name (em_storage_key m)) (em_storage_key m) d) [] (structured_metadata st)"

text \<open>The questions the generated code should answer, with their pass conditions.\<close>

definition sandbox_tasks :: "eval_state \<Rightarrow> (string \<times> string) list" where
  "sandbox_tasks st =
     (case es_criteria st of
        None \<Rightarrow> []
      | Some tc \<Rightarrow>
          map (\<lambda>c. (question c, pass_condition c))
            (filter (\<lambda>c. crit_id c \<in> set (es_needs_judgment st) \<and> evidence_type c = ''structured_data'') (tc_criteria tc)))"

definition sandbox_stats :: "layer_stats option \<Rightarrow> layer_stats" where
  "sandbox_stats old =
     (case old of None \<Rightarrow> base_stats | Some s \<Rightarrow> s\<lparr>sandbox_calls := 0\<rparr>)\<lparr>sandbox_calls := 1\<rparr>"

definition sandbox_node :: "'w eval_env \<Rightarrow> eval_state \<Rightarrow> (eval_state, 'w) action" where
  "sandbox_node env st =
     (if structured_metadata st = [] then pure (Inr (st\<lparr>sandbox_output := [], sandbox_code := []\<rparr>))
      else
        chain (code_client env (GenerateCode (control_id st) (framework st) (sandbox_tasks st) (structured_metadata st))) (\<lambda>reply.
        chain (sandbox_execute env (extract_code reply) (sandbox_files st)) (\<lambda>result.
          pure (Inr (st\<lparr>sandbox_code := extract_code reply,
                        sandbox_output := (if sb_success result then sb_stdout result else sb_stderr result),
                        es_layer_stats := Some (sandbox_stats (es_layer_stats st))\<rparr>)))))"

definition max_retries_text :: "int \<Rightarrow> string \<Rightarrow> string" where
  "max_retries_text n out =
     ''Max retries ('' @ map char_of (str_of_json (\<lambda>_. []) (JInt n)) @ '') exceeded. Last error: '' @ take 500 out"

definition code_fixer_node :: "'w eval_env \<Rightarrow> eval_state \<Rightarrow> (eval_state, 'w) action" where
  "code_fixer_node env st =
     (if max_sandbox_retries (settings env) \<le> sandbox_retries st then
        pure (Inr (st\<lparr>sandbox_output := max_retries_text (max_sandbox_retries (settings env)) (sandbox_output st)\<rparr>))
      else
        chain (code_client env (FixCode (sandbox_code st) (take 2000 (sandbox_output st)))) (\<lambda>reply.
        chain (sandbox_execute env (extract_code reply) (sandbox_files st)) (\<lambda>result.
          pure (Inr (st\<lparr>sandbox_code := extract_code reply,
                        sandbox_output := (if sb_success result then sb_stdout result else sb_stderr result),
                        sandbox_retries := sandbox_retries st + 1\<rparr>)))))"

section \<open>Formatter\<close>

text \<open>\<^verbatim>\<open>round(x, 4)\<close>, ties to the even digit\<close>

definition round_half_even :: "real \<Rightarrow> int" where
  "round_half_even t =
     (let n = \<lfloor>t\<rfloor>; d = t - real_of_int n in if d < 1 / 2 \<or> (d = 1 / 2 \<and> even n) then n else n + 1)"

definition round4 :: "real \<Rightarrow> real" where
  "round4 x = real_of_int (round_half_even (x * 10000)) / 10000"

definition ordered_results :: "testing_criteria option \<Rightarrow> (string, criterion_result) dict \<Rightarrow> criterion_result list" where
  "ordered_results tc res =
     (case tc of
        None \<Rightarrow> map snd res
      | Some t \<Rightarrow> List.map_filter (\<lambda>c. dict_get res (crit_id c)) (tc_criteria t))"

definition floor_rules :: "(string, criterion_result) dict \<Rightarrow> real \<Rightarrow> string list" where
  "floor_rules res score =
     (if check_policy_fail res \<and> score \<le> 84 / 100 then [''policy_fail_cap_0.84''] else [])
     @ (if 25 / 100 < implementation_fail_ratio res then [''implementation_fail_ratio_gt_25pct''] else [])"

definition build_justification :: "eval_state \<Rightarrow> justification" where
  "build_justification st =
     (let res = merge_results (es_rule_results st) (es_judgment_results st)
      in \<lparr>layer1_count = length (es_rule_results st), layer1_criteria = es_rule_results st,
          layer2_count = length (es_judgment_results st), layer2_criteria = es_justifications st,
          floor_rules_applied = floor_rules res (final_score st), just_score = round4 (final_score st),
          just_status = final_status st\<rparr>)"

definition status_text :: "compliance_status \<Rightarrow> string" where
  "status_text s =
     (case s of COMPLIANT \<Rightarrow> ''compliant'' | PARTIALLY_COMPLIANT \<Rightarrow> ''partially_compliant''
      | NON_COMPLIANT \<Rightarrow> ''non_compliant'' | STATUS_INSUFFICIENT_EVIDENCE \<Rightarrow> ''insufficient_evidence''
      | PARTIAL_EVALUATION \<Rightarrow> ''partial_evaluation'')"

definition status_of_text :: "string \<Rightarrow> compliance_status option" where
  "status_of_text t =
     find (\<lambda>s. status_text s = t)
       [COMPLIANT, PARTIALLY_COMPLIANT, NON_COMPLIANT, STATUS_INSUFFICIENT_EVIDENCE, PARTIAL_EVALUATION]"

text \<open>The status and score of the previous evaluation; any failure to read them means none.\<close>

definition previous_status :: "(string, pyval) dict list \<Rightarrow> (compliance_status \<times> pyval) option" where
  "previous_status prev =
     (case prev of
        [] \<Rightarrow> None
      | d # _ \<Rightarrow>
          (case pystr_or d ''result'' (PDict []) of
             PDict r \<Rightarrow>
               (case pystr_or r ''status'' PNone of
                  PStr t \<Rightarrow> map_option (\<lambda>s. (s, pystr_or r ''score'' PNone)) (status_of_text t)
                | _ \<Rightarrow> None)
           | _ \<Rightarrow> None))"

text \<open>A call whose failure is only logged, and whose answer is ignored.\<close>

definition attempt :: "(bool, 'w) action \<Rightarrow> 'w \<Rightarrow> 'w" where
  "attempt m w = snd (m w)"

definition can_round :: "pyval \<Rightarrow> bool" where
  "can_round v \<longleftrightarrow> v = PNone \<or> as_number v \<noteq> None"

definition publish :: "'w eval_env \<Rightarrow> eval_state \<Rightarrow> eval_result \<Rightarrow> 'w \<Rightarrow> 'w" where
  "publish env st res w =
     (case eval_recall env (tenant_id st) (framework st) (control_id st) w of
        (recalled, w1) \<Rightarrow>
          (let previous = (case recalled of Inl e \<Rightarrow> None | Inr prev \<Rightarrow> previous_status prev)
           in case memory_send env (EvalStore res) w1 of
                (Inl e, w2) \<Rightarrow> w2
              | (Inr stored, w2) \<Rightarrow>
                  (let w3 = attempt (memory_send env
                              (EvalDecisionCreate (evaluation_id res) (round4 (final_score st)) (final_status st))) w2;
                       w4 = attempt (memory_send env
                              (EvaluationCompleted (control_id st) (final_status st) (round4 (final_score st)))) w3
                   in case previous of
                        None \<Rightarrow> w4
                      | Some (s, score) \<Rightarrow>
                          if s \<noteq> final_status st \<and> can_round score then
                            attempt (memory_send env
                              (ReadinessChanged (control_id st) s (final_status st) score (round4 (final_score st)))) w4
                          else w4)))"

definition final_result :: "string \<Rightarrow> eval_state \<Rightarrow> layer_stats \<Rightarrow> eval_result" where
  "final_result uid st stats =
     \<lparr>evaluation_id = uid, er_control_id = control_id st, er_framework = framework st, er_tenant_id = tenant_id st,
      er_score = round4 (final_score st), er_status = final_status st, er_evidence_hash = evidence_hash st,
      criteria_results =
        ordered_results (es_criteria st) (merge_results (es_rule_results st) (es_judgment_results st)),
      er_justification = Some (build_justification st), er_layer_stats = stats, er_partial = es_partial st,
      cached = False, er_error = None\<rparr>"

definition error_result :: "string \<Rightarrow> eval_state \<Rightarrow> layer_stats \<Rightarrow> string \<Rightarrow> eval_result" where
  "error_result uid st stats err =
     \<lparr>evaluation_id = uid, er_control_id = control_id st, er_framework = framework st, er_tenant_id = tenant_id st,
      er_score = 0, er_status = STATUS_INSUFFICIENT_EVIDENCE, er_evidence_hash = evidence_hash st,
      criteria_results = [], er_justification = None, er_layer_stats = stats, er_partial = es_partial st,
      cached = False, er_error = Some err\<rparr>"

text \<open>
  The initial state holds the key \<^verbatim>\<open>layer_stats\<close> with the value None, so the default of the lookup is never
  used, and a result with None for its statistics does not validate.
\<close>

definition formatter_node :: "'w eval_env \<Rightarrow> eval_state \<Rightarrow> (eval_state, 'w) action" where
  "formatter_node env st w =
     (case cached_result st of
        Some r \<Rightarrow> (Inr (st\<lparr>evaluation_result := Some r\<rparr>), w)
      | None \<Rightarrow>
          (case es_layer_stats st of
             None \<Rightarrow> (Inl Crashed, w)
           | Some stats \<Rightarrow>
               if str_truthy (es_error st) \<and> final_score st = 0 then
                 (Inr (st\<lparr>evaluation_result :=
                            Some (error_result (fresh_id env w) st stats (str_or_empty (es_error st)))\<rparr>), w)
               else (let res = final_result (fresh_id env w) st stats
                     in (Inr (st\<lparr>evaluation_result := Some res\<rparr>), publish env st res w))))"

section \<open>The graph\<close>

datatype node =
  ROUTER | DISCOVERY | EXTRACTOR | LOAD_CRITERIA | RULES_ENGINE | SANDBOX | CODE_FIXER | EVALUATION | SCORING
  | FORMATTER | END

definition route_after_router :: "eval_state \<Rightarrow> node" where
  "route_after_router st = (if intent st = ''evaluate'' then DISCOVERY else FORMATTER)"

definition route_after_discovery :: "eval_state \<Rightarrow> node" where
  "route_after_discovery st =
     (if cached_result st \<noteq> None then FORMATTER
      else if evidence_files st = [] \<and> str_truthy (es_error st) then FORMATTER
      else EXTRACTOR)"

definition route_after_rules :: "eval_state \<Rightarrow> node" where
  "route_after_rules st =
     (if es_needs_judgment st = [] then SCORING
      else (case es_criteria st of
              None \<Rightarrow> EVALUATION
            | Some tc \<Rightarrow>
                if list_ex (\<lambda>i. case criteria_map (tc_criteria tc) i of
                                   None \<Rightarrow> False | Some c \<Rightarrow> evidence_type c = ''structured_data'')
                     (es_needs_judgment st)
                   \<and> structured_metadata st \<noteq> []
                then SANDBOX else EVALUATION))"

definition sandbox_failed :: "eval_state \<Rightarrow> bool" where
  "sandbox_failed st \<longleftrightarrow> str_in ''error'' (str_lower (sandbox_output st))"

definition route_after_sandbox :: "'w eval_env \<Rightarrow> eval_state \<Rightarrow> node" where
  "route_after_sandbox env st =
     (if sandbox_output st = []
         \<or> (sandbox_failed st \<and> sandbox_retries st < max_sandbox_retries (settings env))
      then CODE_FIXER else EVALUATION)"

definition route_after_code_fixer :: "'w eval_env \<Rightarrow> eval_state \<Rightarrow> node" where
  "route_after_code_fixer env st =
     (if max_sandbox_retries (settings env) \<le> sandbox_retries st then EVALUATION
      else if sandbox_output st \<noteq> [] \<and> \<not> sandbox_failed st then EVALUATION
      else EVALUATION)"

definition node_action :: "'w eval_env \<Rightarrow> node \<Rightarrow> eval_state \<Rightarrow> (eval_state, 'w) action" where
  "node_action env n st =
     (case n of
        ROUTER \<Rightarrow> router_node env st | DISCOVERY \<Rightarrow> discovery_node env st | EXTRACTOR \<Rightarrow> extractor_node env st
      | LOAD_CRITERIA \<Rightarrow> load_testing_criteria_node env st | RULES_ENGINE \<Rightarrow> graph_rules_node env st
      | SANDBOX \<Rightarrow> sandbox_node env st | CODE_FIXER \<Rightarrow> code_fixer_node env st
      | EVALUATION \<Rightarrow> graph_evaluation_node env st | SCORING \<Rightarrow> graph_scoring_node st
      | FORMATTER \<Rightarrow> formatter_node env st | END \<Rightarrow> pure (Inr st))"

definition next_node :: "'w eval_env \<Rightarrow> node \<Rightarrow> eval_state \<Rightarrow> node" where
  "next_node env n st =
     (case n of
        ROUTER \<Rightarrow> route_after_router st | DISCOVERY \<Rightarrow> route_after_discovery st | EXTRACTOR \<Rightarrow> LOAD_CRITERIA
      | LOAD_CRITERIA \<Rightarrow> RULES_ENGINE | RULES_ENGINE \<Rightarrow> route_after_rules st
      | SANDBOX \<Rightarrow> route_after_sandbox env st | CODE_FIXER \<Rightarrow> route_after_code_fixer env st
      | EVALUATION \<Rightarrow> SCORING | SCORING \<Rightarrow> FORMATTER | FORMATTER \<Rightarrow> END | END \<Rightarrow> END)"

text \<open>How far a node is from the end.\<close>

fun node_rank :: "node \<Rightarrow> nat" where
  "node_rank ROUTER = 10" | "node_rank DISCOVERY = 9" | "node_rank EXTRACTOR = 8" | "node_rank LOAD_CRITERIA = 7"
| "node_rank RULES_ENGINE = 6" | "node_rank SANDBOX = 5" | "node_rank CODE_FIXER = 4" | "node_rank EVALUATION = 3"
| "node_rank SCORING = 2" | "node_rank FORMATTER = 1" | "node_rank END = 0"

lemma next_node_rank: "n \<noteq> END \<Longrightarrow> node_rank (next_node env n st) < node_rank n"
  by (cases n)
    (auto simp: next_node_def route_after_router_def route_after_discovery_def route_after_rules_def
      route_after_sandbox_def route_after_code_fixer_def split: option.split)

text \<open>A run: the nodes visited, and the state at the end or the error that stopped it.\<close>

function run_graph ::
    "'w eval_env \<Rightarrow> node \<Rightarrow> eval_state \<Rightarrow> 'w \<Rightarrow> node list \<times> (judge_error + eval_state) \<times> 'w" where
  "run_graph env n st w =
     (if n = END then ([], Inr st, w)
      else (case node_action env n st w of
              (Inl e, w2) \<Rightarrow> ([n], Inl e, w2)
            | (Inr st2, w2) \<Rightarrow>
                (case run_graph env (next_node env n st2) st2 w2 of (ns, r, w3) \<Rightarrow> (n # ns, r, w3))))"
  by pat_completeness auto
termination
  by (relation "measure (\<lambda>(env, n, st, w). node_rank n)") (auto simp: next_node_rank)

declare run_graph.simps [simp del]

text \<open>\<^verbatim>\<open>_execute_evaluation\<close>, without its timeout\<close>

definition execute_evaluation ::
    "'w eval_env \<Rightarrow> string \<Rightarrow> string \<Rightarrow> string \<Rightarrow> bool \<Rightarrow> (eval_result option, 'w) action" where
  "execute_evaluation env control fw tenant bypass w =
     (case run_graph env ROUTER (initial_state control fw tenant bypass) w of
        (ns, Inl e, w2) \<Rightarrow> (Inl e, w2)
      | (ns, Inr st, w2) \<Rightarrow> (Inr (evaluation_result st), w2))"

section \<open>Every run ends, at the formatter\<close>

lemma run_graph_END [simp]: "run_graph env END st w = ([], Inr st, w)"
  by (simp add: run_graph.simps)

lemma run_graph_step:
  "n \<noteq> END \<Longrightarrow> run_graph env n st w =
     (case node_action env n st w of
        (Inl e, w2) \<Rightarrow> ([n], Inl e, w2)
      | (Inr st2, w2) \<Rightarrow> (case run_graph env (next_node env n st2) st2 w2 of (ns, r, w3) \<Rightarrow> (n # ns, r, w3)))"
  by (subst run_graph.simps) simp

lemma run_graph_ranks:
  "run_graph env n st w = (ns, r, w2) \<Longrightarrow>
     length ns \<le> node_rank n \<and> (\<forall>m \<in> set ns. node_rank m \<le> node_rank n \<and> m \<noteq> END) \<and> distinct ns"
proof (induction env n st w arbitrary: ns r w2 rule: run_graph.induct)
  case (1 env n st w)
  show ?case
  proof (cases "n = END")
    case False
    obtain a w1 where a: "node_action env n st w = (a, w1)" by fastforce
    show ?thesis
    proof (cases a)
      case (Inl e)
      have "node_rank n \<noteq> 0" using False by (cases n) auto
      then show ?thesis using "1.prems" a Inl False by (auto simp: run_graph_step)
    next
      case (Inr st2)
      obtain ns2 r2 w3 where rest: "run_graph env (next_node env n st2) st2 w1 = (ns2, r2, w3)"
        by (metis prod_cases3)
      have ns: "ns = n # ns2" using "1.prems" a Inr False rest by (simp add: run_graph_step)
      have less: "node_rank (next_node env n st2) < node_rank n" using False by (rule next_node_rank)
      have "length ns2 \<le> node_rank (next_node env n st2)
          \<and> (\<forall>m \<in> set ns2. node_rank m \<le> node_rank (next_node env n st2) \<and> m \<noteq> END) \<and> distinct ns2"
        using "1.IH" [OF False a [symmetric] Inr rest] by simp
      then show ?thesis using ns less False by auto
    qed
  qed (use "1.prems" in simp)
qed

lemma formatter_sets_result: "formatter_node env st w = (Inr st2, w2) \<Longrightarrow> evaluation_result st2 \<noteq> None"
  by (auto simp: formatter_node_def Let_def split: option.splits if_splits)

lemma only_formatter_ends: "next_node env n st = END \<Longrightarrow> n \<in> {FORMATTER, END}"
  by (cases n)
    (auto simp: next_node_def route_after_router_def route_after_discovery_def route_after_rules_def
      route_after_sandbox_def route_after_code_fixer_def split: option.splits if_splits)

lemma run_graph_ends:
  "run_graph env n st w = (ns, Inr st2, w2) \<Longrightarrow> n \<noteq> END \<Longrightarrow>
     ns \<noteq> [] \<and> last ns = FORMATTER \<and> evaluation_result st2 \<noteq> None"
proof (induction env n st w arbitrary: ns st2 w2 rule: run_graph.induct)
  case (1 env n st w)
  obtain a w1 where a: "node_action env n st w = (a, w1)" by fastforce
  with "1.prems" obtain st1 where st1: "a = Inr st1" by (cases a) (auto simp: run_graph_step)
  obtain ns2 r2 w3 where rest: "run_graph env (next_node env n st1) st1 w1 = (ns2, r2, w3)"
    by (metis prod_cases3)
  have ns: "ns = n # ns2" "r2 = Inr st2" using "1.prems" a st1 rest by (simp_all add: run_graph_step)
  show ?case
  proof (cases "next_node env n st1 = END")
    case True
    then have "n = FORMATTER" using only_formatter_ends "1.prems"(2) by blast
    then show ?thesis
      using True rest ns a st1 formatter_sets_result [of env st w st1 w1] by (simp add: node_action_def)
  next
    case False
    then show ?thesis using "1.IH" [OF "1.prems"(2) a [symmetric] st1 rest [unfolded ns(2)]] ns by auto
  qed
qed

text \<open>
  C3 (pipeline_terminates): a run of the graph visits at most ten nodes, none of them twice, the sandbox and
  its code fixer included; and when no node raises, the last node is the formatter and there is a
  result.
\<close>

theorem pipeline_terminates:
  assumes "run_graph env ROUTER st w = (ns, r, w2)"
  shows "length ns \<le> 10 \<and> distinct ns
     \<and> (\<forall>st2. r = Inr st2 \<longrightarrow> ns \<noteq> [] \<and> last ns = FORMATTER \<and> evaluation_result st2 \<noteq> None)"
  using run_graph_ranks [OF assms] run_graph_ends [of env ROUTER st w ns _ w2] assms by auto

section \<open>Three layers together\<close>

lemma foldl_dict_union:
  "dict_get (foldl (\<lambda>d (k, r). dict_set k r d) d0 e) i =
     (case dict_get (rev e) i of None \<Rightarrow> dict_get d0 i | Some r \<Rightarrow> Some r)"
  by (induction e rule: rev_induct) auto

lemma dict_get_rev: "dict_ok d \<Longrightarrow> dict_get (rev d) i = dict_get d i"
  unfolding dict_ok_def
  by (subst map_of_inject_set [THEN iffD2, of "rev d" d]) (simp_all add: rev_map [symmetric] del: rev_map)

lemma merge_results_get:
  assumes "dict_ok rules" "dict_ok judged"
  shows "dict_get (merge_results rules judged) i =
     (case dict_get judged i of None \<Rightarrow> dict_get rules i | Some r \<Rightarrow> Some r)"
  using assms by (simp add: merge_results_def foldl_dict_union dict_get_rev split: option.split)

lemma rule_results_ok: "dict_ok (rule_results (rules_engine_node us now cs ms fs))"
proof -
  have "dict_ok d \<Longrightarrow> dict_ok (foldl (\<lambda>d c. dict_set (crit_id c) (ev c) d) d cs)"
    for d and ev :: "eval_criterion \<Rightarrow> criterion_result"
    by (induction cs arbitrary: d) auto
  then show ?thesis by (simp add: rules_engine_node_def rules_steps)
qed

text \<open>
  C6 (layers_settle_every_criterion): with distinct criterion ids, once the rules and then the judges have
  run, the results that are scored hold one result for every criterion, under its own id, and none
  that still needs a judgment.
\<close>

theorem layers_settle_every_criterion:
  assumes "distinct (map crit_id cs)" and "c \<in> set cs"
    and "evaluation_node llm cfg (Some cs) ms (needs_judgment (rules_engine_node us now cs ms fs)) w = (Inr j, w2)"
  shows "\<exists>r. dict_get (merge_results (rule_results (rules_engine_node us now cs ms fs)) (judgment_results j)) (crit_id c)
       = Some r \<and> criterion_id r = crit_id c \<and> cr_result r \<noteq> NEEDS_JUDGMENT"
proof -
  let ?out = "rules_engine_node us now cs ms fs" and ?ev = "evaluate_criterion_with_rules us now ms fs"
  note merged = merge_results_get [OF rule_results_ok evaluation_node_dict_ok [OF assms(3)]]
  have rule: "dict_get (rule_results ?out) (crit_id c) = Some (?ev c)"
    using find_unique [OF assms(1,2)] by (simp add: rules_engine_node_def rules_steps foldl_dict_set_get)
  have needs: "needs_judgment ?out = map crit_id (filter (\<lambda>c. cr_result (?ev c) = NEEDS_JUDGMENT) cs)"
    by (simp add: rules_engine_node_def rules_steps)
  show ?thesis
  proof (cases "dict_get (judgment_results j) (crit_id c)")
    case (Some r)
    then have "settled_result (partial_evaluation j) (crit_id c) r"
      by (rule evaluation_node_only_settled [OF assms(3)])
    then show ?thesis using Some merged by (auto simp: settled_result_def)
  next
    case None
    have "criteria_map cs (crit_id c) = Some c" unfolding criteria_map_def by (rule find_unique [OF assms(1,2)])
    then have "crit_id c \<notin> set (needs_judgment ?out)"
      using evaluation_node_settles [OF assms(3), of "crit_id c"] None by auto
    then have "cr_result (?ev c) \<noteq> NEEDS_JUDGMENT" using needs assms(2) by auto
    moreover have "criterion_id (?ev c) = crit_id c"
      by (auto simp: evaluate_criterion_with_rules_def dispatch_ok [unfolded rule_ok_def] split: option.split)
    ultimately show ?thesis using None merged rule by auto
  qed
qed

theorem layers_settle_every_criterion_witness:
  "\<exists>j w r. evaluation_node broke_llm default_settings (Some [sample_criterion]) []
        (needs_judgment (rules_engine_node (\<lambda>p s. None) 0 [sample_criterion] [] [])) 0 = (Inr j, w)
     \<and> dict_get (merge_results (rule_results (rules_engine_node (\<lambda>p s. None) 0 [sample_criterion] [] []))
          (judgment_results j)) (crit_id sample_criterion) = Some r \<and> cr_result r \<noteq> NEEDS_JUDGMENT"
proof -
  let ?ids = "needs_judgment (rules_engine_node (\<lambda>p s. None) 0 [sample_criterion] [] [])"
  have "?ids = [] \<or> ?ids = [crit_id sample_criterion]"
    by (simp add: rules_engine_node_def rules_step_def Let_def)
  then obtain j w where run: "evaluation_node broke_llm default_settings (Some [sample_criterion]) [] ?ids 0 = (Inr j, w)"
    using broke_run by (auto simp: evaluation_node_def)
  show ?thesis
    using run layers_settle_every_criterion [OF _ _ run, of sample_criterion] by auto
qed

section \<open>Discovery\<close>

lemma tenant_prefix_below: "prefix (tenant_prefix t ''evidence/'') (tenant_prefix t (''evidence/'' @ rest))"
  by (simp add: tenant_prefix_def Let_def prefix_def)

lemma discovered_set:
  assumes "prefix g p"
  shows "set (discovered_files now (filter (prefix p) bucket) (filter (prefix g) bucket))
       = discovered now ` {k \<in> set bucket. prefix g k \<and> evidence_object k}"
  using prefix_order.trans [OF assms] by (auto simp: discovered_files_def)

text \<open>
  (discovery_ignores_the_control): when the store lists the objects below a prefix, the evidence
  discovered for a control is every evidence object of its tenant, whatever the control and the
  framework.
\<close>

theorem discovery_ignores_the_control:
  assumes "\<And>p w. list_objects env p w = (Inr (filter (prefix p) bucket), w)"
    and "bypass_cache st"
  shows "\<exists>st2. discovery_node env st w = (Inr st2, w)
     \<and> set (evidence_files st2) = discovered (clock env w)
         ` {k \<in> set bucket. prefix (tenant_prefix (tenant_id st) ''evidence/'') k \<and> evidence_object k}"
proof -
  let ?g = "tenant_prefix (tenant_id st) ''evidence/''"
  let ?p = "tenant_prefix (tenant_id st) (''evidence/'' @ framework st @ ''/'' @ control_id st @ ''/'')"
  let ?files = "discovered_files (clock env w) (filter (prefix ?p) bucket) (filter (prefix ?g) bucket)"
  have files: "set ?files = discovered (clock env w) ` {k \<in> set bucket. prefix ?g k \<and> evidence_object k}"
    by (rule discovered_set [OF tenant_prefix_below])
  have run: "discovery_node env st w = (Inr (if ?files = []
        then st\<lparr>evidence_files := [], evidence_hash := [],
                es_error := Some ''No evidence files found for this control''\<rparr>
        else st\<lparr>evidence_files := ?files, evidence_hash := compute_evidence_hash env ?files\<rparr>), w)"
    using assms(2) by (simp add: discovery_node_def chain_def assms(1) Let_def)
  show ?thesis
  proof (cases "?files = []")
    case True
    then show ?thesis using run files by auto
  next
    case False
    then show ?thesis using run files by auto
  qed
qed

text \<open>A world of one bucket, listing by prefix, for the witnesses; everything else fails.\<close>

definition bucket_env :: "string list \<Rightarrow> nat eval_env" where
  "bucket_env bucket =
     \<lparr>settings = default_settings, clock = real, fresh_id = (\<lambda>w. ''id''), judge_client = broke_llm,
      intent_client = (\<lambda>m w. (Inl LLMUnavailable, w)), code_client = (\<lambda>r w. (Inl LLMUnavailable, w)),
      sandbox_execute = (\<lambda>c fs w. (Inl Crashed, w)),
      list_objects = (\<lambda>p w. (Inr (filter (prefix p) bucket), w)),
      stored_metadata = (\<lambda>k w. (NotStored, w)), preprocess = (\<lambda>k w. (Inr None, w)),
      validate_metadata = (\<lambda>k now d. None), eval_recall = (\<lambda>t f c w. (Inr [], w)),
      validate_result = (\<lambda>v. None), memory_criteria = (\<lambda>t f c w. (None, w)), rag_criteria = (\<lambda>f c. None),
      memory_send = (\<lambda>m w. (Inr True, Suc w)), name_search = (\<lambda>p s. None), digest = (\<lambda>xs. ''hash'')\<rparr>"

theorem discovery_ignores_the_control_witness:
  "\<exists>st2. discovery_node (bucket_env [''acme/evidence/soc2/CC6.1/log.csv'']) (initial_state ''AC-2'' ''nist'' ''acme'' True) 7
       = (Inr st2, 7)
     \<and> discovered 7 ''acme/evidence/soc2/CC6.1/log.csv'' \<in> set (evidence_files st2)"
proof -
  let ?k = "''acme/evidence/soc2/CC6.1/log.csv''" and ?st = "initial_state ''AC-2'' ''nist'' ''acme'' True"
  obtain st2 where st2: "discovery_node (bucket_env [?k]) ?st 7 = (Inr st2, 7)"
      "set (evidence_files st2) = discovered (clock (bucket_env [?k]) 7)
         ` {k \<in> set [?k]. prefix (tenant_prefix (tenant_id ?st) ''evidence/'') k \<and> evidence_object k}"
    using discovery_ignores_the_control [of "bucket_env [?k]" "[?k]" ?st 7]
    by (auto simp: bucket_env_def initial_state_def)
  have "prefix (tenant_prefix (tenant_id ?st) ''evidence/'') ?k \<and> evidence_object ?k"
    by (simp add: initial_state_def tenant_prefix_def Let_def evidence_object_def str_endswith_def suffix_def)
  then show ?thesis using st2 by (simp add: bucket_env_def)
qed

theorem pipeline_terminates_witness:
  "\<exists>ns r w. run_graph (bucket_env []) ROUTER (initial_state ''AC-2'' ''nist'' ''acme'' False) 0 = (ns, r, w)
     \<and> length ns \<le> 10 \<and> distinct ns"
proof -
  obtain ns r w where run: "run_graph (bucket_env []) ROUTER (initial_state ''AC-2'' ''nist'' ''acme'' False) 0 = (ns, r, w)"
    by (metis prod_cases3)
  then show ?thesis using pipeline_terminates [OF run] by auto
qed

text \<open>
  (no_evidence_fails_the_job): when the store holds no evidence for the tenant, an evaluation does not
  return the "insufficient evidence" result the formatter builds for that case: the formatter
  raises, because the state holds no layer statistics, and the evaluation fails.
\<close>

theorem no_evidence_fails_the_job:
  assumes "\<And>p. list_objects env p w = (Inr [], w)"
  shows "execute_evaluation env control fw tenant bypass w = (Inl Crashed, w)"
proof -
  have d: "discovery_node env (initial_state control fw tenant bypass) w =
      (Inr ((initial_state control fw tenant bypass)\<lparr>evidence_files := [], evidence_hash := [],
         es_error := Some ''No evidence files found for this control''\<rparr>), w)"
    by (simp add: discovery_node_def chain_def assms discovered_files_def Let_def)
  show ?thesis
    by (simp add: execute_evaluation_def run_graph_step node_action_def router_node_def next_node_def
        route_after_router_def d route_after_discovery_def str_truthy_def formatter_node_def)
      (simp add: initial_state_def)
qed

theorem no_evidence_fails_the_job_witness:
  "execute_evaluation (bucket_env []) ''AC-2'' ''nist'' ''acme'' False 0 = (Inl Crashed, 0)"
  by (rule no_evidence_fails_the_job) (simp add: bucket_env_def)

lemma discovered_hash_input:
  "map (\<lambda>e. (ef_storage_key e, last_modified e, ef_size e)) (sort_key ef_storage_key (discovered_files now ks gs)) =
     map (\<lambda>k. (k, now, 0)) (sort (filter evidence_object (remdups (ks @ gs))))"
proof -
  have sort: "sort_key ef_storage_key (map (discovered now) xs) = map (discovered now) (sort xs)" for xs
  proof -
    have "insort_key ef_storage_key (discovered now x) (map (discovered now) ys) = map (discovered now) (insort x ys)"
      for x ys
      by (induction ys) (simp_all add: discovered_def)
    then show ?thesis by (induction xs) simp_all
  qed
  show ?thesis unfolding discovered_files_def sort by (simp add: discovered_def)
qed

definition hash_input :: "real \<Rightarrow> string list \<Rightarrow> string list \<Rightarrow> (string \<times> real \<times> int) list" where
  "hash_input now ks gs = map (\<lambda>k. (k, now, 0)) (sort (filter evidence_object (remdups (ks @ gs))))"

text \<open>
  (evidence_hash_follows_the_clock): unless the digest collides on them, the hashes computed for the same
  evidence objects at two different times differ: unchanged evidence is never found in the cache.
\<close>

theorem evidence_hash_follows_the_clock:
  assumes "now \<noteq> now2" and "discovered_files now ks gs \<noteq> []"
    and "digest env (hash_input now ks gs) = digest env (hash_input now2 ks gs)
         \<Longrightarrow> hash_input now ks gs = hash_input now2 ks gs"
  shows "compute_evidence_hash env (discovered_files now ks gs) \<noteq> compute_evidence_hash env (discovered_files now2 ks gs)"
proof
  assume "compute_evidence_hash env (discovered_files now ks gs) = compute_evidence_hash env (discovered_files now2 ks gs)"
  then have same: "hash_input now ks gs = hash_input now2 ks gs"
    by (intro assms(3)) (simp add: compute_evidence_hash_def discovered_hash_input hash_input_def)
  have "filter evidence_object (remdups (ks @ gs)) \<noteq> []"
    using assms(2) unfolding discovered_files_def by simp
  moreover have "length (hash_input now ks gs) = length (filter evidence_object (remdups (ks @ gs)))"
    by (simp add: hash_input_def)
  ultimately have "hash_input now ks gs \<noteq> []" by (metis length_0_conv)
  with same have "hd (hash_input now ks gs) = hd (hash_input now2 ks gs)" by simp
  then show False using \<open>hash_input now ks gs \<noteq> []\<close> assms(1) by (auto simp: hash_input_def hd_map)
qed

definition time_digest :: "nat eval_env" where
  "time_digest = (bucket_env [])\<lparr>digest := (\<lambda>xs. if xs = [] \<or> fst (snd (hd xs)) = 1 then ''a'' else ''b'')\<rparr>"

theorem evidence_hash_follows_the_clock_witness:
  "compute_evidence_hash time_digest (discovered_files 1 [] [''acme/evidence/a.pdf''])
   \<noteq> compute_evidence_hash time_digest (discovered_files 2 [] [''acme/evidence/a.pdf''])"
proof (rule evidence_hash_follows_the_clock)
  show "discovered_files 1 [] [''acme/evidence/a.pdf''] \<noteq> []"
    by (simp add: discovered_files_def evidence_object_def str_endswith_def suffix_def)
qed (simp_all add: time_digest_def hash_input_def evidence_object_def str_endswith_def suffix_def)

text \<open>
  (discovered_evidence_never_stale): files enter the pipeline dated with the time of their discovery, so
  the freshness rule, run before the allowed age has passed since then, never fails them, however
  old the stored objects are.
\<close>

theorem discovered_evidence_never_stale:
  assumes "check_freshness now c ms (discovered_files found ks gs) = Some r"
    and "threshold_date now (param_or_none c ''max_age_days'') = Some t"
    and "t \<le> found"
  shows "cr_result r \<noteq> FAIL"
proof -
  have given: "param_or_none c ''max_age_days'' \<noteq> PNone"
    using assms(2) by (auto simp: threshold_date_def)
  have "stale_files t (discovered_files found ks gs) = []"
    using assms(3) by (auto simp: stale_files_def discovered_files_def discovered_def filter_empty_conv)
  then show ?thesis
    using assms(1,2) given by (auto simp: check_freshness_def Let_def split: if_splits)
qed

theorem discovered_evidence_never_stale_witness:
  "\<exists>r. check_freshness 1000000 (sample_criterion\<lparr>check_params := [(''max_age_days'', PInt 1)]\<rparr>) []
        (discovered_files 999000 [] [''acme/evidence/a.pdf'']) = Some r \<and> cr_result r \<noteq> FAIL"
proof -
  let ?c = "sample_criterion\<lparr>check_params := [(''max_age_days'', PInt 1)]\<rparr>"
  have t: "threshold_date 1000000 (param_or_none ?c ''max_age_days'') = Some 913600"
    by (simp add: threshold_date_def param_or_none_def param_def datetime_min_def datetime_max_def)
  have "param_or_none ?c ''max_age_days'' \<noteq> PNone" by (simp add: param_or_none_def param_def)
  then have "\<exists>r. check_freshness 1000000 ?c [] (discovered_files 999000 [] [''acme/evidence/a.pdf'']) = Some r"
    by (simp add: check_freshness_def Let_def t)
  then obtain r where r: "check_freshness 1000000 ?c [] (discovered_files 999000 [] [''acme/evidence/a.pdf'']) = Some r"
    by blast
  from discovered_evidence_never_stale [OF r t] r show ?thesis by simp
qed

section \<open>What a run reports about the sandbox\<close>

text \<open>The graph as a transition system on the node, the state and the world.\<close>

inductive graph_step :: "'w eval_env \<Rightarrow> node \<times> eval_state \<times> 'w \<Rightarrow> node \<times> eval_state \<times> 'w \<Rightarrow> bool"
  for env :: "'w eval_env" where
  step: "n \<noteq> END \<Longrightarrow> node_action env n st w = (Inr st2, w2)
         \<Longrightarrow> graph_step env (n, st, w) (next_node env n st2, st2, w2)"

inductive_cases graph_step_elim: "graph_step env (n, st, w) t"

lemma run_graph_reaches:
  "run_graph env n st w = (ns, Inr st2, w2) \<Longrightarrow> (graph_step env)\<^sup>*\<^sup>* (n, st, w) (END, st2, w2)"
proof (induction env n st w arbitrary: ns st2 w2 rule: run_graph.induct)
  case (1 env n st w)
  show ?case
  proof (cases "n = END")
    case False
    obtain a w1 where a: "node_action env n st w = (a, w1)" by fastforce
    with "1.prems" False obtain st1 where st1: "a = Inr st1" by (cases a) (auto simp: run_graph_step)
    obtain ns2 r2 w3 where rest: "run_graph env (next_node env n st1) st1 w1 = (ns2, r2, w3)"
      by (metis prod_cases3)
    have "r2 = Inr st2" "w3 = w2" using "1.prems" a st1 rest False by (simp_all add: run_graph_step)
    then have "(graph_step env)\<^sup>*\<^sup>* (next_node env n st1, st1, w1) (END, st2, w2)"
      using "1.IH" [OF False a [symmetric] st1] rest by blast
    moreover have "graph_step env (n, st, w) (next_node env n st1, st1, w1)"
      using False a st1 by (auto intro: graph_step.step)
    ultimately show ?thesis by (rule converse_rtranclp_into_rtranclp [rotated])
  qed (use "1.prems" in simp)
qed

definition reports_sandbox :: "eval_state \<Rightarrow> bool" where
  "reports_sandbox st \<longleftrightarrow> (\<exists>s. es_layer_stats st = Some s \<and> sandbox_calls s \<noteq> 0)"

definition result_silent :: "eval_state \<Rightarrow> bool" where
  "result_silent st \<longleftrightarrow>
     (\<forall>r. cached_result st = Some r \<longrightarrow> cached r)
     \<and> (\<forall>r. evaluation_result st = Some r \<longrightarrow> cached r \<or> sandbox_calls (er_layer_stats r) = 0)"

definition sandbox_silent :: "node \<times> eval_state \<times> 'w \<Rightarrow> bool" where
  "sandbox_silent p \<longleftrightarrow>
     (case p of (n, st, w) \<Rightarrow> (n \<in> {CODE_FIXER, EVALUATION} \<or> \<not> reports_sandbox st) \<and> result_silent st)"

definition same_report :: "eval_state \<Rightarrow> eval_state \<Rightarrow> bool" where
  "same_report st st2 \<longleftrightarrow>
     cached_result st2 = cached_result st \<and> evaluation_result st2 = evaluation_result st"

lemma router_quiet:
  assumes "router_node env st w = (Inr st2, w2)"
  shows "same_report st st2 \<and> es_layer_stats st2 = es_layer_stats st"
proof -
  have "\<exists>i. st2 = st\<lparr>intent := i\<rparr>"
  proof (cases "intent st = [] \<and> chat_message st \<noteq> [] \<and> classify_heuristic (chat_message st) = None")
    case True
    obtain a w1 where "intent_client env (chat_message st) w = (a, w1)" by fastforce
    then show ?thesis using assms True by (cases a) (simp_all add: router_node_def Let_def, blast+)
  next
    case False
    have "st = st\<lparr>intent := intent st\<rparr>" by simp
    moreover have "st2 = st \<or> (\<exists>i. st2 = st\<lparr>intent := i\<rparr>)" using assms False
      by (auto simp: router_node_def split: if_splits option.splits)
    ultimately show ?thesis by metis
  qed
  then show ?thesis by (auto simp: same_report_def)
qed

lemma extractor_quiet:
  "extractor_node env st w = (Inr st2, w2) \<Longrightarrow> same_report st st2 \<and> es_layer_stats st2 = es_layer_stats st"
  unfolding extractor_node_def chain_Inr pure_def by (auto simp: same_report_def)

lemma load_quiet:
  "load_testing_criteria_node env st w = (Inr st2, w2) \<Longrightarrow> same_report st st2 \<and> es_layer_stats st2 = es_layer_stats st"
  unfolding load_testing_criteria_node_def by (auto simp: same_report_def split: prod.splits)

lemma scoring_quiet:
  "graph_scoring_node st w = (Inr st2, w2) \<Longrightarrow> same_report st st2 \<and> es_layer_stats st2 = es_layer_stats st"
  unfolding graph_scoring_node_def pure_def by (auto simp: same_report_def split: prod.splits)

lemma chain_result:
  "chain m f w = (Inr y, w2) \<Longrightarrow> (\<And>x w1. f x w1 = (Inr y, w2) \<Longrightarrow> P) \<Longrightarrow> P"
  by (auto simp: chain_Inr)

lemma fixer_quiet:
  assumes "code_fixer_node env st w = (Inr st2, w2)"
  shows "same_report st st2"
proof (cases "max_sandbox_retries (settings env) \<le> sandbox_retries st")
  case True
  then show ?thesis
    using assms unfolding code_fixer_node_def if_P [OF True] pure_def by (auto simp: same_report_def)
next
  case False
  from assms show ?thesis
    unfolding code_fixer_node_def if_not_P [OF False]
    by (elim chain_result) (auto simp: pure_def same_report_def)
qed

lemma sandbox_quiet:
  assumes "sandbox_node env st w = (Inr st2, w2)"
  shows "same_report st st2"
proof (cases "structured_metadata st = []")
  case True
  then show ?thesis
    using assms unfolding sandbox_node_def if_P [OF True] pure_def by (auto simp: same_report_def)
next
  case False
  from assms show ?thesis
    unfolding sandbox_node_def if_not_P [OF False]
    by (elim chain_result) (auto simp: pure_def same_report_def)
qed

lemma same_report_silent: "same_report st st2 \<Longrightarrow> result_silent st \<Longrightarrow> result_silent st2"
  by (simp add: same_report_def result_silent_def)

lemma cache_answer_is_cached:
  assumes "check_evidence_cache env st h w = (Inr (Some r), w2)"
  shows "cached r"
proof -
  obtain previous where "(case previous of
         [] \<Rightarrow> None
       | prev # _ \<Rightarrow>
           if pystr_or prev ''evidence_hash'' (PStr []) = PStr h
           then map_option (cached_update (\<lambda>_. True)) (validate_result env (pystr_or prev ''result'' (PDict prev)))
           else None) = Some r"
    using assms by (auto simp: check_evidence_cache_def chain_Inr pure_def)
  then show ?thesis by (auto split: list.splits if_splits)
qed

lemma discovery_silent:
  assumes "discovery_node env st w = (Inr st2, w2)" "result_silent st"
  shows "es_layer_stats st2 = es_layer_stats st \<and> result_silent st2"
proof -
  let ?hash = "\<lambda>fs. compute_evidence_hash env fs"
  obtain fs w3 where body: "(if fs = [] then
        (Inr (st\<lparr>evidence_files := [], evidence_hash := [],
                 es_error := Some ''No evidence files found for this control''\<rparr>), w3)
      else if bypass_cache st then (Inr (st\<lparr>evidence_files := fs, evidence_hash := ?hash fs\<rparr>), w3)
      else chain (check_evidence_cache env st (?hash fs)) (\<lambda>found.
             pure (Inr (case found of
               Some r \<Rightarrow> st\<lparr>evidence_files := fs, evidence_hash := ?hash fs, cached_result := Some r\<rparr>
             | None \<Rightarrow> st\<lparr>evidence_files := fs, evidence_hash := ?hash fs\<rparr>))) w3) = (Inr st2, w2)"
    using assms(1) unfolding discovery_node_def chain_Inr Let_def by blast
  show ?thesis
  proof (cases "fs = [] \<or> bypass_cache st")
    case True
    then show ?thesis using body assms(2) by (auto simp: result_silent_def split: if_splits)
  next
    case False
    then obtain found w4 where found: "check_evidence_cache env st (?hash fs) w3 = (Inr found, w4)"
        "st2 = (case found of
               Some r \<Rightarrow> st\<lparr>evidence_files := fs, evidence_hash := ?hash fs, cached_result := Some r\<rparr>
             | None \<Rightarrow> st\<lparr>evidence_files := fs, evidence_hash := ?hash fs\<rparr>)"
      using body by (auto simp: chain_Inr pure_def)
    show ?thesis
    proof (cases found)
      case None
      then show ?thesis using found(2) assms(2) by (simp add: result_silent_def)
    next
      case (Some r)
      then have "cached r" using found(1) by (auto intro: cache_answer_is_cached)
      then show ?thesis using found(2) Some assms(2) by (simp add: result_silent_def)
    qed
  qed
qed

lemma rules_quiet:
  assumes "graph_rules_node env st w = (Inr st2, w2)" "\<not> reports_sandbox st"
  shows "\<not> reports_sandbox st2 \<and> same_report st st2"
proof (cases "es_criteria st")
  case None
  then show ?thesis using assms by (auto simp: graph_rules_node_def reports_sandbox_def same_report_def)
next
  case (Some tc)
  then show ?thesis
    using assms by (auto simp: graph_rules_node_def reports_sandbox_def same_report_def base_stats_def Let_def)
qed

lemma evaluation_quiet:
  "graph_evaluation_node env st w = (Inr st2, w2) \<Longrightarrow> \<not> reports_sandbox st2 \<and> same_report st st2"
  unfolding graph_evaluation_node_def chain_Inr pure_def
  by (auto simp: evaluation_stats_def base_stats_def reports_sandbox_def same_report_def split: option.split)

lemma formatter_silent:
  "formatter_node env st w = (Inr st2, w2) \<Longrightarrow> \<not> reports_sandbox st \<Longrightarrow> result_silent st \<Longrightarrow>
     \<not> reports_sandbox st2 \<and> result_silent st2"
  by (auto simp: formatter_node_def result_silent_def reports_sandbox_def final_result_def error_result_def Let_def
      split: option.splits if_splits)

lemma silent_step:
  assumes "sandbox_silent p" "graph_step env p q"
  shows "sandbox_silent q"
proof -
  obtain n st w where p: "p = (n, st, w)" by (cases p)
  from assms(2) obtain st2 w2 where q: "q = (next_node env n st2, st2, w2)" "n \<noteq> END"
      "node_action env n st w = (Inr st2, w2)"
    unfolding p by (auto elim: graph_step_elim)
  have silent: "result_silent st" "n \<in> {CODE_FIXER, EVALUATION} \<or> \<not> reports_sandbox st"
    using assms(1) by (simp_all add: sandbox_silent_def p)
  have keep: "\<not> reports_sandbox st2" if "es_layer_stats st2 = es_layer_stats st" "\<not> reports_sandbox st"
    using that by (simp add: reports_sandbox_def)
  have silent2: "result_silent st2" if "same_report st st2"
    using same_report_silent [OF that silent(1)] .
  have act: "node_action env n st w = (Inr st2, w2)" by (rule q(3))
  show ?thesis
  proof (cases "n \<in> {SANDBOX, CODE_FIXER}")
    case True
    then have "next_node env n st2 \<in> {CODE_FIXER, EVALUATION}"
      by (auto simp: next_node_def route_after_sandbox_def route_after_code_fixer_def split: if_splits)
    moreover have "same_report st st2"
      using True act fixer_quiet [of env st w st2 w2] sandbox_quiet [of env st w st2 w2]
      by (auto simp: node_action_def)
    ultimately show ?thesis using silent2 silent(1) by (auto simp: sandbox_silent_def q(1))
  next
    case False
    have "\<not> reports_sandbox st2 \<and> result_silent st2"
    proof (cases n)
      case ROUTER
      then show ?thesis using act silent keep silent2 router_quiet [of env st w st2 w2]
        by (simp add: node_action_def)
    next
      case DISCOVERY
      then show ?thesis
        using act silent keep discovery_silent [of env st w st2 w2] by (simp add: node_action_def)
    next
      case EXTRACTOR
      then show ?thesis using act silent keep silent2 extractor_quiet [of env st w st2 w2]
        by (simp add: node_action_def)
    next
      case LOAD_CRITERIA
      then show ?thesis using act silent keep silent2 load_quiet [of env st w st2 w2]
        by (simp add: node_action_def)
    next
      case RULES_ENGINE
      then show ?thesis using act silent silent2 rules_quiet [of env st w st2 w2]
        by (simp add: node_action_def)
    next
      case EVALUATION
      then show ?thesis using act silent silent2 evaluation_quiet [of env st w st2 w2]
        by (simp add: node_action_def)
    next
      case SCORING
      then show ?thesis using act silent keep silent2 scoring_quiet [of st w st2 w2]
        by (simp add: node_action_def)
    next
      case FORMATTER
      then show ?thesis
        using act silent formatter_silent [of env st w st2 w2] by (simp add: node_action_def)
    qed (use False q in simp_all)
    then show ?thesis by (simp add: sandbox_silent_def q(1))
  qed
qed

interpretation pipeline: invariant_system
  "\<lambda>p. sandbox_silent p" "graph_step env" sandbox_silent for env :: "'w eval_env"
  by unfold_locales (auto intro: silent_step)

text \<open>
  (sandbox_calls_never_reported): a fresh evaluation always reports zero sandbox calls, also when the
  sandbox ran: the evaluation node, which follows the sandbox on every path, rebuilds the statistics
  without them.
\<close>

theorem sandbox_calls_never_reported:
  assumes "execute_evaluation env control fw tenant bypass w = (Inr (Some r), w2)" and "\<not> cached r"
  shows "sandbox_calls (er_layer_stats r) = 0"
proof -
  obtain ns st where run: "run_graph env ROUTER (initial_state control fw tenant bypass) w = (ns, Inr st, w2)"
      "evaluation_result st = Some r"
    using assms(1) by (auto simp: execute_evaluation_def split: prod.splits sum.splits)
  have "sandbox_silent (ROUTER, initial_state control fw tenant bypass, w)"
    by (simp add: sandbox_silent_def reports_sandbox_def result_silent_def initial_state_def)
  then have "sandbox_silent (END, st, w2)"
    by (rule pipeline.steps_inv [OF run_graph_reaches [OF run(1)]])
  then show ?thesis using run(2) assms(2) by (simp add: sandbox_silent_def result_silent_def)
qed

definition no_criteria :: testing_criteria where
  "no_criteria = \<lparr>tc_control_id = [], tc_framework = [], control_objective = [], tc_criteria = []\<rparr>"

definition quick_env :: "nat eval_env" where
  "quick_env = (bucket_env [''acme/evidence/a.pdf''])\<lparr>memory_criteria := (\<lambda>t f c w. (Some no_criteria, w))\<rparr>"

theorem sandbox_calls_never_reported_witness:
  "\<exists>r w. execute_evaluation quick_env ''AC-2'' ''nist'' ''acme'' True 0 = (Inr (Some r), w)
     \<and> \<not> cached r \<and> sandbox_calls (er_layer_stats r) = 0"
proof -
  let ?e = "discovered 0 ''acme/evidence/a.pdf''"
  let ?st = "initial_state ''AC-2'' ''nist'' ''acme'' True"
  let ?st1 = "?st\<lparr>evidence_files := [?e], evidence_hash := ''hash''\<rparr>"
  let ?st2 = "?st1\<lparr>es_metadata := [inline_extraction 0 ?e]\<rparr>"
  let ?st3 = "?st2\<lparr>es_criteria := Some no_criteria\<rparr>"
  let ?st4 = "?st3\<lparr>es_rule_results := [], es_needs_judgment := [], es_layer_stats := Some base_stats\<rparr>"
  let ?st5 = "?st4\<lparr>final_score := 0, final_status := STATUS_INSUFFICIENT_EVIDENCE\<rparr>"
  let ?k = "''acme/evidence/a.pdf''"
  have keys: "list_objects quick_env (tenant_prefix ''acme'' ''evidence/nist/AC-2/'') w = (Inr [], w)"
    "list_objects quick_env (tenant_prefix ''acme'' ''evidence/'') w = (Inr [?k], w)" for w
    by (simp_all add: quick_env_def bucket_env_def tenant_prefix_def Let_def)
  have files: "discovered_files 0 [] [?k] = [?e]"
    by (simp add: discovered_files_def evidence_object_def str_endswith_def suffix_def)
  have env: "clock quick_env = real" "digest quick_env = (\<lambda>xs. ''hash'')" by (simp_all add: quick_env_def bucket_env_def)
  have d: "discovery_node quick_env ?st 0 = (Inr ?st1, 0)"
    by (simp add: discovery_node_def chain_def keys Let_def initial_state_def files compute_evidence_hash_def env)
  have x: "extractor_node quick_env ?st1 0 = (Inr ?st2, 0)"
    by (simp add: extractor_node_def chain_def pure_def extract_single_file_def quick_env_def bucket_env_def)
  have l: "load_testing_criteria_node quick_env ?st2 0 = (Inr ?st3, 0)"
    by (simp add: load_testing_criteria_node_def quick_env_def)
  have r: "graph_rules_node quick_env ?st3 0 = (Inr ?st4, 0)"
    by (simp add: graph_rules_node_def rules_engine_node_def no_criteria_def base_stats_def)
  have s: "graph_scoring_node ?st4 0 = (Inr ?st5, 0)"
    by (simp add: graph_scoring_node_def scoring_node_def calculate_score_def no_criteria_def weight_of_def pure_def)
  obtain w where f: "formatter_node quick_env ?st5 0
      = (Inr (?st5\<lparr>evaluation_result := Some (final_result (fresh_id quick_env 0) ?st5 base_stats)\<rparr>), w)"
    by (simp add: formatter_node_def initial_state_def str_truthy_def Let_def)
  have run: "execute_evaluation quick_env ''AC-2'' ''nist'' ''acme'' True 0
      = (Inr (Some (final_result (fresh_id quick_env 0) ?st5 base_stats)), w)"
    by (simp add: execute_evaluation_def run_graph_step node_action_def next_node_def router_node_def
        route_after_router_def d x l r s f route_after_discovery_def route_after_rules_def)
      (simp add: initial_state_def)
  have "\<not> cached (final_result (fresh_id quick_env 0) ?st5 base_stats)" by (simp add: final_result_def)
  then show ?thesis using run sandbox_calls_never_reported [OF run] by blast
qed

section \<open>What is published\<close>

text \<open>
  (published_calls_exact): storing comes first and, unless that call raises, the decision record and the
  completion event follow whatever it answered and whether or not they succeed themselves; a
  readiness event follows exactly when a readable previous status exists, differs from the new one
  and its score can be rounded.
\<close>

theorem published_calls_exact:
  assumes "\<And>c w. memory_send env c w = (answer c, w @ [c])"
    and "eval_recall env (tenant_id st) (framework st) (control_id st) w = (Inr prev, w)"
  shows "publish env st res w =
     w @ [EvalStore res] @
       (case answer (EvalStore res) of
          Inl e \<Rightarrow> []
        | Inr stored \<Rightarrow>
            [EvalDecisionCreate (evaluation_id res) (round4 (final_score st)) (final_status st),
             EvaluationCompleted (control_id st) (final_status st) (round4 (final_score st))]
            @ (case previous_status prev of
                 None \<Rightarrow> []
               | Some (s, score) \<Rightarrow>
                   if s \<noteq> final_status st \<and> can_round score
                   then [ReadinessChanged (control_id st) s (final_status st) score (round4 (final_score st))]
                   else []))"
  using assms
  by (auto simp: publish_def attempt_def Let_def split: sum.split option.split prod.split)

definition recording_env :: "memory_call list eval_env" where
  "recording_env =
     \<lparr>settings = default_settings, clock = (\<lambda>w. 0), fresh_id = (\<lambda>w. ''id''),
      judge_client = (\<lambda>r w. (Inl LLMUnavailable, w)), intent_client = (\<lambda>m w. (Inl LLMUnavailable, w)),
      code_client = (\<lambda>r w. (Inl LLMUnavailable, w)), sandbox_execute = (\<lambda>c fs w. (Inl Crashed, w)),
      list_objects = (\<lambda>p w. (Inr [], w)), stored_metadata = (\<lambda>k w. (NotStored, w)),
      preprocess = (\<lambda>k w. (Inr None, w)), validate_metadata = (\<lambda>k now d. None),
      eval_recall = (\<lambda>t f c w. (Inr [[(''result'', PDict [(''status'', PStr ''compliant'')])]], w)),
      validate_result = (\<lambda>v. None), memory_criteria = (\<lambda>t f c w. (None, w)), rag_criteria = (\<lambda>f c. None),
      memory_send = (\<lambda>c w. (Inr False, w @ [c])), name_search = (\<lambda>p s. None), digest = (\<lambda>xs. [])\<rparr>"

theorem published_calls_exact_witness:
  "length (publish recording_env (initial_state ''AC-2'' ''nist'' ''acme'' True)
      (final_result ''id'' (initial_state ''AC-2'' ''nist'' ''acme'' True) base_stats) []) = 4"
proof -
  let ?st = "initial_state ''AC-2'' ''nist'' ''acme'' True"
  let ?prev = "[[(''result'', PDict [(''status'', PStr ''compliant'')])]]"
  have p: "previous_status ?prev = Some (COMPLIANT, PNone)"
    by (simp add: previous_status_def pystr_or_def status_of_text_def status_text_def)
  show ?thesis
    by (subst published_calls_exact [where answer = "\<lambda>c. Inr False" and prev = ?prev])
      (simp_all add: recording_env_def p can_round_def, simp_all add: initial_state_def)
qed

section \<open>The floor rules as reported\<close>

text \<open>
  (reported_cap_is_a_policy_fail): the justification names the policy cap exactly when a policy criterion
  failed, for every score the scoring node gives with non-negative weights: it does not tell whether
  the cap lowered the score.
\<close>

theorem reported_cap_is_a_policy_fail:
  assumes "weights_ok cs"
  shows "''policy_fail_cap_0.84'' \<in> set (floor_rules res (fst (calculate_score res cs p))) \<longleftrightarrow> check_policy_fail res"
proof -
  have "check_policy_fail res \<Longrightarrow> fst (calculate_score res cs p) \<le> 84 / 100"
    using raw_score_bounds [OF assms, of res] by (auto simp: calculate_score_def Let_def policy_cap_def)
  then show ?thesis by (auto simp: floor_rules_def)
qed

theorem reported_cap_is_a_policy_fail_witness:
  "''policy_fail_cap_0.84'' \<in> set (floor_rules failed_policy (fst (calculate_score failed_policy [sample_criterion] False)))"
proof -
  have "weights_ok [sample_criterion]" by (simp add: weights_ok_def sample_criterion_def)
  from reported_cap_is_a_policy_fail [OF this, of failed_policy False] show ?thesis
    by (simp add: check_policy_fail_def failed_policy_def sample_criterion_def)
qed

end
