(* ===== verification/Ev_Jobs.thy ===== *)
theory Ev_Jobs
  imports Ev_Graph
begin

text \<open>
  The evaluator's background jobs (\<^verbatim>\<open>agent-eval/src/jobs.py\<close>): a manager that runs at most a fixed number
  of evaluations at a time, as a transition system. A step is what a coroutine does between two awaits, so a job passes
  through the awaits of \<^verbatim>\<open>start_job\<close> and \<^verbatim>\<open>_run_job\<close> one after the other and the steps of different jobs interleave freely. The state client never
  raises; what it keeps is the persistent store of a job's status and result, and a write that is cancelled while it is awaited may or may not
  have reached the store.
\<close>

section \<open>State\<close>

datatype job_status = JOB_PENDING | JOB_PROCESSING | JOB_COMPLETED | JOB_FAILED

record job_store =
  stored_status :: "(string, job_status \<times> string option) dict"
  stored_result :: "(string, eval_result) dict"

text \<open>
  Where a job's coroutine is suspended: the first write of \<^verbatim>\<open>start_job\<close>, the semaphore, the evaluation, the two
  writes of a completed evaluation, and the write of a failed one.
\<close>

datatype job_await =
    StatusWrite
  | SlotWait
  | Evaluating
  | CompletedWrite eval_result
  | ResultWrite eval_result
  | FailedWrite string

record job_manager =
  max_concurrent :: nat
  active_tasks :: "string list"
  holding :: "string list"
  results :: "(string, eval_result) dict"
  errors :: "(string, string) dict"
  awaits :: "(string, job_await) dict"

definition new_job_manager :: "nat \<Rightarrow> job_manager" where
  "new_job_manager n =
     \<lparr>max_concurrent = n, active_tasks = [], holding = [], results = [], errors = [], awaits = []\<rparr>"

section \<open>Operations\<close>

text \<open>A write reaches the store or is only logged as failed.\<close>

definition put_status :: "bool \<Rightarrow> string \<Rightarrow> job_status \<Rightarrow> string option \<Rightarrow> job_store \<Rightarrow> job_store" where
  "put_status up i s err db = (if up then db\<lparr>stored_status := dict_set i (s, err) (stored_status db)\<rparr> else db)"

definition put_result :: "bool \<Rightarrow> string \<Rightarrow> eval_result \<Rightarrow> job_store \<Rightarrow> job_store" where
  "put_result up i r db = (if up then db\<lparr>stored_result := dict_set i r (stored_result db)\<rparr> else db)"

text \<open>The store after the write a job is suspended in.\<close>

definition write_of :: "bool \<Rightarrow> string \<Rightarrow> job_await \<Rightarrow> job_store \<Rightarrow> job_store" where
  "write_of up i w db =
     (case w of
        StatusWrite \<Rightarrow> put_status up i JOB_PROCESSING None db
      | SlotWait \<Rightarrow> db
      | Evaluating \<Rightarrow> db
      | CompletedWrite r \<Rightarrow> put_status up i JOB_COMPLETED None db
      | ResultWrite r \<Rightarrow> put_result up i r db
      | FailedWrite err \<Rightarrow> put_status up i JOB_FAILED (Some err) db)"

definition set_await :: "string \<Rightarrow> job_await \<Rightarrow> job_manager \<Rightarrow> job_manager" where
  "set_await i w jm = jm\<lparr>awaits := dict_set i w (awaits jm)\<rparr>"

text \<open>\<^verbatim>\<open>start_job\<close>: up to its write, and after it.\<close>

definition begin_start :: "string \<Rightarrow> job_manager \<times> job_store \<Rightarrow> job_manager \<times> job_store" where
  "begin_start i p = (case p of (jm, db) \<Rightarrow> (set_await i StatusWrite jm, db))"

definition start_job :: "bool \<Rightarrow> string \<Rightarrow> job_manager \<times> job_store \<Rightarrow> job_manager \<times> job_store" where
  "start_job up i p =
     (case p of (jm, db) \<Rightarrow>
       (set_await i SlotWait (jm\<lparr>active_tasks := active_tasks jm @ [i]\<rparr>), write_of up i StatusWrite db))"

text \<open>\<^verbatim>\<open>_run_job\<close>: the slot, the evaluation, the writes, and what the \<^verbatim>\<open>finally\<close> block and the semaphore's exit do.\<close>

definition acquire_slot :: "string \<Rightarrow> job_manager \<times> job_store \<Rightarrow> job_manager \<times> job_store" where
  "acquire_slot i p =
     (case p of (jm, db) \<Rightarrow> (set_await i Evaluating (jm\<lparr>holding := holding jm @ [i]\<rparr>), db))"

definition leave :: "string \<Rightarrow> job_manager \<Rightarrow> job_manager" where
  "leave i jm =
     jm\<lparr>active_tasks := remove1 i (active_tasks jm), holding := remove1 i (holding jm), awaits := dict_del i (awaits jm)\<rparr>"

definition evaluated :: "string \<Rightarrow> eval_result \<Rightarrow> job_manager \<times> job_store \<Rightarrow> job_manager \<times> job_store" where
  "evaluated i r p =
     (case p of (jm, db) \<Rightarrow> (set_await i (CompletedWrite r) (jm\<lparr>results := dict_set i r (results jm)\<rparr>), db))"

definition completed_written :: "bool \<Rightarrow> string \<Rightarrow> eval_result \<Rightarrow> job_manager \<times> job_store \<Rightarrow> job_manager \<times> job_store" where
  "completed_written up i r p =
     (case p of (jm, db) \<Rightarrow> (set_await i (ResultWrite r) jm, write_of up i (CompletedWrite r) db))"

definition finish_job :: "bool \<Rightarrow> string \<Rightarrow> eval_result \<Rightarrow> job_manager \<times> job_store \<Rightarrow> job_manager \<times> job_store" where
  "finish_job up i r p = (case p of (jm, db) \<Rightarrow> (leave i jm, write_of up i (ResultWrite r) db))"

definition raised :: "string \<Rightarrow> string \<Rightarrow> job_manager \<times> job_store \<Rightarrow> job_manager \<times> job_store" where
  "raised i err p =
     (case p of (jm, db) \<Rightarrow> (set_await i (FailedWrite err) (jm\<lparr>errors := dict_set i err (errors jm)\<rparr>), db))"

definition fail_job :: "bool \<Rightarrow> string \<Rightarrow> string \<Rightarrow> job_manager \<times> job_store \<Rightarrow> job_manager \<times> job_store" where
  "fail_job up i err p = (case p of (jm, db) \<Rightarrow> (leave i jm, write_of up i (FailedWrite err) db))"

text \<open>
  A cancellation is no \<^verbatim>\<open>Exception\<close>: it records nothing, and what was recorded before stays. A job that still waits for a slot is
  outside the block that removes it from the active tasks; a start that is cancelled in its write never creates a task.
\<close>

definition cancel_job :: "bool \<Rightarrow> string \<Rightarrow> job_manager \<times> job_store \<Rightarrow> job_manager \<times> job_store" where
  "cancel_job landed i p =
     (case p of (jm, db) \<Rightarrow>
       (if i \<in> set (holding jm) then leave i jm else jm\<lparr>awaits := dict_del i (awaits jm)\<rparr>,
        (case dict_get (awaits jm) i of None \<Rightarrow> db | Some w \<Rightarrow> write_of landed i w db)))"

record job_report =
  jr_status :: job_status
  jr_evaluation :: "eval_result option"
  jr_error :: "string option"

definition get_status :: "string \<Rightarrow> job_manager \<times> job_store \<Rightarrow> job_report" where
  "get_status i p =
     (case p of (jm, db) \<Rightarrow>
       (case dict_get (results jm) i of
          Some r \<Rightarrow> \<lparr>jr_status = JOB_COMPLETED, jr_evaluation = Some r, jr_error = None\<rparr>
        | None \<Rightarrow>
            (case dict_get (errors jm) i of
               Some e \<Rightarrow> \<lparr>jr_status = JOB_FAILED, jr_evaluation = None, jr_error = Some e\<rparr>
             | None \<Rightarrow>
                 if i \<in> set (active_tasks jm)
                 then \<lparr>jr_status = JOB_PROCESSING, jr_evaluation = None, jr_error = None\<rparr>
                 else (case dict_get (stored_status db) i of
                         None \<Rightarrow> \<lparr>jr_status = JOB_FAILED, jr_evaluation = None, jr_error = Some ''Job not found''\<rparr>
                       | Some (s, err) \<Rightarrow>
                           \<lparr>jr_status = s,
                            jr_evaluation = (if s = JOB_COMPLETED then dict_get (stored_result db) i else None),
                            jr_error = err\<rparr>))))"

section \<open>Runs\<close>

definition known_job :: "job_manager \<Rightarrow> string \<Rightarrow> bool" where
  "known_job jm i \<longleftrightarrow> i \<in> set (active_tasks jm) \<or> dict_has (results jm) i \<or> dict_has (errors jm) i \<or> dict_has (awaits jm) i"

inductive job_step :: "job_manager \<times> job_store \<Rightarrow> job_manager \<times> job_store \<Rightarrow> bool" where
  begin_start: "\<not> known_job (fst p) i \<Longrightarrow> job_step p (begin_start i p)"
| start: "dict_get (awaits (fst p)) i = Some StatusWrite \<Longrightarrow> job_step p (start_job up i p)"
| acquire: "dict_get (awaits (fst p)) i = Some SlotWait
    \<Longrightarrow> length (holding (fst p)) < max_concurrent (fst p) \<Longrightarrow> job_step p (acquire_slot i p)"
| evaluated: "dict_get (awaits (fst p)) i = Some Evaluating \<Longrightarrow> job_step p (evaluated i r p)"
| completed: "dict_get (awaits (fst p)) i = Some (CompletedWrite r) \<Longrightarrow> job_step p (completed_written up i r p)"
| finish: "dict_get (awaits (fst p)) i = Some (ResultWrite r) \<Longrightarrow> job_step p (finish_job up i r p)"
| raised: "dict_get (awaits (fst p)) i = Some Evaluating \<Longrightarrow> job_step p (raised i err p)"
| fail: "dict_get (awaits (fst p)) i = Some (FailedWrite err) \<Longrightarrow> job_step p (fail_job up i err p)"
| cancel: "dict_get (awaits (fst p)) i \<noteq> None \<Longrightarrow> job_step p (cancel_job landed i p)"

text \<open>
  What a job's await says of the tables of the manager: an active job without an await is one that was cancelled before it got a slot.
\<close>

definition job_ok :: "job_manager \<Rightarrow> string \<Rightarrow> bool" where
  "job_ok jm i \<longleftrightarrow>
     (case dict_get (awaits jm) i of
        None \<Rightarrow> i \<notin> set (holding jm) \<and> (i \<in> set (active_tasks jm) \<longrightarrow> dict_get (results jm) i = None \<and> dict_get (errors jm) i = None)
      | Some StatusWrite \<Rightarrow> i \<notin> set (active_tasks jm) \<and> i \<notin> set (holding jm) \<and> dict_get (results jm) i = None \<and> dict_get (errors jm) i = None
      | Some SlotWait \<Rightarrow> i \<in> set (active_tasks jm) \<and> i \<notin> set (holding jm) \<and> dict_get (results jm) i = None \<and> dict_get (errors jm) i = None
      | Some Evaluating \<Rightarrow> i \<in> set (active_tasks jm) \<and> i \<in> set (holding jm) \<and> dict_get (results jm) i = None \<and> dict_get (errors jm) i = None
      | Some (CompletedWrite r) \<Rightarrow> i \<in> set (active_tasks jm) \<and> i \<in> set (holding jm) \<and> dict_get (results jm) i = Some r \<and> dict_get (errors jm) i = None
      | Some (ResultWrite r) \<Rightarrow> i \<in> set (active_tasks jm) \<and> i \<in> set (holding jm) \<and> dict_get (results jm) i = Some r \<and> dict_get (errors jm) i = None
      | Some (FailedWrite e) \<Rightarrow> i \<in> set (active_tasks jm) \<and> i \<in> set (holding jm) \<and> dict_get (results jm) i = None \<and> dict_get (errors jm) i = Some e)
     \<and> (dict_get (results jm) i = None \<or> dict_get (errors jm) i = None)"

definition jobs_ok :: "nat \<Rightarrow> job_manager \<times> job_store \<Rightarrow> bool" where
  "jobs_ok n p \<longleftrightarrow>
     max_concurrent (fst p) = n \<and> distinct (active_tasks (fst p)) \<and> distinct (holding (fst p))
     \<and> length (holding (fst p)) \<le> n \<and> (\<forall>i. job_ok (fst p) i)"

text \<open>A step of one job leaves what the tables say of every other job as it is.\<close>

lemma job_ok_cong:
  assumes "dict_get (awaits jm) j = dict_get (awaits jm') j" and "j \<in> set (active_tasks jm) \<longleftrightarrow> j \<in> set (active_tasks jm')"
    and "j \<in> set (holding jm) \<longleftrightarrow> j \<in> set (holding jm')" and "dict_get (results jm) j = dict_get (results jm') j"
    and "dict_get (errors jm) j = dict_get (errors jm') j"
  shows "job_ok jm j = job_ok jm' j"
  unfolding job_ok_def assms by (rule refl)

lemma jobs_okI:
  assumes "jobs_ok n p" and "max_concurrent jm = max_concurrent (fst p)" and "distinct (active_tasks jm)" and "distinct (holding jm)"
    and "length (holding jm) \<le> n" and "job_ok jm i" and "\<And>j. j \<noteq> i \<Longrightarrow> job_ok jm j = job_ok (fst p) j"
  shows "jobs_ok n (jm, db)"
  using assms by (simp add: jobs_ok_def) metis

lemma jobs_okD:
  assumes "jobs_ok n p"
  shows "job_ok (fst p) i" and "distinct (active_tasks (fst p))" and "distinct (holding (fst p))" and "length (holding (fst p)) \<le> n"
    and "max_concurrent (fst p) = n"
  using assms by (simp_all add: jobs_ok_def)

lemma jobs_ok_leave:
  assumes ok: "jobs_ok n p" and w: "i \<in> set (holding (fst p))"
  shows "jobs_ok n (leave i (fst p), db)"
proof (rule jobs_okI [OF ok])
  show "job_ok (leave i (fst p)) i"
    using jobs_okD(1) [OF ok, of i] jobs_okD(2,3) [OF ok] by (auto simp: job_ok_def leave_def split: option.splits job_await.splits)
  show "length (holding (leave i (fst p))) \<le> n" using jobs_okD(4) [OF ok] by (auto simp: leave_def length_remove1)
  show "job_ok (leave i (fst p)) j = job_ok (fst p) j" if "j \<noteq> i" for j
    using that by (intro job_ok_cong) (simp_all add: leave_def)
qed (use jobs_okD [OF ok] in \<open>simp_all add: leave_def\<close>)

text \<open>A step to another await that adds the job to tables it is not in yet.\<close>

lemma jobs_ok_move:
  assumes ok: "jobs_ok n p" and jm: "jm = set_await i w ((fst p)\<lparr>active_tasks := active_tasks (fst p) @ as, holding := holding (fst p) @ hs,
      results := R, errors := E\<rparr>)"
    and own: "set as \<subseteq> {i}" "set hs \<subseteq> {i}" "distinct (active_tasks (fst p) @ as)" "distinct (holding (fst p) @ hs)"
    and len: "length (holding (fst p) @ hs) \<le> n"
    and tables: "R = results (fst p) \<or> (\<exists>r. R = dict_set i r (results (fst p)))" "E = errors (fst p) \<or> (\<exists>e. E = dict_set i e (errors (fst p)))"
    and now: "job_ok jm i"
  shows "jobs_ok n (jm, db)"
proof (rule jobs_okI [OF ok])
  show "job_ok jm j = job_ok (fst p) j" if "j \<noteq> i" for j
    using that own(1,2) tables by (intro job_ok_cong) (auto simp: jm set_await_def)
qed (use own len now in \<open>simp_all add: jm set_await_def\<close>)

lemma jobs_ok_cancel:
  assumes ok: "jobs_ok n p" and "dict_get (awaits (fst p)) i \<noteq> None"
  shows "jobs_ok n (cancel_job landed i p)"
proof (cases "i \<in> set (holding (fst p))")
  case True
  then show ?thesis using jobs_ok_leave [OF ok True] by (simp add: cancel_job_def case_prod_unfold)
next
  case False
  let ?jm = "(fst p)\<lparr>awaits := dict_del i (awaits (fst p))\<rparr>"
  have "jobs_ok n (?jm, db)" for db
  proof (rule jobs_okI [OF ok])
    show "job_ok ?jm i"
      using jobs_okD(1) [OF ok, of i] False assms(2) by (auto simp: job_ok_def split: option.splits job_await.splits)
    show "job_ok ?jm j = job_ok (fst p) j" if "j \<noteq> i" for j
      using that by (intro job_ok_cong) simp_all
  qed (use jobs_okD [OF ok] in simp_all)
  with False show ?thesis by (simp add: cancel_job_def case_prod_unfold)
qed

lemma jobs_ok_step: "job_step p q \<Longrightarrow> jobs_ok n p \<Longrightarrow> jobs_ok n q"
proof (induction rule: job_step.induct)
  case (begin_start p i)
  note ok = jobs_okD(1) [OF begin_start.prems, of i] jobs_okD(2-5) [OF begin_start.prems]
  have "jobs_ok n (set_await i StatusWrite (fst p), snd p)"
    by (rule jobs_ok_move [OF begin_start.prems, where as = "[]" and hs = "[]" and i = i])
      (use begin_start.hyps ok in \<open>auto simp: set_await_def job_ok_def known_job_def dict_has_def\<close>)
  then show ?case by (simp add: begin_start_def case_prod_unfold)
next
  case (start p i up)
  note ok = jobs_okD(1) [OF start.prems, of i] jobs_okD(2-5) [OF start.prems]
  have "jobs_ok n (set_await i SlotWait ((fst p)\<lparr>active_tasks := active_tasks (fst p) @ [i]\<rparr>), write_of up i StatusWrite (snd p))"
    by (rule jobs_ok_move [OF start.prems, where as = "[i]" and hs = "[]" and i = i])
      (use start.hyps ok in \<open>auto simp: set_await_def job_ok_def\<close>)
  then show ?case by (simp add: start_job_def case_prod_unfold)
next
  case (acquire p i)
  note ok = jobs_okD(1) [OF acquire.prems, of i] jobs_okD(2-5) [OF acquire.prems]
  have "jobs_ok n (set_await i Evaluating ((fst p)\<lparr>holding := holding (fst p) @ [i]\<rparr>), snd p)"
    by (rule jobs_ok_move [OF acquire.prems, where as = "[]" and hs = "[i]" and i = i])
      (use acquire.hyps ok in \<open>auto simp: set_await_def job_ok_def\<close>)
  then show ?case by (simp add: acquire_slot_def case_prod_unfold)
next
  case (evaluated p i r)
  note ok = jobs_okD(1) [OF evaluated.prems, of i] jobs_okD(2-5) [OF evaluated.prems]
  have "jobs_ok n (set_await i (CompletedWrite r) ((fst p)\<lparr>results := dict_set i r (results (fst p))\<rparr>), snd p)"
    by (rule jobs_ok_move [OF evaluated.prems, where as = "[]" and hs = "[]" and i = i and R = "dict_set i r (results (fst p))"
        and E = "errors (fst p)" and w = "CompletedWrite r"])
      (use evaluated.hyps ok in \<open>auto simp: set_await_def job_ok_def\<close>)
  then show ?case by (simp add: evaluated_def case_prod_unfold)
next
  case (completed p i r up)
  note ok = jobs_okD(1) [OF completed.prems, of i] jobs_okD(2-5) [OF completed.prems]
  have "jobs_ok n (set_await i (ResultWrite r) (fst p), write_of up i (CompletedWrite r) (snd p))"
    by (rule jobs_ok_move [OF completed.prems, where as = "[]" and hs = "[]" and i = i])
      (use completed.hyps ok in \<open>auto simp: set_await_def job_ok_def\<close>)
  then show ?case by (simp add: completed_written_def case_prod_unfold)
next
  case (finish p i r up)
  then have "i \<in> set (holding (fst p))" using jobs_okD(1) [OF finish.prems, of i] by (simp add: job_ok_def)
  then show ?case using jobs_ok_leave [OF finish.prems] by (simp add: finish_job_def case_prod_unfold)
next
  case (raised p i err)
  note ok = jobs_okD(1) [OF raised.prems, of i] jobs_okD(2-5) [OF raised.prems]
  have "jobs_ok n (set_await i (FailedWrite err) ((fst p)\<lparr>errors := dict_set i err (errors (fst p))\<rparr>), snd p)"
    by (rule jobs_ok_move [OF raised.prems, where as = "[]" and hs = "[]" and i = i and R = "results (fst p)"
        and E = "dict_set i err (errors (fst p))" and w = "FailedWrite err"])
      (use raised.hyps ok in \<open>auto simp: set_await_def job_ok_def\<close>)
  then show ?case by (simp add: raised_def case_prod_unfold)
next
  case (fail p i err up)
  then have "i \<in> set (holding (fst p))" using jobs_okD(1) [OF fail.prems, of i] by (simp add: job_ok_def)
  then show ?case using jobs_ok_leave [OF fail.prems] by (simp add: fail_job_def case_prod_unfold)
next
  case (cancel p i landed)
  then show ?case by (rule jobs_ok_cancel [rotated])
qed

lemma jobs_ok_init: "fst p = new_job_manager n \<Longrightarrow> jobs_ok n p"
  by (simp add: jobs_ok_def job_ok_def new_job_manager_def)

interpretation jobs: invariant_system
  "\<lambda>p. fst p = new_job_manager n" job_step "jobs_ok n" for n
  by unfold_locales (blast intro: jobs_ok_init jobs_ok_step)+

text \<open>
  C32 (job_manager_invariant): in every state a manager reaches, at most the configured number of
  evaluations hold a slot, and each of these is active. A job never has both a result and an error, and its status is
  reported from them: completed or failed from the moment its evaluation ended, else processing while it is active. A job that has a result or an
  error and is still active is exactly one whose report is being written to the store.
\<close>

theorem job_manager_invariant:
  assumes "reachable (\<lambda>p. fst p = new_job_manager n) job_step p"
  shows "length (holding (fst p)) \<le> n \<and> set (holding (fst p)) \<subseteq> set (active_tasks (fst p))
     \<and> (\<forall>i. dict_get (results (fst p)) i = None \<or> dict_get (errors (fst p)) i = None)
     \<and> (\<forall>i r. dict_get (results (fst p)) i = Some r \<longrightarrow>
          get_status i p = \<lparr>jr_status = JOB_COMPLETED, jr_evaluation = Some r, jr_error = None\<rparr>
          \<and> (i \<in> set (active_tasks (fst p)) \<longleftrightarrow> dict_get (awaits (fst p)) i \<in> {Some (CompletedWrite r), Some (ResultWrite r)}))
     \<and> (\<forall>i e. dict_get (errors (fst p)) i = Some e \<longrightarrow>
          get_status i p = \<lparr>jr_status = JOB_FAILED, jr_evaluation = None, jr_error = Some e\<rparr>
          \<and> (i \<in> set (active_tasks (fst p)) \<longleftrightarrow> dict_get (awaits (fst p)) i = Some (FailedWrite e)))
     \<and> (\<forall>i. i \<in> set (active_tasks (fst p)) \<and> dict_get (results (fst p)) i = None \<and> dict_get (errors (fst p)) i = None
          \<longrightarrow> get_status i p = \<lparr>jr_status = JOB_PROCESSING, jr_evaluation = None, jr_error = None\<rparr>)"
proof -
  have ok: "jobs_ok n p" by (rule jobs.reachable_inv [OF assms])
  have one: "job_ok (fst p) i" for i by (rule jobs_okD(1) [OF ok])
  have "i \<in> set (active_tasks (fst p))" if "i \<in> set (holding (fst p))" for i
    using one [of i] that by (auto simp: job_ok_def split: option.splits job_await.splits)
  then have "set (holding (fst p)) \<subseteq> set (active_tasks (fst p))" by blast
  moreover have "dict_get (results (fst p)) i = None \<or> dict_get (errors (fst p)) i = None" for i
    using one [of i] by (simp add: job_ok_def)
  moreover have "i \<in> set (active_tasks (fst p)) \<longleftrightarrow> dict_get (awaits (fst p)) i \<in> {Some (CompletedWrite r), Some (ResultWrite r)}"
    if "dict_get (results (fst p)) i = Some r" for i r
    using one [of i] that by (auto simp: job_ok_def split: option.splits job_await.splits)
  moreover have "i \<in> set (active_tasks (fst p)) \<longleftrightarrow> dict_get (awaits (fst p)) i = Some (FailedWrite e)"
    if "dict_get (errors (fst p)) i = Some e" for i e
    using one [of i] that by (auto simp: job_ok_def split: option.splits job_await.splits)
  moreover have "dict_get (results (fst p)) i = None" if "dict_get (errors (fst p)) i = Some e" for i e
    using one [of i] that by (simp add: job_ok_def)
  ultimately show ?thesis
    using jobs_okD(4) [OF ok] by (simp add: get_status_def case_prod_unfold)
qed

theorem job_manager_invariant_witness:
  "reachable (\<lambda>p. fst p = new_job_manager 1) job_step
     (start_job True ''a'' (begin_start ''a'' (new_job_manager 1, \<lparr>stored_status = [], stored_result = []\<rparr>)))
   \<and> length (holding (fst (start_job True ''a'' (begin_start ''a'' (new_job_manager 1, \<lparr>stored_status = [], stored_result = []\<rparr>))))) \<le> 1"
proof -
  let ?p0 = "(new_job_manager 1, \<lparr>stored_status = [], stored_result = []\<rparr>)"
  have "reachable (\<lambda>p. fst p = new_job_manager 1) job_step ?p0" by (rule reachable_init) simp
  then have "reachable (\<lambda>p. fst p = new_job_manager 1) job_step (begin_start ''a'' ?p0)"
    by (rule reachable_step) (rule job_step.begin_start, simp add: known_job_def new_job_manager_def dict_has_def)
  then have r: "reachable (\<lambda>p. fst p = new_job_manager 1) job_step (start_job True ''a'' (begin_start ''a'' ?p0))"
    by (rule reachable_step) (rule job_step.start, simp add: begin_start_def set_await_def new_job_manager_def)
  show ?thesis using r job_manager_invariant [OF r] by blast
qed

text \<open>
  (finished_job_survives_restart): when both writes of a finished job reach the store, any manager that
  never heard of the job, a restarted one for instance, reports it completed with the same result; between the two writes it would
  report it completed without a result, unless an older result is stored.
\<close>

theorem finished_job_survives_restart:
  assumes "\<not> known_job fresh i"
  shows "get_status i (fresh, snd (finish_job True i r (completed_written True i r p)))
     = \<lparr>jr_status = JOB_COMPLETED, jr_evaluation = Some r, jr_error = None\<rparr>"
    and "dict_get (stored_result (snd p)) i = None \<Longrightarrow> get_status i (fresh, snd (completed_written True i r p))
     = \<lparr>jr_status = JOB_COMPLETED, jr_evaluation = None, jr_error = None\<rparr>"
  using assms
  by (cases p, simp add: finish_job_def completed_written_def write_of_def put_result_def put_status_def get_status_def known_job_def dict_has_def)+

theorem finished_job_survives_restart_witness:
  "get_status ''a'' (new_job_manager 5, snd (finish_job True ''a''
      (error_result ''id'' (initial_state ''AC-2'' ''nist'' ''acme'' True) base_stats ''x'')
      (completed_written True ''a'' (error_result ''id'' (initial_state ''AC-2'' ''nist'' ''acme'' True) base_stats ''x'')
        (new_job_manager 1, \<lparr>stored_status = [], stored_result = []\<rparr>))))
   = \<lparr>jr_status = JOB_COMPLETED,
      jr_evaluation = Some (error_result ''id'' (initial_state ''AC-2'' ''nist'' ''acme'' True) base_stats ''x''),
      jr_error = None\<rparr>"
  by (rule finished_job_survives_restart) (simp add: known_job_def new_job_manager_def dict_has_def)

text \<open>
  (cancelled_job_processes_forever): a job that is cancelled while it waits for a slot or is evaluated leaves no trace: it has no result and no
  error, and the store still holds the status it was started with, so it is reported as processing
  by this manager's successors for good.
\<close>

theorem cancelled_job_processes_forever:
  assumes "\<not> known_job fresh i" and "dict_get (awaits (fst p)) i \<in> {Some SlotWait, Some Evaluating}"
    and "dict_get (stored_status (snd p)) i = Some (JOB_PROCESSING, None)"
  shows "results (fst (cancel_job landed i p)) = results (fst p) \<and> errors (fst (cancel_job landed i p)) = errors (fst p)
    \<and> jr_status (get_status i (fresh, snd (cancel_job landed i p))) = JOB_PROCESSING"
  using assms by (cases p) (auto simp: cancel_job_def leave_def write_of_def get_status_def known_job_def dict_has_def)

theorem cancelled_job_processes_forever_witness:
  "jr_status (get_status ''a'' (new_job_manager 1, snd (cancel_job True ''a''
      (start_job True ''a'' (new_job_manager 1, \<lparr>stored_status = [], stored_result = []\<rparr>))))) = JOB_PROCESSING"
  by (rule cancelled_job_processes_forever [THEN conjunct2, THEN conjunct2])
    (simp_all add: known_job_def new_job_manager_def dict_has_def start_job_def write_of_def put_status_def set_await_def)

text \<open>
  (reported_before_removed): between the end of an evaluation and the end of its writes a job is in two tables at once: it is active and has
  its result, and is reported completed while \<^verbatim>\<open>active_count\<close> still counts it.
\<close>

theorem reported_before_removed:
  assumes "i \<in> set (active_tasks (fst p))"
  shows "i \<in> set (active_tasks (fst (evaluated i r p)))
    \<and> get_status i (evaluated i r p) = \<lparr>jr_status = JOB_COMPLETED, jr_evaluation = Some r, jr_error = None\<rparr>"
  using assms by (cases p) (simp add: evaluated_def set_await_def get_status_def)

end
