(* ===== verification/Mem_Redis.thy ===== *)
theory Mem_Redis
  imports Ev_Models "HOL-Library.Multiset" "HOL-Library.Sublist" "HOL-Library.Monad_Syntax" "HOL-Library.FSet" "HOL-Library.List_Lexorder"
    "HOL-Library.Char_ord"
begin

text \<open>
  The memory service's Redis-backed endpoints (\<^verbatim>\<open>memory-service/src/routes\<close>): the event queue of a
  user, the user state document, sessions, evaluation decisions and evaluation comments.

  Redis is a service: its commands are the fields of \<open>mem_redis\<close>, over a server state of any type and
  a stored text of any type; a command that raises returns None and the handler answers 500.
  \<open>redis_laws\<close> states what Redis documents of them, over a view of the server as a map from
  keys to typed values. The JSON texts are a parameter as well (\<open>mem_codec\<close>). Validated request bodies are records.
  A handler's answer is a status code (an \<^verbatim>\<open>HTTPException\<close>) or a value.
\<close>

section \<open>The Redis commands the service uses\<close>

record ('r, 'p) mem_redis =
  r_get :: "string \<Rightarrow> 'r \<Rightarrow> 'p option option"
  r_set :: "string \<Rightarrow> 'p \<Rightarrow> 'r \<Rightarrow> 'r option"
  r_setex :: "string \<Rightarrow> 'p \<Rightarrow> int \<Rightarrow> 'r \<Rightarrow> 'r option"
  r_delete :: "string \<Rightarrow> 'r \<Rightarrow> (int \<times> 'r) option"
  r_rpush :: "string \<Rightarrow> 'p \<Rightarrow> 'r \<Rightarrow> 'r option"
  r_lpop :: "string \<Rightarrow> 'r \<Rightarrow> 'r option"
  r_lrem1 :: "string \<Rightarrow> 'p \<Rightarrow> 'r \<Rightarrow> 'r option"
  r_lrange :: "string \<Rightarrow> 'r \<Rightarrow> 'p list option"
  r_llen :: "string \<Rightarrow> 'r \<Rightarrow> nat option"
  r_sadd :: "string \<Rightarrow> string \<Rightarrow> 'r \<Rightarrow> 'r option"
  r_smembers :: "string \<Rightarrow> 'r \<Rightarrow> string list option"

datatype 'p rvalue = RStr 'p | RList "'p list" | RSet "string fset"

fun list_at :: "'p rvalue option \<Rightarrow> 'p list option" where
  "list_at None = Some []"
| "list_at (Some (RList ps)) = Some ps"
| "list_at (Some _) = None"

fun set_at :: "'p rvalue option \<Rightarrow> string fset option" where
  "set_at None = Some {||}"
| "set_at (Some (RSet ms)) = Some ms"
| "set_at (Some _) = None"

fun str_at :: "'p rvalue option \<Rightarrow> 'p option option" where
  "str_at None = Some None"
| "str_at (Some (RStr p)) = Some (Some p)"
| "str_at (Some _) = None"

text \<open>An empty list is an absent key.\<close>

definition put_list :: "'p list \<Rightarrow> 'p rvalue option" where
  "put_list ps = (if ps = [] then None else Some (RList ps))"

lemma list_at_put [simp]: "list_at (put_list ps) = Some ps"
  by (simp add: put_list_def)

definition redis_laws :: "('r, 'p) mem_redis \<Rightarrow> ('r \<Rightarrow> string \<Rightarrow> 'p rvalue option) \<Rightarrow> bool" where
  "redis_laws api view \<longleftrightarrow>
     (\<forall>k s v. str_at (view s k) = Some v \<longrightarrow> r_get api k s = Some v)
   \<and> (\<forall>k p s. \<exists>s'. r_set api k p s = Some s' \<and> view s' = (view s)(k := Some (RStr p)))
   \<and> (\<forall>k p n s. 0 < n \<longrightarrow> (\<exists>s'. r_setex api k p n s = Some s' \<and> view s' = (view s)(k := Some (RStr p))))
   \<and> (\<forall>k s. \<exists>s'. r_delete api k s = Some (if view s k = None then 0 else 1, s') \<and> view s' = (view s)(k := None))
   \<and> (\<forall>k p s ps. list_at (view s k) = Some ps \<longrightarrow>
        (\<exists>s'. r_rpush api k p s = Some s' \<and> view s' = (view s)(k := put_list (ps @ [p]))))
   \<and> (\<forall>k s ps. list_at (view s k) = Some ps \<longrightarrow>
        (\<exists>s'. r_lpop api k s = Some s' \<and> view s' = (view s)(k := put_list (tl ps))))
   \<and> (\<forall>k p s ps. list_at (view s k) = Some ps \<longrightarrow>
        (\<exists>s'. r_lrem1 api k p s = Some s' \<and> view s' = (view s)(k := put_list (remove1 p ps))))
   \<and> (\<forall>k s ps. list_at (view s k) = Some ps \<longrightarrow> r_lrange api k s = Some ps)
   \<and> (\<forall>k s ps. list_at (view s k) = Some ps \<longrightarrow> r_llen api k s = Some (length ps))
   \<and> (\<forall>k m s ms. set_at (view s k) = Some ms \<longrightarrow>
        (\<exists>s'. r_sadd api k m s = Some s' \<and> view s' = (view s)(k := Some (RSet (finsert m ms)))))
   \<and> (\<forall>k s ms. set_at (view s k) = Some ms \<longrightarrow>
        (\<exists>xs. r_smembers api k s = Some xs \<and> distinct xs \<and> set xs = fset ms))"

lemma redis_lawsD:
  assumes "redis_laws api view"
  shows "str_at (view s k) = Some v \<Longrightarrow> r_get api k s = Some v"
    and "\<exists>s'. r_set api k p s = Some s' \<and> view s' = (view s)(k := Some (RStr p))"
    and "0 < n \<Longrightarrow> \<exists>s'. r_setex api k p n s = Some s' \<and> view s' = (view s)(k := Some (RStr p))"
    and "\<exists>s'. r_delete api k s = Some (if view s k = None then 0 else 1, s') \<and> view s' = (view s)(k := None)"
    and "list_at (view s k) = Some ps \<Longrightarrow>
        \<exists>s'. r_rpush api k p s = Some s' \<and> view s' = (view s)(k := put_list (ps @ [p]))"
    and "list_at (view s k) = Some ps \<Longrightarrow>
        \<exists>s'. r_lpop api k s = Some s' \<and> view s' = (view s)(k := put_list (tl ps))"
    and "list_at (view s k) = Some ps \<Longrightarrow>
        \<exists>s'. r_lrem1 api k p s = Some s' \<and> view s' = (view s)(k := put_list (remove1 p ps))"
    and "list_at (view s k) = Some ps \<Longrightarrow> r_lrange api k s = Some ps"
    and "list_at (view s k) = Some ps \<Longrightarrow> r_llen api k s = Some (length ps)"
    and "set_at (view s k) = Some ms \<Longrightarrow>
        \<exists>s'. r_sadd api k m s = Some s' \<and> view s' = (view s)(k := Some (RSet (finsert m ms)))"
    and "set_at (view s k) = Some ms \<Longrightarrow> \<exists>xs. r_smembers api k s = Some xs \<and> distinct xs \<and> set xs = fset ms"
  using assms by (simp_all add: redis_laws_def)

text \<open>The commands as Redis documents them, on the keyspace itself: an instance of the laws.\<close>

definition keyspace_redis :: "(string \<Rightarrow> 'p rvalue option, 'p) mem_redis" where
  "keyspace_redis =
     \<lparr>r_get = (\<lambda>k s. str_at (s k)),
      r_set = (\<lambda>k p s. Some (s(k := Some (RStr p)))),
      r_setex = (\<lambda>k p n s. if 0 < n then Some (s(k := Some (RStr p))) else None),
      r_delete = (\<lambda>k s. Some (if s k = None then 0 else 1, s(k := None))),
      r_rpush = (\<lambda>k p s. map_option (\<lambda>ps. s(k := put_list (ps @ [p]))) (list_at (s k))),
      r_lpop = (\<lambda>k s. map_option (\<lambda>ps. s(k := put_list (tl ps))) (list_at (s k))),
      r_lrem1 = (\<lambda>k p s. map_option (\<lambda>ps. s(k := put_list (remove1 p ps))) (list_at (s k))),
      r_lrange = (\<lambda>k s. list_at (s k)),
      r_llen = (\<lambda>k s. map_option length (list_at (s k))),
      r_sadd = (\<lambda>k m s. map_option (\<lambda>ms. s(k := Some (RSet (finsert m ms)))) (set_at (s k))),
      r_smembers = (\<lambda>k s. map_option sorted_list_of_fset (set_at (s k)))\<rparr>"

lemma keyspace_laws: "redis_laws keyspace_redis id"
  unfolding redis_laws_def keyspace_redis_def
  by (auto simp: sorted_list_of_fset.rep_eq)

section \<open>Stored documents\<close>

record queued_event =
  qe_event_type :: string
  qe_summary :: string
  qe_priority :: string
  qe_source_service :: string
  qe_metadata :: "(string \<times> pyval) list"
  qe_timestamp :: real

record override_entry =
  ov_id :: string
  ov_criterion_id :: string
  ov_ai_result :: string
  ov_user_result :: string
  ov_reason :: string
  ov_overridden_by :: string
  ov_overridden_at :: real

record eval_decision =
  ed_evaluation_id :: string
  ed_tenant_id :: string
  ed_control_id :: string
  ed_framework :: string
  ed_ai_score :: real
  ed_ai_status :: string
  ed_final_score :: real
  ed_final_status :: string
  ed_status :: string
  ed_overrides :: "override_entry list"
  ed_approved_by :: "string option"
  ed_approved_at :: "real option"
  ed_notes :: "string option"
  ed_created_at :: real
  ed_updated_at :: real

record eval_comment =
  ec_comment_id :: string
  ec_evaluation_id :: string
  ec_tenant_id :: string
  ec_criterion_id :: "string option"
  ec_author_id :: string
  ec_author_role :: string
  ec_content :: string
  ec_parent_comment_id :: "string option"
  ec_created_at :: real

text \<open>The JSON texts: \<^verbatim>\<open>json.dumps\<close>, \<^verbatim>\<open>json.loads\<close> (None: it raises) and the size in bytes.\<close>

record 'p mem_codec =
  enc_event :: "queued_event \<Rightarrow> 'p"
  dec_event :: "'p \<Rightarrow> queued_event option"
  enc_decision :: "eval_decision \<Rightarrow> 'p"
  dec_decision :: "'p \<Rightarrow> eval_decision option"
  enc_comment :: "eval_comment \<Rightarrow> 'p"
  dec_comment :: "'p \<Rightarrow> eval_comment option"
  enc_doc :: "(string \<times> pyval) list \<Rightarrow> 'p"
  dec_doc :: "'p \<Rightarrow> (string \<times> pyval) list option"
  text_bytes :: "'p \<Rightarrow> nat"

definition codec_laws :: "'p mem_codec \<Rightarrow> bool" where
  "codec_laws cd \<longleftrightarrow>
     (\<forall>e. dec_event cd (enc_event cd e) = Some e)
   \<and> (\<forall>d. dec_decision cd (enc_decision cd d) = Some d)
   \<and> (\<forall>c. dec_comment cd (enc_comment cd c) = Some c)
   \<and> (\<forall>m. dec_doc cd (enc_doc cd m) = Some m)"

lemma codec_lawsD:
  assumes "codec_laws cd"
  shows "dec_event cd (enc_event cd e) = Some e"
    and "dec_decision cd (enc_decision cd d) = Some d"
    and "dec_comment cd (enc_comment cd c) = Some c"
    and "dec_doc cd (enc_doc cd m) = Some m"
  using assms by (simp_all add: codec_laws_def)

lemma codec_event_inj: "codec_laws cd \<Longrightarrow> enc_event cd e = enc_event cd e' \<longleftrightarrow> e = e'"
  using codec_lawsD(1) by (metis option.inject)

datatype json_text =
    TEvent queued_event | TDecision eval_decision | TComment eval_comment | TDoc "(string \<times> pyval) list"

definition plain_codec :: "json_text mem_codec" where
  "plain_codec =
     \<lparr>enc_event = TEvent, dec_event = (\<lambda>t. case t of TEvent e \<Rightarrow> Some e | _ \<Rightarrow> None),
      enc_decision = TDecision, dec_decision = (\<lambda>t. case t of TDecision d \<Rightarrow> Some d | _ \<Rightarrow> None),
      enc_comment = TComment, dec_comment = (\<lambda>t. case t of TComment c \<Rightarrow> Some c | _ \<Rightarrow> None),
      enc_doc = TDoc, dec_doc = (\<lambda>t. case t of TDoc m \<Rightarrow> Some m | _ \<Rightarrow> None),
      text_bytes = (\<lambda>t. 0)\<rparr>"

lemma plain_codec_laws: "codec_laws plain_codec"
  by (simp add: codec_laws_def plain_codec_def)

section \<open>Keys\<close>

definition event_key :: "string \<Rightarrow> string \<Rightarrow> string" where
  "event_key tenant_id user_id = ''event_queue:'' @ tenant_id @ '':'' @ user_id"

definition user_state_key :: "string \<Rightarrow> string \<Rightarrow> string" where
  "user_state_key tenant_id user_id = ''user_state:'' @ tenant_id @ '':'' @ user_id"

definition session_key :: "string \<Rightarrow> string" where
  "session_key session_id = ''session:'' @ session_id"

definition decision_key :: "string \<Rightarrow> string \<Rightarrow> string" where
  "decision_key tenant_id evaluation_id = ''eval_decision:'' @ tenant_id @ '':'' @ evaluation_id"

definition tenant_index_key :: "string \<Rightarrow> string" where
  "tenant_index_key tenant_id = ''eval_decision_index:'' @ tenant_id"

definition comments_key :: "string \<Rightarrow> string \<Rightarrow> string" where
  "comments_key tenant_id evaluation_id = ''eval_comments:'' @ tenant_id @ '':'' @ evaluation_id"

lemmas key_defs = event_key_def user_state_key_def session_key_def decision_key_def
  tenant_index_key_def comments_key_def

text \<open>A pair of identifiers joined by a colon is read back when the first holds no colon.\<close>

lemma colon_split_inj:
  assumes "CHR '':'' \<notin> set t" and "CHR '':'' \<notin> set t'"
  shows "t @ '':'' @ u = t' @ '':'' @ u' \<longleftrightarrow> t = t' \<and> u = u'"
  using assms
proof (induction t arbitrary: t')
  case Nil
  then show ?case by (cases t') auto
next
  case (Cons c t)
  then show ?case by (cases t') auto
qed

definition plain_id :: "string \<Rightarrow> bool" where
  "plain_id t \<longleftrightarrow> CHR '':'' \<notin> set t"

lemma event_key_inj:
  "plain_id t \<Longrightarrow> plain_id t' \<Longrightarrow> event_key t u = event_key t' u' \<longleftrightarrow> t = t' \<and> u = u'"
  using colon_split_inj [of t t' u u'] by (simp add: event_key_def plain_id_def)

lemma decision_key_inj:
  "plain_id t \<Longrightarrow> plain_id t' \<Longrightarrow> decision_key t u = decision_key t' u' \<longleftrightarrow> t = t' \<and> u = u'"
  using colon_split_inj [of t t' u u'] by (simp add: decision_key_def plain_id_def)

text \<open>Keys of different kinds never meet, so no command finds a value of the wrong type.\<close>

lemma key_kinds:
  "event_key t u \<noteq> decision_key t' u'"
  "event_key t u \<noteq> tenant_index_key t'"
  "event_key t u \<noteq> comments_key t' u'"
  "event_key t u \<noteq> user_state_key t' u'"
  "event_key t u \<noteq> session_key u'"
  "decision_key t u \<noteq> tenant_index_key t'"
  "decision_key t u \<noteq> comments_key t' u'"
  "decision_key t u \<noteq> user_state_key t' u'"
  "decision_key t u \<noteq> session_key u'"
  "tenant_index_key t \<noteq> comments_key t' u'"
  "tenant_index_key t \<noteq> user_state_key t' u'"
  "tenant_index_key t \<noteq> session_key u'"
  "comments_key t u \<noteq> user_state_key t' u'"
  "comments_key t u \<noteq> session_key u'"
  "user_state_key t u \<noteq> session_key u'"
  by (simp_all add: key_defs)

lemmas key_kinds' = key_kinds key_kinds [symmetric]

section \<open>The event queue\<close>

record event_push_body =
  pb_user_id :: string
  pb_tenant_id :: string
  pb_event_type :: string
  pb_summary :: string
  pb_priority :: string
  pb_source_service :: string
  pb_metadata :: "(string \<times> pyval) list"

definition max_events_per_user :: nat where
  "max_events_per_user = 50"

definition priority_rank :: "(string, nat) dict" where
  "priority_rank = [(''low'', 0), (''medium'', 1), (''high'', 2), (''critical'', 3)]"

definition low_priority :: "queued_event \<Rightarrow> bool" where
  "low_priority e \<longleftrightarrow> dict_get_default priority_rank (qe_priority e) 1 = 0"

lemma low_priority_iff: "low_priority e \<longleftrightarrow> qe_priority e = ''low''"
  by (auto simp: low_priority_def priority_rank_def dict_get_default_def)

fun evict_scan ::
    "('r, 'p) mem_redis \<Rightarrow> 'p mem_codec \<Rightarrow> string \<Rightarrow> 'p list \<Rightarrow> 'r \<Rightarrow> 'r option" where
  "evict_scan api cd key [] s = r_lpop api key s"
| "evict_scan api cd key (raw # raws) s =
     (case dec_event cd raw of
        None \<Rightarrow> None
      | Some e \<Rightarrow> if low_priority e then r_lrem1 api key raw s else evict_scan api cd key raws s)"

definition evict_lowest_priority ::
    "('r, 'p) mem_redis \<Rightarrow> 'p mem_codec \<Rightarrow> string \<Rightarrow> 'r \<Rightarrow> 'r option" where
  "evict_lowest_priority api cd key s = do {
     raw_events \<leftarrow> r_lrange api key s;
     if raw_events = [] then Some s else evict_scan api cd key raw_events s }"

definition event_of_body :: "real \<Rightarrow> event_push_body \<Rightarrow> queued_event" where
  "event_of_body now body =
     \<lparr>qe_event_type = pb_event_type body, qe_summary = pb_summary body,
      qe_priority = pb_priority body, qe_source_service = pb_source_service body,
      qe_metadata = pb_metadata body, qe_timestamp = now\<rparr>"

definition push_event ::
    "('r, 'p) mem_redis \<Rightarrow> 'p mem_codec \<Rightarrow> real \<Rightarrow> event_push_body \<Rightarrow> 'r \<Rightarrow> 'r option" where
  "push_event api cd now body s = do {
     let key = event_key (pb_tenant_id body) (pb_user_id body);
     current_len \<leftarrow> r_llen api key s;
     s1 \<leftarrow> (if max_events_per_user \<le> current_len then evict_lowest_priority api cd key s else Some s);
     r_rpush api key (enc_event cd (event_of_body now body)) s1 }"

definition drain_events ::
    "('r, 'p) mem_redis \<Rightarrow> 'p mem_codec \<Rightarrow> string \<Rightarrow> string \<Rightarrow> 'r \<Rightarrow> (queued_event list \<times> 'r) option" where
  "drain_events api cd tenant_id user_id s = do {
     let key = event_key tenant_id user_id;
     raw_events \<leftarrow> r_lrange api key s;
     (n, s1) \<leftarrow> r_delete api key s;
     events \<leftarrow> those (map (dec_event cd) raw_events);
     Some (events, s1) }"

text \<open>What the queue of one user promises: the oldest low-priority event makes room, else the oldest.\<close>

definition evict_one :: "queued_event list \<Rightarrow> queued_event list" where
  "evict_one q =
     (case List.extract low_priority q of
        Some (xs, e, ys) \<Rightarrow> xs @ ys
      | None \<Rightarrow> tl q)"

definition queue_push :: "queued_event \<Rightarrow> queued_event list \<Rightarrow> queued_event list" where
  "queue_push e q = (if max_events_per_user \<le> length q then evict_one q else q) @ [e]"

lemma evict_one_oldest: "\<forall>e \<in> set q. \<not> low_priority e \<Longrightarrow> evict_one q = tl q"
  by (simp add: evict_one_def extract_None_iff [THEN iffD2])

lemma those_map_dec: "(\<And>x. dec (enc x) = Some x) \<Longrightarrow> those (map dec (map enc xs)) = Some xs"
  by (induction xs) auto

lemma remove1_map_inj: "(\<And>x y. f x = f y \<longleftrightarrow> x = y) \<Longrightarrow> remove1 (f a) (map f xs) = map f (remove1 a xs)"
  by (induction xs) auto

lemma remove1_extract:
  assumes "\<forall>x \<in> set xs. \<not> P x" and "P a"
  shows "remove1 a (xs @ a # ys) = xs @ ys"
  using assms by (induction xs) auto

lemma evict_scan_refines:
  assumes redis: "redis_laws api view" and codec: "codec_laws cd"
    and at: "view s key = put_list (map (enc_event cd) (pre @ q))"
    and pre: "\<forall>e \<in> set pre. \<not> low_priority e"
  shows "\<exists>s'. evict_scan api cd key (map (enc_event cd) q) s = Some s'
      \<and> view s' = (view s)(key := put_list (map (enc_event cd) (evict_one (pre @ q))))"
  using at pre
proof (induction q arbitrary: pre)
  case Nil
  have "evict_one (pre @ []) = tl pre" using Nil by (simp add: evict_one_oldest)
  have "list_at (view s key) = Some (map (enc_event cd) pre)" using Nil by simp
  from redis_lawsD(6) [OF redis this] show ?case
    unfolding evict_scan.simps list.map(1) \<open>evict_one (pre @ []) = tl pre\<close> map_tl .
next
  case (Cons e q)
  show ?case
  proof (cases "low_priority e")
    case True
    have at: "list_at (view s key) = Some (map (enc_event cd) (pre @ e # q))"
      using Cons.prems(1) by simp
    have rm: "remove1 (enc_event cd e) (map (enc_event cd) (pre @ e # q)) = map (enc_event cd) (pre @ q)"
      using remove1_map_inj [OF codec_event_inj [OF codec]] remove1_extract [of pre low_priority e q]
        Cons.prems(2) True by metis
    have ev: "evict_one (pre @ e # q) = pre @ q"
    proof -
      have "List.extract low_priority (pre @ e # q) = Some (pre, e, q)"
        using Cons.prems(2) True by (auto simp: extract_Some_iff)
      then show ?thesis by (simp add: evict_one_def)
    qed
    have "evict_scan api cd key (map (enc_event cd) (e # q)) s = r_lrem1 api key (enc_event cd e) s"
      using True codec_lawsD(1) [OF codec] by simp
    with redis_lawsD(7) [OF redis at, of "enc_event cd e"] show ?thesis unfolding rm ev by (simp only:)
  next
    case False
    then show ?thesis
      using Cons.IH [of "pre @ [e]"] Cons.prems codec_lawsD(1) [OF codec] by simp
  qed
qed

lemma evict_refines:
  assumes redis: "redis_laws api view" and codec: "codec_laws cd"
    and at: "view s key = put_list (map (enc_event cd) q)"
  shows "\<exists>s'. evict_lowest_priority api cd key s = Some s'
      \<and> view s' = (view s)(key := put_list (map (enc_event cd) (evict_one q)))"
proof -
  have "r_lrange api key s = Some (map (enc_event cd) q)"
    using redis_lawsD(8) [OF redis] at by simp
  moreover have "evict_one [] = []" by (simp add: evict_one_def extract_def)
  ultimately show ?thesis
    using evict_scan_refines [OF redis codec, of s key "[]" q] at
    by (cases q) (auto simp: evict_lowest_priority_def fun_upd_idem_iff)
qed

lemma push_event_refines:
  assumes redis: "redis_laws api view" and codec: "codec_laws cd"
    and at: "view s (event_key (pb_tenant_id b) (pb_user_id b)) = put_list (map (enc_event cd) q)"
  shows "\<exists>s'. push_event api cd now b s = Some s'
      \<and> view s' = (view s)(event_key (pb_tenant_id b) (pb_user_id b) :=
            put_list (map (enc_event cd) (queue_push (event_of_body now b) q)))"
proof -
  let ?k = "event_key (pb_tenant_id b) (pb_user_id b)"
  let ?q1 = "if max_events_per_user \<le> length q then evict_one q else q"
  have len: "r_llen api ?k s = Some (length q)"
    using redis_lawsD(9) [OF redis] at by simp
  have "\<exists>s1. (if max_events_per_user \<le> length q then evict_lowest_priority api cd ?k s else Some s) = Some s1
      \<and> view s1 = (view s)(?k := put_list (map (enc_event cd) ?q1))"
  proof (cases "max_events_per_user \<le> length q")
    case True
    with evict_refines [OF redis codec at] show ?thesis by (simp only: if_True)
  next
    case False
    then show ?thesis using fun_upd_idem [of "view s" ?k, OF at] by (simp only: if_False) auto
  qed
  then obtain s1 where s1: "(if max_events_per_user \<le> length q then evict_lowest_priority api cd ?k s else Some s) = Some s1"
    and v1: "view s1 = (view s)(?k := put_list (map (enc_event cd) ?q1))" by (elim exE conjE) (rule that)
  have "list_at (view s1 ?k) = Some (map (enc_event cd) ?q1)" using v1 by simp
  from redis_lawsD(5) [OF redis this, of "enc_event cd (event_of_body now b)"] obtain s2
    where "r_rpush api ?k (enc_event cd (event_of_body now b)) s1 = Some s2"
      and "view s2 = (view s1)(?k := put_list (map (enc_event cd) ?q1 @ [enc_event cd (event_of_body now b)]))"
    by (elim exE conjE) (rule that)
  moreover from this(2) have "view s2 = (view s)(?k :=
      put_list (map (enc_event cd) (queue_push (event_of_body now b) q)))"
    unfolding v1 queue_push_def by simp
  moreover have "push_event api cd now b s = r_rpush api ?k (enc_event cd (event_of_body now b)) s1"
    unfolding push_event_def Let_def len Option.bind.bind_lunit s1 ..
  ultimately show ?thesis by auto
qed

lemma drain_events_refines:
  assumes redis: "redis_laws api view" and codec: "codec_laws cd"
    and at: "view s (event_key t u) = put_list (map (enc_event cd) q)"
  shows "\<exists>s'. drain_events api cd t u s = Some (q, s') \<and> view s' = (view s)(event_key t u := None)"
proof -
  have "r_lrange api (event_key t u) s = Some (map (enc_event cd) q)"
    using redis_lawsD(8) [OF redis] at by simp
  moreover have "those (map (dec_event cd) (map (enc_event cd) q)) = Some q"
    by (rule those_map_dec) (rule codec_lawsD(1) [OF codec])
  ultimately show ?thesis
    using redis_lawsD(4) [OF redis, of "event_key t u" s] by (auto simp: drain_events_def Let_def)
qed

lemma evict_one_length: "length (evict_one q) = length q - 1"
  by (auto simp: evict_one_def extract_Some_iff split: option.splits)

lemma queue_push_length:
  "length q \<le> max_events_per_user \<Longrightarrow> length (queue_push e q) \<le> max_events_per_user"
  by (auto simp: queue_push_def evict_one_length max_events_per_user_def)

text \<open>What a push at the cap gives up: one low-priority event when there is one, else the oldest.\<close>

lemma evict_one_low:
  assumes "\<exists>e \<in> set q. low_priority e"
  shows "\<exists>xs e ys. q = xs @ e # ys \<and> low_priority e \<and> (\<forall>x \<in> set xs. \<not> low_priority x) \<and> evict_one q = xs @ ys"
proof -
  obtain xs e ys where ex: "List.extract low_priority q = Some (xs, e, ys)"
    using assms by (cases "List.extract low_priority q") (auto simp: extract_None_iff)
  then have "evict_one q = xs @ ys" by (simp add: evict_one_def)
  with ex show ?thesis by (auto simp: extract_Some_iff)
qed


section \<open>Overlapping requests on one event queue\<close>

text \<open>
  Every Redis command of a handler is awaited, so handlers of the same user interleave there. A task
  is a handler between two commands, and a step runs one command of one task.
\<close>

datatype queue_task =
    PushStart queued_event
  | PushEvicting queued_event
  | PushRemoving queued_event queued_event
  | PushPopping queued_event
  | PushAppending queued_event
  | DrainStart
  | DrainDeleting "queued_event list"

datatype task_outcome = Next queue_task | Pushed | Drained "queued_event list"

fun task_step :: "queue_task \<Rightarrow> queued_event list \<Rightarrow> task_outcome \<times> queued_event list" where
  "task_step (PushStart e) q =
     (Next (if max_events_per_user \<le> length q then PushEvicting e else PushAppending e), q)"
| "task_step (PushEvicting e) q =
     (Next (if q = [] then PushAppending e
            else case List.find low_priority q of Some x \<Rightarrow> PushRemoving e x | None \<Rightarrow> PushPopping e), q)"
| "task_step (PushRemoving e x) q = (Next (PushAppending e), remove1 x q)"
| "task_step (PushPopping e) q = (Next (PushAppending e), tl q)"
| "task_step (PushAppending e) q = (Pushed, q @ [e])"
| "task_step DrainStart q = (Next (DrainDeleting q), q)"
| "task_step (DrainDeleting es) q = (Drained es, [])"

record queue_world =
  qw_queue :: "queued_event list"
  qw_tasks :: "queue_task list"
  qw_answers :: "queued_event list list"

definition settle_task :: "nat \<Rightarrow> task_outcome \<Rightarrow> queue_world \<Rightarrow> queue_world" where
  "settle_task i res w =
     (case res of
        Next t \<Rightarrow> w\<lparr>qw_tasks := (qw_tasks w)[i := t]\<rparr>
      | Pushed \<Rightarrow> w\<lparr>qw_tasks := take i (qw_tasks w) @ drop (Suc i) (qw_tasks w)\<rparr>
      | Drained es \<Rightarrow> w\<lparr>qw_tasks := take i (qw_tasks w) @ drop (Suc i) (qw_tasks w),
                       qw_answers := qw_answers w @ [es]\<rparr>)"

definition run_task :: "nat \<Rightarrow> queue_world \<Rightarrow> queue_world" where
  "run_task i w =
     (let (res, q) = task_step (qw_tasks w ! i) (qw_queue w)
      in settle_task i res (w\<lparr>qw_queue := q\<rparr>))"

inductive queue_step :: "queue_world \<Rightarrow> queue_world \<Rightarrow> bool" where
  "i < length (qw_tasks w) \<Longrightarrow> queue_step w (run_task i w)"

inductive_cases queue_stepE: "queue_step w w'"

definition run_schedule :: "nat list \<Rightarrow> queue_world \<Rightarrow> queue_world" where
  "run_schedule is w = fold run_task is w"

fun schedule_ok :: "nat list \<Rightarrow> queue_world \<Rightarrow> bool" where
  "schedule_ok [] w \<longleftrightarrow> True"
| "schedule_ok (i # is) w \<longleftrightarrow> i < length (qw_tasks w) \<and> schedule_ok is (run_task i w)"

lemma schedule_ok_steps: "schedule_ok is w \<Longrightarrow> queue_step\<^sup>*\<^sup>* w (run_schedule is w)"
  by (induction "is" arbitrary: w)
     (auto simp: run_schedule_def intro: converse_rtranclp_into_rtranclp queue_step.intros)

text \<open>Alone, a task's commands add up to the handler.\<close>

lemma find_extract: "List.find P xs = map_option (\<lambda>(us, x, vs). x) (List.extract P xs)"
  by (induction xs) (auto simp: extract_Cons_code extract_Nil_code split: option.splits)

lemma push_alone:
  "\<exists>is. run_schedule is \<lparr>qw_queue = q, qw_tasks = [PushStart e], qw_answers = ans\<rparr> =
     \<lparr>qw_queue = queue_push e q, qw_tasks = [], qw_answers = ans\<rparr>"
proof (cases "max_events_per_user \<le> length q")
  case False
  then show ?thesis
    by (intro exI [of _ "[0, 0]"]) (simp add: run_schedule_def run_task_def settle_task_def queue_push_def)
next
  case True
  then have ne: "q \<noteq> []" by (auto simp: max_events_per_user_def)
  show ?thesis
  proof (cases "List.extract low_priority q")
    case None
    then have "evict_one q = tl q" by (simp add: evict_one_def)
    with None True ne show ?thesis
      by (intro exI [of _ "[0, 0, 0, 0]"])
        (simp add: run_schedule_def run_task_def settle_task_def queue_push_def find_extract)
  next
    case (Some r)
    then obtain xs x ys where r: "List.extract low_priority q = Some (xs, x, ys)"
      by (cases r) auto
    then have q: "q = xs @ x # ys" "\<forall>z \<in> set xs. \<not> low_priority z" "low_priority x"
      by (auto simp: extract_Some_iff)
    have "remove1 x q = evict_one q"
      using r remove1_extract [OF q(2,3)] q(1) by (simp add: evict_one_def)
    with r True ne show ?thesis
      by (intro exI [of _ "[0, 0, 0, 0]"])
        (simp add: run_schedule_def run_task_def settle_task_def queue_push_def find_extract)
  qed
qed

lemma drain_alone:
  "run_schedule [0, 0] \<lparr>qw_queue = q, qw_tasks = [DrainStart], qw_answers = ans\<rparr> =
     \<lparr>qw_queue = [], qw_tasks = [], qw_answers = ans @ [q]\<rparr>"
  by (simp add: run_schedule_def run_task_def settle_task_def)

text \<open>Every command brings its handler closer to its answer.\<close>

fun task_work :: "queue_task \<Rightarrow> nat" where
  "task_work (PushStart e) = 4"
| "task_work (PushEvicting e) = 3"
| "task_work (PushRemoving e x) = 2"
| "task_work (PushPopping e) = 2"
| "task_work (PushAppending e) = 1"
| "task_work DrainStart = 2"
| "task_work (DrainDeleting es) = 1"

definition world_work :: "queue_world \<Rightarrow> nat" where
  "world_work w = sum_list (map task_work (qw_tasks w))"

lemma task_work_pos: "0 < task_work t"
  by (cases t) auto

lemma task_step_work: "task_step t q = (Next t', q') \<Longrightarrow> task_work t' < task_work t"
  by (cases t) (auto split: if_splits option.splits)

lemma sum_list_drop_nth:
  "i < length xs \<Longrightarrow> sum_list (map f xs) = f (xs ! i) + sum_list (map f (take i xs @ drop (Suc i) xs))"
  for f :: "'a \<Rightarrow> nat"
  by (subst id_take_nth_drop [of i xs]) (auto simp del: append_take_drop_id)

lemma queue_step_work: "queue_step w w' \<Longrightarrow> world_work w' < world_work w"
proof (elim queue_stepE)
  fix i assume w': "w' = run_task i w" and i: "i < length (qw_tasks w)"
  obtain res q where st: "task_step (qw_tasks w ! i) (qw_queue w) = (res, q)" by (cases "task_step (qw_tasks w ! i) (qw_queue w)")
  note split = sum_list_drop_nth [OF i, of task_work]
  show "world_work w' < world_work w"
  proof (cases res)
    case (Next t)
    have "sum_list (map task_work ((qw_tasks w)[i := t])) =
        task_work t + sum_list (map task_work (take i (qw_tasks w) @ drop (Suc i) (qw_tasks w)))"
      using i by (simp add: upd_conv_take_nth_drop)
    with split task_step_work [of "qw_tasks w ! i"] st Next show ?thesis
      by (auto simp: w' run_task_def settle_task_def world_work_def)
  qed (use split task_work_pos [of "qw_tasks w ! i"] st in
      \<open>auto simp: w' run_task_def settle_task_def world_work_def\<close>)
qed

text \<open>A step, by the handler that takes it.\<close>

lemma queue_step_split:
  assumes "queue_step w w'"
  obtains pre t post where "qw_tasks w = pre @ t # post"
    and "w' = (case task_step t (qw_queue w) of
          (Next t', q') \<Rightarrow> w\<lparr>qw_queue := q', qw_tasks := pre @ t' # post\<rparr>
        | (Pushed, q') \<Rightarrow> w\<lparr>qw_queue := q', qw_tasks := pre @ post\<rparr>
        | (Drained es, q') \<Rightarrow> w\<lparr>qw_queue := q', qw_tasks := pre @ post, qw_answers := qw_answers w @ [es]\<rparr>)"
proof -
  from assms obtain i where i: "i < length (qw_tasks w)" and w': "w' = run_task i w" by (auto elim: queue_stepE)
  show ?thesis
  proof (rule that)
    show "qw_tasks w = take i (qw_tasks w) @ qw_tasks w ! i # drop (Suc i) (qw_tasks w)" using i by (rule id_take_nth_drop)
    show "w' = (case task_step (qw_tasks w ! i) (qw_queue w) of
          (Next t', q') \<Rightarrow> w\<lparr>qw_queue := q', qw_tasks := take i (qw_tasks w) @ t' # drop (Suc i) (qw_tasks w)\<rparr>
        | (Pushed, q') \<Rightarrow> w\<lparr>qw_queue := q', qw_tasks := take i (qw_tasks w) @ drop (Suc i) (qw_tasks w)\<rparr>
        | (Drained es, q') \<Rightarrow> w\<lparr>qw_queue := q', qw_tasks := take i (qw_tasks w) @ drop (Suc i) (qw_tasks w),
            qw_answers := qw_answers w @ [es]\<rparr>)"
      using i by (auto simp: w' run_task_def settle_task_def upd_conv_take_nth_drop split: prod.splits task_outcome.splits)
  qed
qed

text \<open>
  What the handlers hold while they overlap below the cap: the events still to be pushed, and the queue as a drain read it.
\<close>

fun to_push :: "queue_task \<Rightarrow> queued_event multiset" where
  "to_push (PushStart e) = {#e#}"
| "to_push (PushAppending e) = {#e#}"
| "to_push _ = {#}"

fun is_drain :: "queue_task \<Rightarrow> bool" where
  "is_drain DrainStart \<longleftrightarrow> True"
| "is_drain (DrainDeleting es) \<longleftrightarrow> True"
| "is_drain _ \<longleftrightarrow> False"

fun evicting :: "queue_task \<Rightarrow> bool" where
  "evicting (PushEvicting e) \<longleftrightarrow> True"
| "evicting (PushRemoving e x) \<longleftrightarrow> True"
| "evicting (PushPopping e) \<longleftrightarrow> True"
| "evicting _ \<longleftrightarrow> False"

abbreviation pushes :: "queue_task list \<Rightarrow> queued_event multiset" where
  "pushes ts \<equiv> sum_list (map to_push ts)"

abbreviation drains :: "queue_task list \<Rightarrow> nat" where
  "drains ts \<equiv> length (filter is_drain ts)"

definition overlap_inv :: "queued_event list \<Rightarrow> queued_event multiset \<Rightarrow> nat \<Rightarrow> queue_world \<Rightarrow> bool" where
  "overlap_inv q evs d w \<longleftrightarrow>
     (\<forall>t \<in> set (qw_tasks w). \<not> evicting t)
     \<and> length (qw_queue w) + size (pushes (qw_tasks w)) \<le> max_events_per_user
     \<and> mset (qw_queue w) + pushes (qw_tasks w) \<subseteq># evs
     \<and> (\<forall>es. DrainDeleting es \<in> set (qw_tasks w) \<longrightarrow> mset es + pushes (qw_tasks w) \<subseteq># evs)
     \<and> (\<forall>a \<in> set (qw_answers w). mset a \<subseteq># evs)
     \<and> length (qw_answers w) + drains (qw_tasks w) = d
     \<and> (qw_answers w = [] \<longrightarrow> mset (qw_queue w) + pushes (qw_tasks w) = evs \<and> prefix q (qw_queue w)
          \<and> (\<forall>es. DrainDeleting es \<in> set (qw_tasks w) \<longrightarrow> prefix q es))
     \<and> (qw_answers w \<noteq> [] \<longrightarrow> (\<exists>a \<in> set (qw_answers w). prefix q a))
     \<and> (length (qw_answers w) = 1 \<and> drains (qw_tasks w) = 0 \<longrightarrow>
          mset (concat (qw_answers w)) + mset (qw_queue w) + pushes (qw_tasks w) \<subseteq># evs)"

lemma less_sub: "x + p \<subseteq># (t :: 'a multiset) \<Longrightarrow> p' \<subseteq># p \<Longrightarrow> x + p' \<subseteq># t"
  by (meson subset_mset.add_left_mono subset_mset.order_trans)

lemma overlap_inv_step:
  assumes inv: "overlap_inv q evs d w" and step: "queue_step w w'"
  shows "overlap_inv q evs d w'"
proof -
  from step obtain pre t post where tasks: "qw_tasks w = pre @ t # post"
    and w': "w' = (case task_step t (qw_queue w) of
          (Next t', q') \<Rightarrow> w\<lparr>qw_queue := q', qw_tasks := pre @ t' # post\<rparr>
        | (Pushed, q') \<Rightarrow> w\<lparr>qw_queue := q', qw_tasks := pre @ post\<rparr>
        | (Drained es, q') \<Rightarrow> w\<lparr>qw_queue := q', qw_tasks := pre @ post, qw_answers := qw_answers w @ [es]\<rparr>)"
    by (rule queue_step_split)
  note i = inv [unfolded overlap_inv_def tasks]
  show ?thesis
  proof (cases t)
    case (PushStart e)
    then have "\<not> max_events_per_user \<le> length (qw_queue w)" using i by simp
    then show ?thesis using i unfolding overlap_inv_def w' PushStart by simp
  next
    case (PushAppending e)
    have sub: "pushes (pre @ post) \<subseteq># pushes (pre @ t # post)" by (simp add: PushAppending)
    show ?thesis using i less_sub [OF _ sub] unfolding overlap_inv_def w' PushAppending
      by (simp add: ac_simps prefix_append)
  next
    case DrainStart
    then show ?thesis using i unfolding overlap_inv_def w' DrainStart by auto
  next
    case (DrainDeleting es)
    have e: "mset es \<subseteq># evs" "mset es + pushes (pre @ post) \<subseteq># evs"
      using i by (auto simp: DrainDeleting dest: mset_subset_eq_add_left [THEN subset_mset.order_trans])
    show ?thesis using i e unfolding overlap_inv_def w' DrainDeleting
      by (auto dest: mset_subset_eq_add_right [THEN subset_mset.order_trans])
  qed (use i in \<open>auto\<close>)
qed
lemma overlap_inv_steps:
  assumes "queue_step\<^sup>*\<^sup>* w w'" and "overlap_inv q evs d w"
  shows "overlap_inv q evs d w'"
  using assms by (induction rule: rtranclp_induct) (blast intro: overlap_inv_step)+

lemma overlap_inv_start:
  assumes tasks: "mset ts = image_mset PushStart (mset es) + replicate_mset d DrainStart"
    and cap: "length q + length es \<le> max_events_per_user"
  shows "overlap_inv q (mset q + mset es) d \<lparr>qw_queue = q, qw_tasks = ts, qw_answers = []\<rparr>"
proof -
  have "set ts \<subseteq> PushStart ` set es \<union> {DrainStart}" using arg_cong [OF tasks, of set_mset] by (auto split: if_splits)
  then have started: "\<not> evicting t" "t \<noteq> DrainDeleting x" if "t \<in> set ts" for t x using that by auto
  have "sum_mset (image_mset to_push (mset ts)) = mset es"
    unfolding tasks by (simp add: image_mset.compositionality comp_def)
  then have p: "pushes ts = mset es" by (simp add: sum_mset_sum_list [symmetric])
  have "size (filter_mset is_drain (mset ts)) = d"
    unfolding tasks by (induction d) (simp_all add: filter_mset_image_mset comp_def)
  then have n: "drains ts = d" by (metis mset_filter size_mset)
  show ?thesis using cap started by (auto simp: overlap_inv_def p n)
qed

section \<open>Properties of the event queue\<close>

text \<open>What is given up at the cap, and what stays.\<close>

lemma evicted:
  assumes "q \<noteq> []"
  shows "\<exists>xs e ys. q = xs @ e # ys \<and> evict_one q = xs @ ys
      \<and> (if \<exists>x \<in> set q. qe_priority x = ''low''
          then qe_priority e = ''low'' \<and> (\<forall>x \<in> set xs. qe_priority x \<noteq> ''low'') else xs = [])"
proof (cases "\<exists>x \<in> set q. qe_priority x = ''low''")
  case True
  then show ?thesis using evict_one_low [of q] by (simp only: low_priority_iff if_True) auto
next
  case False
  then have "evict_one q = tl q" by (intro evict_one_oldest) (simp add: low_priority_iff)
  moreover obtain e ys where "q = e # ys" using assms by (cases q) auto
  ultimately show ?thesis using False by (intro exI [of _ "[]"] exI [of _ e] exI [of _ ys]) auto
qed

lemma evict_one_subset: "set (evict_one q) \<subseteq> set q"
proof (cases "\<exists>x \<in> set q. low_priority x")
  case True
  then show ?thesis using evict_one_low [OF True] by auto
next
  case False
  then show ?thesis using evict_one_oldest [of q] by (cases q) auto
qed

text \<open>
  C25 (event queue): a push to a user's queue and the drain that follows it behave as the bounded
  queue promises: the queue never holds more than 50 events, an event is given up only at the cap, and then it is the
  oldest of low priority, or the oldest of all when none is low; the drain returns what is queued in order,
  with the pushed event last, and leaves an empty queue; no other key of the store changes.
\<close>

theorem event_queue_is_bounded_fifo:
  assumes "redis_laws api view" and "codec_laws cd"
    and "view s (event_key (pb_tenant_id b) (pb_user_id b)) = put_list (map (enc_event cd) q)"
    and "length q \<le> 50"
  shows "\<exists>s1 s2 kept. push_event api cd now b s = Some s1
      \<and> drain_events api cd (pb_tenant_id b) (pb_user_id b) s1 = Some (kept @ [event_of_body now b], s2)
      \<and> length kept < 50
      \<and> (length q < 50 \<longrightarrow> kept = q)
      \<and> (length q = 50 \<longrightarrow> (\<exists>xs e ys. q = xs @ e # ys \<and> kept = xs @ ys
            \<and> (if \<exists>x \<in> set q. qe_priority x = ''low''
                then qe_priority e = ''low'' \<and> (\<forall>x \<in> set xs. qe_priority x \<noteq> ''low'') else xs = [])))
      \<and> view s2 (event_key (pb_tenant_id b) (pb_user_id b)) = None
      \<and> (\<forall>k. k \<noteq> event_key (pb_tenant_id b) (pb_user_id b) \<longrightarrow> view s1 k = view s k \<and> view s2 k = view s k)"
proof -
  let ?k = "event_key (pb_tenant_id b) (pb_user_id b)"
  let ?kept = "if 50 \<le> length q then evict_one q else q"
  obtain s1 where s1: "push_event api cd now b s = Some s1"
    and v1: "view s1 = (view s)(?k := put_list (map (enc_event cd) (queue_push (event_of_body now b) q)))"
    using push_event_refines [OF assms(1-3)] by metis
  have qp: "queue_push (event_of_body now b) q = ?kept @ [event_of_body now b]"
    by (simp add: queue_push_def max_events_per_user_def)
  have "view s1 ?k = put_list (map (enc_event cd) (?kept @ [event_of_body now b]))"
    unfolding v1 qp by (rule fun_upd_same)
  then obtain s2 where s2: "drain_events api cd (pb_tenant_id b) (pb_user_id b) s1 = Some (?kept @ [event_of_body now b], s2)"
    and v2: "view s2 = (view s1)(?k := None)"
    using drain_events_refines [OF assms(1,2)] by metis
  have cap: "\<exists>xs e ys. q = xs @ e # ys \<and> ?kept = xs @ ys
            \<and> (if \<exists>x \<in> set q. qe_priority x = ''low''
                then qe_priority e = ''low'' \<and> (\<forall>x \<in> set xs. qe_priority x \<noteq> ''low'') else xs = [])"
    if full: "length q = 50"
  proof -
    have "q \<noteq> []" and eq: "?kept = evict_one q" using full by auto
    from evicted [OF this(1)] show ?thesis unfolding eq .
  qed
  have "length ?kept < 50" using assms(4) by (auto simp: evict_one_length)
  with s1 s2 cap show ?thesis
    by (intro exI [of _ s1] exI [of _ s2] exI [of _ ?kept]) (auto simp: v1 v2)
qed

definition sample_push :: event_push_body where
  "sample_push = \<lparr>pb_user_id = ''u'', pb_tenant_id = ''t'', pb_event_type = ''x'', pb_summary = ''s'',
     pb_priority = ''medium'', pb_source_service = [], pb_metadata = []\<rparr>"

theorem event_queue_is_bounded_fifo_witness:
  "\<exists>s1. push_event keyspace_redis plain_codec 0 sample_push (\<lambda>k. None) = Some s1"
  using event_queue_is_bounded_fifo [OF keyspace_laws plain_codec_laws, of "\<lambda>k. None" sample_push "[]" 0]
  by (auto simp: put_list_def)

text \<open>
  C11 (overlapping handlers): let pushes of the events \<open>es\<close> and \<open>d\<close> drains of one user's queue run in any order and interleave at every
  command, with room for all events below the cap. Every step is progress, so that an arbitrary schedule ends within four steps a push and two a
  drain. At every moment the queue holds at most 50 events and, like every answer, nothing that was not queued or pushed, and nothing twice.
  Once all handlers answered there is one answer per drain. Without a drain the queue is the old one followed by
  all pushed events, each once. With one drain no event is both delivered and still queued or delivered twice; with any number of them the events queued
  at the start are delivered, together and in order, by some drain. Only an event pushed while drains run can be lost, which the code does not prevent.
\<close>

theorem overlapping_handlers_settle:
  assumes handlers: "mset ts = image_mset PushStart (mset es) + replicate_mset d DrainStart"
    and cap: "length q + length es \<le> max_events_per_user"
    and run: "(queue_step ^^ n) \<lparr>qw_queue = q, qw_tasks = ts, qw_answers = []\<rparr> w"
  shows "n \<le> 4 * length es + 2 * d
    \<and> (qw_tasks w \<noteq> [] \<longrightarrow> (\<exists>w'. queue_step w w'))
    \<and> length (qw_queue w) \<le> max_events_per_user
    \<and> mset (qw_queue w) \<subseteq># mset q + mset es \<and> (\<forall>a \<in> set (qw_answers w). mset a \<subseteq># mset q + mset es)
    \<and> (qw_tasks w = [] \<longrightarrow> length (qw_answers w) = d
        \<and> (d = 0 \<longrightarrow> prefix q (qw_queue w) \<and> mset (qw_queue w) = mset q + mset es)
        \<and> (d = 1 \<longrightarrow> mset (concat (qw_answers w)) + mset (qw_queue w) \<subseteq># mset q + mset es)
        \<and> (0 < d \<longrightarrow> (\<exists>a \<in> set (qw_answers w). prefix q a)))"
proof -
  let ?w0 = "\<lparr>qw_queue = q, qw_tasks = ts, qw_answers = []\<rparr>"
  have steps: "n + world_work w \<le> world_work ?w0" using run
  proof (induction n arbitrary: w)
    case (Suc n)
    then obtain w1 where "(queue_step ^^ n) ?w0 w1" "queue_step w1 w" by auto
    with Suc.IH [of w1] queue_step_work [of w1 w] show ?case by simp
  qed simp
  have "world_work ?w0 = sum_mset (image_mset task_work (mset ts))" by (simp add: world_work_def sum_mset_sum_list [symmetric])
  also have "\<dots> = 4 * length es + 2 * d"
    unfolding handlers by (simp add: image_mset.compositionality comp_def)
  finally have bound: "n \<le> 4 * length es + 2 * d" using steps by simp
  have progress: "\<exists>w'. queue_step w w'" if "qw_tasks w \<noteq> []" using that by (intro exI) (rule queue_step.intros [of 0], simp)
  have "overlap_inv q (mset q + mset es) d w"
    by (rule overlap_inv_steps [OF relpowp_imp_rtranclp [OF run] overlap_inv_start [OF handlers cap]])
  then show ?thesis
    using bound progress unfolding overlap_inv_def
    by (auto dest: mset_subset_eq_add_left [THEN subset_mset.order_trans])
qed

theorem overlapping_handlers_settle_witness:
  "queue_step\<^sup>*\<^sup>* \<lparr>qw_queue = [], qw_tasks = [DrainStart, PushStart (event_of_body 0 sample_push)], qw_answers = []\<rparr>
      \<lparr>qw_queue = [event_of_body 0 sample_push], qw_tasks = [], qw_answers = [[]]\<rparr>
   \<and> length (qw_answers \<lparr>qw_queue = [event_of_body 0 sample_push], qw_tasks = [], qw_answers = [[]]\<rparr>) = 1"
proof -
  let ?e = "event_of_body 0 sample_push"
  let ?start = "\<lparr>qw_queue = [], qw_tasks = [DrainStart, PushStart ?e], qw_answers = []\<rparr>"
    and ?final = "\<lparr>qw_queue = [?e], qw_tasks = [], qw_answers = [[]]\<rparr>"
  have "run_schedule [0, 0, 0, 0] ?start = ?final" "schedule_ok [0, 0, 0, 0] ?start"
    by (simp_all add: run_schedule_def run_task_def settle_task_def max_events_per_user_def)
  then have reach: "queue_step\<^sup>*\<^sup>* ?start ?final" by (metis schedule_ok_steps)
  then obtain n where "(queue_step ^^ n) ?start ?final" by (auto simp: rtranclp_power)
  with overlapping_handlers_settle [of "[DrainStart, PushStart ?e]" "[?e]" 1 "[]" n ?final] reach show ?thesis
    by (simp add: max_events_per_user_def)
qed

text \<open>
  (overlapping pushes exceed the cap): two pushes that look at a queue of 49 events before either appends both find room, and leave 51.
\<close>

theorem overlapping_pushes_exceed_cap:
  assumes "length q = 49"
  shows "\<exists>w. queue_step\<^sup>*\<^sup>* \<lparr>qw_queue = q, qw_tasks = [PushStart e, PushStart e'], qw_answers = []\<rparr> w
    \<and> qw_tasks w = [] \<and> length (qw_queue w) = 51"
proof -
  let ?w = "\<lparr>qw_queue = q, qw_tasks = [PushStart e, PushStart e'], qw_answers = []\<rparr>"
  have "queue_step\<^sup>*\<^sup>* ?w (run_schedule [0, 1, 0, 0] ?w)"
    by (rule schedule_ok_steps) (simp add: run_task_def settle_task_def assms max_events_per_user_def)
  moreover have "run_schedule [0, 1, 0, 0] ?w = \<lparr>qw_queue = q @ [e, e'], qw_tasks = [], qw_answers = []\<rparr>"
    by (simp add: run_schedule_def run_task_def settle_task_def assms max_events_per_user_def)
  ultimately show ?thesis using assms by (intro exI [of _ "run_schedule [0, 1, 0, 0] ?w"]) simp
qed

theorem overlapping_pushes_exceed_cap_witness:
  "\<exists>w. queue_step\<^sup>*\<^sup>* \<lparr>qw_queue = replicate 49 (event_of_body 0 sample_push),
        qw_tasks = [PushStart (event_of_body 0 sample_push), PushStart (event_of_body 0 sample_push)], qw_answers = []\<rparr> w
    \<and> qw_tasks w = [] \<and> length (qw_queue w) = 51"
  by (rule overlapping_pushes_exceed_cap) simp

text \<open>
  (events lost between the read and the delete): an event pushed while a drain is between its read
  of the queue and its delete is stored and acknowledged, and then it is in no queue and in no answer; and two drains that
  overlap both deliver the whole queue. For a queue below the cap both schedules exist.
\<close>

theorem drain_loses_events:
  assumes "length q < 50" and "e \<notin> set q"
  shows "(\<exists>w. queue_step\<^sup>*\<^sup>* \<lparr>qw_queue = q, qw_tasks = [DrainStart, PushStart e], qw_answers = []\<rparr> w
        \<and> qw_tasks w = [] \<and> e \<notin> set (qw_queue w) \<and> (\<forall>es \<in> set (qw_answers w). e \<notin> set es))
    \<and> (\<exists>w. queue_step\<^sup>*\<^sup>* \<lparr>qw_queue = q, qw_tasks = [DrainStart, DrainStart], qw_answers = []\<rparr> w
        \<and> qw_tasks w = [] \<and> qw_answers w = [q, q])"
proof -
  have lt: "\<not> max_events_per_user \<le> length q" using assms(1) by (simp add: max_events_per_user_def)
  let ?w = "\<lparr>qw_queue = q, qw_tasks = [DrainStart, PushStart e], qw_answers = []\<rparr>"
  have "queue_step\<^sup>*\<^sup>* ?w (run_schedule [0, 1, 1, 0] ?w)"
    by (rule schedule_ok_steps) (simp add: run_task_def settle_task_def lt)
  moreover have "run_schedule [0, 1, 1, 0] ?w = \<lparr>qw_queue = [], qw_tasks = [], qw_answers = [q]\<rparr>"
    by (simp add: run_schedule_def run_task_def settle_task_def lt)
  ultimately have lost: "\<exists>w. queue_step\<^sup>*\<^sup>* ?w w \<and> qw_tasks w = [] \<and> e \<notin> set (qw_queue w) \<and> (\<forall>es \<in> set (qw_answers w). e \<notin> set es)"
    using assms(2) by (intro exI [of _ "run_schedule [0, 1, 1, 0] ?w"]) simp
  let ?v = "\<lparr>qw_queue = q, qw_tasks = [DrainStart, DrainStart], qw_answers = []\<rparr>"
  have "queue_step\<^sup>*\<^sup>* ?v (run_schedule [0, 1, 0, 0] ?v)"
    by (rule schedule_ok_steps) (simp add: run_task_def settle_task_def)
  moreover have "run_schedule [0, 1, 0, 0] ?v = \<lparr>qw_queue = [], qw_tasks = [], qw_answers = [q, q]\<rparr>"
    by (simp add: run_schedule_def run_task_def settle_task_def)
  ultimately have "\<exists>w. queue_step\<^sup>*\<^sup>* ?v w \<and> qw_tasks w = [] \<and> qw_answers w = [q, q]"
    by (intro exI [of _ "run_schedule [0, 1, 0, 0] ?v"]) simp
  with lost show ?thesis by blast
qed

theorem drain_loses_events_witness:
  "\<exists>w. queue_step\<^sup>*\<^sup>* \<lparr>qw_queue = [], qw_tasks = [DrainStart, PushStart (event_of_body 0 sample_push)], qw_answers = []\<rparr> w
      \<and> qw_tasks w = [] \<and> event_of_body 0 sample_push \<notin> set (qw_queue w)
      \<and> (\<forall>es \<in> set (qw_answers w). event_of_body 0 sample_push \<notin> set es)"
  using drain_loses_events [of "[]" "event_of_body 0 sample_push"] by simp

section \<open>User state documents and sessions\<close>

definition put_user_state ::
    "('r, 'p) mem_redis \<Rightarrow> 'p mem_codec \<Rightarrow> string \<Rightarrow> string \<Rightarrow> (string \<times> pyval) list \<Rightarrow> 'r \<Rightarrow> 'r option" where
  "put_user_state api cd tenant_id user_id doc s =
     r_set api (user_state_key tenant_id user_id) (enc_doc cd doc) s"

definition get_user_state ::
    "('r, 'p) mem_redis \<Rightarrow> 'p mem_codec \<Rightarrow> string \<Rightarrow> string \<Rightarrow> 'r \<Rightarrow> (string \<times> pyval) list option" where
  "get_user_state api cd tenant_id user_id s = do {
     raw \<leftarrow> r_get api (user_state_key tenant_id user_id) s;
     case raw of None \<Rightarrow> Some [] | Some p \<Rightarrow> dec_doc cd p }"

record session_settings =
  session_ttl_hours :: int
  session_max_size_bytes :: nat

definition default_session_settings :: session_settings where
  "default_session_settings = \<lparr>session_ttl_hours = 4, session_max_size_bytes = 262144\<rparr>"

definition get_mem_session ::
    "('r, 'p) mem_redis \<Rightarrow> 'p mem_codec \<Rightarrow> string \<Rightarrow> 'r \<Rightarrow> (nat + (string \<times> pyval) list) option" where
  "get_mem_session api cd session_id s = do {
     raw \<leftarrow> r_get api (session_key session_id) s;
     case raw of None \<Rightarrow> Some (Inl 404) | Some p \<Rightarrow> map_option Inr (dec_doc cd p) }"

definition put_mem_session ::
    "('r, 'p) mem_redis \<Rightarrow> 'p mem_codec \<Rightarrow> session_settings \<Rightarrow> string \<Rightarrow> (string \<times> pyval) list \<Rightarrow> 'r \<Rightarrow>
     ((nat + int) \<times> 'r) option" where
  "put_mem_session api cd st session_id doc s =
     (let payload = enc_doc cd doc; ttl_seconds = session_ttl_hours st * 3600
      in if session_max_size_bytes st < text_bytes cd payload then Some (Inl 413, s)
         else map_option (Pair (Inr ttl_seconds)) (r_setex api (session_key session_id) payload ttl_seconds s))"

definition delete_mem_session ::
    "('r, 'p) mem_redis \<Rightarrow> string \<Rightarrow> 'r \<Rightarrow> ((nat + unit) \<times> 'r) option" where
  "delete_mem_session api session_id s = do {
     (deleted, s1) \<leftarrow> r_delete api (session_key session_id) s;
     Some (if deleted = 0 then Inl 404 else Inr (), s1) }"

lemma user_state_round_trip:
  assumes "redis_laws api view" and "codec_laws cd"
  shows "\<exists>s'. put_user_state api cd t u doc s = Some s' \<and> get_user_state api cd t u s' = Some doc"
  using redis_lawsD(2) [OF assms(1), of "user_state_key t u" "enc_doc cd doc" s] redis_lawsD(1) [OF assms(1)]
    codec_lawsD(4) [OF assms(2)]
  by (fastforce simp: put_user_state_def get_user_state_def)

end
