(* ===== verification/Mem_Decisions.thy ===== *)
theory Mem_Decisions
  imports Mem_Redis
begin

text \<open>
  Evaluation decisions (\<^verbatim>\<open>routes/evaluation_decisions.py\<close>), comments (\<^verbatim>\<open>routes/evaluation_comments.py\<close>)
  and all Redis-backed endpoints of the memory service as one transition system: whatever requests
  arrive, in whatever order, no command finds a value of the wrong kind, every handler answers, and the
  stored documents keep their invariant.
\<close>

section \<open>Decisions\<close>

record decision_create_body =
  dc_evaluation_id :: string
  dc_tenant_id :: string
  dc_control_id :: string
  dc_framework :: string
  dc_ai_score :: real
  dc_ai_status :: string

record decision_override_body =
  do_evaluation_id :: string
  do_tenant_id :: string
  do_criterion_id :: string
  do_ai_result :: string
  do_user_result :: string
  do_reason :: string
  do_overridden_by :: string

record decision_approve_body =
  da_evaluation_id :: string
  da_tenant_id :: string
  da_approved_by :: string
  da_notes :: string

record decision_list_body =
  dl_tenant_id :: string
  dl_framework :: "string option"
  dl_status :: "string option"
  dl_limit :: int

definition new_decision :: "real \<Rightarrow> real \<Rightarrow> decision_create_body \<Rightarrow> eval_decision" where
  "new_decision created updated b =
     \<lparr>ed_evaluation_id = dc_evaluation_id b, ed_tenant_id = dc_tenant_id b,
      ed_control_id = dc_control_id b, ed_framework = dc_framework b,
      ed_ai_score = dc_ai_score b, ed_ai_status = dc_ai_status b,
      ed_final_score = dc_ai_score b, ed_final_status = dc_ai_status b,
      ed_status = ''draft'', ed_overrides = [], ed_approved_by = None, ed_approved_at = None,
      ed_notes = None, ed_created_at = created, ed_updated_at = updated\<rparr>"

definition create_decision ::
    "('r, 'p) mem_redis \<Rightarrow> 'p mem_codec \<Rightarrow> real \<Rightarrow> real \<Rightarrow> decision_create_body \<Rightarrow> 'r \<Rightarrow>
     (eval_decision \<times> 'r) option" where
  "create_decision api cd created updated body s = do {
     let decision = new_decision created updated body;
     s1 \<leftarrow> r_set api (decision_key (dc_tenant_id body) (dc_evaluation_id body)) (enc_decision cd decision) s;
     s2 \<leftarrow> r_sadd api (tenant_index_key (dc_tenant_id body)) (dc_evaluation_id body) s1;
     Some (decision, s2) }"

definition get_decision ::
    "('r, 'p) mem_redis \<Rightarrow> 'p mem_codec \<Rightarrow> string \<Rightarrow> string \<Rightarrow> 'r \<Rightarrow> eval_decision option option" where
  "get_decision api cd tenant_id evaluation_id s = do {
     raw \<leftarrow> r_get api (decision_key tenant_id evaluation_id) s;
     case raw of None \<Rightarrow> Some None | Some p \<Rightarrow> map_option Some (dec_decision cd p) }"

definition new_override :: "string \<Rightarrow> real \<Rightarrow> decision_override_body \<Rightarrow> override_entry" where
  "new_override uuid now b =
     \<lparr>ov_id = uuid, ov_criterion_id = do_criterion_id b, ov_ai_result = do_ai_result b,
      ov_user_result = do_user_result b, ov_reason = do_reason b,
      ov_overridden_by = do_overridden_by b, ov_overridden_at = now\<rparr>"

definition override_criterion ::
    "('r, 'p) mem_redis \<Rightarrow> 'p mem_codec \<Rightarrow> string \<Rightarrow> real \<Rightarrow> real \<Rightarrow> decision_override_body \<Rightarrow> 'r \<Rightarrow>
     ((nat + override_entry) \<times> 'r) option" where
  "override_criterion api cd uuid now now' body s =
     (if str_strip (do_reason body) = [] then Some (Inl 422, s)
      else do {
        let key = decision_key (do_tenant_id body) (do_evaluation_id body);
        raw \<leftarrow> r_get api key s;
        case raw of
          None \<Rightarrow> Some (Inl 404, s)
        | Some p \<Rightarrow> do {
            decision \<leftarrow> dec_decision cd p;
            let override = new_override uuid now body;
            let decision' = decision\<lparr>ed_overrides := ed_overrides decision @ [override], ed_updated_at := now'\<rparr>;
            s1 \<leftarrow> r_set api key (enc_decision cd decision') s;
            Some (Inr override, s1) } })"

definition approved :: "real \<Rightarrow> real \<Rightarrow> decision_approve_body \<Rightarrow> eval_decision \<Rightarrow> eval_decision" where
  "approved now now' b d =
     d\<lparr>ed_status := ''approved'', ed_approved_by := Some (da_approved_by b),
       ed_approved_at := Some now, ed_notes := Some (da_notes b), ed_updated_at := now'\<rparr>"

definition approve_decision ::
    "('r, 'p) mem_redis \<Rightarrow> 'p mem_codec \<Rightarrow> real \<Rightarrow> real \<Rightarrow> decision_approve_body \<Rightarrow> 'r \<Rightarrow>
     ((nat + eval_decision) \<times> 'r) option" where
  "approve_decision api cd now now' body s = do {
     let key = decision_key (da_tenant_id body) (da_evaluation_id body);
     raw \<leftarrow> r_get api key s;
     case raw of
       None \<Rightarrow> Some (Inl 404, s)
     | Some p \<Rightarrow> do {
         d \<leftarrow> dec_decision cd p;
         let decision = approved now now' body d;
         s1 \<leftarrow> r_set api key (enc_decision cd decision) s;
         Some (Inr decision, s1) } }"

definition wanted :: "string option \<Rightarrow> string \<Rightarrow> bool" where
  "wanted flt v \<longleftrightarrow> (case flt of None \<Rightarrow> True | Some f \<Rightarrow> f = [] \<or> v = f)"

text \<open>The loop of \<^verbatim>\<open>list_decisions\<close>: it stops as soon as it holds as many decisions as the limit.\<close>

fun collect_decisions ::
    "('r, 'p) mem_redis \<Rightarrow> 'p mem_codec \<Rightarrow> decision_list_body \<Rightarrow> 'r \<Rightarrow> string list \<Rightarrow> eval_decision list \<Rightarrow>
     eval_decision list option" where
  "collect_decisions api cd body s [] acc = Some acc"
| "collect_decisions api cd body s (eval_id # ids) acc =
     (case r_get api (decision_key (dl_tenant_id body) eval_id) s of
        None \<Rightarrow> None
      | Some None \<Rightarrow> collect_decisions api cd body s ids acc
      | Some (Some p) \<Rightarrow>
          (case dec_decision cd p of
             None \<Rightarrow> None
           | Some d \<Rightarrow>
               if \<not> wanted (dl_framework body) (ed_framework d) then collect_decisions api cd body s ids acc
               else if \<not> wanted (dl_status body) (ed_status d) then collect_decisions api cd body s ids acc
               else if dl_limit body \<le> int (length (acc @ [d])) then Some (acc @ [d])
               else collect_decisions api cd body s ids (acc @ [d])))"

definition newest_first :: "eval_decision list \<Rightarrow> eval_decision list" where
  "newest_first ds = sort_key (\<lambda>d. - ed_created_at d) ds"

definition list_decisions ::
    "('r, 'p) mem_redis \<Rightarrow> 'p mem_codec \<Rightarrow> decision_list_body \<Rightarrow> 'r \<Rightarrow> eval_decision list option" where
  "list_decisions api cd body s = do {
     evaluation_ids \<leftarrow> r_smembers api (tenant_index_key (dl_tenant_id body)) s;
     if evaluation_ids = [] then Some []
     else map_option newest_first (collect_decisions api cd body s evaluation_ids []) }"

section \<open>Comments\<close>

record comment_add_body =
  ca_evaluation_id :: string
  ca_tenant_id :: string
  ca_author_id :: string
  ca_author_role :: string
  ca_content :: string
  ca_criterion_id :: "string option"
  ca_parent_comment_id :: "string option"

definition new_comment :: "string \<Rightarrow> real \<Rightarrow> comment_add_body \<Rightarrow> eval_comment" where
  "new_comment uuid now b =
     \<lparr>ec_comment_id = uuid, ec_evaluation_id = ca_evaluation_id b, ec_tenant_id = ca_tenant_id b,
      ec_criterion_id = ca_criterion_id b, ec_author_id = ca_author_id b,
      ec_author_role = ca_author_role b, ec_content = ca_content b,
      ec_parent_comment_id = ca_parent_comment_id b, ec_created_at = now\<rparr>"

definition add_comment ::
    "('r, 'p) mem_redis \<Rightarrow> 'p mem_codec \<Rightarrow> string \<Rightarrow> real \<Rightarrow> comment_add_body \<Rightarrow> 'r \<Rightarrow>
     (eval_comment \<times> 'r) option" where
  "add_comment api cd uuid now body s = do {
     let comment = new_comment uuid now body;
     s1 \<leftarrow> r_rpush api (comments_key (ca_tenant_id body) (ca_evaluation_id body)) (enc_comment cd comment) s;
     Some (comment, s1) }"

definition list_comments ::
    "('r, 'p) mem_redis \<Rightarrow> 'p mem_codec \<Rightarrow> string \<Rightarrow> string \<Rightarrow> 'r \<Rightarrow> eval_comment list option" where
  "list_comments api cd tenant_id evaluation_id s = do {
     raw_comments \<leftarrow> r_lrange api (comments_key tenant_id evaluation_id) s;
     those (map (dec_comment cd) raw_comments) }"

section \<open>The endpoints as one system\<close>

datatype mem_request =
    EventPush real event_push_body
  | EventDrain string string
  | StateGet string string
  | StatePut string string "(string \<times> pyval) list"
  | SessionGet string
  | SessionPut string "(string \<times> pyval) list"
  | SessionDelete string
  | DecisionCreate real real decision_create_body
  | DecisionGet string string
  | DecisionOverride string real real decision_override_body
  | DecisionApprove real real decision_approve_body
  | DecisionList decision_list_body
  | CommentAdd string real comment_add_body
  | CommentList string string

datatype mem_answer =
    Refused nat
  | Done
  | Events "queued_event list"
  | Doc "(string \<times> pyval) list"
  | Stored int
  | Decision eval_decision
  | NoDecision
  | Override override_entry
  | Decisions "eval_decision list"
  | Comment eval_comment
  | Comments "eval_comment list"

definition answer_of :: "('a \<Rightarrow> mem_answer) \<Rightarrow> nat + 'a \<Rightarrow> mem_answer" where
  "answer_of f r = (case r of Inl code \<Rightarrow> Refused code | Inr x \<Rightarrow> f x)"

lemma answer_of_refused [simp]:
  "(\<And>x. f x \<noteq> Refused c) \<Longrightarrow> answer_of f z = Refused c \<longleftrightarrow> z = Inl c"
  by (auto simp: answer_of_def split: sum.splits)

fun mem_serve ::
    "('r, 'p) mem_redis \<Rightarrow> 'p mem_codec \<Rightarrow> session_settings \<Rightarrow> mem_request \<Rightarrow> 'r \<Rightarrow> (mem_answer \<times> 'r) option" where
  "mem_serve api cd st (EventPush now b) s = map_option (Pair Done) (push_event api cd now b s)"
| "mem_serve api cd st (EventDrain t u) s = map_option (map_prod Events id) (drain_events api cd t u s)"
| "mem_serve api cd st (StateGet t u) s = map_option (\<lambda>d. (Doc d, s)) (get_user_state api cd t u s)"
| "mem_serve api cd st (StatePut t u doc) s = map_option (Pair Done) (put_user_state api cd t u doc s)"
| "mem_serve api cd st (SessionGet i) s = map_option (\<lambda>r. (answer_of Doc r, s)) (get_mem_session api cd i s)"
| "mem_serve api cd st (SessionPut i doc) s = map_option (map_prod (answer_of Stored) id) (put_mem_session api cd st i doc s)"
| "mem_serve api cd st (SessionDelete i) s = map_option (map_prod (answer_of (\<lambda>u. Done)) id) (delete_mem_session api i s)"
| "mem_serve api cd st (DecisionCreate t1 t2 b) s = map_option (map_prod Decision id) (create_decision api cd t1 t2 b s)"
| "mem_serve api cd st (DecisionGet t e) s =
     map_option (\<lambda>d. (case d of None \<Rightarrow> NoDecision | Some d \<Rightarrow> Decision d, s)) (get_decision api cd t e s)"
| "mem_serve api cd st (DecisionOverride i t1 t2 b) s =
     map_option (map_prod (answer_of Override) id) (override_criterion api cd i t1 t2 b s)"
| "mem_serve api cd st (DecisionApprove t1 t2 b) s =
     map_option (map_prod (answer_of Decision) id) (approve_decision api cd t1 t2 b s)"
| "mem_serve api cd st (DecisionList b) s = map_option (\<lambda>ds. (Decisions ds, s)) (list_decisions api cd b s)"
| "mem_serve api cd st (CommentAdd i now b) s = map_option (map_prod Comment id) (add_comment api cd i now b s)"
| "mem_serve api cd st (CommentList t e) s = map_option (\<lambda>cs. (Comments cs, s)) (list_comments api cd t e s)"

text \<open>
  What a stored decision keeps: the final score and status are the AI's, the status is draft or
  approved, the approval fields are set exactly when it was approved, and no override lacks a reason.
\<close>

definition decision_inv :: "eval_decision \<Rightarrow> bool" where
  "decision_inv d \<longleftrightarrow>
     ed_final_score d = ed_ai_score d \<and> ed_final_status d = ed_ai_status d
   \<and> (ed_status d = ''draft'' \<and> ed_approved_by d = None \<and> ed_approved_at d = None \<and> ed_notes d = None
      \<or> ed_status d = ''approved'' \<and> ed_approved_by d \<noteq> None \<and> ed_approved_at d \<noteq> None \<and> ed_notes d \<noteq> None)
   \<and> (\<forall>v \<in> set (ed_overrides d). str_strip (ov_reason v) \<noteq> [])"

text \<open>The kinds of the keys, and what is stored under each.\<close>

definition store_ok :: "'p mem_codec \<Rightarrow> (string \<Rightarrow> 'p rvalue option) \<Rightarrow> bool" where
  "store_ok cd v \<longleftrightarrow>
     (\<forall>t u. \<exists>q. v (event_key t u) = put_list (map (enc_event cd) q) \<and> length q \<le> max_events_per_user)
   \<and> (\<forall>t u. \<exists>cs. v (comments_key t u) = put_list (map (enc_comment cd) cs))
   \<and> (\<forall>t u. v (user_state_key t u) = None \<or> (\<exists>doc. v (user_state_key t u) = Some (RStr (enc_doc cd doc))))
   \<and> (\<forall>i. v (session_key i) = None \<or> (\<exists>doc. v (session_key i) = Some (RStr (enc_doc cd doc))))
   \<and> (\<forall>t e. v (decision_key t e) = None
        \<or> (\<exists>d. v (decision_key t e) = Some (RStr (enc_decision cd d)) \<and> decision_inv d
             \<and> decision_key (ed_tenant_id d) (ed_evaluation_id d) = decision_key t e))
   \<and> (\<forall>t. \<exists>ms. (v (tenant_index_key t) = None \<and> ms = {||} \<or> v (tenant_index_key t) = Some (RSet ms))
        \<and> (\<forall>m. m |\<in>| ms \<longrightarrow> v (decision_key t m) \<noteq> None))"

lemma store_okD:
  assumes "store_ok cd v"
  shows "\<exists>q. v (event_key t u) = put_list (map (enc_event cd) q) \<and> length q \<le> max_events_per_user"
    and "\<exists>cs. v (comments_key t u) = put_list (map (enc_comment cd) cs)"
    and "v (user_state_key t u) = None \<or> (\<exists>doc. v (user_state_key t u) = Some (RStr (enc_doc cd doc)))"
    and "v (session_key i) = None \<or> (\<exists>doc. v (session_key i) = Some (RStr (enc_doc cd doc)))"
    and "v (decision_key t u) = None \<or> (\<exists>d. v (decision_key t u) = Some (RStr (enc_decision cd d))
        \<and> decision_inv d \<and> decision_key (ed_tenant_id d) (ed_evaluation_id d) = decision_key t u)"
    and "\<exists>ms. (v (tenant_index_key t) = None \<and> ms = {||} \<or> v (tenant_index_key t) = Some (RSet ms))
        \<and> (\<forall>m. m |\<in>| ms \<longrightarrow> v (decision_key t m) \<noteq> None)"
  using assms unfolding store_ok_def by (elim conjE, blast)+

lemma store_ok_init: "store_ok cd (\<lambda>k. None)"
  by (simp add: store_ok_def put_list_def)

lemma store_ok_event:
  assumes "store_ok cd v" and "length q \<le> max_events_per_user"
  shows "store_ok cd (v(event_key t u := put_list (map (enc_event cd) q)))"
  unfolding store_ok_def
  using store_okD [OF assms(1)] assms(2) by (auto simp: key_kinds')

lemma store_ok_comments:
  assumes "store_ok cd v"
  shows "store_ok cd (v(comments_key t u := put_list (map (enc_comment cd) cs)))"
  unfolding store_ok_def
  using store_okD [OF assms(1)] by (auto simp: key_kinds')

lemma store_ok_state:
  assumes "store_ok cd v"
  shows "store_ok cd (v(user_state_key t u := Some (RStr (enc_doc cd doc))))"
  unfolding store_ok_def
  using store_okD [OF assms(1)] by (auto simp: key_kinds')

lemma store_ok_session:
  assumes "store_ok cd v"
  shows "store_ok cd (v(session_key i := Some (RStr (enc_doc cd doc))))"
    and "store_ok cd (v(session_key i := None))"
  unfolding store_ok_def
  using store_okD [OF assms(1)] by (auto simp: key_kinds')

lemma store_ok_decision:
  assumes "store_ok cd v" and "decision_inv d"
    and "decision_key (ed_tenant_id d) (ed_evaluation_id d) = decision_key t e"
  shows "store_ok cd (v(decision_key t e := Some (RStr (enc_decision cd d))))"
proof -
  let ?v = "v(decision_key t e := Some (RStr (enc_decision cd d)))"
  have "\<exists>ms. (?v (tenant_index_key t') = None \<and> ms = {||} \<or> ?v (tenant_index_key t') = Some (RSet ms))
        \<and> (\<forall>m. m |\<in>| ms \<longrightarrow> ?v (decision_key t' m) \<noteq> None)" for t'
  proof -
    obtain ms where "v (tenant_index_key t') = None \<and> ms = {||} \<or> v (tenant_index_key t') = Some (RSet ms)"
      and "\<forall>m. m |\<in>| ms \<longrightarrow> v (decision_key t' m) \<noteq> None"
      using store_okD(6) [OF assms(1), of t'] by blast
    then show ?thesis by (intro exI [of _ ms]) (simp add: key_kinds')
  qed
  then show ?thesis
    unfolding store_ok_def
    using store_okD(1-5) [OF assms(1)] assms(2,3) by (simp add: key_kinds') blast
qed

lemma tenant_index_key_inj [simp]: "tenant_index_key t = tenant_index_key t' \<longleftrightarrow> t = t'"
  by (simp add: tenant_index_key_def)

lemma store_ok_index:
  assumes "store_ok cd v" and "v (tenant_index_key t) = None \<and> ms = {||} \<or> v (tenant_index_key t) = Some (RSet ms)"
    and "v (decision_key t e) \<noteq> None" and "\<forall>m. m |\<in>| ms \<longrightarrow> v (decision_key t m) \<noteq> None"
  shows "store_ok cd (v(tenant_index_key t := Some (RSet (finsert e ms))))"
  unfolding store_ok_def
  using store_okD [OF assms(1)] assms(2-4) by (auto simp: key_kinds')

section \<open>Every request is answered and keeps the store well-formed\<close>

definition answers_ok ::
    "('r, 'p) mem_redis \<Rightarrow> 'p mem_codec \<Rightarrow> session_settings \<Rightarrow> ('r \<Rightarrow> string \<Rightarrow> 'p rvalue option) \<Rightarrow> mem_request \<Rightarrow> 'r \<Rightarrow> bool" where
  "answers_ok api cd st view r s \<longleftrightarrow> (\<exists>a s'. mem_serve api cd st r s = Some (a, s') \<and> store_ok cd (view s'))"

lemma answers_okI:
  "mem_serve api cd st r s = Some (a, s') \<Longrightarrow> store_ok cd (view s') \<Longrightarrow> answers_ok api cd st view r s"
  unfolding answers_ok_def by blast

lemma decision_at [consumes 3, case_names absent present]:
  assumes redis: "redis_laws api view" and codec: "codec_laws cd" and ok: "store_ok cd (view s)"
  obtains (absent) "view s (decision_key t e) = None" "r_get api (decision_key t e) s = Some None"
  | (present) d where "view s (decision_key t e) = Some (RStr (enc_decision cd d))" "decision_inv d"
      "decision_key (ed_tenant_id d) (ed_evaluation_id d) = decision_key t e"
      "r_get api (decision_key t e) s = Some (Some (enc_decision cd d))"
      "dec_decision cd (enc_decision cd d) = Some d"
proof (cases "view s (decision_key t e)")
  case None
  then have "r_get api (decision_key t e) s = Some None"
    using redis_lawsD(1) [OF redis, of s "decision_key t e" None] by simp
  with None show ?thesis by (rule absent)
next
  case (Some x)
  then obtain d where d: "view s (decision_key t e) = Some (RStr (enc_decision cd d))" "decision_inv d"
      "decision_key (ed_tenant_id d) (ed_evaluation_id d) = decision_key t e"
    using store_okD(5) [OF ok, of t e] by auto
  moreover have "r_get api (decision_key t e) s = Some (Some (enc_decision cd d))"
    using redis_lawsD(1) [OF redis, of s "decision_key t e" "Some (enc_decision cd d)"] d(1) by simp
  ultimately show ?thesis using codec_lawsD(2) [OF codec, of d] by (rule present)
qed

lemma event_requests_ok:
  assumes redis: "redis_laws api view" and codec: "codec_laws cd" and ok: "store_ok cd (view s)"
  shows "answers_ok api cd st view (EventPush now b) s"
    and "answers_ok api cd st view (EventDrain t u) s"
proof -
  let ?k = "event_key (pb_tenant_id b) (pb_user_id b)"
  obtain q where q: "view s ?k = put_list (map (enc_event cd) q)" and len: "length q \<le> max_events_per_user"
    using store_okD(1) [OF ok] by blast
  obtain s1 where s1: "push_event api cd now b s = Some s1"
    and v1: "view s1 = (view s)(?k := put_list (map (enc_event cd) (queue_push (event_of_body now b) q)))"
    using push_event_refines [OF redis codec q] by metis
  show "answers_ok api cd st view (EventPush now b) s"
  proof (rule answers_okI)
    show "mem_serve api cd st (EventPush now b) s = Some (Done, s1)" by (simp add: s1)
    show "store_ok cd (view s1)"
      unfolding v1 by (rule store_ok_event [OF ok queue_push_length [OF len]])
  qed
  obtain r where r: "view s (event_key t u) = put_list (map (enc_event cd) r)"
    using store_okD(1) [OF ok] by blast
  obtain s2 where s2: "drain_events api cd t u s = Some (r, s2)" and v2: "view s2 = (view s)(event_key t u := None)"
    using drain_events_refines [OF redis codec r] by metis
  show "answers_ok api cd st view (EventDrain t u) s"
  proof (rule answers_okI)
    show "mem_serve api cd st (EventDrain t u) s = Some (Events r, s2)" by (simp add: s2)
    show "store_ok cd (view s2)"
      using store_ok_event [OF ok, of "[]" t u] by (simp add: v2 put_list_def)
  qed
qed

lemma document_requests_ok:
  assumes redis: "redis_laws api view" and codec: "codec_laws cd" and ok: "store_ok cd (view s)"
    and ttl: "0 < session_ttl_hours st"
  shows "answers_ok api cd st view (StateGet t u) s"
    and "answers_ok api cd st view (StatePut t u doc) s"
    and "answers_ok api cd st view (SessionGet i) s"
    and "answers_ok api cd st view (SessionPut i doc) s"
    and "answers_ok api cd st view (SessionDelete i) s"
proof -
  note get = redis_lawsD(1) [OF redis] and dec = codec_lawsD(4) [OF codec]
  have state: "view s (user_state_key t u) = None \<or> (\<exists>doc. view s (user_state_key t u) = Some (RStr (enc_doc cd doc)))"
    by (rule store_okD(3) [OF ok])
  have "\<exists>d. get_user_state api cd t u s = Some d"
    using state
  proof (elim disjE exE)
    assume "view s (user_state_key t u) = None"
    then show ?thesis using get [of s "user_state_key t u" None] by (simp add: get_user_state_def)
  next
    fix doc assume "view s (user_state_key t u) = Some (RStr (enc_doc cd doc))"
    then show ?thesis using get [of s "user_state_key t u" "Some (enc_doc cd doc)"] dec
      by (simp add: get_user_state_def)
  qed
  then show "answers_ok api cd st view (StateGet t u) s"
    using ok by (auto simp: answers_ok_def)
  obtain s1 where "r_set api (user_state_key t u) (enc_doc cd doc) s = Some s1"
    and v1: "view s1 = (view s)(user_state_key t u := Some (RStr (enc_doc cd doc)))"
    using redis_lawsD(2) [OF redis, of "user_state_key t u" "enc_doc cd doc" s] by metis
  then show "answers_ok api cd st view (StatePut t u doc) s"
    using store_ok_state [OF ok, of t u doc] by (intro answers_okI) (auto simp: put_user_state_def)
  have sess: "view s (session_key i) = None \<or> (\<exists>doc. view s (session_key i) = Some (RStr (enc_doc cd doc)))"
    by (rule store_okD(4) [OF ok])
  have "\<exists>d. get_mem_session api cd i s = Some d"
    using sess
  proof (elim disjE exE)
    assume "view s (session_key i) = None"
    then show ?thesis using get [of s "session_key i" None] by (simp add: get_mem_session_def)
  next
    fix doc assume "view s (session_key i) = Some (RStr (enc_doc cd doc))"
    then show ?thesis using get [of s "session_key i" "Some (enc_doc cd doc)"] dec
      by (simp add: get_mem_session_def)
  qed
  then show "answers_ok api cd st view (SessionGet i) s"
    using ok by (auto simp: answers_ok_def)
  have pos: "0 < session_ttl_hours st * 3600" using ttl by simp
  obtain s2 where s2: "r_setex api (session_key i) (enc_doc cd doc) (session_ttl_hours st * 3600) s = Some s2"
    and v2: "view s2 = (view s)(session_key i := Some (RStr (enc_doc cd doc)))"
    using redis_lawsD(3) [OF redis pos, of "session_key i" "enc_doc cd doc" s] by metis
  have "store_ok cd (view s2)" unfolding v2 by (rule store_ok_session(1) [OF ok])
  then show "answers_ok api cd st view (SessionPut i doc) s"
    using s2 ok by (auto simp: answers_ok_def put_mem_session_def Let_def)
  obtain n s3 where s3: "r_delete api (session_key i) s = Some (n, s3)"
    and v3: "view s3 = (view s)(session_key i := None)"
    using redis_lawsD(4) [OF redis, of "session_key i" s] by metis
  have "store_ok cd (view s3)" unfolding v3 by (rule store_ok_session(2) [OF ok])
  then show "answers_ok api cd st view (SessionDelete i) s"
    using s3 by (auto simp: answers_ok_def delete_mem_session_def)
qed

definition stored_decision :: "'p mem_codec \<Rightarrow> (string \<Rightarrow> 'p rvalue option) \<Rightarrow> string \<Rightarrow> string \<Rightarrow> eval_decision option" where
  "stored_decision cd v t e =
     (case v (decision_key t e) of Some (RStr p) \<Rightarrow> dec_decision cd p | _ \<Rightarrow> None)"

definition listed :: "decision_list_body \<Rightarrow> eval_decision \<Rightarrow> bool" where
  "listed b d \<longleftrightarrow> wanted (dl_framework b) (ed_framework d) \<and> wanted (dl_status b) (ed_status d)"

definition listable :: "'p mem_codec \<Rightarrow> (string \<Rightarrow> 'p rvalue option) \<Rightarrow> decision_list_body \<Rightarrow> string list \<Rightarrow> eval_decision list" where
  "listable cd v b ids = filter (listed b) (List.map_filter (stored_decision cd v (dl_tenant_id b)) ids)"

lemma listable_simps [simp]:
  "listable cd v b [] = []"
  "listable cd v b (e # ids) =
     (case stored_decision cd v (dl_tenant_id b) e of
        None \<Rightarrow> listable cd v b ids
      | Some d \<Rightarrow> if listed b d then d # listable cd v b ids else listable cd v b ids)"
  by (simp_all add: listable_def map_filter_simps split: option.splits)

definition page :: "decision_list_body \<Rightarrow> nat" where
  "page b = max 1 (nat (dl_limit b))"

lemma collect_decisions_page:
  assumes redis: "redis_laws api view" and codec: "codec_laws cd" and ok: "store_ok cd (view s)"
  shows "length acc < page b \<Longrightarrow>
    collect_decisions api cd b s ids acc = Some (take (page b) (acc @ listable cd (view s) b ids))"
proof (induction ids arbitrary: acc)
  case (Cons e ids)
  show ?case
  using redis codec ok
  proof (cases rule: decision_at [where t = "dl_tenant_id b" and e = e])
    case absent
    then show ?thesis using Cons by (simp add: stored_decision_def)
  next
    case (present d)
    have stored: "stored_decision cd (view s) (dl_tenant_id b) e = Some d"
      by (simp add: stored_decision_def present)
    show ?thesis
    proof (cases "listed b d")
      case False
      then show ?thesis using Cons present stored by (auto simp: listed_def)
    next
      case True
      then have w: "wanted (dl_framework b) (ed_framework d)" "wanted (dl_status b) (ed_status d)"
        by (simp_all add: listed_def)
      show ?thesis
      proof (cases "dl_limit b \<le> int (length (acc @ [d]))")
        case True
        then have "page b = length (acc @ [d])" using Cons.prems by (simp add: page_def)
        then have "take (page b) (acc @ listable cd (view s) b (e # ids)) = acc @ [d]"
          using stored \<open>listed b d\<close> by simp
        then show ?thesis using True present w by (simp del: listable_simps)
      next
        case False
        then have "length (acc @ [d]) < page b" by (simp add: page_def)
        from Cons.IH [OF this] show ?thesis
          using False present w stored \<open>listed b d\<close> by simp
      qed
    qed
  qed
qed simp

lemma list_decisions_page:
  assumes redis: "redis_laws api view" and codec: "codec_laws cd" and ok: "store_ok cd (view s)"
  shows "\<exists>ids. set ids = {e. \<exists>ms. view s (tenant_index_key (dl_tenant_id b)) = Some (RSet ms) \<and> e |\<in>| ms}
      \<and> distinct ids
      \<and> list_decisions api cd b s = Some (newest_first (take (page b) (listable cd (view s) b ids)))"
proof -
  let ?k = "tenant_index_key (dl_tenant_id b)"
  obtain ms where ms: "view s ?k = None \<and> ms = {||} \<or> view s ?k = Some (RSet ms)"
    using store_okD(6) [OF ok] by blast
  then have "set_at (view s ?k) = Some ms" by auto
  then obtain ids where ids: "r_smembers api ?k s = Some ids" "distinct ids" "set ids = fset ms"
    using redis_lawsD(11) [OF redis, of s ?k ms] by metis
  have "page b > 0" by (simp add: page_def)
  then have "list_decisions api cd b s = Some (newest_first (take (page b) (listable cd (view s) b ids)))"
    using ids(1) collect_decisions_page [OF redis codec ok, of "[]" b ids]
    by (simp add: list_decisions_def newest_first_def)
  moreover have "set ids = {e. \<exists>ms. view s ?k = Some (RSet ms) \<and> e |\<in>| ms}"
    using ms by (elim disjE conjE) (simp_all add: ids(3))
  ultimately show ?thesis using ids(2) by blast
qed

lemma decision_inv_steps:
  "decision_inv (new_decision t1 t2 b)"
  "decision_inv d \<Longrightarrow> str_strip (do_reason ob) \<noteq> [] \<Longrightarrow>
     decision_inv (d\<lparr>ed_overrides := ed_overrides d @ [new_override i t1 ob], ed_updated_at := t2\<rparr>)"
  "decision_inv d \<Longrightarrow> decision_inv (approved t1 t2 ab d)"
  by (auto simp: decision_inv_def new_decision_def new_override_def approved_def)

lemma decision_create_ok:
  assumes redis: "redis_laws api view" and ok: "store_ok cd (view s)"
  shows "answers_ok api cd st view (DecisionCreate t1 t2 b) s"
proof -
  let ?k = "decision_key (dc_tenant_id b) (dc_evaluation_id b)" and ?i = "tenant_index_key (dc_tenant_id b)"
  let ?d = "new_decision t1 t2 b"
  obtain s1 where s1: "r_set api ?k (enc_decision cd ?d) s = Some s1"
    and v1: "view s1 = (view s)(?k := Some (RStr (enc_decision cd ?d)))"
    using redis_lawsD(2) [OF redis, of ?k "enc_decision cd ?d" s] by metis
  have ok1: "store_ok cd (view s1)"
    unfolding v1 by (rule store_ok_decision [OF ok decision_inv_steps(1)]) (simp add: new_decision_def)
  obtain ms where ms: "view s1 ?i = None \<and> ms = {||} \<or> view s1 ?i = Some (RSet ms)"
    and idx: "\<forall>m. m |\<in>| ms \<longrightarrow> view s1 (decision_key (dc_tenant_id b) m) \<noteq> None"
    using store_okD(6) [OF ok1] by blast
  have "set_at (view s1 ?i) = Some ms" using ms by auto
  then obtain s2 where s2: "r_sadd api ?i (dc_evaluation_id b) s1 = Some s2"
    and v2: "view s2 = (view s1)(?i := Some (RSet (finsert (dc_evaluation_id b) ms)))"
    using redis_lawsD(10) [OF redis, of s1 ?i ms "dc_evaluation_id b"] by metis
  have "store_ok cd (view s2)"
    unfolding v2 using v1 by (intro store_ok_index [OF ok1 ms _ idx]) simp
  with s1 s2 show ?thesis by (auto simp: answers_ok_def create_decision_def Let_def)
qed

lemma decision_requests_ok:
  assumes redis: "redis_laws api view" and codec: "codec_laws cd" and ok: "store_ok cd (view s)"
  shows "answers_ok api cd st view (DecisionGet t e) s"
    and "answers_ok api cd st view (DecisionOverride i t1 t2 ob) s"
    and "answers_ok api cd st view (DecisionApprove t1 t2 ab) s"
    and "answers_ok api cd st view (DecisionList lb) s"
proof -
  show "answers_ok api cd st view (DecisionGet t e) s"
    using redis codec ok
    by (cases rule: decision_at [where t = t and e = e]) (use ok in \<open>auto simp: answers_ok_def get_decision_def\<close>)
  show "answers_ok api cd st view (DecisionOverride i t1 t2 ob) s"
  proof (cases "str_strip (do_reason ob) = []")
    case True
    then show ?thesis using ok by (auto simp: answers_ok_def override_criterion_def)
  next
    case False
    show ?thesis
    using redis codec ok
    proof (cases rule: decision_at [where t = "do_tenant_id ob" and e = "do_evaluation_id ob"])
      case absent
      then show ?thesis using False ok by (auto simp: answers_ok_def override_criterion_def Let_def)
    next
      case (present d)
      let ?k = "decision_key (do_tenant_id ob) (do_evaluation_id ob)"
      let ?d = "d\<lparr>ed_overrides := ed_overrides d @ [new_override i t1 ob], ed_updated_at := t2\<rparr>"
      obtain s1 where s1: "r_set api ?k (enc_decision cd ?d) s = Some s1"
        and v1: "view s1 = (view s)(?k := Some (RStr (enc_decision cd ?d)))"
        using redis_lawsD(2) [OF redis, of ?k "enc_decision cd ?d" s] by metis
      have "store_ok cd (view s1)"
        unfolding v1 using present(3)
        by (intro store_ok_decision [OF ok decision_inv_steps(2) [OF present(2) False]]) simp
      then show ?thesis
        using False present s1 by (auto simp: answers_ok_def override_criterion_def Let_def)
    qed
  qed
  show "answers_ok api cd st view (DecisionApprove t1 t2 ab) s"
  using redis codec ok
  proof (cases rule: decision_at [where t = "da_tenant_id ab" and e = "da_evaluation_id ab"])
    case absent
    then show ?thesis using ok by (auto simp: answers_ok_def approve_decision_def Let_def)
  next
    case (present d)
    let ?k = "decision_key (da_tenant_id ab) (da_evaluation_id ab)"
    obtain s1 where s1: "r_set api ?k (enc_decision cd (approved t1 t2 ab d)) s = Some s1"
      and v1: "view s1 = (view s)(?k := Some (RStr (enc_decision cd (approved t1 t2 ab d))))"
      using redis_lawsD(2) [OF redis, of ?k "enc_decision cd (approved t1 t2 ab d)" s] by metis
    have "store_ok cd (view s1)"
      unfolding v1 using present(3)
      by (intro store_ok_decision [OF ok decision_inv_steps(3) [OF present(2)]]) (simp add: approved_def)
    then show ?thesis
      using present s1 by (auto simp: answers_ok_def approve_decision_def Let_def)
  qed
  show "answers_ok api cd st view (DecisionList lb) s"
    using list_decisions_page [OF redis codec ok, of lb] ok by (auto simp: answers_ok_def)
qed

lemma comment_requests_ok:
  assumes redis: "redis_laws api view" and codec: "codec_laws cd" and ok: "store_ok cd (view s)"
  shows "answers_ok api cd st view (CommentAdd i now b) s"
    and "answers_ok api cd st view (CommentList t e) s"
proof -
  let ?k = "comments_key (ca_tenant_id b) (ca_evaluation_id b)"
  obtain cs where cs: "view s ?k = put_list (map (enc_comment cd) cs)"
    using store_okD(2) [OF ok] by blast
  then have "list_at (view s ?k) = Some (map (enc_comment cd) cs)" by simp
  then obtain s1 where s1: "r_rpush api ?k (enc_comment cd (new_comment i now b)) s = Some s1"
    and v1: "view s1 = (view s)(?k := put_list (map (enc_comment cd) cs @ [enc_comment cd (new_comment i now b)]))"
    using redis_lawsD(5) [OF redis, of s ?k _ "enc_comment cd (new_comment i now b)"] by metis
  have "store_ok cd (view s1)"
    unfolding v1 using store_ok_comments [OF ok, of _ _ "cs @ [new_comment i now b]"] by simp
  with s1 show "answers_ok api cd st view (CommentAdd i now b) s"
    by (auto simp: answers_ok_def add_comment_def Let_def)
  obtain ds where ds: "view s (comments_key t e) = put_list (map (enc_comment cd) ds)"
    using store_okD(2) [OF ok] by blast
  then have "r_lrange api (comments_key t e) s = Some (map (enc_comment cd) ds)"
    using redis_lawsD(8) [OF redis, of s "comments_key t e"] by simp
  moreover have "those (map (dec_comment cd) (map (enc_comment cd) ds)) = Some ds"
    by (rule those_map_dec) (rule codec_lawsD(3) [OF codec])
  ultimately show "answers_ok api cd st view (CommentList t e) s"
    using ok by (auto simp: answers_ok_def list_comments_def)
qed

lemma mem_request_answered:
  assumes "redis_laws api view" and "codec_laws cd" and "store_ok cd (view s)" and "0 < session_ttl_hours st"
  shows "answers_ok api cd st view r s"
  by (cases r)
     (simp_all only: event_requests_ok [OF assms(1-3)] document_requests_ok [OF assms]
       decision_create_ok [OF assms(1,3)] decision_requests_ok [OF assms(1-3)] comment_requests_ok [OF assms(1-3)])

text \<open>The service runs requests in any order; Redis may drop a session whose time is up.\<close>

inductive mem_step ::
    "('r, 'p) mem_redis \<Rightarrow> 'p mem_codec \<Rightarrow> session_settings \<Rightarrow> ('r \<Rightarrow> string \<Rightarrow> 'p rvalue option) \<Rightarrow> 'r \<Rightarrow> 'r \<Rightarrow> bool"
  for api cd st view where
    served: "mem_serve api cd st r s = Some (a, s') \<Longrightarrow> mem_step api cd st view s s'"
  | expired: "view s' = (view s)(session_key i := None) \<Longrightarrow> mem_step api cd st view s s'"

lemma mem_invariant_system:
  assumes "redis_laws api view" and "codec_laws cd" and "0 < session_ttl_hours st"
  shows "invariant_system (\<lambda>s. view s = (\<lambda>k. None)) (mem_step api cd st view) (\<lambda>s. store_ok cd (view s))"
proof (unfold_locales)
  fix s assume "view s = (\<lambda>k. None)"
  then show "store_ok cd (view s)" by (simp only: store_ok_init)
next
  fix s t assume ok: "store_ok cd (view s)" and "mem_step api cd st view s t"
  from this(2) show "store_ok cd (view t)"
  proof cases
    case (served r a)
    then show ?thesis using mem_request_answered [OF assms(1,2) ok assms(3), of r]
      by (auto simp: answers_ok_def)
  next
    case (expired i)
    then show ?thesis using store_ok_session(2) [OF ok] by (simp only:)
  qed
qed

lemma reachable_store_ok:
  assumes "redis_laws api view" and "codec_laws cd" and "0 < session_ttl_hours st"
    and "reachable (\<lambda>s. view s = (\<lambda>k. None)) (mem_step api cd st view) s"
  shows "store_ok cd (view s)"
  using invariant_system.reachable_inv [OF mem_invariant_system [OF assms(1-3)] assms(4)] .

text \<open>
  C12 (every memory request is answered): in every state the Redis-backed endpoints can reach from an
  empty store, the store is well-formed, every further request of any kind is answered (no command meets a value
  of the wrong type and no stored text fails to decode), and a refusal is one of 404, 413 and 422.
\<close>

theorem memory_requests_always_answered:
  assumes "redis_laws api view" and "codec_laws cd" and "0 < session_ttl_hours st"
    and "reachable (\<lambda>s. view s = (\<lambda>k. None)) (mem_step api cd st view) s"
  shows "store_ok cd (view s)
    \<and> (\<exists>a s'. mem_serve api cd st r s = Some (a, s') \<and> (\<forall>code. a = Refused code \<longrightarrow> code \<in> {404, 413, 422}))"
proof
  show ok: "store_ok cd (view s)" by (rule reachable_store_ok [OF assms])
  obtain a s' where a: "mem_serve api cd st r s = Some (a, s')"
    using mem_request_answered [OF assms(1,2) ok assms(3), of r] by (auto simp: answers_ok_def)
  moreover have "a = Refused code \<Longrightarrow> code \<in> {404, 413, 422}" for code
    using a
    by (cases r)
       (auto simp: get_mem_session_def put_mem_session_def delete_mem_session_def
          override_criterion_def approve_decision_def Let_def
          split: sum.splits option.splits if_splits Option.bind_splits)
  ultimately show "\<exists>a s'. mem_serve api cd st r s = Some (a, s') \<and> (\<forall>code. a = Refused code \<longrightarrow> code \<in> {404, 413, 422})"
    by blast
qed

theorem memory_requests_always_answered_witness:
  "\<exists>a s'. mem_serve keyspace_redis plain_codec default_session_settings (SessionGet ''x'') (\<lambda>k. None) = Some (a, s')"
  using memory_requests_always_answered
    [OF keyspace_laws plain_codec_laws _ reachable_init, of default_session_settings "\<lambda>k. None" "SessionGet ''x''"]
  by (auto simp: default_session_settings_def)

section \<open>Properties of decisions\<close>

lemma override_at:
  assumes redis: "redis_laws api view" and codec: "codec_laws cd"
    and at: "view s (decision_key (do_tenant_id b) (do_evaluation_id b)) = Some (RStr (enc_decision cd d))"
    and reason: "str_strip (do_reason b) \<noteq> []"
  shows "\<exists>s'. override_criterion api cd i t1 t2 b s = Some (Inr (new_override i t1 b), s')
      \<and> view s' = (view s)(decision_key (do_tenant_id b) (do_evaluation_id b) :=
          Some (RStr (enc_decision cd (d\<lparr>ed_overrides := ed_overrides d @ [new_override i t1 b], ed_updated_at := t2\<rparr>))))"
proof -
  let ?k = "decision_key (do_tenant_id b) (do_evaluation_id b)"
  let ?d = "d\<lparr>ed_overrides := ed_overrides d @ [new_override i t1 b], ed_updated_at := t2\<rparr>"
  have "r_get api ?k s = Some (Some (enc_decision cd d))"
    using redis_lawsD(1) [OF redis, of s ?k "Some (enc_decision cd d)"] at by simp
  moreover obtain s1 where "r_set api ?k (enc_decision cd ?d) s = Some s1"
    and "view s1 = (view s)(?k := Some (RStr (enc_decision cd ?d)))"
    using redis_lawsD(2) [OF redis, of ?k "enc_decision cd ?d" s] by metis
  ultimately show ?thesis
    using reason codec_lawsD(2) [OF codec, of d]
    by (intro exI [of _ s1]) (simp add: override_criterion_def Let_def)
qed

lemma approve_at:
  assumes redis: "redis_laws api view" and codec: "codec_laws cd"
    and at: "view s (decision_key (da_tenant_id b) (da_evaluation_id b)) = Some (RStr (enc_decision cd d))"
  shows "\<exists>s'. approve_decision api cd t1 t2 b s = Some (Inr (approved t1 t2 b d), s')
      \<and> view s' = (view s)(decision_key (da_tenant_id b) (da_evaluation_id b) :=
          Some (RStr (enc_decision cd (approved t1 t2 b d))))"
proof -
  let ?k = "decision_key (da_tenant_id b) (da_evaluation_id b)"
  have "r_get api ?k s = Some (Some (enc_decision cd d))"
    using redis_lawsD(1) [OF redis, of s ?k "Some (enc_decision cd d)"] at by simp
  moreover obtain s1 where "r_set api ?k (enc_decision cd (approved t1 t2 b d)) s = Some s1"
    and "view s1 = (view s)(?k := Some (RStr (enc_decision cd (approved t1 t2 b d))))"
    using redis_lawsD(2) [OF redis, of ?k "enc_decision cd (approved t1 t2 b d)" s] by metis
  ultimately show ?thesis
    using codec_lawsD(2) [OF codec, of d]
    by (intro exI [of _ s1]) (simp add: approve_decision_def Let_def)
qed

lemma get_decision_at:
  assumes redis: "redis_laws api view" and codec: "codec_laws cd"
    and at: "view s (decision_key t e) = Some (RStr (enc_decision cd d))"
  shows "get_decision api cd t e s = Some (Some d)"
  using redis_lawsD(1) [OF redis, of s "decision_key t e" "Some (enc_decision cd d)"] at codec_lawsD(2) [OF codec, of d]
  by (simp add: get_decision_def)

lemma create_decision_at:
  assumes redis: "redis_laws api view" and ok: "store_ok cd (view s)"
  shows "\<exists>s'. create_decision api cd t1 t2 b s = Some (new_decision t1 t2 b, s') \<and> store_ok cd (view s')
      \<and> view s' (decision_key (dc_tenant_id b) (dc_evaluation_id b)) = Some (RStr (enc_decision cd (new_decision t1 t2 b)))"
proof -
  let ?k = "decision_key (dc_tenant_id b) (dc_evaluation_id b)" and ?i = "tenant_index_key (dc_tenant_id b)"
  let ?d = "new_decision t1 t2 b"
  obtain s1 where s1: "r_set api ?k (enc_decision cd ?d) s = Some s1"
    and v1: "view s1 = (view s)(?k := Some (RStr (enc_decision cd ?d)))"
    using redis_lawsD(2) [OF redis, of ?k "enc_decision cd ?d" s] by metis
  have ok1: "store_ok cd (view s1)"
    unfolding v1 by (rule store_ok_decision [OF ok decision_inv_steps(1)]) (simp add: new_decision_def)
  obtain ms where ms: "view s1 ?i = None \<and> ms = {||} \<or> view s1 ?i = Some (RSet ms)"
    using store_okD(6) [OF ok1] by blast
  have "set_at (view s1 ?i) = Some ms" using ms by auto
  then obtain s2 where s2: "r_sadd api ?i (dc_evaluation_id b) s1 = Some s2"
    and v2: "view s2 = (view s1)(?i := Some (RSet (finsert (dc_evaluation_id b) ms)))"
    using redis_lawsD(10) [OF redis, of s1 ?i ms "dc_evaluation_id b"] by metis
  have c: "create_decision api cd t1 t2 b s = Some (?d, s2)"
    using s1 s2 by (simp add: create_decision_def Let_def)
  have "view s2 ?k = Some (RStr (enc_decision cd ?d))" using v1 v2 by (simp add: key_kinds')
  moreover have "store_ok cd (view s2)"
    using decision_create_ok [OF redis ok, of undefined t1 t2 b] c by (auto simp: answers_ok_def)
  ultimately show ?thesis using c by blast
qed

text \<open>
  C29 (overrides do not reach the verdict): after a decision was created, overridden for a criterion
  with a stated reason and approved, what \<^verbatim>\<open>get\<close> returns records the override and the approval, but its final
  score and status are still the AI's, whatever the reviewer's verdict; a blank reason is refused with 422 and nothing
  is written.
\<close>

theorem overrides_do_not_reach_the_verdict:
  assumes redis: "redis_laws api view" and codec: "codec_laws cd" and ok: "store_ok cd (view s)"
    and same: "do_tenant_id ob = dc_tenant_id cb" "do_evaluation_id ob = dc_evaluation_id cb"
      "da_tenant_id ab = dc_tenant_id cb" "da_evaluation_id ab = dc_evaluation_id cb"
  shows "\<exists>s1 s2 s3 d. create_decision api cd t1 t2 cb s = Some (new_decision t1 t2 cb, s1)
    \<and> (if str_strip (do_reason ob) = [] then override_criterion api cd i t3 t4 ob s1 = Some (Inl 422, s2) \<and> s2 = s1
       else override_criterion api cd i t3 t4 ob s1 = Some (Inr (new_override i t3 ob), s2))
    \<and> approve_decision api cd t5 t6 ab s2 = Some (Inr d, s3)
    \<and> get_decision api cd (dc_tenant_id cb) (dc_evaluation_id cb) s3 = Some (Some d)
    \<and> ed_status d = ''approved'' \<and> ed_approved_by d = Some (da_approved_by ab)
    \<and> ed_overrides d = (if str_strip (do_reason ob) = [] then [] else [new_override i t3 ob])
    \<and> ed_final_score d = dc_ai_score cb \<and> ed_final_status d = dc_ai_status cb"
proof -
  let ?k = "decision_key (dc_tenant_id cb) (dc_evaluation_id cb)"
  let ?d0 = "new_decision t1 t2 cb"
  let ?d1 = "if str_strip (do_reason ob) = [] then ?d0
    else ?d0\<lparr>ed_overrides := ed_overrides ?d0 @ [new_override i t3 ob], ed_updated_at := t4\<rparr>"
  obtain s1 where s1: "create_decision api cd t1 t2 cb s = Some (?d0, s1)"
    and v1: "view s1 ?k = Some (RStr (enc_decision cd ?d0))"
    using create_decision_at [OF redis ok, of t1 t2 cb] by blast
  have "\<exists>s2. (if str_strip (do_reason ob) = [] then override_criterion api cd i t3 t4 ob s1 = Some (Inl 422, s2) \<and> s2 = s1
       else override_criterion api cd i t3 t4 ob s1 = Some (Inr (new_override i t3 ob), s2))
      \<and> view s2 ?k = Some (RStr (enc_decision cd ?d1))"
  proof (cases "str_strip (do_reason ob) = []")
    case True
    then show ?thesis using v1 by (simp add: override_criterion_def)
  next
    case False
    have "view s1 (decision_key (do_tenant_id ob) (do_evaluation_id ob)) = Some (RStr (enc_decision cd ?d0))"
      using v1 same by simp
    from override_at [OF redis codec this False, of i t3 t4] show ?thesis
      using False same by auto
  qed
  then obtain s2 where s2: "(if str_strip (do_reason ob) = [] then override_criterion api cd i t3 t4 ob s1 = Some (Inl 422, s2) \<and> s2 = s1
       else override_criterion api cd i t3 t4 ob s1 = Some (Inr (new_override i t3 ob), s2))"
    and v2: "view s2 ?k = Some (RStr (enc_decision cd ?d1))" by blast
  have "view s2 (decision_key (da_tenant_id ab) (da_evaluation_id ab)) = Some (RStr (enc_decision cd ?d1))"
    using v2 same by simp
  from approve_at [OF redis codec this, of t5 t6] obtain s3
    where s3: "approve_decision api cd t5 t6 ab s2 = Some (Inr (approved t5 t6 ab ?d1), s3)"
      and v3: "view s3 ?k = Some (RStr (enc_decision cd (approved t5 t6 ab ?d1)))"
    using same by auto
  show ?thesis
    using s1 s2 s3 get_decision_at [OF redis codec v3]
    by (intro exI [of _ s1] exI [of _ s2] exI [of _ s3] exI [of _ "approved t5 t6 ab ?d1"])
       (auto simp: approved_def new_decision_def)
qed

definition sample_create :: decision_create_body where
  "sample_create = \<lparr>dc_evaluation_id = ''e'', dc_tenant_id = ''t'', dc_control_id = ''c'', dc_framework = ''soc2'',
     dc_ai_score = 78 / 100, dc_ai_status = ''partially_compliant''\<rparr>"

definition sample_override :: decision_override_body where
  "sample_override = \<lparr>do_evaluation_id = ''e'', do_tenant_id = ''t'', do_criterion_id = ''TC-06'', do_ai_result = ''FAIL'',
     do_user_result = ''PASS'', do_reason = ''monitored'', do_overridden_by = ''sarah''\<rparr>"

definition sample_approve :: decision_approve_body where
  "sample_approve = \<lparr>da_evaluation_id = ''e'', da_tenant_id = ''t'', da_approved_by = ''sarah'', da_notes = []\<rparr>"

theorem overrides_do_not_reach_the_verdict_witness:
  "\<exists>s3 d. get_decision keyspace_redis plain_codec ''t'' ''e'' s3 = Some (Some d)
      \<and> ed_status d = ''approved'' \<and> ed_final_status d = ''partially_compliant''"
proof -
  note * = overrides_do_not_reach_the_verdict [where view = id and s = "\<lambda>k. None" and ob = sample_override
      and cb = sample_create and ab = sample_approve and i = "''x''", OF keyspace_laws plain_codec_laws]
  have "str_strip (do_reason sample_override) \<noteq> []" by (simp add: sample_override_def) code_simp
  with * show ?thesis
    by (fastforce simp: store_ok_init sample_create_def sample_override_def sample_approve_def)
qed

text \<open>
  (approval does not lock): an approved decision can still be overridden, which leaves it approved
  by the same person with an override that person never saw; and creating the same evaluation again replaces it by a
  draft without overrides or approval.
\<close>

theorem approval_does_not_lock:
  assumes redis: "redis_laws api view" and codec: "codec_laws cd" and ok: "store_ok cd (view s)"
    and at: "view s (decision_key t e) = Some (RStr (enc_decision cd d))" and "ed_status d = ''approved''"
  shows "do_tenant_id ob = t \<Longrightarrow> do_evaluation_id ob = e \<Longrightarrow> str_strip (do_reason ob) \<noteq> [] \<Longrightarrow>
      \<exists>s' d'. override_criterion api cd i t1 t2 ob s = Some (Inr (new_override i t1 ob), s')
        \<and> get_decision api cd t e s' = Some (Some d') \<and> ed_status d' = ''approved''
        \<and> ed_approved_by d' = ed_approved_by d \<and> ed_overrides d' = ed_overrides d @ [new_override i t1 ob]"
    and "dc_tenant_id cb = t \<Longrightarrow> dc_evaluation_id cb = e \<Longrightarrow>
      \<exists>s'. create_decision api cd t1 t2 cb s = Some (new_decision t1 t2 cb, s')
        \<and> get_decision api cd t e s' = Some (Some (new_decision t1 t2 cb))"
proof -
  assume ob: "do_tenant_id ob = t" "do_evaluation_id ob = e" "str_strip (do_reason ob) \<noteq> []"
  have "view s (decision_key (do_tenant_id ob) (do_evaluation_id ob)) = Some (RStr (enc_decision cd d))"
    using at ob by simp
  from override_at [OF redis codec this ob(3), of i t1 t2] obtain s' where
    s': "override_criterion api cd i t1 t2 ob s = Some (Inr (new_override i t1 ob), s')"
    and "view s' (decision_key t e) =
      Some (RStr (enc_decision cd (d\<lparr>ed_overrides := ed_overrides d @ [new_override i t1 ob], ed_updated_at := t2\<rparr>)))"
    using ob by auto
  from s' get_decision_at [OF redis codec this(2)] assms(5)
  show "\<exists>s' d'. override_criterion api cd i t1 t2 ob s = Some (Inr (new_override i t1 ob), s')
        \<and> get_decision api cd t e s' = Some (Some d') \<and> ed_status d' = ''approved''
        \<and> ed_approved_by d' = ed_approved_by d \<and> ed_overrides d' = ed_overrides d @ [new_override i t1 ob]"
    by (intro exI [of _ s'] exI [of _ "d\<lparr>ed_overrides := ed_overrides d @ [new_override i t1 ob], ed_updated_at := t2\<rparr>"]) simp
next
  assume cb: "dc_tenant_id cb = t" "dc_evaluation_id cb = e"
  obtain s' where "create_decision api cd t1 t2 cb s = Some (new_decision t1 t2 cb, s')"
    and "view s' (decision_key t e) = Some (RStr (enc_decision cd (new_decision t1 t2 cb)))"
    using create_decision_at [OF redis ok, of t1 t2 cb] cb by auto
  with get_decision_at [OF redis codec this(2)]
  show "\<exists>s'. create_decision api cd t1 t2 cb s = Some (new_decision t1 t2 cb, s')
        \<and> get_decision api cd t e s' = Some (Some (new_decision t1 t2 cb))" by blast
qed

definition sample_store :: "string \<Rightarrow> json_text rvalue option" where
  "sample_store = (\<lambda>k. None)(decision_key ''t'' ''e'' := Some (RStr (TDecision (approved 3 3 sample_approve (new_decision 1 1 sample_create)))))"

lemma sample_store_ok: "store_ok plain_codec sample_store"
proof -
  have "store_ok plain_codec ((\<lambda>k. None)(decision_key ''t'' ''e'' :=
      Some (RStr (enc_decision plain_codec (approved 3 3 sample_approve (new_decision 1 1 sample_create))))))"
    by (intro store_ok_decision store_ok_init decision_inv_steps)
       (simp add: approved_def new_decision_def sample_create_def)
  then show ?thesis by (simp add: sample_store_def plain_codec_def)
qed

theorem approval_does_not_lock_witness:
  "\<exists>s' d'. get_decision keyspace_redis plain_codec ''t'' ''e'' s' = Some (Some d')
      \<and> ed_status d' = ''approved'' \<and> length (ed_overrides d') = 1"
proof -
  let ?d = "approved 3 3 sample_approve (new_decision 1 1 sample_create)"
  have "str_strip (do_reason sample_override) \<noteq> []" by (simp add: sample_override_def) code_simp
  moreover have "store_ok plain_codec (id sample_store)" by (simp add: sample_store_ok)
  moreover have "id sample_store (decision_key ''t'' ''e'') = Some (RStr (enc_decision plain_codec ?d))"
    by (simp add: sample_store_def plain_codec_def)
  ultimately have "\<exists>s' d'. override_criterion keyspace_redis plain_codec ''x'' 4 4 sample_override sample_store
        = Some (Inr (new_override ''x'' 4 sample_override), s')
      \<and> get_decision keyspace_redis plain_codec ''t'' ''e'' s' = Some (Some d') \<and> ed_status d' = ''approved''
      \<and> ed_approved_by d' = ed_approved_by ?d
      \<and> ed_overrides d' = ed_overrides ?d @ [new_override ''x'' 4 sample_override]"
    by (intro approval_does_not_lock(1) [where view = id, OF keyspace_laws plain_codec_laws])
       (simp_all add: sample_override_def approved_def)
  then obtain s' d' where "get_decision keyspace_redis plain_codec ''t'' ''e'' s' = Some (Some d')"
    and "ed_status d' = ''approved''" and "ed_overrides d' = [new_override ''x'' 4 sample_override]"
    by (auto simp: approved_def new_decision_def)
  then show ?thesis by (intro exI [of _ s'] exI [of _ d']) simp
qed

text \<open>
  (listing decisions): a listing holds only decisions of the tenant's index that pass both filters,
  newest first and no more than the limit (at least one); it is complete when the index holds no more than that, and
  otherwise the cut is made before the sorting, so that with limit 1 it is the decision of whichever member Redis
  returns first, however old.
\<close>

theorem listing_cuts_before_sorting:
  assumes redis: "redis_laws api view" and codec: "codec_laws cd" and ok: "store_ok cd (view s)"
    and index: "view s (tenant_index_key (dl_tenant_id b)) = Some (RSet ms)"
  defines "every \<equiv> {d. \<exists>e. e |\<in>| ms \<and> stored_decision cd (view s) (dl_tenant_id b) e = Some d \<and> listed b d}"
  shows "\<exists>ds. list_decisions api cd b s = Some ds \<and> set ds \<subseteq> every \<and> int (length ds) \<le> max 1 (dl_limit b)
      \<and> sorted (map (\<lambda>d. - ed_created_at d) ds)
      \<and> (int (fcard ms) \<le> dl_limit b \<longrightarrow> set ds = every)"
    and "r_smembers api (tenant_index_key (dl_tenant_id b)) s = Some (e # ids) \<Longrightarrow> dl_limit b = 1 \<Longrightarrow>
      stored_decision cd (view s) (dl_tenant_id b) e = Some d \<Longrightarrow> listed b d \<Longrightarrow>
      list_decisions api cd b s = Some [d]"
proof -
  obtain ids where ids: "set ids = fset ms" "distinct ids"
    and ds: "list_decisions api cd b s = Some (newest_first (take (page b) (listable cd (view s) b ids)))"
    using list_decisions_page [OF redis codec ok, of b] index by auto
  let ?ds = "newest_first (take (page b) (listable cd (view s) b ids))"
  have all: "set (listable cd (view s) b ids) = every"
    unfolding every_def listable_def using ids(1)
    by (force simp: List.map_filter_def)
  have "length (listable cd (view s) b ids) \<le> length ids"
    unfolding listable_def by (induction ids) (auto simp: map_filter_simps split: option.splits)
  also have "length ids = fcard ms" using ids distinct_card [of ids] by (simp add: fcard.rep_eq)
  finally have few: "int (fcard ms) \<le> dl_limit b \<Longrightarrow> take (page b) (listable cd (view s) b ids) = listable cd (view s) b ids"
    by (simp add: page_def)
  have "set ?ds \<subseteq> every" using all by (auto simp: newest_first_def dest: in_set_takeD)
  moreover have "int (length ?ds) \<le> max 1 (dl_limit b)" by (simp add: newest_first_def page_def)
  moreover have "sorted (map (\<lambda>d. - ed_created_at d) ?ds)" by (simp add: newest_first_def)
  moreover have "int (fcard ms) \<le> dl_limit b \<longrightarrow> set ?ds = every" using few all by (simp add: newest_first_def)
  ultimately show "\<exists>ds. list_decisions api cd b s = Some ds \<and> set ds \<subseteq> every \<and> int (length ds) \<le> max 1 (dl_limit b)
      \<and> sorted (map (\<lambda>d. - ed_created_at d) ds) \<and> (int (fcard ms) \<le> dl_limit b \<longrightarrow> set ds = every)"
    using ds by blast
next
  assume ids: "r_smembers api (tenant_index_key (dl_tenant_id b)) s = Some (e # ids)" and one: "dl_limit b = 1"
    and d: "stored_decision cd (view s) (dl_tenant_id b) e = Some d" "listed b d"
  have "page b = 1" using one by (simp add: page_def)
  with collect_decisions_page [OF redis codec ok, of "[]" b "e # ids"] d
  have "collect_decisions api cd b s (e # ids) [] = Some [d]" by simp
  then show "list_decisions api cd b s = Some [d]"
    using ids by (simp add: list_decisions_def newest_first_def del: collect_decisions.simps)
qed

definition sample_index :: "string \<Rightarrow> json_text rvalue option" where
  "sample_index = sample_store(tenant_index_key ''t'' := Some (RSet (finsert ''e'' {||})))"

lemma sample_index_ok: "store_ok plain_codec sample_index"
  unfolding sample_index_def
  by (rule store_ok_index [OF sample_store_ok]) (simp_all add: sample_store_def key_kinds')

theorem listing_cuts_before_sorting_witness:
  "\<exists>ds. list_decisions keyspace_redis plain_codec
      \<lparr>dl_tenant_id = ''t'', dl_framework = None, dl_status = Some ''approved'', dl_limit = 50\<rparr> sample_index = Some ds"
proof -
  have "store_ok plain_codec (id sample_index)" by (simp add: sample_index_ok)
  moreover have "id sample_index (tenant_index_key (dl_tenant_id
      \<lparr>dl_tenant_id = ''t'', dl_framework = None, dl_status = Some ''approved'', dl_limit = 50\<rparr>)) = Some (RSet (finsert ''e'' {||}))"
    by (simp add: sample_index_def)
  ultimately show ?thesis
    using listing_cuts_before_sorting(1) [where view = id, OF keyspace_laws plain_codec_laws] by blast
qed

text \<open>
  (tenants of the event queue): pushing an event never changes what another user of the same or of
  another tenant drains, provided the tenant identifiers hold no colon; with a colon the keys of two tenants can meet,
  and then one tenant drains the events of the other.
\<close>

theorem event_queues_of_tenants:
  assumes redis: "redis_laws api view" and codec: "codec_laws cd"
    and at: "view s (event_key t u) = put_list (map (enc_event cd) q)"
    and at': "view s (event_key (pb_tenant_id b) (pb_user_id b)) = put_list (map (enc_event cd) q')"
  shows "plain_id t \<Longrightarrow> plain_id (pb_tenant_id b) \<Longrightarrow> (t, u) \<noteq> (pb_tenant_id b, pb_user_id b) \<Longrightarrow>
      \<exists>s1 s2. push_event api cd now b s = Some s1 \<and> drain_events api cd t u s1 = Some (q, s2)"
    and "pb_tenant_id b = t @ '':'' @ x \<Longrightarrow> u = x @ '':'' @ pb_user_id b \<Longrightarrow>
      \<exists>s1 s2 es. push_event api cd now b s = Some s1
        \<and> drain_events api cd t u s1 = Some (es @ [event_of_body now b], s2)"
proof -
  obtain s1 where s1: "push_event api cd now b s = Some s1"
    and v1: "view s1 = (view s)(event_key (pb_tenant_id b) (pb_user_id b) :=
        put_list (map (enc_event cd) (queue_push (event_of_body now b) q')))"
    using push_event_refines [OF redis codec at'] by metis
  {
    assume "plain_id t" and "plain_id (pb_tenant_id b)" and "(t, u) \<noteq> (pb_tenant_id b, pb_user_id b)"
    then have "event_key t u \<noteq> event_key (pb_tenant_id b) (pb_user_id b)" by (auto simp: event_key_inj)
    then have "view s1 (event_key t u) = put_list (map (enc_event cd) q)" by (simp add: v1 at)
    with s1 show "\<exists>s1 s2. push_event api cd now b s = Some s1 \<and> drain_events api cd t u s1 = Some (q, s2)"
      using drain_events_refines [OF redis codec] by metis
  next
    assume "pb_tenant_id b = t @ '':'' @ x" and "u = x @ '':'' @ pb_user_id b"
    then have "event_key t u = event_key (pb_tenant_id b) (pb_user_id b)" by (simp add: event_key_def)
    then have "view s1 (event_key t u) = put_list (map (enc_event cd) (queue_push (event_of_body now b) q'))"
      by (simp add: v1)
    then obtain s2 where "drain_events api cd t u s1 = Some (queue_push (event_of_body now b) q', s2)"
      using drain_events_refines [OF redis codec] by metis
    with s1 show "\<exists>s1 s2 es. push_event api cd now b s = Some s1
        \<and> drain_events api cd t u s1 = Some (es @ [event_of_body now b], s2)"
      unfolding queue_push_def by blast
  }
qed

theorem event_queues_of_tenants_witness:
  "\<exists>s1 s2 es. push_event keyspace_redis plain_codec 0 (sample_push\<lparr>pb_tenant_id := ''a:b''\<rparr>) (\<lambda>k. None) = Some s1
      \<and> drain_events keyspace_redis plain_codec ''a'' ''b:u'' s1
        = Some (es @ [event_of_body 0 (sample_push\<lparr>pb_tenant_id := ''a:b''\<rparr>)], s2)"
  by (rule event_queues_of_tenants(2) [where view = id and q = "[]" and q' = "[]" and x = "''b''", OF keyspace_laws plain_codec_laws])
     (simp_all add: put_list_def sample_push_def)

end
