(* ===== verification/Mem_Tables.thy ===== *)
theory Mem_Tables
  imports Ev_Models
begin

text \<open>
  The memory service's relational store (\<^verbatim>\<open>memory-service/src/models\<close>, \<^verbatim>\<open>repositories\<close> and the routes that
  use them): the rows, the database as a record of tables, the append-only audit trail, and the
  versioned skills.

  A table is the list of its rows in the order they were inserted; a \<^verbatim>\<open>select ... where\<close> is a filter of it
  and \<^verbatim>\<open>order by ... desc\<close> a stable sort (SQL leaves ties open). Times are numbers and dates day numbers;
  fresh identifiers and clock readings are arguments. A request is one transaction: \<open>Inl code\<close> is the answer of a request
  that failed (an \<^verbatim>\<open>HTTPException\<close>, or 500 for an exception of the database) and was rolled back,
  \<open>Inr (answer, db)\<close> that of one that committed.
\<close>

section \<open>Rows and the database\<close>

record tenant_memory =
  tm_id :: string
  tm_tenant_id :: string
  tm_fact :: string
  tm_category :: string
  tm_source :: string
  tm_confidence :: real
  tm_embedding :: "pyval list option"
  tm_needs_embedding :: bool
  tm_created_at :: real
  tm_updated_at :: real

record user_memory = tenant_memory +
  um_user_id :: string

record task_row =
  tk_id :: string
  tk_tenant_id :: string
  tk_type :: string
  tk_control_id :: "string option"
  tk_framework_id :: "string option"
  tk_assignee_id :: "string option"
  tk_status :: string
  tk_due_date :: "int option"
  tk_note :: "string option"
  tk_blocked_reason :: "string option"
  tk_metadata :: "(string \<times> pyval) list option"
  tk_created_by :: string
  tk_created_at :: real
  tk_updated_at :: real
  tk_completed_at :: "real option"

record eval_history_row =
  eh_id :: string
  eh_tenant_id :: string
  eh_framework :: string
  eh_control_id :: string
  eh_status :: string
  eh_confidence :: "real option"
  eh_evidence_hash :: "string option"
  eh_result :: "(string \<times> pyval) list"
  eh_model_used :: "string option"
  eh_tier_used :: "string option"
  eh_latency_ms :: "int option"
  eh_created_at :: real

record pattern_row =
  pt_id :: string
  pt_pattern :: string
  pt_context :: "(string \<times> pyval) list option"
  pt_confidence :: real
  pt_hit_count :: int
  pt_source :: string
  pt_embedding :: "pyval list option"
  pt_needs_embedding :: bool
  pt_created_at :: real
  pt_last_used_at :: "real option"

record skill_row =
  sk_id :: string
  sk_current_version :: int

record skill_version_row =
  sv_skill_id :: string
  sv_version :: int
  sv_prompt_template :: string
  sv_config :: "(string \<times> pyval) list option"
  sv_author :: string
  sv_reason :: "string option"
  sv_status :: string
  sv_created_at :: real

record interaction_row =
  ir_id :: string
  ir_tenant_id :: string
  ir_user_id :: string
  ir_session_id :: string
  ir_messages :: "(string \<times> string \<times> string option) list"
  ir_created_at :: real

record audit_row =
  au_id :: string
  au_timestamp :: real
  au_operation :: string
  au_tenant_id :: "string option"
  au_agent :: "string option"
  au_data :: "(string \<times> pyval) list"

record job_row =
  jr_id :: string
  jr_status :: string
  jr_result :: "(string \<times> pyval) list option"
  jr_error :: "string option"
  jr_created_at :: real
  jr_updated_at :: real

record agent_row =
  ag_id :: string
  ag_name :: string
  ag_url :: string
  ag_capabilities :: "string list"
  ag_status :: string
  ag_metadata :: "(string \<times> pyval) list option"
  ag_registered_at :: real
  ag_last_heartbeat :: real

record mem_db =
  db_tenant_memory :: "tenant_memory list"
  db_user_memory :: "user_memory list"
  db_tasks :: "task_row list"
  db_eval_history :: "eval_history_row list"
  db_patterns :: "pattern_row list"
  db_skills :: "skill_row list"
  db_skill_versions :: "skill_version_row list"
  db_interactions :: "interaction_row list"
  db_audit :: "audit_row list"
  db_jobs :: "job_row list"
  db_agents :: "agent_row list"

definition empty_db :: mem_db where
  "empty_db = \<lparr>db_tenant_memory = [], db_user_memory = [], db_tasks = [], db_eval_history = [],
     db_patterns = [], db_skills = [], db_skill_versions = [], db_interactions = [], db_audit = [],
     db_jobs = [], db_agents = []\<rparr>"

type_synonym 'a db_answer = "nat + 'a \<times> mem_db"

text \<open>\<^verbatim>\<open>scalar_one_or_none\<close>: more than one row raises \<^verbatim>\<open>MultipleResultsFound\<close> (500).\<close>

fun one_or_none :: "'a list \<Rightarrow> nat + 'a option" where
  "one_or_none [] = Inr None"
| "one_or_none [x] = Inr (Some x)"
| "one_or_none _ = Inl 500"

text \<open>An update in place of the rows a condition selects.\<close>

definition update_rows :: "('a \<Rightarrow> bool) \<Rightarrow> ('a \<Rightarrow> 'a) \<Rightarrow> 'a list \<Rightarrow> 'a list" where
  "update_rows p f rows = map (\<lambda>r. if p r then f r else r) rows"

lemma length_update_rows [simp]: "length (update_rows p f rows) = length rows"
  by (simp add: update_rows_def)

lemma set_update_rows: "set (update_rows p f rows) = f ` {r \<in> set rows. p r} \<union> {r \<in> set rows. \<not> p r}"
  by (auto simp: update_rows_def)

lemma one_or_none_map: "one_or_none xs = Inr (Some x) \<Longrightarrow> x \<in> set xs"
  by (cases xs rule: one_or_none.cases) auto

section \<open>The audit trail\<close>

definition audit_append ::
    "string \<Rightarrow> real \<Rightarrow> string \<Rightarrow> string option \<Rightarrow> string option \<Rightarrow> (string \<times> pyval) list \<Rightarrow> mem_db \<Rightarrow> mem_db" where
  "audit_append uuid now operation tenant_id agent payload db =
     db\<lparr>db_audit := db_audit db @ [\<lparr>au_id = uuid, au_timestamp = now, au_operation = operation,
        au_tenant_id = tenant_id, au_agent = agent, au_data = payload\<rparr>]\<rparr>"

definition newest_first_by :: "('a \<Rightarrow> real) \<Rightarrow> 'a list \<Rightarrow> 'a list" where
  "newest_first_by created rows = sort_key (\<lambda>r. - created r) rows"

text \<open>\<^verbatim>\<open>.limit(n).offset(k)\<close>\<close>

definition limit_offset :: "nat \<Rightarrow> nat \<Rightarrow> 'a list \<Rightarrow> 'a list" where
  "limit_offset n k rows = take n (drop k rows)"

text \<open>An optional text filter of a query: None and the empty text do not filter.\<close>

definition asks :: "string option \<Rightarrow> string option \<Rightarrow> bool" where
  "asks flt v \<longleftrightarrow> (case flt of None \<Rightarrow> True | Some f \<Rightarrow> f = [] \<or> v = Some f)"

definition audit_query ::
    "string \<Rightarrow> real option \<Rightarrow> string option \<Rightarrow> nat \<Rightarrow> nat \<Rightarrow> mem_db \<Rightarrow> audit_row list" where
  "audit_query tenant_id since operation limit skip db =
     limit_offset limit skip (newest_first_by au_timestamp
       (filter (\<lambda>r. au_tenant_id r = Some tenant_id
                  \<and> (case since of None \<Rightarrow> True | Some t \<Rightarrow> t \<le> au_timestamp r)
                  \<and> asks operation (Some (au_operation r))) (db_audit db)))"

end
