(* ===== verification/Mem_Facts.thy ===== *)
theory Mem_Facts
  imports Mem_Tables Gw_Service
begin

text \<open>
  Facts and patterns with semantic search: the embedding client of the memory service
  (\<^verbatim>\<open>services/embedding.py\<close>) and the gateway's endpoint it calls (\<^verbatim>\<open>/v1/embed\<close> of \<^verbatim>\<open>llm-gateway/src/main.py\<close>),
  the tenant and user memory repositories with their deduplication, the patterns, and the routes over
  them. The cosine distance of pgvector is a parameter, and so is the provider that computes embeddings.
\<close>

section \<open>Embeddings\<close>

text \<open>\<^verbatim>\<open>EmbedRequest\<close> of the gateway, and the endpoint.\<close>

definition parse_embed_request :: "(string \<times> pyval) list \<Rightarrow> (string list \<times> string) option" where
  "parse_embed_request body =
     (case (dict_get body ''texts'', dict_get body ''tenant_id'') of
        (Some (PList (v # vs)), Some (PStr tenant_id)) \<Rightarrow>
          map_option (\<lambda>texts. (texts, tenant_id)) (opt_map as_str (v # vs))
      | _ \<Rightarrow> None)"

definition gateway_embed ::
    "gateway_settings \<Rightarrow> (string, string) dict \<Rightarrow> (string list \<Rightarrow> pyval list list option) \<Rightarrow> string \<Rightarrow> int \<Rightarrow>
     string \<Rightarrow> string \<Rightarrow> (string \<times> pyval) list \<Rightarrow> nat \<times> (string \<times> pyval) list" where
  "gateway_embed settings keys provider model latency service_id service_key body =
     (case verify_service settings keys service_id service_key of
        Inl CompareTypeError \<Rightarrow> (500, [])
      | Inl _ \<Rightarrow> (401, [])
      | Inr who \<Rightarrow>
          (case parse_embed_request body of
             None \<Rightarrow> (422, [])
           | Some (texts, tenant_id) \<Rightarrow>
               (case provider texts of
                  None \<Rightarrow> (503, [])
                | Some vectors \<Rightarrow>
                    (200, [(''embeddings'', PList (map PList vectors)), (''model_used'', PStr model),
                           (''latency_ms'', PInt latency)]))))"

text \<open>
  What the memory service makes of a reply: None is a failed request, a reply is a status with the parsed body.
  The result None stands for Python's \<^verbatim>\<open>None\<close>.
\<close>

definition embed_body :: "string \<Rightarrow> (string \<times> pyval) list" where
  "embed_body t = [(''text'', PStr t), (''model'', PStr ''nomic-embed-text'')]"

definition embed_result :: "(nat \<times> (string \<times> pyval) list) option \<Rightarrow> pyval list option" where
  "embed_result reply =
     (case reply of
        None \<Rightarrow> None
      | Some (status, payload) \<Rightarrow>
          if status = 200
          then (case dict_get payload ''embedding'' of Some (PList (v # vs)) \<Rightarrow> Some (v # vs) | _ \<Rightarrow> None)
          else None)"

text \<open>The call carries no service headers.\<close>

definition embed ::
    "(string \<Rightarrow> string \<Rightarrow> (string \<times> pyval) list \<Rightarrow> (nat \<times> (string \<times> pyval) list) option) \<Rightarrow> string \<Rightarrow> pyval list option" where
  "embed gateway t = embed_result (gateway [] [] (embed_body t))"

section \<open>Facts\<close>

type_synonym distance = "pyval list \<Rightarrow> pyval list \<Rightarrow> real"

definition dist_of :: "distance \<Rightarrow> pyval list \<Rightarrow> 'a tenant_memory_scheme \<Rightarrow> real" where
  "dist_of cosine e r = (case tm_embedding r of None \<Rightarrow> 0 | Some x \<Rightarrow> cosine x e)"

definition dedup_threshold :: real where
  "dedup_threshold = 9 / 10"

definition find_similar ::
    "distance \<Rightarrow> ('a tenant_memory_scheme \<Rightarrow> bool) \<Rightarrow> pyval list \<Rightarrow> 'a tenant_memory_scheme list \<Rightarrow>
     'a tenant_memory_scheme option" where
  "find_similar cosine in_scope e rows =
     (case sort_key (dist_of cosine e) (filter (\<lambda>r. in_scope r \<and> tm_embedding r \<noteq> None) rows) of
        [] \<Rightarrow> None
      | r # rs \<Rightarrow> if 1 - dist_of cosine e r < dedup_threshold then None else Some r)"

record remember_body =
  rb_fact :: string
  rb_category :: string
  rb_source :: string
  rb_confidence :: real

definition refresh_fact ::
    "real \<Rightarrow> remember_body \<Rightarrow> pyval list \<Rightarrow> 'a tenant_memory_scheme \<Rightarrow> 'a tenant_memory_scheme" where
  "refresh_fact now b e r =
     r\<lparr>tm_fact := rb_fact b, tm_confidence := max (tm_confidence r) (rb_confidence b),
       tm_embedding := Some e, tm_updated_at := now, tm_needs_embedding := False\<rparr>"

datatype remember_action = Created | Updated

definition remember ::
    "distance \<Rightarrow> ('a tenant_memory_scheme \<Rightarrow> bool) \<Rightarrow> 'a tenant_memory_scheme \<Rightarrow> real \<Rightarrow> remember_body \<Rightarrow>
     pyval list option \<Rightarrow> 'a tenant_memory_scheme list \<Rightarrow>
     string \<times> remember_action \<times> 'a tenant_memory_scheme list" where
  "remember cosine in_scope fresh now b embedding rows =
     (case (case embedding of None \<Rightarrow> None | Some e \<Rightarrow> find_similar cosine in_scope e rows) of
        Some old \<Rightarrow>
          (tm_id old, Updated, update_rows (\<lambda>r. tm_id r = tm_id old) (refresh_fact now b (the embedding)) rows)
      | None \<Rightarrow> (tm_id fresh, Created, rows @ [fresh]))"

definition new_tenant_fact ::
    "string \<Rightarrow> real \<Rightarrow> string \<Rightarrow> remember_body \<Rightarrow> pyval list option \<Rightarrow> tenant_memory" where
  "new_tenant_fact uuid now tenant_id b embedding =
     \<lparr>tm_id = uuid, tm_tenant_id = tenant_id, tm_fact = rb_fact b, tm_category = rb_category b,
      tm_source = rb_source b, tm_confidence = rb_confidence b, tm_embedding = embedding,
      tm_needs_embedding = (embedding = None), tm_created_at = now, tm_updated_at = now\<rparr>"

definition new_user_fact ::
    "string \<Rightarrow> real \<Rightarrow> string \<Rightarrow> string \<Rightarrow> remember_body \<Rightarrow> pyval list option \<Rightarrow> user_memory" where
  "new_user_fact uuid now tenant_id user_id b embedding =
     \<lparr>tm_id = uuid, tm_tenant_id = tenant_id, tm_fact = rb_fact b, tm_category = rb_category b,
      tm_source = rb_source b, tm_confidence = rb_confidence b, tm_embedding = embedding,
      tm_needs_embedding = (embedding = None), tm_created_at = now, tm_updated_at = now, um_user_id = user_id\<rparr>"

definition of_tenant :: "string \<Rightarrow> 'a tenant_memory_scheme \<Rightarrow> bool" where
  "of_tenant tenant_id r \<longleftrightarrow> tm_tenant_id r = tenant_id"

definition of_user :: "string \<Rightarrow> string \<Rightarrow> user_memory \<Rightarrow> bool" where
  "of_user tenant_id user_id r \<longleftrightarrow> tm_tenant_id r = tenant_id \<and> um_user_id r = user_id"

record recalled =
  rl_id :: string
  rl_fact :: string
  rl_category :: string
  rl_source :: string
  rl_confidence :: real
  rl_similarity :: real

definition recall_rows ::
    "distance \<Rightarrow> ('a tenant_memory_scheme \<Rightarrow> bool) \<Rightarrow> pyval list \<Rightarrow> nat \<Rightarrow> 'a tenant_memory_scheme list \<Rightarrow> recalled list" where
  "recall_rows cosine in_scope e top_k rows =
     map (\<lambda>r. \<lparr>rl_id = tm_id r, rl_fact = tm_fact r, rl_category = tm_category r, rl_source = tm_source r,
               rl_confidence = tm_confidence r, rl_similarity = 1 - dist_of cosine e r\<rparr>)
       (take top_k (sort_key (dist_of cosine e) (filter (\<lambda>r. in_scope r \<and> tm_embedding r \<noteq> None) rows)))"

definition facts_of ::
    "('a tenant_memory_scheme \<Rightarrow> bool) \<Rightarrow> string option \<Rightarrow> 'a tenant_memory_scheme list \<Rightarrow> 'a tenant_memory_scheme list" where
  "facts_of in_scope cat rows =
     newest_first_by tm_created_at (filter (\<lambda>r. in_scope r \<and> asks cat (Some (tm_category r))) rows)"

text \<open>\<^verbatim>\<open>_get_by_id\<close> and \<^verbatim>\<open>_delete_by_id\<close> are scoped; the identifier is the primary key.\<close>

definition update_fact ::
    "string \<Rightarrow> real \<Rightarrow> string \<Rightarrow> string option \<Rightarrow> real option \<Rightarrow> tenant_memory list \<Rightarrow> tenant_memory list option" where
  "update_fact tenant_id now fact_id new_fact new_confidence rows =
     (if \<exists>r \<in> set rows. tm_id r = fact_id \<and> of_tenant tenant_id r
      then Some (update_rows (\<lambda>r. tm_id r = fact_id \<and> of_tenant tenant_id r)
        (\<lambda>r. (case new_confidence of None \<Rightarrow> \<lambda>x. x | Some c \<Rightarrow> \<lambda>x. x\<lparr>tm_confidence := c\<rparr>)
              ((case new_fact of None \<Rightarrow> \<lambda>x. x | Some f \<Rightarrow> \<lambda>x. x\<lparr>tm_fact := f, tm_needs_embedding := True\<rparr>)
                (r\<lparr>tm_updated_at := now\<rparr>))) rows)
      else None)"

definition delete_fact ::
    "('a tenant_memory_scheme \<Rightarrow> bool) \<Rightarrow> string \<Rightarrow> 'a tenant_memory_scheme list \<Rightarrow> 'a tenant_memory_scheme list option" where
  "delete_fact in_scope fact_id rows =
     (if \<exists>r \<in> set rows. tm_id r = fact_id \<and> in_scope r
      then Some (filter (\<lambda>r. \<not> (tm_id r = fact_id \<and> in_scope r)) rows) else None)"

section \<open>Endpoints over facts\<close>

definition action_text :: "remember_action \<Rightarrow> string" where
  "action_text a = (case a of Created \<Rightarrow> ''created'' | Updated \<Rightarrow> ''updated'')"

record fresh_ids =
  fi_row :: string
  fi_audit :: string
  fi_now :: real

definition tenant_remember ::
    "distance \<Rightarrow> fresh_ids \<Rightarrow> string \<Rightarrow> remember_body \<Rightarrow> pyval list option \<Rightarrow> mem_db \<Rightarrow> (string \<times> remember_action) db_answer" where
  "tenant_remember cosine fi tenant_id b embedding db =
     (let (i, action, rows) = remember cosine (of_tenant tenant_id)
            (new_tenant_fact (fi_row fi) (fi_now fi) tenant_id b embedding) (fi_now fi) b embedding (db_tenant_memory db)
      in Inr ((i, action),
          audit_append (fi_audit fi) (fi_now fi) ''tenant_remember'' (Some tenant_id) (Some (rb_source b))
            [(''fact'', PStr (rb_fact b)), (''category'', PStr (rb_category b)), (''action'', PStr (action_text action))]
            (db\<lparr>db_tenant_memory := rows\<rparr>)))"

definition tenant_recall ::
    "distance \<Rightarrow> string \<Rightarrow> nat \<Rightarrow> pyval list option \<Rightarrow> mem_db \<Rightarrow> nat + recalled list" where
  "tenant_recall cosine tenant_id top_k embedding db =
     (case embedding of
        None \<Rightarrow> Inl 503
      | Some e \<Rightarrow> Inr (recall_rows cosine (of_tenant tenant_id) e top_k (db_tenant_memory db)))"

definition tenant_facts :: "string \<Rightarrow> string option \<Rightarrow> mem_db \<Rightarrow> tenant_memory list" where
  "tenant_facts tenant_id cat db = facts_of (of_tenant tenant_id) cat (db_tenant_memory db)"

text \<open>The body as the audit log has it, without the fields that were not given.\<close>

definition fact_updates :: "string option \<Rightarrow> real option \<Rightarrow> (string \<times> pyval) list" where
  "fact_updates new_fact new_confidence =
     (case new_fact of None \<Rightarrow> [] | Some f \<Rightarrow> [(''fact'', PStr f)])
     @ (case new_confidence of None \<Rightarrow> [] | Some c \<Rightarrow> [(''confidence'', PFloat (Fin c))])"

definition update_tenant_fact ::
    "fresh_ids \<Rightarrow> string \<Rightarrow> string \<Rightarrow> string option \<Rightarrow> real option \<Rightarrow> mem_db \<Rightarrow> string db_answer" where
  "update_tenant_fact fi tenant_id fact_id new_fact new_confidence db =
     (case update_fact tenant_id (fi_now fi) fact_id new_fact new_confidence (db_tenant_memory db) of
        None \<Rightarrow> Inl 404
      | Some rows \<Rightarrow> Inr (fact_id,
          audit_append (fi_audit fi) (fi_now fi) ''tenant_update_fact'' (Some tenant_id) None
            [(''fact_id'', PStr fact_id), (''updates'', PDict (fact_updates new_fact new_confidence))]
            (db\<lparr>db_tenant_memory := rows\<rparr>)))"

definition delete_tenant_fact :: "fresh_ids \<Rightarrow> string \<Rightarrow> string \<Rightarrow> mem_db \<Rightarrow> string db_answer" where
  "delete_tenant_fact fi tenant_id fact_id db =
     (case delete_fact (of_tenant tenant_id) fact_id (db_tenant_memory db) of
        None \<Rightarrow> Inl 404
      | Some rows \<Rightarrow> Inr (fact_id,
          audit_append (fi_audit fi) (fi_now fi) ''tenant_delete_fact'' (Some tenant_id) None
            [(''fact_id'', PStr fact_id)] (db\<lparr>db_tenant_memory := rows\<rparr>)))"

definition user_remember ::
    "distance \<Rightarrow> fresh_ids \<Rightarrow> string \<Rightarrow> string \<Rightarrow> remember_body \<Rightarrow> pyval list option \<Rightarrow> mem_db \<Rightarrow>
     (string \<times> remember_action) db_answer" where
  "user_remember cosine fi tenant_id user_id b embedding db =
     (let (i, action, rows) = remember cosine (of_user tenant_id user_id)
            (new_user_fact (fi_row fi) (fi_now fi) tenant_id user_id b embedding) (fi_now fi) b embedding (db_user_memory db)
      in Inr ((i, action),
          audit_append (fi_audit fi) (fi_now fi) ''user_remember'' (Some tenant_id) None
            [(''user_id'', PStr user_id), (''fact'', PStr (rb_fact b)), (''category'', PStr (rb_category b)),
             (''action'', PStr (action_text action))]
            (db\<lparr>db_user_memory := rows\<rparr>)))"

definition user_recall ::
    "distance \<Rightarrow> string \<Rightarrow> string \<Rightarrow> nat \<Rightarrow> pyval list option \<Rightarrow> mem_db \<Rightarrow> nat + recalled list" where
  "user_recall cosine tenant_id user_id top_k embedding db =
     (case embedding of
        None \<Rightarrow> Inl 503
      | Some e \<Rightarrow> Inr (recall_rows cosine (of_user tenant_id user_id) e top_k (db_user_memory db)))"

definition user_facts :: "string \<Rightarrow> string \<Rightarrow> string option \<Rightarrow> mem_db \<Rightarrow> user_memory list" where
  "user_facts tenant_id user_id cat db = facts_of (of_user tenant_id user_id) cat (db_user_memory db)"

definition delete_user_fact :: "fresh_ids \<Rightarrow> string \<Rightarrow> string \<Rightarrow> string \<Rightarrow> mem_db \<Rightarrow> string db_answer" where
  "delete_user_fact fi tenant_id user_id fact_id db =
     (case delete_fact (of_user tenant_id user_id) fact_id (db_user_memory db) of
        None \<Rightarrow> Inl 404
      | Some rows \<Rightarrow> Inr (fact_id,
          audit_append (fi_audit fi) (fi_now fi) ''user_delete_fact'' (Some tenant_id) None
            [(''user_id'', PStr user_id), (''fact_id'', PStr fact_id)] (db\<lparr>db_user_memory := rows\<rparr>)))"

section \<open>Patterns\<close>

record pattern_body =
  pp_pattern :: string
  pp_context :: "(string \<times> pyval) list option"
  pp_confidence :: real
  pp_source :: string

definition record_pattern :: "fresh_ids \<Rightarrow> pattern_body \<Rightarrow> pyval list option \<Rightarrow> mem_db \<Rightarrow> pattern_row db_answer" where
  "record_pattern fi b embedding db =
     (let row = \<lparr>pt_id = fi_row fi, pt_pattern = pp_pattern b, pt_context = pp_context b,
                 pt_confidence = pp_confidence b, pt_hit_count = 1, pt_source = pp_source b,
                 pt_embedding = embedding, pt_needs_embedding = (embedding = None),
                 pt_created_at = fi_now fi, pt_last_used_at = None\<rparr>
      in Inr (row, audit_append (fi_audit fi) (fi_now fi) ''pattern_record'' None None
            [(''pattern_id'', PStr (fi_row fi)), (''source'', PStr (pp_source b))]
            (db\<lparr>db_patterns := db_patterns db @ [row]\<rparr>)))"

definition pattern_distance :: "distance \<Rightarrow> pyval list \<Rightarrow> pattern_row \<Rightarrow> real" where
  "pattern_distance cosine e r = (case pt_embedding r of None \<Rightarrow> 0 | Some x \<Rightarrow> cosine x e)"

definition query_patterns :: "distance \<Rightarrow> nat \<Rightarrow> pyval list option \<Rightarrow> mem_db \<Rightarrow> nat + (pattern_row \<times> real) list" where
  "query_patterns cosine top_k embedding db =
     (case embedding of
        None \<Rightarrow> Inl 503
      | Some e \<Rightarrow> Inr (map (\<lambda>r. (r, 1 - pattern_distance cosine e r))
          (take top_k (sort_key (pattern_distance cosine e) (filter (\<lambda>r. pt_embedding r \<noteq> None) (db_patterns db))))))"

definition list_patterns :: "string option \<Rightarrow> real option \<Rightarrow> nat \<Rightarrow> mem_db \<Rightarrow> pattern_row list" where
  "list_patterns source min_confidence limit db =
     take limit (sort_key (\<lambda>r. - pt_hit_count r)
       (filter (\<lambda>r. asks source (Some (pt_source r))
                  \<and> (case min_confidence of None \<Rightarrow> True | Some c \<Rightarrow> c \<le> pt_confidence r)) (db_patterns db)))"

definition boost_pattern :: "fresh_ids \<Rightarrow> string \<Rightarrow> mem_db \<Rightarrow> pattern_row db_answer" where
  "boost_pattern fi pattern_id db =
     (case List.find (\<lambda>r. pt_id r = pattern_id) (db_patterns db) of
        None \<Rightarrow> Inl 404
      | Some r \<Rightarrow>
          (let r' = r\<lparr>pt_hit_count := pt_hit_count r + 1, pt_last_used_at := Some (fi_now fi)\<rparr>
           in Inr (r', audit_append (fi_audit fi) (fi_now fi) ''pattern_boost'' None None
                 [(''pattern_id'', PStr pattern_id)]
                 (db\<lparr>db_patterns := update_rows (\<lambda>x. pt_id x = pattern_id) (\<lambda>x. r') (db_patterns db)\<rparr>))))"

definition delete_pattern :: "fresh_ids \<Rightarrow> string \<Rightarrow> mem_db \<Rightarrow> string db_answer" where
  "delete_pattern fi pattern_id db =
     (if \<exists>r \<in> set (db_patterns db). pt_id r = pattern_id
      then Inr (pattern_id, audit_append (fi_audit fi) (fi_now fi) ''pattern_delete'' None None
                 [(''pattern_id'', PStr pattern_id)]
                 (db\<lparr>db_patterns := filter (\<lambda>r. pt_id r \<noteq> pattern_id) (db_patterns db)\<rparr>))
      else Inl 404)"

section \<open>Deduplication\<close>

lemma find_similar_Some:
  assumes "find_similar cosine in_scope e rows = Some r"
  shows "r \<in> set rows" and "in_scope r" and "tm_embedding r \<noteq> None" and "dedup_threshold \<le> 1 - dist_of cosine e r"
    and "\<forall>x \<in> set rows. in_scope x \<and> tm_embedding x \<noteq> None \<longrightarrow> dist_of cosine e r \<le> dist_of cosine e x"
proof -
  let ?xs = "filter (\<lambda>r. in_scope r \<and> tm_embedding r \<noteq> None) rows"
  obtain rs where s: "sort_key (dist_of cosine e) ?xs = r # rs" and t: "dedup_threshold \<le> 1 - dist_of cosine e r"
    using assms by (auto simp: find_similar_def split: list.splits if_splits)
  have set: "set (r # rs) = set ?xs" using s by (metis set_sort)
  then show "r \<in> set rows" "in_scope r" "tm_embedding r \<noteq> None" by auto
  show "dedup_threshold \<le> 1 - dist_of cosine e r" by (rule t)
  have "sorted (map (dist_of cosine e) (r # rs))" using s by (metis sorted_sort_key)
  then have "\<forall>x \<in> set (r # rs). dist_of cosine e r \<le> dist_of cosine e x" by auto
  then show "\<forall>x \<in> set rows. in_scope x \<and> tm_embedding x \<noteq> None \<longrightarrow> dist_of cosine e r \<le> dist_of cosine e x"
    unfolding set by auto
qed

lemma find_similar_None:
  assumes "find_similar cosine in_scope e rows = None" and "x \<in> set rows" and "in_scope x" and "tm_embedding x \<noteq> None"
  shows "1 - dist_of cosine e x < dedup_threshold"
proof -
  let ?xs = "filter (\<lambda>r. in_scope r \<and> tm_embedding r \<noteq> None) rows"
  have x: "x \<in> set (sort_key (dist_of cosine e) ?xs)" using assms by simp
  then obtain r rs where s: "sort_key (dist_of cosine e) ?xs = r # rs" by (metis list.exhaust list.set(1) empty_iff)
  have "sorted (map (dist_of cosine e) (r # rs))" using s by (metis sorted_sort_key)
  moreover have "x \<in> set (r # rs)" using x unfolding s .
  ultimately have "dist_of cosine e r \<le> dist_of cosine e x" by auto
  moreover have "1 - dist_of cosine e r < dedup_threshold"
    using assms(1) s by (auto simp: find_similar_def split: if_splits)
  ultimately show ?thesis by simp
qed

section \<open>Properties\<close>

lemma embed_gateway_None:
  "embed_result (Some (gateway_embed settings keys provider model latency sid key (embed_body t))) = None"
proof -
  have "parse_embed_request (embed_body t) = None" by (simp add: parse_embed_request_def embed_body_def)
  then show ?thesis
    by (auto simp: gateway_embed_def embed_result_def split: sum.splits auth_error.splits)
qed

lemma embed_reply_key:
  "dict_get [(''embeddings'', x), (''model_used'', y), (''latency_ms'', z)] ''embedding'' = None"
  by simp

text \<open>
  (no embedding ever arrives): whatever the gateway's settings, keys and provider, the memory
  service's call of \<^verbatim>\<open>/v1/embed\<close> yields no embedding, because its body has neither \<^verbatim>\<open>texts\<close> nor \<^verbatim>\<open>tenant_id\<close> and it
  carries no service headers (and even a served reply would hold \<^verbatim>\<open>embeddings\<close>, which it does not read). So every
  semantic query is answered 503, and every remembered fact is stored as a new row without embedding: nothing is ever deduplicated.
\<close>

theorem embeddings_never_arrive:
  fixes settings keys provider model latency t
  defines "e \<equiv> embed (\<lambda>sid key body. Some (gateway_embed settings keys provider model latency sid key body)) t"
  shows "e = None
    \<and> tenant_recall cosine tenant_id k e db = Inl 503 \<and> user_recall cosine tenant_id user_id k e db = Inl 503
    \<and> query_patterns cosine k e db = Inl 503
    \<and> (\<exists>db'. tenant_remember cosine fi tenant_id b e db = Inr ((fi_row fi, Created), db')
          \<and> db_tenant_memory db' = db_tenant_memory db @ [new_tenant_fact (fi_row fi) (fi_now fi) tenant_id b None])"
proof -
  have e: "e = None" unfolding e_def embed_def by (rule embed_gateway_None)
  show ?thesis
    by (simp add: e tenant_recall_def user_recall_def query_patterns_def tenant_remember_def remember_def
        audit_append_def new_tenant_fact_def)
qed

lemma update_rows_one:
  assumes "distinct (map f rows)" and "r \<in> set rows"
  shows "set (update_rows (\<lambda>x. f x = f r) g rows) = insert (g r) (set rows - {r})"
proof -
  have "x = r" if "x \<in> set rows" "f x = f r" for x
    using assms that by (metis distinct_map inj_onD)
  then have "{x \<in> set rows. f x = f r} = {r}" and "{x \<in> set rows. f x \<noteq> f r} = set rows - {r}"
    using assms(2) by blast+
  then show ?thesis by (simp add: set_update_rows)
qed

text \<open>
  C26 (deduplication): given an embedding, remembering a fact either finds the tenant's most similar
  embedded fact, the one at the least distance of all of them, at similarity 0.9 or more, and then replaces its text and embedding, keeps the
  larger confidence, and adds no row, or every embedded fact of the tenant is less similar and exactly one row is added; in both cases
  the fact is stored with its embedding, one audit row is appended and no row of another tenant changes.
\<close>

theorem remember_deduplicates:
  assumes ids: "distinct (map tm_id (db_tenant_memory db))"
    and "tenant_remember cosine fi tenant_id b (Some e) db = Inr ((i, action), db')"
  shows "length (db_audit db') = Suc (length (db_audit db))
    \<and> filter (\<lambda>r. tm_tenant_id r \<noteq> tenant_id) (db_tenant_memory db') = filter (\<lambda>r. tm_tenant_id r \<noteq> tenant_id) (db_tenant_memory db)
    \<and> (\<exists>r \<in> set (db_tenant_memory db'). tm_id r = i \<and> tm_tenant_id r = tenant_id \<and> tm_fact r = rb_fact b
         \<and> tm_embedding r = Some e \<and> \<not> tm_needs_embedding r \<and> rb_confidence b \<le> tm_confidence r)
    \<and> (case action of
         Updated \<Rightarrow> length (db_tenant_memory db') = length (db_tenant_memory db)
           \<and> (\<exists>old \<in> set (db_tenant_memory db). \<exists>x. tm_tenant_id old = tenant_id \<and> tm_embedding old = Some x
               \<and> 9 / 10 \<le> 1 - cosine x e \<and> i = tm_id old
               \<and> (\<forall>r \<in> set (db_tenant_memory db). \<forall>y. tm_tenant_id r = tenant_id \<and> tm_embedding r = Some y \<longrightarrow> cosine x e \<le> cosine y e)
               \<and> set (db_tenant_memory db') = insert (refresh_fact (fi_now fi) b e old) (set (db_tenant_memory db) - {old}))
       | Created \<Rightarrow> db_tenant_memory db' = db_tenant_memory db @ [new_tenant_fact (fi_row fi) (fi_now fi) tenant_id b (Some e)]
           \<and> (\<forall>r \<in> set (db_tenant_memory db). \<forall>x. tm_tenant_id r = tenant_id \<and> tm_embedding r = Some x
               \<longrightarrow> 1 - cosine x e < 9 / 10))"
proof (cases "find_similar cosine (of_tenant tenant_id) e (db_tenant_memory db)")
  case None
  then have res: "i = fi_row fi" "action = Created"
      "db_tenant_memory db' = db_tenant_memory db @ [new_tenant_fact (fi_row fi) (fi_now fi) tenant_id b (Some e)]"
      "length (db_audit db') = Suc (length (db_audit db))"
    using assms(2) by (auto simp: tenant_remember_def remember_def audit_append_def new_tenant_fact_def)
  have "1 - cosine x e < 9 / 10" if "r \<in> set (db_tenant_memory db)" "tm_tenant_id r = tenant_id" "tm_embedding r = Some x" for r x
    using find_similar_None [OF None that(1)] that by (simp add: of_tenant_def dist_of_def dedup_threshold_def)
  then show ?thesis using res by (auto simp: new_tenant_fact_def)
next
  case (Some old)
  note F = find_similar_Some [OF Some]
  let ?rows = "update_rows (\<lambda>r. tm_id r = tm_id old) (refresh_fact (fi_now fi) b e) (db_tenant_memory db)"
  have res: "i = tm_id old" "action = Updated" "db_tenant_memory db' = ?rows"
      "length (db_audit db') = Suc (length (db_audit db))"
    using assms(2) Some by (auto simp: tenant_remember_def remember_def audit_append_def)
  have set: "set ?rows = insert (refresh_fact (fi_now fi) b e old) (set (db_tenant_memory db) - {old})"
    by (rule update_rows_one [OF ids F(1)])
  have other: "tm_tenant_id r = tenant_id" if "r \<in> set (db_tenant_memory db)" "tm_id r = tm_id old" for r
    using ids F(1,2) that by (metis distinct_map inj_onD of_tenant_def)
  have "filter (\<lambda>r. tm_tenant_id r \<noteq> tenant_id) (update_rows (\<lambda>r. tm_id r = tm_id old) (refresh_fact (fi_now fi) b e) rows) =
      filter (\<lambda>r. tm_tenant_id r \<noteq> tenant_id) rows"
    if "\<forall>r \<in> set rows. tm_id r = tm_id old \<longrightarrow> tm_tenant_id r = tenant_id" for rows
    using that by (induction rows) (auto simp: update_rows_def refresh_fact_def)
  then have flt: "filter (\<lambda>r. tm_tenant_id r \<noteq> tenant_id) ?rows = filter (\<lambda>r. tm_tenant_id r \<noteq> tenant_id) (db_tenant_memory db)"
    using other by blast
  obtain x where x: "tm_embedding old = Some x" using F(3) by auto
  have "9 / 10 \<le> 1 - cosine x e" using F(4) x by (simp add: dist_of_def dedup_threshold_def)
  moreover have "cosine x e \<le> cosine y e" if "r \<in> set (db_tenant_memory db)" "tm_tenant_id r = tenant_id" "tm_embedding r = Some y" for r y
    using F(5) that x by (auto simp: of_tenant_def dist_of_def dest!: bspec)
  moreover have "refresh_fact (fi_now fi) b e old \<in> set ?rows" unfolding set by simp
  moreover have "tm_tenant_id old = tenant_id" using F(2) by (simp add: of_tenant_def)
  ultimately show ?thesis
    using res set flt F(1) x
    by (auto simp: refresh_fact_def intro!: bexI [of _ "refresh_fact (fi_now fi) b e old"] bexI [of _ old])
qed

definition sample_fact :: remember_body where
  "sample_fact = \<lparr>rb_fact = ''uses Okta'', rb_category = ''idp'', rb_source = ''agent'', rb_confidence = 1 / 2\<rparr>"

definition sample_ids :: fresh_ids where
  "sample_ids = \<lparr>fi_row = ''r'', fi_audit = ''a'', fi_now = 0\<rparr>"

definition near_facts :: mem_db where
  "near_facts = empty_db\<lparr>db_tenant_memory :=
     [new_tenant_fact ''far'' 0 ''t'' sample_fact (Some [PInt 2]), new_tenant_fact ''near'' 0 ''t'' sample_fact (Some [PInt 1])]\<rparr>"

definition sample_cosine :: distance where
  "sample_cosine x y = (if x = y then 0 else 1 / 20)"

theorem remember_deduplicates_witness:
  "\<exists>action db'. tenant_remember sample_cosine sample_ids ''t'' sample_fact (Some [PInt 1]) near_facts = Inr ((''near'', action), db')
      \<and> length (db_audit db') = 1 \<and> action = Updated"
proof -
  let ?run = "tenant_remember sample_cosine sample_ids ''t'' sample_fact (Some [PInt 1]) near_facts"
  have "\<exists>i action db'. ?run = Inr ((i, action), db')" by (auto simp: tenant_remember_def split: prod.splits)
  then obtain i action db' where r: "?run = Inr ((i, action), db')" by blast
  have ids: "distinct (map tm_id (db_tenant_memory near_facts))" by (simp add: near_facts_def new_tenant_fact_def)
  have "length (db_audit near_facts) = 0" by (simp add: near_facts_def empty_db_def)
  with remember_deduplicates [OF ids r] r show ?thesis
    by (cases action) (auto simp: near_facts_def new_tenant_fact_def sample_cosine_def)
qed

text \<open>
  (a corrected fact keeps its old embedding): correcting the text of an embedded fact leaves the
  embedding of the old text in place, so the corrected fact is still what a search for the old text finds, and when
  it is the tenant's only embedded fact, remembering the old text again overwrites the correction.
\<close>

theorem corrected_fact_keeps_its_old_embedding:
  assumes "db_tenant_memory db = [r]" and "tm_tenant_id r = tenant_id" and "tm_embedding r = Some e"
    and "cosine e e = 0"
  shows "\<exists>db1. update_tenant_fact fi tenant_id (tm_id r) (Some corrected) None db = Inr (tm_id r, db1)
      \<and> map rl_fact (case tenant_recall cosine tenant_id 1 (Some e) db1 of Inr rs \<Rightarrow> rs | Inl c \<Rightarrow> []) = [corrected]
      \<and> (\<exists>db2. tenant_remember cosine fi' tenant_id b (Some e) db1 = Inr ((tm_id r, Updated), db2)
            \<and> map tm_fact (db_tenant_memory db2) = [rb_fact b])"
  using assms
  by (simp add: update_tenant_fact_def update_fact_def of_tenant_def update_rows_def audit_append_def
      tenant_recall_def recall_rows_def tenant_remember_def remember_def find_similar_def dist_of_def
      dedup_threshold_def refresh_fact_def)

theorem corrected_fact_keeps_its_old_embedding_witness:
  "\<exists>db1 db2. tenant_remember (\<lambda>x y. 0) sample_ids ''t'' sample_fact (Some [PInt 1]) db1 = Inr ((''r'', Updated), db2)
      \<and> map tm_fact (db_tenant_memory db2) = [''uses Okta'']"
proof -
  let ?r = "new_tenant_fact ''r'' 0 ''t'' sample_fact (Some [PInt 1])"
  have row: "db_tenant_memory (empty_db\<lparr>db_tenant_memory := [?r]\<rparr>) = [?r]" by simp
  have "tm_tenant_id ?r = ''t''" "tm_embedding ?r = Some [PInt 1]"
    and r: "tm_id ?r = ''r''" "rb_fact sample_fact = ''uses Okta''"
    by (simp_all add: new_tenant_fact_def sample_fact_def)
  from corrected_fact_keeps_its_old_embedding [OF row this(1,2), of "\<lambda>x y. 0" sample_ids "''uses Entra''" sample_ids sample_fact]
  show ?thesis unfolding r by (simp, elim exE conjE, intro exI conjI) assumption+
qed

end
