(* ===== verification/Mem_Skills.thy ===== *)
theory Mem_Skills
  imports Mem_Tables
begin

text \<open>
  The versioned skills (\<^verbatim>\<open>repositories/skill_repo.py\<close>, \<^verbatim>\<open>routes/skills.py\<close>): creating a version, rolling
  back, and reading. In every reachable database a skill has at most one active version and its versions are numbered
  without gaps; a rollback moves the counter that numbers the next version, and the number it then
  gives is taken.
\<close>

section \<open>Operations\<close>

definition get_active :: "string \<Rightarrow> mem_db \<Rightarrow> nat + skill_version_row option" where
  "get_active skill_id db =
     one_or_none (filter (\<lambda>v. sv_skill_id v = skill_id \<and> sv_status v = ''active'') (db_skill_versions db))"

definition get_version :: "string \<Rightarrow> int \<Rightarrow> mem_db \<Rightarrow> nat + skill_version_row option" where
  "get_version skill_id version db =
     one_or_none (filter (\<lambda>v. sv_skill_id v = skill_id \<and> sv_version v = version) (db_skill_versions db))"

definition get_history :: "string \<Rightarrow> mem_db \<Rightarrow> skill_version_row list" where
  "get_history skill_id db =
     sort_key (\<lambda>v. - sv_version v) (filter (\<lambda>v. sv_skill_id v = skill_id) (db_skill_versions db))"

record skill_version_body =
  sb_prompt_template :: string
  sb_config :: "(string \<times> pyval) list option"
  sb_author :: string
  sb_reason :: "string option"
  sb_status :: string

definition get_skill :: "string \<Rightarrow> mem_db \<Rightarrow> nat + skill_row option" where
  "get_skill skill_id db = one_or_none (filter (\<lambda>k. sk_id k = skill_id) (db_skills db))"

definition retire_active :: "string \<Rightarrow> skill_version_row list \<Rightarrow> skill_version_row list" where
  "retire_active skill_id vs =
     update_rows (\<lambda>v. sv_skill_id v = skill_id \<and> sv_status v = ''active'') (\<lambda>v. v\<lparr>sv_status := ''retired''\<rparr>) vs"

definition new_version_row :: "real \<Rightarrow> string \<Rightarrow> int \<Rightarrow> skill_version_body \<Rightarrow> skill_version_row" where
  "new_version_row now skill_id version b =
     \<lparr>sv_skill_id = skill_id, sv_version = version, sv_prompt_template = sb_prompt_template b,
      sv_config = sb_config b, sv_author = sb_author b, sv_reason = sb_reason b,
      sv_status = sb_status b, sv_created_at = now\<rparr>"

text \<open>The primary key of \<^verbatim>\<open>skill_versions\<close> is (skill, version): a second row raises \<^verbatim>\<open>IntegrityError\<close>.\<close>

definition insert_version :: "skill_version_row \<Rightarrow> mem_db \<Rightarrow> nat + mem_db" where
  "insert_version row db =
     (if \<exists>v \<in> set (db_skill_versions db). sv_skill_id v = sv_skill_id row \<and> sv_version v = sv_version row
      then Inl 500 else Inr (db\<lparr>db_skill_versions := db_skill_versions db @ [row]\<rparr>))"

definition bump_skill :: "string \<Rightarrow> skill_row option \<Rightarrow> mem_db \<Rightarrow> int \<times> mem_db" where
  "bump_skill skill_id skill db =
     (case skill of
        None \<Rightarrow> (1, db\<lparr>db_skills := db_skills db @ [\<lparr>sk_id = skill_id, sk_current_version = 1\<rparr>]\<rparr>)
      | Some k \<Rightarrow>
          (let n = sk_current_version k + 1
           in (n, db\<lparr>db_skills := update_rows (\<lambda>r. sk_id r = skill_id) (\<lambda>r. r\<lparr>sk_current_version := n\<rparr>) (db_skills db)\<rparr>)))"

definition create_version ::
    "real \<Rightarrow> string \<Rightarrow> skill_version_body \<Rightarrow> mem_db \<Rightarrow> skill_version_row db_answer" where
  "create_version now skill_id b db =
     (case get_skill skill_id db of
        Inl code \<Rightarrow> Inl code
      | Inr skill \<Rightarrow>
          (let (new_version, db1) = bump_skill skill_id skill db;
               db2 = (if sb_status b = ''active''
                      then db1\<lparr>db_skill_versions := retire_active skill_id (db_skill_versions db1)\<rparr> else db1);
               row = new_version_row now skill_id new_version b
           in case insert_version row db2 of Inl code \<Rightarrow> Inl code | Inr db3 \<Rightarrow> Inr (row, db3)))"

definition rollback_version :: "string \<Rightarrow> int \<Rightarrow> mem_db \<Rightarrow> nat + (skill_version_row \<times> mem_db) option" where
  "rollback_version skill_id target_version db =
     (case get_version skill_id target_version db of
        Inl code \<Rightarrow> Inl code
      | Inr None \<Rightarrow> Inr None
      | Inr (Some target) \<Rightarrow>
          (let vs = retire_active skill_id (db_skill_versions db);
               vs' = update_rows (\<lambda>v. sv_skill_id v = skill_id \<and> sv_version v = target_version)
                       (\<lambda>v. v\<lparr>sv_status := ''active''\<rparr>) vs;
               db1 = db\<lparr>db_skill_versions := vs'\<rparr>
           in case get_skill skill_id db1 of
                Inl code \<Rightarrow> Inl code
              | Inr None \<Rightarrow> Inr (Some (target\<lparr>sv_status := ''active''\<rparr>, db1))
              | Inr (Some k) \<Rightarrow>
                  Inr (Some (target\<lparr>sv_status := ''active''\<rparr>,
                    db1\<lparr>db_skills := update_rows (\<lambda>r. sk_id r = skill_id)
                          (\<lambda>r. r\<lparr>sk_current_version := target_version\<rparr>) (db_skills db1)\<rparr>))))"

definition config_role :: "skill_version_row \<Rightarrow> string option" where
  "config_role v = (case sv_config v of
     None \<Rightarrow> None
   | Some c \<Rightarrow> (case dict_get c ''role'' of Some (PStr r) \<Rightarrow> Some r | _ \<Rightarrow> None))"

text \<open>\<^verbatim>\<open>search\<close> never reads its \<^verbatim>\<open>trigger\<close> argument.\<close>

definition search_skills :: "string option \<Rightarrow> string option \<Rightarrow> mem_db \<Rightarrow> skill_version_row list" where
  "search_skills role trigger db =
     take 50 (filter (\<lambda>v. sv_status v \<in> {''active'', ''canary''} \<and> asks role (config_role v)) (db_skill_versions db))"

section \<open>Endpoints\<close>

definition create_skill_version ::
    "string \<Rightarrow> real \<Rightarrow> string \<Rightarrow> skill_version_body \<Rightarrow> mem_db \<Rightarrow> skill_version_row db_answer" where
  "create_skill_version uuid now skill_id b db =
     (case create_version now skill_id b db of
        Inl code \<Rightarrow> Inl code
      | Inr (v, db1) \<Rightarrow>
          Inr (v, audit_append uuid now ''skill_create_version'' None None
            [(''skill_id'', PStr skill_id), (''version'', PInt (sv_version v)),
             (''status'', PStr (sb_status b)), (''author'', PStr (sb_author b))] db1))"

definition rollback_skill :: "string \<Rightarrow> real \<Rightarrow> string \<Rightarrow> int \<Rightarrow> mem_db \<Rightarrow> skill_version_row db_answer" where
  "rollback_skill uuid now skill_id version db =
     (case rollback_version skill_id version db of
        Inl code \<Rightarrow> Inl code
      | Inr None \<Rightarrow> Inl 404
      | Inr (Some (v, db1)) \<Rightarrow>
          Inr (v, audit_append uuid now ''skill_rollback'' None None
            [(''skill_id'', PStr skill_id), (''rolled_back_to'', PInt version)] db1))"

definition get_active_skill :: "string \<Rightarrow> mem_db \<Rightarrow> nat + skill_version_row" where
  "get_active_skill skill_id db =
     (case get_active skill_id db of
        Inl code \<Rightarrow> Inl code | Inr None \<Rightarrow> Inl 404 | Inr (Some v) \<Rightarrow> Inr v)"

definition get_skill_version :: "string \<Rightarrow> int \<Rightarrow> mem_db \<Rightarrow> nat + skill_version_row" where
  "get_skill_version skill_id version db =
     (case get_version skill_id version db of
        Inl code \<Rightarrow> Inl code | Inr None \<Rightarrow> Inl 404 | Inr (Some v) \<Rightarrow> Inr v)"

definition get_skill_history :: "string \<Rightarrow> mem_db \<Rightarrow> nat + skill_version_row list" where
  "get_skill_history skill_id db =
     (let versions = get_history skill_id db in if versions = [] then Inl 404 else Inr versions)"

section \<open>The invariant of the skill tables\<close>

text \<open>The rows of one skill: its counter, its versions, and which are active.\<close>

definition versions_of :: "string \<Rightarrow> mem_db \<Rightarrow> int list" where
  "versions_of k db = map sv_version (filter (\<lambda>v. sv_skill_id v = k) (db_skill_versions db))"

definition actives_of :: "string \<Rightarrow> mem_db \<Rightarrow> skill_version_row list" where
  "actives_of k db = filter (\<lambda>v. sv_skill_id v = k \<and> sv_status v = ''active'') (db_skill_versions db)"

definition counters_of :: "string \<Rightarrow> mem_db \<Rightarrow> int list" where
  "counters_of k db = map sk_current_version (filter (\<lambda>r. sk_id r = k) (db_skills db))"

definition skill_ok :: "string \<Rightarrow> mem_db \<Rightarrow> bool" where
  "skill_ok k db \<longleftrightarrow>
     versions_of k db = map int [1 ..< Suc (length (versions_of k db))]
   \<and> length (actives_of k db) \<le> 1
   \<and> (counters_of k db = [] \<and> versions_of k db = []
      \<or> (\<exists>c. counters_of k db = [c] \<and> 1 \<le> c \<and> c \<le> int (length (versions_of k db))))"

definition skills_ok :: "mem_db \<Rightarrow> bool" where
  "skills_ok db \<longleftrightarrow> (\<forall>k. skill_ok k db)"

lemma get_skill_counters:
  "get_skill k db = (case counters_of k db of [] \<Rightarrow> Inr None | [c] \<Rightarrow> Inr (Some \<lparr>sk_id = k, sk_current_version = c\<rparr>) | _ \<Rightarrow> Inl 500)"
proof -
  have ids: "\<And>r. r \<in> set (filter (\<lambda>r. sk_id r = k) (db_skills db)) \<Longrightarrow> r = \<lparr>sk_id = k, sk_current_version = sk_current_version r\<rparr>"
    by auto
  show ?thesis
    using ids
    by (cases "filter (\<lambda>r. sk_id r = k) (db_skills db)" rule: one_or_none.cases)
       (auto simp: get_skill_def counters_of_def)
qed

lemma distinct_filter_one: "distinct (map f xs) \<Longrightarrow> length (filter (\<lambda>x. f x = n) xs) \<le> 1"
proof (induction xs)
  case (Cons x xs)
  have "f x = n \<Longrightarrow> filter (\<lambda>x. f x = n) xs = []"
    using Cons.prems by (auto simp: filter_empty_conv image_iff)
  with Cons show ?case by auto
qed simp

lemma get_version_present:
  assumes "skill_ok k db"
  shows "get_version k n db \<noteq> Inl c"
    and "(\<exists>v. get_version k n db = Inr (Some v)) \<longleftrightarrow> 1 \<le> n \<and> n \<le> int (length (versions_of k db))"
    and "get_version k n db = Inr (Some v) \<Longrightarrow> v \<in> set (db_skill_versions db) \<and> sv_skill_id v = k \<and> sv_version v = n"
proof -
  let ?vs = "filter (\<lambda>v. sv_skill_id v = k) (db_skill_versions db)"
  have vers: "map sv_version ?vs = map int [1 ..< Suc (length ?vs)]"
    using assms by (simp add: skill_ok_def versions_of_def)
  have dist: "distinct (map sv_version ?vs)"
    unfolding vers by (simp add: distinct_map)
  have "length (filter (\<lambda>v. sv_version v = n) ?vs) \<le> 1"
    by (rule distinct_filter_one [OF dist])
  then have le: "length (filter (\<lambda>v. sv_skill_id v = k \<and> sv_version v = n) (db_skill_versions db)) \<le> 1"
    by (simp add: conj_commute)
  then show "get_version k n db \<noteq> Inl c"
    by (cases "filter (\<lambda>v. sv_skill_id v = k \<and> sv_version v = n) (db_skill_versions db)" rule: one_or_none.cases)
       (auto simp: get_version_def)
  show "get_version k n db = Inr (Some v) \<Longrightarrow> v \<in> set (db_skill_versions db) \<and> sv_skill_id v = k \<and> sv_version v = n"
    unfolding get_version_def by (drule one_or_none_map) auto
  have "(\<exists>v. get_version k n db = Inr (Some v)) \<longleftrightarrow> filter (\<lambda>v. sv_skill_id v = k \<and> sv_version v = n) (db_skill_versions db) \<noteq> []"
    using le
    by (cases "filter (\<lambda>v. sv_skill_id v = k \<and> sv_version v = n) (db_skill_versions db)" rule: one_or_none.cases)
       (auto simp: get_version_def)
  also have "\<dots> \<longleftrightarrow> n \<in> set (map sv_version ?vs)" by (auto simp: filter_empty_conv)
  also have "\<dots> \<longleftrightarrow> 1 \<le> n \<and> n \<le> int (length (versions_of k db))"
    unfolding vers by (auto simp: versions_of_def image_iff intro!: exI [of _ "nat n"])
  finally show "(\<exists>v. get_version k n db = Inr (Some v)) \<longleftrightarrow> 1 \<le> n \<and> n \<le> int (length (versions_of k db))" .
qed

lemma versions_of_update:
  assumes "\<And>v. sv_skill_id (f v) = sv_skill_id v" and "\<And>v. sv_version (f v) = sv_version v"
  shows "versions_of k (db\<lparr>db_skill_versions := update_rows p f (db_skill_versions db)\<rparr>) = versions_of k db"
proof -
  have "map sv_version (filter (\<lambda>v. sv_skill_id v = k) (update_rows p f vs)) =
      map sv_version (filter (\<lambda>v. sv_skill_id v = k) vs)" for vs
    unfolding update_rows_def by (induction vs) (auto simp: assms)
  then show ?thesis by (simp add: versions_of_def)
qed

lemma actives_retired:
  "actives_of k (db\<lparr>db_skill_versions := retire_active i (db_skill_versions db)\<rparr>) =
     (if k = i then [] else actives_of k db)"
proof -
  have "filter (\<lambda>v. sv_skill_id v = k \<and> sv_status v = ''active'') (retire_active i vs) =
      (if k = i then [] else filter (\<lambda>v. sv_skill_id v = k \<and> sv_status v = ''active'') vs)" for vs
    unfolding retire_active_def update_rows_def by (induction vs) auto
  then show ?thesis by (simp add: actives_of_def)
qed

lemma counters_of_update:
  "counters_of k (db\<lparr>db_skills := update_rows (\<lambda>r. sk_id r = i) (\<lambda>r. r\<lparr>sk_current_version := n\<rparr>) (db_skills db)\<rparr>) =
     (if k = i then map (\<lambda>c. n) (counters_of k db) else counters_of k db)"
proof -
  have "map sk_current_version (filter (\<lambda>r. sk_id r = k)
        (update_rows (\<lambda>r. sk_id r = i) (\<lambda>r. r\<lparr>sk_current_version := n\<rparr>) rs)) =
      (if k = i then map (\<lambda>c. n) (map sk_current_version (filter (\<lambda>r. sk_id r = k) rs))
       else map sk_current_version (filter (\<lambda>r. sk_id r = k) rs))" for rs
    unfolding update_rows_def by (induction rs) auto
  from this [of "db_skills db"] show ?thesis by (cases "k = i") (simp_all add: counters_of_def)
qed

text \<open>The number the next version of a skill gets, and how many versions it has.\<close>

definition next_version :: "string \<Rightarrow> mem_db \<Rightarrow> int" where
  "next_version k db = (case counters_of k db of [] \<Rightarrow> 1 | c # cs \<Rightarrow> c + 1)"

definition version_count :: "string \<Rightarrow> mem_db \<Rightarrow> int" where
  "version_count k db = int (length (versions_of k db))"

lemma bump_skill_counters:
  assumes "skill_ok i db" and "get_skill i db = Inr skill" and "bump_skill i skill db = (n, db1)"
  shows "n = next_version i db" and "db_skill_versions db1 = db_skill_versions db"
    and "counters_of k db1 = (if k = i then [n] else counters_of k db)"
    and "db_audit db1 = db_audit db"
proof -
  have "n = next_version i db \<and> db_skill_versions db1 = db_skill_versions db
      \<and> counters_of k db1 = (if k = i then [n] else counters_of k db) \<and> db_audit db1 = db_audit db"
  proof (cases "counters_of i db")
    case Nil
    with assms have "n = 1" "db1 = db\<lparr>db_skills := db_skills db @ [\<lparr>sk_id = i, sk_current_version = 1\<rparr>]\<rparr>"
      by (auto simp: get_skill_counters bump_skill_def)
    with Nil show ?thesis by (simp add: next_version_def counters_of_def)
  next
    case (Cons c cs)
    then have one: "counters_of i db = [c]" using assms(1) by (auto simp: skill_ok_def)
    with assms have "n = c + 1"
      "db1 = db\<lparr>db_skills := update_rows (\<lambda>r. sk_id r = i) (\<lambda>r. r\<lparr>sk_current_version := n\<rparr>) (db_skills db)\<rparr>"
      by (auto simp: get_skill_counters bump_skill_def Let_def)
    with one show ?thesis by (simp add: next_version_def counters_of_update)
  qed
  then show "n = next_version i db" "db_skill_versions db1 = db_skill_versions db"
    "counters_of k db1 = (if k = i then [n] else counters_of k db)" "db_audit db1 = db_audit db" by blast+
qed

lemma skill_ok_next:
  assumes "skill_ok k db"
  shows "1 \<le> next_version k db \<and> next_version k db \<le> version_count k db + 1"
  using assms by (auto simp: skill_ok_def next_version_def version_count_def)

lemma insert_version_iff:
  assumes "skill_ok i db"
  shows "insert_version (new_version_row now i n b) db =
    (if 1 \<le> n \<and> n \<le> version_count i db then Inl 500
     else Inr (db\<lparr>db_skill_versions := db_skill_versions db @ [new_version_row now i n b]\<rparr>))"
proof -
  have "(\<exists>v \<in> set (db_skill_versions db). sv_skill_id v = i \<and> sv_version v = n) \<longleftrightarrow> n \<in> set (versions_of i db)"
    by (auto simp: versions_of_def)
  also have "\<dots> \<longleftrightarrow> 1 \<le> n \<and> n \<le> version_count i db"
  proof -
    have "set (versions_of i db) = int ` {1 ..< Suc (length (versions_of i db))}"
      using assms unfolding skill_ok_def by (metis set_map set_upt)
    then show ?thesis
      by (auto simp: version_count_def image_iff intro!: bexI [of _ "nat n"])
  qed
  finally show ?thesis by (simp add: insert_version_def new_version_row_def)
qed

lemma skill_ok_cong:
  "versions_of k db' = versions_of k db \<Longrightarrow> actives_of k db' = actives_of k db \<Longrightarrow>
   counters_of k db' = counters_of k db \<Longrightarrow> skill_ok k db' = skill_ok k db"
  by (simp add: skill_ok_def)

lemma create_version_cases:
  assumes ok: "skills_ok db"
  shows "next_version i db \<le> version_count i db \<Longrightarrow> create_version now i b db = Inl 500"
    and "next_version i db = version_count i db + 1 \<Longrightarrow>
      \<exists>db'. create_version now i b db = Inr (new_version_row now i (next_version i db) b, db')
        \<and> skills_ok db' \<and> db_audit db' = db_audit db
        \<and> versions_of i db' = versions_of i db @ [next_version i db] \<and> counters_of i db' = [next_version i db]
        \<and> (sb_status b = ''active'' \<longrightarrow> actives_of i db' = [new_version_row now i (next_version i db) b])"
proof -
  have oki: "skill_ok i db" using ok by (simp add: skills_ok_def)
  obtain skill where sk: "get_skill i db = Inr skill"
    using oki by (auto simp: get_skill_counters skill_ok_def)
  obtain n db1 where bump: "bump_skill i skill db = (n, db1)" by (cases "bump_skill i skill db")
  note B = bump_skill_counters [OF oki sk bump]
  let ?act = "sb_status b = ''active''"
  define db2 where "db2 = (if ?act then db1\<lparr>db_skill_versions := retire_active i (db_skill_versions db1)\<rparr> else db1)"
  have vers: "versions_of k db2 = versions_of k db" for k
    using versions_of_update [where f = "\<lambda>v. v\<lparr>sv_status := ''retired''\<rparr>" and k = k and db = db1] B(2)
    by (simp add: db2_def retire_active_def) (simp add: versions_of_def)
  have acts: "actives_of k db2 = (if ?act \<and> k = i then [] else actives_of k db)" for k
    using actives_retired [where k = k and db = db1 and i = i] B(2) by (auto simp: db2_def) (auto simp: actives_of_def)
  have cnts: "counters_of k db2 = (if k = i then [n] else counters_of k db)" for k
    using B(3) [of k] by (cases "k = i") (simp_all add: db2_def counters_of_def)
  have create: "create_version now i b db =
      (case insert_version (new_version_row now i n b) db2 of
         Inl code \<Rightarrow> Inl code | Inr db3 \<Rightarrow> Inr (new_version_row now i n b, db3))"
    by (simp add: create_version_def sk bump db2_def Let_def)
  have ins: "insert_version (new_version_row now i n b) db2 =
    (if 1 \<le> n \<and> n \<le> version_count i db then Inl 500
     else Inr (db2\<lparr>db_skill_versions := db_skill_versions db2 @ [new_version_row now i n b]\<rparr>))"
  proof -
    have "(\<exists>v \<in> set (db_skill_versions db2). sv_skill_id v = i \<and> sv_version v = n) \<longleftrightarrow> n \<in> set (versions_of i db2)"
      by (auto simp: versions_of_def)
    also have "\<dots> \<longleftrightarrow> (\<exists>v \<in> set (db_skill_versions db). sv_skill_id v = i \<and> sv_version v = n)"
      unfolding vers by (auto simp: versions_of_def)
    finally show ?thesis
      using insert_version_iff [OF oki, of now n b]
      by (auto simp: insert_version_def new_version_row_def split: if_splits)
  qed
  show "next_version i db \<le> version_count i db \<Longrightarrow> create_version now i b db = Inl 500"
    unfolding create ins using skill_ok_next [OF oki] B(1) by simp
  assume fresh: "next_version i db = version_count i db + 1"
  let ?row = "new_version_row now i n b"
  let ?db' = "db2\<lparr>db_skill_versions := db_skill_versions db2 @ [?row]\<rparr>"
  have c: "create_version now i b db = Inr (?row, ?db')"
    unfolding create ins using fresh B(1) by simp
  have v': "versions_of k ?db' = versions_of k db @ (if k = i then [n] else [])" for k
    using vers [of k] by (simp add: versions_of_def new_version_row_def)
  have a': "actives_of k ?db' = (if k = i then (if ?act then [?row] else actives_of k db) else actives_of k db)" for k
    using acts [of k] by (auto simp: actives_of_def new_version_row_def)
  have k': "counters_of k ?db' = (if k = i then [n] else counters_of k db)" for k
    using cnts [of k] by (cases "k = i") (simp_all add: counters_of_def)
  have "skill_ok k ?db'" for k
  proof (cases "k = i")
    case False
    then have "skill_ok k ?db' = skill_ok k db" using v' a' k' by (intro skill_ok_cong) auto
    then show ?thesis using ok by (simp add: skills_ok_def)
  next
    case True
    have n: "n = int (length (versions_of i db)) + 1" using fresh B(1) by (simp add: version_count_def)
    have "versions_of i db @ [n] = map int [1 ..< Suc (length (versions_of i db @ [n]))]"
      using oki n by (simp add: skill_ok_def)
    moreover have "length (actives_of i db) \<le> 1" using oki by (simp add: skill_ok_def)
    ultimately show ?thesis using True n v' [of i] a' [of i] k' [of i] by (simp add: skill_ok_def)
  qed
  then have "skills_ok ?db'" by (simp add: skills_ok_def)
  moreover have "db_audit ?db' = db_audit db" using B(4) by (simp add: db2_def)
  ultimately show "\<exists>db'. create_version now i b db = Inr (new_version_row now i (next_version i db) b, db')
        \<and> skills_ok db' \<and> db_audit db' = db_audit db
        \<and> versions_of i db' = versions_of i db @ [next_version i db] \<and> counters_of i db' = [next_version i db]
        \<and> (?act \<longrightarrow> actives_of i db' = [new_version_row now i (next_version i db) b])"
    using c v' [of i] a' [of i] k' [of i] B(1) by auto
qed

lemma rollback_version_cases:
  assumes ok: "skills_ok db"
  shows "\<not> (1 \<le> v \<and> v \<le> version_count i db) \<Longrightarrow> rollback_version i v db = Inr None"
    and "1 \<le> v \<Longrightarrow> v \<le> version_count i db \<Longrightarrow>
      \<exists>row db'. rollback_version i v db = Inr (Some (row, db')) \<and> skills_ok db' \<and> db_audit db' = db_audit db
        \<and> sv_version row = v \<and> sv_status row = ''active'' \<and> actives_of i db' = [row]
        \<and> versions_of i db' = versions_of i db \<and> counters_of i db' = [v]"
proof -
  have oki: "skill_ok i db" using ok by (simp add: skills_ok_def)
  note V = get_version_present [OF oki, of v]
  show "\<not> (1 \<le> v \<and> v \<le> version_count i db) \<Longrightarrow> rollback_version i v db = Inr None"
    using V(1,2) unfolding version_count_def
    by (cases "get_version i v db") (auto simp: rollback_version_def split: option.splits)
  assume v: "1 \<le> v" "v \<le> version_count i db"
  then obtain target where t: "get_version i v db = Inr (Some target)" using V(2) by (auto simp: version_count_def)
  then have trow: "filter (\<lambda>r. sv_skill_id r = i \<and> sv_version r = v) (db_skill_versions db) = [target]"
    by (cases "filter (\<lambda>r. sv_skill_id r = i \<and> sv_version r = v) (db_skill_versions db)" rule: one_or_none.cases)
       (auto simp: get_version_def)
  let ?f = "\<lambda>r. r\<lparr>sv_status := ''active''\<rparr>"
  define db1 where "db1 = db\<lparr>db_skill_versions := update_rows (\<lambda>r. sv_skill_id r = i \<and> sv_version r = v) ?f
      (retire_active i (db_skill_versions db))\<rparr>"
  define db2 where "db2 = db1\<lparr>db_skills := update_rows (\<lambda>r. sk_id r = i) (\<lambda>r. r\<lparr>sk_current_version := v\<rparr>) (db_skills db1)\<rparr>"
  obtain c where c: "counters_of i db = [c]"
    using oki v by (auto simp: skill_ok_def version_count_def)
  have "get_skill i db1 = Inr (Some \<lparr>sk_id = i, sk_current_version = c\<rparr>)"
    using c get_skill_counters [of i db] by (simp add: db1_def get_skill_def)
  then have res: "rollback_version i v db = Inr (Some (?f target, db2))"
    by (simp add: rollback_version_def t db1_def db2_def Let_def)
  have vers: "versions_of k db2 = versions_of k db" for k
  proof -
    have "versions_of k db2 = versions_of k db1" by (simp add: versions_of_def db2_def)
    also have "\<dots> = versions_of k (db\<lparr>db_skill_versions := retire_active i (db_skill_versions db)\<rparr>)"
      using versions_of_update [where f = ?f and k = k
          and db = "db\<lparr>db_skill_versions := retire_active i (db_skill_versions db)\<rparr>"]
      by (simp add: db1_def versions_of_def)
    also have "\<dots> = versions_of k db"
      unfolding retire_active_def by (rule versions_of_update) simp_all
    finally show ?thesis .
  qed
  have acts: "actives_of k db2 = (if k = i then [?f target] else actives_of k db)" for k
  proof -
    have "filter (\<lambda>r. sv_skill_id r = i \<and> sv_status r = ''active'')
        (update_rows (\<lambda>r. sv_skill_id r = i \<and> sv_version r = v) ?f (retire_active i vs)) =
        map ?f (filter (\<lambda>r. sv_skill_id r = i \<and> sv_version r = v) vs)" for vs
      unfolding retire_active_def update_rows_def by (induction vs) simp_all
    moreover have "filter (\<lambda>r. sv_skill_id r = k \<and> sv_status r = ''active'')
        (update_rows (\<lambda>r. sv_skill_id r = i \<and> sv_version r = v) ?f (retire_active i vs)) =
        filter (\<lambda>r. sv_skill_id r = k \<and> sv_status r = ''active'') vs" if "k \<noteq> i" for vs
      unfolding retire_active_def update_rows_def using that by (induction vs) simp_all
    ultimately show ?thesis using trow
      by (cases "k = i") (simp_all add: actives_of_def db1_def db2_def)
  qed
  have cnts: "counters_of k db2 = (if k = i then [v] else counters_of k db)" for k
  proof -
    have "counters_of k db1 = counters_of k db" for k by (simp add: counters_of_def db1_def)
    then show ?thesis using c by (simp add: db2_def counters_of_update)
  qed
  have "skill_ok k db2" for k
  proof (cases "k = i")
    case False
    then have "skill_ok k db2 = skill_ok k db" using vers acts cnts by (intro skill_ok_cong) auto
    then show ?thesis using ok by (simp add: skills_ok_def)
  next
    case True
    then show ?thesis
      using oki v vers [of i] acts [of i] cnts [of i] by (auto simp: skill_ok_def version_count_def)
  qed
  then have "skills_ok db2" by (simp add: skills_ok_def)
  moreover have "sv_version target = v" using V(3) t by simp
  moreover have "db_audit db2 = db_audit db" by (simp add: db1_def db2_def)
  ultimately show "\<exists>row db'. rollback_version i v db = Inr (Some (row, db')) \<and> skills_ok db' \<and> db_audit db' = db_audit db
        \<and> sv_version row = v \<and> sv_status row = ''active'' \<and> actives_of i db' = [row]
        \<and> versions_of i db' = versions_of i db \<and> counters_of i db' = [v]"
    using res vers [of i] acts [of i] cnts [of i] by (intro exI [of _ "?f target"] exI [of _ db2]) simp
qed

lemma skills_ok_audit [simp]: "skills_ok (audit_append u now op t a p db) = skills_ok db"
  by (simp add: skills_ok_def skill_ok_def versions_of_def actives_of_def counters_of_def audit_append_def)

lemma audit_append_reads [simp]:
  "versions_of k (audit_append u now op t a p db) = versions_of k db"
  "actives_of k (audit_append u now op t a p db) = actives_of k db"
  "counters_of k (audit_append u now op t a p db) = counters_of k db"
  "next_version k (audit_append u now op t a p db) = next_version k db"
  "version_count k (audit_append u now op t a p db) = version_count k db"
  by (simp_all add: versions_of_def actives_of_def counters_of_def next_version_def version_count_def audit_append_def)

section \<open>The skill tables as a transition system\<close>

inductive skill_step :: "mem_db \<Rightarrow> mem_db \<Rightarrow> bool" where
  created: "create_skill_version u now i b db = Inr (v, db') \<Longrightarrow> skill_step db db'"
| rolled_back: "rollback_skill u now i n db = Inr (v, db') \<Longrightarrow> skill_step db db'"

inductive_cases skill_stepE: "skill_step db db'"

lemma skills_ok_step:
  assumes ok: "skills_ok db" and "skill_step db db'"
  shows "skills_ok db'"
  using assms(2)
proof cases
  case (created u now i b v)
  then obtain db1 where "create_version now i b db = Inr (v, db1)" and "skills_ok db' = skills_ok db1"
    by (auto simp: create_skill_version_def split: sum.splits)
  then show ?thesis
    using create_version_cases [OF ok, of i now b] skill_ok_next [of i db] ok
    by (cases "next_version i db \<le> version_count i db") (force simp: skills_ok_def)+
next
  case (rolled_back u now i n v)
  then obtain db1 where "rollback_version i n db = Inr (Some (v, db1))" and "skills_ok db' = skills_ok db1"
    by (auto simp: rollback_skill_def split: sum.splits option.splits)
  then show ?thesis
    using rollback_version_cases [OF ok, where v = n and i = i]
    by (cases "1 \<le> n \<and> n \<le> version_count i db") auto
qed

lemma skills_ok_empty: "skills_ok empty_db"
  by (simp add: skills_ok_def skill_ok_def versions_of_def actives_of_def counters_of_def empty_db_def)

interpretation skill_tables: invariant_system "\<lambda>db. db = empty_db" skill_step skills_ok
  by unfold_locales (blast intro: skills_ok_empty skills_ok_step)+

section \<open>Properties\<close>

lemma get_active_actives: "get_active k db = one_or_none (actives_of k db)"
  by (simp add: get_active_def actives_of_def)

lemma skills_ok_get_active:
  assumes "skills_ok db"
  shows "get_active k db \<noteq> Inl c"
proof -
  have "length (actives_of k db) \<le> 1" using assms by (simp add: skills_ok_def skill_ok_def)
  then show ?thesis
    unfolding get_active_actives by (cases "actives_of k db" rule: one_or_none.cases) simp_all
qed

text \<open>
  (skill versions): in every state the skill endpoints can reach, the versions of each skill are
  numbered 1, 2, 3 and so on, at most one of them is active, its counter names one of them, and no read
  of a skill fails with more than one row.
\<close>

theorem skill_versions_invariant:
  assumes "reachable (\<lambda>db. db = empty_db) skill_step db"
  shows "versions_of k db = map int [1 ..< Suc (length (versions_of k db))]
    \<and> length (actives_of k db) \<le> 1
    \<and> get_active_skill k db \<in> {Inl 404} \<union> range Inr \<and> get_skill_version k v db \<in> {Inl 404} \<union> range Inr
    \<and> (\<forall>c. counters_of k db = [c] \<longrightarrow> 1 \<le> c \<and> c \<le> int (length (versions_of k db)))"
proof -
  have ok: "skills_ok db" by (rule skill_tables.reachable_inv [OF assms])
  then have okk: "skill_ok k db" by (simp add: skills_ok_def)
  have "get_active_skill k db \<in> {Inl 404} \<union> range Inr"
    using skills_ok_get_active [OF ok, of k]
    by (auto simp: get_active_skill_def split: sum.splits option.splits)
  moreover have "get_skill_version k v db \<in> {Inl 404} \<union> range Inr"
    using get_version_present(1) [OF okk, of v]
    by (auto simp: get_skill_version_def split: sum.splits option.splits)
  moreover have "versions_of k db = map int [1 ..< Suc (length (versions_of k db))]" "length (actives_of k db) \<le> 1"
    "\<forall>c. counters_of k db = [c] \<longrightarrow> 1 \<le> c \<and> c \<le> int (length (versions_of k db))"
    using okk by (auto simp: skill_ok_def)
  ultimately show ?thesis by blast
qed

theorem skill_versions_invariant_witness:
  "length (actives_of ''s'' empty_db) \<le> 1"
  using skill_versions_invariant [OF reachable_init, of empty_db "''s''"] by simp

lemma create_skill_version_ok:
  assumes "skills_ok db" and "next_version i db = version_count i db + 1"
  shows "\<exists>db'. create_skill_version u now i b db = Inr (new_version_row now i (next_version i db) b, db')
      \<and> skills_ok db' \<and> version_count i db' = version_count i db + 1 \<and> next_version i db' = version_count i db' + 1
      \<and> (sb_status b = ''active'' \<longrightarrow> actives_of i db' = [new_version_row now i (next_version i db) b])"
proof -
  obtain db1 where "create_version now i b db = Inr (new_version_row now i (next_version i db) b, db1)"
    and "skills_ok db1" "versions_of i db1 = versions_of i db @ [next_version i db]"
      "counters_of i db1 = [next_version i db]"
      "sb_status b = ''active'' \<longrightarrow> actives_of i db1 = [new_version_row now i (next_version i db) b]"
    using create_version_cases(2) [OF assms] by blast
  moreover from this have "version_count i db1 = version_count i db + 1" "next_version i db1 = version_count i db1 + 1"
    using assms(2) by (simp_all add: version_count_def next_version_def)
  ultimately show ?thesis by (simp add: create_skill_version_def)
qed

text \<open>
  C14 (a rollback stops new versions): rolling a skill back to one of its versions makes that version
  the active one; but unless it was the latest, every later attempt to create a version of that skill fails with 500
  and changes nothing, because the counter then points at a number that is taken, until the skill is
  rolled back to its latest version, after which a new version gets the next number and, if it asks to be active,
  is what \<^verbatim>\<open>get_active_skill\<close> returns.
\<close>

theorem rollback_stops_new_versions:
  assumes reach: "reachable (\<lambda>db. db = empty_db) skill_step db"
    and v: "1 \<le> v" "v \<le> version_count i db"
  shows "\<exists>row db'. rollback_skill u now i v db = Inr (row, db') \<and> sv_version row = v
      \<and> get_active_skill i db' = Inr row
      \<and> (if v < version_count i db
         then \<forall>u' now' b. create_skill_version u' now' i b db' = Inl 500
         else \<forall>u' now' b. \<exists>new db''. create_skill_version u' now' i b db' = Inr (new, db'')
            \<and> sv_version new = version_count i db + 1
            \<and> (sb_status b = ''active'' \<longrightarrow> get_active_skill i db'' = Inr new))"
proof -
  have ok: "skills_ok db" by (rule skill_tables.reachable_inv [OF reach])
  obtain row db1 where r: "rollback_version i v db = Inr (Some (row, db1))" "skills_ok db1" "sv_version row = v"
      "actives_of i db1 = [row]" "versions_of i db1 = versions_of i db" "counters_of i db1 = [v]"
    using rollback_version_cases(2) [OF ok v] by blast
  define db' where "db' = audit_append u now ''skill_rollback'' None None
      [(''skill_id'', PStr i), (''rolled_back_to'', PInt v)] db1"
  have res: "rollback_skill u now i v db = Inr (row, db')"
    by (simp add: rollback_skill_def r db'_def)
  have act: "get_active_skill i db' = Inr row"
    by (simp add: get_active_skill_def get_active_actives db'_def r)
  have ok': "skills_ok db'" using r(2) by (simp add: db'_def)
  have cnt: "version_count i db' = version_count i db" "next_version i db' = v + 1"
    using r by (simp_all add: db'_def version_count_def next_version_def)
  show ?thesis
  proof (cases "v < version_count i db")
    case True
    then have "create_version now' i b db' = Inl 500" for now' b
      using create_version_cases(1) [OF ok', of i now' b] cnt by simp
    then have "create_skill_version u' now' i b db' = Inl 500" for u' now' b
      by (simp add: create_skill_version_def)
    with True res act r(3) show ?thesis by auto
  next
    case False
    then have nxt: "next_version i db' = version_count i db' + 1" using cnt v by simp
    have "\<exists>new db''. create_skill_version u' now' i b db' = Inr (new, db'')
            \<and> sv_version new = version_count i db + 1
            \<and> (sb_status b = ''active'' \<longrightarrow> get_active_skill i db'' = Inr new)" for u' now' b
      using create_skill_version_ok [OF ok' nxt, of u' now' b] nxt cnt(1)
      by (auto simp: get_active_skill_def get_active_actives new_version_row_def)
    with False res act r(3) show ?thesis by auto
  qed
qed

definition sample_skill :: skill_version_body where
  "sample_skill = \<lparr>sb_prompt_template = ''p'', sb_config = None, sb_author = ''a'', sb_reason = None, sb_status = ''active''\<rparr>"

theorem rollback_stops_new_versions_witness:
  "\<exists>db row db'. rollback_skill ''u'' 0 ''s'' 1 db = Inr (row, db')
      \<and> (\<forall>u' now' b. create_skill_version u' now' ''s'' b db' = Inl 500)"
proof -
  have "next_version ''s'' empty_db = version_count ''s'' empty_db + 1"
    by (simp add: next_version_def version_count_def versions_of_def counters_of_def empty_db_def)
  from create_skill_version_ok [OF skills_ok_empty this, of "''u''" 0 sample_skill] obtain v1 db1
    where 1: "create_skill_version ''u'' 0 ''s'' sample_skill empty_db = Inr (v1, db1)" "skills_ok db1"
      "next_version ''s'' db1 = version_count ''s'' db1 + 1" "version_count ''s'' db1 = 1"
    by (auto simp: version_count_def versions_of_def empty_db_def)
  from create_skill_version_ok [OF this(2,3), of "''u''" 0 sample_skill] obtain v2 db2
    where 2: "create_skill_version ''u'' 0 ''s'' sample_skill db1 = Inr (v2, db2)" "version_count ''s'' db2 = 2"
    using 1(4) by auto
  have "reachable (\<lambda>db. db = empty_db) skill_step db2"
    using 1(1) 2(1) by (intro reachable_step [OF reachable_step [OF reachable_init]] skill_step.created) auto
  from rollback_stops_new_versions [OF this, of 1 "''s''" "''u''" 0] 2(2) show ?thesis by auto
qed

end
