(* ===== verification/Mem_Records.thy ===== *)
theory Mem_Records
  imports Mem_Facts Mem_Skills
begin

text \<open>
  Tasks, evaluation history, interactions, job records and the agent registry of the memory service
  (\<^verbatim>\<open>repositories/task_repo.py\<close>, \<^verbatim>\<open>eval_repo.py\<close>, \<^verbatim>\<open>routes/tasks.py\<close>, \<^verbatim>\<open>eval.py\<close>, \<^verbatim>\<open>interactions.py\<close>, \<^verbatim>\<open>jobs.py\<close>,
  \<^verbatim>\<open>registry.py\<close>), and all requests that write the relational store as one transition system.
\<close>

section \<open>Tasks\<close>

record create_task_body =
  ct_type :: string
  ct_created_by :: string
  ct_control_id :: "string option"
  ct_framework_id :: "string option"
  ct_assignee_id :: "string option"
  ct_status :: string
  ct_due_date :: "int option"
  ct_note :: "string option"
  ct_metadata :: "(string \<times> pyval) list option"

record update_task_body =
  ut_status :: "string option"
  ut_note :: "string option"
  ut_metadata :: "(string \<times> pyval) list option"
  ut_blocked_reason :: "string option"
  ut_assignee_id :: "string option"

definition new_task :: "fresh_ids \<Rightarrow> string \<Rightarrow> create_task_body \<Rightarrow> task_row" where
  "new_task fi tenant_id b =
     \<lparr>tk_id = fi_row fi, tk_tenant_id = tenant_id, tk_type = ct_type b, tk_control_id = ct_control_id b,
      tk_framework_id = ct_framework_id b, tk_assignee_id = ct_assignee_id b, tk_status = ct_status b,
      tk_due_date = ct_due_date b, tk_note = ct_note b, tk_blocked_reason = None, tk_metadata = ct_metadata b,
      tk_created_by = ct_created_by b, tk_created_at = fi_now fi, tk_updated_at = fi_now fi, tk_completed_at = None\<rparr>"

definition create_task :: "fresh_ids \<Rightarrow> string \<Rightarrow> create_task_body \<Rightarrow> mem_db \<Rightarrow> task_row db_answer" where
  "create_task fi tenant_id b db =
     (let task = new_task fi tenant_id b
      in Inr (task, audit_append (fi_audit fi) (fi_now fi) ''task_create'' (Some tenant_id) (Some (ct_created_by b))
            [(''task_id'', PStr (tk_id task)), (''type'', PStr (ct_type b))]
            (db\<lparr>db_tasks := db_tasks db @ [task]\<rparr>)))"

text \<open>The assignments of \<^verbatim>\<open>TaskRepository.update\<close>, each when its argument is given.\<close>

definition given :: "'a option \<Rightarrow> ('a \<Rightarrow> 'r \<Rightarrow> 'r) \<Rightarrow> 'r \<Rightarrow> 'r" where
  "given v assign r = (case v of None \<Rightarrow> r | Some x \<Rightarrow> assign x r)"

definition set_task_status :: "real \<Rightarrow> string \<Rightarrow> task_row \<Rightarrow> task_row" where
  "set_task_status now status t =
     (let t' = t\<lparr>tk_status := status\<rparr>
      in if status = ''completed'' then t'\<lparr>tk_completed_at := Some now\<rparr> else t')"

definition apply_task_update :: "real \<Rightarrow> update_task_body \<Rightarrow> task_row \<Rightarrow> task_row" where
  "apply_task_update now b t =
     (let t1 = given (ut_status b) (set_task_status now) t;
          t2 = given (ut_note b) (\<lambda>n t. t\<lparr>tk_note := Some n\<rparr>) t1;
          t3 = given (ut_metadata b) (\<lambda>m t. t\<lparr>tk_metadata := Some m\<rparr>) t2;
          t4 = given (ut_blocked_reason b) (\<lambda>r t. t\<lparr>tk_blocked_reason := Some r\<rparr>) t3;
          t5 = given (ut_assignee_id b) (\<lambda>a t. t\<lparr>tk_assignee_id := Some a\<rparr>) t4
      in t5\<lparr>tk_updated_at := now\<rparr>)"

definition task_updates :: "update_task_body \<Rightarrow> (string \<times> pyval) list" where
  "task_updates b =
     (let text_field = (\<lambda>k v. case v of None \<Rightarrow> [] | Some s \<Rightarrow> [(k, PStr s)])
      in text_field ''status'' (ut_status b) @ text_field ''note'' (ut_note b)
         @ (case ut_metadata b of None \<Rightarrow> [] | Some d \<Rightarrow> [(''metadata'', PDict d)])
         @ text_field ''blocked_reason'' (ut_blocked_reason b) @ text_field ''assignee_id'' (ut_assignee_id b))"

definition update_task :: "fresh_ids \<Rightarrow> string \<Rightarrow> string \<Rightarrow> update_task_body \<Rightarrow> mem_db \<Rightarrow> task_row db_answer" where
  "update_task fi tenant_id task_id b db =
     (case List.find (\<lambda>t. tk_id t = task_id \<and> tk_tenant_id t = tenant_id) (db_tasks db) of
        None \<Rightarrow> Inl 404
      | Some t \<Rightarrow>
          (let t' = apply_task_update (fi_now fi) b t
           in Inr (t', audit_append (fi_audit fi) (fi_now fi) ''task_update'' (Some tenant_id) None
                 [(''task_id'', PStr task_id), (''updates'', PDict (task_updates b))]
                 (db\<lparr>db_tasks := update_rows (\<lambda>x. tk_id x = task_id \<and> tk_tenant_id x = tenant_id) (\<lambda>x. t') (db_tasks db)\<rparr>))))"

definition active_statuses :: "string list" where
  "active_statuses = [''open'', ''in_progress'', ''blocked'']"

definition active_task :: "task_row \<Rightarrow> bool" where
  "active_task t \<longleftrightarrow> tk_status t \<in> set active_statuses"

text \<open>A comparison with a NULL due date is not true.\<close>

definition overdue_task :: "int \<Rightarrow> task_row \<Rightarrow> bool" where
  "overdue_task today t \<longleftrightarrow> active_task t \<and> (case tk_due_date t of None \<Rightarrow> False | Some d \<Rightarrow> d < today)"

definition tenant_tasks :: "string \<Rightarrow> mem_db \<Rightarrow> task_row list" where
  "tenant_tasks tenant_id db = filter (\<lambda>t. tk_tenant_id t = tenant_id) (db_tasks db)"

record task_filter =
  tf_assignee :: "string option"
  tf_status :: "string option"
  tf_overdue :: bool
  tf_framework :: "string option"
  tf_limit :: nat
  tf_offset :: nat

definition list_tasks :: "int \<Rightarrow> string \<Rightarrow> task_filter \<Rightarrow> mem_db \<Rightarrow> task_row list" where
  "list_tasks today tenant_id f db =
     limit_offset (tf_limit f) (tf_offset f) (newest_first_by tk_created_at
       (filter (\<lambda>t. asks (tf_assignee f) (tk_assignee_id t) \<and> asks (tf_status f) (Some (tk_status t))
                  \<and> (tf_overdue f \<longrightarrow> overdue_task today t) \<and> asks (tf_framework f) (tk_framework_id t))
          (tenant_tasks tenant_id db)))"

text \<open>\<^verbatim>\<open>group_by\<close>: one row per value, with its count (SQL leaves the order open).\<close>

definition group_counts :: "('a \<Rightarrow> string option) \<Rightarrow> 'a list \<Rightarrow> (string option \<times> nat) list" where
  "group_counts f rows = map (\<lambda>k. (k, count_if (\<lambda>r. f r = k) rows)) (remdups (map f rows))"

text \<open>\<^verbatim>\<open>{row[0] or default: row[1] for row in ...}\<close>\<close>

definition named_counts :: "string \<Rightarrow> (string option \<times> nat) list \<Rightarrow> (string, nat) dict" where
  "named_counts other groups =
     foldl (\<lambda>d (k, n). dict_set (case k of None \<Rightarrow> other | Some s \<Rightarrow> if s = [] then other else s) n d) [] groups"

record task_summary_row =
  ts_total :: nat
  ts_open :: nat
  ts_overdue :: nat
  ts_blocked :: nat
  ts_by_assignee :: "(string, nat) dict"
  ts_by_framework :: "(string, nat) dict"

definition tenant_task_summary :: "int \<Rightarrow> string \<Rightarrow> mem_db \<Rightarrow> task_summary_row" where
  "tenant_task_summary today tenant_id db =
     (let ts = tenant_tasks tenant_id db
      in \<lparr>ts_total = length ts, ts_open = count_if (\<lambda>t. tk_status t = ''open'') ts,
          ts_overdue = count_if (overdue_task today) ts,
          ts_blocked = count_if (\<lambda>t. tk_status t = ''blocked'') ts,
          ts_by_assignee = named_counts ''unassigned'' (group_counts tk_assignee_id (filter active_task ts)),
          ts_by_framework = named_counts ''none'' (group_counts tk_framework_id (filter active_task ts))\<rparr>)"

definition task_timeline :: "int \<Rightarrow> string \<Rightarrow> int \<Rightarrow> mem_db \<Rightarrow> task_row list" where
  "task_timeline today tenant_id days db =
     sort_key (\<lambda>t. the (tk_due_date t))
       (filter (\<lambda>t. active_task t \<and> (case tk_due_date t of None \<Rightarrow> False | Some d \<Rightarrow> today \<le> d \<and> d \<le> today + days))
          (tenant_tasks tenant_id db))"

section \<open>Evaluation history\<close>

record store_eval_body =
  se_status :: string
  se_result :: "(string \<times> pyval) list"
  se_confidence :: "real option"
  se_evidence_hash :: "string option"
  se_model_used :: "string option"
  se_tier_used :: "string option"
  se_latency_ms :: "int option"

definition store_eval ::
    "fresh_ids \<Rightarrow> string \<Rightarrow> string \<Rightarrow> string \<Rightarrow> store_eval_body \<Rightarrow> mem_db \<Rightarrow> eval_history_row db_answer" where
  "store_eval fi tenant_id framework control_id b db =
     (let row = \<lparr>eh_id = fi_row fi, eh_tenant_id = tenant_id, eh_framework = framework, eh_control_id = control_id,
                 eh_status = se_status b, eh_confidence = se_confidence b, eh_evidence_hash = se_evidence_hash b,
                 eh_result = se_result b, eh_model_used = se_model_used b, eh_tier_used = se_tier_used b,
                 eh_latency_ms = se_latency_ms b, eh_created_at = fi_now fi\<rparr>
      in Inr (row, audit_append (fi_audit fi) (fi_now fi) ''eval_store'' (Some tenant_id) None
            [(''framework'', PStr framework), (''control_id'', PStr control_id), (''status'', PStr (se_status b)),
             (''evidence_hash'', case se_evidence_hash b of None \<Rightarrow> PNone | Some h \<Rightarrow> PStr h)]
            (db\<lparr>db_eval_history := db_eval_history db @ [row]\<rparr>)))"

definition evals_of :: "string \<Rightarrow> string \<Rightarrow> string \<Rightarrow> mem_db \<Rightarrow> eval_history_row list" where
  "evals_of tenant_id framework control_id db =
     filter (\<lambda>r. eh_tenant_id r = tenant_id \<and> eh_framework r = framework \<and> eh_control_id r = control_id)
       (db_eval_history db)"

definition get_last_eval ::
    "string \<Rightarrow> string \<Rightarrow> string \<Rightarrow> string option \<Rightarrow> mem_db \<Rightarrow> nat + eval_history_row" where
  "get_last_eval tenant_id framework control_id evidence_hash db =
     (case newest_first_by eh_created_at
             (filter (\<lambda>r. asks evidence_hash (eh_evidence_hash r)) (evals_of tenant_id framework control_id db)) of
        [] \<Rightarrow> Inl 404
      | r # rs \<Rightarrow> Inr r)"

definition get_eval_history :: "string \<Rightarrow> string \<Rightarrow> string \<Rightarrow> nat \<Rightarrow> mem_db \<Rightarrow> eval_history_row list" where
  "get_eval_history tenant_id framework control_id limit db =
     take limit (newest_first_by eh_created_at (evals_of tenant_id framework control_id db))"

section \<open>Interactions\<close>

definition store_interaction ::
    "fresh_ids \<Rightarrow> string \<Rightarrow> string \<Rightarrow> string \<Rightarrow> (string \<times> string \<times> string option) list \<Rightarrow> mem_db \<Rightarrow> interaction_row db_answer" where
  "store_interaction fi tenant_id user_id session_id messages db =
     (let row = \<lparr>ir_id = fi_row fi, ir_tenant_id = tenant_id, ir_user_id = user_id, ir_session_id = session_id,
                 ir_messages = messages, ir_created_at = fi_now fi\<rparr>
      in Inr (row, audit_append (fi_audit fi) (fi_now fi) ''interaction_store'' (Some tenant_id) None
            [(''user_id'', PStr user_id), (''session_id'', PStr session_id), (''message_count'', PInt (int (length messages)))]
            (db\<lparr>db_interactions := db_interactions db @ [row]\<rparr>)))"

definition get_user_interactions :: "string \<Rightarrow> string \<Rightarrow> nat \<Rightarrow> mem_db \<Rightarrow> interaction_row list" where
  "get_user_interactions tenant_id user_id limit db =
     take limit (newest_first_by ir_created_at
       (filter (\<lambda>r. ir_tenant_id r = tenant_id \<and> ir_user_id r = user_id) (db_interactions db)))"

definition get_tenant_interactions :: "string \<Rightarrow> real option \<Rightarrow> nat \<Rightarrow> mem_db \<Rightarrow> interaction_row list" where
  "get_tenant_interactions tenant_id since limit db =
     take limit (newest_first_by ir_created_at
       (filter (\<lambda>r. ir_tenant_id r = tenant_id
                  \<and> (case since of None \<Rightarrow> True | Some t \<Rightarrow> t \<le> ir_created_at r)) (db_interactions db)))"

section \<open>Jobs\<close>

record update_job_body =
  uj_status :: "string option"
  uj_result :: "(string \<times> pyval) list option"
  uj_error :: "string option"

text \<open>The identifier is the primary key of \<^verbatim>\<open>jobs\<close>.\<close>

definition create_job :: "real \<Rightarrow> string \<Rightarrow> string \<Rightarrow> mem_db \<Rightarrow> job_row db_answer" where
  "create_job now job_id status db =
     (if \<exists>j \<in> set (db_jobs db). jr_id j = job_id then Inl 500
      else let row = \<lparr>jr_id = job_id, jr_status = status, jr_result = None, jr_error = None,
                      jr_created_at = now, jr_updated_at = now\<rparr>
           in Inr (row, db\<lparr>db_jobs := db_jobs db @ [row]\<rparr>))"

definition find_job :: "string \<Rightarrow> mem_db \<Rightarrow> job_row option" where
  "find_job job_id db = List.find (\<lambda>j. jr_id j = job_id) (db_jobs db)"

definition get_job :: "string \<Rightarrow> mem_db \<Rightarrow> nat + job_row" where
  "get_job job_id db = (case find_job job_id db of None \<Rightarrow> Inl 404 | Some j \<Rightarrow> Inr j)"

definition update_job :: "real \<Rightarrow> string \<Rightarrow> update_job_body \<Rightarrow> mem_db \<Rightarrow> job_row db_answer" where
  "update_job now job_id b db =
     (case find_job job_id db of
        None \<Rightarrow> Inl 404
      | Some j \<Rightarrow>
          (let j1 = given (uj_status b) (\<lambda>s j. j\<lparr>jr_status := s\<rparr>) j;
               j2 = given (uj_result b) (\<lambda>r j. j\<lparr>jr_result := Some r\<rparr>) j1;
               j3 = (given (uj_error b) (\<lambda>e j. j\<lparr>jr_error := Some e\<rparr>) j2)\<lparr>jr_updated_at := now\<rparr>
           in Inr (j3, db\<lparr>db_jobs := update_rows (\<lambda>x. jr_id x = job_id) (\<lambda>x. j3) (db_jobs db)\<rparr>)))"

section \<open>The agent registry\<close>

record register_body =
  rg_id :: string
  rg_name :: string
  rg_url :: string
  rg_capabilities :: "string list"
  rg_metadata :: "(string \<times> pyval) list option"

definition find_agent :: "string \<Rightarrow> mem_db \<Rightarrow> agent_row option" where
  "find_agent agent_id db = List.find (\<lambda>a. ag_id a = agent_id) (db_agents db)"

definition register_agent :: "real \<Rightarrow> register_body \<Rightarrow> mem_db \<Rightarrow> agent_row db_answer" where
  "register_agent now b db =
     (case find_agent (rg_id b) db of
        Some a \<Rightarrow>
          (let a' = a\<lparr>ag_name := rg_name b, ag_url := rg_url b, ag_capabilities := rg_capabilities b,
                      ag_metadata := rg_metadata b, ag_status := ''active'', ag_last_heartbeat := now\<rparr>
           in Inr (a', db\<lparr>db_agents := update_rows (\<lambda>x. ag_id x = rg_id b) (\<lambda>x. a') (db_agents db)\<rparr>))
      | None \<Rightarrow>
          (let a = \<lparr>ag_id = rg_id b, ag_name = rg_name b, ag_url = rg_url b, ag_capabilities = rg_capabilities b,
                    ag_status = ''active'', ag_metadata = rg_metadata b, ag_registered_at = now, ag_last_heartbeat = now\<rparr>
           in Inr (a, db\<lparr>db_agents := db_agents db @ [a]\<rparr>)))"

definition agent_heartbeat :: "real \<Rightarrow> string \<Rightarrow> mem_db \<Rightarrow> agent_row db_answer" where
  "agent_heartbeat now agent_id db =
     (case find_agent agent_id db of
        None \<Rightarrow> Inl 404
      | Some a \<Rightarrow>
          (let a' = a\<lparr>ag_last_heartbeat := now, ag_status := ''active''\<rparr>
           in Inr (a', db\<lparr>db_agents := update_rows (\<lambda>x. ag_id x = agent_id) (\<lambda>x. a') (db_agents db)\<rparr>)))"

definition list_agents :: "string option \<Rightarrow> mem_db \<Rightarrow> agent_row list" where
  "list_agents capability db =
     (let agents = filter (\<lambda>a. ag_status a = ''active'') (db_agents db)
      in case capability of
           None \<Rightarrow> agents
         | Some c \<Rightarrow> if c = [] then agents else filter (\<lambda>a. c \<in> set (ag_capabilities a)) agents)"

definition deregister_agent :: "string \<Rightarrow> mem_db \<Rightarrow> string db_answer" where
  "deregister_agent agent_id db =
     (case find_agent agent_id db of
        None \<Rightarrow> Inl 404
      | Some a \<Rightarrow> Inr (agent_id, db\<lparr>db_agents := filter (\<lambda>x. ag_id x \<noteq> agent_id) (db_agents db)\<rparr>))"

section \<open>All writing requests\<close>

datatype db_request =
    TenantRemember string remember_body "pyval list option"
  | TenantUpdateFact string string "string option" "real option"
  | TenantDeleteFact string string
  | UserRemember string string remember_body "pyval list option"
  | UserDeleteFact string string string
  | TaskCreate string create_task_body
  | TaskUpdate string string update_task_body
  | EvalStore string string string store_eval_body
  | PatternRecord pattern_body "pyval list option"
  | PatternBoost string
  | PatternDelete string
  | SkillCreate string skill_version_body
  | SkillRollback string int
  | InteractionStore string string string "(string \<times> string \<times> string option) list"
  | JobCreate string string
  | JobUpdate string update_job_body
  | AgentRegister register_body
  | AgentHeartbeat string
  | AgentDeregister string

definition written :: "'a db_answer \<Rightarrow> nat + mem_db" where
  "written r = (case r of Inl code \<Rightarrow> Inl code | Inr (x, db) \<Rightarrow> Inr db)"

fun db_serve :: "distance \<Rightarrow> fresh_ids \<Rightarrow> db_request \<Rightarrow> mem_db \<Rightarrow> nat + mem_db" where
  "db_serve cosine fi (TenantRemember t b e) db = written (tenant_remember cosine fi t b e db)"
| "db_serve cosine fi (TenantUpdateFact t i f c) db = written (update_tenant_fact fi t i f c db)"
| "db_serve cosine fi (TenantDeleteFact t i) db = written (delete_tenant_fact fi t i db)"
| "db_serve cosine fi (UserRemember t u b e) db = written (user_remember cosine fi t u b e db)"
| "db_serve cosine fi (UserDeleteFact t u i) db = written (delete_user_fact fi t u i db)"
| "db_serve cosine fi (TaskCreate t b) db = written (create_task fi t b db)"
| "db_serve cosine fi (TaskUpdate t i b) db = written (update_task fi t i b db)"
| "db_serve cosine fi (EvalStore t f c b) db = written (store_eval fi t f c b db)"
| "db_serve cosine fi (PatternRecord b e) db = written (record_pattern fi b e db)"
| "db_serve cosine fi (PatternBoost i) db = written (boost_pattern fi i db)"
| "db_serve cosine fi (PatternDelete i) db = written (delete_pattern fi i db)"
| "db_serve cosine fi (SkillCreate k b) db = written (create_skill_version (fi_audit fi) (fi_now fi) k b db)"
| "db_serve cosine fi (SkillRollback k v) db = written (rollback_skill (fi_audit fi) (fi_now fi) k v db)"
| "db_serve cosine fi (InteractionStore t u s m) db = written (store_interaction fi t u s m db)"
| "db_serve cosine fi (JobCreate i s) db = written (create_job (fi_now fi) i s db)"
| "db_serve cosine fi (JobUpdate i b) db = written (update_job (fi_now fi) i b db)"
| "db_serve cosine fi (AgentRegister b) db = written (register_agent (fi_now fi) b db)"
| "db_serve cosine fi (AgentHeartbeat i) db = written (agent_heartbeat (fi_now fi) i db)"
| "db_serve cosine fi (AgentDeregister i) db = written (deregister_agent i db)"

text \<open>The requests that leave no audit row: the job and registry tables are not audited.\<close>

fun unaudited :: "db_request \<Rightarrow> bool" where
  "unaudited (JobCreate i s) \<longleftrightarrow> True"
| "unaudited (JobUpdate i b) \<longleftrightarrow> True"
| "unaudited (AgentRegister b) \<longleftrightarrow> True"
| "unaudited (AgentHeartbeat i) \<longleftrightarrow> True"
| "unaudited (AgentDeregister i) \<longleftrightarrow> True"
| "unaudited _ \<longleftrightarrow> False"

section \<open>What every committed request keeps\<close>

lemmas db_handlers =
  tenant_remember_def update_tenant_fact_def delete_tenant_fact_def user_remember_def delete_user_fact_def
  create_task_def update_task_def store_eval_def record_pattern_def boost_pattern_def delete_pattern_def
  store_interaction_def create_job_def update_job_def register_agent_def agent_heartbeat_def deregister_agent_def

lemma create_skill_version_audit:
  "create_skill_version u now k b db = Inr (v, db') \<Longrightarrow> \<exists>r. db_audit db' = db_audit db @ [r]"
  by (auto simp: create_skill_version_def create_version_def bump_skill_def insert_version_def audit_append_def Let_def
      split: sum.splits option.splits if_splits)

lemma rollback_skill_audit:
  "rollback_skill u now k n db = Inr (v, db') \<Longrightarrow> \<exists>r. db_audit db' = db_audit db @ [r]"
  by (auto simp: rollback_skill_def rollback_version_def audit_append_def Let_def
      split: sum.splits option.splits if_splits)

lemma db_serve_audit:
  assumes "db_serve cosine fi r db = Inr db'"
  shows "\<exists>rows. db_audit db' = db_audit db @ rows \<and> length rows = (if unaudited r then 0 else 1)"
proof (cases "(\<exists>k b. r = SkillCreate k b) \<or> (\<exists>k n. r = SkillRollback k n)")
  case True
  then show ?thesis
    using assms
    by (auto simp: written_def split: sum.splits dest!: create_skill_version_audit rollback_skill_audit)
next
  case False
  then show ?thesis
    using assms
    by (cases r)
       (auto simp: written_def db_handlers audit_append_def Let_def split: sum.splits option.splits prod.splits if_splits)
qed

lemma find_Some_mem: "List.find p xs = Some x \<Longrightarrow> x \<in> set xs \<and> p x"
  by (auto simp: find_Some_iff)

lemma map_update_rows_const:
  "(\<And>x. x \<in> set xs \<Longrightarrow> p x \<Longrightarrow> f y = f x) \<Longrightarrow> map f (update_rows p (\<lambda>x. y) xs) = map f xs"
  by (induction xs) (auto simp: update_rows_def)

definition db_ok :: "mem_db \<Rightarrow> bool" where
  "db_ok db \<longleftrightarrow> skills_ok db \<and> distinct (map jr_id (db_jobs db)) \<and> distinct (map ag_id (db_agents db))
     \<and> (\<forall>a \<in> set (db_agents db). ag_status a = ''active'') \<and> (\<forall>p \<in> set (db_patterns db). 1 \<le> pt_hit_count p)"

lemma skills_ok_tables:
  "db_skills db' = db_skills db \<Longrightarrow> db_skill_versions db' = db_skill_versions db \<Longrightarrow> skills_ok db' = skills_ok db"
  by (simp add: skills_ok_def skill_ok_def versions_of_def actives_of_def counters_of_def)

text \<open>Which request touches which of the tables the invariant reads.\<close>

fun writes_skills :: "db_request \<Rightarrow> bool" where
  "writes_skills (SkillCreate k b) \<longleftrightarrow> True"
| "writes_skills (SkillRollback k v) \<longleftrightarrow> True"
| "writes_skills _ \<longleftrightarrow> False"

fun writes_ops :: "db_request \<Rightarrow> bool" where
  "writes_ops (PatternRecord b e) \<longleftrightarrow> True"
| "writes_ops (PatternBoost i) \<longleftrightarrow> True"
| "writes_ops (PatternDelete i) \<longleftrightarrow> True"
| "writes_ops (JobCreate i s) \<longleftrightarrow> True"
| "writes_ops (JobUpdate i b) \<longleftrightarrow> True"
| "writes_ops (AgentRegister b) \<longleftrightarrow> True"
| "writes_ops (AgentHeartbeat i) \<longleftrightarrow> True"
| "writes_ops (AgentDeregister i) \<longleftrightarrow> True"
| "writes_ops _ \<longleftrightarrow> False"

lemma skill_tables_kept:
  assumes "db_serve cosine fi r db = Inr db'" and "\<not> writes_skills r"
  shows "db_skills db' = db_skills db \<and> db_skill_versions db' = db_skill_versions db"
  using assms
  by (cases r)
     (auto simp: written_def db_handlers audit_append_def Let_def split: sum.splits option.splits prod.splits if_splits)

lemma op_tables_kept:
  assumes "db_serve cosine fi r db = Inr db'" and "\<not> writes_ops r"
  shows "db_jobs db' = db_jobs db \<and> db_agents db' = db_agents db \<and> db_patterns db' = db_patterns db"
proof (cases "writes_skills r")
  case False
  then show ?thesis using assms
    by (cases r)
       (auto simp: written_def db_handlers audit_append_def Let_def split: sum.splits option.splits prod.splits if_splits)
next
  case True
  then show ?thesis using assms
    by (cases r)
       (auto simp: written_def create_skill_version_def create_version_def bump_skill_def insert_version_def
          rollback_skill_def rollback_version_def audit_append_def Let_def
          split: sum.splits option.splits if_splits)
qed

lemma distinct_update_const:
  "distinct (map f xs) \<Longrightarrow> (\<And>x. x \<in> set xs \<Longrightarrow> p x \<Longrightarrow> f y = f x) \<Longrightarrow> distinct (map f (update_rows p (\<lambda>x. y) xs))"
  by (simp only: map_update_rows_const)

lemma update_const_all:
  "(\<forall>x \<in> set xs. P x) \<Longrightarrow> P y \<Longrightarrow> \<forall>x \<in> set (update_rows p (\<lambda>x. y) xs). P x"
  by (auto simp: update_rows_def)

lemma given_job_id [simp]:
  "jr_id (given a (\<lambda>s j. j\<lparr>jr_status := s\<rparr>) j) = jr_id j"
  "jr_id (given b (\<lambda>s j. j\<lparr>jr_result := Some s\<rparr>) j) = jr_id j"
  "jr_id (given c (\<lambda>s j. j\<lparr>jr_error := Some s\<rparr>) j) = jr_id j"
  by (simp_all add: given_def split: option.splits)

lemma update_job_jobs:
  assumes "update_job now i b db = Inr (j, db')"
  shows "\<exists>j0 \<in> set (db_jobs db). jr_id j0 = i \<and> jr_id j = i
      \<and> db_jobs db' = update_rows (\<lambda>x. jr_id x = i) (\<lambda>x. j) (db_jobs db)
      \<and> db_agents db' = db_agents db \<and> db_patterns db' = db_patterns db"
  using assms by (auto simp: update_job_def find_job_def Let_def dest!: find_Some_mem split: option.splits)

lemma register_agent_agents:
  assumes "register_agent now b db = Inr (a, db')"
  shows "(db_agents db' = db_agents db @ [a] \<and> rg_id b \<notin> set (map ag_id (db_agents db))
      \<or> db_agents db' = update_rows (\<lambda>x. ag_id x = rg_id b) (\<lambda>x. a) (db_agents db))
      \<and> ag_id a = rg_id b \<and> ag_status a = ''active'' \<and> db_jobs db' = db_jobs db \<and> db_patterns db' = db_patterns db"
  using assms
  by (auto simp: register_agent_def find_agent_def find_None_iff Let_def dest!: find_Some_mem split: option.splits)

lemma heartbeat_agents:
  assumes "agent_heartbeat now i db = Inr (a, db')"
  shows "db_agents db' = update_rows (\<lambda>x. ag_id x = i) (\<lambda>x. a) (db_agents db)
      \<and> ag_id a = i \<and> ag_status a = ''active'' \<and> db_jobs db' = db_jobs db \<and> db_patterns db' = db_patterns db"
  using assms by (auto simp: agent_heartbeat_def find_agent_def Let_def dest!: find_Some_mem split: option.splits)

definition ops_ok :: "mem_db \<Rightarrow> bool" where
  "ops_ok db \<longleftrightarrow> distinct (map jr_id (db_jobs db)) \<and> distinct (map ag_id (db_agents db))
     \<and> (\<forall>a \<in> set (db_agents db). ag_status a = ''active'') \<and> (\<forall>p \<in> set (db_patterns db). 1 \<le> pt_hit_count p)"

lemma db_ok_ops: "db_ok db \<longleftrightarrow> skills_ok db \<and> ops_ok db"
  by (auto simp: db_ok_def ops_ok_def)

lemma ops_ok_job: "ops_ok db \<Longrightarrow> update_job now i b db = Inr (j, db') \<Longrightarrow> ops_ok db'"
  by (drule update_job_jobs) (auto simp: ops_ok_def intro!: distinct_update_const)

lemma ops_ok_register: "ops_ok db \<Longrightarrow> register_agent now b db = Inr (a, db') \<Longrightarrow> ops_ok db'"
  by (drule register_agent_agents)
     (auto simp: ops_ok_def set_update_rows intro!: distinct_update_const)

lemma ops_ok_heartbeat: "ops_ok db \<Longrightarrow> agent_heartbeat now i db = Inr (a, db') \<Longrightarrow> ops_ok db'"
  by (drule heartbeat_agents)
     (auto simp: ops_ok_def set_update_rows intro!: distinct_update_const)

lemma ops_ok_boost: "ops_ok db \<Longrightarrow> boost_pattern fi i db = Inr (p, db') \<Longrightarrow> ops_ok db'"
  by (fastforce simp: ops_ok_def boost_pattern_def audit_append_def Let_def set_update_rows
      dest!: find_Some_mem split: option.splits)

lemma ops_ok_simple:
  "ops_ok db \<Longrightarrow> record_pattern fi pb e db = Inr (p, db') \<Longrightarrow> ops_ok db'"
  "ops_ok db \<Longrightarrow> delete_pattern fi i db = Inr (x, db') \<Longrightarrow> ops_ok db'"
  "ops_ok db \<Longrightarrow> create_job now i s db = Inr (j, db') \<Longrightarrow> ops_ok db'"
  "ops_ok db \<Longrightarrow> deregister_agent i db = Inr (x, db') \<Longrightarrow> ops_ok db'"
  by (auto simp: ops_ok_def record_pattern_def delete_pattern_def create_job_def deregister_agent_def audit_append_def
      Let_def distinct_map_filter split: option.splits if_splits)

lemma writtenE:
  assumes "written r = Inr db'"
  obtains x where "r = Inr (x, db')"
  using assms by (auto simp: written_def split: sum.splits)

lemma db_serve_ok:
  assumes ok: "db_ok db" and step: "db_serve cosine fi r db = Inr db'"
  shows "db_ok db'"
proof -
  have "ops_ok db'"
  proof (cases "writes_ops r")
    case False
    then show ?thesis using op_tables_kept [OF step] ok by (simp add: db_ok_ops ops_ok_def)
  next
    case True
    have "ops_ok db" using ok by (simp add: db_ok_ops)
    then show ?thesis using True step
      by (cases r)
         (simp_all, (elim writtenE,
           erule (1) ops_ok_job ops_ok_register ops_ok_heartbeat ops_ok_boost ops_ok_simple)+)
  qed
  moreover have "skills_ok db'"
  proof (cases "writes_skills r")
    case False
    then have "skills_ok db' = skills_ok db"
      using skill_tables_kept [OF step] by (intro skills_ok_tables) simp_all
    then show ?thesis using ok by (simp add: db_ok_ops)
  next
    case True
    have "skills_ok db" using ok by (simp add: db_ok_ops)
    then show ?thesis using True step
      by (cases r) (simp_all, (elim writtenE, erule skills_ok_step, erule skill_step.intros)+)
  qed
  ultimately show ?thesis by (simp add: db_ok_ops)
qed

inductive db_step :: "mem_db \<Rightarrow> mem_db \<Rightarrow> bool" where
  "db_serve cosine fi r db = Inr db' \<Longrightarrow> db_step db db'"

inductive_cases db_stepE: "db_step db db'"

lemma db_ok_empty: "db_ok empty_db"
  by (simp add: db_ok_ops skills_ok_empty) (simp add: ops_ok_def empty_db_def)

interpretation mem_tables: invariant_system "\<lambda>db. db = empty_db" db_step db_ok
  by unfold_locales (auto intro: db_ok_empty db_serve_ok elim: db_stepE)

section \<open>Properties\<close>

text \<open>
  C13 (the store's tables): in every database that any sequence of writing requests can reach, the skill
  versions are well-formed, job and agent identifiers are unique, every registered agent is active (nothing ever
  marks one otherwise) and every pattern's hit count is positive; and every further committed request only appends to
  the audit trail: one row, except that job and registry writes leave none.
\<close>

theorem tables_invariant:
  assumes "reachable (\<lambda>db. db = empty_db) db_step db"
  shows "db_ok db
    \<and> (case db_serve cosine fi r db of
         Inl code \<Rightarrow> True
       | Inr db' \<Rightarrow> db_ok db' \<and> (\<exists>rows. db_audit db' = db_audit db @ rows \<and> length rows = (if unaudited r then 0 else 1)))"
proof -
  have ok: "db_ok db" by (rule mem_tables.reachable_inv [OF assms])
  show ?thesis
  proof (cases "db_serve cosine fi r db")
    case (Inr db')
    then show ?thesis using ok db_serve_ok [OF ok Inr] db_serve_audit [OF Inr] by simp
  qed (simp add: ok)
qed

theorem tables_invariant_witness: "db_ok empty_db"
  by (rule conjunct1 [OF tables_invariant [OF reachable_init]]) simp

lemma count_if_sum: "count_if p xs + count_if (\<lambda>x. \<not> p x) xs = length xs"
  by (induction xs) auto

lemma count_if_filter: "count_if p (filter q xs) = count_if (\<lambda>x. q x \<and> p x) xs"
  by (induction xs) auto

text \<open>
  (task summary): the summary agrees with the other two views of a tenant's tasks: the overdue
  count is the number of rows that listing with the overdue filter returns when the page is large enough, no
  overdue task is on the timeline, the timeline of enough days holds every other active task with a due date, in
  order of the date, and the counts of the summary never exceed the total.
\<close>

theorem task_summary_agrees:
  fixes today tenant_id db days
  defines "ts \<equiv> tenant_tasks tenant_id db"
  assumes "length ts \<le> tf_limit f" and "f = \<lparr>tf_assignee = None, tf_status = None, tf_overdue = True,
      tf_framework = None, tf_limit = n, tf_offset = 0\<rparr>"
    and days: "\<forall>t \<in> set ts. \<forall>d. tk_due_date t = Some d \<longrightarrow> d \<le> today + days"
  shows "ts_overdue (tenant_task_summary today tenant_id db) = length (list_tasks today tenant_id f db)
    \<and> set (list_tasks today tenant_id f db) \<inter> set (task_timeline today tenant_id days db) = {}
    \<and> sorted (map (\<lambda>t. the (tk_due_date t)) (task_timeline today tenant_id days db))
    \<and> ts_overdue (tenant_task_summary today tenant_id db) + length (task_timeline today tenant_id days db)
        = count_if (\<lambda>t. active_task t \<and> tk_due_date t \<noteq> None) ts
    \<and> ts_open (tenant_task_summary today tenant_id db) + ts_blocked (tenant_task_summary today tenant_id db)
        \<le> ts_total (tenant_task_summary today tenant_id db)"
proof -
  have len: "length (filter (overdue_task today) ts) \<le> n" using assms(2,3) length_filter_le [of _ ts] by (metis (no_types) order_trans task_filter.select_convs(5))
  have listed: "list_tasks today tenant_id f db = newest_first_by tk_created_at (filter (overdue_task today) ts)"
    using len assms(3) by (simp add: list_tasks_def asks_def limit_offset_def newest_first_by_def ts_def)
  have "ts_overdue (tenant_task_summary today tenant_id db) = length (list_tasks today tenant_id f db)"
    unfolding listed by (simp add: tenant_task_summary_def newest_first_by_def count_if_def ts_def Let_def)
  moreover have "set (list_tasks today tenant_id f db) \<inter> set (task_timeline today tenant_id days db) = {}"
    unfolding listed by (auto simp: newest_first_by_def task_timeline_def overdue_task_def split: option.splits)
  moreover have "sorted (map (\<lambda>t. the (tk_due_date t)) (task_timeline today tenant_id days db))"
    by (simp add: task_timeline_def)
  moreover have "count_if (overdue_task today) xs
      + length (filter (\<lambda>t. active_task t \<and> (case tk_due_date t of None \<Rightarrow> False | Some d \<Rightarrow> today \<le> d \<and> d \<le> today + days)) xs)
      = count_if (\<lambda>t. active_task t \<and> tk_due_date t \<noteq> None) xs"
    if "\<forall>t \<in> set xs. \<forall>d. tk_due_date t = Some d \<longrightarrow> d \<le> today + days" for xs
    using that by (induction xs) (auto simp: overdue_task_def split: option.splits)
  from this [OF days] have "ts_overdue (tenant_task_summary today tenant_id db) + length (task_timeline today tenant_id days db)
        = count_if (\<lambda>t. active_task t \<and> tk_due_date t \<noteq> None) ts"
    by (simp add: tenant_task_summary_def task_timeline_def ts_def Let_def)
  moreover have "ts_open (tenant_task_summary today tenant_id db) + ts_blocked (tenant_task_summary today tenant_id db)
        \<le> ts_total (tenant_task_summary today tenant_id db)"
    by (simp add: tenant_task_summary_def Let_def) (rule count_if_disjoint, simp)
  ultimately show ?thesis by blast
qed

theorem task_summary_agrees_witness:
  "ts_overdue (tenant_task_summary 5 ''t'' empty_db) = length (list_tasks 5 ''t''
     \<lparr>tf_assignee = None, tf_status = None, tf_overdue = True, tf_framework = None, tf_limit = 1, tf_offset = 0\<rparr> empty_db)"
  using task_summary_agrees [of "''t''" empty_db _ 1 5 30] by (simp add: tenant_tasks_def empty_db_def)

text \<open>
  (completing a task): an update stamps the completion time exactly when it sets the status
  completed, and never clears it: a completed task that is reopened is active again and still carries a completion time.
\<close>

theorem reopened_tasks_stay_completed:
  shows "tk_completed_at (apply_task_update now b t) =
      (if ut_status b = Some ''completed'' then Some now else tk_completed_at t)"
    and "tk_completed_at t = Some c \<Longrightarrow> ut_status b = Some ''open'' \<Longrightarrow>
      active_task (apply_task_update now b t) \<and> tk_completed_at (apply_task_update now b t) = Some c"
proof -
  show c: "tk_completed_at (apply_task_update now b t) =
      (if ut_status b = Some ''completed'' then Some now else tk_completed_at t)"
    by (simp add: apply_task_update_def given_def set_task_status_def Let_def split: option.splits)
  assume "tk_completed_at t = Some c" and "ut_status b = Some ''open''"
  then show "active_task (apply_task_update now b t) \<and> tk_completed_at (apply_task_update now b t) = Some c"
    by (simp add: c) (simp add: active_task_def active_statuses_def apply_task_update_def given_def set_task_status_def Let_def
        split: option.splits)
qed

theorem reopened_tasks_stay_completed_witness:
  "tk_completed_at (apply_task_update 7 \<lparr>ut_status = Some ''open'', ut_note = None, ut_metadata = None,
      ut_blocked_reason = None, ut_assignee_id = None\<rparr>
     ((new_task sample_ids ''t'' \<lparr>ct_type = ''x'', ct_created_by = ''u'', ct_control_id = None, ct_framework_id = None,
        ct_assignee_id = None, ct_status = ''open'', ct_due_date = None, ct_note = None, ct_metadata = None\<rparr>)
       \<lparr>tk_completed_at := Some 3\<rparr>)) = Some 3"
  by (rule conjunct2 [OF reopened_tasks_stay_completed(2)]) simp_all

lemma newest_first_last:
  assumes "\<forall>x \<in> set xs. c x < c r"
  shows "newest_first_by c (xs @ [r]) = r # newest_first_by c xs"
  using assms unfolding newest_first_by_def by (induction xs) auto

text \<open>
  (evaluation history): storing a result no older than the tenant's others for the control makes it
  what \<^verbatim>\<open>get_last_eval\<close> returns, for a query without a hash, with the empty hash or with its own hash, and the head
  of the history; other controls and tenants see no change.
\<close>

theorem eval_history_round_trip:
  assumes newer: "\<forall>r \<in> set (evals_of tenant_id framework control_id db). eh_created_at r < fi_now fi"
    and h: "h = None \<or> h = Some [] \<or> h = se_evidence_hash b"
  shows "\<exists>row db'. store_eval fi tenant_id framework control_id b db = Inr (row, db')
      \<and> eh_result row = se_result b \<and> eh_status row = se_status b
      \<and> get_last_eval tenant_id framework control_id h db' = Inr row
      \<and> (0 < n \<longrightarrow> (\<exists>rs. get_eval_history tenant_id framework control_id n db' = row # rs))
      \<and> (\<forall>t f c. (t, f, c) \<noteq> (tenant_id, framework, control_id) \<longrightarrow> evals_of t f c db' = evals_of t f c db)"
proof -
  obtain row db' where s: "store_eval fi tenant_id framework control_id b db = Inr (row, db')"
    by (simp add: store_eval_def Let_def)
  then have row: "eh_tenant_id row = tenant_id" "eh_framework row = framework" "eh_control_id row = control_id"
      "eh_created_at row = fi_now fi" "eh_evidence_hash row = se_evidence_hash b" "eh_result row = se_result b"
      "eh_status row = se_status b"
    and db': "db_eval_history db' = db_eval_history db @ [row]"
    by (auto simp: store_eval_def audit_append_def Let_def)
  have here: "evals_of tenant_id framework control_id db' = evals_of tenant_id framework control_id db @ [row]"
    by (simp add: evals_of_def db' row)
  have "asks h (eh_evidence_hash row)" using h row by (auto simp: asks_def split: option.splits)
  then have "filter (\<lambda>r. asks h (eh_evidence_hash r)) (evals_of tenant_id framework control_id db') =
      filter (\<lambda>r. asks h (eh_evidence_hash r)) (evals_of tenant_id framework control_id db) @ [row]"
    by (simp add: here)
  moreover have "newest_first_by eh_created_at (filter (\<lambda>r. asks h (eh_evidence_hash r)) (evals_of tenant_id framework control_id db) @ [row])
      = row # newest_first_by eh_created_at (filter (\<lambda>r. asks h (eh_evidence_hash r)) (evals_of tenant_id framework control_id db))"
    using newer row by (intro newest_first_last) auto
  ultimately have "get_last_eval tenant_id framework control_id h db' = Inr row"
    by (simp add: get_last_eval_def)
  moreover have "0 < n \<longrightarrow> (\<exists>rs. get_eval_history tenant_id framework control_id n db' = row # rs)"
    using newest_first_last [of "evals_of tenant_id framework control_id db" eh_created_at row] newer row
    by (cases n) (auto simp: get_eval_history_def here)
  moreover have "(t, f, c) \<noteq> (tenant_id, framework, control_id) \<longrightarrow> evals_of t f c db' = evals_of t f c db" for t f c
    by (auto simp: evals_of_def db' row)
  ultimately show ?thesis using s row by blast
qed

theorem eval_history_round_trip_witness:
  "\<exists>row db'. store_eval sample_ids ''t'' ''soc2'' ''c'' \<lparr>se_status = ''x'', se_result = [], se_confidence = None,
      se_evidence_hash = Some ''h'', se_model_used = None, se_tier_used = None, se_latency_ms = None\<rparr> empty_db = Inr (row, db')
    \<and> get_last_eval ''t'' ''soc2'' ''c'' (Some ''h'') db' = Inr row"
  using eval_history_round_trip [where n = 0, of "''t''" "''soc2''" "''c''" empty_db sample_ids "Some ''h''"
      "\<lparr>se_status = ''x'', se_result = [], se_confidence = None, se_evidence_hash = Some ''h'', se_model_used = None,
        se_tier_used = None, se_latency_ms = None\<rparr>"]
  by (simp add: evals_of_def empty_db_def) blast

end
