(* ===== verification/Mem_Routes.thy ===== *)
theory Mem_Routes
  imports Mem_Decisions Mem_Records
begin

text \<open>
  The wire between the agents and the memory service: service authentication
  (\<^verbatim>\<open>common/auth/service_auth.py\<close>), the routes the service registers (\<^verbatim>\<open>memory-service/src/routes\<close>), and the
  clients that call them (\<^verbatim>\<open>common/clients/memory_client.py\<close>, \<^verbatim>\<open>state_client.py\<close>, \<^verbatim>\<open>registry_client.py\<close>).

  FastAPI is a parameter: an application answers requests over a world of any type, and
  \<open>fastapi_app\<close> states what the framework documents of one with given routes: a request that no route serves, or that
  lacks the service headers, is answered with an error and changes nothing. A path is its list of segments. An answer is
  None when the request failed on the network, and otherwise a status with a JSON body, None if the body is not JSON.
\<close>

section \<open>Service authentication\<close>

record service_identity =
  si_service_id :: string
  si_tenant_id :: "string option"
  si_trace_id :: "string option"

text \<open>\<^verbatim>\<open>ServiceAuthenticator.validate\<close> over the SHA-256 digest; the digests are compared in constant time.\<close>

definition validate_key :: "(string \<Rightarrow> string) \<Rightarrow> (string, string) dict \<Rightarrow> string \<Rightarrow> string \<Rightarrow> bool" where
  "validate_key sha256 valid_keys service_id api_key =
     (case dict_get valid_keys service_id of None \<Rightarrow> False | Some stored \<Rightarrow> sha256 api_key = stored)"

definition non_blank :: "string option \<Rightarrow> string option" where
  "non_blank h = (case h of None \<Rightarrow> None | Some s \<Rightarrow> if s = [] then None else Some (str_strip s))"

text \<open>The required headers are declared with \<^verbatim>\<open>Header(...)\<close>: a missing one is a validation error (422).\<close>

definition verify_service_headers ::
    "(string \<Rightarrow> string) \<Rightarrow> (string, string) dict option \<Rightarrow> (string, string) dict \<Rightarrow> nat + service_identity" where
  "verify_service_headers sha256 authenticator headers =
     (case (dict_get headers ''X-Service-Id'', dict_get headers ''X-Service-Key'') of
        (Some sid, Some skey) \<Rightarrow>
          if str_strip sid = [] then Inl 400
          else if str_strip skey = [] then Inl 400
          else if (case authenticator of None \<Rightarrow> False | Some valid_keys \<Rightarrow> \<not> validate_key sha256 valid_keys sid skey)
          then Inl 401
          else Inr \<lparr>si_service_id = str_strip sid,
                    si_tenant_id = non_blank (dict_get headers ''X-Tenant-Id''),
                    si_trace_id = non_blank (dict_get headers ''X-Trace-Id'')\<rparr>
      | _ \<Rightarrow> Inl 422)"

section \<open>Requests and routes\<close>

datatype app_method = GET | POST | PUT | DELETE

record http_request =
  hr_method :: app_method
  hr_path :: "string list"
  hr_headers :: "(string, string) dict"
  hr_body :: "(string \<times> pyval) list"

type_synonym reply = "(nat \<times> pyval option) option"
type_synonym 'w app = "http_request \<Rightarrow> 'w \<Rightarrow> reply \<times> 'w"

datatype seg = Lit string | Par

type_synonym app_route = "app_method \<times> seg list"

fun template_matches :: "seg list \<Rightarrow> string list \<Rightarrow> bool" where
  "template_matches [] [] \<longleftrightarrow> True"
| "template_matches (Lit s # ts) (p # ps) \<longleftrightarrow> p = s \<and> template_matches ts ps"
| "template_matches (Par # ts) (p # ps) \<longleftrightarrow> template_matches ts ps"
| "template_matches _ _ \<longleftrightarrow> False"

definition serves :: "app_route list \<Rightarrow> app_method \<Rightarrow> string list \<Rightarrow> bool" where
  "serves routes m p \<longleftrightarrow> (\<exists>(m', ts) \<in> set routes. m' = m \<and> template_matches ts p)"

definition session_routes :: "app_route list" where
  "session_routes = [(GET, [Lit ''session'', Par]), (PUT, [Lit ''session'', Par]), (DELETE, [Lit ''session'', Par])]"

definition tenant_routes :: "app_route list" where
  "tenant_routes =
     [(POST, [Lit ''tenant'', Par, Lit ''remember'']), (GET, [Lit ''tenant'', Par, Lit ''recall'']),
      (GET, [Lit ''tenant'', Par, Lit ''facts'']), (PUT, [Lit ''tenant'', Par, Lit ''facts'', Par]),
      (DELETE, [Lit ''tenant'', Par, Lit ''facts'', Par])]"

definition user_routes :: "app_route list" where
  "user_routes =
     [(POST, [Lit ''user'', Par, Par, Lit ''remember'']), (GET, [Lit ''user'', Par, Par, Lit ''recall'']),
      (GET, [Lit ''user'', Par, Par, Lit ''facts'']), (DELETE, [Lit ''user'', Par, Par, Lit ''facts'', Par])]"

definition tasks_routes :: "app_route list" where
  "tasks_routes =
     [(POST, [Lit ''tasks'', Par]), (GET, [Lit ''tasks'', Par]), (PUT, [Lit ''tasks'', Par, Par]),
      (GET, [Lit ''tasks'', Par, Lit ''summary'']), (GET, [Lit ''tasks'', Par, Lit ''timeline''])]"

definition eval_routes :: "app_route list" where
  "eval_routes =
     [(POST, [Lit ''eval'', Par, Par, Par]), (GET, [Lit ''eval'', Par, Par, Par, Lit ''last'']),
      (GET, [Lit ''eval'', Par, Par, Par, Lit ''history''])]"

definition patterns_routes :: "app_route list" where
  "patterns_routes =
     [(POST, [Lit ''patterns'', Lit ''record'']), (GET, [Lit ''patterns'', Lit ''query'']),
      (GET, [Lit ''patterns'', Lit ''list'']), (PUT, [Lit ''patterns'', Par, Lit ''boost'']),
      (DELETE, [Lit ''patterns'', Par])]"

definition skills_routes :: "app_route list" where
  "skills_routes =
     [(GET, [Lit ''skills'', Par]), (GET, [Lit ''skills'', Par, Lit ''version'', Par]),
      (GET, [Lit ''skills'', Par, Lit ''history'']), (POST, [Lit ''skills'', Par]),
      (POST, [Lit ''skills'', Par, Lit ''rollback'', Par]), (GET, [Lit ''skills''])]"

definition interactions_routes :: "app_route list" where
  "interactions_routes =
     [(POST, [Lit ''interactions'', Par, Par]), (GET, [Lit ''interactions'', Par, Par]), (GET, [Lit ''interactions'', Par])]"

definition audit_routes :: "app_route list" where
  "audit_routes = [(GET, [Lit ''audit'', Par])]"

definition registry_routes :: "app_route list" where
  "registry_routes =
     [(POST, [Lit ''registry'', Lit ''agents'']), (PUT, [Lit ''registry'', Lit ''agents'', Par, Lit ''heartbeat'']),
      (GET, [Lit ''registry'', Lit ''agents'']), (DELETE, [Lit ''registry'', Lit ''agents'', Par])]"

definition jobs_routes :: "app_route list" where
  "jobs_routes = [(POST, [Lit ''jobs'']), (GET, [Lit ''jobs'', Par]), (PUT, [Lit ''jobs'', Par])]"

definition user_state_routes :: "app_route list" where
  "user_state_routes = [(POST, [Lit ''v1'', Lit ''user-state'', Lit ''get'']), (POST, [Lit ''v1'', Lit ''user-state'', Lit ''put''])]"

definition events_routes :: "app_route list" where
  "events_routes = [(POST, [Lit ''v1'', Lit ''event'', Lit ''push'']), (POST, [Lit ''v1'', Lit ''event'', Lit ''drain''])]"

definition evaluation_decisions_routes :: "app_route list" where
  "evaluation_decisions_routes =
     map (\<lambda>op. (POST, [Lit ''v1'', Lit ''evaluation-decisions'', Lit op]))
       [''create'', ''get'', ''override'', ''approve'', ''list'']"

definition evaluation_comments_routes :: "app_route list" where
  "evaluation_comments_routes =
     map (\<lambda>op. (POST, [Lit ''v1'', Lit ''evaluation-comments'', Lit op])) [''add'', ''list'']"

definition register_routes :: "app_route list" where
  "register_routes =
     session_routes @ tenant_routes @ user_routes @ tasks_routes @ eval_routes @ patterns_routes @ skills_routes
     @ interactions_routes @ audit_routes @ registry_routes @ jobs_routes @ user_state_routes @ events_routes
     @ evaluation_decisions_routes @ evaluation_comments_routes"

definition health_routes :: "app_route list" where
  "health_routes = [(GET, [Lit ''health'']), (GET, [Lit ''ready''])]"

text \<open>\<^verbatim>\<open>create_app\<close>: the health endpoints are open, all others need the service headers.\<close>

definition has_service_headers :: "(string, string) dict \<Rightarrow> bool" where
  "has_service_headers h \<longleftrightarrow> dict_has h ''X-Service-Id'' \<and> dict_has h ''X-Service-Key''"

definition failed :: "reply \<Rightarrow> bool" where
  "failed r \<longleftrightarrow> (case r of None \<Rightarrow> True | Some (status, b) \<Rightarrow> 400 \<le> status)"

definition fastapi_app :: "app_route list \<Rightarrow> app_route list \<Rightarrow> 'w app \<Rightarrow> bool" where
  "fastapi_app open_routes guarded app \<longleftrightarrow>
     (\<forall>r w. \<not> serves open_routes (hr_method r) (hr_path r) \<longrightarrow>
        \<not> serves guarded (hr_method r) (hr_path r) \<or> \<not> has_service_headers (hr_headers r) \<longrightarrow>
        failed (fst (app r w)) \<and> snd (app r w) = w)"

lemmas route_defs = session_routes_def tenant_routes_def user_routes_def tasks_routes_def eval_routes_def
  patterns_routes_def skills_routes_def interactions_routes_def audit_routes_def registry_routes_def jobs_routes_def
  user_state_routes_def events_routes_def evaluation_decisions_routes_def evaluation_comments_routes_def

text \<open>What is served below \<^verbatim>\<open>/v1\<close>, \<^verbatim>\<open>/jobs\<close> and \<^verbatim>\<open>/registry\<close>.\<close>

lemma serves_simps [simp]:
  "serves [] m p \<longleftrightarrow> False"
  "serves ((m', ts) # rs) m p \<longleftrightarrow> m' = m \<and> template_matches ts p \<or> serves rs m p"
  "serves (rs @ rs') m p \<longleftrightarrow> serves rs m p \<or> serves rs' m p"
  by (auto simp: serves_def)

lemma template_matches_Cons:
  "template_matches (Lit a # ts) p \<longleftrightarrow> (\<exists>q. p = a # q \<and> template_matches ts q)"
  "template_matches (Par # ts) p \<longleftrightarrow> (\<exists>x q. p = x # q \<and> template_matches ts q)"
  "template_matches [] p \<longleftrightarrow> p = []"
  by (cases p; simp)+

lemma template_matches_short:
  "template_matches [Lit a] p \<longleftrightarrow> p = [a]"
  "template_matches [Par] p \<longleftrightarrow> length p = 1"
  "template_matches [Lit a, Lit b] p \<longleftrightarrow> p = [a, b]"
  "template_matches [Lit a, Par] p \<longleftrightarrow> length p = 2 \<and> hd p = a"
  "template_matches [Lit a, Par, Lit b] p \<longleftrightarrow> length p = 3 \<and> hd p = a \<and> p ! 2 = b"
  by (auto simp: template_matches_Cons length_Suc_conv numeral_eq_Suc)

lemma serves_v1:
  "serves register_routes m (''v1'' # p) \<longleftrightarrow>
     m = POST \<and> p \<in> set ([[''user-state'', ''get''], [''user-state'', ''put''], [''event'', ''push''], [''event'', ''drain'']]
        @ map (\<lambda>op. [''evaluation-decisions'', op]) [''create'', ''get'', ''override'', ''approve'', ''list'']
        @ map (\<lambda>op. [''evaluation-comments'', op]) [''add'', ''list''])"
  unfolding register_routes_def route_defs by (cases m) (simp_all add: template_matches_short template_matches_Cons(3))

lemma serves_jobs:
  "serves register_routes m (''jobs'' # p) \<longleftrightarrow> (p = [] \<and> m = POST) \<or> (length p = 1 \<and> m \<in> {GET, PUT})"
  unfolding register_routes_def route_defs by (cases m) (simp_all add: template_matches_short template_matches_Cons(3))

lemma serves_registry:
  "serves register_routes m (''registry'' # p) \<longleftrightarrow>
     (p = [''agents''] \<and> m \<in> {POST, GET}) \<or> (length p = 2 \<and> hd p = ''agents'' \<and> m = DELETE)
   \<or> (length p = 3 \<and> hd p = ''agents'' \<and> p ! 2 = ''heartbeat'' \<and> m = PUT)"
  unfolding register_routes_def route_defs by (cases m) (simp_all add: template_matches_short template_matches_Cons(3))

lemma not_health:
  "\<not> serves health_routes m (''v1'' # p)" "\<not> serves health_routes m (''jobs'' # p)" "\<not> serves health_routes m (''registry'' # p)"
  by (simp_all add: health_routes_def)

section \<open>The memory client\<close>

record memory_client =
  mc_service_id :: string
  mc_service_key :: string

definition mc_headers :: "memory_client \<Rightarrow> (string, string) dict" where
  "mc_headers c =
     [(''Content-Type'', ''application/json'')] @
     (if mc_service_id c \<noteq> [] \<and> mc_service_key c \<noteq> []
      then [(''X-Service-Id'', mc_service_id c), (''X-Service-Key'', mc_service_key c)] else [])"

text \<open>
  The payload goes over the wire as JSON, which carries every value but a NaN or an infinity unchanged. What becomes of
  those depends on the version of httpx (it sends them or raises): no lemma concludes a success for a payload that has one.
\<close>

definition mc_request :: "memory_client \<Rightarrow> string list \<Rightarrow> (string \<times> pyval) list \<Rightarrow> http_request" where
  "mc_request c path payload =
     \<lparr>hr_method = POST, hr_path = path, hr_headers = mc_headers c, hr_body = payload\<rparr>"

text \<open>\<^verbatim>\<open>_post\<close> and \<^verbatim>\<open>_post_json\<close>: every failure is False, or the empty dict.\<close>

definition mc_post :: "'w app \<Rightarrow> memory_client \<Rightarrow> string list \<Rightarrow> (string \<times> pyval) list \<Rightarrow> 'w \<Rightarrow> bool \<times> 'w" where
  "mc_post app c path payload w =
     (let (reply, w') = app (mc_request c path payload) w in (\<not> failed reply, w'))"

definition mc_post_json :: "'w app \<Rightarrow> memory_client \<Rightarrow> string list \<Rightarrow> (string \<times> pyval) list \<Rightarrow> 'w \<Rightarrow> pyval \<times> 'w" where
  "mc_post_json app c path payload w =
     (let (reply, w') = app (mc_request c path payload) w
      in (case reply of
            None \<Rightarrow> PDict []
          | Some (status, body) \<Rightarrow>
              if 400 \<le> status then PDict [] else (case body of None \<Rightarrow> PDict [] | Some v \<Rightarrow> v), w'))"

definition given_field :: "string \<Rightarrow> pyval option \<Rightarrow> (string \<times> pyval) list" where
  "given_field k v = (case v of None \<Rightarrow> [] | Some x \<Rightarrow> [(k, x)])"

text \<open>\<^verbatim>\<open>result if isinstance(result, list) else result.get(key, [])\<close>\<close>

definition mc_unwrap :: "string \<Rightarrow> pyval \<Rightarrow> pyval" where
  "mc_unwrap key v =
     (case v of
        PList vs \<Rightarrow> PList vs
      | PDict d \<Rightarrow> (case dict_get d key of None \<Rightarrow> PList [] | Some x \<Rightarrow> x)
      | _ \<Rightarrow> PList [])"

definition mc_dict :: "pyval \<Rightarrow> pyval" where
  "mc_dict v = (case v of PDict d \<Rightarrow> PDict d | _ \<Rightarrow> PDict [])"

definition mc_list_call ::
    "string \<Rightarrow> 'w app \<Rightarrow> memory_client \<Rightarrow> string list \<Rightarrow> (string \<times> pyval) list \<Rightarrow> 'w \<Rightarrow> pyval \<times> 'w" where
  "mc_list_call key app c path payload w = map_prod (mc_unwrap key) id (mc_post_json app c path payload w)"

definition mc_dict_call ::
    "'w app \<Rightarrow> memory_client \<Rightarrow> string list \<Rightarrow> (string \<times> pyval) list \<Rightarrow> 'w \<Rightarrow> pyval \<times> 'w" where
  "mc_dict_call app c path payload w = map_prod mc_dict id (mc_post_json app c path payload w)"

definition session_store where
  "session_store app c session_id messages metadata =
     mc_post app c [''v1'', ''session'', ''store'']
       ([(''session_id'', PStr session_id), (''messages'', PList messages)] @ given_field ''metadata'' metadata)"

definition session_recall where
  "session_recall app c session_id limit =
     mc_list_call ''messages'' app c [''v1'', ''session'', ''recall'']
       [(''session_id'', PStr session_id), (''limit'', PInt limit)]"

definition user_store where
  "user_store app c user_id fact_text cat metadata =
     mc_post app c [''v1'', ''user'', ''store'']
       ([(''user_id'', PStr user_id), (''fact'', PStr fact_text), (''category'', PStr cat)] @ given_field ''metadata'' metadata)"

definition client_user_recall where
  "client_user_recall app c user_id query top_k cat =
     mc_list_call ''facts'' app c [''v1'', ''user'', ''recall'']
       ([(''user_id'', PStr user_id), (''query'', PStr query), (''top_k'', PInt top_k)] @ given_field ''category'' cat)"

definition tenant_store where
  "tenant_store app c tenant_id fact_text cat metadata =
     mc_post app c [''v1'', ''tenant'', ''store'']
       ([(''tenant_id'', PStr tenant_id), (''fact'', PStr fact_text), (''category'', PStr cat)] @ given_field ''metadata'' metadata)"

definition client_tenant_recall where
  "client_tenant_recall app c tenant_id query top_k cat =
     mc_list_call ''facts'' app c [''v1'', ''tenant'', ''recall'']
       ([(''tenant_id'', PStr tenant_id), (''query'', PStr query), (''top_k'', PInt top_k)] @ given_field ''category'' cat)"

definition task_store where
  "task_store app c task_id tenant_id payload metadata =
     mc_post app c [''v1'', ''task'', ''store'']
       ([(''task_id'', PStr task_id), (''tenant_id'', PStr tenant_id), (''data'', PDict payload)] @ given_field ''metadata'' metadata)"

definition task_recall where
  "task_recall app c task_id tenant_id =
     mc_dict_call app c [''v1'', ''task'', ''recall''] [(''task_id'', PStr task_id), (''tenant_id'', PStr tenant_id)]"

definition eval_store where
  "eval_store app c tenant_id framework control_id result metadata =
     mc_post app c [''v1'', ''eval'', ''store'']
       ([(''tenant_id'', PStr tenant_id), (''framework'', PStr framework), (''control_id'', PStr control_id),
         (''result'', PDict result)] @ given_field ''metadata'' metadata)"

definition eval_recall where
  "eval_recall app c tenant_id framework control_id limit =
     mc_list_call ''results'' app c [''v1'', ''eval'', ''recall'']
       ([(''tenant_id'', PStr tenant_id), (''framework'', PStr framework), (''limit'', PInt limit)]
        @ given_field ''control_id'' control_id)"

definition pattern_store where
  "pattern_store app c tenant_id pattern_type pattern metadata =
     mc_post app c [''v1'', ''pattern'', ''store'']
       ([(''tenant_id'', PStr tenant_id), (''pattern_type'', PStr pattern_type), (''pattern'', PDict pattern)]
        @ given_field ''metadata'' metadata)"

definition pattern_recall where
  "pattern_recall app c tenant_id pattern_type limit =
     mc_list_call ''patterns'' app c [''v1'', ''pattern'', ''recall'']
       ([(''tenant_id'', PStr tenant_id), (''limit'', PInt limit)] @ given_field ''pattern_type'' pattern_type)"

definition skill_store where
  "skill_store app c tenant_id skill_name skill_data metadata =
     mc_post app c [''v1'', ''skill'', ''store'']
       ([(''tenant_id'', PStr tenant_id), (''skill_name'', PStr skill_name), (''skill_data'', PDict skill_data)]
        @ given_field ''metadata'' metadata)"

definition skill_recall where
  "skill_recall app c tenant_id skill_name =
     mc_list_call ''skills'' app c [''v1'', ''skill'', ''recall'']
       ([(''tenant_id'', PStr tenant_id)] @ given_field ''skill_name'' skill_name)"

definition interaction_store where
  "interaction_store app c user_id tenant_id interaction_type payload metadata =
     mc_post app c [''v1'', ''interaction'', ''store'']
       ([(''user_id'', PStr user_id), (''tenant_id'', PStr tenant_id), (''interaction_type'', PStr interaction_type),
         (''data'', PDict payload)] @ given_field ''metadata'' metadata)"

definition interaction_recall where
  "interaction_recall app c user_id tenant_id interaction_type limit =
     mc_list_call ''interactions'' app c [''v1'', ''interaction'', ''recall'']
       ([(''user_id'', PStr user_id), (''tenant_id'', PStr tenant_id), (''limit'', PInt limit)]
        @ given_field ''interaction_type'' interaction_type)"

definition user_state_get where
  "user_state_get app c user_id tenant_id =
     mc_dict_call app c [''v1'', ''user-state'', ''get''] [(''user_id'', PStr user_id), (''tenant_id'', PStr tenant_id)]"

definition user_state_put where
  "user_state_put app c user_id tenant_id doc =
     mc_post app c [''v1'', ''user-state'', ''put'']
       [(''user_id'', PStr user_id), (''tenant_id'', PStr tenant_id), (''data'', PDict doc)]"

definition event_queue_push where
  "event_queue_push app c user_id tenant_id event_type summary priority source_service metadata =
     mc_post app c [''v1'', ''event'', ''push'']
       ([(''user_id'', PStr user_id), (''tenant_id'', PStr tenant_id), (''event_type'', PStr event_type),
         (''summary'', PStr summary), (''priority'', PStr priority), (''source_service'', PStr source_service)]
        @ given_field ''metadata'' metadata)"

definition event_queue_drain where
  "event_queue_drain app c user_id tenant_id =
     mc_list_call ''events'' app c [''v1'', ''event'', ''drain'']
       [(''user_id'', PStr user_id), (''tenant_id'', PStr tenant_id)]"

definition eval_decision_create where
  "eval_decision_create app c evaluation_id tenant_id control_id framework ai_score ai_status =
     mc_post app c [''v1'', ''evaluation-decisions'', ''create'']
       [(''evaluation_id'', PStr evaluation_id), (''tenant_id'', PStr tenant_id), (''control_id'', PStr control_id),
        (''framework'', PStr framework), (''ai_score'', PFloat (Fin ai_score)), (''ai_status'', PStr ai_status)]"

definition eval_decision_get where
  "eval_decision_get app c evaluation_id tenant_id =
     mc_dict_call app c [''v1'', ''evaluation-decisions'', ''get'']
       [(''evaluation_id'', PStr evaluation_id), (''tenant_id'', PStr tenant_id)]"

definition eval_decision_override where
  "eval_decision_override app c evaluation_id tenant_id crit ai_result user_result reason overridden_by =
     mc_post app c [''v1'', ''evaluation-decisions'', ''override'']
       [(''evaluation_id'', PStr evaluation_id), (''tenant_id'', PStr tenant_id), (''criterion_id'', PStr crit),
        (''ai_result'', PStr ai_result), (''user_result'', PStr user_result), (''reason'', PStr reason),
        (''overridden_by'', PStr overridden_by)]"

definition eval_decision_approve where
  "eval_decision_approve app c evaluation_id tenant_id approved_by notes =
     mc_post app c [''v1'', ''evaluation-decisions'', ''approve'']
       [(''evaluation_id'', PStr evaluation_id), (''tenant_id'', PStr tenant_id), (''approved_by'', PStr approved_by),
        (''notes'', PStr notes)]"

definition eval_comments_add where
  "eval_comments_add app c evaluation_id tenant_id author_id author_role content crit parent_comment_id =
     mc_post app c [''v1'', ''evaluation-comments'', ''add'']
       ([(''evaluation_id'', PStr evaluation_id), (''tenant_id'', PStr tenant_id), (''author_id'', PStr author_id),
         (''author_role'', PStr author_role), (''content'', PStr content)]
        @ given_field ''criterion_id'' crit @ given_field ''parent_comment_id'' parent_comment_id)"

definition eval_comments_list where
  "eval_comments_list app c evaluation_id tenant_id =
     mc_list_call ''comments'' app c [''v1'', ''evaluation-comments'', ''list'']
       [(''evaluation_id'', PStr evaluation_id), (''tenant_id'', PStr tenant_id)]"

section \<open>The state and registry clients\<close>

definition json_headers :: "(string, string) dict" where
  "json_headers = [(''Content-Type'', ''application/json'')]"

text \<open>A GET that answers 404, another error, or fails is None; a body that is not JSON is an error as well.\<close>

definition get_or_none :: "'w app \<Rightarrow> string list \<Rightarrow> 'w \<Rightarrow> pyval option \<times> 'w" where
  "get_or_none app path w =
     (let (reply, w') = app \<lparr>hr_method = GET, hr_path = path, hr_headers = json_headers, hr_body = []\<rparr> w
      in (case reply of
            None \<Rightarrow> None
          | Some (status, body) \<Rightarrow> if 400 \<le> status then None else body, w'))"

definition put_ok :: "'w app \<Rightarrow> string list \<Rightarrow> (string \<times> pyval) list \<Rightarrow> 'w \<Rightarrow> bool \<times> 'w" where
  "put_ok app path payload w =
     (let (reply, w') = app \<lparr>hr_method = PUT, hr_path = path, hr_headers = json_headers, hr_body = payload\<rparr> w
      in (\<not> failed reply, w'))"

definition set_job_status where
  "set_job_status app job_id status job_info =
     put_ok app [''jobs'', ''status'', job_id]
       ([(''job_id'', PStr job_id), (''status'', PStr status)] @ given_field ''data'' job_info)"

definition get_job_status where
  "get_job_status app job_id = get_or_none app [''jobs'', ''status'', job_id]"

definition set_job_result where
  "set_job_result app job_id result =
     put_ok app [''jobs'', ''result'', job_id] [(''job_id'', PStr job_id), (''result'', PDict result)]"

definition get_job_result where
  "get_job_result app job_id = get_or_none app [''jobs'', ''result'', job_id]"

text \<open>\<^verbatim>\<open>data.get("deleted_count", 0)\<close>; a body without \<^verbatim>\<open>get\<close> raises and counts as 0.\<close>

definition cleanup_expired :: "'w app \<Rightarrow> int \<Rightarrow> 'w \<Rightarrow> pyval \<times> 'w" where
  "cleanup_expired app ttl_hours w =
     (let (reply, w') = app \<lparr>hr_method = POST, hr_path = [''jobs'', ''cleanup''], hr_headers = json_headers,
                              hr_body = [(''ttl_hours'', PInt ttl_hours)]\<rparr> w
      in (case reply of
            Some (status, Some (PDict d)) \<Rightarrow>
              if 400 \<le> status then PInt 0 else (case dict_get d ''deleted_count'' of None \<Rightarrow> PInt 0 | Some n \<Rightarrow> n)
          | _ \<Rightarrow> PInt 0, w'))"

definition registry_register ::
    "'w app \<Rightarrow> string \<Rightarrow> string \<Rightarrow> string list \<Rightarrow> string \<Rightarrow> int \<Rightarrow> pyval option \<Rightarrow> pyval option \<Rightarrow> 'w \<Rightarrow> pyval \<times> 'w" where
  "registry_register app agent_type version capabilities endpoint max_concurrency tenant_scope metadata w =
     (let (reply, w') = app \<lparr>hr_method = POST, hr_path = [''registry'', ''agents''], hr_headers = json_headers,
        hr_body = [(''agent_type'', PStr agent_type), (''version'', PStr version),
                   (''capabilities'', PList (map PStr capabilities)), (''endpoint'', PStr endpoint),
                   (''max_concurrency'', PInt max_concurrency)]
                  @ given_field ''tenant_scope'' tenant_scope @ given_field ''metadata'' metadata\<rparr> w
      in (case reply of
            Some (status, Some v) \<Rightarrow> if 400 \<le> status then PDict [] else v
          | _ \<Rightarrow> PDict [], w'))"

definition registry_heartbeat ::
    "'w app \<Rightarrow> string \<Rightarrow> string \<Rightarrow> int \<Rightarrow> int \<Rightarrow> pyval option \<Rightarrow> 'w \<Rightarrow> 'w" where
  "registry_heartbeat app agent_id health current_load queue_depth reason w =
     snd (app \<lparr>hr_method = PUT, hr_path = [''registry'', ''agents'', agent_id, ''heartbeat''], hr_headers = json_headers,
        hr_body = [(''health'', PStr health), (''current_load'', PInt current_load), (''queue_depth'', PInt queue_depth)]
                  @ given_field ''degradation_reason'' reason\<rparr> w)"

text \<open>The query parameters of \<^verbatim>\<open>discover\<close> do not take part in routing.\<close>

definition registry_discover :: "'w app \<Rightarrow> 'w \<Rightarrow> pyval \<times> 'w" where
  "registry_discover app w =
     (let (reply, w') = app \<lparr>hr_method = GET, hr_path = [''registry'', ''agents'', ''discover''],
                              hr_headers = json_headers, hr_body = []\<rparr> w
      in (case reply of
            Some (status, Some (PList vs)) \<Rightarrow> if 400 \<le> status then PList [] else PList vs
          | Some (status, Some (PDict d)) \<Rightarrow>
              if 400 \<le> status then PList [] else (case dict_get d ''agents'' of None \<Rightarrow> PList [] | Some x \<Rightarrow> x)
          | _ \<Rightarrow> PList [], w'))"

definition registry_deregister :: "'w app \<Rightarrow> string \<Rightarrow> 'w \<Rightarrow> 'w" where
  "registry_deregister app agent_id w =
     snd (app \<lparr>hr_method = DELETE, hr_path = [''registry'', ''agents'', agent_id], hr_headers = json_headers, hr_body = []\<rparr> w)"

section \<open>Calls that no route serves\<close>

lemma unserved:
  assumes "fastapi_app health_routes register_routes app" and "\<not> serves health_routes (hr_method r) (hr_path r)"
    and "\<not> serves register_routes (hr_method r) (hr_path r) \<or> \<not> has_service_headers (hr_headers r)"
  shows "failed (fst (app r w))" and "snd (app r w) = w"
  using assms unfolding fastapi_app_def by blast+

lemma mc_post_unserved:
  assumes "fastapi_app health_routes register_routes app" and "\<not> serves register_routes POST (''v1'' # p)"
  shows "mc_post app c (''v1'' # p) payload w = (False, w)"
  using unserved [OF assms(1), of "mc_request c (''v1'' # p) payload" w] assms(2)
  by (cases "app (mc_request c (''v1'' # p) payload) w") (simp add: mc_post_def mc_request_def not_health)

lemma mc_post_json_unserved:
  assumes "fastapi_app health_routes register_routes app" and "\<not> serves register_routes POST (''v1'' # p)"
  shows "mc_post_json app c (''v1'' # p) payload w = (PDict [], w)"
  using unserved [OF assms(1), of "mc_request c (''v1'' # p) payload" w] assms(2)
  by (cases "app (mc_request c (''v1'' # p) payload) w")
     (auto simp: mc_post_json_def mc_request_def not_health failed_def split: option.splits prod.splits)

lemma mc_calls_unserved:
  assumes "fastapi_app health_routes register_routes app" and "\<not> serves register_routes POST (''v1'' # p)"
  shows "mc_list_call key app c (''v1'' # p) payload w = (PList [], w)"
    and "mc_dict_call app c (''v1'' # p) payload w = (PDict [], w)"
  by (simp_all add: mc_list_call_def mc_dict_call_def mc_post_json_unserved [OF assms] mc_unwrap_def mc_dict_def)

lemma no_headers: "\<not> has_service_headers json_headers"
  by (simp add: has_service_headers_def json_headers_def dict_has_def)

text \<open>
  C27 (calls that never reach the memory service): for every FastAPI application with the routes the
  memory service registers, the client's session, user, tenant, task, evaluation, pattern, skill and interaction
  calls fail whatever their arguments and credentials: each store returns False, each recall returns nothing, and the
  service's state does not change.
\<close>

theorem memory_calls_without_a_route:
  assumes "fastapi_app health_routes register_routes app"
  shows "session_store app c sid messages md w = (False, w) \<and> session_recall app c sid n w = (PList [], w)
    \<and> user_store app c u f cat md w = (False, w) \<and> client_user_recall app c u q k oc w = (PList [], w)
    \<and> tenant_store app c t f cat md w = (False, w) \<and> client_tenant_recall app c t q k oc w = (PList [], w)
    \<and> task_store app c i t pl md w = (False, w) \<and> task_recall app c i t w = (PDict [], w)
    \<and> eval_store app c t fw ctl res md w = (False, w) \<and> eval_recall app c t fw oc n w = (PList [], w)
    \<and> pattern_store app c t pt pl md w = (False, w) \<and> pattern_recall app c t oc n w = (PList [], w)
    \<and> skill_store app c t sn pl md w = (False, w) \<and> skill_recall app c t oc w = (PList [], w)
    \<and> interaction_store app c u t it pl md w = (False, w) \<and> interaction_recall app c u t oc n w = (PList [], w)"
  by (simp_all add: session_store_def session_recall_def user_store_def client_user_recall_def tenant_store_def
      client_tenant_recall_def task_store_def task_recall_def eval_store_def eval_recall_def pattern_store_def
      pattern_recall_def skill_store_def skill_recall_def interaction_store_def interaction_recall_def
      mc_post_unserved [OF assms] mc_calls_unserved [OF assms] serves_v1)

text \<open>
  (job state is never persisted): the state client sends no service headers and asks for paths the
  service does not route, so setting a status or a result always fails, reading one always finds nothing, and the
  service's state does not change; registering an agent, its heartbeats and its discovery fail in the same way.
\<close>

theorem job_state_is_never_persisted:
  assumes app: "fastapi_app health_routes register_routes app"
  shows "set_job_status app i st info w = (False, w) \<and> get_job_status app i w = (None, w)
    \<and> set_job_result app i res w = (False, w) \<and> get_job_result app i w = (None, w)
    \<and> cleanup_expired app ttl w = (PInt 0, w)
    \<and> registry_register app ty ver caps ep mx sc md w = (PDict [], w) \<and> registry_heartbeat app i h l q rs w = w
      \<and> registry_discover app w = (PList [], w) \<and> registry_deregister app i w = w"
proof -
  have U: "failed (fst (app r w)) \<and> snd (app r w) = w"
    if "hr_headers r = json_headers" "\<exists>p. hr_path r = ''jobs'' # p \<or> hr_path r = ''registry'' # p" for r
    using unserved [OF app, of r w] that no_headers by (auto simp: not_health)
  have put: "put_ok app (''jobs'' # p) pl w = (False, w)" for p pl
    using U [of "\<lparr>hr_method = PUT, hr_path = ''jobs'' # p, hr_headers = json_headers, hr_body = pl\<rparr>"]
    by (auto simp: put_ok_def split: prod.splits)
  have get: "get_or_none app (''jobs'' # p) w = (None, w)" for p
    using U [of "\<lparr>hr_method = GET, hr_path = ''jobs'' # p, hr_headers = json_headers, hr_body = []\<rparr>"]
    by (auto simp: get_or_none_def failed_def split: prod.splits option.splits)
  have "set_job_status app i st info w = (False, w) \<and> get_job_status app i w = (None, w)"
    by (simp add: set_job_status_def get_job_status_def put get)
  moreover have "set_job_result app i res w = (False, w) \<and> get_job_result app i w = (None, w)"
    by (simp add: set_job_result_def get_job_result_def put get)
  moreover have "cleanup_expired app ttl w = (PInt 0, w)"
    using U [of "\<lparr>hr_method = POST, hr_path = [''jobs'', ''cleanup''], hr_headers = json_headers, hr_body = [(''ttl_hours'', PInt ttl)]\<rparr>"]
    by (auto simp: cleanup_expired_def failed_def split: prod.splits option.splits pyval.splits)
  moreover have "registry_register app ty ver caps ep mx sc md w = (PDict [], w)"
    using U [of "\<lparr>hr_method = POST, hr_path = [''registry'', ''agents''], hr_headers = json_headers,
        hr_body = [(''agent_type'', PStr ty), (''version'', PStr ver), (''capabilities'', PList (map PStr caps)),
                   (''endpoint'', PStr ep), (''max_concurrency'', PInt mx)]
                  @ given_field ''tenant_scope'' sc @ given_field ''metadata'' md\<rparr>"]
    by (auto simp: registry_register_def failed_def split: prod.splits option.splits)
  moreover have "registry_heartbeat app i h l q rs w = w" "registry_deregister app i w = w"
    by (simp_all add: registry_heartbeat_def registry_deregister_def U)
  moreover have "registry_discover app w = (PList [], w)"
    using U [of "\<lparr>hr_method = GET, hr_path = [''registry'', ''agents'', ''discover''], hr_headers = json_headers, hr_body = []\<rparr>"]
    by (auto simp: registry_discover_def failed_def split: prod.splits option.splits pyval.splits)
  ultimately show ?thesis by blast
qed

section \<open>The event and user state endpoints on the wire\<close>

text \<open>\<^verbatim>\<open>EventPushBody\<close> and \<^verbatim>\<open>EventDrainBody\<close>: the fields pydantic requires and the defaults of the others.\<close>

definition str_field :: "(string \<times> pyval) list \<Rightarrow> string \<Rightarrow> string option" where
  "str_field d k = (case dict_get d k of Some (PStr s) \<Rightarrow> Some s | _ \<Rightarrow> None)"

definition str_field_or :: "(string \<times> pyval) list \<Rightarrow> string \<Rightarrow> string \<Rightarrow> string option" where
  "str_field_or d k other = (case dict_get d k of None \<Rightarrow> Some other | Some (PStr s) \<Rightarrow> Some s | _ \<Rightarrow> None)"

definition dict_field_or :: "(string \<times> pyval) list \<Rightarrow> string \<Rightarrow> (string \<times> pyval) list \<Rightarrow> (string \<times> pyval) list option" where
  "dict_field_or d k other = (case dict_get d k of None \<Rightarrow> Some other | Some (PDict s) \<Rightarrow> Some s | _ \<Rightarrow> None)"

definition parse_push_body :: "(string \<times> pyval) list \<Rightarrow> event_push_body option" where
  "parse_push_body d = do {
     user_id \<leftarrow> str_field d ''user_id'';
     tenant_id \<leftarrow> str_field d ''tenant_id'';
     event_type \<leftarrow> str_field d ''event_type'';
     summary \<leftarrow> str_field d ''summary'';
     priority \<leftarrow> str_field_or d ''priority'' ''medium'';
     source \<leftarrow> str_field_or d ''source_service'' [];
     metadata \<leftarrow> dict_field_or d ''metadata'' [];
     Some \<lparr>pb_user_id = user_id, pb_tenant_id = tenant_id, pb_event_type = event_type, pb_summary = summary,
           pb_priority = priority, pb_source_service = source, pb_metadata = metadata\<rparr> }"

definition parse_user_body :: "(string \<times> pyval) list \<Rightarrow> (string \<times> string) option" where
  "parse_user_body d = do {
     user_id \<leftarrow> str_field d ''user_id'';
     tenant_id \<leftarrow> str_field d ''tenant_id'';
     Some (user_id, tenant_id) }"

definition event_json :: "queued_event \<Rightarrow> pyval" where
  "event_json e = PDict
     [(''event_type'', PStr (qe_event_type e)), (''summary'', PStr (qe_summary e)), (''priority'', PStr (qe_priority e)),
      (''source_service'', PStr (qe_source_service e)), (''metadata'', PDict (qe_metadata e)),
      (''timestamp'', PFloat (Fin (qe_timestamp e)))]"

text \<open>
  The rendering of an answer (Starlette's \<^verbatim>\<open>JSONResponse\<close>, with \<^verbatim>\<open>allow_nan=False\<close>): a NaN or an infinity anywhere in it raises, after the
  handler did its work.
\<close>

fun json_finite :: "pyval \<Rightarrow> bool" where
  "json_finite (PFloat x) \<longleftrightarrow> (case x of Fin r \<Rightarrow> True | _ \<Rightarrow> False)"
| "json_finite (PList vs) \<longleftrightarrow> (\<forall>v \<in> set vs. json_finite v)"
| "json_finite (PDict d) \<longleftrightarrow> (\<forall>kv \<in> set d. json_finite (snd kv))"
| "json_finite _ \<longleftrightarrow> True"

definition json_reply :: "'w \<Rightarrow> (pyval \<times> 'w) option \<Rightarrow> reply \<times> 'w" where
  "json_reply w r = (case r of
        None \<Rightarrow> (Some (500, None), w)
      | Some (v, w') \<Rightarrow> (Some (if json_finite v then (200, Some v) else (500, None)), w'))"

definition status_ok :: pyval where
  "status_ok = PDict [(''status'', PStr ''ok'')]"

text \<open>The two groups of endpoints, reached with the service headers; any other request is refused here.\<close>

definition memory_app ::
    "('r, 'p) mem_redis \<Rightarrow> 'p mem_codec \<Rightarrow> (string \<Rightarrow> string) \<Rightarrow> (string, string) dict option \<Rightarrow> real \<Rightarrow> 'r app" where
  "memory_app api cd sha256 authenticator now r s =
     (case verify_service_headers sha256 authenticator (hr_headers r) of
        Inl code \<Rightarrow> (Some (code, None), s)
      | Inr who \<Rightarrow>
          if hr_method r \<noteq> POST then (Some (405, None), s)
          else if hr_path r = [''v1'', ''event'', ''push''] then
            (case parse_push_body (hr_body r) of
               None \<Rightarrow> (Some (422, None), s)
             | Some b \<Rightarrow> json_reply s (map_option (Pair status_ok) (push_event api cd now b s)))
          else if hr_path r = [''v1'', ''event'', ''drain''] then
            (case parse_user_body (hr_body r) of
               None \<Rightarrow> (Some (422, None), s)
             | Some (user_id, tenant_id) \<Rightarrow>
                 json_reply s (map_option (\<lambda>(es, s'). (PDict [(''events'', PList (map event_json es))], s'))
                   (drain_events api cd tenant_id user_id s)))
          else if hr_path r = [''v1'', ''user-state'', ''get''] then
            (case parse_user_body (hr_body r) of
               None \<Rightarrow> (Some (422, None), s)
             | Some (user_id, tenant_id) \<Rightarrow>
                 json_reply s (map_option (\<lambda>d. (PDict d, s)) (get_user_state api cd tenant_id user_id s)))
          else if hr_path r = [''v1'', ''user-state'', ''put''] then
            (case (parse_user_body (hr_body r), dict_get (hr_body r) ''data'') of
               (Some (user_id, tenant_id), Some (PDict doc)) \<Rightarrow>
                 json_reply s (map_option (Pair status_ok) (put_user_state api cd tenant_id user_id doc s))
             | _ \<Rightarrow> (Some (422, None), s))
          else (Some (404, None), s))"

lemma memory_app_is_fastapi:
  "fastapi_app health_routes register_routes (memory_app api cd sha256 authenticator now)"
proof -
  have headers: "has_service_headers h" if "verify_service_headers sha256 authenticator h = Inr who" for h who
    using that by (auto simp: verify_service_headers_def has_service_headers_def dict_has_def split: option.splits)
  have "failed (fst (memory_app api cd sha256 authenticator now r s)) \<and> snd (memory_app api cd sha256 authenticator now r s) = s"
    if "\<not> serves register_routes (hr_method r) (hr_path r) \<or> \<not> has_service_headers (hr_headers r)" for r s
  proof (cases "verify_service_headers sha256 authenticator (hr_headers r)")
    case (Inl code)
    then have "400 \<le> code" by (auto simp: verify_service_headers_def split: option.splits if_splits)
    with Inl show ?thesis by (simp add: memory_app_def failed_def)
  next
    case (Inr who)
    then have "\<not> serves register_routes (hr_method r) (hr_path r)" using that headers by blast
    then have "\<not> (hr_method r = POST \<and> hr_path r \<in> {[''v1'', ''event'', ''push''], [''v1'', ''event'', ''drain''],
        [''v1'', ''user-state'', ''get''], [''v1'', ''user-state'', ''put'']})"
      by (auto simp: serves_v1)
    with Inr show ?thesis by (auto simp: memory_app_def failed_def)
  qed
  then show ?thesis by (auto simp: fastapi_app_def)
qed

theorem memory_calls_without_a_route_witness:
  "eval_recall (memory_app keyspace_redis plain_codec id None 0) \<lparr>mc_service_id = ''agent-eval'', mc_service_key = ''k''\<rparr>
     ''t'' ''soc2'' None 5 (\<lambda>k. None) = (PList [], \<lambda>k. None)"
  by (rule memory_calls_without_a_route [OF memory_app_is_fastapi, THEN conjunct2, THEN conjunct2, THEN conjunct2, THEN conjunct2, THEN conjunct2, THEN conjunct2, THEN conjunct2, THEN conjunct2, THEN conjunct2, THEN conjunct1])

theorem job_state_is_never_persisted_witness:
  "set_job_status (memory_app keyspace_redis plain_codec id None 0) ''j'' ''running'' None (\<lambda>k. None) = (False, \<lambda>k. None)"
  by (rule conjunct1 [OF job_state_is_never_persisted [OF memory_app_is_fastapi]])

text \<open>
  (service authentication): a request passes exactly when both service headers are present and not
  blank and, if the application configured an authenticator, the key's digest is the one stored for the claimed
  service; without an authenticator (the memory service configures none) every non-blank pair passes, whatever the key.
\<close>

theorem service_headers_checked:
  "(\<exists>who. verify_service_headers sha256 authenticator headers = Inr who) \<longleftrightarrow>
     (\<exists>sid skey. dict_get headers ''X-Service-Id'' = Some sid \<and> dict_get headers ''X-Service-Key'' = Some skey
        \<and> str_strip sid \<noteq> [] \<and> str_strip skey \<noteq> []
        \<and> (case authenticator of None \<Rightarrow> True | Some keys \<Rightarrow> dict_get keys sid = Some (sha256 skey)))"
  by (auto simp: verify_service_headers_def validate_key_def split: option.splits)

lemma client_headers_pass:
  assumes "str_strip (mc_service_id c) \<noteq> []" and "str_strip (mc_service_key c) \<noteq> []"
  shows "\<exists>who. verify_service_headers sha256 None (mc_headers c) = Inr who"
proof -
  have "mc_service_id c \<noteq> []" "mc_service_key c \<noteq> []" using assms by (auto simp: str_strip_def)
  then show ?thesis using assms by (simp add: verify_service_headers_def mc_headers_def)
qed

text \<open>
  C28 (events over the wire): with credentials configured on the client and no NaN or infinity in the documents, pushing an event through the
  memory client returns True, and draining returns the events queued before followed by the pushed one with every
  field as given, a missing metadata read as the empty dict. All the events queued before are returned while they are fewer than 50; at 50 one is
  given up, the oldest of low priority or else the oldest of all. The queue is empty afterwards. A user state document that was put is what get returns; one with a
  NaN or an infinity cannot be read back: the service answers 500, which the client reads as an empty document.
\<close>

theorem events_over_the_wire:
  fixes now :: real and digest :: "string \<Rightarrow> string"
  assumes redis: "redis_laws api view" and codec: "codec_laws cd"
    and at: "view s (event_key t u) = put_list (map (enc_event cd) q)" and len: "length q \<le> 50"
    and cred: "str_strip (mc_service_id c) \<noteq> []" "str_strip (mc_service_key c) \<noteq> []"
    and md: "md = None \<and> m = [] \<or> md = Some (PDict m)"
    and fin: "json_finite (PDict m)" "\<forall>e \<in> set q. json_finite (PDict (qe_metadata e))"
    and app_def: "app = memory_app api cd digest None now"
  shows "(\<exists>s1 s2 kept. event_queue_push app c u t ty sm pr src md s = (True, s1)
      \<and> event_queue_drain app c u t s1 = (PList (map event_json (kept @ [\<lparr>qe_event_type = ty, qe_summary = sm,
          qe_priority = pr, qe_source_service = src, qe_metadata = m, qe_timestamp = now\<rparr>])), s2)
      \<and> (length q < 50 \<longrightarrow> kept = q)
      \<and> (length q = 50 \<longrightarrow> (\<exists>xs e ys. q = xs @ e # ys \<and> kept = xs @ ys
            \<and> (if \<exists>x \<in> set q. qe_priority x = ''low''
                then qe_priority e = ''low'' \<and> (\<forall>x \<in> set xs. qe_priority x \<noteq> ''low'') else xs = [])))
      \<and> view s2 (event_key t u) = None)
    \<and> (\<exists>s1. put_user_state api cd t u doc s = Some s1
      \<and> (if json_finite (PDict doc)
         then user_state_put app c u t doc s = (True, s1) \<and> user_state_get app c u t s1 = (PDict doc, s1)
         else user_state_get app c u t s1 = (PDict [], s1)))"
proof -
  obtain who where who: "verify_service_headers digest None (mc_headers c) = Inr who"
    using client_headers_pass [OF cred] by blast
  let ?b = "\<lparr>pb_user_id = u, pb_tenant_id = t, pb_event_type = ty, pb_summary = sm, pb_priority = pr,
      pb_source_service = src, pb_metadata = m\<rparr>"
  let ?e = "\<lparr>qe_event_type = ty, qe_summary = sm, qe_priority = pr, qe_source_service = src, qe_metadata = m, qe_timestamp = now\<rparr>"
  have e: "event_of_body now ?b = ?e" by (simp add: event_of_body_def)
  have atb: "view s (event_key (pb_tenant_id ?b) (pb_user_id ?b)) = put_list (map (enc_event cd) q)" using at by simp
  from push_event_refines [where b = ?b and now = now, OF redis codec atb] obtain s1
    where s1: "push_event api cd now ?b s = Some s1"
      and v1: "view s1 = (view s)(event_key t u := put_list (map (enc_event cd) (queue_push ?e q)))"
    unfolding e by auto
  have "view s1 (event_key t u) = put_list (map (enc_event cd) (queue_push ?e q))" unfolding v1 by (rule fun_upd_same)
  from drain_events_refines [OF redis codec this] obtain s2
    where s2: "drain_events api cd t u s1 = Some (queue_push ?e q, s2)" and v2: "view s2 = (view s1)(event_key t u := None)" by blast
  have body: "parse_push_body ([(''user_id'', PStr u), (''tenant_id'', PStr t), (''event_type'', PStr ty),
      (''summary'', PStr sm), (''priority'', PStr pr), (''source_service'', PStr src)] @ given_field ''metadata'' md) = Some ?b"
    using md by (auto simp: parse_push_body_def str_field_def str_field_or_def dict_field_or_def given_field_def)
  have push: "event_queue_push app c u t ty sm pr src md s = (True, s1)"
    using body by (simp add: event_queue_push_def mc_post_def mc_request_def app_def memory_app_def who s1 json_reply_def status_ok_def failed_def)
  let ?kept = "if max_events_per_user \<le> length q then evict_one q else q"
  have cap: "\<exists>xs e ys. q = xs @ e # ys \<and> ?kept = xs @ ys
            \<and> (if \<exists>x \<in> set q. qe_priority x = ''low''
                then qe_priority e = ''low'' \<and> (\<forall>x \<in> set xs. qe_priority x \<noteq> ''low'') else xs = [])"
    if full: "length q = 50"
  proof -
    have "q \<noteq> []" and eq: "?kept = evict_one q" using full by (auto simp: max_events_per_user_def)
    from evicted [OF this(1)] show ?thesis unfolding eq .
  qed
  have kept: "set ?kept \<subseteq> set q" using evict_one_subset by auto
  have pushed: "queue_push ?e q = ?kept @ [?e]" by (simp add: queue_push_def)
  have "json_finite (event_json e)" if "e \<in> set (queue_push ?e q)" for e
    using that kept fin unfolding pushed by (auto simp: event_json_def)
  then have fine: "json_finite (PDict [(''events'', PList (map event_json (queue_push ?e q)))])" by simp
  have drain: "event_queue_drain app c u t s1 = (PList (map event_json (queue_push ?e q)), s2)"
    using fine by (simp add: event_queue_drain_def mc_list_call_def mc_post_json_def mc_request_def app_def memory_app_def who
        parse_user_body_def str_field_def s2 json_reply_def mc_unwrap_def)
  have queue: "\<exists>s1 s2 kept. event_queue_push app c u t ty sm pr src md s = (True, s1)
      \<and> event_queue_drain app c u t s1 = (PList (map event_json (kept @ [?e])), s2)
      \<and> (length q < 50 \<longrightarrow> kept = q)
      \<and> (length q = 50 \<longrightarrow> (\<exists>xs e ys. q = xs @ e # ys \<and> kept = xs @ ys
            \<and> (if \<exists>x \<in> set q. qe_priority x = ''low''
                then qe_priority e = ''low'' \<and> (\<forall>x \<in> set xs. qe_priority x \<noteq> ''low'') else xs = [])))
      \<and> view s2 (event_key t u) = None"
    using push drain cap v2 unfolding pushed
    by (intro exI [of _ s1] exI [of _ s2] exI [of _ ?kept]) (simp add: max_events_per_user_def)
  obtain s3 where s3: "put_user_state api cd t u doc s = Some s3" "get_user_state api cd t u s3 = Some doc"
    using user_state_round_trip [OF redis codec] by blast
  have "user_state_put app c u t doc s = (True, s3)"
    by (simp add: user_state_put_def mc_post_def mc_request_def app_def memory_app_def who parse_user_body_def
        str_field_def s3 json_reply_def failed_def status_ok_def)
  moreover have "user_state_get app c u t s3 = (if json_finite (PDict doc) then PDict doc else PDict [], s3)"
    by (simp add: user_state_get_def mc_dict_call_def mc_post_json_def mc_request_def app_def memory_app_def who
        parse_user_body_def str_field_def s3 json_reply_def mc_dict_def del: json_finite.simps)
  ultimately have "\<exists>s1. put_user_state api cd t u doc s = Some s1
      \<and> (if json_finite (PDict doc)
         then user_state_put app c u t doc s = (True, s1) \<and> user_state_get app c u t s1 = (PDict doc, s1)
         else user_state_get app c u t s1 = (PDict [], s1))"
    using s3(1) by (intro exI [of _ s3]) (simp del: json_finite.simps)
  with queue show ?thesis by (rule conjI)
qed

theorem events_over_the_wire_witness:
  "\<exists>s1 s2. event_queue_push (memory_app keyspace_redis plain_codec id None 0)
      \<lparr>mc_service_id = ''a'', mc_service_key = ''k''\<rparr> ''u'' ''t'' ''x'' ''s'' ''high'' [] None (\<lambda>k. None) = (True, s1)
    \<and> event_queue_drain (memory_app keyspace_redis plain_codec id None 0) \<lparr>mc_service_id = ''a'', mc_service_key = ''k''\<rparr> ''u'' ''t'' s1
      = (PList [event_json \<lparr>qe_event_type = ''x'', qe_summary = ''s'', qe_priority = ''high'',
          qe_source_service = [], qe_metadata = [], qe_timestamp = 0\<rparr>], s2)"
proof -
  let ?c = "\<lparr>mc_service_id = ''a'', mc_service_key = ''k''\<rparr>"
  have strips: "str_strip (mc_service_id ?c) \<noteq> []" "str_strip (mc_service_key ?c) \<noteq> []" by code_simp+
  have at: "id (\<lambda>k. None) (event_key ''t'' ''u'') = put_list (map (enc_event plain_codec) [])" by (simp add: put_list_def)
  have len: "length ([] :: queued_event list) \<le> 50" and md: "(None :: pyval option) = None \<and> ([] :: (string \<times> pyval) list) = [] \<or> None = Some (PDict [])"
    and fin: "json_finite (PDict [])" "\<forall>e \<in> set ([] :: queued_event list). json_finite (PDict (qe_metadata e))" by simp_all
  note wire = events_over_the_wire [where digest = id and now = 0 and ty = "''x''" and sm = "''s''" and pr = "''high''" and src = "[]"
      and view = id and s = "\<lambda>k. None" and q = "[]" and m = "[]" and md = None and t = "''t''" and u = "''u''" and c = ?c
      and app = "memory_app keyspace_redis plain_codec id None 0",
      OF keyspace_laws plain_codec_laws at len strips md fin refl]
  show ?thesis using wire [THEN conjunct1] by auto
qed

end
