(* ===== verification/Com_Llm.thy ===== *)
theory Com_Llm
  imports Gw_Complete Mem_Facts
begin

text \<open>
  The clients every agent shares: the exceptions of \<^verbatim>\<open>common/errors.py\<close>, the retry decorator of
  \<^verbatim>\<open>common/retry.py\<close>, and the client of the gateway in \<^verbatim>\<open>common/clients/llm_client.py\<close>, together with
  the gateway's answers as they arrive there.

  The HTTP library is a parameter: a request yields a timeout, a failed connection, another transport error, or a
  status with a body that is absent, not JSON, or a JSON value. A call is a function of the world that returns an
  exception (\<open>Inl\<close>) or a value, and the world after it. Error messages are not modelled.
\<close>

section \<open>Exceptions and HTTP replies\<close>

datatype py_exn =
    AttributeError
  | TypeError
  | ValidationError
  | JSONDecodeError
  | HTTPStatusError
  | TransportError string
  | LLMUnavailableError
  | LLMTimeoutError
  | LLMCreditExhaustedError pyval

text \<open>\<^verbatim>\<open>except LLMUnavailableError\<close> also catches its subclasses.\<close>

fun llm_unavailable :: "py_exn \<Rightarrow> bool" where
  "llm_unavailable LLMUnavailableError \<longleftrightarrow> True"
| "llm_unavailable LLMTimeoutError \<longleftrightarrow> True"
| "llm_unavailable (LLMCreditExhaustedError _) \<longleftrightarrow> True"
| "llm_unavailable _ \<longleftrightarrow> False"

fun exn_name :: "py_exn \<Rightarrow> string" where
  "exn_name AttributeError = ''AttributeError''"
| "exn_name TypeError = ''TypeError''"
| "exn_name ValidationError = ''ValidationError''"
| "exn_name JSONDecodeError = ''JSONDecodeError''"
| "exn_name HTTPStatusError = ''HTTPStatusError''"
| "exn_name (TransportError t) = t"
| "exn_name LLMUnavailableError = ''LLMUnavailableError''"
| "exn_name LLMTimeoutError = ''LLMTimeoutError''"
| "exn_name (LLMCreditExhaustedError _) = ''LLMCreditExhaustedError''"

datatype http_body = NoBody | BadBody | JsonBody pyval

datatype http_result =
    TimedOut
  | NotConnected
  | Broken string
  | Replied nat http_body

text \<open>\<^verbatim>\<open>response.json()\<close>, and \<^verbatim>\<open>value.get(key, default)\<close> on a parsed value.\<close>

definition body_json :: "http_body \<Rightarrow> py_exn + pyval" where
  "body_json b = (case b of JsonBody v \<Rightarrow> Inr v | _ \<Rightarrow> Inl JSONDecodeError)"

definition get_item :: "pyval \<Rightarrow> string \<Rightarrow> pyval \<Rightarrow> py_exn + pyval" where
  "get_item v k other =
     (case v of
        PDict d \<Rightarrow> Inr (dict_get_default d k other)
      | _ \<Rightarrow> Inl AttributeError)"

text \<open>\<^verbatim>\<open>raise_for_status\<close>: everything that is not a 2xx.\<close>

definition is_success :: "nat \<Rightarrow> bool" where
  "is_success status \<longleftrightarrow> 200 \<le> status \<and> status < 300"

section \<open>Retries\<close>

text \<open>
  \<^verbatim>\<open>retry\<close>: the attempts left, the exceptions retried on, and the error of a decorator with no attempts
  (\<^verbatim>\<open>raise None\<close>).
\<close>

fun retry_calls ::
    "('e \<Rightarrow> bool) \<Rightarrow> 'e \<Rightarrow> ('w \<Rightarrow> ('e + 'a) \<times> 'w) \<Rightarrow> nat \<Rightarrow> 'w \<Rightarrow> ('e + 'a) \<times> 'w" where
  "retry_calls caught none call 0 w = (Inl none, w)"
| "retry_calls caught none call (Suc n) w =
     (case call w of
        (Inr x, w') \<Rightarrow> (Inr x, w')
      | (Inl e, w') \<Rightarrow> if \<not> caught e \<or> n = 0 then (Inl e, w') else retry_calls caught none call n w')"

text \<open>The delay before the next attempt; the jitter is a number in [0, 1).\<close>

definition retry_delay :: "real \<Rightarrow> real \<Rightarrow> nat \<Rightarrow> real option \<Rightarrow> real" where
  "retry_delay base_delay max_delay attempt jitter =
     (let delay = min (base_delay * 2 ^ attempt) max_delay
      in case jitter of None \<Rightarrow> delay | Some r \<Rightarrow> delay * (1 / 2 + r))"

section \<open>The gateway client\<close>

record llm_response =
  ll_content :: pyval
  ll_model_used :: pyval
  ll_tier_used :: pyval
  ll_escalated :: pyval
  ll_input_tokens :: pyval
  ll_output_tokens :: pyval
  ll_latency_ms :: pyval
  ll_confidence :: pyval
  ll_tool_calls :: pyval

record client_request =
  lr_messages :: "pyval list"
  lr_task :: string
  lr_confidence_threshold :: real
  lr_structured_output :: "pyval option"
  lr_tools :: "pyval list option"
  lr_max_tokens :: int
  lr_temperature :: real
  lr_tenant_id :: "string option"

definition llm_payload :: "client_request \<Rightarrow> (string \<times> pyval) list" where
  "llm_payload r =
     [(''messages'', PList (lr_messages r)), (''task'', PStr (lr_task r)),
      (''max_tokens'', PInt (lr_max_tokens r)), (''temperature'', PFloat (Fin (lr_temperature r))),
      (''confidence_threshold'', PFloat (Fin (lr_confidence_threshold r)))]
     @ (case lr_structured_output r of None \<Rightarrow> [] | Some s \<Rightarrow> [(''structured_output'', s)])
     @ (case lr_tools r of None \<Rightarrow> [] | Some ts \<Rightarrow> [(''tools'', PList ts)])
     @ (case lr_tenant_id r of None \<Rightarrow> [] | Some t \<Rightarrow> [(''tenant_id'', PStr t)])"

text \<open>The budget error of a 429: \<^verbatim>\<open>response.json() if response.content else {}\<close>.\<close>

definition credit_error :: "http_body \<Rightarrow> py_exn" where
  "credit_error b =
     (case (if b = NoBody then Inr (PDict []) else body_json b) of
        Inl e \<Rightarrow> e
      | Inr v \<Rightarrow>
          (case get_item v ''degradation'' (PDict []) of
             Inl e \<Rightarrow> e
           | Inr degradation \<Rightarrow>
               (case get_item degradation ''estimated_recovery'' PNone of
                  Inl e \<Rightarrow> e
                | Inr recovery \<Rightarrow> LLMCreditExhaustedError recovery)))"

definition response_of :: "pyval \<Rightarrow> py_exn + llm_response" where
  "response_of v =
     (case v of
        PDict d \<Rightarrow> Inr
          \<lparr>ll_content = dict_get_default d ''content'' (PStr []),
           ll_model_used = dict_get_default d ''model_used'' (PStr ''unknown''),
           ll_tier_used = dict_get_default d ''tier_used'' (PStr ''unknown''),
           ll_escalated = dict_get_default d ''escalated'' (PBool False),
           ll_input_tokens = dict_get_default d ''input_tokens'' (PInt 0),
           ll_output_tokens = dict_get_default d ''output_tokens'' (PInt 0),
           ll_latency_ms = dict_get_default d ''latency_ms'' (PFloat (Fin 0)),
           ll_confidence = dict_get_default d ''confidence'' PNone,
           ll_tool_calls = dict_get_default d ''tool_calls'' (PList [])\<rparr>
      | _ \<Rightarrow> Inl AttributeError)"

definition completion_result :: "http_result \<Rightarrow> py_exn + llm_response" where
  "completion_result r =
     (case r of
        TimedOut \<Rightarrow> Inl LLMTimeoutError
      | NotConnected \<Rightarrow> Inl LLMUnavailableError
      | Broken t \<Rightarrow> Inl (TransportError t)
      | Replied status b \<Rightarrow>
          if status = 429 then Inl (credit_error b)
          else if 500 \<le> status then Inl LLMUnavailableError
          else if \<not> is_success status then Inl HTTPStatusError
          else (case body_json b of Inl e \<Rightarrow> Inl e | Inr v \<Rightarrow> response_of v))"

type_synonym 'w post = "(string \<times> pyval) list \<Rightarrow> 'w \<Rightarrow> http_result \<times> 'w"

definition complete_once :: "'w post \<Rightarrow> client_request \<Rightarrow> 'w \<Rightarrow> (py_exn + llm_response) \<times> 'w" where
  "complete_once post r w = (let (reply, w') = post (llm_payload r) w in (completion_result reply, w'))"

definition llm_complete :: "'w post \<Rightarrow> client_request \<Rightarrow> 'w \<Rightarrow> (py_exn + llm_response) \<times> 'w" where
  "llm_complete post r = retry_calls (\<lambda>e. e = LLMTimeoutError) TypeError (complete_once post r) 2"

definition embed_payload :: "string list \<Rightarrow> string option \<Rightarrow> (string \<times> pyval) list" where
  "embed_payload texts tenant_id =
     [(''texts'', PList (map PStr texts))]
     @ (case tenant_id of None \<Rightarrow> [] | Some t \<Rightarrow> [(''tenant_id'', PStr t)])"

definition embed_reply :: "http_result \<Rightarrow> py_exn + pyval" where
  "embed_reply r =
     (case r of
        TimedOut \<Rightarrow> Inl LLMTimeoutError
      | NotConnected \<Rightarrow> Inl LLMUnavailableError
      | Broken t \<Rightarrow> Inl (TransportError t)
      | Replied status b \<Rightarrow>
          if 500 \<le> status then Inl LLMUnavailableError
          else if \<not> is_success status then Inl HTTPStatusError
          else (case body_json b of Inl e \<Rightarrow> Inl e | Inr v \<Rightarrow> get_item v ''embeddings'' (PList [])))"

definition llm_embed :: "'w post \<Rightarrow> string list \<Rightarrow> string option \<Rightarrow> 'w \<Rightarrow> (py_exn + pyval) \<times> 'w" where
  "llm_embed post texts tenant_id w =
     (let (reply, w') = post (embed_payload texts tenant_id) w in (embed_reply reply, w'))"

section \<open>The gateway's answers on the wire\<close>

text \<open>
  FastAPI renders the response model with every field, and an \<^verbatim>\<open>HTTPException\<close> as \<^verbatim>\<open>{"detail": ...}\<close>; an
  unhandled exception is a 500 with a text body. Code points of tool names beyond Latin-1 are folded.
\<close>

definition tool_call_json :: "tool_call \<Rightarrow> pyval" where
  "tool_call_json t =
     PDict [(''id'', PStr (map char_of (tc_id t))), (''type'', PStr (tc_type t)),
       (''function'', PDict [(''name'', PStr (map char_of (tcf_name (tc_function t)))),
                            (''arguments'', PStr (tcf_arguments (tc_function t)))])]"

definition str_json :: "string option \<Rightarrow> pyval" where
  "str_json s = (case s of None \<Rightarrow> PNone | Some t \<Rightarrow> PStr t)"

definition completion_json :: "completion_response \<Rightarrow> (string \<times> pyval) list" where
  "completion_json r =
     [(''content'', str_json (cr_content r)), (''model_used'', PStr (cr_model_used r)),
      (''tier_used'', PStr (cr_tier_used r)), (''escalated'', PBool (cr_escalated r)),
      (''escalation_path'', PList (map PStr (cr_escalation_path r))),
      (''usage'', PDict [(''input_tokens'', PInt (input_tokens (cr_usage r))),
                        (''output_tokens'', PInt (output_tokens (cr_usage r)))]),
      (''latency_ms'', PInt (cr_latency_ms r)), (''confidence'', PFloat (Fin (completion_response.cr_confidence r))),
      (''tool_calls'', (case cr_tool_calls r of None \<Rightarrow> PNone | Some ts \<Rightarrow> PList (map tool_call_json ts))),
      (''cost_usd'', PFloat (Fin (cr_cost_usd r))), (''trace_id'', PStr (cr_trace_id r))]"

definition gateway_reply :: "completion_outcome \<Rightarrow> http_result" where
  "gateway_reply out =
     (case out of
        Completed r \<Rightarrow> Replied 200 (JsonBody (PDict (completion_json r)))
      | BudgetExhausted queue_id level \<Rightarrow> Replied 429 (JsonBody (PDict [(''detail'', PDict
          [(''error'', PStr ''budget_exhausted''), (''message'', PStr ''Daily budget exhausted. Request queued.''),
           (''queue_id'', PStr queue_id), (''degradation_level'', PInt level)])]))
      | LlmBudgetExhausted level \<Rightarrow> Replied 429 (JsonBody (PDict [(''detail'', PDict
          [(''error'', PStr ''llm_budget_exhausted''),
           (''message'', PStr ''LLM budget exhausted. Only deterministic operations available.''),
           (''degradation_level'', PInt level)])]))
      | AllModelsUnavailable \<Rightarrow> Replied 503 (JsonBody (PDict [(''detail'', PStr ''All models unavailable. Please retry.'')]))
      | InternalServerError \<Rightarrow> Replied 500 BadBody)"

section \<open>Properties\<close>

text \<open>
  (retries): with at least one attempt, a decorated call is made at least once and at most as often as
  there are attempts, one after the other; every call but the last failed with an exception the decorator
  retries on, the last one's result is the result, and an exception that is retried on ends the retries only when
  the attempts are used up.
\<close>

theorem retry_chain:
  assumes "retry_calls caught none call n w = (r, w')" and "0 < n"
  shows "\<exists>ws. ws \<noteq> [] \<and> length ws \<le> n \<and> hd ws = w \<and> call (last ws) = (r, w')
      \<and> (\<forall>i. Suc i < length ws \<longrightarrow> (\<exists>e. caught e \<and> call (ws ! i) = (Inl e, ws ! Suc i)))
      \<and> (\<forall>e. r = Inl e \<longrightarrow> caught e \<longrightarrow> length ws = n)"
  using assms
proof (induction n arbitrary: w)
  case (Suc n)
  obtain x w1 where c: "call w = (x, w1)" by (cases "call w")
  show ?case
  proof (cases "\<exists>e. x = Inl e \<and> caught e \<and> n \<noteq> 0")
    case True
    then obtain e where e: "x = Inl e" "caught e" "n \<noteq> 0" by blast
    then have "retry_calls caught none call n w1 = (r, w')" using Suc.prems c by simp
    from Suc.IH [OF this] e(3) obtain ws where ws: "ws \<noteq> []" "length ws \<le> n" "hd ws = w1" "call (last ws) = (r, w')"
      "\<forall>i. Suc i < length ws \<longrightarrow> (\<exists>e. caught e \<and> call (ws ! i) = (Inl e, ws ! Suc i))"
      "\<forall>e. r = Inl e \<longrightarrow> caught e \<longrightarrow> length ws = n"
      by auto
    have "\<exists>e. caught e \<and> call ((w # ws) ! i) = (Inl e, (w # ws) ! Suc i)" if "Suc i < length (w # ws)" for i
      using that c e ws(1,3,5) by (cases i) (auto simp: hd_conv_nth)
    then show ?thesis using ws by (intro exI [of _ "w # ws"]) auto
  next
    case False
    then have "r = x" "w' = w1" using Suc.prems c by (auto split: sum.splits if_splits)
    then show ?thesis using c False by (intro exI [of _ "[w]"]) auto
  qed
qed simp

theorem retry_chain_witness:
  "\<exists>ws. ws \<noteq> [] \<and> hd ws = (0::nat) \<and> last ws = 1"
proof -
  let ?f = "\<lambda>w :: nat. (if w = 0 then Inl True else Inr (), Suc w)"
  have "retry_calls id True ?f 2 0 = (Inr (), 2)" by (simp add: numeral_2_eq_2)
  from retry_chain [OF this] obtain ws where "ws \<noteq> []" "hd ws = 0" "?f (last ws) = (Inr (), 2)" by auto
  then show ?thesis by auto
qed

text \<open>The delay lies between half and one and a half of the capped exponential.\<close>

lemma retry_delay_bounds:
  assumes "0 \<le> base_delay" and "0 \<le> max_delay" and "\<forall>r. jitter = Some r \<longrightarrow> 0 \<le> r \<and> r < 1"
  shows "0 \<le> retry_delay base_delay max_delay n jitter"
    and "retry_delay base_delay max_delay n jitter \<le> 3 / 2 * max_delay"
proof -
  let ?d = "min (base_delay * 2 ^ n) max_delay"
  have d: "0 \<le> ?d" "?d \<le> max_delay" using assms by simp_all
  show "0 \<le> retry_delay base_delay max_delay n jitter"
    using d assms(3) by (auto simp: retry_delay_def Let_def split: option.splits)
  show "retry_delay base_delay max_delay n jitter \<le> 3 / 2 * max_delay"
  proof (cases jitter)
    case None
    then show ?thesis using d assms(2) by (simp add: retry_delay_def Let_def)
  next
    case (Some r)
    then have "?d * (1 / 2 + r) \<le> max_delay * (3 / 2)"
      using d assms by (intro mult_mono) auto
    then show ?thesis using Some by (simp add: retry_delay_def Let_def mult.commute)
  qed
qed

text \<open>
  (the gateway through the client): what an agent receives for each outcome of the gateway's completion
  handler. A completed request gives its content, but the token counts are always 0, since the gateway sends them
  inside \<^verbatim>\<open>usage\<close>, and the tool calls of a plain text answer are None, not an empty list. Both budget
  outcomes raise \<^verbatim>\<open>LLMCreditExhaustedError\<close> without a recovery time, since the gateway puts its details
  under \<^verbatim>\<open>detail\<close>; the two failures raise \<^verbatim>\<open>LLMUnavailableError\<close>. None of them is retried.
\<close>

theorem gateway_through_the_client:
  assumes "post (llm_payload r) w = (gateway_reply out, w')"
  shows "\<exists>res. llm_complete post r w = (res, w') \<and>
    (case out of
       Completed cr \<Rightarrow> (\<exists>resp. res = Inr resp \<and> ll_content resp = str_json (cr_content cr)
           \<and> ll_model_used resp = PStr (cr_model_used cr)
           \<and> ll_input_tokens resp = PInt 0 \<and> ll_output_tokens resp = PInt 0
           \<and> (ll_tool_calls resp = PNone \<longleftrightarrow> cr_tool_calls cr = None)
           \<and> (\<forall>ts. cr_tool_calls cr = Some ts \<longrightarrow> ll_tool_calls resp = PList (map tool_call_json ts)))
     | BudgetExhausted queue_id level \<Rightarrow> res = Inl (LLMCreditExhaustedError PNone)
     | LlmBudgetExhausted level \<Rightarrow> res = Inl (LLMCreditExhaustedError PNone)
     | _ \<Rightarrow> res = Inl LLMUnavailableError)"
proof -
  have "llm_complete post r w = (completion_result (gateway_reply out), w')"
    using assms
    by (cases out)
       (simp_all add: llm_complete_def numeral_2_eq_2 complete_once_def completion_result_def gateway_reply_def
          credit_error_def body_json_def get_item_def dict_get_default_def response_of_def is_success_def)
  then show ?thesis
    by (cases out)
       (auto simp: completion_result_def gateway_reply_def credit_error_def body_json_def get_item_def
          dict_get_default_def response_of_def is_success_def completion_json_def split: option.splits)
qed

theorem gateway_through_the_client_witness:
  "fst (llm_complete (\<lambda>p w. (gateway_reply AllModelsUnavailable, w))
      \<lparr>lr_messages = [], lr_task = ''t'', lr_confidence_threshold = 0, lr_structured_output = None,
       lr_tools = None, lr_max_tokens = 1, lr_temperature = 0, lr_tenant_id = None\<rparr> ()) = Inl LLMUnavailableError"
  using gateway_through_the_client [where post = "\<lambda>p w. (gateway_reply AllModelsUnavailable, w)"
      and out = AllModelsUnavailable and w = "()" and w' = "()"
      and r = "\<lparr>lr_messages = [], lr_task = ''t'', lr_confidence_threshold = 0, lr_structured_output = None,
       lr_tools = None, lr_max_tokens = 1, lr_temperature = 0, lr_tenant_id = None\<rparr>"]
  by auto

end
