(* ===== verification/Com_Auth.thy ===== *)
theory Com_Auth
  imports Com_Llm
begin

text \<open>
  User authentication and authorization: the token validator of \<^verbatim>\<open>common/auth/cognito.py\<close> with its cache of
  signing keys, and the FastAPI dependencies of \<^verbatim>\<open>common/auth/rbac.py\<close>.

  The JOSE library is a parameter: reading the unverified header of a token, and decoding a token under a key (which
  checks signature, expiry, issuer and audience). So is the fetch of the key document. Expiry times and groups of a
  user are not modelled.
\<close>

section \<open>Users\<close>

text \<open>
  The identity the services work with. Two classes have this role: \<^verbatim>\<open>UserContext\<close> of
  \<^verbatim>\<open>compliance-assistant/src/models.py\<close>, and the dataclass of \<^verbatim>\<open>common/auth/cognito.py\<close>, which has no
  attribute \<^verbatim>\<open>name\<close>; reading it there raises \<^verbatim>\<open>AttributeError\<close>.
\<close>

record user_context =
  us_user_id :: string
  us_tenant_id :: string
  us_role :: string
  us_email :: string
  us_jwt_token :: string
  us_name :: "string option"

definition user_name :: "user_context \<Rightarrow> py_exn + string" where
  "user_name u = (case us_name u of None \<Rightarrow> Inl AttributeError | Some n \<Rightarrow> Inr n)"

text \<open>\<^verbatim>\<open>user.name or user.email or user.user_id\<close>\<close>

definition shown_name :: "user_context \<Rightarrow> py_exn + string" where
  "shown_name u =
     (case user_name u of
        Inl e \<Rightarrow> Inl e
      | Inr n \<Rightarrow> Inr (if n \<noteq> [] then n else if us_email u \<noteq> [] then us_email u else us_user_id u))"

section \<open>The token validator\<close>

datatype auth_failure = AuthenticationError | Crashed py_exn

record token_validator =
  tv_jwks_cache :: "(string, pyval) dict option"
  tv_fetched_at :: real

definition new_validator :: token_validator where
  "new_validator = \<lparr>tv_jwks_cache = None, tv_fetched_at = 0\<rparr>"

record 'w jose =
  jo_header :: "string \<Rightarrow> (string \<times> pyval) list option"
  jo_decode :: "string \<Rightarrow> pyval \<Rightarrow> (string \<times> pyval) list option"
  jo_fetch :: "'w \<Rightarrow> http_result \<times> 'w"
  jo_clock :: "'w \<Rightarrow> real"

definition jwks_ttl :: real where
  "jwks_ttl = 3600"

text \<open>
  \<^verbatim>\<open>{k["kid"]: k for k in keys if "kid" in k}\<close>; None is a \<^verbatim>\<open>TypeError\<close>. Keys whose
  \<^verbatim>\<open>kid\<close> is hashable but no string never match a looked-up one and are left out.
\<close>

fun keys_by_kid :: "pyval list \<Rightarrow> (string, pyval) dict \<Rightarrow> (string, pyval) dict option" where
  "keys_by_kid [] acc = Some acc"
| "keys_by_kid (PDict k # ks) acc =
     (case dict_get k ''kid'' of
        None \<Rightarrow> keys_by_kid ks acc
      | Some (PStr i) \<Rightarrow> keys_by_kid ks (dict_set i (PDict k) acc)
      | Some (PList _) \<Rightarrow> None
      | Some (PDict _) \<Rightarrow> None
      | Some _ \<Rightarrow> keys_by_kid ks acc)"
| "keys_by_kid (PStr t # ks) acc = (if str_in ''kid'' t then None else keys_by_kid ks acc)"
| "keys_by_kid (PList vs # ks) acc = (if PStr ''kid'' \<in> set vs then None else keys_by_kid ks acc)"
| "keys_by_kid (_ # ks) acc = None"

definition jwks_of :: "http_result \<Rightarrow> auth_failure + (string, pyval) dict" where
  "jwks_of r =
     (case r of
        Replied status b \<Rightarrow>
          if \<not> is_success status then Inl AuthenticationError
          else (case body_json b of
                  Inl e \<Rightarrow> Inl (Crashed e)
                | Inr v \<Rightarrow>
                    (case get_item v ''keys'' PNone of
                       Inl e \<Rightarrow> Inl (Crashed e)
                     | Inr keys \<Rightarrow>
                         if \<not> py_truthy keys then Inl AuthenticationError
                         else (case Option.bind (py_iter keys) (\<lambda>ks. keys_by_kid ks []) of
                                 None \<Rightarrow> Inl (Crashed TypeError)
                               | Some d \<Rightarrow> Inr d)))
      | _ \<Rightarrow> Inl AuthenticationError)"

definition refresh_jwks ::
    "'w jose \<Rightarrow> token_validator \<Rightarrow> 'w \<Rightarrow> (auth_failure + unit) \<times> token_validator \<times> 'w" where
  "refresh_jwks jo v w =
     (let (r, w') = jo_fetch jo w
      in case jwks_of r of
           Inl e \<Rightarrow> (Inl e, v, w')
         | Inr d \<Rightarrow> (Inr (), \<lparr>tv_jwks_cache = Some d, tv_fetched_at = jo_clock jo w'\<rparr>, w'))"

definition cached_key :: "token_validator \<Rightarrow> string \<Rightarrow> pyval option" where
  "cached_key v kid = (case tv_jwks_cache v of None \<Rightarrow> None | Some d \<Rightarrow> dict_get d kid)"

text \<open>The lookup after the first refresh, which may need a second one.\<close>

definition find_key ::
    "'w jose \<Rightarrow> string \<Rightarrow> token_validator \<Rightarrow> 'w \<Rightarrow> (auth_failure + pyval) \<times> token_validator \<times> 'w" where
  "find_key jo kid v w =
     (case cached_key v kid of
        Some key \<Rightarrow> (Inr key, v, w)
      | None \<Rightarrow>
          (case refresh_jwks jo v w of
             (Inl e, v', w') \<Rightarrow> (Inl e, v', w')
           | (Inr _, v', w') \<Rightarrow>
               (case cached_key v' kid of
                  None \<Rightarrow> (Inl AuthenticationError, v', w')
                | Some key \<Rightarrow> (Inr key, v', w'))))"

definition get_signing_key ::
    "'w jose \<Rightarrow> string \<Rightarrow> token_validator \<Rightarrow> 'w \<Rightarrow> (auth_failure + pyval) \<times> token_validator \<times> 'w" where
  "get_signing_key jo kid v w =
     (if tv_jwks_cache v = None \<or> jwks_ttl < jo_clock jo w - tv_fetched_at v
      then (case refresh_jwks jo v w of
              (Inl e, v', w') \<Rightarrow> (Inl e, v', w')
            | (Inr _, v', w') \<Rightarrow> find_key jo kid v' w')
      else find_key jo kid v w)"

text \<open>A claim that must be a non-empty string; claims are taken to be strings.\<close>

definition claim :: "(string \<times> pyval) list \<Rightarrow> string \<Rightarrow> string option" where
  "claim payload k = (case dict_get payload k of Some (PStr s) \<Rightarrow> if s = [] then None else Some s | _ \<Rightarrow> None)"

definition claim_or :: "(string \<times> pyval) list \<Rightarrow> string \<Rightarrow> string \<Rightarrow> string" where
  "claim_or payload k other = (case dict_get payload k of Some (PStr s) \<Rightarrow> s | _ \<Rightarrow> other)"

definition identity_of :: "string \<Rightarrow> (string \<times> pyval) list \<Rightarrow> auth_failure + user_context" where
  "identity_of token payload =
     (case (claim payload ''sub'', claim payload ''custom:tenant_id'') of
        (Some user_id, Some tenant_id) \<Rightarrow> Inr
          \<lparr>us_user_id = user_id, us_tenant_id = tenant_id, us_role = claim_or payload ''custom:role'' ''contributor'',
           us_email = claim_or payload ''email'' [], us_jwt_token = token, us_name = None\<rparr>
      | _ \<Rightarrow> Inl AuthenticationError)"

definition validate_token ::
    "'w jose \<Rightarrow> string \<Rightarrow> token_validator \<Rightarrow> 'w \<Rightarrow> (auth_failure + user_context) \<times> token_validator \<times> 'w" where
  "validate_token jo token v w =
     (case jo_header jo token of
        None \<Rightarrow> (Inl AuthenticationError, v, w)
      | Some header \<Rightarrow>
          (case claim header ''kid'' of
             None \<Rightarrow> (Inl AuthenticationError, v, w)
           | Some kid \<Rightarrow>
               (case get_signing_key jo kid v w of
                  (Inl e, v', w') \<Rightarrow> (Inl e, v', w')
                | (Inr key, v', w') \<Rightarrow>
                    (case jo_decode jo token key of
                       None \<Rightarrow> (Inl AuthenticationError, v', w')
                     | Some payload \<Rightarrow> (identity_of token payload, v', w')))))"

section \<open>Dependencies\<close>

text \<open>
  \<^verbatim>\<open>get_current_user\<close>: the validator of the application, if it has one, and the bearer token; the left
  value is the status of the refusal.
\<close>

definition get_current_user ::
    "'w jose \<Rightarrow> token_validator option \<Rightarrow> string \<Rightarrow> 'w \<Rightarrow> (nat + user_context) \<times> token_validator option \<times> 'w" where
  "get_current_user jo validator token w =
     (case validator of
        None \<Rightarrow> (Inl 500, None, w)
      | Some v \<Rightarrow>
          (case validate_token jo token v w of
             (Inl AuthenticationError, v', w') \<Rightarrow> (Inl 401, Some v', w')
           | (Inl (Crashed e), v', w') \<Rightarrow> (Inl 500, Some v', w')
           | (Inr user, v', w') \<Rightarrow> (if us_tenant_id user = [] then Inl 403 else Inr user, Some v', w')))"

definition check_role :: "string list \<Rightarrow> user_context \<Rightarrow> nat + user_context" where
  "check_role allowed_roles user = (if us_role user \<notin> set allowed_roles then Inl 403 else Inr user)"

definition unrestricted_roles :: "string list" where
  "unrestricted_roles = [''admin'', ''analyst'', ''auditor'']"

text \<open>The owner is the path parameter, or else the query parameter.\<close>

definition check_scope :: "string option \<Rightarrow> string option \<Rightarrow> user_context \<Rightarrow> nat + user_context" where
  "check_scope path_owner query_owner user =
     (if us_role user \<in> set unrestricted_roles then Inr user
      else (let owner_id = (case path_owner of None \<Rightarrow> query_owner | Some i \<Rightarrow> Some i)
            in if owner_id \<noteq> None \<and> owner_id \<noteq> Some (us_user_id user) then Inl 403 else Inr user))"

section \<open>Properties\<close>

lemma refresh_jwks_ok:
  "refresh_jwks jo v w = (Inr (), v', w') \<Longrightarrow>
     \<exists>r d. jo_fetch jo w = (r, w') \<and> jwks_of r = Inr d \<and> tv_jwks_cache v' = Some d"
  by (auto simp: refresh_jwks_def split: prod.splits sum.splits)

text \<open>Every cache is what some fetch returned.\<close>

definition published :: "'w jose \<Rightarrow> (string, pyval) dict \<Rightarrow> bool" where
  "published jo d \<longleftrightarrow> (\<exists>w r w'. jo_fetch jo w = (r, w') \<and> jwks_of r = Inr d)"

definition validator_ok :: "'w jose \<Rightarrow> token_validator \<Rightarrow> bool" where
  "validator_ok jo v \<longleftrightarrow> (\<forall>d. tv_jwks_cache v = Some d \<longrightarrow> published jo d)"

lemma refresh_jwks_keeps:
  assumes "validator_ok jo v" and "refresh_jwks jo v w = (res, v', w')"
  shows "validator_ok jo v'"
  using assms
  by (auto simp: refresh_jwks_def validator_ok_def published_def split: prod.splits sum.splits) blast

lemma find_key_ok:
  assumes "validator_ok jo v" and "find_key jo kid v w = (res, v', w')"
  shows "validator_ok jo v' \<and> (\<forall>key. res = Inr key \<longrightarrow> cached_key v' kid = Some key)"
  using assms refresh_jwks_keeps [OF assms(1), of w]
  by (auto simp: find_key_def split: option.splits prod.splits sum.splits)

lemma get_signing_key_ok:
  assumes "validator_ok jo v" and "get_signing_key jo kid v w = (res, v', w')"
  shows "validator_ok jo v' \<and> (\<forall>key. res = Inr key \<longrightarrow> cached_key v' kid = Some key)"
proof -
  obtain r v1 w1 where r: "refresh_jwks jo v w = (r, v1, w1)" by (metis prod_cases3)
  have "validator_ok jo v1" by (rule refresh_jwks_keeps [OF assms(1) r])
  then show ?thesis
    using assms r find_key_ok by (fastforce simp: get_signing_key_def split: if_splits sum.splits)
qed

text \<open>
  C16 (tokens are checked against published keys): whatever the validator's past, a token is accepted only if it
  names a key that the issuer's document holds, decodes under that key, and carries a subject and a tenant; the user
  is made of its claims, the role being \<^verbatim>\<open>contributor\<close> when the claim is missing, and has no name. What the
  validator keeps is always a document the issuer returned.
\<close>

theorem tokens_checked_against_published_keys:
  assumes "validator_ok jo v" and "validate_token jo token v w = (res, v', w')"
  shows "validator_ok jo v' \<and>
    (\<forall>user. res = Inr user \<longrightarrow>
      (\<exists>header kid d key payload. jo_header jo token = Some header \<and> claim header ''kid'' = Some kid
        \<and> published jo d \<and> dict_get d kid = Some key \<and> jo_decode jo token key = Some payload
        \<and> claim payload ''sub'' = Some (us_user_id user) \<and> claim payload ''custom:tenant_id'' = Some (us_tenant_id user)
        \<and> us_role user = claim_or payload ''custom:role'' ''contributor''
        \<and> us_jwt_token user = token \<and> us_name user = None))"
proof (cases "\<exists>header kid. jo_header jo token = Some header \<and> claim header ''kid'' = Some kid")
  case False
  then show ?thesis using assms by (auto simp: validate_token_def split: option.splits)
next
  case True
  then obtain header kid where h: "jo_header jo token = Some header" "claim header ''kid'' = Some kid" by blast
  obtain r v1 w1 where g: "get_signing_key jo kid v w = (r, v1, w1)" by (metis prod_cases3)
  have ok: "validator_ok jo v1" and key: "\<forall>key. r = Inr key \<longrightarrow> cached_key v1 kid = Some key"
    using get_signing_key_ok [OF assms(1) g] by auto
  have v': "v' = v1" using assms(2) h g by (auto simp: validate_token_def split: sum.splits option.splits)
  have "\<exists>d key payload. published jo d \<and> dict_get d kid = Some key \<and> jo_decode jo token key = Some payload
      \<and> identity_of token payload = Inr user" if "res = Inr user" for user
  proof -
    from that assms(2) h g obtain k payload where k: "r = Inr k" "jo_decode jo token k = Some payload"
      "identity_of token payload = Inr user"
      by (auto simp: validate_token_def split: sum.splits option.splits)
    then obtain d where "tv_jwks_cache v1 = Some d" "dict_get d kid = Some k"
      using key by (auto simp: cached_key_def split: option.splits)
    then show ?thesis using ok k by (auto simp: validator_ok_def)
  qed
  then show ?thesis using ok v' h by (fastforce simp: identity_of_def split: option.splits)
qed

definition sample_jose :: "nat jose" where
  "sample_jose = \<lparr>jo_header = (\<lambda>t. Some [(''kid'', PStr ''k1'')]),
     jo_decode = (\<lambda>t k. Some [(''sub'', PStr ''u''), (''custom:tenant_id'', PStr ''t'')]),
     jo_fetch = (\<lambda>w. (Replied 200 (JsonBody (PDict [(''keys'', PList [PDict [(''kid'', PStr ''k1'')]])])), Suc w)),
     jo_clock = real\<rparr>"

lemma sample_jose_validates:
  "validate_token sample_jose ''x'' new_validator 0 =
     (Inr \<lparr>us_user_id = ''u'', us_tenant_id = ''t'', us_role = ''contributor'', us_email = [], us_jwt_token = ''x'',
           us_name = None\<rparr>, \<lparr>tv_jwks_cache = Some [(''k1'', PDict [(''kid'', PStr ''k1'')])], tv_fetched_at = 1\<rparr>, 1)"
  by (simp add: validate_token_def sample_jose_def new_validator_def get_signing_key_def refresh_jwks_def jwks_of_def
      is_success_def body_json_def get_item_def dict_get_default_def py_truthy_def find_key_def cached_key_def claim_def
      identity_of_def claim_or_def)

theorem tokens_checked_against_published_keys_witness:
  "\<exists>d key. published sample_jose d \<and> dict_get d ''k1'' = Some key"
proof -
  have "validator_ok sample_jose new_validator" by (simp add: validator_ok_def new_validator_def)
  from tokens_checked_against_published_keys [OF this sample_jose_validates]
  obtain header kid d key where "jo_header sample_jose ''x'' = Some header" "claim header ''kid'' = Some kid"
    "published sample_jose d" "dict_get d kid = Some key" by auto
  moreover from this have "kid = ''k1''" by (simp add: sample_jose_def claim_def) auto
  ultimately show ?thesis by blast
qed

text \<open>A cached, unexpired key needs no fetch.\<close>

lemma cached_key_needs_no_fetch:
  assumes "cached_key v kid = Some key" and "jo_clock jo w - tv_fetched_at v \<le> jwks_ttl"
  shows "get_signing_key jo kid v w = (Inr key, v, w)"
  using assms by (auto simp: get_signing_key_def find_key_def cached_key_def split: option.splits)

text \<open>
  (who passes the scope check): a request with an owner passes exactly for administrators, analysts and
  auditors, and for the owner; one that names no owner passes for every role. The path parameter wins over the
  query parameter.
\<close>

theorem scope_check_exact:
  "(\<exists>u. check_scope path_owner query_owner user = Inr u) \<longleftrightarrow>
     us_role user \<in> {''admin'', ''analyst'', ''auditor''}
     \<or> (case (path_owner, query_owner) of
          (Some i, _) \<Rightarrow> i = us_user_id user
        | (None, Some i) \<Rightarrow> i = us_user_id user
        | (None, None) \<Rightarrow> True)"
  by (auto simp: check_scope_def unrestricted_roles_def Let_def split: option.splits)

end
