(* ===== verification/As_Mcp.thy ===== *)
theory As_Mcp
  imports Com_Auth Ev_Rules
begin

text \<open>
  The compliance assistant's way to its tools: the MCP client (\<^verbatim>\<open>compliance-assistant/src/mcp/client.py\<close>), the
  confirmed re-call of a tool (\<^verbatim>\<open>mcp/confirmation.py\<close>), and the data-only mode that answers by keywords when
  no model is available (\<^verbatim>\<open>agent/data_only_mode.py\<close>).

  The MCP server is a parameter: a POST of a JSON body to a path, with headers. \<^verbatim>\<open>str(v)\<close> of a value that is no
  string is the parameter \<open>render\<close>. Latencies and log lines are not modelled.
\<close>

section \<open>Text\<close>

definition py_str :: "(pyval \<Rightarrow> string) \<Rightarrow> pyval \<Rightarrow> string" where
  "py_str render v = (case v of PStr s \<Rightarrow> s | _ \<Rightarrow> render v)"

definition nat_str :: "nat \<Rightarrow> string" where
  "nat_str n = map char_of (nat_text n)"

definition newline :: string where
  "newline = [CHR 0x0A]"

definition str_replace_char :: "char \<Rightarrow> char \<Rightarrow> string \<Rightarrow> string" where
  "str_replace_char a b s = map (\<lambda>c. if c = a then b else c) s"

text \<open>\<^verbatim>\<open>s.title()\<close>; the three letters whose title case lies beyond Latin-1 are left alone.\<close>

definition char_upper :: "char \<Rightarrow> char" where
  "char_upper c =
     (let n = of_char c :: nat
      in if (97 \<le> n \<and> n \<le> 122) \<or> (224 \<le> n \<and> n \<le> 254 \<and> n \<noteq> 247) then char_of (n - 32) else c)"

definition is_cased :: "char \<Rightarrow> bool" where
  "is_cased c \<longleftrightarrow> char_upper c \<noteq> c \<or> char_lower c \<noteq> c \<or> (of_char c :: nat) \<in> {170, 181, 186, 223, 255}"

fun title_from :: "bool \<Rightarrow> string \<Rightarrow> string" where
  "title_from inside [] = []"
| "title_from inside (c # cs) = (if inside then char_lower c else char_upper c) # title_from (is_cased c) cs"

definition str_title :: "string \<Rightarrow> string" where
  "str_title s = title_from False s"

section \<open>The MCP client\<close>

type_synonym 'w mcp = "string \<Rightarrow> (string, string) dict \<Rightarrow> (string \<times> pyval) list \<Rightarrow> 'w \<Rightarrow> http_result \<times> 'w"

definition auth_headers :: "string \<Rightarrow> (string, string) dict" where
  "auth_headers jwt_token = (if jwt_token = [] then [] else [(''Authorization'', ''Bearer '' @ jwt_token)])"

definition tools_of :: "http_result \<Rightarrow> pyval list" where
  "tools_of r =
     (case r of
        Replied status b \<Rightarrow>
          if 400 \<le> status then []
          else (case body_json b of
                  Inl e \<Rightarrow> []
                | Inr v \<Rightarrow>
                    (case (case v of PDict d \<Rightarrow> dict_get_default d ''tools'' v | _ \<Rightarrow> v) of PList ts \<Rightarrow> ts | _ \<Rightarrow> []))
      | _ \<Rightarrow> [])"

definition mcp_list_tools :: "'w mcp \<Rightarrow> string \<Rightarrow> 'w \<Rightarrow> pyval list \<times> 'w" where
  "mcp_list_tools mcp jwt_token w =
     (let (r, w') = mcp ''/tools/list'' (auth_headers jwt_token) [] w in (tools_of r, w'))"

type_synonym tool_result = "(string \<times> pyval) list"

definition tool_error :: "string \<Rightarrow> tool_result" where
  "tool_error message = [(''status'', PStr ''error''), (''message'', PStr message)]"

definition call_payload :: "pyval \<Rightarrow> pyval \<Rightarrow> bool \<Rightarrow> (string \<times> pyval) list" where
  "call_payload tool_name params confirmed =
     [(''name'', tool_name), (''arguments'', params)] @ (if confirmed then [(''confirmed'', PBool True)] else [])"

definition tool_failed :: "string \<Rightarrow> tool_result" where
  "tool_failed exn = tool_error (''Tool execution failed: '' @ exn)"

definition tool_result_of ::
    "(pyval \<Rightarrow> string) \<Rightarrow> string \<Rightarrow> pyval \<Rightarrow> pyval \<Rightarrow> http_result \<Rightarrow> tool_result" where
  "tool_result_of render timeout tool_name params r =
     (case r of
        TimedOut \<Rightarrow> tool_error (''Tool '' @ py_str render tool_name @ '' timed out after '' @ timeout @ ''s.'')
      | NotConnected \<Rightarrow> tool_failed ''ConnectError''
      | Broken t \<Rightarrow> tool_failed t
      | Replied status b \<Rightarrow>
          if status = 401 then tool_error ''Session expired. Please log in again.''
          else if status = 403 then tool_error ''You don't have permission to perform this action.''
          else if 500 \<le> status then tool_error (''Tool execution failed (server error '' @ nat_str status @ '').'')
          else (case body_json b of
                  Inl e \<Rightarrow> tool_failed (exn_name e)
                | Inr (PDict d) \<Rightarrow>
                    if dict_get d ''status'' = Some (PStr ''confirmation_required'')
                    then [(''status'', PStr ''confirmation_required''),
                          (''summary'', dict_get_default d ''summary''
                             (PStr (''Confirm execution of '' @ py_str render tool_name))),
                          (''tool_name'', tool_name), (''params'', params)]
                    else [(''status'', PStr ''success''),
                          (''data'', dict_get_default d ''content''
                             (dict_get_default d ''result'' (dict_get_default d ''data'' (PDict d))))]
                | Inr _ \<Rightarrow> tool_failed (exn_name AttributeError)))"

definition mcp_call_tool ::
    "(pyval \<Rightarrow> string) \<Rightarrow> string \<Rightarrow> 'w mcp \<Rightarrow> pyval \<Rightarrow> pyval \<Rightarrow> string \<Rightarrow> bool \<Rightarrow> 'w \<Rightarrow> tool_result \<times> 'w" where
  "mcp_call_tool render timeout mcp tool_name params jwt_token confirmed w =
     (let (r, w') = mcp ''/tools/call'' (auth_headers jwt_token) (call_payload tool_name params confirmed) w
      in (tool_result_of render timeout tool_name params r, w'))"

definition mcp_read_resource :: "'w mcp \<Rightarrow> string \<Rightarrow> string \<Rightarrow> 'w \<Rightarrow> pyval \<times> 'w" where
  "mcp_read_resource mcp uri jwt_token w =
     (let (r, w') = mcp ''/resources/read'' (auth_headers jwt_token) [(''uri'', PStr uri)] w
      in (case r of
            Replied status b \<Rightarrow>
              if 400 \<le> status then PDict []
              else (case body_json b of
                      Inr (PDict d) \<Rightarrow> dict_get_default d ''contents'' (PDict d)
                    | _ \<Rightarrow> PDict [])
          | _ \<Rightarrow> PDict [], w'))"

text \<open>\<^verbatim>\<open>messages[0].get("content", {}).get("text", "")\<close>; whatever raises gives the empty text.\<close>

definition prompt_text :: "(string \<times> pyval) list \<Rightarrow> pyval" where
  "prompt_text d =
     (let messages = dict_get_default d ''messages'' (PList [])
      in if py_truthy messages
         then (case messages of
                 PList (m # _) \<Rightarrow>
                   (case get_item m ''content'' (PDict []) of
                      Inl e \<Rightarrow> PStr []
                    | Inr c \<Rightarrow> (case get_item c ''text'' (PStr []) of Inl e \<Rightarrow> PStr [] | Inr t \<Rightarrow> t))
               | _ \<Rightarrow> PStr [])
         else dict_get_default d ''text'' (dict_get_default d ''content'' (PStr [])))"

definition mcp_get_prompt ::
    "'w mcp \<Rightarrow> string \<Rightarrow> (string \<times> pyval) list option \<Rightarrow> string \<Rightarrow> 'w \<Rightarrow> pyval \<times> 'w" where
  "mcp_get_prompt mcp prompt_name params jwt_token w =
     (let payload = [(''name'', PStr prompt_name)]
            @ (case params of None \<Rightarrow> [] | Some ps \<Rightarrow> if ps = [] then [] else [(''arguments'', PDict ps)]);
          (r, w') = mcp ''/prompts/get'' (auth_headers jwt_token) payload w
      in (case r of
            Replied status b \<Rightarrow>
              if 400 \<le> status then PStr []
              else (case body_json b of Inr (PDict d) \<Rightarrow> prompt_text d | _ \<Rightarrow> PStr [])
          | _ \<Rightarrow> PStr [], w'))"

section \<open>Confirmation\<close>

definition execute_confirmed ::
    "(pyval \<Rightarrow> string) \<Rightarrow> string \<Rightarrow> 'w mcp \<Rightarrow> pyval \<Rightarrow> pyval \<Rightarrow> string \<Rightarrow> 'w \<Rightarrow> tool_result \<times> 'w" where
  "execute_confirmed render timeout mcp tool_name params jwt_token w =
     mcp_call_tool render timeout mcp tool_name params jwt_token True w"

definition format_confirmation_prompt :: "string \<Rightarrow> string \<Rightarrow> string" where
  "format_confirmation_prompt summary tool_name =
     summary @ newline @ newline @ ''This action ('' @ tool_name @ '') requires your confirmation. ''
     @ ''Reply /confirm to proceed or /cancel to abort.''"

section \<open>Data-only mode\<close>

record keyword_intent =
  ki_tool_name :: string
  ki_params :: "(string \<times> pyval) list"
  ki_description :: string

definition keyword_intents :: "(string \<times> keyword_intent) list" where
  "keyword_intents =
     map (\<lambda>(k, tool, params, desc). (k, \<lparr>ki_tool_name = tool, ki_params = params, ki_description = desc\<rparr>))
      [(''status'', ''evidence.check_coverage'', [(''framework_id'', PStr ''all'')], ''Show compliance readiness and control status''),
       (''readiness'', ''evidence.check_coverage'', [(''framework_id'', PStr ''all'')], ''Show compliance readiness percentage''),
       (''tasks'', ''memory.task_list'', [(''status'', PStr ''open'')], ''View open tasks and deadlines''),
       (''overdue'', ''escalation.check_overdue'', [(''framework_id'', PStr ''all'')], ''See overdue items''),
       (''evidence'', ''evidence.check_coverage'', [], ''Check evidence coverage''),
       (''upload'', ''evidence.upload_url'', [], ''Get evidence upload link''),
       (''risks'', ''risk.list'', [], ''View risk register''),
       (''risk'', ''risk.list'', [], ''View risk register''),
       (''audit'', ''audit.get_readiness'', [], ''Check audit timeline and readiness score''),
       (''team'', ''users.list'', [], ''View team workload''),
       (''remind'', ''escalation.check_overdue'', [], ''Show overdue items to send reminders''),
       (''reminder'', ''escalation.check_overdue'', [], ''Show overdue items to send reminders''),
       (''deadline'', ''escalation.check_overdue'', [], ''Show items approaching deadline''),
       (''controls'', ''evidence.check_coverage'', [(''framework_id'', PStr ''all'')], ''Show control status''),
       (''gaps'', ''evidence.check_coverage'', [(''show_gaps'', PBool True)], ''Show evidence gaps''),
       (''timeline'', ''audit.get_readiness'', [], ''Show audit timeline'')]"

definition keyword_score :: "string \<Rightarrow> string \<Rightarrow> nat" where
  "keyword_score msg keyword = length (re_findall (re_whole_word keyword) msg) * length keyword"

fun best_keyword :: "string \<Rightarrow> (string \<times> keyword_intent) list \<Rightarrow> nat \<Rightarrow> keyword_intent option \<Rightarrow> keyword_intent option" where
  "best_keyword msg [] best_score best = best"
| "best_keyword msg ((k, intent) # ks) best_score best =
     (let score = keyword_score msg k
      in if best_score < score then best_keyword msg ks score (Some intent)
         else best_keyword msg ks best_score best)"

definition match_keyword_intent :: "string \<Rightarrow> keyword_intent option" where
  "match_keyword_intent message =
     (let msg = str_strip (str_lower message)
      in case dict_get keyword_intents msg of
           Some intent \<Rightarrow> Some intent
         | None \<Rightarrow> best_keyword msg keyword_intents 0 None)"

text \<open>\<^verbatim>\<open>_format_data_response\<close>, whose parts are the lines of the answer.\<close>

definition item_line :: "(pyval \<Rightarrow> string) \<Rightarrow> pyval \<Rightarrow> string" where
  "item_line render item =
     (case item of
        PDict d \<Rightarrow>
          (let summary = dict_get_default d ''title'' (dict_get_default d ''name''
                 (dict_get_default d ''id'' (PStr (py_str render item))));
               status = dict_get_default d ''status'' (PStr [])
           in ''- '' @ py_str render summary @ '' ''
              @ (if py_truthy status then ''('' @ py_str render status @ '')'' else []))
      | _ \<Rightarrow> ''- '' @ py_str render item)"

definition field_lines :: "(pyval \<Rightarrow> string) \<Rightarrow> (string \<times> pyval) list \<Rightarrow> string list" where
  "field_lines render d =
     map (\<lambda>(k, v). ''- '' @ str_title (str_replace_char (CHR ''_'') (CHR '' '') k) @ '': '' @ py_str render v)
       (filter (\<lambda>(k, v). \<not> str_startswith k ''_'') d)"

definition format_data_response :: "(pyval \<Rightarrow> string) \<Rightarrow> pyval \<Rightarrow> string \<Rightarrow> pyval \<Rightarrow> string" where
  "format_data_response render v description recovery =
     str_join newline
       ([''**'' @ description @ ''**'', []]
        @ (case v of
             PDict d \<Rightarrow> field_lines render d
           | PList items \<Rightarrow> map (item_line render) (take 20 items)
           | _ \<Rightarrow> [py_str render v])
        @ [[], ''---'',
           ''Note: I'm in data-only mode (AI analysis budget reached). Type STATUS, TASKS, OVERDUE, EVIDENCE, RISKS, or AUDIT for quick info.'']
        @ (if py_truthy recovery then [''Full capabilities resume: '' @ py_str render recovery] else []))"

definition build_data_only_menu :: "(pyval \<Rightarrow> string) \<Rightarrow> pyval \<Rightarrow> string" where
  "build_data_only_menu render recovery =
     str_join newline
       ([''I'm currently in data-only mode - our AI analysis budget has been reached for this billing period. Here's what I can still help with:'',
         [],
         ''STATUS    - Show your compliance readiness and control status'',
         ''TASKS     - View your open tasks and deadlines'',
         ''EVIDENCE  - Check evidence coverage, get upload links'',
         ''OVERDUE   - See overdue items, send reminders'',
         ''RISKS     - View risk register'',
         ''AUDIT     - Check audit timeline and readiness score'',
         ''TEAM      - View team workload'',
         [],
         ''Type one of these keywords or ask me a specific status question.'',
         [],
         ''Full AI capabilities (guidance, policy drafting, evaluations) are queued and will resume when the budget resets.'']
        @ (if py_truthy recovery then [''Estimated resumption: '' @ py_str render recovery] else []))"

text \<open>The text of an answer to the intent's tool call.\<close>

definition data_only_answer :: "(pyval \<Rightarrow> string) \<Rightarrow> pyval \<Rightarrow> keyword_intent \<Rightarrow> tool_result \<Rightarrow> string" where
  "data_only_answer render recovery intent result =
     (if dict_get result ''status'' = Some (PStr ''error'')
      then ''I tried to fetch '' @ str_lower (ki_description intent) @ '', but the request failed: ''
           @ py_str render (dict_get_default result ''message'' (PStr ''unknown error'')) @ ''.'' @ newline @ newline
           @ ''Please try again or contact support if this persists.''
      else format_data_response render
             (dict_get_default result ''data'' (dict_get_default result ''result'' (PDict result)))
             (ki_description intent) recovery)"

section \<open>Properties\<close>

text \<open>
  (statuses of a tool call): a call asks for confirmation exactly when the server answers below 500, other than
  401 and 403, with a JSON object whose status says so; and it is reported as a success for every other JSON object with
  such a status, also when that status is an error: a 404 or a 422 is a success for the assistant.
\<close>

theorem tool_status_exact:
  "(dict_get (tool_result_of render timeout tool_name params r) ''status'' = Some (PStr ''confirmation_required'') \<longleftrightarrow>
     (\<exists>status d. r = Replied status (JsonBody (PDict d)) \<and> status < 500 \<and> status \<notin> {401, 403}
        \<and> dict_get d ''status'' = Some (PStr ''confirmation_required'')))
   \<and> (dict_get (tool_result_of render timeout tool_name params r) ''status'' = Some (PStr ''success'') \<longleftrightarrow>
     (\<exists>status d. r = Replied status (JsonBody (PDict d)) \<and> status < 500 \<and> status \<notin> {401, 403}
        \<and> dict_get d ''status'' \<noteq> Some (PStr ''confirmation_required'')))"
  by (cases r;
      force simp: tool_result_of_def tool_error_def tool_failed_def body_json_def split: http_body.splits pyval.splits)

lemma tool_statuses:
  "dict_get (tool_result_of render timeout tool_name params r) ''status''
     \<in> {Some (PStr ''success''), Some (PStr ''error''), Some (PStr ''confirmation_required'')}"
  by (auto simp: tool_result_of_def tool_error_def tool_failed_def body_json_def
      split: http_result.splits http_body.splits pyval.splits)

text \<open>The choice by score: the first keyword of the largest score, if that is positive.\<close>

lemma best_keyword_cases:
  "best_keyword msg ks b best =
     (case best_keyword msg ks b None of None \<Rightarrow> best | Some i \<Rightarrow> Some i)"
proof (induction ks arbitrary: b best)
  case (Cons x ks)
  obtain k i where x: "x = (k, i)" by (cases x)
  show ?case
  proof (cases "b < keyword_score msg k")
    case True
    have "best_keyword msg ks (keyword_score msg k) (Some i) \<noteq> None"
      using Cons.IH [of "keyword_score msg k" "Some i"] by (simp split: option.splits)
    then show ?thesis using True by (auto simp: x Let_def split: option.splits)
  next
    case False
    then show ?thesis using Cons.IH [of b best] by (simp add: x Let_def)
  qed
qed simp

lemma best_keyword_None:
  "best_keyword msg ks b None = None \<longleftrightarrow> (\<forall>(k, i) \<in> set ks. keyword_score msg k \<le> b)"
proof (induction ks arbitrary: b)
  case (Cons x ks)
  obtain k i where x: "x = (k, i)" by (cases x)
  have "best_keyword msg ks c (Some i) \<noteq> None" for c
    using best_keyword_cases [of msg ks c "Some i"] by (simp split: option.splits)
  then show ?case using Cons.IH by (auto simp: x Let_def)
qed simp

lemma best_keyword_Some:
  assumes "best_keyword msg ks b None = Some i"
  shows "\<exists>pre k post. ks = pre @ (k, i) # post \<and> b < keyword_score msg k
      \<and> (\<forall>(k', i') \<in> set pre. keyword_score msg k' < keyword_score msg k)
      \<and> (\<forall>(k', i') \<in> set post. keyword_score msg k' \<le> keyword_score msg k)"
  using assms
proof (induction ks arbitrary: b)
  case (Cons x ks)
  obtain k j where x: "x = (k, j)" by (cases x)
  show ?case
  proof (cases "b < keyword_score msg k")
    case False
    then obtain pre k1 post where "ks = pre @ (k1, i) # post" "b < keyword_score msg k1"
      "\<forall>(k', i') \<in> set pre. keyword_score msg k' < keyword_score msg k1"
      "\<forall>(k', i') \<in> set post. keyword_score msg k' \<le> keyword_score msg k1"
      using Cons.IH [of b] Cons.prems x by (auto simp: Let_def)
    then show ?thesis using False x
      by (intro exI [of _ "x # pre"] exI [of _ k1] exI [of _ post]) auto
  next
    case True
    then have best: "best_keyword msg ks (keyword_score msg k) (Some j) = Some i"
      using Cons.prems x by (simp add: Let_def)
    show ?thesis
    proof (cases "best_keyword msg ks (keyword_score msg k) None")
      case None
      then have "i = j" using best best_keyword_cases [of msg ks "keyword_score msg k" "Some j"] by simp
      then show ?thesis using None True x
        by (intro exI [of _ "[]"] exI [of _ k] exI [of _ ks]) (simp add: best_keyword_None)
    next
      case (Some i1)
      then have "i1 = i" using best best_keyword_cases [of msg ks "keyword_score msg k" "Some j"] by simp
      then obtain pre k1 post where "ks = pre @ (k1, i) # post" "keyword_score msg k < keyword_score msg k1"
        "\<forall>(k', i') \<in> set pre. keyword_score msg k' < keyword_score msg k1"
        "\<forall>(k', i') \<in> set post. keyword_score msg k' \<le> keyword_score msg k1"
        using Cons.IH [of "keyword_score msg k"] Some by auto
      then show ?thesis using True x
        by (intro exI [of _ "x # pre"] exI [of _ k1] exI [of _ post]) auto
    qed
  qed
qed simp

lemma findall_Nil_iff: "re_findall r s = [] \<longleftrightarrow> s = [] \<or> \<not> re_search r s"
  by (cases s) (auto simp: re_findall_def re_search_def split: option.splits)

lemma keyword_score_pos:
  assumes "k \<noteq> []"
  shows "0 < keyword_score msg k \<longleftrightarrow> whole_word_in k msg"
  using assms by (auto simp: keyword_score_def findall_Nil_iff whole_word_search whole_word_in_def)

lemma keywords_not_empty: "list_all (\<lambda>(k, i). k \<noteq> []) keyword_intents"
  by (simp add: keyword_intents_def)

lemma keyword_in_text:
  assumes "(k, i) \<in> set keyword_intents"
  shows "0 < keyword_score msg k \<longleftrightarrow> whole_word_in k msg"
  using assms keywords_not_empty by (auto simp: list_all_iff intro!: keyword_score_pos)

text \<open>
  (keyword intents): without a model, a message that is a keyword once it is stripped and lowercased gets that
  keyword's intent. Any other message is answered by the intent of the first keyword whose whole-word occurrences in it
  cover the most characters, and by the menu exactly when no keyword occurs in it as a whole word.
\<close>

theorem keyword_intent_exact:
  "case dict_get keyword_intents (str_strip (str_lower message)) of
     Some i \<Rightarrow> match_keyword_intent message = Some i
   | None \<Rightarrow>
       (case match_keyword_intent message of
          None \<Rightarrow> \<forall>(k, i) \<in> set keyword_intents. \<not> whole_word_in k (str_strip (str_lower message))
        | Some i \<Rightarrow> \<exists>pre k post. keyword_intents = pre @ (k, i) # post
            \<and> whole_word_in k (str_strip (str_lower message))
            \<and> (\<forall>(k', i') \<in> set pre.
                 keyword_score (str_strip (str_lower message)) k' < keyword_score (str_strip (str_lower message)) k)
            \<and> (\<forall>(k', i') \<in> set post.
                 keyword_score (str_strip (str_lower message)) k' \<le> keyword_score (str_strip (str_lower message)) k))"
proof -
  let ?m = "str_strip (str_lower message)"
  show ?thesis
  proof (cases "dict_get keyword_intents ?m")
    case (Some j)
    then show ?thesis by (simp add: match_keyword_intent_def)
  next
    case no_keyword: None
    then have scored: "match_keyword_intent message = best_keyword ?m keyword_intents 0 None"
      by (simp add: match_keyword_intent_def)
    show ?thesis
    proof (cases "match_keyword_intent message")
      case None
      then have "\<forall>(k, i) \<in> set keyword_intents. keyword_score ?m k \<le> 0" by (simp add: scored best_keyword_None)
      then have "\<not> whole_word_in k ?m" if "(k, i) \<in> set keyword_intents" for k i
        using that keyword_in_text [OF that, of ?m] by auto
      then have "\<forall>(k, i) \<in> set keyword_intents. \<not> whole_word_in k ?m" by blast
      then show ?thesis using None no_keyword by simp
    next
      case (Some i)
      then obtain pre k post where p: "keyword_intents = pre @ (k, i) # post" "0 < keyword_score ?m k"
        "\<forall>(k', i') \<in> set pre. keyword_score ?m k' < keyword_score ?m k"
        "\<forall>(k', i') \<in> set post. keyword_score ?m k' \<le> keyword_score ?m k"
        using best_keyword_Some [of ?m keyword_intents 0 i] by (auto simp: scored)
      have "(k, i) \<in> set keyword_intents" by (simp add: p(1))
      then have "whole_word_in k ?m" using p(2) keyword_in_text by blast
      then have "\<exists>pre k post. keyword_intents = pre @ (k, i) # post \<and> whole_word_in k ?m
          \<and> (\<forall>(k', i') \<in> set pre. keyword_score ?m k' < keyword_score ?m k)
          \<and> (\<forall>(k', i') \<in> set post. keyword_score ?m k' \<le> keyword_score ?m k)"
        using p by blast
      then show ?thesis using Some no_keyword by simp
    qed
  qed
qed

end
