(* ===== verification/As_Models.thy ===== *)
theory As_Models
  imports As_Mcp Mem_Routes
begin

text \<open>
  What the compliance assistant's components share: the session and the answers of
  \<^verbatim>\<open>compliance-assistant/src/models.py\<close>, the settings of \<^verbatim>\<open>config.py\<close>, the personas of
  \<^verbatim>\<open>agent/personas.py\<close>, and the state of the assistant's process.

  An operation takes the state and returns an exception or a value, and the state after it: what was done before an
  exception stays done. The outside world (\<open>pr_world\<close>) is of any type; the memory service, the MCP server, the
  gateway, fresh identifiers, the date, \<^verbatim>\<open>json.loads\<close>, \<^verbatim>\<open>str\<close> of a value that is no string and pydantic's
  reading of a stored document are parameters, collected in \<open>env\<close>.
\<close>

section \<open>Operations\<close>

type_synonym ('s, 'a) op = "'s \<Rightarrow> (py_exn + 'a) \<times> 's"

definition py_return :: "'a \<Rightarrow> ('s, 'a) op" where
  "py_return x s = (Inr x, s)"

definition py_raise :: "py_exn \<Rightarrow> ('s, 'a) op" where
  "py_raise e s = (Inl e, s)"

definition py_then :: "('s, 'a) op \<Rightarrow> ('a \<Rightarrow> ('s, 'b) op) \<Rightarrow> ('s, 'b) op" where
  "py_then m f s = (case m s of (Inl e, s') \<Rightarrow> (Inl e, s') | (Inr x, s') \<Rightarrow> f x s')"

definition py_catch :: "('s, 'a) op \<Rightarrow> (py_exn \<Rightarrow> ('s, 'a) op) \<Rightarrow> ('s, 'a) op" where
  "py_catch m h s = (case m s of (Inl e, s') \<Rightarrow> h e s' | (Inr x, s') \<Rightarrow> (Inr x, s'))"

definition py_of :: "py_exn + 'a \<Rightarrow> ('s, 'a) op" where
  "py_of r s = (r, s)"

definition py_get :: "('s \<Rightarrow> 'a) \<Rightarrow> ('s, 'a) op" where
  "py_get f s = (Inr (f s), s)"

definition py_update :: "('s \<Rightarrow> 's) \<Rightarrow> ('s, unit) op" where
  "py_update f s = (Inr (), f s)"

definition py_when :: "bool \<Rightarrow> ('s, unit) op \<Rightarrow> ('s, unit) op" where
  "py_when b m = (if b then m else py_return ())"

fun py_each :: "('a \<Rightarrow> ('s, unit) op) \<Rightarrow> 'a list \<Rightarrow> ('s, unit) op" where
  "py_each f [] = py_return ()"
| "py_each f (x # xs) = py_then (f x) (\<lambda>_. py_each f xs)"

text \<open>Filtering and mapping with a test that may raise.\<close>

fun exn_filter :: "('a \<Rightarrow> py_exn + bool) \<Rightarrow> 'a list \<Rightarrow> py_exn + 'a list" where
  "exn_filter p [] = Inr []"
| "exn_filter p (x # xs) =
     (case p x of
        Inl e \<Rightarrow> Inl e
      | Inr b \<Rightarrow> (case exn_filter p xs of Inl e \<Rightarrow> Inl e | Inr ys \<Rightarrow> Inr (if b then x # ys else ys)))"

fun exn_map :: "('a \<Rightarrow> py_exn + 'b) \<Rightarrow> 'a list \<Rightarrow> py_exn + 'b list" where
  "exn_map f [] = Inr []"
| "exn_map f (x # xs) =
     (case f x of
        Inl e \<Rightarrow> Inl e
      | Inr y \<Rightarrow> (case exn_map f xs of Inl e \<Rightarrow> Inl e | Inr ys \<Rightarrow> Inr (y # ys)))"

definition iter_of :: "pyval \<Rightarrow> py_exn + pyval list" where
  "iter_of v = (case py_iter v of None \<Rightarrow> Inl TypeError | Some vs \<Rightarrow> Inr vs)"

text \<open>Methods of strings: any other value has no such attribute.\<close>

definition text_of :: "pyval \<Rightarrow> py_exn + string" where
  "text_of v = (case v of PStr s \<Rightarrow> Inr s | _ \<Rightarrow> Inl AttributeError)"

text \<open>\<^verbatim>\<open>a + b\<close> and \<^verbatim>\<open>a == b\<close> of numbers, and of other values.\<close>

definition py_equal :: "pyval \<Rightarrow> pyval \<Rightarrow> bool" where
  "py_equal a b \<longleftrightarrow>
     (case (as_number a, as_number b) of (Some x, Some y) \<Rightarrow> x = y \<and> x \<noteq> NaN | _ \<Rightarrow> a = b)"

section \<open>Settings\<close>

definition max_tool_rounds :: nat where "max_tool_rounds = 5"

definition session_ttl_hours :: int where "session_ttl_hours = 4"

definition reflection_min_messages :: int where "reflection_min_messages = 6"

definition reflection_max_history :: nat where "reflection_max_history = 30"

definition user_state_max_chars :: nat where "user_state_max_chars = 2000"

definition max_preferences :: nat where "max_preferences = 10"

section \<open>Sessions and answers\<close>

record pending_confirmation =
  pc_confirmation_id :: string
  pc_tool_name :: string
  pc_summary :: string
  pc_params :: "(string \<times> pyval) list"

text \<open>
  \<^verbatim>\<open>SessionState\<close>. The step of a playbook is assigned from the playbook unchecked, so it may be any value.
\<close>

record session_state =
  ss_session_id :: string
  ss_tenant_id :: string
  ss_user_id :: string
  ss_role :: string
  ss_persona :: string
  ss_mode :: string
  ss_active_skill :: "string option"
  ss_active_playbook :: "pyval option"
  ss_playbook_step :: pyval
  ss_playbook_data :: "(string \<times> pyval) list"
  ss_history :: "pyval list"
  ss_pending :: "pending_confirmation option"
  ss_skills_loaded :: "pyval list"
  ss_tools_cache :: "pyval list"
  ss_message_count :: int
  ss_first_launch :: bool
  ss_agent_name :: string

definition new_session :: "string \<Rightarrow> string \<Rightarrow> string \<Rightarrow> string \<Rightarrow> session_state" where
  "new_session session_id tenant_id user_id role =
     \<lparr>ss_session_id = session_id, ss_tenant_id = tenant_id, ss_user_id = user_id, ss_role = role,
      ss_persona = [], ss_mode = ''full'', ss_active_skill = None, ss_active_playbook = None,
      ss_playbook_step = PInt 0, ss_playbook_data = [], ss_history = [], ss_pending = None,
      ss_skills_loaded = [], ss_tools_cache = [], ss_message_count = 0, ss_first_launch = False,
      ss_agent_name = []\<rparr>"

definition opt_truthy :: "pyval option \<Rightarrow> bool" where
  "opt_truthy v = (case v of None \<Rightarrow> False | Some x \<Rightarrow> py_truthy x)"

record tool_action =
  ta_tool_name :: string
  ta_success :: bool
  ta_result_summary :: string

record chat_response =
  ch_message :: string
  ch_session_id :: string
  ch_actions :: "tool_action list"
  ch_pending :: "pending_confirmation option"
  ch_data_only :: bool

text \<open>A value for a field declared \<^verbatim>\<open>str\<close> or \<^verbatim>\<open>dict[str, Any]\<close>: any other raises.\<close>

definition str_valid :: "pyval \<Rightarrow> py_exn + string" where
  "str_valid v = (case v of PStr s \<Rightarrow> Inr s | _ \<Rightarrow> Inl ValidationError)"

definition dict_valid :: "pyval \<Rightarrow> py_exn + (string \<times> pyval) list" where
  "dict_valid v = (case v of PDict d \<Rightarrow> Inr d | _ \<Rightarrow> Inl ValidationError)"

section \<open>Personas\<close>

record persona =
  pe_role :: string
  pe_agent_name :: string
  pe_goal :: string
  pe_tone :: string
  pe_system_template :: string
  pe_behavior_rules :: "string list"
  pe_data_scope :: "string list"
  pe_skill_prefixes :: "string list"

definition executive_advisor :: persona where
  "executive_advisor =
     \<lparr>pe_role = ''admin'',
      pe_agent_name = ''Executive Advisor'',
      pe_goal = ''Give the executive a clear picture of audit readiness and risk.'',
      pe_tone = ''Strategic, concise, exception-focused'',
      pe_system_template = ''You are the compliance advisor for {company_name}'s leadership.'' @ newline
        @ ''Your job: give the executive a clear picture of audit readiness and risk.'' @ newline
        @ ''Focus on: overall %, blockers, team bottlenecks, risk areas.'' @ newline
        @ ''Don't: get into control-level details unless asked. Keep it high-level.'' @ newline
        @ ''Open with: readiness score, days to audit, top 3 risks.'',
      pe_behavior_rules =
        [''Show readiness %, controls by status, team performance, timeline.'',
         ''Suggest escalation when teams have overdue items.'',
         ''Never ask the executive to upload files or do tactical work.'',
         (''Quantify impact: 'Marketing team has 4 overdue items.'' @ [CHR 0x27]),
         (''Open proactively with status, not 'how can I help?'' @ [CHR 0x27])],
      pe_data_scope =
        [''overall_readiness'', ''all_controls'', ''all_tasks'', ''all_overdue'', ''team_performance'', ''audit_timeline'', ''evaluation_history'', ''full_escalation''],
      pe_skill_prefixes =
        [''admin/'']\<rparr>"

definition program_manager :: persona where
  "program_manager =
     \<lparr>pe_role = ''compliance_manager'',
      pe_agent_name = ''Program Manager'',
      pe_goal = ''Ensure every control is audit-ready by the audit date.'',
      pe_tone = ''Tactical, proactive, tracks everything'',
      pe_system_template = ''You are the compliance program manager for {company_name}.'' @ newline
        @ ''Your job: ensure every control is audit-ready by {audit_date}.'' @ newline
        @ ''You track: every control, every evidence gap, every deadline, every owner.'' @ newline
        @ ''You drive: remind owners, escalate blockers, prioritize by audit impact.'' @ newline
        @ ''Open with: what's changed since last session, what needs attention today.'',
      pe_behavior_rules =
        [''Show open tasks, overdue items, this week's deadlines, blocked items.'',
         ''Suggest re-running stale evaluations before audit.'',
         ''Warn before escalating, follow through if ignored.'',
         ''Celebrate completions and show readiness impact.'',
         ''Open with what changed since last session.''],
      pe_data_scope =
        [''overall_readiness'', ''all_controls'', ''all_tasks'', ''all_overdue'', ''team_performance'', ''audit_timeline'', ''evaluation_history'', ''partial_escalation''],
      pe_skill_prefixes =
        [''cm/'']\<rparr>"

definition task_coach :: persona where
  "task_coach =
     \<lparr>pe_role = ''contributor'',
      pe_agent_name = ''Task Coach'',
      pe_goal = ''Help this person complete their assigned controls.'',
      pe_tone = ''Specific, guiding, shows examples'',
      pe_system_template = ''You are helping {user_name} complete their compliance responsibilities.'' @ newline
        @ ''They own: {assigned_controls}.'' @ newline
        @ ''Your job: tell them exactly what to do, step by step, with examples.'' @ newline
        @ ''Don't overwhelm - show one task at a time, in priority order.'' @ newline
        @ ''Open with: their most urgent task and how to complete it.'',
      pe_behavior_rules =
        [''Show only THEIR controls and tasks, never org-wide data.'',
         ''Guide step by step with examples of good evidence.'',
         ''Offer to create templates for policies.'',
         ''Never show other people's tasks or org dashboard.'',
         ''Open with their most urgent item.''],
      pe_data_scope =
        [''own_controls'', ''own_tasks'', ''own_overdue'', ''audit_timeline'', ''own_evaluation_history''],
      pe_skill_prefixes =
        [''contributor/'']\<rparr>"

definition audit_assistant :: persona where
  "audit_assistant =
     \<lparr>pe_role = ''auditor'',
      pe_agent_name = ''Audit Assistant'',
      pe_goal = ''Help test controls, review evidence, log findings.'',
      pe_tone = ''Methodical, evidence-focused, objective'',
      pe_system_template = ''You are assisting {user_name} with the {framework} audit.'' @ newline
        @ ''Your job: help them test controls, review evidence, and log findings.'' @ newline
        @ ''You provide: evidence index, testing procedures, prior evaluation results.'' @ newline
        @ ''You record: test results, findings, evidence acceptance/rejection.'' @ newline
        @ ''Open with: audit progress - controls tested vs. remaining.'',
      pe_behavior_rules =
        [''Present facts objectively, don't advocate for pass/fail.'',
         ''Show evidence per control and prior AI evaluation results.'',
         ''Offer to log findings after testing.'',
         ''Clarify AI assessments are references, not audit opinions.'',
         ''Open with audit progress.''],
      pe_data_scope =
        [''overall_readiness'', ''all_controls'', ''all_overdue'', ''audit_timeline'', ''evaluation_history''],
      pe_skill_prefixes =
        [''auditor/'']\<rparr>"

definition reporter :: persona where
  "reporter =
     \<lparr>pe_role = ''viewer'',
      pe_agent_name = ''Reporter'',
      pe_goal = ''Answer questions about status, no actions.'',
      pe_tone = ''Informational, no calls-to-action'',
      pe_system_template = ''You are providing read-only compliance status information.'' @ newline
        @ ''You can answer questions about: readiness, status, timelines, evidence coverage.'' @ newline
        @ ''You CANNOT: make changes, create tasks, or trigger actions.'' @ newline
        @ ''If they ask to do something: suggest they contact their admin.'',
      pe_behavior_rules =
        [''Answer any status question (readiness, %, timeline).'',
         ''Cannot upload, evaluate, assign, escalate, or create.'',
         ''Suggest contacting an admin for write actions.'',
         ''Provide informational responses only.''],
      pe_data_scope =
        [''overall_readiness'', ''audit_timeline''],
      pe_skill_prefixes =
        [''viewer/'']\<rparr>"

definition persona_map :: "(string, persona) dict" where
  "persona_map =
     [(''admin'', executive_advisor), (''compliance_manager'', program_manager), (''contributor'', task_coach),
      (''auditor'', audit_assistant), (''viewer'', reporter)]"

definition select_persona :: "string \<Rightarrow> persona" where
  "select_persona role = dict_get_default persona_map role reporter"

definition get_agent_display_name :: "persona \<Rightarrow> string \<Rightarrow> string" where
  "get_agent_display_name p custom_name = (if custom_name \<noteq> [] then custom_name else pe_agent_name p)"

section \<open>The process\<close>

text \<open>
  \<^verbatim>\<open>SkillMatcher\<close>: the loaded skills and the patterns of each identifier. A compiled pattern is the number of its
  matches in a message.
\<close>

record skill_matcher =
  sm_skills :: "pyval list"
  sm_patterns :: "(string, (string \<Rightarrow> nat) list) dict"

record 'w env =
  en_app :: "'w app"
  en_memory :: memory_client
  en_mcp :: "'w mcp"
  en_post :: "'w post"
  en_uuid :: "'w \<Rightarrow> string \<times> 'w"
  en_today :: "'w \<Rightarrow> string"
  en_timeout :: string
  en_render :: "pyval \<Rightarrow> string"
  en_loads :: "string \<Rightarrow> pyval option"
  en_session :: "(string \<times> pyval) list \<Rightarrow> session_state option"
  en_lax_int :: "pyval \<Rightarrow> int option"

record 'w proc =
  pr_world :: 'w
  pr_skill_cache :: "(string, pyval) dict"
  pr_playbook_cache :: "(pyval, pyval) dict"
  pr_matcher :: skill_matcher
  pr_fallback :: "(string, session_state) dict"

definition py_world :: "('w \<Rightarrow> 'a \<times> 'w) \<Rightarrow> (('w, 'z) proc_scheme, 'a) op" where
  "py_world f s = (let (x, w) = f (pr_world s) in (Inr x, s\<lparr>pr_world := w\<rparr>))"

text \<open>A memory service, an MCP server and a gateway that fail on every call, for examples.\<close>

definition silent_env :: "unit env" where
  "silent_env =
     \<lparr>en_app = (\<lambda>r w. (None, w)), en_memory = \<lparr>mc_service_id = [], mc_service_key = []\<rparr>,
      en_mcp = (\<lambda>path h b w. (NotConnected, w)), en_post = (\<lambda>b w. (NotConnected, w)),
      en_uuid = (\<lambda>w. (''id'', w)), en_today = (\<lambda>w. ''2025-01-01''), en_timeout = ''10.0'', en_render = (\<lambda>v. []),
      en_loads = (\<lambda>t. None), en_session = (\<lambda>d. None), en_lax_int = (\<lambda>v. None)\<rparr>"

text \<open>What the memory service has no route for.\<close>

lemma silent_memory:
  assumes "fastapi_app health_routes register_routes app"
  shows "session_store app c sid messages md w = (False, w)"
    and "session_recall app c sid n w = (PList [], w)"
    and "user_store app c u f cat md w = (False, w)"
    and "client_user_recall app c u q k oc w = (PList [], w)"
    and "client_tenant_recall app c t q k oc w = (PList [], w)"
    and "skill_recall app c t oc w = (PList [], w)"
    and "interaction_store app c u t it pl md w = (False, w)"
    and "interaction_recall app c u t oc n w = (PList [], w)"
  by (simp_all add: session_store_def session_recall_def user_store_def client_user_recall_def
      client_tenant_recall_def skill_recall_def interaction_store_def interaction_recall_def
      mc_post_unserved [OF assms] mc_calls_unserved [OF assms] serves_v1)

end
