(* ===== verification/As_Skills.thy ===== *)
theory As_Skills
  imports As_Models
begin

text \<open>
  The assistant's skills: which skill a message activates (\<^verbatim>\<open>compliance-assistant/src/skills/matcher.py\<close>) and
  where a skill's configuration comes from (\<^verbatim>\<open>skills/loader.py\<close>).

  \<^verbatim>\<open>re.compile\<close> of a trigger is a parameter: the number of matches of \<^verbatim>\<open>findall\<close> in a message, None where it
  raises \<^verbatim>\<open>re.error\<close>. A cache entry under a key that is no string is never looked up and not kept.
\<close>

section \<open>Identifiers and roles\<close>

definition role_skill_prefixes :: "(string, string list) dict" where
  "role_skill_prefixes =
     [(''admin'', [''admin/'', ''shared/'']), (''compliance_manager'', [''cm/'', ''shared/'']),
      (''contributor'', [''contributor/'', ''shared/'']), (''auditor'', [''auditor/'', ''shared/'']),
      (''viewer'', [''viewer/'', ''shared/''])]"

definition allowed_prefixes :: "string \<Rightarrow> string list" where
  "allowed_prefixes role = dict_get_default role_skill_prefixes role [''shared/'']"

text \<open>\<^verbatim>\<open>skill.get("id", skill.get("skill_name", ""))\<close>\<close>

definition skill_id_of :: "pyval \<Rightarrow> py_exn + pyval" where
  "skill_id_of skill =
     (case skill of
        PDict d \<Rightarrow> Inr (dict_get_default d ''id'' (dict_get_default d ''skill_name'' (PStr [])))
      | _ \<Rightarrow> Inl AttributeError)"

definition has_prefix :: "string list \<Rightarrow> string \<Rightarrow> bool" where
  "has_prefix starts i \<longleftrightarrow> list_ex (str_startswith i) starts"

text \<open>Storing under a key: lists and dicts are not hashable.\<close>

definition cache_set :: "pyval \<Rightarrow> 'v \<Rightarrow> (string, 'v) dict \<Rightarrow> py_exn + (string, 'v) dict" where
  "cache_set k v cache =
     (case k of
        PStr i \<Rightarrow> Inr (dict_set i v cache)
      | PList _ \<Rightarrow> Inl TypeError
      | PDict _ \<Rightarrow> Inl TypeError
      | _ \<Rightarrow> Inr cache)"

section \<open>Matching\<close>

definition new_matcher :: skill_matcher where
  "new_matcher = \<lparr>sm_skills = [], sm_patterns = []\<rparr>"

text \<open>The fallback \<^verbatim>\<open>\b...\b\<close> ignores case.\<close>

definition whole_word_count :: "string \<Rightarrow> string \<Rightarrow> nat" where
  "whole_word_count trigger message = length (re_findall (RSeqs [RBound, RLitI (str_lower trigger), RBound]) message)"

definition trigger_pattern :: "(string \<Rightarrow> (string \<Rightarrow> nat) option) \<Rightarrow> pyval \<Rightarrow> py_exn + (string \<Rightarrow> nat)" where
  "trigger_pattern compile trigger =
     (case trigger of
        PStr t \<Rightarrow> Inr (case compile t of Some p \<Rightarrow> p | None \<Rightarrow> whole_word_count t)
      | _ \<Rightarrow> Inl TypeError)"

fun load_patterns ::
    "(string \<Rightarrow> (string \<Rightarrow> nat) option) \<Rightarrow> pyval list \<Rightarrow> (string, (string \<Rightarrow> nat) list) dict
       \<Rightarrow> py_exn + (string, (string \<Rightarrow> nat) list) dict" where
  "load_patterns compile [] acc = Inr acc"
| "load_patterns compile (skill # skills) acc =
     (case (skill_id_of skill, get_item skill ''triggers'' (PList [])) of
        (Inr i, Inr triggers) \<Rightarrow>
          (case iter_of triggers of
             Inl e \<Rightarrow> Inl e
           | Inr ts \<Rightarrow>
               (case exn_map (trigger_pattern compile) ts of
                  Inl e \<Rightarrow> Inl e
                | Inr ps \<Rightarrow>
                    (case cache_set i ps acc of Inl e \<Rightarrow> Inl e | Inr acc' \<Rightarrow> load_patterns compile skills acc')))
      | (Inl e, _) \<Rightarrow> Inl e
      | (_, Inl e) \<Rightarrow> Inl e)"

definition load_skills ::
    "(string \<Rightarrow> (string \<Rightarrow> nat) option) \<Rightarrow> pyval list \<Rightarrow> py_exn + skill_matcher" where
  "load_skills compile skills =
     (case load_patterns compile skills [] of
        Inl e \<Rightarrow> Inl e
      | Inr ps \<Rightarrow> Inr \<lparr>sm_skills = skills, sm_patterns = ps\<rparr>)"

definition score_match :: "string \<Rightarrow> (string \<Rightarrow> nat) list \<Rightarrow> nat" where
  "score_match message patterns = sum_list (map (\<lambda>p. p message) patterns)"

definition skill_score :: "skill_matcher \<Rightarrow> string \<Rightarrow> string \<Rightarrow> nat" where
  "skill_score m message i = score_match message (dict_get_default (sm_patterns m) i [])"

fun best_skill ::
    "skill_matcher \<Rightarrow> string \<Rightarrow> string list \<Rightarrow> pyval list \<Rightarrow> nat \<Rightarrow> string option \<Rightarrow> py_exn + nat \<times> string option" where
  "best_skill m message starts [] best_score best = Inr (best_score, best)"
| "best_skill m message starts (skill # skills) best_score best =
     (case skill_id_of skill of
        Inl e \<Rightarrow> Inl e
      | Inr i \<Rightarrow>
          (case text_of i of
             Inl e \<Rightarrow> Inl e
           | Inr sid \<Rightarrow>
               (if has_prefix starts sid \<and> best_score < skill_score m message sid
                then best_skill m message starts skills (skill_score m message sid) (Some sid)
                else best_skill m message starts skills best_score best)))"

definition match_skill ::
    "skill_matcher \<Rightarrow> string \<Rightarrow> string \<Rightarrow> string option \<Rightarrow> py_exn + string option" where
  "match_skill m message role active_skill =
     (if str_strip message = [] then Inr active_skill
      else (case best_skill m message (allowed_prefixes role) (sm_skills m) 0 None of
              Inl e \<Rightarrow> Inl e
            | Inr (best_score, best) \<Rightarrow>
                (let score = skill_score m message (str_or_empty active_skill)
                 in if str_truthy active_skill \<and> best \<noteq> active_skill \<and> 0 < score \<and> best_score < 2 * score
                    then Inr active_skill
                    else if 0 < best_score then Inr best
                    else Inr None)))"

section \<open>The built-in skills\<close>

definition default_skills :: "(string \<times> (string \<times> pyval) list) list" where
  "default_skills =
    [(''admin/dashboard'',
      [(''id'', PStr ''admin/dashboard''),
       (''role'', PStr ''admin''),
       (''triggers'', PList [PStr ''dashboard'', PStr ''overview'', PStr ''status'', PStr ''readiness'']),
       (''system_prompt'', PStr (''Show the executive a high-level compliance dashboard.'' @ newline
            @ ''Include: overall readiness %, top risks, team bottlenecks, days to audit.'' @ newline
            @ ''Keep it concise and actionable.'')),
       (''tools_needed'', PList [PStr ''evidence.check_coverage'', PStr ''audit.get_readiness'']),
       (''playbook_id'', PNone)]),
     (''admin/escalation_review'',
      [(''id'', PStr ''admin/escalation_review''),
       (''role'', PStr ''admin''),
       (''triggers'', PList [PStr ''escalat'', PStr ''overdue'', PStr ''blocked'', PStr ''stuck'']),
       (''system_prompt'', PStr (''Review escalated items and overdue controls.'' @ newline
            @ ''Show who is blocking, how long overdue, and impact on readiness.'' @ newline
            @ ''Offer to send reminders or reassign.'')),
       (''tools_needed'', PList [PStr ''escalation.check_overdue'', PStr ''escalation.send_reminder'']),
       (''playbook_id'', PNone)]),
     (''cm/program_status'',
      [(''id'', PStr ''cm/program_status''),
       (''role'', PStr ''compliance_manager''),
       (''triggers'', PList [PStr ''status'', PStr ''progress'', PStr ''where are we'', PStr ''how are we doing'']),
       (''system_prompt'', PStr (''Show program status: controls by status, recent completions, upcoming deadlines, and blockers.''
            @ newline @ ''Prioritize: overdue > due this week > upcoming.'')),
       (''tools_needed'', PList [PStr ''evidence.check_coverage'', PStr ''escalation.check_overdue'']),
       (''playbook_id'', PNone)]),
     (''cm/gap_analysis'',
      [(''id'', PStr ''cm/gap_analysis''),
       (''role'', PStr ''compliance_manager''),
       (''triggers'', PList [PStr ''gap'', PStr ''missing'', PStr ''what's needed'', PStr ''coverage'']),
       (''system_prompt'', PStr (''Analyze gaps in evidence coverage and control compliance.'' @ newline
            @ ''Show which controls lack evidence, which evaluations are stale, and prioritize by audit impact.'')),
       (''tools_needed'', PList [PStr ''evidence.check_coverage'']),
       (''playbook_id'', PNone)]),
     (''cm/escalation'',
      [(''id'', PStr ''cm/escalation''),
       (''role'', PStr ''compliance_manager''),
       (''triggers'', PList [PStr ''escalat'', PStr ''remind'', PStr ''overdue'', PStr ''follow up'']),
       (''system_prompt'', PStr (''Handle overdue evidence and escalation.'' @ newline
            @ ''Show days overdue, assignee, and control impact.'' @ newline @ ''Recommend action based on severity.'')),
       (''tools_needed'', PList [PStr ''escalation.check_overdue'', PStr ''escalation.send_reminder'']),
       (''playbook_id'', PStr ''playbook/escalation_handling'')]),
     (''contributor/my_tasks'',
      [(''id'', PStr ''contributor/my_tasks''),
       (''role'', PStr ''contributor''),
       (''triggers'', PList [PStr ''my tasks'', PStr ''what do i need'', PStr ''to do'', PStr ''assigned'', PStr ''my controls'']),
       (''system_prompt'', PStr (''Show this user their assigned controls and tasks.'' @ newline
            @ ''Prioritize by urgency. Show one task at a time.'' @ newline
            @ ''For each: what's needed, deadline, example of good evidence.'')),
       (''tools_needed'', PList []),
       (''playbook_id'', PNone)]),
     (''contributor/upload_guidance'',
      [(''id'', PStr ''contributor/upload_guidance''),
       (''role'', PStr ''contributor''),
       (''triggers'', PList [PStr ''upload'', PStr ''evidence'', PStr ''how do i'', PStr ''what do you need'', PStr ''file'']),
       (''system_prompt'', PStr (''The user needs to upload evidence for a control.'' @ newline
            @ ''1. Check which control they're asking about (or show their assigned list)'' @ newline
            @ ''2. Tell them exactly what evidence is needed (from control definition)'' @ newline
            @ ''3. Show an example of good evidence for this control type'' @ newline
            @ ''4. Provide the upload steps'' @ newline @ ''5. After upload: offer to run evaluation'')),
       (''tools_needed'', PList [PStr ''evidence.upload_url'', PStr ''evidence.bind_to_control'', PStr ''evidence.check_coverage'']),
       (''playbook_id'', PStr ''playbook/evidence_collection'')]),
     (''auditor/testing_workflow'',
      [(''id'', PStr ''auditor/testing_workflow''),
       (''role'', PStr ''auditor''),
       (''triggers'', PList [PStr ''test'', PStr ''audit'', PStr ''check'', PStr ''verify'', PStr ''examine'']),
       (''system_prompt'', PStr (''Guide the auditor through testing a control.'' @ newline
            @ ''Show evidence, prior AI assessment, and let them record results.'' @ newline
            @ ''Be objective - present facts, don't advocate.'')),
       (''tools_needed'', PList [PStr ''audit.generate_checklist'', PStr ''evidence.check_coverage'', PStr ''audit.test_control'']),
       (''playbook_id'', PStr ''playbook/audit_testing'')]),
     (''auditor/finding_entry'',
      [(''id'', PStr ''auditor/finding_entry''),
       (''role'', PStr ''auditor''),
       (''triggers'', PList [PStr ''finding'', PStr ''fail'', PStr ''issue'', PStr ''deficiency'', PStr ''observation'']),
       (''system_prompt'', PStr (''Help the auditor document a finding.'' @ newline
            @ ''Collect: control, severity, description, evidence, remediation.'' @ newline
            @ ''Be thorough but efficient.'')),
       (''tools_needed'', PList [PStr ''audit.create_finding'']),
       (''playbook_id'', PNone)]),
     (''viewer/status_report'',
      [(''id'', PStr ''viewer/status_report''),
       (''role'', PStr ''viewer''),
       (''triggers'', PList [PStr ''status'', PStr ''readiness'', PStr ''how'', PStr ''report'', PStr ''progress'']),
       (''system_prompt'', PStr (''Provide read-only status information.'' @ newline @ ''Show readiness %, timeline, control status.''
            @ newline @ ''Do NOT offer to take actions.'')),
       (''tools_needed'', PList [PStr ''evidence.check_coverage'', PStr ''audit.get_readiness'']),
       (''playbook_id'', PNone)]),
     (''shared/evidence_summarization'',
      [(''id'', PStr ''shared/evidence_summarization''),
       (''role'', PStr ''shared''),
       (''triggers'', PList [PStr ''summarize'', PStr ''what does this show'', PStr ''explain this evidence'', PStr ''evidence summary'']),
       (''system_prompt'', PStr (''Summarize evidence documents for the user. Focus on:'' @ newline
            @ ''1. What the document proves (which control requirements it addresses)'' @ newline
            @ ''2. Key data points (dates, counts, coverage)'' @ newline
            @ ''3. Gaps or weaknesses the auditor would notice'' @ newline
            @ ''4. Freshness (is this evidence current enough?)'')),
       (''tools_needed'', PList [PStr ''evidence.get_metadata'', PStr ''evidence.get_content'', PStr ''preprocessor.summarize'']),
       (''playbook_id'', PNone)])]"

section \<open>Loading\<close>

definition skill_matches_role :: "string \<Rightarrow> pyval \<Rightarrow> py_exn + bool" where
  "skill_matches_role role skill =
     (case skill of
        PDict d \<Rightarrow>
          (let named = (case dict_get_default d ''role'' (PStr []) of
                          PStr r \<Rightarrow> r = role \<or> r = ''shared''
                        | PList rs \<Rightarrow> PStr role \<in> set rs \<or> PStr ''shared'' \<in> set rs
                        | _ \<Rightarrow> False)
           in if named then Inr True
              else (case dict_get_default d ''id'' (dict_get_default d ''skill_name'' (PStr [])) of
                      PStr i \<Rightarrow> Inr (has_prefix (allowed_prefixes role) i)
                    | _ \<Rightarrow> Inl AttributeError))
      | _ \<Rightarrow> Inl AttributeError)"

definition cache_skill :: "pyval \<Rightarrow> (('w, 'z) proc_scheme, unit) op" where
  "cache_skill skill s =
     (case skill_id_of skill of
        Inl e \<Rightarrow> (Inl e, s)
      | Inr i \<Rightarrow>
          (case cache_set i skill (pr_skill_cache s) of
             Inl e \<Rightarrow> (Inl e, s)
           | Inr cache \<Rightarrow> (Inr (), s\<lparr>pr_skill_cache := cache\<rparr>)))"

definition recall_skills :: "'w env \<Rightarrow> string \<Rightarrow> string option \<Rightarrow> (('w, 'z) proc_scheme, pyval) op" where
  "recall_skills v tenant_id name = py_world (skill_recall (en_app v) (en_memory v) tenant_id (map_option PStr name))"

definition skills_for_role :: "string \<Rightarrow> pyval \<Rightarrow> py_exn + pyval list" where
  "skills_for_role role results =
     (if py_truthy results
      then (case iter_of results of Inl e \<Rightarrow> Inl e | Inr skills \<Rightarrow> exn_filter (skill_matches_role role) skills)
      else Inr [])"

definition default_role_skills :: "string \<Rightarrow> pyval list" where
  "default_role_skills role =
     map (\<lambda>(i, skill). PDict skill) (filter (\<lambda>(i, skill). has_prefix (allowed_prefixes role) i) default_skills)"

definition load_for_role :: "'w env \<Rightarrow> string \<Rightarrow> string \<Rightarrow> (('w, 'z) proc_scheme, pyval list) op" where
  "load_for_role v role tenant_id =
     py_then (recall_skills v tenant_id None)
       (\<lambda>results. py_then (py_of (skills_for_role role results))
         (\<lambda>recalled.
            (let skills = (if recalled \<noteq> [] then recalled else default_role_skills role)
             in py_then (py_each cache_skill skills) (\<lambda>_. py_return skills))))"

text \<open>\<^verbatim>\<open>results[0] if isinstance(results, list) else results\<close>\<close>

definition first_result :: "pyval \<Rightarrow> pyval" where
  "first_result results = (case results of PList (x # xs) \<Rightarrow> x | _ \<Rightarrow> results)"

definition nested_prompt :: "pyval \<Rightarrow> py_exn + pyval" where
  "nested_prompt skill =
     (case get_item skill ''skill_data'' (PDict []) of
        Inl e \<Rightarrow> Inl e
      | Inr inner \<Rightarrow>
          (case get_item inner ''system_prompt'' (PStr []) of
             Inl e \<Rightarrow> Inl e
           | Inr other \<Rightarrow> get_item skill ''system_prompt'' other))"

definition get_skill_prompt :: "'w env \<Rightarrow> string \<Rightarrow> string \<Rightarrow> (('w, 'z) proc_scheme, pyval) op" where
  "get_skill_prompt v skill_id tenant_id =
     py_then (py_get (\<lambda>s. dict_get (pr_skill_cache s) skill_id))
       (\<lambda>cached. case cached of
          Some skill \<Rightarrow> py_of (get_item skill ''system_prompt'' (PStr []))
        | None \<Rightarrow>
            py_then (recall_skills v tenant_id (Some skill_id))
              (\<lambda>results.
                 if py_truthy results
                 then py_then (py_update (\<lambda>s. s\<lparr>pr_skill_cache := dict_set skill_id (first_result results) (pr_skill_cache s)\<rparr>))
                        (\<lambda>_. py_of (nested_prompt (first_result results)))
                 else py_return (case dict_get default_skills skill_id of
                        Some d \<Rightarrow> dict_get_default d ''system_prompt'' (PStr [])
                      | None \<Rightarrow> PStr [])))"

definition get_skill_playbook :: "'w env \<Rightarrow> string \<Rightarrow> string \<Rightarrow> (('w, 'z) proc_scheme, pyval) op" where
  "get_skill_playbook v skill_id tenant_id =
     py_then (py_get (\<lambda>s. dict_get (pr_skill_cache s) skill_id))
       (\<lambda>cached. case cached of
          Some skill \<Rightarrow> py_of (get_item skill ''playbook_id'' PNone)
        | None \<Rightarrow>
            (case dict_get default_skills skill_id of
               Some d \<Rightarrow> py_return (dict_get_default d ''playbook_id'' PNone)
             | None \<Rightarrow>
                 py_then (recall_skills v tenant_id (Some skill_id))
                   (\<lambda>results.
                      if py_truthy results then py_of (get_item (first_result results) ''playbook_id'' PNone)
                      else py_return PNone)))"

section \<open>Properties\<close>

text \<open>The identifiers with one of the prefixes, and the loaded ones that a role may use.\<close>

definition ids_in :: "string list \<Rightarrow> pyval list \<Rightarrow> string set" where
  "ids_in starts skills = {i. has_prefix starts i \<and> (\<exists>skill \<in> set skills. skill_id_of skill = Inr (PStr i))}"

definition allowed_ids :: "skill_matcher \<Rightarrow> string \<Rightarrow> string set" where
  "allowed_ids m role = ids_in (allowed_prefixes role) (sm_skills m)"

lemma str_truthy_Some: "str_truthy s \<Longrightarrow> s = Some (str_or_empty s)"
  by (auto simp: str_truthy_def str_or_empty_def split: option.splits)

lemma ids_in_Cons:
  "skill_id_of skill = Inr (PStr i) \<Longrightarrow>
     ids_in starts (skill # skills) = (if has_prefix starts i then {i} else {}) \<union> ids_in starts skills"
  by (auto simp: ids_in_def)

lemma best_skill_found:
  "best_skill m message starts skills b best = Inr (n, r) \<Longrightarrow>
     b \<le> n \<and> (\<forall>i \<in> ids_in starts skills. skill_score m message i \<le> n)
     \<and> (n = b \<and> r = best \<or> b < n \<and> (\<exists>i \<in> ids_in starts skills. r = Some i \<and> n = skill_score m message i))"
proof (induction skills arbitrary: b best)
  case (Cons skill skills)
  obtain i where i: "skill_id_of skill = Inr (PStr i)"
    using Cons.prems by (auto simp: text_of_def split: sum.splits pyval.splits)
  show ?case
  proof (cases "has_prefix starts i \<and> b < skill_score m message i")
    case True
    then have "best_skill m message starts skills (skill_score m message i) (Some i) = Inr (n, r)"
      using Cons.prems i by (simp add: text_of_def)
    from Cons.IH [OF this] show ?thesis using True by (auto simp: ids_in_Cons [OF i])
  next
    case False
    then have "best_skill m message starts skills b best = Inr (n, r)"
      using Cons.prems i by (auto simp: text_of_def)
    from Cons.IH [OF this] show ?thesis using False by (auto simp: ids_in_Cons [OF i])
  qed
qed (simp add: ids_in_def)

lemma match_skill_allowed:
  assumes "match_skill m message role None = Inr (Some i)" and "str_strip message \<noteq> []"
  shows "i \<in> allowed_ids m role"
proof -
  obtain n b where "best_skill m message (allowed_prefixes role) (sm_skills m) 0 None = Inr (n, b)"
    using assms by (auto simp: match_skill_def split: sum.splits)
  then show ?thesis using assms best_skill_found
    by (fastforce simp: match_skill_def allowed_ids_def str_truthy_def Let_def split: if_splits)
qed

text \<open>
  C21 (choosing a skill): a blank message keeps the active skill. Any other message either keeps the active
  skill, which then matches and no skill the role may use matches twice as often, or activates a skill the role may use,
  by its identifier's prefix, that matches and that no other such skill beats; and it leaves no skill active exactly when
  no skill the role may use matches and the active one does not match either.
\<close>

theorem skill_choice:
  assumes "match_skill m message role active = Inr r" and "str_strip message \<noteq> []"
  shows "case r of
      None \<Rightarrow> (\<forall>i \<in> allowed_ids m role. skill_score m message i = 0)
          \<and> (str_truthy active \<longrightarrow> skill_score m message (str_or_empty active) = 0)
    | Some i \<Rightarrow> 0 < skill_score m message i
        \<and> (i \<in> allowed_ids m role \<and> (\<forall>j \<in> allowed_ids m role. skill_score m message j \<le> skill_score m message i)
            \<and> (str_truthy active \<longrightarrow> active = Some i \<or> 2 * skill_score m message (str_or_empty active) \<le> skill_score m message i)
          \<or> active = Some i \<and> (\<forall>j \<in> allowed_ids m role. skill_score m message j < 2 * skill_score m message i))"
proof -
  obtain n b where found: "best_skill m message (allowed_prefixes role) (sm_skills m) 0 None = Inr (n, b)"
    using assms by (auto simp: match_skill_def split: sum.splits)
  have all: "\<forall>j \<in> allowed_ids m role. skill_score m message j \<le> n"
    and b: "n = 0 \<and> b = None \<or> 0 < n \<and> (\<exists>i \<in> allowed_ids m role. b = Some i \<and> n = skill_score m message i)"
    using best_skill_found [OF found] by (auto simp: allowed_ids_def)
  let ?sticky = "str_truthy active \<and> b \<noteq> active \<and> 0 < skill_score m message (str_or_empty active)
      \<and> n < 2 * skill_score m message (str_or_empty active)"
  show ?thesis
  proof (cases ?sticky)
    case True
    then have r: "r = active" using assms found by (simp add: match_skill_def Let_def)
    then obtain i where i: "r = Some i" "i = str_or_empty active" using True str_truthy_Some by blast
    then have "\<forall>j \<in> allowed_ids m role. skill_score m message j < 2 * skill_score m message i"
      using all True by (auto intro: order.strict_trans1)
    moreover have "active = Some i" "0 < skill_score m message i" using True i r by simp_all
    ultimately show ?thesis using i(1) by simp
  next
    case False
    then have r: "r = (if 0 < n then b else None)" using assms found by (auto simp: match_skill_def Let_def)
    show ?thesis
    proof (cases "0 < n")
      case True
      then obtain i where i: "b = Some i" "i \<in> allowed_ids m role" "n = skill_score m message i" using b by auto
      then have "str_truthy active \<longrightarrow> active = Some i \<or> 2 * skill_score m message (str_or_empty active) \<le> n"
        using False True by (auto simp: not_less)
      then show ?thesis using r True i all by simp
    next
      case zero: False
      then have "str_truthy active \<longrightarrow> skill_score m message (str_or_empty active) = 0"
        using False b by (auto simp: str_truthy_def)
      then show ?thesis using r zero all by simp
    qed
  qed
qed

definition literal_compile :: "string \<Rightarrow> (string \<Rightarrow> nat) option" where
  "literal_compile t = Some (\<lambda>message. length (re_findall (RLitI (str_lower t)) message))"

definition sample_matcher :: skill_matcher where
  "sample_matcher =
     (case load_skills literal_compile [PDict [(''id'', PStr ''cm/gap''), (''triggers'', PList [PStr ''gap''])]] of
        Inl e \<Rightarrow> new_matcher | Inr m \<Rightarrow> m)"

theorem skill_choice_witness:
  "match_skill sample_matcher ''Any gap?'' ''compliance_manager'' None = Inr (Some ''cm/gap'')
   \<and> 0 < skill_score sample_matcher ''Any gap?'' ''cm/gap''"
proof -
  have m: "match_skill sample_matcher ''Any gap?'' ''compliance_manager'' None = Inr (Some ''cm/gap'')"
    and "str_strip ''Any gap?'' \<noteq> []" by code_simp+
  from skill_choice [OF this] show ?thesis using m by simp
qed

definition ids_are_text :: "pyval list \<Rightarrow> bool" where
  "ids_are_text skills \<longleftrightarrow> (\<forall>skill \<in> set skills. \<exists>i. skill_id_of skill = Inr (PStr i))"

text \<open>Behind the real memory service nothing is ever recalled.\<close>

lemma recall_skills_nothing:
  assumes "fastapi_app health_routes register_routes (en_app v)"
  shows "recall_skills v tenant_id name s = (Inr (PList []), s)"
  by (simp add: recall_skills_def py_world_def silent_memory [OF assms])

lemma cache_skill_named:
  assumes "skill_id_of skill = Inr (PStr i)"
  shows "cache_skill skill s = (Inr (), s\<lparr>pr_skill_cache := dict_set i skill (pr_skill_cache s)\<rparr>)"
  using assms by (simp add: cache_skill_def cache_set_def)

lemma cache_skills_named:
  assumes "ids_are_text skills"
  shows "\<exists>cache. py_each cache_skill skills s = (Inr (), s\<lparr>pr_skill_cache := cache\<rparr>)"
  using assms
proof (induction skills arbitrary: s)
  case Nil
  show ?case by (rule exI [of _ "pr_skill_cache s"]) (simp add: py_return_def)
next
  case (Cons skill skills)
  then obtain i where "skill_id_of skill = Inr (PStr i)" "ids_are_text skills" by (auto simp: ids_are_text_def)
  then show ?case using Cons.IH [of "s\<lparr>pr_skill_cache := dict_set i skill (pr_skill_cache s)\<rparr>"]
    by (auto simp: py_then_def cache_skill_named)
qed

lemma default_ids: "list_all (\<lambda>(i, d). dict_get d ''id'' = Some (PStr i)) default_skills"
  by code_simp

lemma default_skills_text: "ids_are_text (default_role_skills role)"
  using default_ids by (fastforce simp: ids_are_text_def default_role_skills_def skill_id_of_def list_all_iff)

text \<open>What the matcher holds once the default skills of the administrator are loaded.\<close>

lemma admin_defaults_shared:
  "list_all (\<lambda>role. filter (has_prefix (allowed_prefixes role)) (map fst (filter (\<lambda>(i, d).
        has_prefix (allowed_prefixes ''admin'') i) default_skills)) = [''shared/evidence_summarization''])
     [''compliance_manager'', ''contributor'', ''auditor'', ''viewer'', []]"
  by code_simp

lemma other_prefixes:
  assumes "role \<notin> {''admin'', ''compliance_manager'', ''contributor'', ''auditor'', ''viewer''}"
  shows "allowed_prefixes role = allowed_prefixes []"
  using assms by (simp add: allowed_prefixes_def role_skill_prefixes_def dict_get_default_def)

lemma admin_ids_for_others:
  assumes "role \<noteq> ''admin''"
  shows "ids_in (allowed_prefixes role) (default_role_skills ''admin'') = {''shared/evidence_summarization''}"
proof -
  have "ids_in (allowed_prefixes role) (default_role_skills ''admin'')
      = set (filter (has_prefix (allowed_prefixes role)) (map fst (filter (\<lambda>(i, d).
          has_prefix (allowed_prefixes ''admin'') i) default_skills)))"
    using default_ids
    by (fastforce simp: ids_in_def default_role_skills_def skill_id_of_def list_all_iff image_iff)
  moreover have "filter (has_prefix (allowed_prefixes role)) (map fst (filter (\<lambda>(i, d).
          has_prefix (allowed_prefixes ''admin'') i) default_skills)) = [''shared/evidence_summarization'']"
  proof (cases "role \<in> {''compliance_manager'', ''contributor'', ''auditor'', ''viewer''}")
    case True
    then show ?thesis using admin_defaults_shared by (auto simp del: filter_map)
  next
    case False
    then show ?thesis using admin_defaults_shared other_prefixes [of role] assms by (simp del: filter_map)
  qed
  ultimately show ?thesis by simp
qed

text \<open>
  (skills at start-up): with the real memory service, which serves no skill route, loading the
  administrator's skills gives the built-in ones and leaves the world alone; and a matcher loaded with them, as the start-up
  does, activates for a user of any other role at most the shared evidence summarization: the built-in skills of compliance
  managers, contributors, auditors and viewers are never matched.
\<close>

theorem startup_skills_serve_administrators:
  assumes app: "fastapi_app health_routes register_routes (en_app v)"
  shows "fst (load_for_role v ''admin'' tenant_id s) = Inr (default_role_skills ''admin'')
    \<and> pr_world (snd (load_for_role v ''admin'' tenant_id s)) = pr_world s
    \<and> (\<forall>m role message i. load_skills compile (default_role_skills ''admin'') = Inr m \<longrightarrow> role \<noteq> ''admin'' \<longrightarrow>
         match_skill m message role None = Inr (Some i) \<longrightarrow> i = ''shared/evidence_summarization'')"
proof -
  obtain cache where c: "py_each cache_skill (default_role_skills ''admin'') s = (Inr (), s\<lparr>pr_skill_cache := cache\<rparr>)"
    using cache_skills_named [OF default_skills_text] by blast
  then have load: "load_for_role v ''admin'' tenant_id s
      = (Inr (default_role_skills ''admin''), s\<lparr>pr_skill_cache := cache\<rparr>)"
    by (simp add: load_for_role_def py_then_def recall_skills_nothing [OF app] skills_for_role_def py_truthy_def
        py_of_def py_return_def Let_def)
  have only: "i = ''shared/evidence_summarization''"
    if "load_skills compile (default_role_skills ''admin'') = Inr m" "role \<noteq> ''admin''"
      and hit: "match_skill m message role None = Inr (Some i)" for m role message i
  proof -
    have m: "sm_skills m = default_role_skills ''admin''"
      using that(1) by (auto simp: load_skills_def split: sum.splits)
    have "str_strip message \<noteq> []" using hit by (auto simp: match_skill_def)
    from match_skill_allowed [OF hit this] show ?thesis
      using admin_ids_for_others [OF that(2)] by (simp add: allowed_ids_def m)
  qed
  show ?thesis using load only by simp
qed

text \<open>A process that has just started.\<close>

definition empty_proc :: "unit proc" where
  "empty_proc = \<lparr>pr_world = (), pr_skill_cache = [], pr_playbook_cache = [], pr_matcher = new_matcher, pr_fallback = []\<rparr>"

theorem startup_skills_serve_administrators_witness:
  "fst (load_for_role silent_env ''admin'' ''t'' empty_proc) = Inr (default_role_skills ''admin'')"
  by (rule conjunct1 [OF startup_skills_serve_administrators]) (simp add: fastapi_app_def silent_env_def failed_def)

text \<open>
  (prompts of recalled skills): a skill whose prompt the memory service nests in \<^verbatim>\<open>skill_data\<close> has its prompt
  returned by the first request for it and the empty prompt by every later one, because the cached skill is read without
  looking into \<^verbatim>\<open>skill_data\<close>; the skill's playbook is then looked up in the same way.
\<close>

theorem nested_prompt_is_lost:
  assumes "recall_skills v tenant_id (Some i) s = (Inr (PList [PDict d]), s1)"
    and "dict_get (pr_skill_cache s) i = None"
    and "dict_get d ''system_prompt'' = None"
    and "dict_get d ''skill_data'' = Some (PDict inner)"
  shows "\<exists>s2. get_skill_prompt v i tenant_id s = (Inr (dict_get_default inner ''system_prompt'' (PStr [])), s2)
      \<and> get_skill_prompt v i tenant_id s2 = (Inr (PStr []), s2)
      \<and> get_skill_playbook v i tenant_id s2 = (Inr (dict_get_default d ''playbook_id'' PNone), s2)"
  using assms
  by (simp add: get_skill_prompt_def get_skill_playbook_def py_then_def py_get_def py_update_def py_of_def
      py_truthy_def first_result_def nested_prompt_def get_item_def)

text \<open>A memory service that answers every request with one skill.\<close>

definition nested_skill :: "(string \<times> pyval) list" where
  "nested_skill = [(''skill_data'', PDict [(''system_prompt'', PStr ''Be brief.'')])]"

definition skill_env :: "unit env" where
  "skill_env = silent_env\<lparr>en_app := (\<lambda>r w. (Some (200, Some (PList [PDict nested_skill])), w))\<rparr>"

theorem nested_prompt_is_lost_witness:
  "\<exists>s2. get_skill_prompt skill_env ''cm/x'' ''t'' empty_proc = (Inr (PStr ''Be brief.''), s2)
      \<and> get_skill_prompt skill_env ''cm/x'' ''t'' s2 = (Inr (PStr []), s2)"
proof -
  have "recall_skills skill_env ''t'' (Some ''cm/x'') empty_proc = (Inr (PList [PDict nested_skill]), empty_proc)"
    by (simp add: recall_skills_def py_world_def skill_env_def skill_recall_def mc_list_call_def mc_post_json_def
        mc_unwrap_def empty_proc_def)
  from nested_prompt_is_lost [OF this, where inner = "[(''system_prompt'', PStr ''Be brief.'')]"]
  show ?thesis by (auto simp: empty_proc_def nested_skill_def dict_get_default_def)
qed

end
