(* ===== verification/As_Playbook.thy ===== *)
theory As_Playbook
  imports As_Skills
begin

text \<open>
  The assistant's playbooks (\<^verbatim>\<open>compliance-assistant/src/skills/playbook_engine.py\<close>): where a playbook comes from,
  the prompt of its current step, and how a session moves through it.

  A playbook is whatever the memory service stored, so its fields may have any type; what Python raises on a wrong one is
  modelled. Identifiers of playbooks are compared as values.
\<close>

section \<open>The built-in playbooks\<close>

definition evidence_collection_playbook :: "(string \<times> pyval) list" where
  "evidence_collection_playbook =
     [(''id'', PStr ''playbook/evidence_collection''),
      (''name'', PStr ''Evidence Collection for a Control''),
      (''role'', PList [PStr ''contributor'', PStr ''compliance_manager'']),
      (''steps'', PList
        [PDict [(''step'', PInt 1),
           (''name'', PStr ''Identify Control''),
           (''instruction'', PStr ''Confirm which control needs evidence. If ambiguous, ask.''),
           (''tool'', PNone)],
         PDict [(''step'', PInt 2),
           (''name'', PStr ''Explain Requirements''),
           (''instruction'', PStr ''Show what evidence is needed based on control definition and assessment objectives.''),
           (''tool'', PStr ''evidence.check_coverage''),
           (''guidance'', PStr (''For access controls (CC6.x): access review logs, user lists, termination records'' @ newline
            @ ''For change management (CC8.x): change tickets, approval records, deployment logs'' @ newline
            @ ''For monitoring (CC7.x): alert configurations, incident reports, log samples'' @ newline
            @ ''Always show: file format expected, time period covered, minimum data points''))],
         PDict [(''step'', PInt 3),
           (''name'', PStr ''Show Example''),
           (''instruction'', PStr ''Show an example of good evidence for this control type from patterns.''),
           (''tool'', PNone)],
         PDict [(''step'', PInt 4),
           (''name'', PStr ''Assist Upload''),
           (''instruction'', PStr ''Provide upload link. Guide through file selection.''),
           (''tool'', PStr ''evidence.upload_url'')],
         PDict [(''step'', PInt 5),
           (''name'', PStr ''Verify & Evaluate''),
           (''instruction'', PStr ''Confirm file received. Offer to run evaluation.''),
           (''tool'', PStr ''evaluation.start_eval''),
           (''success'', PStr ''evaluation complete''),
           (''on_fail'', PStr ''If evaluation finds gaps, show them and suggest fixes'')]]),
      (''on_stuck'', PStr ''If user doesn't respond or says 'later', save progress and resume next session.''),
      (''on_complete'', PStr ''Confirm evidence is uploaded and evaluated. Show impact on readiness.'')]"

definition escalation_handling_playbook :: "(string \<times> pyval) list" where
  "escalation_handling_playbook =
     [(''id'', PStr ''playbook/escalation_handling''),
      (''name'', PStr ''Handle Overdue Evidence''),
      (''role'', PList [PStr ''compliance_manager'']),
      (''steps'', PList
        [PDict [(''step'', PInt 1),
           (''name'', PStr ''Assess Situation''),
           (''instruction'', PStr ''Show overdue items with days overdue, assignee, and control impact.''),
           (''tool'', PStr ''escalation.check_overdue'')],
         PDict [(''step'', PInt 2),
           (''name'', PStr ''Determine Action''),
           (''instruction'', PStr ''Based on days overdue, recommend action.''),
           (''guidance'', PStr (''1-7 days: suggest gentle reminder'' @ newline @ ''7-14 days: suggest firm reminder with deadline''
            @ newline @ ''14+ days: suggest escalation to manager'' @ newline
            @ ''If audit <30 days away AND control critical: escalate immediately'')),
           (''decision_point'', PStr ''Ask user: remind, escalate, or reassign?'')],
         PDict [(''step'', PInt 3),
           (''name'', PStr ''Execute Action''),
           (''instruction'', PStr ''Execute the chosen action (remind, escalate, or reassign).''),
           (''tool'', PStr ''escalation.send_reminder''),
           (''confirmation_required'', PBool True)],
         PDict [(''step'', PInt 4),
           (''name'', PStr ''Record & Schedule Follow-up''),
           (''instruction'', PStr ''Update task, set follow-up reminder.''),
           (''tool'', PStr ''escalation.set_due_dates'')]]),
      (''on_stuck'', PStr ''Save progress. Note which overdue items were reviewed.''),
      (''on_complete'', PStr ''Confirm actions taken. Show updated overdue list.'')]"

definition audit_testing_playbook :: "(string \<times> pyval) list" where
  "audit_testing_playbook =
     [(''id'', PStr ''playbook/audit_testing''),
      (''name'', PStr ''Test a Control During Audit''),
      (''role'', PList [PStr ''auditor'']),
      (''steps'', PList
        [PDict [(''step'', PInt 1),
           (''name'', PStr ''Select Control''),
           (''instruction'', PStr ''Show untested controls. Let auditor pick or go in order.''),
           (''tool'', PStr ''audit.generate_checklist'')],
         PDict [(''step'', PInt 2),
           (''name'', PStr ''Present Evidence''),
           (''instruction'', PStr ''Show all evidence for this control - files, AI evaluation, history.''),
           (''tool'', PStr ''evidence.check_coverage'')],
         PDict [(''step'', PInt 3),
           (''name'', PStr ''Present AI Assessment''),
           (''instruction'', PStr ''Show prior AI evaluation result as reference (not as the audit opinion).''),
           (''guidance'', PStr (''Present as: 'AI assessment found: [status] with [confidence]%'' @ [CHR 0x27] @ newline
            @ ''Clarify: 'This is AI analysis, not the audit opinion. You decide.'' @ [CHR 0x27] @ newline
            @ ''Show: gaps found, evidence reviewed, testing procedures used''))],
         PDict [(''step'', PInt 4),
           (''name'', PStr ''Record Test Result''),
           (''instruction'', PStr ''Ask auditor for their test result and notes.''),
           (''tool'', PStr ''audit.test_control'')],
         PDict [(''step'', PInt 5),
           (''name'', PStr ''Log Findings''),
           (''instruction'', PStr ''Help auditor document the finding with severity and remediation.''),
           (''tool'', PStr ''audit.create_finding''),
           (''condition'', PStr ''result is fail or partial'')],
         PDict [(''step'', PInt 6),
           (''name'', PStr ''Next Control''),
           (''instruction'', PStr ''Show progress (X/Y tested). Offer next control.''),
           (''loop_to'', PInt 1)]]),
      (''on_stuck'', PStr ''Save which control was being tested and resume there.''),
      (''on_complete'', PStr ''Show final audit progress. All controls tested.'')]"

definition default_playbooks :: "(string \<times> (string \<times> pyval) list) list" where
  "default_playbooks =
     [(''playbook/evidence_collection'', evidence_collection_playbook),
      (''playbook/escalation_handling'', escalation_handling_playbook),
      (''playbook/audit_testing'', audit_testing_playbook)]"

section \<open>Loading\<close>

definition hashable :: "pyval \<Rightarrow> bool" where
  "hashable k \<longleftrightarrow> (case k of PList _ \<Rightarrow> False | PDict _ \<Rightarrow> False | _ \<Rightarrow> True)"

text \<open>\<^verbatim>\<open>key in v\<close> for a string key.\<close>

definition py_contains :: "string \<Rightarrow> pyval \<Rightarrow> py_exn + bool" where
  "py_contains k v =
     (case v of
        PDict d \<Rightarrow> Inr (dict_has d k)
      | PStr t \<Rightarrow> Inr (str_in k t)
      | PList vs \<Rightarrow> Inr (PStr k \<in> set vs)
      | _ \<Rightarrow> Inl TypeError)"

definition unnest_playbook :: "pyval \<Rightarrow> py_exn + pyval" where
  "unnest_playbook v =
     (case (py_contains ''steps'' v, py_contains ''skill_data'' v) of
        (Inr False, Inr True) \<Rightarrow>
          (case v of
             PDict d \<Rightarrow> Inr (dict_get_default d ''skill_data'' PNone)
           | _ \<Rightarrow> Inl TypeError)
      | (Inl e, _) \<Rightarrow> Inl e
      | _ \<Rightarrow> Inr v)"

definition default_playbook :: "pyval \<Rightarrow> (string \<times> pyval) list option" where
  "default_playbook i = (case i of PStr t \<Rightarrow> dict_get default_playbooks t | _ \<Rightarrow> None)"

definition cache_playbook :: "pyval \<Rightarrow> pyval \<Rightarrow> (('w, 'z) proc_scheme, pyval) op" where
  "cache_playbook i playbook s = (Inr playbook, s\<lparr>pr_playbook_cache := dict_set i playbook (pr_playbook_cache s)\<rparr>)"

definition load_playbook :: "'w env \<Rightarrow> pyval \<Rightarrow> string \<Rightarrow> (('w, 'z) proc_scheme, pyval) op" where
  "load_playbook v i tenant_id =
     (if \<not> hashable i then py_raise TypeError
      else py_then (py_get (\<lambda>s. dict_get (pr_playbook_cache s) i))
        (\<lambda>cached. case cached of
           Some playbook \<Rightarrow> py_return playbook
         | None \<Rightarrow>
             py_then (py_world (skill_recall (en_app v) (en_memory v) tenant_id (Some i)))
               (\<lambda>results.
                  if py_truthy results
                  then py_then (py_of (unnest_playbook (first_result results))) (cache_playbook i)
                  else (case default_playbook i of
                          Some d \<Rightarrow> cache_playbook i (PDict d)
                        | None \<Rightarrow> py_return (PDict [])))))"

section \<open>Steps\<close>

text \<open>The first step whose number is the wanted one; the loop stops there.\<close>

fun find_step :: "pyval \<Rightarrow> pyval list \<Rightarrow> py_exn + pyval option" where
  "find_step step [] = Inr None"
| "find_step step (x # xs) =
     (case get_item x ''step'' PNone of
        Inl e \<Rightarrow> Inl e
      | Inr n \<Rightarrow> if py_equal n step then Inr (Some x) else find_step step xs)"

definition py_len :: "pyval \<Rightarrow> py_exn + nat" where
  "py_len v = (case v of PStr t \<Rightarrow> Inr (length t) | PList vs \<Rightarrow> Inr (length vs) | PDict d \<Rightarrow> Inr (length d) | _ \<Rightarrow> Inl TypeError)"

definition optional_line :: "(pyval \<Rightarrow> string) \<Rightarrow> (string \<times> pyval) list \<Rightarrow> string \<Rightarrow> string \<Rightarrow> string list" where
  "optional_line render step key label =
     (let x = dict_get_default step key PNone in if py_truthy x then [label @ py_str render x] else [])"

definition step_lines ::
    "(pyval \<Rightarrow> string) \<Rightarrow> pyval \<Rightarrow> (string \<times> pyval) list \<Rightarrow> pyval \<Rightarrow> nat \<Rightarrow> (string \<times> pyval) list
       \<Rightarrow> (string \<times> pyval) list \<Rightarrow> string list" where
  "step_lines render i playbook step step_count current ctx =
     [''Playbook: '' @ py_str render (dict_get_default playbook ''name'' i),
      ''Step '' @ py_str render step @ ''/'' @ nat_str step_count @ '': '' @ py_str render (dict_get_default current ''name'' (PStr [])),
      [],
      ''Instruction: '' @ py_str render (dict_get_default current ''instruction'' (PStr []))]
     @ optional_line render current ''guidance'' (newline @ ''Guidance:'' @ newline)
     @ optional_line render current ''tool'' (newline @ ''Use tool: '')
     @ optional_line render current ''success'' ''Success criteria: ''
     @ optional_line render current ''decision_point'' (newline @ ''Decision point: '')
     @ optional_line render current ''condition'' ''Condition: ''
     @ optional_line render current ''skip_if'' ''Skip if: ''
     @ (if py_truthy (dict_get_default current ''confirmation_required'' PNone)
        then [''Note: This action requires user confirmation before executing.''] else [])
     @ optional_line render current ''on_fail'' ''On failure: ''
     @ (if ctx = [] then []
        else (newline @ ''Context from prior steps:'') # map (\<lambda>(k, x). ''- '' @ k @ '': '' @ py_str render x) ctx)
     @ optional_line render playbook ''on_stuck'' (newline @ ''If stuck: '')"

definition step_prompt ::
    "(pyval \<Rightarrow> string) \<Rightarrow> pyval \<Rightarrow> pyval \<Rightarrow> pyval \<Rightarrow> (string \<times> pyval) list \<Rightarrow> py_exn + string" where
  "step_prompt render i playbook step ctx =
     (if \<not> py_truthy playbook then Inr []
      else (case get_item playbook ''steps'' (PList []) of
        Inl e \<Rightarrow> Inl e
      | Inr steps \<Rightarrow>
          (case (py_len steps, Option.bind (py_iter steps) (\<lambda>xs. Some (find_step step xs))) of
             (Inr step_count, Some (Inr (Some (PDict current)))) \<Rightarrow>
               if current = [] then Inr []
               else (case playbook of
                       PDict d \<Rightarrow> Inr (str_join newline (step_lines render i d step step_count current ctx))
                     | _ \<Rightarrow> Inl AttributeError)
           | (Inr step_count, Some (Inr _)) \<Rightarrow> Inr []
           | (Inr step_count, Some (Inl e)) \<Rightarrow> Inl e
           | _ \<Rightarrow> Inl TypeError)))"

definition get_step_prompt ::
    "'w env \<Rightarrow> pyval \<Rightarrow> pyval \<Rightarrow> (string \<times> pyval) list \<Rightarrow> string \<Rightarrow> (('w, 'z) proc_scheme, string) op" where
  "get_step_prompt v i step ctx tenant_id =
     py_then (load_playbook v i tenant_id) (\<lambda>playbook. py_of (step_prompt (en_render v) i playbook step ctx))"

section \<open>Moving on\<close>

definition complete_playbook :: "session_state \<Rightarrow> session_state" where
  "complete_playbook session =
     session\<lparr>ss_active_playbook := None, ss_playbook_step := PInt 0, ss_playbook_data := []\<rparr>"

definition num_less :: "pyfloat \<Rightarrow> pyfloat \<Rightarrow> bool" where
  "num_less a b \<longleftrightarrow>
     (case (a, b) of
        (Fin x, Fin y) \<Rightarrow> x < y
      | (NegInf, Fin _) \<Rightarrow> True
      | (NegInf, PosInf) \<Rightarrow> True
      | (Fin _, PosInf) \<Rightarrow> True
      | _ \<Rightarrow> False)"

text \<open>\<^verbatim>\<open>max(s.get("step", 0) for s in steps)\<close>: numbers only compare with numbers.\<close>

definition step_number :: "pyval \<Rightarrow> py_exn + pyfloat" where
  "step_number x =
     (case get_item x ''step'' (PInt 0) of
        Inl e \<Rightarrow> Inl e
      | Inr n \<Rightarrow> (case as_number n of None \<Rightarrow> Inl TypeError | Some k \<Rightarrow> Inr k))"

definition max_number :: "pyfloat list \<Rightarrow> pyfloat" where
  "max_number ks = foldl (\<lambda>m k. if num_less m k then k else m) (hd ks) (tl ks)"

definition py_plus_one :: "pyval \<Rightarrow> py_exn + pyval" where
  "py_plus_one x =
     (case x of
        PInt n \<Rightarrow> Inr (PInt (n + 1))
      | PBool b \<Rightarrow> Inr (PInt (if b then 2 else 1))
      | PFloat f \<Rightarrow> Inr (PFloat (pf_add f (Fin 1)))
      | _ \<Rightarrow> Inl TypeError)"

definition next_step :: "pyval list \<Rightarrow> session_state \<Rightarrow> py_exn + session_state" where
  "next_step steps session =
     (case py_plus_one (ss_playbook_step session) of
        Inl e \<Rightarrow> Inl e
      | Inr n \<Rightarrow>
          (case exn_map step_number steps of
             Inl e \<Rightarrow> Inl e
           | Inr ks \<Rightarrow>
               (case as_number n of
                  None \<Rightarrow> Inl TypeError
                | Some k \<Rightarrow> Inr (if num_less (max_number ks) k then complete_playbook session
                               else session\<lparr>ss_playbook_step := n\<rparr>))))"

definition advance_in :: "pyval \<Rightarrow> session_state \<Rightarrow> py_exn + session_state" where
  "advance_in playbook session =
     (if \<not> py_truthy playbook then Inr session
      else (case get_item playbook ''steps'' (PList []) of
        Inl e \<Rightarrow> Inl e
      | Inr steps \<Rightarrow>
          (case iter_of steps of
             Inl e \<Rightarrow> Inl e
           | Inr xs \<Rightarrow>
               (case find_step (ss_playbook_step session) xs of
                  Inl e \<Rightarrow> Inl e
                | Inr found \<Rightarrow>
                    (case found of
                       Some (PDict current) \<Rightarrow>
                         if current = [] then Inr (complete_playbook session)
                         else (let target = dict_get_default current ''loop_to'' PNone
                               in if py_truthy target then Inr (session\<lparr>ss_playbook_step := target\<rparr>)
                                  else next_step xs session)
                     | _ \<Rightarrow> Inr (complete_playbook session))))))"

definition advance_step :: "'w env \<Rightarrow> session_state \<Rightarrow> (('w, 'z) proc_scheme, session_state) op" where
  "advance_step v session =
     (case ss_active_playbook session of
        None \<Rightarrow> py_return session
      | Some i \<Rightarrow>
          if \<not> py_truthy i then py_return session
          else py_then (load_playbook v i (ss_tenant_id session)) (\<lambda>playbook. py_of (advance_in playbook session)))"

definition skip_step :: "'w env \<Rightarrow> session_state \<Rightarrow> (('w, 'z) proc_scheme, session_state) op" where
  "skip_step v session = advance_step v session"

section \<open>Properties\<close>

text \<open>The steps of a playbook that is numbered from 1 and never jumps.\<close>

definition linear_steps :: "pyval list \<Rightarrow> bool" where
  "linear_steps xs \<longleftrightarrow>
     (\<forall>i < length xs. \<exists>d. xs ! i = PDict d \<and> dict_get d ''step'' = Some (PInt (int i + 1))
        \<and> \<not> py_truthy (dict_get_default d ''loop_to'' PNone))"

fun turns :: "'w env \<Rightarrow> nat \<Rightarrow> session_state \<Rightarrow> (('w, 'z) proc_scheme, session_state) op" where
  "turns v 0 session = py_return session"
| "turns v (Suc n) session = py_then (advance_step v session) (turns v n)"

lemma py_equal_int [simp]: "py_equal (PInt a) (PInt b) \<longleftrightarrow> a = b"
  by (simp add: py_equal_def)

lemma find_step_numbered:
  assumes "\<forall>i < length xs. \<exists>d. xs ! i = PDict d \<and> dict_get d ''step'' = Some (PInt (int (i + m) + 1))"
  shows "find_step (PInt k) xs = Inr (if int m < k \<and> k \<le> int (m + length xs) then Some (xs ! (nat k - m - 1)) else None)"
  using assms
proof (induction xs arbitrary: m)
  case (Cons x xs)
  obtain d where d: "x = PDict d" "dict_get d ''step'' = Some (PInt (int m + 1))" using Cons.prems by force
  have "\<forall>i < length xs. \<exists>d. xs ! i = PDict d \<and> dict_get d ''step'' = Some (PInt (int (i + Suc m) + 1))"
  proof (intro allI impI)
    fix i assume "i < length xs"
    then have "Suc i < length (x # xs)" by simp
    with Cons.prems show "\<exists>d. xs ! i = PDict d \<and> dict_get d ''step'' = Some (PInt (int (i + Suc m) + 1))"
      by fastforce
  qed
  from Cons.IH [OF this] have IH: "find_step (PInt k) xs
      = Inr (if int (Suc m) < k \<and> k \<le> int (Suc m + length xs) then Some (xs ! (nat k - Suc m - 1)) else None)" .
  show ?case
  proof (cases "k = int m + 1")
    case True
    then show ?thesis by (simp add: d get_item_def)
  next
    case False
    have "nat k - m - 1 = Suc (nat k - Suc m - 1)" if "int (Suc m) < k" using that by arith
    then show ?thesis using False IH by (auto simp: d get_item_def)
  qed
qed simp

lemma exn_map_numbers:
  assumes "\<forall>i < length xs. \<exists>d. xs ! i = PDict d \<and> dict_get d ''step'' = Some (PInt (int (i + m) + 1))"
  shows "exn_map step_number xs = Inr (map (\<lambda>i. Fin (real (i + m) + 1)) [0..<length xs])"
  using assms
proof (induction xs arbitrary: m)
  case (Cons x xs)
  obtain d where d: "x = PDict d" "dict_get d ''step'' = Some (PInt (int m + 1))" using Cons.prems by force
  have "\<forall>i < length xs. \<exists>d. xs ! i = PDict d \<and> dict_get d ''step'' = Some (PInt (int (i + Suc m) + 1))"
  proof (intro allI impI)
    fix i assume "i < length xs"
    then have "Suc i < length (x # xs)" by simp
    with Cons.prems show "\<exists>d. xs ! i = PDict d \<and> dict_get d ''step'' = Some (PInt (int (i + Suc m) + 1))"
      by fastforce
  qed
  from Cons.IH [OF this] show ?case
    by (simp add: d step_number_def get_item_def map_upt_Suc algebra_simps del: upt_Suc)
qed simp

lemma max_number_upt:
  "0 < n \<Longrightarrow> max_number (map (\<lambda>i. Fin (real i + 1)) [0..<n]) = Fin (real n)"
proof (induction n)
  case (Suc n)
  show ?case
  proof (cases n)
    case 0
    then show ?thesis by (simp add: max_number_def)
  next
    case (Suc k)
    let ?f = "\<lambda>i. Fin (real i + 1)"
    have ne: "map ?f [0..<n] \<noteq> []" using Suc by simp
    have "max_number (map ?f [0..<Suc n]) = (\<lambda>m k. if num_less m k then k else m) (max_number (map ?f [0..<n])) (?f n)"
      using ne by (simp add: max_number_def hd_append tl_append split: list.splits)
    then show ?thesis using Suc.IH Suc by (simp add: num_less_def)
  qed
qed simp

lemma advance_linear:
  assumes pb: "dict_get pb ''steps'' = Some (PList xs)" and lin: "linear_steps xs"
    and step: "ss_playbook_step session = PInt k" "1 \<le> k" "k \<le> int (length xs)"
  shows "advance_in (PDict pb) session =
    Inr (if k < int (length xs) then session\<lparr>ss_playbook_step := PInt (k + 1)\<rparr> else complete_playbook session)"
proof -
  have num: "\<forall>i < length xs. \<exists>d. xs ! i = PDict d \<and> dict_get d ''step'' = Some (PInt (int (i + 0) + 1))"
    using lin by (auto simp: linear_steps_def)
  let ?i = "nat k - 1"
  have i: "?i < length xs" using step by linarith
  then obtain d where d: "xs ! ?i = PDict d" "dict_get d ''step'' = Some (PInt (int ?i + 1))"
      "\<not> py_truthy (dict_get_default d ''loop_to'' PNone)"
    using lin unfolding linear_steps_def by blast
  have found: "find_step (PInt k) xs = Inr (Some (PDict d))"
    using find_step_numbered [OF num, of k] step d(1) by simp
  have "d \<noteq> []" using d(2) by auto
  moreover have "next_step xs session = Inr (if k < int (length xs) then session\<lparr>ss_playbook_step := PInt (k + 1)\<rparr>
      else complete_playbook session)"
  proof -
    have "exn_map step_number xs = Inr (map (\<lambda>i. Fin (real i + 1)) [0..<length xs])"
      using exn_map_numbers [OF num] by simp
    moreover have "max_number (map (\<lambda>i. Fin (real i + 1)) [0..<length xs]) = Fin (real (length xs))"
      using i by (intro max_number_upt) auto
    moreover have "num_less (Fin (real (length xs))) (Fin (real_of_int (k + 1))) \<longleftrightarrow> \<not> k < int (length xs)"
      by (simp add: num_less_def) linarith
    ultimately show ?thesis by (simp add: next_step_def py_plus_one_def step(1))
  qed
  moreover have "py_truthy (PDict pb)" using pb by (auto simp: py_truthy_def)
  ultimately show ?thesis
    using pb d(3) found by (simp add: advance_in_def get_item_def iter_of_def step(1) Let_def)
qed

lemma advance_cached:
  assumes "dict_get (pr_playbook_cache s) i = Some pb" and "hashable i" and "py_truthy i"
    and "ss_active_playbook session = Some i"
  shows "advance_step v session s = (advance_in pb session, s)"
  using assms by (simp add: advance_step_def load_playbook_def py_then_def py_get_def py_return_def py_of_def)

lemma turns_done:
  assumes "ss_active_playbook session = None"
  shows "turns v n session s = (Inr session, s)"
  using assms by (induction n) (simp_all add: advance_step_def py_then_def py_return_def)

text \<open>
  C20 (playbooks end): a session that follows a playbook whose steps are numbered from 1 and never jump is,
  after m turns from step k, at step k + m; and it has left the playbook, with the playbook's state cleared, from the turn
  after the last step on. So such a playbook ends after exactly as many turns as steps are left.
\<close>

theorem playbook_ends:
  assumes "dict_get (pr_playbook_cache s) i = Some (PDict pb)" and "hashable i" and "py_truthy i"
    and "ss_active_playbook session = Some i"
    and "dict_get pb ''steps'' = Some (PList xs)" and "linear_steps xs"
    and "ss_playbook_step session = PInt k" and "1 \<le> k" and "k \<le> int (length xs)"
  shows "turns v m session s =
    (Inr (if k + int m \<le> int (length xs) then session\<lparr>ss_playbook_step := PInt (k + int m)\<rparr>
          else complete_playbook session), s)"
  using assms
proof (induction m arbitrary: session k)
  case 0
  have "session = session\<lparr>ss_playbook_step := PInt k\<rparr>" using 0 by simp
  then show ?case using 0 by (simp add: py_return_def)
next
  case (Suc m)
  have adv: "advance_step v session s =
      (Inr (if k < int (length xs) then session\<lparr>ss_playbook_step := PInt (k + 1)\<rparr> else complete_playbook session), s)"
    using Suc.prems by (simp add: advance_cached advance_linear)
  show ?case
  proof (cases "k < int (length xs)")
    case True
    let ?next = "session\<lparr>ss_playbook_step := PInt (k + 1)\<rparr>"
    have "turns v m ?next s = (Inr (if k + 1 + int m \<le> int (length xs) then ?next\<lparr>ss_playbook_step := PInt (k + 1 + int m)\<rparr>
          else complete_playbook ?next), s)"
      using Suc.prems True by (intro Suc.IH) auto
    then show ?thesis using adv True by (simp add: py_then_def complete_playbook_def algebra_simps)
  next
    case False
    then show ?thesis using adv turns_done [of "complete_playbook session" v m s]
      by (simp add: py_then_def complete_playbook_def)
  qed
qed

definition playbook_steps :: "(string \<times> pyval) list \<Rightarrow> pyval list" where
  "playbook_steps pb = (case dict_get_default pb ''steps'' (PList []) of PList xs \<Rightarrow> xs | _ \<Rightarrow> [])"

lemma collection_linear: "linear_steps (playbook_steps evidence_collection_playbook)"
  by (auto simp: linear_steps_def playbook_steps_def evidence_collection_playbook_def dict_get_default_def py_truthy_def
      less_Suc_eq numeral_eq_Suc)

definition collecting :: session_state where
  "collecting = (new_session ''s'' ''t'' ''u'' ''contributor'')
     \<lparr>ss_active_playbook := Some (PStr ''playbook/evidence_collection''), ss_playbook_step := PInt 1\<rparr>"

definition playbook_proc :: "unit proc" where
  "playbook_proc = empty_proc
     \<lparr>pr_playbook_cache := map (\<lambda>(i, d). (PStr i, PDict d)) default_playbooks\<rparr>"

theorem playbook_ends_witness:
  "turns silent_env 4 collecting playbook_proc = (Inr (collecting\<lparr>ss_playbook_step := PInt 5\<rparr>), playbook_proc)
   \<and> turns silent_env 5 collecting playbook_proc = (Inr (complete_playbook collecting), playbook_proc)"
proof -
  let ?i = "PStr ''playbook/evidence_collection''" and ?pb = evidence_collection_playbook
  have "dict_get (pr_playbook_cache playbook_proc) ?i = Some (PDict ?pb)"
    by (simp add: playbook_proc_def default_playbooks_def)
  moreover have "hashable ?i" "py_truthy ?i" by (simp_all add: hashable_def py_truthy_def)
  moreover have "dict_get ?pb ''steps'' = Some (PList (playbook_steps ?pb))" "length (playbook_steps ?pb) = 5"
    by (simp_all add: playbook_steps_def evidence_collection_playbook_def dict_get_default_def)
  moreover note collection_linear
  ultimately have "turns silent_env m collecting playbook_proc =
    (Inr (if 1 + int m \<le> int (length (playbook_steps ?pb)) then collecting\<lparr>ss_playbook_step := PInt (1 + int m)\<rparr>
          else complete_playbook collecting), playbook_proc)" for m
    by (intro playbook_ends) (simp_all add: collecting_def)
  from this [of 4] this [of 5] show ?thesis using \<open>length (playbook_steps ?pb) = 5\<close> by simp
qed

text \<open>A step of the audit playbook leads to the next one, and the last one back to the first.\<close>

lemma audit_advance:
  assumes "k \<in> {1, 2, 3, 4, 5, 6}" and "ss_playbook_step session = PInt k"
  shows "advance_in (PDict audit_testing_playbook) session
    = Inr (session\<lparr>ss_playbook_step := PInt (if k = 6 then 1 else k + 1)\<rparr>)"
  using assms
  by (auto simp: advance_in_def audit_testing_playbook_def py_truthy_def get_item_def dict_get_default_def iter_of_def
      next_step_def py_plus_one_def step_number_def max_number_def num_less_def Let_def)

text \<open>
  (the audit playbook never ends): a session that follows the built-in audit playbook stays in it for ever:
  after any number of turns it is at one of the six steps, so the playbook's \<^verbatim>\<open>on_complete\<close> is never reached and no
  other playbook is ever activated for the session.
\<close>

theorem audit_playbook_never_ends:
  assumes "dict_get (pr_playbook_cache s) (PStr i) = Some (PDict audit_testing_playbook)" and "i \<noteq> []"
    and "ss_active_playbook session = Some (PStr i)"
    and "ss_playbook_step session = PInt k" and "k \<in> {1, 2, 3, 4, 5, 6}"
  shows "\<exists>k' \<in> {1, 2, 3, 4, 5, 6}. turns v m session s = (Inr (session\<lparr>ss_playbook_step := PInt k'\<rparr>), s)"
  using assms
proof (induction m arbitrary: session k)
  case 0
  have "session = session\<lparr>ss_playbook_step := PInt k\<rparr>" using 0 by simp
  then show ?case using 0 by (auto simp: py_return_def)
next
  case (Suc m)
  let ?k = "if k = 6 then 1 else k + 1" and ?next = "\<lambda>k. session\<lparr>ss_playbook_step := PInt k\<rparr>"
  have "advance_step v session s = (Inr (?next ?k), s)"
    using Suc.prems by (simp add: advance_cached hashable_def py_truthy_def audit_advance)
  moreover have "\<exists>k' \<in> {1, 2, 3, 4, 5, 6}. turns v m (?next ?k) s = (Inr ((?next ?k)\<lparr>ss_playbook_step := PInt k'\<rparr>), s)"
    using Suc.prems by (intro Suc.IH [where k = ?k]) auto
  ultimately show ?case by (auto simp: py_then_def)
qed

theorem audit_playbook_never_ends_witness:
  "\<exists>k' \<in> {1, 2, 3, 4, 5, 6}. turns silent_env 100
      (collecting\<lparr>ss_active_playbook := Some (PStr ''playbook/audit_testing'')\<rparr>) playbook_proc
    = (Inr (collecting\<lparr>ss_active_playbook := Some (PStr ''playbook/audit_testing''), ss_playbook_step := PInt k'\<rparr>), playbook_proc)"
proof -
  have "dict_get (pr_playbook_cache playbook_proc) (PStr ''playbook/audit_testing'') = Some (PDict audit_testing_playbook)"
    by (simp add: playbook_proc_def default_playbooks_def)
  then show ?thesis by (rule audit_playbook_never_ends [where k = 1]) (simp_all add: collecting_def)
qed

end
