(* ===== verification/As_State.thy ===== *)
theory As_State
  imports As_Playbook "HOL-Library.Multiset"
begin

text \<open>
  What the assistant keeps about a user between sessions: the user state document
  (\<^verbatim>\<open>compliance-assistant/src/agent/user_state.py\<close>), the reflection at the end of a session
  (\<^verbatim>\<open>agent/reflection.py\<close>), and the queue of events drained at the start of one (\<^verbatim>\<open>agent/event_queue.py\<close>).

  A slice of a dict raises \<^verbatim>\<open>KeyError\<close> or \<^verbatim>\<open>TypeError\<close>, depending on the version of Python; the model has the
  latter. Either way the reflection ends without storing anything.
\<close>

section \<open>The user state document\<close>

record pending_action =
  pa_action :: string
  pa_created :: string
  pa_source :: string
  pa_due_date :: "string option"

record last_session =
  la_date :: string
  la_summary :: string

record working_patterns =
  wp_avg_session_length :: int
  wp_typical_session_time :: string
  wp_skills_most_used :: "string list"

record user_state_doc =
  ud_user_id :: string
  ud_tenant_id :: string
  ud_updated_at :: string
  ud_agent_name :: string
  ud_current_focus :: string
  ud_last_session :: "last_session option"
  ud_pending :: "pending_action list"
  ud_preferences :: "string list"
  ud_patterns :: working_patterns

definition new_user_state :: "string \<Rightarrow> string \<Rightarrow> string \<Rightarrow> user_state_doc" where
  "new_user_state user_id tenant_id agent_name =
     \<lparr>ud_user_id = user_id, ud_tenant_id = tenant_id, ud_updated_at = [], ud_agent_name = agent_name,
      ud_current_focus = [], ud_last_session = None, ud_pending = [], ud_preferences = [],
      ud_patterns = \<lparr>wp_avg_session_length = 0, wp_typical_session_time = [], wp_skills_most_used = []\<rparr>\<rparr>"

text \<open>\<^verbatim>\<open>model_dump(mode="json")\<close>\<close>

definition action_json :: "pending_action \<Rightarrow> pyval" where
  "action_json a =
     PDict [(''action'', PStr (pa_action a)), (''created'', PStr (pa_created a)), (''source'', PStr (pa_source a)),
       (''due_date'', str_json (pa_due_date a))]"

definition last_session_json :: "last_session option \<Rightarrow> pyval" where
  "last_session_json l =
     (case l of
        None \<Rightarrow> PNone
      | Some x \<Rightarrow> PDict [(''date'', PStr (la_date x)), (''summary'', PStr (la_summary x))])"

definition patterns_json :: "working_patterns \<Rightarrow> pyval" where
  "patterns_json p =
     PDict [(''avg_session_length'', PInt (wp_avg_session_length p)),
       (''typical_session_time'', PStr (wp_typical_session_time p)),
       (''skills_most_used'', PList (map PStr (wp_skills_most_used p)))]"

definition doc_json :: "user_state_doc \<Rightarrow> (string \<times> pyval) list" where
  "doc_json d =
     [(''user_id'', PStr (ud_user_id d)), (''tenant_id'', PStr (ud_tenant_id d)), (''updated_at'', PStr (ud_updated_at d)),
      (''agent_name'', PStr (ud_agent_name d)), (''current_focus'', PStr (ud_current_focus d)),
      (''last_session'', last_session_json (ud_last_session d)), (''pending_actions'', PList (map action_json (ud_pending d))),
      (''preferences'', PList (map PStr (ud_preferences d))), (''working_patterns'', patterns_json (ud_patterns d))]"

text \<open>Reading the document back: a required or an optional string, a list of strings, and the nested models.\<close>

definition req_str :: "(string \<times> pyval) list \<Rightarrow> string \<Rightarrow> string option" where
  "req_str d k = Option.bind (dict_get d k) as_str"

definition opt_str :: "(string \<times> pyval) list \<Rightarrow> string \<Rightarrow> string option" where
  "opt_str d k = (case dict_get d k of None \<Rightarrow> Some [] | Some v \<Rightarrow> as_str v)"

definition nullable_str :: "(string \<times> pyval) list \<Rightarrow> string \<Rightarrow> string option option" where
  "nullable_str d k =
     (case dict_get d k of
        None \<Rightarrow> Some None
      | Some PNone \<Rightarrow> Some None
      | Some v \<Rightarrow> map_option Some (as_str v))"

definition str_items :: "(string \<times> pyval) list \<Rightarrow> string \<Rightarrow> string list option" where
  "str_items d k =
     (case dict_get d k of
        None \<Rightarrow> Some []
      | Some (PList vs) \<Rightarrow> opt_map as_str vs
      | _ \<Rightarrow> None)"

definition parse_action :: "pyval \<Rightarrow> pending_action option" where
  "parse_action v =
     (case v of
        PDict d \<Rightarrow>
          (case (req_str d ''action'', req_str d ''created'', req_str d ''source'', nullable_str d ''due_date'') of
             (Some a, Some c, Some s, Some due) \<Rightarrow>
               Some \<lparr>pa_action = a, pa_created = c, pa_source = s, pa_due_date = due\<rparr>
           | _ \<Rightarrow> None)
      | _ \<Rightarrow> None)"

definition parse_last_session :: "(string \<times> pyval) list \<Rightarrow> last_session option option" where
  "parse_last_session d =
     (case dict_get d ''last_session'' of
        None \<Rightarrow> Some None
      | Some PNone \<Rightarrow> Some None
      | Some (PDict x) \<Rightarrow>
          (case (req_str x ''date'', req_str x ''summary'') of
             (Some a, Some b) \<Rightarrow> Some (Some \<lparr>la_date = a, la_summary = b\<rparr>)
           | _ \<Rightarrow> None)
      | _ \<Rightarrow> None)"

definition parse_patterns :: "(pyval \<Rightarrow> int option) \<Rightarrow> (string \<times> pyval) list \<Rightarrow> working_patterns option" where
  "parse_patterns lax_int d =
     (case dict_get_default d ''working_patterns'' (PDict []) of
        PDict x \<Rightarrow>
          (case (case dict_get x ''avg_session_length'' of None \<Rightarrow> Some 0 | Some n \<Rightarrow> lax_int n,
                 opt_str x ''typical_session_time'', str_items x ''skills_most_used'') of
             (Some n, Some t, Some sk) \<Rightarrow>
               Some \<lparr>wp_avg_session_length = n, wp_typical_session_time = t, wp_skills_most_used = sk\<rparr>
           | _ \<Rightarrow> None)
      | _ \<Rightarrow> None)"

definition parse_actions :: "(string \<times> pyval) list \<Rightarrow> pending_action list option" where
  "parse_actions d =
     (case dict_get d ''pending_actions'' of
        None \<Rightarrow> Some []
      | Some (PList vs) \<Rightarrow> opt_map parse_action vs
      | _ \<Rightarrow> None)"

definition parse_user_state :: "(pyval \<Rightarrow> int option) \<Rightarrow> (string \<times> pyval) list \<Rightarrow> user_state_doc option" where
  "parse_user_state lax_int d =
     (case (req_str d ''user_id'', req_str d ''tenant_id'', opt_str d ''updated_at'', opt_str d ''agent_name'',
            opt_str d ''current_focus'') of
        (Some u, Some t, Some at', Some name, Some focus) \<Rightarrow>
          (case (parse_last_session d, parse_actions d, str_items d ''preferences'', parse_patterns lax_int d) of
             (Some l, Some acts, Some prefs, Some p) \<Rightarrow>
               Some \<lparr>ud_user_id = u, ud_tenant_id = t, ud_updated_at = at', ud_agent_name = name, ud_current_focus = focus,
                     ud_last_session = l, ud_pending = acts, ud_preferences = prefs, ud_patterns = p\<rparr>
           | _ \<Rightarrow> None)
      | _ \<Rightarrow> None)"

section \<open>The text of a document\<close>

text \<open>\<^verbatim>\<open>json.dumps\<close> with its default separators; everything outside printable ASCII is escaped.\<close>

definition hex_digit :: "nat \<Rightarrow> char" where
  "hex_digit n = char_of (if n < 10 then n + 48 else n + 87)"

definition json_escape :: "char \<Rightarrow> string" where
  "json_escape c =
     (let n = of_char c :: nat; b = CHR 0x5C
      in if n = 34 \<or> n = 92 then [b, c]
         else if n = 10 then [b, CHR ''n'']
         else if n = 13 then [b, CHR ''r'']
         else if n = 9 then [b, CHR ''t'']
         else if n = 8 then [b, CHR ''b'']
         else if n = 12 then [b, CHR ''f'']
         else if n < 32 \<or> 126 < n then [b, CHR ''u'', CHR ''0'', CHR ''0'', hex_digit (n div 16), hex_digit (n mod 16)]
         else [c])"

definition dumps_str :: "string \<Rightarrow> string" where
  "dumps_str s = [CHR 0x22] @ concat (map json_escape s) @ [CHR 0x22]"

definition dumps_list :: "string list \<Rightarrow> string" where
  "dumps_list xs = ''['' @ str_join '', '' xs @ '']''"

definition dumps_dict :: "(string \<times> string) list \<Rightarrow> string" where
  "dumps_dict d = ''{'' @ str_join '', '' (map (\<lambda>(k, v). dumps_str k @ '': '' @ v) d) @ ''}''"

definition int_str :: "int \<Rightarrow> string" where
  "int_str n = (if n < 0 then ''-'' @ nat_str (nat (- n)) else nat_str (nat n))"

definition dumps_action :: "pending_action \<Rightarrow> string" where
  "dumps_action a =
     dumps_dict [(''action'', dumps_str (pa_action a)), (''created'', dumps_str (pa_created a)),
       (''source'', dumps_str (pa_source a)),
       (''due_date'', case pa_due_date a of None \<Rightarrow> ''null'' | Some t \<Rightarrow> dumps_str t)]"

definition dumps_doc :: "user_state_doc \<Rightarrow> string" where
  "dumps_doc d =
     dumps_dict
       [(''user_id'', dumps_str (ud_user_id d)), (''tenant_id'', dumps_str (ud_tenant_id d)),
        (''updated_at'', dumps_str (ud_updated_at d)), (''agent_name'', dumps_str (ud_agent_name d)),
        (''current_focus'', dumps_str (ud_current_focus d)),
        (''last_session'', case ud_last_session d of
           None \<Rightarrow> ''null''
         | Some l \<Rightarrow> dumps_dict [(''date'', dumps_str (la_date l)), (''summary'', dumps_str (la_summary l))]),
        (''pending_actions'', dumps_list (map dumps_action (ud_pending d))),
        (''preferences'', dumps_list (map dumps_str (ud_preferences d))),
        (''working_patterns'', dumps_dict
           [(''avg_session_length'', int_str (wp_avg_session_length (ud_patterns d))),
            (''typical_session_time'', dumps_str (wp_typical_session_time (ud_patterns d))),
            (''skills_most_used'', dumps_list (map dumps_str (wp_skills_most_used (ud_patterns d))))])]"

section \<open>The manager of the document\<close>

text \<open>\<^verbatim>\<open>_compact\<close>: the oldest pending actions go until the text fits or none is left.\<close>

fun drop_oldest :: "(pending_action list \<Rightarrow> nat) \<Rightarrow> pending_action list \<Rightarrow> pending_action list" where
  "drop_oldest size_of [] = []"
| "drop_oldest size_of (a # acts) =
     (if user_state_max_chars < size_of (a # acts) then drop_oldest size_of acts else a # acts)"

definition compact :: "user_state_doc \<Rightarrow> user_state_doc" where
  "compact d =
     d\<lparr>ud_pending := drop_oldest (\<lambda>acts. length (dumps_doc (d\<lparr>ud_pending := acts\<rparr>))) (ud_pending d)\<rparr>"

definition load_user_state :: "'w env \<Rightarrow> string \<Rightarrow> string \<Rightarrow> (('w, 'z) proc_scheme, user_state_doc option) op" where
  "load_user_state v user_id tenant_id =
     py_then (py_world (user_state_get (en_app v) (en_memory v) user_id tenant_id))
       (\<lambda>reply. py_return (case reply of
           PDict d \<Rightarrow> if d = [] then None else parse_user_state (en_lax_int v) d
         | _ \<Rightarrow> None))"

definition save_user_state :: "'w env \<Rightarrow> user_state_doc \<Rightarrow> (('w, 'z) proc_scheme, bool) op" where
  "save_user_state v doc =
     py_then (py_get (\<lambda>s. en_today v (pr_world s)))
       (\<lambda>today.
          (let doc = doc\<lparr>ud_updated_at := today\<rparr>;
               doc = (if user_state_max_chars < length (dumps_doc doc) then compact doc else doc)
           in py_world (user_state_put (en_app v) (en_memory v) (ud_user_id doc) (ud_tenant_id doc) (doc_json doc))))"

definition set_agent_name :: "'w env \<Rightarrow> string \<Rightarrow> string \<Rightarrow> string \<Rightarrow> (('w, 'z) proc_scheme, bool) op" where
  "set_agent_name v user_id tenant_id name =
     py_then (load_user_state v user_id tenant_id)
       (\<lambda>loaded.
          (let doc = (case loaded of None \<Rightarrow> new_user_state user_id tenant_id [] | Some d \<Rightarrow> d)
           in save_user_state v (doc\<lparr>ud_agent_name := str_strip (take 30 name)\<rparr>)))"

section \<open>Merging a reflection\<close>

text \<open>The four sliced fields of a reflection; a string is the list of its letters to everything that reads it.\<close>

record reflection =
  rf_accomplished :: pyval
  rf_pending :: pyval
  rf_commitments :: pyval
  rf_preferences :: pyval

definition items_of :: "pyval \<Rightarrow> pyval list" where
  "items_of v = (case py_iter v of None \<Rightarrow> [] | Some xs \<Rightarrow> xs)"

text \<open>\<^verbatim>\<open>"; ".join(items)\<close>: other items than strings raise.\<close>

definition py_join :: "string \<Rightarrow> pyval list \<Rightarrow> py_exn + string" where
  "py_join sep xs = (case opt_map as_str xs of None \<Rightarrow> Inl TypeError | Some ts \<Rightarrow> Inr (str_join sep ts))"

definition summary_of :: "pyval list \<Rightarrow> pyval list \<Rightarrow> py_exn + string" where
  "summary_of accomplished pending =
     (case (py_join ''; '' (take 3 accomplished), py_join ''; '' (take 2 pending)) of
        (Inr a, Inr p) \<Rightarrow>
          (let parts = (if accomplished = [] then [] else [a]) @ (if pending = [] then [] else [''Deferred: '' @ p])
           in Inr (if parts = [] then ''Brief session.'' else str_join ''. '' parts))
      | (Inl e, _) \<Rightarrow> Inl e
      | (_, Inl e) \<Rightarrow> Inl e)"

definition action_of :: "string \<Rightarrow> string \<Rightarrow> pyval \<Rightarrow> py_exn + pending_action" where
  "action_of today src item =
     (case str_valid item of
        Inl e \<Rightarrow> Inl e
      | Inr t \<Rightarrow> Inr \<lparr>pa_action = t, pa_created = today, pa_source = src, pa_due_date = None\<rparr>)"

fun add_preferences :: "string list \<Rightarrow> string list \<Rightarrow> string list" where
  "add_preferences prefs [] = prefs"
| "add_preferences prefs (p # ps) =
     add_preferences (if str_lower p \<in> set (map str_lower prefs) then prefs else prefs @ [p]) ps"

definition update_patterns :: "string option \<Rightarrow> int \<Rightarrow> working_patterns \<Rightarrow> working_patterns" where
  "update_patterns active_skill message_count p =
     (let p = (if 0 < message_count
               then p\<lparr>wp_avg_session_length :=
                      (if wp_avg_session_length p = 0 then message_count
                       else (wp_avg_session_length p + message_count) div 2)\<rparr>
               else p)
      in case active_skill of
           None \<Rightarrow> p
         | Some sk \<Rightarrow>
             if sk \<noteq> [] \<and> sk \<notin> set (wp_skills_most_used p)
             then p\<lparr>wp_skills_most_used := last_n 5 (wp_skills_most_used p @ [sk])\<rparr> else p)"

definition merge_texts ::
    "string \<Rightarrow> user_state_doc \<Rightarrow> string \<Rightarrow> string list \<Rightarrow> pending_action list \<Rightarrow> string list \<Rightarrow> string option \<Rightarrow> int \<Rightarrow> user_state_doc" where
  "merge_texts today doc summary accomplished acts new_prefs active_skill message_count =
     compact (doc\<lparr>
       ud_last_session := Some \<lparr>la_date = today, la_summary = summary\<rparr>,
       ud_current_focus := (case accomplished of [] \<Rightarrow> ud_current_focus doc | a # as \<Rightarrow> a),
       ud_pending := filter (\<lambda>a. str_lower (pa_action a) \<notin> set (map str_lower accomplished)) (ud_pending doc @ acts),
       ud_preferences := take max_preferences (add_preferences (ud_preferences doc) new_prefs),
       ud_patterns := update_patterns active_skill message_count (ud_patterns doc),
       ud_updated_at := today\<rparr>)"

text \<open>The values that become strings are checked in the order in which the code reads them.\<close>

definition merge_reflection ::
    "string \<Rightarrow> user_state_doc \<Rightarrow> reflection \<Rightarrow> string option \<Rightarrow> int \<Rightarrow> py_exn + user_state_doc" where
  "merge_reflection today doc r active_skill message_count =
     (let accomplished = items_of (rf_accomplished r); pending = items_of (rf_pending r);
          commitments = items_of (rf_commitments r)
      in case summary_of accomplished pending of
           Inl e \<Rightarrow> Inl e
         | Inr summary \<Rightarrow>
             (case exn_map (action_of today ''user_deferred'') (take 5 pending) of
                Inl e \<Rightarrow> Inl e
              | Inr deferred \<Rightarrow>
                  (case exn_map (action_of today ''agent_committed'') (take 3 commitments) of
                     Inl e \<Rightarrow> Inl e
                   | Inr committed \<Rightarrow>
                       (case (exn_map text_of accomplished, exn_map text_of (take 3 (items_of (rf_preferences r)))) of
                          (Inr finished, Inr prefs) \<Rightarrow>
                            Inr (merge_texts today doc summary finished (deferred @ committed) prefs active_skill message_count)
                        | (Inl e, _) \<Rightarrow> Inl e
                        | (_, Inl e) \<Rightarrow> Inl e))))"

section \<open>Reflection\<close>

definition goodbye_signals :: "string list" where
  "goodbye_signals =
     [''bye'', ''goodbye'', ''thanks'', ''done'', ''that's all'', ''talk later'', ''see you'', ''gotta go'', ''later'',
      ''thank you'', ''thx'', ''cheers'']"

text \<open>\<^verbatim>\<open>s.rstrip("!.,")\<close>\<close>

definition strip_marks :: "string \<Rightarrow> string" where
  "strip_marks s = rev (dropWhile (\<lambda>c. c \<in> {CHR ''!'', CHR ''.'', CHR '',''}) (rev s))"

definition should_reflect :: "session_state \<Rightarrow> string \<Rightarrow> bool" where
  "should_reflect session message =
     (if ss_message_count session < reflection_min_messages then False
      else if message \<noteq> [] \<and> strip_marks (str_strip (str_lower message)) \<in> set goodbye_signals then True
      else reflection_min_messages \<le> ss_message_count session)"

definition reflection_prompt :: "string \<Rightarrow> string" where
  "reflection_prompt conversation =
     ''Review this conversation between a compliance AI agent and a user.'' @ newline
     @ ''Extract the following as concise bullet points (max 3 per category):'' @ newline @ newline
     @ ''1. Accomplished: What was completed this session?'' @ newline
     @ ''2. Pending: What was discussed but not finished or deferred?'' @ newline
     @ ''3. Commitments: What did the agent promise to do or follow up on?'' @ newline
     @ ''4. Preferences: Any observed user preferences about communication or work style?'' @ newline @ newline
     @ ''Conversation:'' @ newline
     @ conversation @ newline @ newline @ ''Respond in JSON only:'' @ newline @ ''{'' @ [CHR 0x22] @ ''accomplished'' @ [CHR 0x22]
     @ '': ['' @ [CHR 0x22] @ ''...'' @ [CHR 0x22] @ ''], '' @ [CHR 0x22] @ ''pending'' @ [CHR 0x22] @ '': [''
     @ [CHR 0x22] @ ''...'' @ [CHR 0x22] @ ''], '' @ [CHR 0x22] @ ''commitments'' @ [CHR 0x22] @ '': ['' @ [CHR 0x22]
     @ ''...'' @ [CHR 0x22] @ ''], '' @ [CHR 0x22] @ ''preferences'' @ [CHR 0x22] @ '': ['' @ [CHR 0x22] @ ''...''
     @ [CHR 0x22] @ '']}''"

text \<open>\<^verbatim>\<open>x[:n]\<close>\<close>

definition py_slice :: "nat \<Rightarrow> pyval \<Rightarrow> py_exn + pyval" where
  "py_slice n x =
     (case x of PStr t \<Rightarrow> Inr (PStr (take n t)) | PList vs \<Rightarrow> Inr (PList (take n vs)) | _ \<Rightarrow> Inl TypeError)"

definition tool_line :: "(pyval \<Rightarrow> string) \<Rightarrow> pyval \<Rightarrow> py_exn + string" where
  "tool_line render content =
     (case py_len content of
        Inl e \<Rightarrow> Inl e
      | Inr n \<Rightarrow>
          if n \<le> 200 then Inr (''[tool result]: '' @ py_str render content)
          else (case content of
                  PStr t \<Rightarrow> Inr (''[tool result]: '' @ take 200 t @ ''...'')
                | _ \<Rightarrow> Inl TypeError))"

definition tool_call_name :: "pyval \<Rightarrow> py_exn + pyval" where
  "tool_call_name tc =
     (case get_item tc ''function'' (PDict []) of
        Inl e \<Rightarrow> Inl e
      | Inr f \<Rightarrow>
          (case get_item f ''name'' (PStr ''?'') of
             Inl e \<Rightarrow> Inl e
           | Inr n \<Rightarrow> get_item tc ''name'' n))"

definition assistant_lines :: "(pyval \<Rightarrow> string) \<Rightarrow> pyval \<Rightarrow> pyval \<Rightarrow> py_exn + string list" where
  "assistant_lines render content tool_calls =
     (case (if py_truthy content then map_sum id (\<lambda>c. [''Agent: '' @ py_str render c]) (py_slice 500 content) else Inr []) of
        Inl e \<Rightarrow> Inl e
      | Inr said \<Rightarrow>
          if \<not> py_truthy tool_calls then Inr said
          else (case iter_of tool_calls of
                  Inl e \<Rightarrow> Inl e
                | Inr tcs \<Rightarrow>
                    (case exn_map tool_call_name tcs of
                       Inl e \<Rightarrow> Inl e
                     | Inr ns \<Rightarrow> map_sum id (\<lambda>t. said @ [''Agent used tools: '' @ t]) (py_join '', '' ns))))"

definition message_lines :: "(pyval \<Rightarrow> string) \<Rightarrow> pyval \<Rightarrow> py_exn + string list" where
  "message_lines render msg =
     (case msg of
        PDict d \<Rightarrow>
          (let role = dict_get_default d ''role'' (PStr []); content = dict_get_default d ''content'' (PStr [])
           in if role = PStr ''system'' then Inr []
              else if role = PStr ''tool'' then map_sum id (\<lambda>t. [t]) (tool_line render content)
              else if role = PStr ''user'' then Inr [''User: '' @ py_str render content]
              else if role = PStr ''assistant''
              then assistant_lines render content (dict_get_default d ''tool_calls'' (PList []))
              else Inr [])
      | _ \<Rightarrow> Inl AttributeError)"

definition format_conversation :: "(pyval \<Rightarrow> string) \<Rightarrow> pyval list \<Rightarrow> py_exn + string" where
  "format_conversation render history =
     (case exn_map (message_lines render) (last_n reflection_max_history history) of
        Inl e \<Rightarrow> Inl e
      | Inr ls \<Rightarrow> Inr (str_join newline (concat ls)))"

definition unfence :: "string \<Rightarrow> string" where
  "unfence content =
     (if str_startswith content ''```''
      then str_join newline (filter (\<lambda>l. \<not> str_startswith l ''```'') (split_char (CHR 0x0A) content))
      else content)"

text \<open>\<^verbatim>\<open>data.get(key, [])[:3]\<close> of each field; \<^verbatim>\<open>JSONDecodeError\<close> and \<^verbatim>\<open>TypeError\<close> give None.\<close>

definition sliced_field :: "pyval \<Rightarrow> string \<Rightarrow> py_exn + pyval" where
  "sliced_field v k = (case get_item v k (PList []) of Inl e \<Rightarrow> Inl e | Inr x \<Rightarrow> py_slice 3 x)"

definition reflection_of :: "pyval \<Rightarrow> py_exn + reflection" where
  "reflection_of v =
     (case exn_map (sliced_field v) [''accomplished'', ''pending'', ''commitments'', ''preferences''] of
        Inr [a, p, c, f] \<Rightarrow> Inr \<lparr>rf_accomplished = a, rf_pending = p, rf_commitments = c, rf_preferences = f\<rparr>
      | Inr _ \<Rightarrow> Inl TypeError
      | Inl e \<Rightarrow> Inl e)"

definition parse_reflection :: "(string \<Rightarrow> pyval option) \<Rightarrow> pyval \<Rightarrow> py_exn + reflection option" where
  "parse_reflection loads content =
     (case text_of content of
        Inl e \<Rightarrow> Inl e
      | Inr t \<Rightarrow>
          (case loads (unfence (str_strip t)) of
             None \<Rightarrow> Inr None
           | Some v \<Rightarrow>
               (case reflection_of v of
                  Inl TypeError \<Rightarrow> Inr None
                | Inl e \<Rightarrow> Inl e
                | Inr r \<Rightarrow> Inr (Some r))))"

definition reflection_json :: "reflection \<Rightarrow> (string \<times> pyval) list" where
  "reflection_json r =
     [(''accomplished'', rf_accomplished r), (''pending'', rf_pending r), (''commitments'', rf_commitments r),
      (''preferences'', rf_preferences r)]"

definition labelled :: "string \<Rightarrow> nat \<Rightarrow> pyval \<Rightarrow> py_exn + string list" where
  "labelled label n x =
     (if py_truthy x then map_sum id (\<lambda>t. [label @ t]) (py_join ''; '' (take n (items_of x))) else Inr [])"

definition stored_summary :: "reflection \<Rightarrow> py_exn + string" where
  "stored_summary r =
     (case exn_map id [labelled ''Done: '' 3 (rf_accomplished r), labelled ''Pending: '' 3 (rf_pending r),
                      labelled ''Committed: '' 2 (rf_commitments r)] of
        Inl e \<Rightarrow> Inl e
      | Inr parts \<Rightarrow> Inr (str_join '' | '' (concat parts)))"

text \<open>The stored preferences are whatever the model answered: the client sends any value.\<close>

definition store_preference :: "'w env \<Rightarrow> string \<Rightarrow> pyval \<Rightarrow> (('w, 'z) proc_scheme, unit) op" where
  "store_preference v user_id pref =
     py_then (py_world (mc_post (en_app v) (en_memory v) [''v1'', ''user'', ''store'']
        [(''user_id'', PStr user_id), (''fact'', pref), (''category'', PStr ''preference'')])) (\<lambda>_. py_return ())"

definition store_reflection :: "'w env \<Rightarrow> reflection \<Rightarrow> string \<Rightarrow> string \<Rightarrow> string \<Rightarrow> (('w, 'z) proc_scheme, unit) op" where
  "store_reflection v r session_id user_id tenant_id =
     py_then (py_of (stored_summary r))
       (\<lambda>summary. py_then (py_world (interaction_store (en_app v) (en_memory v) user_id tenant_id ''session_reflection''
            ([(''session_id'', PStr session_id), (''summary'', PStr summary)] @ reflection_json r) None))
         (\<lambda>_. py_each (store_preference v user_id) (take 3 (items_of (rf_preferences r)))))"

text \<open>A request with the defaults of \<^verbatim>\<open>LLMClient.complete\<close>, and the call with a fresh trace identifier.\<close>

definition llm_ask :: "pyval list \<Rightarrow> string \<Rightarrow> string \<Rightarrow> client_request" where
  "llm_ask messages task tenant_id =
     \<lparr>lr_messages = messages, lr_task = task, lr_confidence_threshold = 0, lr_structured_output = None,
      lr_tools = None, lr_max_tokens = 4096, lr_temperature = 0, lr_tenant_id = Some tenant_id\<rparr>"

definition llm_call :: "'w env \<Rightarrow> client_request \<Rightarrow> (('w, 'z) proc_scheme, llm_response) op" where
  "llm_call v r = py_then (py_world (en_uuid v)) (\<lambda>_. py_then (py_world (llm_complete (en_post v) r)) py_of)"

definition chat_entry :: "string \<Rightarrow> pyval \<Rightarrow> pyval" where
  "chat_entry role content = PDict [(''role'', PStr role), (''content'', content)]"

definition ask_reflection :: "'w env \<Rightarrow> string \<Rightarrow> string \<Rightarrow> (('w, 'z) proc_scheme, llm_response option) op" where
  "ask_reflection v conversation tenant_id =
     py_catch
       (py_then (llm_call v ((llm_ask [chat_entry ''user'' (PStr (reflection_prompt conversation))]
            ''session_reflection'' tenant_id)\<lparr>lr_max_tokens := 500\<rparr>))
         (\<lambda>r. py_return (Some r)))
       (\<lambda>e. if llm_unavailable e then py_return None else py_raise e)"

definition reflect :: "'w env \<Rightarrow> session_state \<Rightarrow> string \<Rightarrow> string \<Rightarrow> (('w, 'z) proc_scheme, reflection option) op" where
  "reflect v session user_id tenant_id =
     py_then (py_of (format_conversation (en_render v) (ss_history session)))
       (\<lambda>conversation.
          if conversation = [] then py_return None
          else py_then (ask_reflection v conversation tenant_id)
            (\<lambda>response. case response of
               None \<Rightarrow> py_return None
             | Some r \<Rightarrow>
                 py_then (py_of (parse_reflection (en_loads v) (ll_content r)))
                   (\<lambda>parsed. case parsed of
                      None \<Rightarrow> py_return None
                    | Some noted \<Rightarrow>
                        py_then (store_reflection v noted (ss_session_id session) user_id tenant_id)
                          (\<lambda>_. py_return (Some noted)))))"

text \<open>
  \<^verbatim>\<open>_run_reflection\<close> of the loop, a background task that swallows every exception; the model runs it right after the
  answer that starts it.
\<close>

definition merge_and_save :: "'w env \<Rightarrow> session_state \<Rightarrow> user_state_doc \<Rightarrow> reflection \<Rightarrow> (('w, 'z) proc_scheme, unit) op" where
  "merge_and_save v session doc noted =
     py_then (py_get (\<lambda>s. en_today v (pr_world s)))
       (\<lambda>today. py_then (py_of (merge_reflection today doc noted (ss_active_skill session) (ss_message_count session)))
         (\<lambda>doc. py_then (save_user_state v doc) (\<lambda>_. py_return ())))"

definition run_reflection :: "'w env \<Rightarrow> session_state \<Rightarrow> string \<Rightarrow> string \<Rightarrow> (('w, 'z) proc_scheme, unit) op" where
  "run_reflection v session user_id tenant_id =
     py_catch
       (py_then (reflect v session user_id tenant_id)
         (\<lambda>result. case result of
            None \<Rightarrow> py_return ()
          | Some noted \<Rightarrow>
              py_then (load_user_state v user_id tenant_id)
                (\<lambda>loaded. merge_and_save v session
                   (case loaded of None \<Rightarrow> new_user_state user_id tenant_id (ss_agent_name session) | Some d \<Rightarrow> d) noted)))
       (\<lambda>e. py_return ())"

section \<open>The event queue\<close>

text \<open>\<^verbatim>\<open>PRIORITY_ORDER.get(e.get("priority", "low"), 2)\<close>\<close>

definition event_priority_rank :: "pyval \<Rightarrow> nat" where
  "event_priority_rank p = (if p = PStr ''high'' then 0 else if p = PStr ''medium'' then 1 else 2)"

definition event_rank :: "pyval \<Rightarrow> py_exn + nat" where
  "event_rank e =
     (case get_item e ''priority'' (PStr ''low'') of
        Inl x \<Rightarrow> Inl x
      | Inr p \<Rightarrow> if hashable p then Inr (event_priority_rank p) else Inl TypeError)"

definition drained :: "pyval \<Rightarrow> py_exn + pyval list" where
  "drained events =
     (if \<not> py_truthy events then Inr []
      else (case events of
              PList es \<Rightarrow>
                (case exn_map event_rank es of
                   Inl x \<Rightarrow> Inl x
                 | Inr ranks \<Rightarrow> Inr (map snd (sort_key fst (zip ranks es))))
            | _ \<Rightarrow> Inl AttributeError))"

definition drain_queue :: "'w env \<Rightarrow> string \<Rightarrow> string \<Rightarrow> (('w, 'z) proc_scheme, pyval list) op" where
  "drain_queue v user_id tenant_id =
     py_then (py_world (event_queue_drain (en_app v) (en_memory v) user_id tenant_id)) (\<lambda>events. py_of (drained events))"

definition event_field :: "string \<Rightarrow> pyval \<Rightarrow> string \<Rightarrow> pyval" where
  "event_field k e other = (case e of PDict d \<Rightarrow> dict_get_default d k (PStr other) | _ \<Rightarrow> PStr other)"

definition event_line :: "(pyval \<Rightarrow> string) \<Rightarrow> string \<Rightarrow> pyval \<Rightarrow> string" where
  "event_line render mark e =
     (if event_field ''priority'' e ''medium'' = PStr ''high'' then mark else ''-'') @ '' ''
     @ py_str render (event_field ''summary'' e [])"

definition commitment_lines :: "(pyval \<Rightarrow> string) \<Rightarrow> string \<Rightarrow> pyval list \<Rightarrow> string list" where
  "commitment_lines render title events =
     (let due = filter (\<lambda>e. event_field ''event_type'' e [] = PStr ''agent_commitment_due'') events
      in if due = [] then []
         else (newline @ title) # map (\<lambda>e. ''  - '' @ py_str render (event_field ''summary'' e [])) due)"

definition format_for_context :: "(pyval \<Rightarrow> string) \<Rightarrow> pyval list \<Rightarrow> string" where
  "format_for_context render events =
     (if events = [] then []
      else str_join newline
        ([''## Since Your Last Session''] @ map (event_line render ''!'') (take 10 events)
         @ commitment_lines render ''Due commitments:'' events))"

definition format_for_opener :: "(pyval \<Rightarrow> string) \<Rightarrow> pyval list \<Rightarrow> string" where
  "format_for_opener render events =
     (if events = [] then []
      else str_join newline
        (''Since your last session, the following happened:''
         # map (\<lambda>e. let src = event_field ''source_service'' e []
                    in ''- '' @ py_str render (event_field ''summary'' e [])
                       @ (if py_truthy src then '' (from '' @ py_str render src @ '')'' else [])) (take 10 events)))"

section \<open>Properties\<close>

text \<open>Documents survive being dumped and read.\<close>

lemma opt_map_inverse: "(\<And>x. f (g x) = Some x) \<Longrightarrow> opt_map f (map g xs) = Some xs"
  by (induction xs) auto

lemma parse_action_json: "parse_action (action_json a) = Some a"
  by (cases "pa_due_date a")
    (simp_all add: parse_action_def action_json_def req_str_def nullable_str_def str_json_def)

lemma doc_parsed:
  assumes "lax_int (PInt (wp_avg_session_length (ud_patterns d))) = Some (wp_avg_session_length (ud_patterns d))"
  shows "parse_user_state lax_int (doc_json d) = Some d"
  using assms
  by (cases "ud_last_session d")
    (simp_all add: parse_user_state_def doc_json_def req_str_def opt_str_def parse_last_session_def last_session_json_def
      parse_actions_def str_items_def parse_patterns_def patterns_json_def dict_get_default_def
      opt_map_inverse parse_action_json)

text \<open>
  (stored documents): a document reads back as it was dumped, provided pydantic accepts the integer in it.
\<close>

theorem user_state_doc_round_trip:
  assumes "lax_int (PInt (wp_avg_session_length (ud_patterns d))) = Some (wp_avg_session_length (ud_patterns d))"
  shows "parse_user_state lax_int (doc_json d) = Some d"
  using assms by (rule doc_parsed)

text \<open>What is left of the pending actions.\<close>

lemma drop_oldest_exact:
  "suffix (drop_oldest size_of acts) acts
   \<and> (drop_oldest size_of acts = [] \<or> size_of (drop_oldest size_of acts) \<le> user_state_max_chars)
   \<and> (\<forall>rest. suffix rest acts \<longrightarrow> rest \<noteq> [] \<longrightarrow> size_of rest \<le> user_state_max_chars \<longrightarrow> suffix rest (drop_oldest size_of acts))"
proof (induction acts)
  case (Cons a acts)
  show ?case
  proof (cases "user_state_max_chars < size_of (a # acts)")
    case True
    then have d: "drop_oldest size_of (a # acts) = drop_oldest size_of acts" by simp
    have "suffix rest acts" if "suffix rest (a # acts)" "size_of rest \<le> user_state_max_chars" for rest
      using that True by (auto simp: suffix_Cons)
    then show ?thesis using Cons.IH unfolding d by (metis suffix_ConsI)
  next
    case False
    then have "drop_oldest size_of (a # acts) = a # acts" by simp
    then show ?thesis using False by auto
  qed
qed simp

text \<open>
  (compaction): compacting a document drops its oldest pending actions and nothing else: of all the ways to
  keep a non-empty end of the list within the character limit, the longest; so the document fits afterwards unless it has
  no pending action left.
\<close>

theorem compaction_exact:
  "compact d = d\<lparr>ud_pending := ud_pending (compact d)\<rparr>
   \<and> suffix (ud_pending (compact d)) (ud_pending d)
   \<and> (ud_pending (compact d) = [] \<or> length (dumps_doc (compact d)) \<le> user_state_max_chars)
   \<and> (\<forall>acts. suffix acts (ud_pending d) \<longrightarrow> acts \<noteq> [] \<longrightarrow>
        length (dumps_doc (d\<lparr>ud_pending := acts\<rparr>)) \<le> user_state_max_chars \<longrightarrow> suffix acts (ud_pending (compact d)))"
proof -
  let ?size = "\<lambda>acts. length (dumps_doc (d\<lparr>ud_pending := acts\<rparr>))"
  have p: "ud_pending (compact d) = drop_oldest ?size (ud_pending d)" by (simp add: compact_def)
  have c: "compact d = d\<lparr>ud_pending := drop_oldest ?size (ud_pending d)\<rparr>" by (simp add: compact_def)
  show ?thesis using drop_oldest_exact [of ?size "ud_pending d"] unfolding p unfolding c by auto
qed

text \<open>Preferences are added once, whatever their case.\<close>

lemma add_preferences_distinct:
  "distinct (map str_lower prefs) \<Longrightarrow> distinct (map str_lower (add_preferences prefs ps))"
  by (induction prefs ps rule: add_preferences.induct) auto

lemma add_preferences_prefix: "prefix prefs (add_preferences prefs ps)"
  by (induction prefs ps rule: add_preferences.induct) (auto dest: append_prefixD)

lemma compact_keeps:
  "ud_preferences (compact d) = ud_preferences d" "ud_patterns (compact d) = ud_patterns d"
  "ud_user_id (compact d) = ud_user_id d" "ud_tenant_id (compact d) = ud_tenant_id d"
  "set (ud_pending (compact d)) \<subseteq> set (ud_pending d)"
proof -
  let ?size = "\<lambda>acts. length (dumps_doc (d\<lparr>ud_pending := acts\<rparr>))"
  have "suffix (drop_oldest ?size (ud_pending d)) (ud_pending d)" using drop_oldest_exact by blast
  then show "set (ud_pending (compact d)) \<subseteq> set (ud_pending d)"
    unfolding compact_def by (simp add: set_mono_suffix del: drop_oldest.simps)
qed (simp_all add: compact_def)

lemma compact_fits: "ud_pending (compact d) = [] \<or> length (dumps_doc (compact d)) \<le> user_state_max_chars"
  using drop_oldest_exact [of "\<lambda>acts. length (dumps_doc (d\<lparr>ud_pending := acts\<rparr>))" "ud_pending d"]
  unfolding compact_def by simp

text \<open>
  C18 (merging a reflection): the merged document belongs to the same user, has at most ten preferences, no two
  of which differ in case only if none did before, starts with the earlier ones, names at most five skills if it did
  before, fits the character limit unless no pending action is left, and no pending action in it was accomplished.
\<close>

theorem merge_invariant:
  assumes "merge_reflection today doc r active_skill message_count = Inr doc'"
    and "length (ud_preferences doc) \<le> max_preferences" and "distinct (map str_lower (ud_preferences doc))"
    and "length (wp_skills_most_used (ud_patterns doc)) \<le> 5"
  shows "ud_user_id doc' = ud_user_id doc \<and> ud_tenant_id doc' = ud_tenant_id doc
    \<and> length (ud_preferences doc') \<le> max_preferences \<and> distinct (map str_lower (ud_preferences doc'))
    \<and> prefix (ud_preferences doc) (ud_preferences doc')
    \<and> length (wp_skills_most_used (ud_patterns doc')) \<le> 5
    \<and> (ud_pending doc' = [] \<or> length (dumps_doc doc') \<le> user_state_max_chars)
    \<and> (\<forall>act \<in> set (ud_pending doc'). \<forall>t. PStr t \<in> set (items_of (rf_accomplished r)) \<longrightarrow>
         str_lower (pa_action act) \<noteq> str_lower t)"
proof -
  obtain summary finished acts prefs where
    m: "doc' = merge_texts today doc summary finished acts prefs active_skill message_count"
    and d: "exn_map text_of (items_of (rf_accomplished r)) = Inr finished"
    using assms(1) by (auto simp: merge_reflection_def Let_def split: sum.splits)
  have "t \<in> set finished" if "PStr t \<in> set xs" "exn_map text_of xs = Inr finished" for t xs
    using that by (induction xs arbitrary: finished) (auto simp: text_of_def split: sum.splits pyval.splits)
  then have seen: "t \<in> set finished" if "PStr t \<in> set (items_of (rf_accomplished r))" for t using that d by blast
  let ?raw = "doc\<lparr>ud_last_session := Some \<lparr>la_date = today, la_summary = summary\<rparr>,
       ud_current_focus := (case finished of [] \<Rightarrow> ud_current_focus doc | a # as \<Rightarrow> a),
       ud_pending := filter (\<lambda>a. str_lower (pa_action a) \<notin> set (map str_lower finished)) (ud_pending doc @ acts),
       ud_preferences := take max_preferences (add_preferences (ud_preferences doc) prefs),
       ud_patterns := update_patterns active_skill message_count (ud_patterns doc), ud_updated_at := today\<rparr>"
  have doc': "doc' = compact ?raw" unfolding m merge_texts_def ..
  have prefs: "prefix (ud_preferences doc) (take max_preferences (add_preferences (ud_preferences doc) prefs))"
    using add_preferences_prefix [of "ud_preferences doc" prefs] assms(2) by (auto simp: prefix_def)
  have dist: "distinct (map str_lower (take max_preferences (add_preferences (ud_preferences doc) prefs)))"
    using add_preferences_distinct [OF assms(3), of prefs] by (simp add: take_map [symmetric])
  have "length (wp_skills_most_used (update_patterns active_skill message_count (ud_patterns doc))) \<le> 5"
    using assms(4) by (auto simp: update_patterns_def Let_def split: option.splits)
  note skills = this
  have pending: "\<forall>act \<in> set (ud_pending doc'). \<forall>t. PStr t \<in> set (items_of (rf_accomplished r)) \<longrightarrow>
         str_lower (pa_action act) \<noteq> str_lower t"
  proof (intro ballI allI impI)
    fix act t assume "act \<in> set (ud_pending doc')" and t: "PStr t \<in> set (items_of (rf_accomplished r))"
    then have "act \<in> set (ud_pending ?raw)" using compact_keeps(5) [of ?raw] unfolding doc' by blast
    then have "str_lower (pa_action act) \<notin> set (map str_lower finished)" by auto
    then show "str_lower (pa_action act) \<noteq> str_lower t" using seen [OF t] by auto
  qed
  have fields: "ud_user_id doc' = ud_user_id doc" "ud_tenant_id doc' = ud_tenant_id doc"
    "ud_preferences doc' = take max_preferences (add_preferences (ud_preferences doc) prefs)"
    "ud_patterns doc' = update_patterns active_skill message_count (ud_patterns doc)"
    unfolding doc' compact_keeps(1-4) by simp_all
  have fits: "ud_pending doc' = [] \<or> length (dumps_doc doc') \<le> user_state_max_chars"
    unfolding doc' by (rule compact_fits)
  show ?thesis using pending fits prefs dist skills unfolding fields by (intro conjI) simp_all
qed

definition empty_user_state :: user_state_doc where
  "empty_user_state = new_user_state ''u'' ''t'' []"

theorem user_state_doc_round_trip_witness:
  "parse_user_state (\<lambda>v. case v of PInt n \<Rightarrow> Some n | _ \<Rightarrow> None) (doc_json empty_user_state) = Some empty_user_state"
  by (rule user_state_doc_round_trip) simp

definition sample_reflection :: reflection where
  "sample_reflection =
     \<lparr>rf_accomplished = PList [PStr ''Uploaded logs''], rf_pending = PList [], rf_commitments = PList [],
      rf_preferences = PList [PStr ''Be brief'']\<rparr>"

theorem merge_invariant_witness:
  "\<exists>doc'. merge_reflection ''2025-01-01'' empty_user_state sample_reflection None 6 = Inr doc'
     \<and> length (ud_preferences doc') \<le> max_preferences"
proof -
  have "\<exists>doc'. merge_reflection ''2025-01-01'' empty_user_state sample_reflection None 6 = Inr doc'"
    by (simp add: merge_reflection_def sample_reflection_def items_of_def summary_of_def py_join_def text_of_def)
  then obtain doc' where m: "merge_reflection ''2025-01-01'' empty_user_state sample_reflection None 6 = Inr doc'" ..
  from merge_invariant [OF m] show ?thesis
    using m by (auto simp: empty_user_state_def new_user_state_def)
qed

text \<open>The document over the wire, Redis included.\<close>

lemma user_state_wire:
  assumes "redis_laws api view" and "codec_laws cd"
    and "str_strip (mc_service_id c) \<noteq> []" "str_strip (mc_service_key c) \<noteq> []" and finite: "json_finite (PDict doc)"
  shows "\<exists>s1. user_state_put (memory_app api cd digest None now) c u t doc s = (True, s1)
    \<and> user_state_get (memory_app api cd digest None now) c u t s1 = (PDict doc, s1)"
proof -
  obtain who where who: "verify_service_headers digest None (mc_headers c) = Inr who"
    using client_headers_pass [OF assms(3,4)] by blast
  obtain s1 where s1: "put_user_state api cd t u doc s = Some s1" "get_user_state api cd t u s1 = Some doc"
    using user_state_round_trip [OF assms(1,2)] by blast
  have "user_state_put (memory_app api cd digest None now) c u t doc s = (True, s1)"
    by (simp add: user_state_put_def mc_post_def mc_request_def memory_app_def who parse_user_body_def
        str_field_def s1 json_reply_def status_ok_def failed_def)
  moreover have "user_state_get (memory_app api cd digest None now) c u t s1 = (PDict doc, s1)"
    using finite by (simp add: user_state_get_def mc_dict_call_def mc_post_json_def mc_request_def memory_app_def who
        parse_user_body_def str_field_def s1 json_reply_def mc_dict_def)
  ultimately show ?thesis by blast
qed

lemma doc_json_finite: "json_finite (PDict (doc_json d))"
  by (auto simp: doc_json_def last_session_json_def patterns_json_def action_json_def str_json_def split: option.splits)

lemma doc_json_not_Nil: "doc_json d \<noteq> []"
  by (simp add: doc_json_def)

lemma save_then_load:
  assumes "redis_laws api view" and "codec_laws cd"
    and "str_strip (mc_service_id (en_memory v)) \<noteq> []" "str_strip (mc_service_key (en_memory v)) \<noteq> []"
    and app: "en_app v = memory_app api cd digest None now" and lax: "\<forall>n. en_lax_int v (PInt n) = Some n"
  shows "\<exists>s1 d. save_user_state v doc s = (Inr True, s1)
    \<and> load_user_state v (ud_user_id doc) (ud_tenant_id doc) s1 = (Inr (Some d), s1)
    \<and> d\<lparr>ud_updated_at := ud_updated_at doc, ud_pending := ud_pending doc\<rparr> = doc"
proof -
  let ?dated = "doc\<lparr>ud_updated_at := en_today v (pr_world s)\<rparr>"
  let ?d = "if user_state_max_chars < length (dumps_doc ?dated) then compact ?dated else ?dated"
  have ids: "ud_user_id ?d = ud_user_id doc" "ud_tenant_id ?d = ud_tenant_id doc" by (simp_all add: compact_keeps)
  obtain w1 where w1: "user_state_put (en_app v) (en_memory v) (ud_user_id doc) (ud_tenant_id doc) (doc_json ?d) (pr_world s) = (True, w1)"
      "user_state_get (en_app v) (en_memory v) (ud_user_id doc) (ud_tenant_id doc) w1 = (PDict (doc_json ?d), w1)"
    using user_state_wire [OF assms(1-4) doc_json_finite] unfolding app by blast
  have "save_user_state v doc s = (Inr True, s\<lparr>pr_world := w1\<rparr>)"
    using w1(1) ids by (simp add: save_user_state_def py_then_def py_get_def py_world_def Let_def)
  moreover have "parse_user_state (en_lax_int v) (doc_json ?d) = Some ?d"
    by (rule doc_parsed) (use lax in blast)
  then have "load_user_state v (ud_user_id doc) (ud_tenant_id doc) (s\<lparr>pr_world := w1\<rparr>) = (Inr (Some ?d), s\<lparr>pr_world := w1\<rparr>)"
    using w1(2) by (simp add: load_user_state_def py_then_def py_world_def py_return_def doc_json_not_Nil)
  moreover have "?d\<lparr>ud_updated_at := ud_updated_at doc, ud_pending := ud_pending doc\<rparr> = doc"
    by (simp add: compact_def)
  ultimately show ?thesis by blast
qed

text \<open>
  C19 (the agent's name): once a user has named the agent, the memory service, with Redis behind it and service
  credentials on the client, returns a document with the first thirty characters of that name, stripped, whatever was
  stored before for that user.
\<close>

theorem agent_name_is_remembered:
  assumes "redis_laws api view" and "codec_laws cd"
    and "str_strip (mc_service_id (en_memory v)) \<noteq> []" and "str_strip (mc_service_key (en_memory v)) \<noteq> []"
    and "en_app v = memory_app api cd digest None now" and "\<forall>n. en_lax_int v (PInt n) = Some n"
    and own: "\<forall>d. fst (load_user_state v u t s) = Inr (Some d) \<longrightarrow> ud_user_id d = u \<and> ud_tenant_id d = t"
  shows "\<exists>s1 d. set_agent_name v u t name s = (Inr True, s1) \<and> load_user_state v u t s1 = (Inr (Some d), s1)
    \<and> ud_agent_name d = str_strip (take 30 name)"
proof -
  obtain reply w0 where "user_state_get (en_app v) (en_memory v) u t (pr_world s) = (reply, w0)" by (meson surj_pair)
  then have "\<exists>loaded s0. load_user_state v u t s = (Inr loaded, s0)"
    by (simp add: load_user_state_def py_then_def py_world_def py_return_def)
  then obtain loaded s0 where l: "load_user_state v u t s = (Inr loaded, s0)" by blast
  define doc where "doc = (case loaded of None \<Rightarrow> new_user_state u t [] | Some d \<Rightarrow> d)\<lparr>ud_agent_name := str_strip (take 30 name)\<rparr>"
  have own': "ud_user_id d = u \<and> ud_tenant_id d = t" if "loaded = Some d" for d
    using own that unfolding l fst_conv by blast
  have ids: "ud_user_id doc = u" "ud_tenant_id doc = t"
    unfolding doc_def using own' by (cases loaded; simp add: new_user_state_def)+
  obtain s1 d where s1: "save_user_state v doc s0 = (Inr True, s1)" "load_user_state v u t s1 = (Inr (Some d), s1)"
      and d: "d\<lparr>ud_updated_at := ud_updated_at doc, ud_pending := ud_pending doc\<rparr> = doc"
    using save_then_load [OF assms(1-6), of doc s0] ids by blast
  have "ud_agent_name (d\<lparr>ud_updated_at := ud_updated_at doc, ud_pending := ud_pending doc\<rparr>) = ud_agent_name d" by simp
  then have "ud_agent_name d = ud_agent_name doc" unfolding d by (rule sym)
  moreover have "set_agent_name v u t name s = (Inr True, s1)"
    using s1(1) by (simp add: set_agent_name_def py_then_def l doc_def Let_def)
  ultimately show ?thesis using s1(2) by (auto simp: doc_def)
qed

text \<open>The assistant before the memory service with an empty Redis.\<close>

definition live_env :: "(string \<Rightarrow> json_text rvalue option) env" where
  "live_env =
     \<lparr>en_app = memory_app keyspace_redis plain_codec id None 0, en_memory = \<lparr>mc_service_id = ''a'', mc_service_key = ''k''\<rparr>,
      en_mcp = (\<lambda>path h b w. (NotConnected, w)), en_post = (\<lambda>b w. (NotConnected, w)),
      en_uuid = (\<lambda>w. (''id'', w)), en_today = (\<lambda>w. ''2025-01-01''), en_timeout = ''10.0'', en_render = (\<lambda>v. []),
      en_loads = (\<lambda>t. None), en_session = (\<lambda>d. None),
      en_lax_int = (\<lambda>v. case v of PInt n \<Rightarrow> Some n | _ \<Rightarrow> None)\<rparr>"

definition live_proc :: "(string \<Rightarrow> json_text rvalue option) proc" where
  "live_proc =
     \<lparr>pr_world = (\<lambda>k. None), pr_skill_cache = [], pr_playbook_cache = [], pr_matcher = new_matcher, pr_fallback = []\<rparr>"

theorem agent_name_is_remembered_witness:
  "\<exists>s1 d. set_agent_name live_env ''u'' ''t'' '' Robin '' live_proc = (Inr True, s1)
    \<and> load_user_state live_env ''u'' ''t'' s1 = (Inr (Some d), s1) \<and> ud_agent_name d = ''Robin''"
proof -
  have name: "str_strip '' Robin '' = ''Robin''" and keys: "str_strip ''a'' \<noteq> []" "str_strip ''k'' \<noteq> []"
    by code_simp+
  obtain who where who: "verify_service_headers id None (mc_headers (en_memory live_env)) = Inr who"
    using client_headers_pass [of "en_memory live_env" id] keys by (auto simp: live_env_def)
  have "get_user_state keyspace_redis plain_codec ''t'' ''u'' (\<lambda>k. None) = Some []"
    by (simp add: get_user_state_def keyspace_redis_def)
  then have "fst (load_user_state live_env ''u'' ''t'' live_proc) = Inr None"
    using who by (simp add: load_user_state_def py_then_def py_world_def py_return_def live_env_def live_proc_def
        user_state_get_def mc_dict_call_def mc_post_json_def mc_request_def memory_app_def parse_user_body_def
        str_field_def json_reply_def mc_dict_def)
  then have own: "\<forall>d. fst (load_user_state live_env ''u'' ''t'' live_proc) = Inr (Some d) \<longrightarrow> ud_user_id d = ''u'' \<and> ud_tenant_id d = ''t''"
    by simp
  show ?thesis
    using agent_name_is_remembered [OF keyspace_laws plain_codec_laws _ _ _ _ own, where name = "'' Robin ''"
        and digest = id and now = 0] keys
    by (simp add: live_env_def name)
qed

text \<open>
  (when to reflect): a message ends in a reflection exactly when the session has counted six messages; what
  the message says, a goodbye included, never matters.
\<close>

theorem goodbyes_decide_nothing:
  "should_reflect session message \<longleftrightarrow> 6 \<le> ss_message_count session"
  by (auto simp: should_reflect_def reflection_min_messages_def)

text \<open>Draining sorts by priority and keeps the order of equal ones.\<close>

definition rank_of :: "pyval \<Rightarrow> nat" where
  "rank_of e = event_priority_rank (event_field ''priority'' e ''low'')"

lemma event_ranks: "exn_map event_rank es = Inr ranks \<Longrightarrow> ranks = map rank_of es"
proof (induction es arbitrary: ranks)
  case (Cons e es)
  then obtain r rs where "event_rank e = Inr r" "exn_map event_rank es = Inr rs" "ranks = r # rs"
    by (auto split: sum.splits)
  moreover from this have "r = rank_of e"
    by (auto simp: event_rank_def rank_of_def event_field_def get_item_def split: sum.splits pyval.splits if_splits)
  ultimately show ?case using Cons.IH by simp
qed simp

lemma map_insort_pair: "insort_key fst (f e, e) (map (\<lambda>e. (f e, e)) es) = map (\<lambda>e. (f e, e)) (insort_key f e es)"
  by (induction es) auto

lemma sort_pairs: "sort_key fst (map (\<lambda>e. (f e, e)) es) = map (\<lambda>e. (f e, e)) (sort_key f es)"
  by (induction es) (simp_all add: map_insort_pair)

lemma drained_sorted:
  assumes "drained (PList es) = Inr out"
  shows "out = sort_key rank_of es"
proof (cases "es = []")
  case False
  then obtain ranks where r: "exn_map event_rank es = Inr ranks" "out = map snd (sort_key fst (zip ranks es))"
    using assms by (auto simp: drained_def py_truthy_def split: sum.splits)
  have "zip ranks es = map (\<lambda>e. (rank_of e, e)) es"
    unfolding event_ranks [OF r(1)] by (simp add: zip_map1 zip_same_conv_map)
  then show ?thesis using r(2) by (simp add: sort_pairs comp_def)
qed (use assms in \<open>simp add: drained_def py_truthy_def\<close>)

text \<open>
  (drained events): draining hands out exactly the events that were queued, high priorities before medium
  ones and these before all others, and events of one rank in the order in which they were queued; an unknown priority,
  \<^verbatim>\<open>critical\<close> included, ranks last.
\<close>

theorem drained_events_ordered:
  assumes "fst (drain_queue v user_id tenant_id s) = Inr out"
    and "fst (event_queue_drain (en_app v) (en_memory v) user_id tenant_id (pr_world s)) = PList es"
  shows "mset out = mset es \<and> sorted (map rank_of out)
    \<and> (\<forall>k. filter (\<lambda>e. rank_of e = k) out = filter (\<lambda>e. rank_of e = k) es)"
proof -
  have "drained (PList es) = Inr out"
    using assms by (cases "event_queue_drain (en_app v) (en_memory v) user_id tenant_id (pr_world s)")
      (simp add: drain_queue_def py_then_def py_world_def py_of_def)
  then have "out = sort_key rank_of es" by (rule drained_sorted)
  then show ?thesis by (simp add: sort_key_stable)
qed

definition queued_events :: "pyval list" where
  "queued_events =
     [PDict [(''summary'', PStr ''a''), (''priority'', PStr ''critical'')], PDict [(''summary'', PStr ''b''), (''priority'', PStr ''high'')]]"

theorem drained_events_ordered_witness:
  "\<exists>out. fst (drain_queue (silent_env\<lparr>en_app := (\<lambda>r w. (Some (200, Some (PList queued_events)), w))\<rparr>) ''u'' ''t'' empty_proc) = Inr out
     \<and> mset out = mset queued_events \<and> hd out = queued_events ! 1"
proof -
  let ?v = "silent_env\<lparr>en_app := (\<lambda>r w. (Some (200, Some (PList queued_events)), w))\<rparr>"
  have q: "event_queue_drain (en_app ?v) (en_memory ?v) ''u'' ''t'' () = (PList queued_events, ())"
    by (simp add: event_queue_drain_def mc_list_call_def mc_post_json_def mc_unwrap_def)
  have d: "fst (drain_queue ?v ''u'' ''t'' empty_proc) = Inr (rev queued_events)"
    using q by (simp add: drain_queue_def py_then_def py_world_def py_of_def drained_def queued_events_def py_truthy_def
        event_rank_def get_item_def dict_get_default_def hashable_def event_priority_rank_def empty_proc_def)
  from drained_events_ordered [OF this, of queued_events] have "mset (rev queued_events) = mset queued_events"
    using q by (simp add: empty_proc_def)
  then show ?thesis using d by (auto simp: queued_events_def)
qed

end
