(* ===== verification/As_Loop.thy ===== *)
theory As_Loop
  imports As_Context
begin

text \<open>
  The sessions (\<^verbatim>\<open>compliance-assistant/src/session.py\<close>), the agent loop (\<^verbatim>\<open>agent/loop.py\<close>) and the
  endpoints of the service (\<^verbatim>\<open>main.py\<close>).

  A request works on one session object. When saving it fails the object itself goes into the fallback dictionary, so
  later changes show there as well: \<open>rn_shared\<close> says that the object is in the dictionary, which is brought up to date when
  the request ends. One request runs at a time.
\<close>

section \<open>Sessions\<close>

record 'w run = "'w proc" +
  rn_session :: session_state
  rn_shared :: bool

definition ask :: "(session_state \<Rightarrow> 'a) \<Rightarrow> ('w run, 'a) op" where
  "ask f = py_get (\<lambda>s. f (rn_session s))"

definition assign :: "(session_state \<Rightarrow> session_state) \<Rightarrow> ('w run, unit) op" where
  "assign f = py_update (\<lambda>s. s\<lparr>rn_session := f (rn_session s)\<rparr>)"

definition add_history :: "pyval list \<Rightarrow> ('w run, unit) op" where
  "add_history msgs = assign (\<lambda>ss. ss\<lparr>ss_history := ss_history ss @ msgs\<rparr>)"

definition pending_json :: "pending_confirmation option \<Rightarrow> pyval" where
  "pending_json p =
     (case p of
        None \<Rightarrow> PNone
      | Some c \<Rightarrow> PDict [(''confirmation_id'', PStr (pc_confirmation_id c)), (''tool_name'', PStr (pc_tool_name c)),
          (''summary'', PStr (pc_summary c)), (''params'', PDict (pc_params c))])"

text \<open>\<^verbatim>\<open>model_dump(exclude={"conversation_history"})\<close>\<close>

definition session_json :: "session_state \<Rightarrow> (string \<times> pyval) list" where
  "session_json ss =
     [(''session_id'', PStr (ss_session_id ss)), (''tenant_id'', PStr (ss_tenant_id ss)), (''user_id'', PStr (ss_user_id ss)),
      (''role'', PStr (ss_role ss)), (''persona'', PStr (ss_persona ss)), (''mode'', PStr (ss_mode ss)),
      (''active_skill'', str_json (ss_active_skill ss)),
      (''active_playbook'', (case ss_active_playbook ss of None \<Rightarrow> PNone | Some i \<Rightarrow> i)),
      (''playbook_step'', ss_playbook_step ss), (''playbook_data'', PDict (ss_playbook_data ss)),
      (''pending_confirmation'', pending_json (ss_pending ss)), (''skills_loaded'', PList (ss_skills_loaded ss)),
      (''tools_cache'', PList (ss_tools_cache ss)), (''message_count'', PInt (ss_message_count ss)),
      (''is_first_launch'', PBool (ss_first_launch ss)), (''agent_name'', PStr (ss_agent_name ss))]"

definition session_messages :: "session_state \<Rightarrow> pyval list" where
  "session_messages ss =
     PDict [(''role'', PStr ''system''), (''metadata'', PDict (session_json ss))] # last_n 50 (ss_history ss)"

definition save :: "'w env \<Rightarrow> ('w run, unit) op" where
  "save v =
     py_then (ask id)
       (\<lambda>ss. py_then (py_world (session_store (en_app v) (en_memory v) (ss_session_id ss) (session_messages ss)
            (Some (PDict [(''ttl_hours'', PInt session_ttl_hours)]))))
         (\<lambda>success. py_when (\<not> success)
            (py_update (\<lambda>s. s\<lparr>pr_fallback := dict_set (ss_session_id ss) ss (pr_fallback s), rn_shared := True\<rparr>))))"

definition parse_state :: "'w env \<Rightarrow> pyval \<Rightarrow> string \<Rightarrow> py_exn + session_state" where
  "parse_state v metadata session_id =
     (case metadata of
        PDict d \<Rightarrow>
          (case en_session v (dict_set ''session_id'' (PStr session_id) d) of
             Some ss \<Rightarrow> Inr ss
           | None \<Rightarrow>
               (case exn_map str_valid [dict_get_default d ''tenant_id'' (PStr []), dict_get_default d ''user_id'' (PStr []),
                       dict_get_default d ''role'' (PStr ''viewer'')] of
                  Inr [t, u, r] \<Rightarrow> Inr (new_session session_id t u r)
                | Inr _ \<Rightarrow> Inl ValidationError
                | Inl e \<Rightarrow> Inl e))
      | _ \<Rightarrow> Inl AttributeError)"

text \<open>The first system message with metadata, if there is one.\<close>

fun stored_metadata :: "pyval list \<Rightarrow> py_exn + pyval option" where
  "stored_metadata [] = Inr None"
| "stored_metadata (msg # msgs) =
     (case msg of
        PDict d \<Rightarrow>
          if dict_get d ''role'' = Some (PStr ''system'') \<and> py_truthy (dict_get_default d ''metadata'' PNone)
          then Inr (dict_get d ''metadata'') else stored_metadata msgs
      | _ \<Rightarrow> Inl AttributeError)"

definition recalled_metadata :: "pyval \<Rightarrow> py_exn + pyval option" where
  "recalled_metadata messages =
     (if \<not> py_truthy messages then Inr None
      else (case iter_of messages of Inl e \<Rightarrow> Inl e | Inr msgs \<Rightarrow> stored_metadata msgs))"

definition get_or_create ::
    "'w env \<Rightarrow> string \<Rightarrow> string \<Rightarrow> string \<Rightarrow> string \<Rightarrow> (('w, 'z) proc_scheme, session_state \<times> bool) op" where
  "get_or_create v session_id tenant_id user_id role =
     py_then (py_world (session_recall (en_app v) (en_memory v) session_id 1))
       (\<lambda>messages. py_then (py_of (recalled_metadata messages))
         (\<lambda>found. case found of
            Some m \<Rightarrow> py_then (py_of (parse_state v m session_id)) (\<lambda>ss. py_return (ss, False))
          | None \<Rightarrow> py_get (\<lambda>s. case dict_get (pr_fallback s) session_id of
                Some ss \<Rightarrow> (ss, True)
              | None \<Rightarrow> (new_session session_id tenant_id user_id role, False))))"

section \<open>Tools and answers\<close>

definition format_tool :: "pyval \<Rightarrow> py_exn + pyval" where
  "format_tool tool =
     (case tool of
        PDict d \<Rightarrow>
          (let params = dict_get_default d ''inputSchema'' (dict_get_default d ''parameters'' (PDict []))
           in Inr (PDict [(''type'', PStr ''function''), (''function'', PDict
                [(''name'', dict_get_default d ''name'' (PStr [])), (''description'', dict_get_default d ''description'' (PStr [])),
                 (''parameters'', if py_truthy params then params
                    else PDict [(''type'', PStr ''object''), (''properties'', PDict [])])])]))
      | _ \<Rightarrow> Inl AttributeError)"

definition format_tools :: "pyval list \<Rightarrow> py_exn + pyval list" where
  "format_tools tools = exn_map format_tool tools"

definition chat_answer :: "pyval \<Rightarrow> tool_action list \<Rightarrow> pending_confirmation option \<Rightarrow> bool \<Rightarrow> ('w run, chat_response) op" where
  "chat_answer message actions pending data_only =
     py_then (py_of (str_valid message))
       (\<lambda>m. py_then (ask ss_session_id)
         (\<lambda>i. py_return \<lparr>ch_message = m, ch_session_id = i, ch_actions = actions, ch_pending = pending, ch_data_only = data_only\<rparr>))"

definition call_tool :: "'w env \<Rightarrow> pyval \<Rightarrow> pyval \<Rightarrow> string \<Rightarrow> (('w, 'z) proc_scheme, tool_result) op" where
  "call_tool v tool_name params jwt_token =
     py_world (mcp_call_tool (en_render v) (en_timeout v) (en_mcp v) tool_name params jwt_token False)"

text \<open>\<^verbatim>\<open>handle_data_only_message\<close>\<close>

definition data_only_message :: "'w env \<Rightarrow> string \<Rightarrow> user_context \<Rightarrow> pyval \<Rightarrow> (('w, 'z) proc_scheme, string) op" where
  "data_only_message v message user recovery =
     (case match_keyword_intent message of
        Some intent \<Rightarrow>
          py_then (call_tool v (PStr (ki_tool_name intent)) (PDict (ki_params intent)) (us_jwt_token user))
            (\<lambda>result. py_return (data_only_answer (en_render v) recovery intent result))
      | None \<Rightarrow> py_return (build_data_only_menu (en_render v) recovery))"

definition set_mode :: "string \<Rightarrow> ('w run, unit) op" where
  "set_mode mode = assign (\<lambda>ss. ss\<lparr>ss_mode := mode\<rparr>)"

definition answer_data_only :: "'w env \<Rightarrow> string \<Rightarrow> user_context \<Rightarrow> pyval \<Rightarrow> ('w run, chat_response) op" where
  "answer_data_only v message user recovery =
     py_then (data_only_message v message user recovery) (\<lambda>t. chat_answer (PStr t) [] None True)"

text \<open>Losing the model: the session is saved in data-only mode and the message answered by keywords.\<close>

definition recovery_of :: "py_exn \<Rightarrow> pyval" where
  "recovery_of e = (case e of LLMCreditExhaustedError r \<Rightarrow> r | _ \<Rightarrow> PNone)"

definition fall_back :: "'w env \<Rightarrow> string \<Rightarrow> user_context \<Rightarrow> py_exn \<Rightarrow> ('w run, chat_response) op" where
  "fall_back v message user e =
     (if llm_unavailable e
      then py_then (set_mode ''data_only'')
        (\<lambda>_. py_then (save v) (\<lambda>_. answer_data_only v message user (recovery_of e)))
      else py_raise e)"

section \<open>The tool loop\<close>

text \<open>\<^verbatim>\<open>tc.get(key, tc.get("function", {}).get(key, default))\<close>, evaluated inside out.\<close>

definition call_field :: "string \<Rightarrow> pyval \<Rightarrow> pyval \<Rightarrow> py_exn + pyval" where
  "call_field k other tc =
     (case get_item tc ''function'' (PDict []) of
        Inl e \<Rightarrow> Inl e
      | Inr f \<Rightarrow> (case get_item f k other of Inl e \<Rightarrow> Inl e | Inr x \<Rightarrow> get_item tc k x))"

definition call_params :: "'w env \<Rightarrow> pyval \<Rightarrow> pyval" where
  "call_params v params =
     (case params of
        PStr t \<Rightarrow> (case en_loads v t of None \<Rightarrow> PDict [] | Some x \<Rightarrow> x)
      | _ \<Rightarrow> params)"

definition text_or_empty :: "pyval \<Rightarrow> pyval" where
  "text_or_empty x = (if py_truthy x then x else PStr [])"

definition assistant_calls :: "pyval \<Rightarrow> pyval \<Rightarrow> pyval" where
  "assistant_calls content tool_calls =
     PDict [(''role'', PStr ''assistant''), (''content'', text_or_empty content), (''tool_calls'', tool_calls)]"

text \<open>The pause for a confirmation: the pending action is saved, and so is the turn that led to it.\<close>

definition pending_of :: "'w env \<Rightarrow> string \<Rightarrow> pyval \<Rightarrow> pyval \<Rightarrow> tool_result \<Rightarrow> py_exn + pending_confirmation" where
  "pending_of v confirmation_id tool_name params result =
     (case (str_valid tool_name,
            str_valid (dict_get_default result ''summary'' (PStr (''Confirm execution of '' @ py_str (en_render v) tool_name))),
            dict_valid params) of
        (Inr n, Inr s, Inr d) \<Rightarrow>
          Inr \<lparr>pc_confirmation_id = confirmation_id, pc_tool_name = n, pc_summary = s, pc_params = d\<rparr>
      | _ \<Rightarrow> Inl ValidationError)"

definition set_pending :: "'w env \<Rightarrow> pending_confirmation option \<Rightarrow> ('w run, unit) op" where
  "set_pending v p = py_then (assign (\<lambda>ss. ss\<lparr>ss_pending := p\<rparr>)) (\<lambda>_. save v)"

definition pause_for ::
    "'w env \<Rightarrow> llm_response \<Rightarrow> pyval \<Rightarrow> pyval \<Rightarrow> tool_result \<Rightarrow> tool_action list \<Rightarrow> ('w run, chat_response) op" where
  "pause_for v response tool_name params result actions =
     py_then (py_world (en_uuid v))
       (\<lambda>i. py_then (py_of (pending_of v i tool_name params result))
         (\<lambda>p. py_then (set_pending v (Some p))
           (\<lambda>_. py_then (add_history [assistant_calls (ll_content response) (ll_tool_calls response)])
             (\<lambda>_. py_then (save v)
               (\<lambda>_. chat_answer (dict_get_default result ''summary''
                        (PStr (''Please confirm: '' @ py_str (en_render v) tool_name))) actions (Some p) False)))))"

definition record_tool_result ::
    "'w env \<Rightarrow> llm_response \<Rightarrow> pyval \<Rightarrow> pyval \<Rightarrow> pyval \<Rightarrow> tool_result \<Rightarrow> ('w run, tool_action) op" where
  "record_tool_result v response tool_call tool_name tool_id result =
     (let t = py_str (en_render v) (dict_get_default result ''data'' (dict_get_default result ''result'' (PDict result)))
      in py_then (py_of (str_valid tool_name))
        (\<lambda>n. py_then (add_history
              [assistant_calls (ll_content response) (PList [tool_call]),
               PDict [(''role'', PStr ''tool''), (''tool_call_id'', tool_id), (''content'', PStr (take 4000 t))]])
          (\<lambda>_. py_return \<lparr>ta_tool_name = n, ta_success = (dict_get result ''status'' \<noteq> Some (PStr ''error'')),
                         ta_result_summary = take 200 t\<rparr>)))"

definition one_call ::
    "'w env \<Rightarrow> user_context \<Rightarrow> llm_response \<Rightarrow> pyval \<Rightarrow> tool_action list \<Rightarrow> ('w run, chat_response + tool_action list) op" where
  "one_call v user response tool_call actions =
     py_then (py_of (call_field ''name'' (PStr []) tool_call))
       (\<lambda>tool_name. py_then (py_of (call_field ''arguments'' (PDict []) tool_call))
         (\<lambda>raw. py_then (py_world (en_uuid v))
           (\<lambda>fresh. py_then (py_of (get_item tool_call ''id'' (PStr fresh)))
             (\<lambda>tool_id. py_then (call_tool v tool_name (call_params v raw) (us_jwt_token user))
               (\<lambda>result.
                  if dict_get result ''status'' = Some (PStr ''confirmation_required'')
                  then py_then (pause_for v response tool_name (call_params v raw) result actions) (\<lambda>r. py_return (Inl r))
                  else py_then (record_tool_result v response tool_call tool_name tool_id result)
                         (\<lambda>a. py_return (Inr (actions @ [a]))))))))"

fun all_calls ::
    "'w env \<Rightarrow> user_context \<Rightarrow> llm_response \<Rightarrow> pyval list \<Rightarrow> tool_action list \<Rightarrow> ('w run, chat_response + tool_action list) op" where
  "all_calls v user response [] actions = py_return (Inr actions)"
| "all_calls v user response (tc # tcs) actions =
     py_then (one_call v user response tc actions)
       (\<lambda>r. case r of Inl done_with \<Rightarrow> py_return (Inl done_with) | Inr actions' \<Rightarrow> all_calls v user response tcs actions')"

definition loop_request :: "session_state \<Rightarrow> user_context \<Rightarrow> bool \<Rightarrow> pyval list \<Rightarrow> client_request" where
  "loop_request ss user first tools =
     (llm_ask (ss_history ss) (if first then ''tool_selection'' else ''skill_execution'') (us_tenant_id user))
       \<lparr>lr_tools := (if ss_tools_cache ss = [] then None else Some tools)\<rparr>"

definition advance_session :: "'w env \<Rightarrow> ('w run, unit) op" where
  "advance_session v =
     py_then (ask id)
       (\<lambda>ss. py_when (opt_truthy (ss_active_playbook ss))
          (py_then (advance_step v ss) (\<lambda>ss'. assign (\<lambda>_. ss'))))"

definition final_text :: "'w env \<Rightarrow> pyval \<Rightarrow> tool_action list \<Rightarrow> ('w run, chat_response) op" where
  "final_text v content actions =
     py_then (add_history [chat_entry ''assistant'' content])
       (\<lambda>_. py_then (save v)
         (\<lambda>_. py_then (advance_session v) (\<lambda>_. chat_answer content actions None False)))"

definition out_of_rounds :: "'w env \<Rightarrow> tool_action list \<Rightarrow> ('w run, chat_response) op" where
  "out_of_rounds v actions =
     py_then (add_history [chat_entry ''assistant'' (PStr
        ''I've reached the maximum number of tool operations for this turn. Here's what I was able to accomplish so far.'')])
       (\<lambda>_. py_then (save v)
         (\<lambda>_. chat_answer (PStr
            ''I've completed several actions but reached my processing limit. Let me know if you'd like me to continue.'')
            actions None False))"

text \<open>The length of the tool calls is taken for a log line before they are looked at: None has none.\<close>

fun rounds ::
    "'w env \<Rightarrow> user_context \<Rightarrow> pyval list \<Rightarrow> nat \<Rightarrow> bool \<Rightarrow> tool_action list \<Rightarrow> ('w run, chat_response) op" where
  "rounds v user tools 0 first actions = out_of_rounds v actions"
| "rounds v user tools (Suc n) first actions =
     py_then (ask (\<lambda>ss. loop_request ss user first tools))
       (\<lambda>req. py_then (llm_call v req)
         (\<lambda>response. py_then (py_of (py_len (ll_tool_calls response)))
           (\<lambda>_. if \<not> py_truthy (ll_tool_calls response) then final_text v (ll_content response) actions
                else py_then (py_of (iter_of (ll_tool_calls response)))
                  (\<lambda>tcs. py_then (all_calls v user response tcs actions)
                    (\<lambda>r. case r of
                       Inl paused \<Rightarrow> py_return paused
                     | Inr actions' \<Rightarrow> rounds v user tools n False actions')))))"

definition run_loop :: "'w env \<Rightarrow> user_context \<Rightarrow> ('w run, chat_response) op" where
  "run_loop v user =
     py_then (ask ss_tools_cache)
       (\<lambda>cached. py_then (py_of (format_tools cached)) (\<lambda>tools. rounds v user tools max_tool_rounds True []))"

section \<open>Messages\<close>

text \<open>The prompt of the active playbook's step, unless it is at step 0.\<close>

definition positive_step :: "pyval \<Rightarrow> py_exn + bool" where
  "positive_step x = (case as_number x of None \<Rightarrow> Inl TypeError | Some k \<Rightarrow> Inr (num_less (Fin 0) k))"

definition playbook_prompt :: "'w env \<Rightarrow> user_context \<Rightarrow> ('w run, string) op" where
  "playbook_prompt v user =
     py_then (ask id)
       (\<lambda>ss. case ss_active_playbook ss of
          None \<Rightarrow> py_return []
        | Some i \<Rightarrow>
            if \<not> py_truthy i then py_return []
            else py_then (py_of (positive_step (ss_playbook_step ss)))
              (\<lambda>b. if b then get_step_prompt v i (ss_playbook_step ss) (ss_playbook_data ss) (us_tenant_id user)
                   else py_return []))"

definition start_playbook :: "'w env \<Rightarrow> user_context \<Rightarrow> pyval \<Rightarrow> string \<Rightarrow> ('w run, string) op" where
  "start_playbook v user i prompt =
     py_then (ask (\<lambda>ss. opt_truthy (ss_active_playbook ss)))
       (\<lambda>active. if py_truthy i \<and> \<not> active
          then py_then (assign (\<lambda>ss. ss\<lparr>ss_active_playbook := Some i, ss_playbook_step := PInt 1, ss_playbook_data := []\<rparr>))
                 (\<lambda>_. get_step_prompt v i (PInt 1) [] (us_tenant_id user))
          else py_return prompt)"

definition activate_skill :: "'w env \<Rightarrow> user_context \<Rightarrow> string \<Rightarrow> string \<Rightarrow> ('w run, pyval \<times> string) op" where
  "activate_skill v user skill prompt =
     py_then (assign (\<lambda>ss. ss\<lparr>ss_active_skill := Some skill\<rparr>))
       (\<lambda>_. py_then (get_skill_prompt v skill (us_tenant_id user))
         (\<lambda>skill_prompt. py_then (get_skill_playbook v skill (us_tenant_id user))
           (\<lambda>i. py_then (start_playbook v user i prompt) (\<lambda>prompt'. py_return (skill_prompt, prompt')))))"

definition resolve_skill_context :: "'w env \<Rightarrow> string \<Rightarrow> user_context \<Rightarrow> ('w run, pyval \<times> string) op" where
  "resolve_skill_context v message user =
     py_then (playbook_prompt v user)
       (\<lambda>prompt. py_then (py_get (\<lambda>s. match_skill (pr_matcher s) message (us_role user) (ss_active_skill (rn_session s))))
         (\<lambda>r. py_then (py_of r)
           (\<lambda>matched. if str_truthy matched then activate_skill v user (str_or_empty matched) prompt
              else py_then (ask ss_active_skill)
                (\<lambda>active. if str_truthy active
                   then py_then (get_skill_prompt v (str_or_empty active) (us_tenant_id user))
                          (\<lambda>skill_prompt. py_return (skill_prompt, prompt))
                   else py_return (PStr [], prompt)))))"

text \<open>The first turn builds the system prompt; afterwards the prompts of skills and playbooks are not used.\<close>

definition ensure_system_prompt :: "'w env \<Rightarrow> user_context \<Rightarrow> pyval \<Rightarrow> string \<Rightarrow> ('w run, unit) op" where
  "ensure_system_prompt v user skill_prompt prompt =
     py_then (ask ss_history)
       (\<lambda>history. if history = []
          then py_then (build v user skill_prompt prompt None [])
                 (\<lambda>system_prompt. add_history [chat_entry ''system'' (PStr system_prompt)])
          else py_return ())"

definition reflect_after :: "'w env \<Rightarrow> string \<Rightarrow> user_context \<Rightarrow> ('w run, unit) op" where
  "reflect_after v message user =
     py_then (ask id)
       (\<lambda>ss. py_when (should_reflect ss message) (run_reflection v ss (us_user_id user) (us_tenant_id user)))"

definition answer_with_model :: "'w env \<Rightarrow> string \<Rightarrow> user_context \<Rightarrow> ('w run, chat_response) op" where
  "answer_with_model v message user =
     py_then (resolve_skill_context v message user)
       (\<lambda>(skill_prompt, prompt). py_then (ensure_system_prompt v user skill_prompt prompt)
         (\<lambda>_. py_then (add_history [chat_entry ''user'' (PStr message)])
           (\<lambda>_. py_then
              (py_catch (py_then (run_loop v user) (\<lambda>r. py_return (r, True)))
                 (\<lambda>e. py_then (fall_back v message user e) (\<lambda>r. py_return (r, False))))
              (\<lambda>(r, full). if full then py_then (reflect_after v message user) (\<lambda>_. py_return r) else py_return r))))"

text \<open>Naming the agent: \<^verbatim>\<open>re.sub(r'["\'.!?]', "", message).strip()[:30]\<close>.\<close>

definition chosen_name :: "string \<Rightarrow> string" where
  "chosen_name message =
     (let name = take 30 (str_strip (filter (\<lambda>c. c \<notin> {CHR 0x22, CHR 0x27, CHR ''.'', CHR ''!'', CHR ''?''}) message))
      in if name = [] then ''Assistant'' else name)"

definition replace_last :: "pyval \<Rightarrow> ('w run, unit) op" where
  "replace_last msg = assign (\<lambda>ss. ss\<lparr>ss_history := butlast (ss_history ss) @ [msg]\<rparr>)"

definition naming_request :: "session_state \<Rightarrow> user_context \<Rightarrow> pyval list \<Rightarrow> client_request" where
  "naming_request ss user tools =
     (llm_ask (ss_history ss) ''chat_response'' (us_tenant_id user))\<lparr>lr_tools := Some tools\<rparr>"

definition settle_answer :: "'w env \<Rightarrow> pyval \<Rightarrow> ('w run, chat_response) op" where
  "settle_answer v content =
     py_then (replace_last (chat_entry ''assistant'' content))
       (\<lambda>_. py_then (save v) (\<lambda>_. chat_answer content [] None False))"

definition agent_naming :: "'w env \<Rightarrow> string \<Rightarrow> user_context \<Rightarrow> ('w run, chat_response) op" where
  "agent_naming v message user =
     (let name = chosen_name message
      in py_then (assign (\<lambda>ss. ss\<lparr>ss_agent_name := name, ss_first_launch := False\<rparr>))
        (\<lambda>_. py_then (set_agent_name v (us_user_id user) (us_tenant_id user) name)
          (\<lambda>_. py_then (add_history [chat_entry ''user'' (PStr message), chat_entry ''user'' (PStr
                 (''The user has chosen to name you ''  @ [CHR 0x27] @ name @ [CHR 0x27] @ ''. Acknowledge the name warmly (one sentence), ''
                  @ ''then transition to showing their current compliance status and priorities.''))])
            (\<lambda>_. py_then (ask id)
              (\<lambda>ss. py_then (py_of (format_tools (ss_tools_cache ss)))
                (\<lambda>tools. py_catch
                   (py_then (llm_call v (naming_request ss user tools)) (\<lambda>r. settle_answer v (ll_content r)))
                   (\<lambda>e. if llm_unavailable e
                        then settle_answer v (PStr (name @ '' it is! Let me show you where things stand.''))
                        else py_raise e)))))))"

definition count_message :: "('w run, unit) op" where
  "count_message = assign (\<lambda>ss. ss\<lparr>ss_message_count := ss_message_count ss + 1\<rparr>)"

definition handle_full :: "'w env \<Rightarrow> string \<Rightarrow> user_context \<Rightarrow> ('w run, chat_response) op" where
  "handle_full v message user =
     py_then (ask (\<lambda>ss. ss_first_launch ss \<and> ss_agent_name ss = []))
       (\<lambda>naming. if naming then agent_naming v message user else answer_with_model v message user)"

text \<open>In data-only mode a small request finds out whether the model is back; then the message is handled again.\<close>

definition ping_request :: "user_context \<Rightarrow> client_request" where
  "ping_request user =
     (llm_ask [chat_entry ''user'' (PStr ''ping'')] ''chat_response'' (us_tenant_id user))\<lparr>lr_max_tokens := 5\<rparr>"

definition recovered :: "'w env \<Rightarrow> string \<Rightarrow> user_context \<Rightarrow> ('w run, chat_response) op" where
  "recovered v message user =
     py_then (set_mode ''full'') (\<lambda>_. py_then count_message (\<lambda>_. handle_full v message user))"

definition handle_data_only :: "'w env \<Rightarrow> string \<Rightarrow> user_context \<Rightarrow> ('w run, chat_response) op" where
  "handle_data_only v message user =
     py_catch
       (py_then (llm_call v (ping_request user)) (\<lambda>_. recovered v message user))
       (\<lambda>e. if llm_unavailable e then answer_data_only v message user PNone else py_raise e)"

definition handle_message :: "'w env \<Rightarrow> string \<Rightarrow> user_context \<Rightarrow> ('w run, chat_response) op" where
  "handle_message v message user =
     py_then count_message
       (\<lambda>_. py_then (ask (\<lambda>ss. ss_mode ss = ''data_only''))
         (\<lambda>data_only. if data_only then handle_data_only v message user else handle_full v message user))"

section \<open>Starting a session\<close>

definition first_launch_text :: string where
  "first_launch_text =
     newline @ newline @ ''## First Launch'' @ newline
     @ ''This is a brand new user. Welcome them warmly and ask what they would like to call you. ''
     @ ''You are their personal compliance agent - let them pick a name for you. Keep it brief and friendly.''"

definition opener_text :: "(pyval \<Rightarrow> string) \<Rightarrow> pyval list \<Rightarrow> string" where
  "opener_text render events =
     ''This is the start of our session. Greet me proactively with my current status and priorities.''
     @ (if events = [] then [] else newline @ newline @ format_for_opener render events)"

definition loaded_ids :: "pyval list \<Rightarrow> py_exn + pyval list" where
  "loaded_ids skills = exn_map skill_id_of skills"

definition active_skill_prompt :: "'w env \<Rightarrow> user_context \<Rightarrow> ('w run, pyval) op" where
  "active_skill_prompt v user =
     py_then (ask ss_active_skill)
       (\<lambda>active. if str_truthy active then get_skill_prompt v (str_or_empty active) (us_tenant_id user)
                 else py_return (PStr []))"

definition init_request :: "session_state \<Rightarrow> user_context \<Rightarrow> string \<Rightarrow> string \<Rightarrow> pyval list \<Rightarrow> client_request" where
  "init_request ss user system_prompt opener tools =
     (llm_ask [chat_entry ''system'' (PStr system_prompt), chat_entry ''user'' (PStr opener)]
        (if opt_truthy (ss_active_playbook ss) then ''skill_execution'' else ''chat_response'') (us_tenant_id user))
       \<lparr>lr_tools := Some tools\<rparr>"

definition opened :: "'w env \<Rightarrow> string \<Rightarrow> llm_response \<Rightarrow> ('w run, chat_response) op" where
  "opened v system_prompt response =
     py_then (assign (\<lambda>ss. ss
          \<lparr>ss_history := [chat_entry ''system'' (PStr system_prompt), chat_entry ''assistant'' (ll_content response)],
           ss_message_count := 1, ss_mode := ''full''\<rparr>))
       (\<lambda>_. py_then (save v) (\<lambda>_. chat_answer (ll_content response) [] None False))"

definition init_fallback :: "'w env \<Rightarrow> user_context \<Rightarrow> py_exn \<Rightarrow> ('w run, chat_response) op" where
  "init_fallback v user e =
     (case e of
        LLMCreditExhaustedError r \<Rightarrow>
          py_then (set_mode ''data_only'') (\<lambda>_. py_then (save v) (\<lambda>_. answer_data_only v ''init'' user r))
      | _ \<Rightarrow>
          if llm_unavailable e
          then py_then (set_mode ''data_only'') (\<lambda>_. py_then (save v) (\<lambda>_. chat_answer (PStr
            ''I'm having trouble connecting to the AI service. I can still help with data queries. Type STATUS, TASKS, OVERDUE, EVIDENCE, RISKS, or AUDIT.'')
            [] None True))
          else py_raise e)"

definition note_user_state :: "user_state_doc option \<Rightarrow> ('w run, unit) op" where
  "note_user_state state =
     assign (\<lambda>ss. case state of
        None \<Rightarrow> ss\<lparr>ss_first_launch := True\<rparr>
      | Some d \<Rightarrow> ss\<lparr>ss_agent_name := ud_agent_name d\<rparr>)"

definition open_session ::
    "'w env \<Rightarrow> user_context \<Rightarrow> user_state_doc option \<Rightarrow> pyval list \<Rightarrow> pyval list \<Rightarrow> ('w run, chat_response) op" where
  "open_session v user state events tools =
     py_then (playbook_prompt v user)
       (\<lambda>prompt. py_then (active_skill_prompt v user)
         (\<lambda>skill_prompt. py_then (build v user skill_prompt prompt state events)
           (\<lambda>built. py_then (ask id)
             (\<lambda>ss. py_catch
               (py_then (py_of (format_tools tools))
                 (\<lambda>llm_tools. py_then (llm_call v (init_request ss user
                       (built @ (if ss_first_launch ss then first_launch_text else []))
                       (opener_text (en_render v) events) llm_tools))
                   (opened v (built @ (if ss_first_launch ss then first_launch_text else [])))))
               (init_fallback v user)))))"

definition handle_init :: "'w env \<Rightarrow> user_context \<Rightarrow> ('w run, chat_response) op" where
  "handle_init v user =
     py_then (load_user_state v (us_user_id user) (us_tenant_id user))
       (\<lambda>state. py_then (note_user_state state)
         (\<lambda>_. py_then (drain_queue v (us_user_id user) (us_tenant_id user))
           (\<lambda>events. py_then (load_for_role v (us_role user) (us_tenant_id user))
             (\<lambda>skills. py_then (py_of (loaded_ids skills))
               (\<lambda>ids. py_then (assign (\<lambda>ss. ss\<lparr>ss_skills_loaded := ids\<rparr>))
                 (\<lambda>_. py_then (py_world (mcp_list_tools (en_mcp v) (us_jwt_token user)))
                   (\<lambda>tools. py_then (assign (\<lambda>ss. ss\<lparr>ss_tools_cache := tools, ss_persona := pe_role (select_persona (us_role user))\<rparr>))
                     (\<lambda>_. open_session v user state events tools))))))))"

section \<open>Confirming and cancelling\<close>

definition result_text :: "'w env \<Rightarrow> tool_result \<Rightarrow> string" where
  "result_text v result =
     take 200 (py_str (en_render v) (dict_get_default result ''data'' (dict_get_default result ''message'' (PStr []))))"

definition summarize :: "'w env \<Rightarrow> user_context \<Rightarrow> string \<Rightarrow> ('w run, pyval) op" where
  "summarize v user result_summary =
     py_then (ask ss_history)
       (\<lambda>history. py_catch
          (py_then (llm_call v (llm_ask history ''summarize_results'' (us_tenant_id user))) (\<lambda>r. py_return (ll_content r)))
          (\<lambda>e. if llm_unavailable e
               then py_return (PStr (''Action completed: '' @ (if result_summary = [] then ''success'' else result_summary)))
               else py_raise e))"

text \<open>What follows the call reads the pending action of the session again, which has been cleared by then.\<close>

definition after_confirmed :: "'w env \<Rightarrow> user_context \<Rightarrow> tool_result \<Rightarrow> ('w run, chat_response) op" where
  "after_confirmed v user result =
     py_then (ask ss_pending)
       (\<lambda>p. case p of
          None \<Rightarrow> py_raise AttributeError
        | Some c \<Rightarrow>
            py_then (add_history [PDict [(''role'', PStr ''tool''),
                (''content'', PStr (py_str (en_render v) (dict_get_default result ''data'' (PDict result)))),
                (''tool_name'', PStr (pc_tool_name c))]])
              (\<lambda>_. py_then (summarize v user (result_text v result))
                (\<lambda>t. py_then (add_history [chat_entry ''assistant'' t])
                  (\<lambda>_. py_then (save v)
                    (\<lambda>_. chat_answer t [\<lparr>ta_tool_name = pc_tool_name c,
                        ta_success = (dict_get result ''status'' \<noteq> Some (PStr ''error'')),
                        ta_result_summary = result_text v result\<rparr>] None False)))))"

definition confirm_pending :: "'w env \<Rightarrow> user_context \<Rightarrow> pending_confirmation \<Rightarrow> ('w run, chat_response) op" where
  "confirm_pending v user c =
     py_then (py_world (execute_confirmed (en_render v) (en_timeout v) (en_mcp v) (PStr (pc_tool_name c)) (PDict (pc_params c))
         (us_jwt_token user)))
       (\<lambda>result. py_then (set_pending v None) (\<lambda>_. after_confirmed v user result))"

definition handle_confirm :: "'w env \<Rightarrow> user_context \<Rightarrow> string \<Rightarrow> ('w run, chat_response) op" where
  "handle_confirm v user confirmation_id =
     py_then (ask ss_pending)
       (\<lambda>p. case p of
          None \<Rightarrow> chat_answer (PStr ''No pending action to confirm.'') [] None False
        | Some c \<Rightarrow>
            if pc_confirmation_id c \<noteq> confirmation_id
            then chat_answer (PStr ''Confirmation ID does not match the pending action.'') [] None False
            else confirm_pending v user c)"

definition handle_cancel :: "'w env \<Rightarrow> user_context \<Rightarrow> string \<Rightarrow> ('w run, chat_response) op" where
  "handle_cancel v user confirmation_id =
     py_then (ask ss_pending)
       (\<lambda>p. case p of
          None \<Rightarrow> chat_answer (PStr ''No pending action to cancel.'') [] None False
        | Some c \<Rightarrow>
            py_then (set_pending v None)
              (\<lambda>_. py_then (add_history [chat_entry ''assistant''
                     (PStr (''Cancelled. The '' @ pc_tool_name c @ '' action was not executed.''))])
                (\<lambda>_. py_then (save v)
                  (\<lambda>_. chat_answer (PStr (''Cancelled. The '' @ pc_tool_name c @ '' action was not executed.'')) [] None False))))"

section \<open>The service\<close>

datatype chat_request =
    InitRequest string
  | ChatRequest string string
  | ConfirmRequest string string
  | CancelRequest string string

fun request_session :: "chat_request \<Rightarrow> string" where
  "request_session (InitRequest i) = i"
| "request_session (ChatRequest i message) = i"
| "request_session (ConfirmRequest i confirmation_id) = i"
| "request_session (CancelRequest i confirmation_id) = i"

fun handler :: "'w env \<Rightarrow> user_context \<Rightarrow> chat_request \<Rightarrow> ('w run, chat_response) op" where
  "handler v user (InitRequest i) = handle_init v user"
| "handler v user (ChatRequest i message) = handle_message v message user"
| "handler v user (ConfirmRequest i confirmation_id) = handle_confirm v user confirmation_id"
| "handler v user (CancelRequest i confirmation_id) = handle_cancel v user confirmation_id"

text \<open>A handler's run on the request's session, and the end of it.\<close>

definition begin_run :: "'w proc \<Rightarrow> session_state \<Rightarrow> bool \<Rightarrow> 'w run" where
  "begin_run s ss shared =
     \<lparr>pr_world = pr_world s, pr_skill_cache = pr_skill_cache s, pr_playbook_cache = pr_playbook_cache s,
      pr_matcher = pr_matcher s, pr_fallback = pr_fallback s, rn_session = ss, rn_shared = shared\<rparr>"

definition end_run :: "'w run \<Rightarrow> 'w proc" where
  "end_run r =
     \<lparr>pr_world = pr_world r, pr_skill_cache = pr_skill_cache r, pr_playbook_cache = pr_playbook_cache r,
      pr_matcher = pr_matcher r,
      pr_fallback = (if rn_shared r then dict_set (ss_session_id (rn_session r)) (rn_session r) (pr_fallback r)
                     else pr_fallback r)\<rparr>"

definition handle :: "'w env \<Rightarrow> user_context \<Rightarrow> chat_request \<Rightarrow> ('w proc, chat_response) op" where
  "handle v user req =
     py_then (get_or_create v (request_session req) (us_tenant_id user) (us_user_id user) (us_role user))
       (\<lambda>(ss, shared) s. (let (r, s') = handler v user req (begin_run s ss shared) in (r, end_run s')))"

text \<open>
  An endpoint: the identity comes from the token, an unhandled exception is answered with 500; the left value is the status
  of a refusal.
\<close>

definition endpoint ::
    "'w jose \<Rightarrow> 'w env \<Rightarrow> token_validator option \<Rightarrow> string \<Rightarrow> chat_request \<Rightarrow> 'w proc
       \<Rightarrow> (nat + chat_response) \<times> token_validator option \<times> 'w proc" where
  "endpoint jo v validator token req s =
     (case get_current_user jo validator token (pr_world s) of
        (Inl status, validator', w) \<Rightarrow> (Inl status, validator', s\<lparr>pr_world := w\<rparr>)
      | (Inr user, validator', w) \<Rightarrow>
          (case handle v user req (s\<lparr>pr_world := w\<rparr>) of
             (Inl e, s') \<Rightarrow> (Inl 500, validator', s')
           | (Inr r, s') \<Rightarrow> (Inr r, validator', s')))"

text \<open>
  \<^verbatim>\<open>lifespan\<close>: the matcher gets the administrator's skills if the MCP server offers any
  tool. The value is whether the service is ready.
\<close>

definition new_proc :: "'w \<Rightarrow> 'w proc" where
  "new_proc w = \<lparr>pr_world = w, pr_skill_cache = [], pr_playbook_cache = [], pr_matcher = new_matcher, pr_fallback = []\<rparr>"

definition set_matcher :: "skill_matcher \<Rightarrow> (('w, 'z) proc_scheme, unit) op" where
  "set_matcher m = py_update (\<lambda>s. s\<lparr>pr_matcher := m\<rparr>)"

definition lifespan :: "'w env \<Rightarrow> (string \<Rightarrow> (string \<Rightarrow> nat) option) \<Rightarrow> ('w proc, bool) op" where
  "lifespan v compile =
     py_then (py_world (mcp_list_tools (en_mcp v) []))
       (\<lambda>tools. if tools = [] then py_return False
          else py_then (load_for_role v ''admin'' ''__default__'')
            (\<lambda>skills. py_then (py_of (load_skills compile skills))
              (\<lambda>m. py_then (set_matcher m) (\<lambda>_. py_return True))))"

end
