(* ===== verification/As_Safety.thy ===== *)
theory As_Safety
  imports As_Loop
begin

text \<open>
  What the assistant's handlers can do to the outside world. The lemmas measure an operation by how much it adds to
  a number read off the world: with a counter of requests to the gateway they bound the requests of a turn, and with a number
  that only a confirmed tool call can raise they show that no other request confirms anything.
\<close>

section \<open>Costs\<close>

definition costs :: "('w \<Rightarrow> nat) \<Rightarrow> nat \<Rightarrow> (('w, 'z) proc_scheme, 'a) op \<Rightarrow> bool" where
  "costs f k m \<longleftrightarrow> (\<forall>s. f (pr_world (snd (m s))) \<le> f (pr_world s) + k)"

text \<open>An environment in which a request to the gateway adds at most p and nothing else but a confirmed tool call adds anything.\<close>

definition env_costs :: "'w env \<Rightarrow> ('w \<Rightarrow> nat) \<Rightarrow> nat \<Rightarrow> bool" where
  "env_costs v f p \<longleftrightarrow>
     (\<forall>r w. f (snd (en_app v r w)) \<le> f w) \<and> (\<forall>w. f (snd (en_uuid v w)) \<le> f w)
     \<and> (\<forall>b w. f (snd (en_post v b w)) \<le> f w + p)
     \<and> (\<forall>path h b w. \<not> dict_has b ''confirmed'' \<longrightarrow> f (snd (en_mcp v path h b w)) \<le> f w)"

named_theorems free \<open>operations that cost nothing\<close>

lemma costsD: "costs f k m \<Longrightarrow> f (pr_world (snd (m s))) \<le> f (pr_world s) + k"
  by (simp add: costs_def)

lemma costs_mono: "costs f k m \<Longrightarrow> k \<le> l \<Longrightarrow> costs f l m"
  by (auto simp: costs_def intro: order_trans)

lemma costs_add:
  assumes "costs f k m" and "\<And>x. costs f l (g x)"
  shows "costs f (k + l) (py_then m g)"
  unfolding costs_def
proof
  fix s
  have "f (pr_world (snd (m s))) \<le> f (pr_world s) + k" using assms(1) by (rule costsD)
  moreover have "f (pr_world (snd (g x s'))) \<le> f (pr_world s') + l" for x s' using assms(2) by (rule costsD)
  ultimately show "f (pr_world (snd (py_then m g s))) \<le> f (pr_world s) + (k + l)"
    by (auto simp: py_then_def split: prod.splits sum.splits intro: order_trans)
      (metis add.assoc add_le_mono1 order_trans snd_conv)
qed

lemma costs_basic [free]:
  "costs f k (py_return x)" "costs f k (py_raise e)" "costs f k (py_of r)" "costs f k (py_get g)"
  by (simp_all add: costs_def py_return_def py_raise_def py_of_def py_get_def)

lemma costs_update [free]: "(\<And>s. pr_world (g s) = pr_world s) \<Longrightarrow> costs f k (py_update g)"
  by (simp add: costs_def py_update_def)

lemma costs_then [free]: "costs f 0 m \<Longrightarrow> (\<And>x. costs f k (g x)) \<Longrightarrow> costs f k (py_then m g)"
  using costs_add [of f 0 m k g] by simp

lemma costs_catch [free]:
  assumes "costs f k m" and "\<And>e. costs f 0 (h e)"
  shows "costs f k (py_catch m h)"
  unfolding costs_def
proof
  fix s
  have "f (pr_world (snd (m s))) \<le> f (pr_world s) + k" using assms(1) by (rule costsD)
  moreover have h: "f (pr_world (snd (h e s'))) \<le> f (pr_world s')" for e s' using costsD [OF assms(2)] by simp
  ultimately show "f (pr_world (snd (py_catch m h s))) \<le> f (pr_world s) + k"
    by (auto simp: py_catch_def split: prod.splits sum.splits) (metis h order_trans)
qed

lemma costs_cases [free]:
  "costs f k m \<Longrightarrow> costs f k m' \<Longrightarrow> costs f k (if b then m else m')"
  "costs f k m \<Longrightarrow> (\<And>x. costs f k (g x)) \<Longrightarrow> costs f k (case opt of None \<Rightarrow> m | Some x \<Rightarrow> g x)"
  "(\<And>x. costs f k (g' x)) \<Longrightarrow> (\<And>x. costs f k (g x)) \<Longrightarrow> costs f k (case sm of Inl x \<Rightarrow> g' x | Inr x \<Rightarrow> g x)"
  "(\<And>x y. costs f k (g2 x y)) \<Longrightarrow> costs f k (case pr of (x, y) \<Rightarrow> g2 x y)"
  by (auto split: option.splits sum.splits prod.splits)

lemma costs_when [free]: "costs f k m \<Longrightarrow> costs f k (py_when b m)"
  by (simp add: py_when_def costs_basic)

lemma costs_each [free]: "(\<And>x. costs f 0 (g x)) \<Longrightarrow> costs f 0 (py_each g xs)"
  by (induction xs) (auto intro: free)

lemma costs_world:
  assumes "\<And>w. f (snd (g w)) \<le> f w + k"
  shows "costs f k (py_world g)"
  using assms by (auto simp: costs_def py_world_def split: prod.splits) (metis snd_conv)

section \<open>The calls\<close>

lemma mc_post_free: "env_costs v f p \<Longrightarrow> f (snd (mc_post (en_app v) c path pl w)) \<le> f w"
  by (auto simp: env_costs_def mc_post_def split: prod.splits) (metis snd_conv)

lemma mc_post_json_free: "env_costs v f p \<Longrightarrow> f (snd (mc_post_json (en_app v) c path pl w)) \<le> f w"
  by (auto simp: env_costs_def mc_post_json_def split: prod.splits) (metis snd_conv)

lemma mc_call_free:
  "env_costs v f p \<Longrightarrow> f (snd (mc_list_call key (en_app v) c path pl w)) \<le> f w"
  "env_costs v f p \<Longrightarrow> f (snd (mc_dict_call (en_app v) c path pl w)) \<le> f w"
  using mc_post_json_free by (fastforce simp: mc_list_call_def mc_dict_call_def)+

lemma memory_free [free]:
  assumes "env_costs v f p"
  shows "costs f 0 (py_world (skill_recall (en_app v) c t n))"
    and "costs f 0 (py_world (session_recall (en_app v) c i k))"
    and "costs f 0 (py_world (session_store (en_app v) c i ms md))"
    and "costs f 0 (py_world (client_tenant_recall (en_app v) c t q k cat))"
    and "costs f 0 (py_world (client_user_recall (en_app v) c u q k cat))"
    and "costs f 0 (py_world (interaction_recall (en_app v) c u t kd k))"
    and "costs f 0 (py_world (interaction_store (en_app v) c u t ty d md))"
    and "costs f 0 (py_world (user_state_get (en_app v) c u t))"
    and "costs f 0 (py_world (user_state_put (en_app v) c u t d))"
    and "costs f 0 (py_world (event_queue_drain (en_app v) c u t))"
    and "costs f 0 (py_world (mc_post (en_app v) c path d))"
    and "costs f 0 (py_world (en_uuid v))"
  using mc_post_free [OF assms] mc_call_free [OF assms] assms
  by (auto intro!: costs_world simp: skill_recall_def session_recall_def session_store_def client_tenant_recall_def
      client_user_recall_def interaction_recall_def interaction_store_def user_state_get_def user_state_put_def
      event_queue_drain_def env_costs_def)

lemma mcp_free:
  assumes "env_costs v f p" and "\<not> dict_has b ''confirmed''"
  shows "f (snd (en_mcp v path h b w)) \<le> f w"
  using assms by (simp add: env_costs_def)

lemma no_confirmation:
  "\<not> dict_has [] ''confirmed''" "\<not> dict_has [(''uri'', x)] ''confirmed''" "\<not> dict_has (call_payload n ps False) ''confirmed''"
  by (simp_all add: dict_has_def call_payload_def)

lemma mcp_calls_free [free]:
  assumes "env_costs v f p"
  shows "costs f 0 (py_world (mcp_list_tools (en_mcp v) jwt))"
    and "costs f 0 (py_world (mcp_read_resource (en_mcp v) uri jwt))"
    and "costs f 0 (call_tool v n ps jwt)"
  using mcp_free [OF assms no_confirmation(1)] mcp_free [OF assms no_confirmation(2)]
    mcp_free [OF assms no_confirmation(3)]
  by (auto intro!: costs_world simp: mcp_list_tools_def mcp_read_resource_def call_tool_def mcp_call_tool_def
      split: prod.splits) (metis snd_conv)+

lemma retry_costs:
  assumes "\<And>w. f (snd (g w)) \<le> f w + p"
  shows "f (snd (retry_calls caught none g n w)) \<le> f w + n * p"
proof (induction n arbitrary: w)
  case (Suc n)
  obtain r w1 where g: "g w = (r, w1)" by (cases "g w")
  have w1: "f w1 \<le> f w + p" using assms [of w] g by simp
  have "f (snd (retry_calls caught none g n w1)) \<le> f w1 + n * p" by (rule Suc.IH)
  then show ?case using w1 g by (auto split: sum.splits)
qed simp

lemma llm_call_costs:
  assumes "env_costs v f p"
  shows "costs f (2 * p) (llm_call v r)"
proof -
  have "f (snd (complete_once (en_post v) r w)) \<le> f w + p" for w
    using assms by (auto simp: complete_once_def env_costs_def split: prod.splits) (metis snd_conv)
  then have "f (snd (llm_complete (en_post v) r w)) \<le> f w + 2 * p" for w
    unfolding llm_complete_def by (rule retry_costs)
  then have "costs f (2 * p) (py_world (llm_complete (en_post v) r))" by (rule costs_world)
  then have "costs f (2 * p + 0) (py_then (py_world (llm_complete (en_post v) r)) py_of)"
    by (rule costs_add) (rule free)
  then have "costs f (2 * p) (py_then (py_world (llm_complete (en_post v) r)) py_of)" by simp
  then show ?thesis unfolding llm_call_def by (rule costs_then [OF memory_free(12) [OF assms]])
qed

section \<open>The assistant's operations\<close>

lemma cache_free [free]: "costs f 0 (cache_skill sk)" "costs f 0 (cache_playbook i pb)"
  by (auto simp: costs_def cache_skill_def cache_playbook_def split: sum.splits)

lemma skills_free [free]:
  assumes "env_costs v f p"
  shows "costs f 0 (load_for_role v role t)"
    and "costs f 0 (get_skill_prompt v i t)"
    and "costs f 0 (get_skill_playbook v i t)"
  using assms
  by (auto intro!: free simp: load_for_role_def get_skill_prompt_def get_skill_playbook_def recall_skills_def Let_def)

lemma playbook_free [free]:
  assumes "env_costs v f p"
  shows "costs f 0 (get_step_prompt v i' st ctx t)"
    and "costs f 0 (advance_step v ss)"
proof -
  have "costs f 0 (load_playbook v i t)" for i t using assms by (auto intro!: free simp: load_playbook_def)
  then show "costs f 0 (get_step_prompt v i' st ctx t)" "costs f 0 (advance_step v ss)"
    by (auto intro!: free simp: get_step_prompt_def advance_step_def)
qed

lemma user_state_free [free]:
  assumes "env_costs v f p"
  shows "costs f 0 (load_user_state v u t)" and "costs f 0 (save_user_state v d)" and "costs f 0 (set_agent_name v u t n)"
    and "costs f 0 (drain_queue v u t)"
  using assms by (auto intro!: free simp: load_user_state_def save_user_state_def set_agent_name_def drain_queue_def Let_def)

lemma build_free [free]:
  assumes "env_costs v f p"
  shows "costs f 0 (build v user sp pp st evs)"
  using assms
  by (auto intro!: free simp: build_def fetch_readiness_def fetch_tasks_def fetch_overdue_def fetch_interactions_def)

lemma session_ops_free [free]:
  "costs f 0 (ask g)" "costs f 0 (assign h)" "costs f 0 (add_history ms)" "costs f 0 (chat_answer t acts pd d)"
  "costs f 0 (set_mode m)" "costs f 0 (replace_last x)" "costs f 0 count_message" "costs f 0 (note_user_state st)"
  by (auto intro!: free simp: ask_def assign_def add_history_def chat_answer_def set_mode_def replace_last_def
      count_message_def note_user_state_def)

lemma save_free [free]: "env_costs v f p \<Longrightarrow> costs f 0 (save v)" "env_costs v f p \<Longrightarrow> costs f 0 (set_pending v pc)"
  by (auto intro!: free simp: save_def set_pending_def)

lemma data_only_free [free]:
  assumes "env_costs v f p"
  shows "costs f 0 (answer_data_only v t user rc)" and "costs f 0 (fall_back v t user e)"
  using assms by (auto intro!: free simp: answer_data_only_def data_only_message_def fall_back_def)

lemma llm_then:
  assumes "env_costs v f p" and "\<And>x. costs f n (g x)"
  shows "costs f (2 * p + n) (py_then (llm_call v r) g)"
  using costs_add [OF llm_call_costs [OF assms(1)] assms(2)] .

lemma then_paid:
  assumes "costs f k m" and "\<And>x. costs f 0 (g x)"
  shows "costs f k (py_then m g)"
  using costs_add [OF assms] by simp

lemma tools_free [free]:
  assumes "env_costs v f p"
  shows "costs f 0 (all_calls v user response tcs actions)"
proof -
  have "costs f 0 (one_call v user response tc acts)" for tc acts
    using assms by (auto intro!: free simp: one_call_def pause_for_def record_tool_result_def Let_def)
  then show ?thesis by (induction tcs arbitrary: actions) (auto intro!: free split: sum.splits)
qed

lemma final_free [free]:
  assumes "env_costs v f p"
  shows "costs f 0 (final_text v c acts)" and "costs f 0 (out_of_rounds v acts)"
  using assms by (auto intro!: free simp: final_text_def out_of_rounds_def advance_session_def)

lemma rounds_costs:
  assumes env: "env_costs v f p"
  shows "costs f (2 * p * n) (rounds v user tools n first actions)"
proof (induction n arbitrary: first actions)
  case 0
  then show ?case using env by (auto intro!: free)
next
  case (Suc n)
  have "costs f (2 * p * n) (py_then (py_of (py_len (ll_tool_calls response)))
           (\<lambda>_. if \<not> py_truthy (ll_tool_calls response) then final_text v (ll_content response) actions
                else py_then (py_of (iter_of (ll_tool_calls response)))
                  (\<lambda>tcs. py_then (all_calls v user response tcs actions)
                    (\<lambda>r. case r of Inl paused \<Rightarrow> py_return paused
                     | Inr actions' \<Rightarrow> rounds v user tools n False actions'))))" for response
    using Suc.IH final_free(1) [OF env, THEN costs_mono] env by (auto intro!: free split: sum.splits)
  then show ?case
    unfolding rounds.simps by (rule costs_then [OF session_ops_free(1), OF costs_mono [OF llm_then [OF env]]]) simp
qed

lemma run_loop_costs:
  assumes "env_costs v f p"
  shows "costs f (10 * p) (run_loop v user)"
  unfolding run_loop_def
  using rounds_costs [OF assms, of max_tool_rounds user] by (auto intro!: free simp: max_tool_rounds_def)

lemma prompts_free [free]:
  assumes "env_costs v f p"
  shows "costs f 0 (playbook_prompt v user)" and "costs f 0 (resolve_skill_context v message user)"
    and "costs f 0 (ensure_system_prompt v user sp pp)" and "costs f 0 (active_skill_prompt v user)"
  using assms
  by (auto intro!: free simp: playbook_prompt_def resolve_skill_context_def activate_skill_def start_playbook_def
      ensure_system_prompt_def active_skill_prompt_def)

lemma store_reflection_free [free]: "env_costs v f p \<Longrightarrow> costs f 0 (store_reflection v r i u t)"
  by (auto intro!: free simp: store_reflection_def store_preference_def)

lemma merge_and_save_free [free]: "env_costs v f p \<Longrightarrow> costs f 0 (merge_and_save v ss doc r)"
  by (auto intro!: free simp: merge_and_save_def)

lemma reflection_costs:
  assumes env: "env_costs v f p"
  shows "costs f (2 * p) (run_reflection v ss u t)"
proof -
  have ask: "costs f (2 * p) (ask_reflection v c t)" for c
    unfolding ask_reflection_def by (rule costs_catch [OF then_paid [OF llm_call_costs [OF env]]]) (auto intro!: free)
  have reflect: "costs f (2 * p) (reflect v ss u t)"
    unfolding reflect_def
    by (rule costs_then [OF costs_basic(3)], rule costs_cases(1) [OF costs_basic(1)], rule then_paid [OF ask])
      (use env in \<open>auto intro!: free\<close>)
  show ?thesis
    unfolding run_reflection_def
    by (rule costs_catch, rule then_paid [OF reflect]) (use env in \<open>auto intro!: free\<close>)
qed

text \<open>The operations of a turn, in requests to the gateway: an attempt and a retry each.\<close>

lemma settle_free [free]: "env_costs v f p \<Longrightarrow> costs f 0 (settle_answer v c)"
  by (auto intro!: free simp: settle_answer_def)

lemma naming_costs:
  assumes env: "env_costs v f p"
  shows "costs f (2 * p) (agent_naming v message user)"
  unfolding agent_naming_def Let_def
  by (rule costs_then, (use env in \<open>auto intro!: free\<close>)[1])+
    (rule costs_catch, rule then_paid [OF llm_call_costs [OF env]], (use env in \<open>auto intro!: free\<close>)+)

lemma answer_costs:
  assumes env: "env_costs v f p"
  shows "costs f (12 * p) (answer_with_model v message user)"
proof -
  have loop: "costs f (10 * p) (py_catch (py_then (run_loop v user) (\<lambda>r. py_return (r, True)))
      (\<lambda>e. py_then (fall_back v message user e) (\<lambda>r. py_return (r, False))))"
    by (rule costs_catch, rule then_paid [OF run_loop_costs [OF env]]) (use env in \<open>auto intro!: free\<close>)
  have after: "costs f (2 * p) (reflect_after v message user)"
    unfolding reflect_after_def
    by (rule costs_then [OF session_ops_free(1)], rule costs_when, rule reflection_costs [OF env])
  have "costs f (2 * p) (case x of (r, full) \<Rightarrow>
      if full then py_then (reflect_after v message user) (\<lambda>_. py_return r) else py_return r)" for x :: "chat_response \<times> bool"
    by (rule costs_cases(4), rule costs_cases(1) [OF then_paid [OF after] costs_basic(1)], rule costs_basic(1))
  from costs_add [OF loop this] have tail: "costs f (12 * p)
      (py_then (py_catch (py_then (run_loop v user) (\<lambda>r. py_return (r, True)))
         (\<lambda>e. py_then (fall_back v message user e) (\<lambda>r. py_return (r, False))))
        (\<lambda>(r, full). if full then py_then (reflect_after v message user) (\<lambda>_. py_return r) else py_return r))"
    by (simp add: algebra_simps)
  show ?thesis
    unfolding answer_with_model_def
    by (rule costs_then [OF prompts_free(2) [OF env]], rule costs_cases(4), rule costs_then [OF prompts_free(3) [OF env]],
        rule costs_then [OF session_ops_free(3)], rule tail)
qed

lemma message_costs:
  assumes env: "env_costs v f p"
  shows "costs f (14 * p) (handle_message v message user)"
proof -
  have full: "costs f (12 * p) (handle_full v message user)"
    unfolding handle_full_def
    using naming_costs [OF env, THEN costs_mono, of "12 * p"] answer_costs [OF env]
    by (auto intro!: costs_then [OF session_ops_free(1)])
  have "costs f (12 * p) (recovered v message user)"
    unfolding recovered_def
    by (rule costs_then [OF session_ops_free(5)], rule costs_then [OF session_ops_free(7)], rule full)
  from llm_then [OF env this] have "costs f (14 * p) (py_then (llm_call v (ping_request user)) (\<lambda>_. recovered v message user))"
    by (simp add: algebra_simps)
  then have "costs f (14 * p) (handle_data_only v message user)"
    unfolding handle_data_only_def by (rule costs_catch) (use env in \<open>auto intro!: free\<close>)
  moreover have "costs f (14 * p) (handle_full v message user)" using full by (rule costs_mono) simp
  ultimately show ?thesis
    unfolding handle_message_def by (auto intro!: costs_then [OF session_ops_free(7)] costs_then [OF session_ops_free(1)])
qed

lemma init_costs:
  assumes env: "env_costs v f p"
  shows "costs f (2 * p) (handle_init v user)"
proof -
  have opened: "costs f 0 (opened v sp r)" for sp r
    using env by (auto intro!: free simp: opened_def)
  have "costs f 0 (init_fallback v user e)" for e
    using env by (cases e) (auto intro!: free simp: init_fallback_def)
  then have "costs f (2 * p) (open_session v user state events tools)" for state events tools
    unfolding open_session_def
    by (intro costs_then [OF prompts_free(1) [OF env]] costs_then [OF prompts_free(4) [OF env]]
        costs_then [OF build_free [OF env]] costs_then [OF session_ops_free(1)] costs_catch costs_then [OF costs_basic(3)]
        then_paid [OF llm_call_costs [OF env]] opened)
  then show ?thesis
    unfolding handle_init_def
    by (intro costs_then [OF user_state_free(1) [OF env]] costs_then [OF session_ops_free(8)]
        costs_then [OF user_state_free(4) [OF env]] costs_then [OF skills_free(1) [OF env]] costs_then [OF costs_basic(3)]
        costs_then [OF session_ops_free(2)] costs_then [OF mcp_calls_free(1) [OF env]])
qed

lemma cancel_free: "env_costs v f p \<Longrightarrow> costs f 0 (handle_cancel v user i)"
  by (auto intro!: free simp: handle_cancel_def)

section \<open>Properties\<close>

definition is_confirm :: "chat_request \<Rightarrow> bool" where
  "is_confirm req \<longleftrightarrow> (\<exists>i confirmation_id. req = ConfirmRequest i confirmation_id)"

lemma handler_costs:
  assumes env: "env_costs v f p" and "\<not> is_confirm req"
  shows "costs f (14 * p) (handler v user req)"
proof (cases req)
  case (InitRequest i)
  then show ?thesis using init_costs [OF env, THEN costs_mono, of "14 * p"] by simp
next
  case (ChatRequest i message)
  then show ?thesis using message_costs [OF env] by simp
next
  case (CancelRequest i c)
  then show ?thesis using cancel_free [OF env, THEN costs_mono, of "14 * p"] by simp
qed (use assms(2) in \<open>simp add: is_confirm_def\<close>)

text \<open>Tool calls count nothing either, whether they are confirmed or not.\<close>

definition gateway_count :: "'w env \<Rightarrow> ('w \<Rightarrow> nat) \<Rightarrow> bool" where
  "gateway_count v n \<longleftrightarrow> env_costs v n 1 \<and> (\<forall>path h b w. n (snd (en_mcp v path h b w)) \<le> n w)"

lemma confirm_costs:
  assumes count: "gateway_count v n"
  shows "costs n 2 (handle_confirm v user i)"
proof -
  have env: "env_costs v n 1" and tool: "\<And>path h b w. n (snd (en_mcp v path h b w)) \<le> n w"
    using count by (simp_all add: gateway_count_def)
  have confirmed: "costs n 0 (py_world (execute_confirmed rd tm (en_mcp v) x ps jwt))" for rd tm x ps jwt
    using tool by (auto intro!: costs_world simp: execute_confirmed_def mcp_call_tool_def split: prod.splits) (metis snd_conv)
  have "costs n 2 (summarize v user t)" for t
    unfolding summarize_def using llm_call_costs [OF env]
    by (intro costs_then [OF session_ops_free(1)] costs_catch then_paid) (auto intro!: free)
  then have "costs n 2 (after_confirmed v user result)" for result
    unfolding after_confirmed_def using env
    by (intro costs_then [OF session_ops_free(1)] costs_cases(2) costs_basic costs_then [OF session_ops_free(3)] then_paid)
      (auto intro!: free)
  then have "costs n 2 (confirm_pending v user c)" for c
    unfolding confirm_pending_def by (intro costs_then [OF confirmed] costs_then [OF save_free(2) [OF env]])
  then show ?thesis
    unfolding handle_confirm_def
    by (intro costs_then [OF session_ops_free(1)] costs_cases(2) costs_cases(1) session_ops_free(4) [THEN costs_mono]) auto
qed

lemma get_or_create_free: "env_costs v f p \<Longrightarrow> costs f 0 (get_or_create v i t u r)"
  by (auto intro!: free simp: get_or_create_def)

lemma run_on_session [simp]:
  "pr_world (begin_run s ss shared) = pr_world s" "pr_world (end_run r) = pr_world r"
  "rn_session (begin_run s ss shared) = ss"
  by (simp_all add: begin_run_def end_run_def)

text \<open>A request is its handler's run on the session that is found.\<close>

lemma handle_eq:
  "handle v user req s =
     (case get_or_create v (request_session req) (us_tenant_id user) (us_user_id user) (us_role user) s of
        (Inl e, s') \<Rightarrow> (Inl e, s')
      | (Inr (ss, shared), s') \<Rightarrow>
          (fst (handler v user req (begin_run s' ss shared)), end_run (snd (handler v user req (begin_run s' ss shared)))))"
  by (auto simp: handle_def py_then_def Let_def split: prod.splits sum.splits)

lemma handle_costs:
  assumes env: "env_costs v f p"
    and run: "\<And>ss shared s'. get_or_create v (request_session req) (us_tenant_id user) (us_user_id user) (us_role user) s
        = (Inr (ss, shared), s') \<Longrightarrow>
      f (pr_world (snd (handler v user req (begin_run s' ss shared)))) \<le> f (pr_world s') + k"
  shows "f (pr_world (snd (handle v user req s))) \<le> f (pr_world s) + k"
proof -
  let ?g = "get_or_create v (request_session req) (us_tenant_id user) (us_user_id user) (us_role user)"
  have "f (pr_world (snd (?g s))) \<le> f (pr_world s)" using costsD [OF get_or_create_free [OF env]] by simp
  then show ?thesis
    using run unfolding handle_eq by (auto split: prod.splits sum.splits intro: order_trans)
qed

text \<open>
  C5 (requests to the gateway): for any way of counting that a request to the gateway raises by at most one and
  nothing else raises, no request to the assistant, whether it opens a session, sends a message, confirms or cancels, raises the
  count by more than fourteen: the ping, five rounds and the reflection of a message, each with its one retry. So the loop cannot run
  away, whatever the model answers. Opening a session and confirming take at most two, cancelling none.
\<close>

theorem gateway_requests_bounded:
  assumes "gateway_count v n"
  shows "n (pr_world (snd (handle v user req s))) \<le> n (pr_world s)
    + (case req of ChatRequest i message \<Rightarrow> 14 | InitRequest i \<Rightarrow> 2 | ConfirmRequest i c \<Rightarrow> 2 | CancelRequest i c \<Rightarrow> 0)"
proof -
  have env: "env_costs v n 1" using assms by (simp add: gateway_count_def)
  show ?thesis
  proof (rule handle_costs [OF env])
    fix ss shared s'
    have "costs n (case req of ChatRequest i message \<Rightarrow> 14 | InitRequest i \<Rightarrow> 2 | ConfirmRequest i c \<Rightarrow> 2 | CancelRequest i c \<Rightarrow> 0)
        (handler v user req)"
      using message_costs [OF env] init_costs [OF env] confirm_costs [OF assms] cancel_free [OF env] by (cases req) simp_all
    from costsD [OF this] show "n (pr_world (snd (handler v user req (begin_run s' ss shared)))) \<le> n (pr_world s')
        + (case req of ChatRequest i message \<Rightarrow> 14 | InitRequest i \<Rightarrow> 2 | ConfirmRequest i c \<Rightarrow> 2 | CancelRequest i c \<Rightarrow> 0)"
      by (metis begin_run_def proc.select_convs(1))
  qed
qed

definition counting_env :: "nat env" where
  "counting_env =
     \<lparr>en_app = (\<lambda>r w. (None, w)), en_memory = \<lparr>mc_service_id = [], mc_service_key = []\<rparr>,
      en_mcp = (\<lambda>path h b w. (NotConnected, w)), en_post = (\<lambda>b w. (TimedOut, w + 1)),
      en_uuid = (\<lambda>w. (''id'', w)), en_today = (\<lambda>w. ''2025-01-01''), en_timeout = ''10.0'', en_render = (\<lambda>x. []),
      en_loads = (\<lambda>t. None), en_session = (\<lambda>d. None), en_lax_int = (\<lambda>x. None)\<rparr>"

theorem gateway_requests_bounded_witness:
  "pr_world (snd (handle counting_env named_user (ChatRequest ''s'' ''hello'') (new_proc 0))) \<le> 14"
  using gateway_requests_bounded [of counting_env id named_user "ChatRequest ''s'' ''hello''" "new_proc 0"]
  by (simp add: gateway_count_def env_costs_def counting_env_def new_proc_def)

text \<open>What only a confirmed tool call can break.\<close>

definition unconfirmed_keeps :: "'w env \<Rightarrow> ('w \<Rightarrow> bool) \<Rightarrow> bool" where
  "unconfirmed_keeps v P \<longleftrightarrow>
     (\<forall>r w. P w \<longrightarrow> P (snd (en_app v r w))) \<and> (\<forall>w. P w \<longrightarrow> P (snd (en_uuid v w)))
     \<and> (\<forall>b w. P w \<longrightarrow> P (snd (en_post v b w)))
     \<and> (\<forall>path h b w. \<not> dict_has b ''confirmed'' \<longrightarrow> P w \<longrightarrow> P (snd (en_mcp v path h b w)))"

lemma keeps_costs: "unconfirmed_keeps v P \<Longrightarrow> env_costs v (\<lambda>w. if P w then 0 else 1) 0"
  by (auto simp: unconfirmed_keeps_def env_costs_def)

lemma other_confirmation:
  assumes "map_option pc_confirmation_id (ss_pending (rn_session s)) \<noteq> Some i"
  shows "pr_world (snd (handle_confirm v user i s)) = pr_world s"
  using assms
  by (cases "ss_pending (rn_session s)")
    (auto simp: handle_confirm_def py_then_def ask_def py_get_def chat_answer_def py_of_def py_return_def str_valid_def)

text \<open>
  C4 (confirmed calls): a request to the assistant calls a tool as confirmed only if it is a confirmation that
  names the pending action of the session it is for: whatever everything else preserves, the memory service, the gateway
  and tool calls that are not confirmed, every other request preserves.
\<close>

theorem confirmed_calls_need_confirmation:
  assumes keep: "unconfirmed_keeps v P" and P: "P (pr_world s)"
    and other: "\<forall>i confirmation_id ss shared s'. req = ConfirmRequest i confirmation_id \<longrightarrow>
        get_or_create v i (us_tenant_id user) (us_user_id user) (us_role user) s = (Inr (ss, shared), s') \<longrightarrow>
        map_option pc_confirmation_id (ss_pending ss) \<noteq> Some confirmation_id"
  shows "P (pr_world (snd (handle v user req s)))"
proof -
  let ?f = "\<lambda>w. if P w then 0 else 1 :: nat"
  note env = keeps_costs [OF keep]
  have "?f (pr_world (snd (handle v user req s))) \<le> ?f (pr_world s) + 0"
  proof (rule handle_costs [OF env])
    fix ss shared s'
    assume g: "get_or_create v (request_session req) (us_tenant_id user) (us_user_id user) (us_role user) s = (Inr (ss, shared), s')"
    show "?f (pr_world (snd (handler v user req (begin_run s' ss shared)))) \<le> ?f (pr_world s') + 0"
    proof (cases "is_confirm req")
      case True
      then obtain i c where req: "req = ConfirmRequest i c" by (auto simp: is_confirm_def)
      then have "map_option pc_confirmation_id (ss_pending ss) \<noteq> Some c" using other g by simp
      then have "pr_world (snd (handle_confirm v user c (begin_run s' ss shared))) = pr_world s'"
        using other_confirmation [of "begin_run s' ss shared" c v user] by simp
      then show ?thesis by (simp add: req)
    next
      case False
      then show ?thesis using costsD [OF handler_costs [OF env], of req user "begin_run s' ss shared"] by simp
    qed
  qed
  then show ?thesis using P by (simp split: if_splits)
qed

text \<open>An MCP server that keeps the names of the tools it ran as confirmed.\<close>

definition logging_env :: "string list env" where
  "logging_env =
     \<lparr>en_app = (\<lambda>r w. (None, w)), en_memory = \<lparr>mc_service_id = [], mc_service_key = []\<rparr>,
      en_mcp = (\<lambda>path h b w. (Replied 200 (JsonBody (PDict [])),
        if dict_has b ''confirmed'' then w @ [py_str (\<lambda>x. []) (dict_get_default b ''name'' PNone)] else w)),
      en_post = (\<lambda>b w. (NotConnected, w)),
      en_uuid = (\<lambda>w. (''id'', w)), en_today = (\<lambda>w. ''2025-01-01''), en_timeout = ''10.0'', en_render = (\<lambda>x. []),
      en_loads = (\<lambda>t. None), en_session = (\<lambda>d. None), en_lax_int = (\<lambda>x. None)\<rparr>"

definition pending_session :: session_state where
  "pending_session = (new_session ''s'' ''t'' ''u'' ''auditor'')
     \<lparr>ss_pending := Some \<lparr>pc_confirmation_id = ''c1'', pc_tool_name = ''audit.create_finding'', pc_summary = [], pc_params = []\<rparr>\<rparr>"

definition pending_proc :: "string list proc" where
  "pending_proc = (new_proc [])\<lparr>pr_fallback := [(''s'', pending_session)]\<rparr>"

theorem confirmed_calls_need_confirmation_witness:
  "pr_world (snd (handle logging_env named_user (ConfirmRequest ''s'' ''c2'') pending_proc)) = []"
proof -
  have "get_or_create logging_env ''s'' t u r pending_proc = (Inr (pending_session, True), pending_proc)" for t u r
    by (simp add: get_or_create_def py_then_def py_world_def session_recall_def mc_list_call_def mc_post_json_def
        logging_env_def mc_unwrap_def py_of_def recalled_metadata_def py_truthy_def py_get_def pending_proc_def new_proc_def)
  moreover have "unconfirmed_keeps logging_env (\<lambda>w. w = [])" by (simp add: unconfirmed_keeps_def logging_env_def)
  ultimately show ?thesis
    using confirmed_calls_need_confirmation [of logging_env "\<lambda>w. w = []" pending_proc "ConfirmRequest ''s'' ''c2''" named_user]
    by (auto simp: pending_proc_def new_proc_def pending_session_def)
qed

text \<open>
  C38 (confirmations crash): confirming a pending action calls its tool with its parameters as confirmed, clears
  the pending action, and then always raises: the code reads the action's name from the session after clearing it. The
  user gets an error although the action was carried out, and no result enters the conversation.
\<close>

theorem confirming_executes_and_raises:
  assumes "ss_pending (rn_session s) = Some c" and "pc_confirmation_id c = i"
  shows "\<exists>s' r w. handle_confirm v user i s = (Inl AttributeError, s')
    \<and> execute_confirmed (en_render v) (en_timeout v) (en_mcp v) (PStr (pc_tool_name c)) (PDict (pc_params c))
        (us_jwt_token user) (pr_world s) = (r, w)
    \<and> rn_session s' = (rn_session s)\<lparr>ss_pending := None\<rparr>
    \<and> pr_world s' = snd (session_store (en_app v) (en_memory v) (ss_session_id (rn_session s))
        (session_messages (rn_session s')) (Some (PDict [(''ttl_hours'', PInt session_ttl_hours)])) w)"
proof -
  obtain r w where r: "execute_confirmed (en_render v) (en_timeout v) (en_mcp v) (PStr (pc_tool_name c)) (PDict (pc_params c))
        (us_jwt_token user) (pr_world s) = (r, w)" by (meson surj_pair)
  let ?ss = "(rn_session s)\<lparr>ss_pending := None\<rparr>"
  obtain b w' where w': "session_store (en_app v) (en_memory v) (ss_session_id (rn_session s)) (session_messages ?ss)
      (Some (PDict [(''ttl_hours'', PInt session_ttl_hours)])) w = (b, w')" by (meson surj_pair)
  show ?thesis
    using assms r w'
    by (cases b)
      (simp_all add: handle_confirm_def confirm_pending_def after_confirmed_def set_pending_def save_def py_then_def ask_def
        py_get_def py_world_def assign_def py_update_def py_when_def py_raise_def py_return_def)
qed

theorem confirming_executes_and_raises_witness:
  "fst (handle_confirm logging_env named_user ''c1'' (begin_run pending_proc pending_session True)) = Inl AttributeError"
  using confirming_executes_and_raises [of "begin_run pending_proc pending_session True" _ "''c1''" logging_env named_user]
  by (auto simp: pending_session_def)

text \<open>A plain answer of the gateway, as the client reads it.\<close>

lemma plain_completion:
  assumes "cr_tool_calls r = None"
  shows "\<exists>resp. completion_result (gateway_reply (Completed r)) = Inr resp \<and> ll_tool_calls resp = PNone"
  using assms
  by (simp add: completion_result_def gateway_reply_def is_success_def body_json_def response_of_def completion_json_def
      dict_get_default_def)

lemma plain_llm_call:
  assumes "\<And>b w. fst (en_post v b w) = gateway_reply (Completed r)" and "cr_tool_calls r = None"
  shows "\<exists>resp s'. llm_call v req s = (Inr resp, s') \<and> ll_tool_calls resp = PNone"
proof -
  obtain resp where resp: "completion_result (gateway_reply (Completed r)) = Inr resp" "ll_tool_calls resp = PNone"
    using plain_completion [OF assms(2)] by blast
  have "\<exists>w'. llm_complete (en_post v) req w = (Inr resp, w')" for w
    using assms(1) [of "llm_payload req" w] resp(1)
    by (cases "en_post v (llm_payload req) w") (simp add: llm_complete_def complete_once_def numeral_2_eq_2)
  moreover obtain i w where u: "en_uuid v (pr_world s) = (i, w)" by (meson surj_pair)
  ultimately obtain w' where "llm_complete (en_post v) req w = (Inr resp, w')" by blast
  then show ?thesis using resp(2) u by (simp add: llm_call_def py_then_def py_world_def py_of_def)
qed

lemma llm_call_session: "llm_call v req s = (r, s') \<Longrightarrow> rn_session s' = rn_session s"
  by (auto simp: llm_call_def py_then_def py_world_def py_of_def split: prod.splits sum.splits)

lemma exn_map_raises: "exn_map format_tool xs = Inl e \<Longrightarrow> e = AttributeError"
  by (induction xs) (auto simp: format_tool_def Let_def split: sum.splits pyval.splits)

lemma plain_loop:
  assumes "\<And>b w. fst (en_post v b w) = gateway_reply (Completed r)" and "cr_tool_calls r = None"
  shows "\<exists>s'. run_loop v user s = (Inl (case format_tools (ss_tools_cache (rn_session s)) of Inl e \<Rightarrow> AttributeError | Inr tools \<Rightarrow> TypeError), s')"
proof (cases "format_tools (ss_tools_cache (rn_session s))")
  case (Inl e)
  then have "e = AttributeError" unfolding format_tools_def by (rule exn_map_raises)
  then show ?thesis using Inl by (simp add: run_loop_def py_then_def ask_def py_get_def py_of_def)
next
  case (Inr tools)
  obtain resp s' where "llm_call v (loop_request (rn_session s) user True tools) s = (Inr resp, s')" "ll_tool_calls resp = PNone"
    using plain_llm_call [OF assms] by blast
  moreover have rounds: "max_tool_rounds = Suc 4" by (simp add: max_tool_rounds_def)
  ultimately have "rounds v user tools max_tool_rounds True [] s = (Inl TypeError, s')"
    unfolding rounds rounds.simps(2) by (simp add: py_then_def ask_def py_get_def py_of_def py_len_def)
  then show ?thesis using Inr by (simp add: run_loop_def py_then_def ask_def py_get_def py_of_def)
qed

lemma plain_loop_uncaught:
  assumes "\<And>b w. fst (en_post v b w) = gateway_reply (Completed r)" and "cr_tool_calls r = None"
  shows "fst (py_catch (py_then (run_loop v user) (\<lambda>r. py_return (r, True)))
      (\<lambda>e. py_then (fall_back v message user e) (\<lambda>r. py_return (r, False))) s)
    = Inl (case format_tools (ss_tools_cache (rn_session s)) of Inl e \<Rightarrow> AttributeError | Inr tools \<Rightarrow> TypeError)"
  using plain_loop [OF assms, of user s]
  by (auto simp: py_catch_def py_then_def fall_back_def py_raise_def split: sum.splits)

text \<open>
  Where the handling of a message in full mode starts: in data-only mode after the ping that found the model back. What comes before the loop,
  the prompts of skills and playbooks, the system prompt of a new conversation and the tools' descriptions, succeeds.
\<close>

definition full_start :: "'w env \<Rightarrow> user_context \<Rightarrow> 'w run \<Rightarrow> 'w run" where
  "full_start v user s =
     (if ss_mode (rn_session s) = ''data_only''
      then snd (count_message (snd (set_mode ''full'' (snd (llm_call v (ping_request user) (snd (count_message s)))))))
      else snd (count_message s))"

definition prepared :: "'w env \<Rightarrow> string \<Rightarrow> user_context \<Rightarrow> 'w run \<Rightarrow> bool" where
  "prepared v message user s \<longleftrightarrow>
     (case resolve_skill_context v message user s of
        (Inl e, s1) \<Rightarrow> False
      | (Inr (skill_prompt, prompt), s1) \<Rightarrow>
          (case ensure_system_prompt v user skill_prompt prompt s1 of
             (Inl e, s2) \<Rightarrow> False
           | (Inr _, s2) \<Rightarrow> (case format_tools (ss_tools_cache (rn_session s2)) of Inl e \<Rightarrow> False | Inr tools \<Rightarrow> True)))"

lemma plain_answer_with_model:
  assumes "\<And>b w. fst (en_post v b w) = gateway_reply (Completed r)" and "cr_tool_calls r = None"
  shows "\<exists>e. fst (answer_with_model v message user s) = Inl e \<and> (prepared v message user s \<longrightarrow> e = TypeError)"
proof (cases "resolve_skill_context v message user s")
  case (Pair r s1)
  show ?thesis
  proof (cases r)
    case (Inl e)
    then show ?thesis using Pair by (simp add: answer_with_model_def prepared_def py_then_def)
  next
    case (Inr x)
    obtain sp pp where x: "x = (sp, pp)" by (cases x)
    obtain r2 s2 where ensure: "ensure_system_prompt v user sp pp s1 = (r2, s2)" by (meson surj_pair)
    show ?thesis
    proof (cases r2)
      case (Inl e)
      then show ?thesis using Pair Inr x ensure by (simp add: answer_with_model_def prepared_def py_then_def)
    next
      case loop: (Inr u)
      let ?s3 = "snd (add_history [chat_entry ''user'' (PStr message)] s2)"
      have "ss_tools_cache (rn_session ?s3) = ss_tools_cache (rn_session s2)"
        by (simp add: add_history_def assign_def py_update_def)
      with plain_loop_uncaught [OF assms, of user message ?s3]
      show ?thesis using Pair Inr x ensure loop
        by (auto simp: answer_with_model_def prepared_def py_then_def add_history_def assign_def py_update_def
            split: prod.splits sum.splits)
    qed
  qed
qed


definition plain_answer :: completion_response where
  "plain_answer =
     \<lparr>cr_content = Some ''hello'', cr_model_used = [], cr_tier_used = [], cr_escalated = False, cr_escalation_path = [],
      cr_usage = \<lparr>input_tokens = 0, output_tokens = 0\<rparr>, cr_latency_ms = 0, cr_confidence = 1, cr_tool_calls = None,
      cr_cost_usd = 0, cr_trace_id = []\<rparr>"

definition answering_env :: "unit env" where
  "answering_env = silent_env\<lparr>en_post := (\<lambda>b w. (gateway_reply (Completed plain_answer), w))\<rparr>"


text \<open>Users of a token have no name, so the prompt cannot be built for them.\<close>

lemma validated_user_nameless:
  assumes "get_current_user jo validator token w = (Inr user, validator', w')"
  shows "us_name user = None"
  using assms
  by (auto simp: get_current_user_def validate_token_def identity_of_def
      split: option.splits prod.splits sum.splits if_splits auth_failure.splits)

lemma nameless_open:
  assumes "us_name user = None"
  shows "\<exists>e. fst (handle_init v user s) = Inl e"
proof -
  have opens: "\<exists>e. fst (open_session v user state events tools s) = Inl e" for state events tools s
    unfolding open_session_def
  proof (rule py_then_raises, rule py_then_raises)
    fix prompt skill_prompt and s :: "'a run"
    obtain e where "fst (build v user skill_prompt prompt state events s) = Inl e" using nameless_build [OF assms] by blast
    then show "\<exists>e. fst (py_then (build v user skill_prompt prompt state events) g s) = Inl e" for g :: "string \<Rightarrow> ('a run, chat_response) op"
      by (cases "build v user skill_prompt prompt state events s") (simp add: py_then_def)
  qed
  show ?thesis unfolding handle_init_def by ((rule py_then_raises)+, rule opens)
qed

text \<open>Operations that leave a part of the state alone.\<close>

definition leaves :: "('s \<Rightarrow> 'b) \<Rightarrow> ('s, 'a) op \<Rightarrow> bool" where
  "leaves g m \<longleftrightarrow> (\<forall>s. g (snd (m s)) = g s)"

lemma leaves_basic: "leaves g (py_return x)" "leaves g (py_raise e)" "leaves g (py_of r)" "leaves g (py_get h)"
  by (simp_all add: leaves_def py_return_def py_raise_def py_of_def py_get_def)

lemma leaves_then: "leaves g m \<Longrightarrow> (\<And>x. leaves g (h x)) \<Longrightarrow> leaves g (py_then m h)"
  by (auto simp: leaves_def py_then_def split: prod.splits sum.splits) (metis snd_conv)+

lemma leaves_update: "(\<And>s. g (h s) = g s) \<Longrightarrow> leaves g (py_update h)"
  by (simp add: leaves_def py_update_def)

lemma leaves_world: "(\<And>s w. g (s\<lparr>pr_world := w\<rparr>) = g s) \<Longrightarrow> leaves g (py_world h)"
  by (simp add: leaves_def py_world_def split: prod.splits)

lemma leaves_cases:
  "leaves g m \<Longrightarrow> leaves g m' \<Longrightarrow> leaves g (if b then m else m')"
  "leaves g m \<Longrightarrow> (\<And>x. leaves g (h x)) \<Longrightarrow> leaves g (case opt of None \<Rightarrow> m | Some x \<Rightarrow> h x)"
  by (auto split: option.splits)

lemmas leaves_intros = leaves_basic leaves_then leaves_update leaves_world leaves_cases

abbreviation history :: "'w run \<Rightarrow> pyval list" where
  "history s \<equiv> ss_history (rn_session s)"

lemma skill_context_leaves_history: "leaves history (resolve_skill_context v message user)"
proof -
  have cached: "leaves history (cache_playbook i pb)" for i pb
    by (simp add: leaves_def cache_playbook_def)
  have "leaves history (get_step_prompt v i st ctx t)" for i st ctx t
    by (auto intro!: leaves_intros cached simp: get_step_prompt_def load_playbook_def)
  moreover have "leaves history (get_skill_prompt v i t)" "leaves history (get_skill_playbook v i t)" for i t
    by (auto intro!: leaves_intros simp: get_skill_prompt_def get_skill_playbook_def recall_skills_def)
  ultimately show ?thesis
    by (auto intro!: leaves_intros simp: resolve_skill_context_def playbook_prompt_def activate_skill_def
        start_playbook_def ask_def assign_def)
qed

lemma nameless_message:
  assumes "us_name user = None" and "history s = []"
    and "ss_mode (rn_session s) \<noteq> ''data_only''" and "\<not> (ss_first_launch (rn_session s) \<and> ss_agent_name (rn_session s) = [])"
  shows "\<exists>e. fst (handle_message v message user s) = Inl e"
proof -
  have "\<exists>e. fst (answer_with_model v message user s) = Inl e" if "history s = []" for s
  proof (cases "resolve_skill_context v message user s")
    case (Pair r s')
    then have "history s' = []" using skill_context_leaves_history that by (metis leaves_def snd_conv)
    have ensure: "\<exists>e s2. ensure_system_prompt v user sp pp s' = (Inl e, s2)" for sp pp
    proof -
      obtain e where "fst (build v user sp pp None [] s') = Inl e" using nameless_build [OF assms(1)] by blast
      then show ?thesis using \<open>history s' = []\<close>
        by (cases "build v user sp pp None [] s'") (simp add: ensure_system_prompt_def py_then_def ask_def py_get_def)
    qed
    show ?thesis
    proof (cases r)
      case (Inl e)
      then show ?thesis using Pair by (simp add: answer_with_model_def py_then_def)
    next
      case (Inr x)
      obtain sp pp where x: "x = (sp, pp)" by (cases x)
      obtain e s2 where "ensure_system_prompt v user sp pp s' = (Inl e, s2)" using ensure by blast
      then show ?thesis using Pair Inr x by (simp add: answer_with_model_def py_then_def)
    qed
  qed
  then show ?thesis
    using assms(2-4)
    by (auto simp: handle_message_def handle_full_def py_then_def count_message_def assign_def py_update_def ask_def py_get_def)
qed

lemma get_or_create_silent:
  assumes "fastapi_app health_routes register_routes (en_app v)"
  shows "get_or_create v i t u r s =
    (Inr (case dict_get (pr_fallback s) i of Some ss \<Rightarrow> (ss, True) | None \<Rightarrow> (new_session i t u r, False)), s)"
  by (simp add: get_or_create_def py_then_def py_world_def silent_memory [OF assms] py_of_def recalled_metadata_def
      py_truthy_def py_get_def)

text \<open>
  C40 (no answer for users of a token): whatever the token validator, the identity it reads has no name; so
  opening a session never succeeds, and with the real memory service, which keeps no sessions, neither does sending a
  message to a session that is not in the fallback dictionary. The only answers the service ever gives a user of a fresh
  session are that there is nothing to confirm or to cancel.
\<close>

theorem token_users_get_no_answer:
  assumes "fastapi_app health_routes register_routes (en_app v)"
    and "dict_get (pr_fallback s) (request_session req) = None"
    and "fst (endpoint jo v validator token req s) = Inr answer"
  shows "\<exists>i confirmation_id. req = ConfirmRequest i confirmation_id \<and> ch_message answer = ''No pending action to confirm.''
      \<or> req = CancelRequest i confirmation_id \<and> ch_message answer = ''No pending action to cancel.''"
proof -
  obtain user validator' w where u: "get_current_user jo validator token (pr_world s) = (Inr user, validator', w)"
    using assms(3) by (auto simp: endpoint_def split: prod.splits sum.splits)
  note nameless = validated_user_nameless [OF u]
  let ?i = "request_session req" and ?s = "s\<lparr>pr_world := w\<rparr>"
  let ?new = "new_session ?i (us_tenant_id user) (us_user_id user) (us_role user)"
  have get: "get_or_create v ?i (us_tenant_id user) (us_user_id user) (us_role user) ?s = (Inr (?new, False), ?s)"
    using assms(2) by (simp add: get_or_create_silent [OF assms(1)])
  have run: "fst (handler v user req (begin_run ?s ?new False)) = Inr answer"
    using assms(3) by (auto simp: endpoint_def u handle_eq get split: sum.splits)
  show ?thesis
  proof (cases req)
    case (InitRequest i)
    then show ?thesis using run nameless_open [OF nameless, of v "begin_run ?s ?new False"] by auto
  next
    case (ChatRequest i message)
    have "\<exists>e. fst (handle_message v message user (begin_run ?s ?new False)) = Inl e"
      by (rule nameless_message [OF nameless]) (simp_all add: new_session_def)
    then show ?thesis using run ChatRequest by auto
  next
    case (ConfirmRequest i c)
    then show ?thesis using run
      by (auto simp: handle_confirm_def py_then_def ask_def py_get_def new_session_def chat_answer_def py_of_def
          str_valid_def py_return_def)
  next
    case (CancelRequest i c)
    then show ?thesis using run
      by (auto simp: handle_cancel_def py_then_def ask_def py_get_def new_session_def chat_answer_def py_of_def
          str_valid_def py_return_def)
  qed
qed

definition cached_jose :: "unit jose" where
  "cached_jose = \<lparr>jo_header = (\<lambda>t. Some [(''kid'', PStr ''k1'')]),
     jo_decode = (\<lambda>t k. Some [(''sub'', PStr ''u''), (''custom:tenant_id'', PStr ''t'')]),
     jo_fetch = (\<lambda>w. (NotConnected, w)), jo_clock = (\<lambda>w. 0)\<rparr>"

definition cached_validator :: token_validator where
  "cached_validator = \<lparr>tv_jwks_cache = Some [(''k1'', PDict [])], tv_fetched_at = 0\<rparr>"

theorem token_users_get_no_answer_witness:
  "\<exists>answer. fst (endpoint cached_jose silent_env (Some cached_validator) ''x'' (CancelRequest ''s'' ''c'') (new_proc ())) = Inr answer
     \<and> ch_message answer = ''No pending action to cancel.''"
proof -
  let ?e = "fst (endpoint cached_jose silent_env (Some cached_validator) ''x'' (CancelRequest ''s'' ''c'') (new_proc ()))"
  have app: "fastapi_app health_routes register_routes (en_app silent_env)"
    by (simp add: fastapi_app_def silent_env_def failed_def)
  have none: "dict_get (pr_fallback (new_proc ())) (request_session (CancelRequest ''s'' ''c'')) = None"
    by (simp add: new_proc_def)
  have "case ?e of Inl n \<Rightarrow> False | Inr r \<Rightarrow> True" by code_simp
  then obtain answer where "?e = Inr answer" by (auto split: sum.splits)
  from token_users_get_no_answer [OF app none this] this show ?thesis by auto
qed

text \<open>
  (sessions of other users): with the real memory service, a session in the fallback dictionary is handed to
  whoever names its identifier: neither the tenant nor the user nor the role of the request is compared with the session's,
  so another tenant's user sees its conversation and can confirm its pending action.
\<close>

theorem sessions_belong_to_nobody:
  assumes "fastapi_app health_routes register_routes (en_app v)"
    and "dict_get (pr_fallback s) (request_session req) = Some ss"
  shows "handle v user req s =
    (fst (handler v user req (begin_run s ss True)), end_run (snd (handler v user req (begin_run s ss True))))"
  using assms(2) by (simp add: handle_eq get_or_create_silent [OF assms(1)])

definition shared_proc :: "unit proc" where
  "shared_proc = (new_proc ())\<lparr>pr_fallback := [(''s'', pending_session)]\<rparr>"

theorem sessions_belong_to_nobody_witness:
  "ss_tenant_id pending_session \<noteq> us_tenant_id (named_user\<lparr>us_tenant_id := ''other''\<rparr>)
   \<and> handle silent_env (named_user\<lparr>us_tenant_id := ''other''\<rparr>) (InitRequest ''s'') shared_proc =
    (fst (handler silent_env (named_user\<lparr>us_tenant_id := ''other''\<rparr>) (InitRequest ''s'') (begin_run shared_proc pending_session True)),
     end_run (snd (handler silent_env (named_user\<lparr>us_tenant_id := ''other''\<rparr>) (InitRequest ''s'')
       (begin_run shared_proc pending_session True))))"
proof (rule conjI)
  have "fastapi_app health_routes register_routes (en_app silent_env)"
    by (simp add: fastapi_app_def silent_env_def failed_def)
  then show "handle silent_env (named_user\<lparr>us_tenant_id := ''other''\<rparr>) (InitRequest ''s'') shared_proc =
    (fst (handler silent_env (named_user\<lparr>us_tenant_id := ''other''\<rparr>) (InitRequest ''s'') (begin_run shared_proc pending_session True)),
     end_run (snd (handler silent_env (named_user\<lparr>us_tenant_id := ''other''\<rparr>) (InitRequest ''s'')
       (begin_run shared_proc pending_session True))))"
    by (rule sessions_belong_to_nobody) (simp add: shared_proc_def new_proc_def)
qed (simp add: pending_session_def new_session_def)

text \<open>With the real memory service every save ends in the fallback dictionary.\<close>

lemma save_falls_back:
  assumes "fastapi_app health_routes register_routes (en_app v)"
  shows "save v s = (Inr (), s\<lparr>pr_fallback := dict_set (ss_session_id (rn_session s)) (rn_session s) (pr_fallback s),
    rn_shared := True\<rparr>)"
  by (simp add: save_def py_then_def ask_def py_get_def py_world_def silent_memory [OF assms] py_when_def py_update_def)

text \<open>The endpoint before start-up configured a validator, which \<^verbatim>\<open>main.py\<close> never does.\<close>

lemma no_validator_no_service: "endpoint jo v None token req s = (Inl 500, None, s)"
  by (simp add: endpoint_def get_current_user_def)

end
