(* ===== verification/Sb_Code.thy ===== *)
theory Sb_Code
  imports Ev_Graph "HOL-Library.Multiset"
begin

text \<open>
  The code a sandbox runs: the request and its validation (\<^verbatim>\<open>sandbox-service/src/models.py\<close>, \<^verbatim>\<open>config.py\<close>), the
  static check of the submitted program (\<^verbatim>\<open>security/import_allowlist.py\<close>), and the preamble that is put before it
  (\<^verbatim>\<open>execution/preamble.py\<close>).

  A program arrives as its syntax tree: \<^verbatim>\<open>ast.parse\<close> is a parameter, and nodes other than the ones the check looks at are
  \<open>Node\<close> with their children. The preamble is modelled twice: as the text that is written, and as the statements it consists
  of, with a semantics for global names and the import hook; what the modules of the container contain is a parameter.
\<close>

section \<open>Settings and requests\<close>

record sandbox_settings =
  sx_max_concurrent_executions :: nat
  sx_queue_size :: int
  sx_max_timeout_sec :: int
  sx_max_memory_mb :: int
  sx_max_output_size_mb :: nat
  sx_max_file_count :: nat
  sx_max_total_file_size_mb :: nat

definition default_sandbox_settings :: sandbox_settings where
  "default_sandbox_settings =
     \<lparr>sx_max_concurrent_executions = 5, sx_queue_size = 20, sx_max_timeout_sec = 300, sx_max_memory_mb = 2048,
      sx_max_output_size_mb = 1, sx_max_file_count = 10, sx_max_total_file_size_mb = 100\<rparr>"

datatype file_type = CSV | EXCEL | PARQUET | JSON | PDF

record file_reference =
  fr_storage_key :: string
  fr_load_as :: string
  fr_type :: file_type

record execution_request =
  er_code :: string
  er_files :: "file_reference list"
  er_timeout_sec :: int
  er_memory_limit_mb :: int
  er_agent :: string
  er_trace_id :: string

definition file_type_names :: "(string, file_type) dict" where
  "file_type_names = [(''csv'', CSV), (''excel'', EXCEL), (''parquet'', PARQUET), (''json'', JSON), (''pdf'', PDF)]"

definition letter_or_underscore :: "char \<Rightarrow> bool" where
  "letter_or_underscore c \<longleftrightarrow>
     (let n = of_char c :: nat in (97 \<le> n \<and> n \<le> 122) \<or> (65 \<le> n \<and> n \<le> 90) \<or> n = 95)"

definition digit_char :: "char \<Rightarrow> bool" where
  "digit_char c \<longleftrightarrow> (let n = of_char c :: nat in 48 \<le> n \<and> n \<le> 57)"

text \<open>\<^verbatim>\<open>^[a-zA-Z_][a-zA-Z0-9_]*$\<close> with at most 64 characters\<close>

definition valid_identifier :: "string \<Rightarrow> bool" where
  "valid_identifier s \<longleftrightarrow>
     (case s of [] \<Rightarrow> False
      | c # cs \<Rightarrow> letter_or_underscore c \<and> list_all (\<lambda>d. letter_or_underscore d \<or> digit_char d) cs) \<and> length s \<le> 64"

definition valid_storage_key :: "string \<Rightarrow> bool" where
  "valid_storage_key key \<longleftrightarrow>
     key \<noteq> [] \<and> \<not> str_in ''..'' key \<and> \<not> str_startswith key ''/'' \<and> CHR 0x00 \<notin> set key"

definition parse_file :: "pyval \<Rightarrow> file_reference option" where
  "parse_file v =
     (case v of
        PDict d \<Rightarrow>
          (case (dict_get d ''storage_key'', dict_get d ''load_as'', dict_get d ''type'') of
             (Some (PStr key), Some (PStr name), Some (PStr t)) \<Rightarrow>
               (case dict_get file_type_names t of
                  None \<Rightarrow> None
                | Some ty \<Rightarrow>
                    if valid_storage_key key \<and> valid_identifier name
                    then Some \<lparr>fr_storage_key = key, fr_load_as = name, fr_type = ty\<rparr> else None)
           | _ \<Rightarrow> None)
      | _ \<Rightarrow> None)"

text \<open>A bounded integer field with a default, under pydantic's reading of numbers.\<close>

definition int_field ::
    "(pyval \<Rightarrow> int option) \<Rightarrow> (string \<times> pyval) list \<Rightarrow> string \<Rightarrow> int \<Rightarrow> int \<Rightarrow> int \<Rightarrow> int option" where
  "int_field lax_int body k other least most =
     (case dict_get body k of
        None \<Rightarrow> Some other
      | Some v \<Rightarrow> (case lax_int v of None \<Rightarrow> None | Some n \<Rightarrow> if least \<le> n \<and> n \<le> most then Some n else None))"

definition text_field :: "(string \<times> pyval) list \<Rightarrow> string \<Rightarrow> string \<Rightarrow> string option" where
  "text_field body k other =
     (case dict_get body k of None \<Rightarrow> Some other | Some (PStr s) \<Rightarrow> Some s | Some _ \<Rightarrow> None)"

definition parse_files :: "(string \<times> pyval) list \<Rightarrow> file_reference list option" where
  "parse_files body =
     (case dict_get body ''files'' of
        None \<Rightarrow> Some []
      | Some (PList vs) \<Rightarrow>
          (case opt_map parse_file vs of
             None \<Rightarrow> None
           | Some fs \<Rightarrow> if distinct (map fr_load_as fs) then Some fs else None)
      | Some _ \<Rightarrow> None)"

definition parse_execution_request :: "(pyval \<Rightarrow> int option) \<Rightarrow> (string \<times> pyval) list \<Rightarrow> execution_request option" where
  "parse_execution_request lax_int body =
     (case (dict_get body ''code'', parse_files body, int_field lax_int body ''timeout_sec'' 60 1 300,
            int_field lax_int body ''memory_limit_mb'' 512 64 2048, text_field body ''agent'' ''unknown'',
            text_field body ''trace_id'' []) of
        (Some (PStr code), Some files, Some timeout_sec, Some memory_limit_mb, Some agent, Some trace_id) \<Rightarrow>
          if code = [] \<or> 1000000 < length code then None
          else Some \<lparr>er_code = code, er_files = files, er_timeout_sec = timeout_sec,
                     er_memory_limit_mb = memory_limit_mb, er_agent = agent, er_trace_id = trace_id\<rparr>
      | _ \<Rightarrow> None)"

section \<open>The static check\<close>

definition blocked_modules :: "string list" where
  "blocked_modules =
     [''os'', ''subprocess'', ''shutil'', ''pty'', ''pipes'', ''multiprocessing'', ''threading'', ''signal'',
      ''socket'', ''http'', ''urllib'', ''requests'', ''httpx'', ''ftplib'', ''smtplib'', ''telnetlib'', ''xmlrpc'',
      ''webbrowser'', ''sqlite3'', ''psycopg2'', ''pymongo'', ''mysql'', ''pickle'', ''shelve'', ''marshal'',
      ''ctypes'', ''cffi'', ''importlib'', ''sys'', ''code'', ''codeop'', ''compile'', ''compileall'', ''py_compile'',
      ''inspect'', ''antigravity'', ''turtle'']"

definition blocked_attributes :: "(string \<times> string) list" where
  "blocked_attributes =
     [(''os'', ''system''), (''os'', ''popen''), (''os'', ''exec''), (''os'', ''execv''), (''os'', ''execve''),
      (''os'', ''spawn''), (''os'', ''spawnl''), (''os'', ''fork''), (''os'', ''kill''), (''os'', ''unlink''),
      (''os'', ''remove''), (''os'', ''rmdir''), (''shutil'', ''rmtree''), (''shutil'', ''move'')]"

definition blocked_calls :: "string list" where
  "blocked_calls = [''eval'', ''exec'', ''compile'', ''__import__'']"

text \<open>
  A node of the syntax tree. The names bound by \<^verbatim>\<open>from m import ...\<close>, and the aliases of an import, are not
  looked at by the check and left out; the children of a call are its function and its arguments.
\<close>

datatype py_ast =
    Import "string list"
  | ImportFrom "string option"
  | Name string
  | Attribute py_ast string
  | Call py_ast "py_ast list"
  | Node "py_ast list"

definition top_module :: "string \<Rightarrow> string" where
  "top_module m = hd (split_char CHR ''.'' m)"

definition quoted :: "string \<Rightarrow> string" where
  "quoted s = CHR 0x27 # s @ [CHR 0x27]"

definition import_violation :: "string \<Rightarrow> string \<Rightarrow> string" where
  "import_violation what m =
     ''Blocked import: '' @ what @ '' (module '' @ quoted (top_module m) @ '' is not available in sandbox)''"

definition call_violation :: "string \<Rightarrow> string" where
  "call_violation f = ''Blocked call: '' @ quoted (f @ ''()'') @ '' is not allowed in sandbox''"

text \<open>The violations a single node adds: the body of the loop over \<^verbatim>\<open>ast.walk\<close>.\<close>

fun node_violations :: "py_ast \<Rightarrow> string list" where
  "node_violations (Import names) =
     map (\<lambda>m. import_violation (quoted m) m) (filter (\<lambda>m. top_module m \<in> set blocked_modules) names)"
| "node_violations (ImportFrom (Some m)) =
     (if m \<noteq> [] \<and> top_module m \<in> set blocked_modules
      then [import_violation (quoted (''from '' @ m @ '' import ...'')) m] else [])"
| "node_violations (Call (Name f) args) = (if f \<in> set blocked_calls then [call_violation f] else [])"
| "node_violations (Call (Attribute (Name m) f) args) =
     (if (m, f) \<in> set blocked_attributes then [call_violation (m @ ''.'' @ f)] else [])"
| "node_violations _ = []"

fun children :: "py_ast \<Rightarrow> py_ast list" where
  "children (Attribute v _) = [v]"
| "children (Call f args) = f # args"
| "children (Node ns) = ns"
| "children _ = []"

text \<open>\<^verbatim>\<open>ast.walk\<close>: a queue of nodes, the children of each appended behind.\<close>

definition weight :: "py_ast list \<Rightarrow> nat" where
  "weight ns = sum_list (map (\<lambda>n. Suc (size n)) ns)"

lemma size_list_weight: "size_list size ns = weight ns"
  by (induction ns) (auto simp: weight_def)

lemma children_smaller: "weight (children n) < Suc (size n)"
  by (cases n) (auto simp: size_list_weight, simp_all add: weight_def)

function ast_walk :: "py_ast list \<Rightarrow> py_ast list" where
  "ast_walk [] = []"
| "ast_walk (n # todo) = n # ast_walk (todo @ children n)"
  by pat_completeness auto
termination
  by (relation "measure weight") (use children_smaller in \<open>auto simp: weight_def\<close>)

definition check_tree :: "py_ast \<Rightarrow> string list" where
  "check_tree tree = concat (map node_violations (ast_walk [tree]))"

text \<open>\<^verbatim>\<open>ast.parse\<close> yields a tree, or a syntax error with its message and line, or another exception.\<close>

datatype parsed = Parsed py_ast | BadSyntax string string | ParseRaises

definition check_code_safety :: "(string \<Rightarrow> parsed) \<Rightarrow> string \<Rightarrow> string list option" where
  "check_code_safety parse code =
     (case parse code of
        Parsed tree \<Rightarrow> Some (check_tree tree)
      | BadSyntax msg line \<Rightarrow> Some [''SyntaxError: '' @ msg @ '' (line '' @ line @ '')'']
      | ParseRaises \<Rightarrow> None)"

text \<open>Every node of a tree, by recursion on the tree.\<close>

fun nodes :: "py_ast \<Rightarrow> py_ast list" where
  "nodes (Attribute v a) = Attribute v a # nodes v"
| "nodes (Call f args) = Call f args # nodes f @ concat (map nodes args)"
| "nodes (Node ns) = Node ns # concat (map nodes ns)"
| "nodes n = [n]"

lemma nodes_children: "nodes n = n # concat (map nodes (children n))"
  by (cases n) auto

lemma walk_nodes: "mset (ast_walk q) = mset (concat (map nodes q))"
proof (induction q rule: ast_walk.induct)
  case (2 n todo)
  then show ?case by (simp add: nodes_children [of n])
qed simp

section \<open>The preamble\<close>

text \<open>The statements of the preamble, with the text they have in it.\<close>

datatype py_statement =
    ImportAs string string
  | ImportPlain string
  | FromImport string "string list"
  | BindImport string
  | BindModules string "string list list"
  | DefineHook string
  | InstallHook string
  | DeleteName string
  | IgnoreWarnings
  | BindPath string string
  | LoadFrame string file_type string
  | BlankLine

definition reader_name :: "file_type \<Rightarrow> string" where
  "reader_name t =
     (case t of CSV \<Rightarrow> ''read_csv'' | EXCEL \<Rightarrow> ''read_excel'' | PARQUET \<Rightarrow> ''read_parquet'' | JSON \<Rightarrow> ''read_json'' | PDF \<Rightarrow> [])"

definition comma_list :: "string list \<Rightarrow> string" where
  "comma_list ns = str_join '', '' ns"

fun statement_lines :: "py_statement \<Rightarrow> string list" where
  "statement_lines (ImportAs m n) = [''import '' @ m @ '' as '' @ n]"
| "statement_lines (ImportPlain m) = [''import '' @ m]"
| "statement_lines (FromImport m ns) = [''from '' @ m @ '' import '' @ comma_list ns]"
| "statement_lines (BindImport n) = [n @ '' = _builtins.__import__'']"
| "statement_lines (BindModules n rows) =
     [n @ '' = frozenset({''] @ map (\<lambda>ms. ''    '' @ comma_list (map quoted ms) @ '','') rows @ [''})'']"
| "statement_lines (DefineHook n) =
     [''def '' @ n @ ''(name, *args, **kwargs):'',
      ''    top_level = name.split('' @ quoted ''.'' @ '')[0]'',
      ''    if top_level in _BLOCKED_MODULES:'',
      ''        raise ImportError(f'' @ [CHR 0x22] @ ''Module '' @ quoted ''{name}'' @ '' is not available in sandbox''
        @ [CHR 0x22] @ '')'',
      ''    return _original_import(name, *args, **kwargs)'']"
| "statement_lines (InstallHook n) = [''_builtins.__import__ = '' @ n]"
| "statement_lines (DeleteName n) = [''del '' @ n]"
| "statement_lines IgnoreWarnings = [''warnings.filterwarnings('' @ quoted ''ignore'' @ '')'']"
| "statement_lines (BindPath n path) = [n @ '' = '' @ quoted path]"
| "statement_lines (LoadFrame n t path) = [n @ '' = pd.'' @ reader_name t @ ''('' @ quoted path @ '')'']"
| "statement_lines BlankLine = [[]]"

definition runtime_blocked :: "string list list" where
  "runtime_blocked =
     [[''os'', ''subprocess'', ''shutil'', ''socket'', ''http'', ''urllib''],
      [''requests'', ''httpx'', ''sqlite3'', ''psycopg2'', ''pymongo''],
      [''pickle'', ''shelve'', ''ctypes'', ''cffi'', ''importlib''],
      [''multiprocessing'', ''threading'', ''signal'', ''pty'', ''pipes''],
      [''webbrowser'', ''antigravity'', ''turtle'']]"

definition standard_imports :: "py_statement list" where
  "standard_imports =
     [ImportAs ''builtins'' ''_builtins'', BindImport ''_original_import'',
      BindModules ''_BLOCKED_MODULES'' runtime_blocked, BlankLine,
      DefineHook ''_safe_import'', BlankLine,
      InstallHook ''_safe_import'', DeleteName ''_original_import'', BlankLine,
      ImportAs ''pandas'' ''pd'', ImportAs ''numpy'' ''np'', ImportPlain ''json'', ImportPlain ''re'', ImportPlain ''hashlib'',
      FromImport ''datetime'' [''datetime'', ''timedelta''], FromImport ''collections'' [''Counter'', ''defaultdict''],
      FromImport ''pathlib'' [''Path''], ImportPlain ''warnings'', IgnoreWarnings]"

definition data_path :: "file_reference \<Rightarrow> string" where
  "data_path f = ''/tmp/data/'' @ base_name (fr_storage_key f)"

definition load_statement :: "file_reference \<Rightarrow> py_statement" where
  "load_statement f =
     (if fr_type f = PDF then BindPath (fr_load_as f) (data_path f) else LoadFrame (fr_load_as f) (fr_type f) (data_path f))"

definition preamble_statements :: "file_reference list \<Rightarrow> py_statement list" where
  "preamble_statements files = standard_imports @ map load_statement files"

text \<open>\<^verbatim>\<open>generate_preamble\<close>: the standard text ends with a newline of its own.\<close>

definition generate_preamble :: "file_reference list \<Rightarrow> string" where
  "generate_preamble files =
     (let newline = [CHR 0x0A]
      in str_join newline
           ([str_join newline (concat (map statement_lines standard_imports)) @ newline]
            @ map (\<lambda>f. str_join newline (statement_lines (load_statement f))) files @ [[]]))"

section \<open>Running the preamble\<close>

text \<open>
  Values of global names; functions look their free names up when they are called. \<open>Hook\<close> is the function the preamble defines,
  \<open>OriginalImport\<close> the import function of the interpreter.
\<close>

datatype py_value = ModuleValue string | OriginalImport | Hook | Modules "string list" | OtherValue

datatype run_error = NameError string | ImportError string | TypeErrorRaised | OtherRaised string

record interpreter =
  ip_globals :: "(string, py_value) dict"
  ip_import :: py_value

definition new_interpreter :: interpreter where
  "new_interpreter = \<lparr>ip_globals = [], ip_import = OriginalImport\<rparr>"

text \<open>What the container offers: its modules, and the readers of pandas.\<close>

record container =
  ct_has_module :: "string \<Rightarrow> bool"
  ct_has_name :: "string \<Rightarrow> string \<Rightarrow> bool"
  ct_reads :: "file_type \<Rightarrow> string \<Rightarrow> run_error option"

definition global_value :: "interpreter \<Rightarrow> string \<Rightarrow> run_error + py_value" where
  "global_value ip n = (case dict_get (ip_globals ip) n of None \<Rightarrow> Inl (NameError n) | Some v \<Rightarrow> Inr v)"

definition original_import :: "container \<Rightarrow> string \<Rightarrow> run_error + unit" where
  "original_import ct m = (if m = ''builtins'' \<or> ct_has_module ct m then Inr () else Inl (ImportError m))"

text \<open>The body of \<^verbatim>\<open>_safe_import\<close>.\<close>

definition hook_import :: "container \<Rightarrow> interpreter \<Rightarrow> string \<Rightarrow> run_error + unit" where
  "hook_import ct ip m =
     (case global_value ip ''_BLOCKED_MODULES'' of
        Inl e \<Rightarrow> Inl e
      | Inr (Modules ms) \<Rightarrow>
          if top_module m \<in> set ms then Inl (ImportError m)
          else (case global_value ip ''_original_import'' of
                  Inl e \<Rightarrow> Inl e
                | Inr OriginalImport \<Rightarrow> original_import ct m
                | Inr _ \<Rightarrow> Inl TypeErrorRaised)
      | Inr _ \<Rightarrow> Inl TypeErrorRaised)"

definition import_module :: "container \<Rightarrow> interpreter \<Rightarrow> string \<Rightarrow> run_error + unit" where
  "import_module ct ip m =
     (case ip_import ip of
        OriginalImport \<Rightarrow> original_import ct m
      | Hook \<Rightarrow> hook_import ct ip m
      | _ \<Rightarrow> Inl TypeErrorRaised)"

definition bind_name :: "string \<Rightarrow> py_value \<Rightarrow> interpreter \<Rightarrow> interpreter" where
  "bind_name n v ip = ip\<lparr>ip_globals := dict_set n v (ip_globals ip)\<rparr>"

definition after_import ::
    "container \<Rightarrow> string \<Rightarrow> (interpreter \<Rightarrow> run_error + interpreter) \<Rightarrow> interpreter \<Rightarrow> run_error + interpreter" where
  "after_import ct m k ip = (case import_module ct ip m of Inl e \<Rightarrow> Inl e | Inr _ \<Rightarrow> k ip)"

definition needs_name :: "string \<Rightarrow> (py_value \<Rightarrow> run_error + interpreter) \<Rightarrow> interpreter \<Rightarrow> run_error + interpreter" where
  "needs_name n k ip = (case global_value ip n of Inl e \<Rightarrow> Inl e | Inr v \<Rightarrow> k v)"

fun run_statement :: "container \<Rightarrow> py_statement \<Rightarrow> interpreter \<Rightarrow> run_error + interpreter" where
  "run_statement ct (ImportAs m n) ip = after_import ct m (\<lambda>ip. Inr (bind_name n (ModuleValue m) ip)) ip"
| "run_statement ct (ImportPlain m) ip = after_import ct m (\<lambda>ip. Inr (bind_name m (ModuleValue m) ip)) ip"
| "run_statement ct (FromImport m ns) ip =
     after_import ct m (\<lambda>ip. if list_all (ct_has_name ct m) ns then Inr (fold (\<lambda>n. bind_name n OtherValue) ns ip)
                            else Inl (ImportError m)) ip"
| "run_statement ct (BindImport n) ip = needs_name ''_builtins'' (\<lambda>_. Inr (bind_name n (ip_import ip) ip)) ip"
| "run_statement ct (BindModules n rows) ip = Inr (bind_name n (Modules (concat rows)) ip)"
| "run_statement ct (DefineHook n) ip = Inr (bind_name n Hook ip)"
| "run_statement ct (InstallHook n) ip =
     needs_name n (\<lambda>v. needs_name ''_builtins'' (\<lambda>_. Inr (ip\<lparr>ip_import := v\<rparr>)) ip) ip"
| "run_statement ct (DeleteName n) ip =
     needs_name n (\<lambda>_. Inr (ip\<lparr>ip_globals := dict_del n (ip_globals ip)\<rparr>)) ip"
| "run_statement ct IgnoreWarnings ip = needs_name ''warnings'' (\<lambda>_. Inr ip) ip"
| "run_statement ct (BindPath n path) ip = Inr (bind_name n OtherValue ip)"
| "run_statement ct (LoadFrame n t path) ip =
     needs_name ''pd'' (\<lambda>_. case ct_reads ct t path of None \<Rightarrow> Inr (bind_name n OtherValue ip) | Some e \<Rightarrow> Inl e) ip"
| "run_statement ct BlankLine ip = Inr ip"

fun run_statements :: "container \<Rightarrow> py_statement list \<Rightarrow> interpreter \<Rightarrow> run_error + interpreter" where
  "run_statements ct [] ip = Inr ip"
| "run_statements ct (s # ss) ip = (case run_statement ct s ip of Inl e \<Rightarrow> Inl e | Inr ip' \<Rightarrow> run_statements ct ss ip')"

text \<open>The assembled program: the preamble, then what was submitted.\<close>

definition run_program ::
    "container \<Rightarrow> (interpreter \<Rightarrow> run_error + 'v) \<Rightarrow> file_reference list \<Rightarrow> run_error + 'v" where
  "run_program ct submitted files =
     (case run_statements ct (preamble_statements files) new_interpreter of Inl e \<Rightarrow> Inl e | Inr ip \<Rightarrow> submitted ip)"

section \<open>What they do\<close>

lemma mset_concat_map: "mset xs = mset ys \<Longrightarrow> mset (concat (map f xs)) = mset (concat (map f ys))"
  by (simp add: mset_concat flip: mset_map sum_mset_sum_list) (metis mset_map)

text \<open>
  What the check is to find, independently of how it looks: the parts of a tree, the modules by the danger they bring, and the uses that are reported.
\<close>

inductive occurs :: "py_ast \<Rightarrow> py_ast \<Rightarrow> bool" where
  itself: "occurs n n"
| below: "occurs n c \<Longrightarrow> c \<in> set (children m) \<Longrightarrow> occurs n m"

datatype danger = Shell | Network | Databases | Deserialization | NativeCode | DynamicImports | SystemInternals | Miscellaneous

fun modules_of :: "danger \<Rightarrow> string set" where
  "modules_of Shell = {''os'', ''subprocess'', ''shutil'', ''pty'', ''pipes'', ''multiprocessing'', ''threading'', ''signal''}"
| "modules_of Network = {''socket'', ''http'', ''urllib'', ''requests'', ''httpx'', ''ftplib'', ''smtplib'', ''telnetlib'', ''xmlrpc'', ''webbrowser''}"
| "modules_of Databases = {''sqlite3'', ''psycopg2'', ''pymongo'', ''mysql''}"
| "modules_of Deserialization = {''pickle'', ''shelve'', ''marshal''}"
| "modules_of NativeCode = {''ctypes'', ''cffi''}"
| "modules_of DynamicImports = {''importlib''}"
| "modules_of SystemInternals = {''sys'', ''code'', ''codeop'', ''compile'', ''compileall'', ''py_compile'', ''inspect''}"
| "modules_of Miscellaneous = {''antigravity'', ''turtle''}"

inductive blocked_use :: "py_ast \<Rightarrow> string \<Rightarrow> bool" where
  imported: "m \<in> set names \<Longrightarrow> top_module m \<in> modules_of danger \<Longrightarrow> blocked_use (Import names) (import_violation (quoted m) m)"
| imported_from: "m \<noteq> [] \<Longrightarrow> top_module m \<in> modules_of danger \<Longrightarrow>
    blocked_use (ImportFrom (Some m)) (import_violation (quoted (''from '' @ m @ '' import ...'')) m)"
| called: "f \<in> {''eval'', ''exec'', ''compile'', ''__import__''} \<Longrightarrow> blocked_use (Call (Name f) args) (call_violation f)"
| method_called: "m = ''os'' \<and> a \<in> {''system'', ''popen'', ''exec'', ''execv'', ''execve'', ''spawn'', ''spawnl'', ''fork'', ''kill'',
      ''unlink'', ''remove'', ''rmdir''} \<or> m = ''shutil'' \<and> a \<in> {''rmtree'', ''move''} \<Longrightarrow>
    blocked_use (Call (Attribute (Name m) a) args) (call_violation (m @ ''.'' @ a))"

inductive_simps blocked_use_simps:
  "blocked_use (Import names) v" "blocked_use (ImportFrom x) v" "blocked_use (Name x) v" "blocked_use (Attribute y a) v"
  "blocked_use (Call f args) v" "blocked_use (Node ns) v"

lemma occurs_below:
  "occurs n v \<Longrightarrow> occurs n (Attribute v a)"
  "occurs n f \<Longrightarrow> occurs n (Call f args)"
  "x \<in> set args \<Longrightarrow> occurs n x \<Longrightarrow> occurs n (Call f args)"
  "x \<in> set ns \<Longrightarrow> occurs n x \<Longrightarrow> occurs n (Node ns)"
  by (erule occurs.below occurs.below [rotated], simp)+

lemma occurs_nodes: "occurs n tree \<longleftrightarrow> n \<in> set (nodes tree)"
proof
  show "occurs n tree \<Longrightarrow> n \<in> set (nodes tree)"
  proof (induction rule: occurs.induct)
    case (itself n)
    then show ?case by (subst nodes_children) simp
  next
    case (below n c m)
    then show ?case by (subst nodes_children) auto
  qed
  show "n \<in> set (nodes tree) \<Longrightarrow> occurs n tree"
    by (induction tree rule: nodes.induct) (auto intro: occurs.itself occurs_below)
qed

lemma blocked_modules_by_danger: "m \<in> set blocked_modules \<longleftrightarrow> (\<exists>danger. m \<in> modules_of danger)"
proof -
  have all: "(\<exists>danger. P danger) \<longleftrightarrow> P Shell \<or> P Network \<or> P Databases \<or> P Deserialization \<or> P NativeCode \<or> P DynamicImports
      \<or> P SystemInternals \<or> P Miscellaneous" for P
    by (metis danger.exhaust)
  show ?thesis unfolding all blocked_modules_def modules_of.simps list.set insert_iff empty_iff by (simp only: disj_assoc simp_thms)
qed

lemma blocked_attributes_of:
  "(m, a) \<in> set blocked_attributes \<longleftrightarrow>
      m = ''os'' \<and> a \<in> {''system'', ''popen'', ''exec'', ''execv'', ''execve'', ''spawn'', ''spawnl'', ''fork'', ''kill'', ''unlink'', ''remove'', ''rmdir''}
      \<or> m = ''shutil'' \<and> a \<in> {''rmtree'', ''move''}"
  by (auto simp: blocked_attributes_def)

lemma node_violations_iff: "v \<in> set (node_violations n) \<longleftrightarrow> blocked_use n v"
proof (cases n rule: node_violations.cases)
  case (1 names)
  then show ?thesis unfolding 1 blocked_use_simps node_violations.simps by (auto simp: blocked_modules_by_danger)
next
  case (2 m)
  then show ?thesis unfolding 2 blocked_use_simps node_violations.simps by (auto simp: blocked_modules_by_danger)
next
  case (3 f args)
  show ?thesis unfolding 3 blocked_use_simps node_violations.simps blocked_calls_def list.set by auto
next
  case (4 m f args)
  show ?thesis unfolding 4 blocked_use_simps node_violations.simps blocked_attributes_of by (simp only: py_ast.inject py_ast.distinct) auto
qed (simp_all add: blocked_use_simps)

text \<open>
  C30 (the static check): the check reports a violation exactly for the blocked uses that occur anywhere in the tree: an
  import of a module, or of a part of a module, from the eight groups of dangerous modules, a call of \<^verbatim>\<open>eval\<close>, \<^verbatim>\<open>exec\<close>, \<^verbatim>\<open>compile\<close> or \<^verbatim>\<open>__import__\<close> by name, and a call of
  one of the fourteen listed functions of \<^verbatim>\<open>os\<close> and \<^verbatim>\<open>shutil\<close> as an attribute of that name. Every node is visited once, so each use is
  reported as often as it occurs. A program passes exactly when it parses and no blocked use occurs in it.
\<close>

theorem check_tree_exact:
  "(\<forall>v. v \<in> set (check_tree tree) \<longleftrightarrow> (\<exists>n. occurs n tree \<and> blocked_use n v))
   \<and> mset (check_tree tree) = mset (concat (map node_violations (nodes tree)))
   \<and> (check_code_safety parse program = Some [] \<longleftrightarrow>
        (\<exists>parsed. parse program = Parsed parsed \<and> \<not> (\<exists>n v. occurs n parsed \<and> blocked_use n v)))"
proof -
  have m: "mset (check_tree t) = mset (concat (map node_violations (nodes t)))" for t
    using walk_nodes [of "[t]"] unfolding check_tree_def by (intro mset_concat_map) simp
  have found: "v \<in> set (check_tree t) \<longleftrightarrow> (\<exists>n. occurs n t \<and> blocked_use n v)" for t v
    using mset_eq_setD [OF m [of t]] by (auto simp: occurs_nodes node_violations_iff)
  have passes: "check_tree t = [] \<longleftrightarrow> \<not> (\<exists>n v. occurs n t \<and> blocked_use n v)" for t
    using found [where t = t] by (metis list.set_intros(1) list.set(1) empty_iff neq_Nil_conv)
  show ?thesis using m found passes by (auto simp: check_code_safety_def split: parsed.splits)
qed

text \<open>
  What is not noticed: a blocked function under another name, the attribute of anything but a plain name, and
  modules that are reached through allowed ones.
\<close>

lemma aliased_eval_passes:
  "check_tree (Node [Node [Name ''f'', Name ''eval''], Call (Name ''f'') [Node []]]) = []"
  "check_tree (Node [Import [''pandas''],
     Call (Attribute (Attribute (Attribute (Attribute (Name ''pandas'') ''io'') ''common'') ''os'') ''system'') [Node []]]) = []"
  "check_tree (Node [Call (Attribute (Name ''_builtins'') ''eval'') [Node []]]) = []"
  by code_simp+

lemma runtime_blocks_less:
  "list_all (\<lambda>m. m \<in> set blocked_modules) (concat runtime_blocked)
   \<and> list_all (\<lambda>m. m \<notin> set (concat runtime_blocked)) [''sys'', ''marshal'', ''ftplib'', ''smtplib'', ''telnetlib'', ''inspect'', ''mysql'']"
  by code_simp

text \<open>
  The preamble of every request raises \<^verbatim>\<open>NameError\<close> at its first import after the hook is
  installed, whatever the files, the modules of the container and the submitted code: the hook looks up
  \<^verbatim>\<open>_original_import\<close> when it is called, and the preamble has deleted that name. No submitted statement is ever run.
\<close>

lemma preamble_raises:
  "run_program ct submitted files = Inl (NameError ''_original_import'')"
  by (simp add: run_program_def preamble_statements_def standard_imports_def new_interpreter_def after_import_def
      needs_name_def global_value_def import_module_def original_import_def hook_import_def bind_name_def
      runtime_blocked_def top_module_def)

text \<open>Without the deletion the hook would do what it is meant to do.\<close>

lemma hook_with_the_name_works:
  assumes "dict_get (ip_globals ip) ''_BLOCKED_MODULES'' = Some (Modules ms)"
    and "dict_get (ip_globals ip) ''_original_import'' = Some OriginalImport"
  shows "hook_import ct ip m = (if top_module m \<in> set ms then Inl (ImportError m) else original_import ct m)"
  using assms by (simp add: hook_import_def global_value_def)

end
