(* ===== verification/Sb_Service.thy ===== *)
theory Sb_Service
  imports Sb_Code Com_Llm Mem_Routes
begin

text \<open>
  The sandbox service: the download of the files (\<^verbatim>\<open>sandbox-service/src/storage.py\<close>), the outcome of a container
  (\<^verbatim>\<open>execution/docker_backend.py\<close>), the execution manager with its semaphore and its metrics
  (\<^verbatim>\<open>execution/manager.py\<close>), the endpoint (\<^verbatim>\<open>main.py\<close>), and the client the agents use
  (\<^verbatim>\<open>common/clients/sandbox_client.py\<close>).

  The object store and the Docker engine are parameters. Requests are interleaved: a request waits in the order of arrival for
  a slot of the semaphore, then runs, and ends with an outcome; what \<^verbatim>\<open>asyncio.Semaphore\<close> documents is modelled. Errors of the
  service's own file system are not, apart from a name that is a directory.
\<close>

section \<open>Downloads\<close>

text \<open>A reply of the store: None when the request failed on the network.\<close>

type_synonym store_reply = "(nat \<times> string) option"

datatype sandbox_error = StorageDownloadError string nat | QueueFull | OtherFailure

text \<open>The so_far so far, and the directory: file names with their contents.\<close>

fun download_files ::
    "sandbox_settings \<Rightarrow> (string \<Rightarrow> store_reply) \<Rightarrow> nat \<Rightarrow> (string, string) dict \<Rightarrow> file_reference list
       \<Rightarrow> sandbox_error + (string, string) dict" where
  "download_files st store so_far d [] = Inr d"
| "download_files st store so_far d (f # fs) =
     (case store (fr_storage_key f) of
        None \<Rightarrow> Inl (StorageDownloadError (fr_storage_key f) 502)
      | Some (status, content) \<Rightarrow>
          if status \<noteq> 200 then Inl (StorageDownloadError (fr_storage_key f) status)
          else if sx_max_total_file_size_mb st * 1024 * 1024 < so_far + length content
          then Inl (StorageDownloadError (fr_storage_key f) 413)
          else if base_name (fr_storage_key f) \<in> {[], ''.''} then Inl OtherFailure
          else download_files st store (so_far + length content)
                 (dict_set (base_name (fr_storage_key f)) content d) fs)"

section \<open>Containers\<close>

record docker_result =
  dr_exit_code :: int
  dr_stdout :: string
  dr_stderr :: string
  dr_duration_ms :: int
  dr_oom_killed :: bool
  dr_timed_out :: bool

text \<open>
  What Docker answers about a container that was created and started: the exit status of the wait, None when waiting failed, which
  is taken for a timeout; the flag of the reloaded state and the logs, None where Docker raised.
\<close>

record docker_run =
  dk_status :: "int option option"
  dk_oom :: "bool option"
  dk_logs :: "(string \<times> string) option"
  dk_duration_ms :: int

definition shown_int :: "int \<Rightarrow> string" where
  "shown_int n = map char_of (str_of_json (\<lambda>_. []) (JInt n))"

definition container_result :: "sandbox_settings \<Rightarrow> int \<Rightarrow> int \<Rightarrow> docker_run \<Rightarrow> docker_result" where
  "container_result st timeout_sec memory_limit_mb k =
     (let timed_out = (dk_status k = None);
          exit_code = (case dk_status k of None \<Rightarrow> 137 | Some None \<Rightarrow> 1 | Some (Some c) \<Rightarrow> c);
          oom_killed = (case dk_oom k of None \<Rightarrow> False | Some flag \<Rightarrow> flag \<or> \<not> timed_out \<and> exit_code = 137);
          most = sx_max_output_size_mb st * 1024 * 1024;
          stdout = (case dk_logs k of None \<Rightarrow> [] | Some (out, err) \<Rightarrow> take most out);
          stderr = (case dk_logs k of None \<Rightarrow> [] | Some (out, err) \<Rightarrow> take most err)
      in \<lparr>dr_exit_code = exit_code, dr_stdout = stdout,
          dr_stderr =
            (if timed_out then ''Execution timed out after '' @ shown_int timeout_sec @ '' seconds''
             else if oom_killed \<and> stderr = [] then ''Out of memory - killed (limit: '' @ shown_int memory_limit_mb @ ''MB)''
             else stderr),
          dr_duration_ms = dk_duration_ms k, dr_oom_killed = oom_killed, dr_timed_out = timed_out\<rparr>)"

section \<open>The execution manager\<close>

record execution_result =
  xr_success :: bool
  xr_stdout :: string
  xr_stderr :: string
  xr_duration_ms :: int
  xr_memory_used_mb :: int

record execution_manager =
  mg_free :: nat
  mg_total_executions :: int
  mg_successful :: int
  mg_failed :: int
  mg_timeouts :: "real list"
  mg_oom_kills :: "real list"
  mg_durations :: "int list"
  mg_active :: int
  mg_queued :: int

definition max_duration_history :: nat where
  "max_duration_history = 1000"

definition new_manager :: "sandbox_settings \<Rightarrow> execution_manager" where
  "new_manager st =
     \<lparr>mg_free = sx_max_concurrent_executions st, mg_total_executions = 0, mg_successful = 0, mg_failed = 0, mg_timeouts = [],
      mg_oom_kills = [], mg_durations = [], mg_active = 0, mg_queued = 0\<rparr>"

definition success_rate :: "execution_manager \<Rightarrow> real" where
  "success_rate m = (if mg_total_executions m = 0 then 0 else real_of_int (mg_successful m) / real_of_int (mg_total_executions m))"

definition avg_duration_ms :: "execution_manager \<Rightarrow> real" where
  "avg_duration_ms m =
     (if mg_durations m = [] then 0 else real_of_int (sum_list (mg_durations m)) / real (length (mg_durations m)))"

definition timeouts_last_hour :: "real \<Rightarrow> execution_manager \<Rightarrow> nat" where
  "timeouts_last_hour now m = count_if (\<lambda>t. now - 3600 < t) (mg_timeouts m)"

definition oom_kills_last_hour :: "real \<Rightarrow> execution_manager \<Rightarrow> nat" where
  "oom_kills_last_hour now m = count_if (\<lambda>t. now - 3600 < t) (mg_oom_kills m)"

definition is_queue_full :: "sandbox_settings \<Rightarrow> execution_manager \<Rightarrow> bool" where
  "is_queue_full st m \<longleftrightarrow> sx_queue_size st \<le> mg_queued m"

text \<open>The refusal of a program with violations.\<close>

definition refusal :: "string list \<Rightarrow> execution_result" where
  "refusal violations =
     \<lparr>xr_success = False, xr_stdout = [], xr_stderr = str_join [CHR 0x0A] (map (\<lambda>v. ''ImportError: '' @ v) violations),
      xr_duration_ms = 0, xr_memory_used_mb = 0\<rparr>"

text \<open>Entering and leaving the wait for a slot, taking one, and the metrics of an outcome.\<close>

definition enter_queue :: "execution_manager \<Rightarrow> execution_manager" where
  "enter_queue m = m\<lparr>mg_queued := mg_queued m + 1\<rparr>"

definition leave_queue :: "execution_manager \<Rightarrow> execution_manager" where
  "leave_queue m = m\<lparr>mg_queued := mg_queued m - 1\<rparr>"

definition take_slot :: "execution_manager \<Rightarrow> execution_manager" where
  "take_slot m = (leave_queue m)\<lparr>mg_free := mg_free m - 1, mg_active := mg_active m + 1,
     mg_total_executions := mg_total_executions m + 1\<rparr>"

definition give_slot :: "execution_manager \<Rightarrow> execution_manager" where
  "give_slot m = m\<lparr>mg_active := mg_active m - 1, mg_free := mg_free m + 1\<rparr>"

definition succeeded :: "docker_result \<Rightarrow> bool" where
  "succeeded r \<longleftrightarrow> dr_exit_code r = 0 \<and> \<not> dr_timed_out r \<and> \<not> dr_oom_killed r"

definition manager_result :: "int \<Rightarrow> docker_result \<Rightarrow> execution_result" where
  "manager_result memory_mb r =
     \<lparr>xr_success = succeeded r, xr_stdout = dr_stdout r, xr_stderr = dr_stderr r, xr_duration_ms = dr_duration_ms r,
      xr_memory_used_mb = (if dr_oom_killed r then memory_mb else 0)\<rparr>"

text \<open>The clock is read for a timeout, for an out-of-memory kill and for the pruning.\<close>

definition record_run :: "real \<Rightarrow> docker_result \<Rightarrow> execution_manager \<Rightarrow> execution_manager" where
  "record_run now r m =
     (let timeouts = mg_timeouts m @ (if dr_timed_out r then [now] else []);
          oom_kills = mg_oom_kills m @ (if dr_oom_killed r then [now] else []);
          durations = mg_durations m @ [dr_duration_ms r];
          recent = filter (\<lambda>t. now - 7200 < t)
      in m\<lparr>mg_successful := mg_successful m + (if succeeded r then 1 else 0),
           mg_failed := mg_failed m + (if succeeded r then 0 else 1),
           mg_timeouts := recent timeouts, mg_oom_kills := recent oom_kills,
           mg_durations := (if max_duration_history < length durations then last_n max_duration_history durations
                            else durations)\<rparr>)"

definition record_error :: "execution_manager \<Rightarrow> execution_manager" where
  "record_error m = m\<lparr>mg_failed := mg_failed m + 1\<rparr>"

text \<open>
  What happens with a slot: the files are downloaded, the program is assembled and the container runs; the backend gets the limits
  capped by the settings and yields None when it raises.
\<close>

record sandbox_env =
  se_store :: "string \<Rightarrow> store_reply"
  se_docker :: "string \<Rightarrow> (string, string) dict \<Rightarrow> int \<Rightarrow> int \<Rightarrow> docker_run option"
  se_parse :: "string \<Rightarrow> parsed"
  se_lax_int :: "pyval \<Rightarrow> int option"

definition run_request :: "sandbox_settings \<Rightarrow> sandbox_env \<Rightarrow> execution_request \<Rightarrow> sandbox_error + docker_result" where
  "run_request st env req =
     (case download_files st (se_store env) 0 [] (er_files req) of
        Inl e \<Rightarrow> Inl e
      | Inr d \<Rightarrow>
          (let timeout_sec = min (er_timeout_sec req) (sx_max_timeout_sec st);
               memory_mb = min (er_memory_limit_mb req) (sx_max_memory_mb st)
           in case se_docker env (generate_preamble (er_files req) @ er_code req) d timeout_sec memory_mb of
                None \<Rightarrow> Inl OtherFailure
              | Some k \<Rightarrow> Inr (container_result st timeout_sec memory_mb k)))"

definition finish_request ::
    "sandbox_settings \<Rightarrow> real \<Rightarrow> execution_request \<Rightarrow> sandbox_error + docker_result \<Rightarrow> execution_manager
       \<Rightarrow> (sandbox_error + execution_result) \<times> execution_manager" where
  "finish_request st now req outcome m =
     (case outcome of
        Inl e \<Rightarrow> (Inl e, give_slot (record_error m))
      | Inr r \<Rightarrow> (Inr (manager_result (min (er_memory_limit_mb req) (sx_max_memory_mb st)) r), give_slot (record_run now r m)))"

section \<open>Requests side by side\<close>

text \<open>
  The manager with the requests waiting for a slot, in the order they wait, and those running. A request arrives, takes a free slot when it
  is the first in line, ends with some outcome, or is cancelled while it waits or runs.
\<close>

record sandbox_state =
  sb_manager :: execution_manager
  sb_waiting :: "execution_request list"
  sb_running :: "execution_request list"

datatype admission = Refused execution_result | Crashed_check | Full | Admitted

definition arrive ::
    "sandbox_settings \<Rightarrow> sandbox_env \<Rightarrow> execution_request \<Rightarrow> sandbox_state \<Rightarrow> admission \<times> sandbox_state" where
  "arrive st env req s =
     (case check_code_safety (se_parse env) (er_code req) of
        None \<Rightarrow> (Crashed_check, s)
      | Some (v # vs) \<Rightarrow> (Refused (refusal (v # vs)), s)
      | Some [] \<Rightarrow>
          if is_queue_full st (sb_manager s) then (Full, s)
          else (Admitted, s\<lparr>sb_manager := enter_queue (sb_manager s), sb_waiting := sb_waiting s @ [req]\<rparr>))"

inductive sandbox_step :: "sandbox_settings \<Rightarrow> sandbox_env \<Rightarrow> sandbox_state \<Rightarrow> sandbox_state \<Rightarrow> bool"
  for st :: sandbox_settings and env :: sandbox_env where
  step_arrive: "arrive st env req s = (a, t) \<Longrightarrow> sandbox_step st env s t"
| step_start: "sb_waiting s = req # rest \<Longrightarrow> 0 < mg_free (sb_manager s) \<Longrightarrow>
    sandbox_step st env s (s\<lparr>sb_manager := take_slot (sb_manager s), sb_waiting := rest, sb_running := req # sb_running s\<rparr>)"
| step_finish: "req \<in> set (sb_running s) \<Longrightarrow> finish_request st now req outcome (sb_manager s) = (answer, m) \<Longrightarrow>
    sandbox_step st env s (s\<lparr>sb_manager := m, sb_running := remove1 req (sb_running s)\<rparr>)"
| step_abandon_wait: "req \<in> set (sb_waiting s) \<Longrightarrow>
    sandbox_step st env s (s\<lparr>sb_manager := leave_queue (sb_manager s), sb_waiting := remove1 req (sb_waiting s)\<rparr>)"
| step_abandon_run: "req \<in> set (sb_running s) \<Longrightarrow>
    sandbox_step st env s (s\<lparr>sb_manager := give_slot (sb_manager s), sb_running := remove1 req (sb_running s)\<rparr>)"

definition sandbox_init :: "sandbox_settings \<Rightarrow> sandbox_state \<Rightarrow> bool" where
  "sandbox_init st s \<longleftrightarrow> s = \<lparr>sb_manager = new_manager st, sb_waiting = [], sb_running = []\<rparr>"

section \<open>The endpoint\<close>

text \<open>\<^verbatim>\<open>execute\<close> of a request that need not wait.\<close>

definition execute_request ::
    "sandbox_settings \<Rightarrow> sandbox_env \<Rightarrow> real \<Rightarrow> execution_request \<Rightarrow> execution_manager
       \<Rightarrow> (sandbox_error + execution_result) \<times> execution_manager" where
  "execute_request st env now req m =
     (case check_code_safety (se_parse env) (er_code req) of
        None \<Rightarrow> (Inl OtherFailure, m)
      | Some (v # vs) \<Rightarrow> (Inr (refusal (v # vs)), m)
      | Some [] \<Rightarrow>
          if is_queue_full st m then (Inl QueueFull, m)
          else finish_request st now req (run_request st env req) (take_slot (enter_queue m)))"

fun error_status :: "sandbox_error \<Rightarrow> nat" where
  "error_status (StorageDownloadError key status) = (if status = 404 then 404 else if status = 413 then 413 else 502)"
| "error_status QueueFull = 429"
| "error_status OtherFailure = 500"

definition execute_code ::
    "sandbox_settings \<Rightarrow> sandbox_env \<Rightarrow> real \<Rightarrow> execution_request \<Rightarrow> execution_manager
       \<Rightarrow> (nat + execution_result) \<times> execution_manager" where
  "execute_code st env now req m =
     (if sx_max_file_count st < length (er_files req) then (Inl 400, m)
      else if sx_max_timeout_sec st < er_timeout_sec req then (Inl 400, m)
      else if sx_max_memory_mb st < er_memory_limit_mb req then (Inl 400, m)
      else (case execute_request st env now req m of
              (Inl e, m') \<Rightarrow> (Inl (error_status e), m')
            | (Inr r, m') \<Rightarrow> (Inr r, m')))"

definition result_json :: "execution_result \<Rightarrow> pyval" where
  "result_json r = PDict
     [(''success'', PBool (xr_success r)), (''stdout'', PStr (xr_stdout r)), (''stderr'', PStr (xr_stderr r)),
      (''duration_ms'', PInt (xr_duration_ms r)), (''memory_used_mb'', PInt (xr_memory_used_mb r))]"

text \<open>Metrics are reported unrounded.\<close>

definition metrics_json :: "real \<Rightarrow> execution_manager \<Rightarrow> pyval" where
  "metrics_json now m = PDict
     [(''total_executions'', PInt (mg_total_executions m)), (''success_rate'', PFloat (Fin (success_rate m))),
      (''avg_duration_ms'', PFloat (Fin (avg_duration_ms m))), (''active_executions'', PInt (mg_active m)),
      (''queued'', PInt (mg_queued m)), (''timeouts_last_hour'', PInt (int (timeouts_last_hour now m))),
      (''oom_kills_last_hour'', PInt (int (oom_kills_last_hour now m)))]"

text \<open>
  The application, of which an error answer has the body \<^verbatim>\<open>{"detail": ...}\<close>; the details are a parameter.
\<close>

record app_config =
  ac_digest :: "string \<Rightarrow> string"
  ac_authenticator :: "(string, string) dict option"
  ac_detail :: "nat \<Rightarrow> pyval"

definition refuse :: "app_config \<Rightarrow> nat \<Rightarrow> reply" where
  "refuse ac status = Some (status, Some (PDict [(''detail'', ac_detail ac status)]))"

definition sandbox_app :: "app_config \<Rightarrow> sandbox_settings \<Rightarrow> sandbox_env \<Rightarrow> real \<Rightarrow> execution_manager app" where
  "sandbox_app ac st env now r m =
     (if hr_method r = POST \<and> hr_path r = [''execute'']
      then (case verify_service_headers (ac_digest ac) (ac_authenticator ac) (hr_headers r) of
              Inl status \<Rightarrow> (refuse ac status, m)
            | Inr who \<Rightarrow>
                (case parse_execution_request (se_lax_int env) (hr_body r) of
                   None \<Rightarrow> (refuse ac 422, m)
                 | Some req \<Rightarrow>
                     (case execute_code st env now req m of
                        (Inl status, m') \<Rightarrow> (refuse ac status, m')
                      | (Inr x, m') \<Rightarrow> (Some (200, Some (result_json x)), m'))))
      else if hr_method r = GET \<and> hr_path r = [''metrics'']
      then (case verify_service_headers (ac_digest ac) (ac_authenticator ac) (hr_headers r) of
              Inl status \<Rightarrow> (refuse ac status, m)
            | Inr who \<Rightarrow> (Some (200, Some (metrics_json now m)), m))
      else if hr_method r = GET \<and> hr_path r = [''health'']
      then (Some (200, Some (PDict [(''status'', PStr ''ok''), (''service'', PStr ''sandbox-service'')])), m)
      else (refuse ac 404, m))"

section \<open>The client\<close>

record client_result =
  sc_success :: pyval
  sc_stdout :: pyval
  sc_stderr :: pyval
  sc_duration_ms :: pyval

definition client_failure :: "string \<Rightarrow> int \<Rightarrow> client_result" where
  "client_failure err duration =
     \<lparr>sc_success = PBool False, sc_stdout = PStr [], sc_stderr = PStr err, sc_duration_ms = PInt duration\<rparr>"

definition client_payload :: "string \<Rightarrow> (string, string) dict option \<Rightarrow> int \<Rightarrow> int \<Rightarrow> (string \<times> pyval) list" where
  "client_payload code files timeout_sec memory_limit_mb =
     [(''code'', PStr code), (''timeout_sec'', PInt timeout_sec), (''memory_limit_mb'', PInt memory_limit_mb)]
     @ (case files of None \<Rightarrow> [] | Some d \<Rightarrow> [(''files'', PDict (map (\<lambda>(k, v). (k, PStr v)) d))])"

definition client_result_of :: "int \<Rightarrow> http_result \<Rightarrow> py_exn + client_result" where
  "client_result_of timeout_sec r =
     (case r of
        TimedOut \<Rightarrow> Inr (client_failure (''Sandbox execution timed out after '' @ shown_int timeout_sec @ ''s'') (timeout_sec * 1000))
      | NotConnected \<Rightarrow> Inr (client_failure ''Sandbox unavailable'' 0)
      | Broken e \<Rightarrow> Inl (TransportError e)
      | Replied status b \<Rightarrow>
          if 500 \<le> status then Inr (client_failure (''Sandbox returned HTTP '' @ shown_int (int status)) 0)
          else (case b of
                  JsonBody (PDict d) \<Rightarrow>
                    Inr \<lparr>sc_success = dict_get_default d ''success'' (PBool False), sc_stdout = dict_get_default d ''stdout'' (PStr []),
                         sc_stderr = dict_get_default d ''stderr'' (PStr []), sc_duration_ms = dict_get_default d ''duration_ms'' (PInt 0)\<rparr>
                | JsonBody v \<Rightarrow> Inl AttributeError
                | _ \<Rightarrow> Inr (client_failure ''Sandbox returned invalid JSON response'' 0)))"

definition over_http :: "reply \<Rightarrow> http_result" where
  "over_http r =
     (case r of None \<Rightarrow> NotConnected
      | Some (status, None) \<Rightarrow> Replied status BadBody
      | Some (status, Some v) \<Rightarrow> Replied status (JsonBody v))"

text \<open>The client sends the content type and a trace identifier, and no service headers.\<close>

definition sandbox_client ::
    "'w app \<Rightarrow> string option \<Rightarrow> string \<Rightarrow> (string, string) dict option \<Rightarrow> int \<Rightarrow> int \<Rightarrow> 'w
       \<Rightarrow> (py_exn + client_result) \<times> 'w" where
  "sandbox_client app trace_id code files timeout_sec memory_limit_mb w =
     (let headers = (''Content-Type'', ''application/json'') # (case trace_id of None \<Rightarrow> [] | Some t \<Rightarrow> [(''X-Trace-Id'', t)])
      in case app \<lparr>hr_method = POST, hr_path = [''execute''], hr_headers = headers,
                   hr_body = client_payload code files timeout_sec memory_limit_mb\<rparr> w of
           (r, w') \<Rightarrow> (client_result_of timeout_sec (over_http r), w'))"

section \<open>Properties\<close>

text \<open>Downloads: all of them succeeded, they fit, and a later file of the same name replaces an earlier one.\<close>

definition store_content :: "(string \<Rightarrow> store_reply) \<Rightarrow> file_reference \<Rightarrow> string" where
  "store_content store f = (case store (fr_storage_key f) of None \<Rightarrow> [] | Some (status, content) \<Rightarrow> content)"

lemma downloads:
  assumes "download_files st store so_far d fs = Inr d'"
  shows "d' = fold (\<lambda>f. dict_set (base_name (fr_storage_key f)) (store_content store f)) fs d
    \<and> (\<forall>f \<in> set fs. store (fr_storage_key f) = Some (200, store_content store f))
    \<and> (fs \<noteq> [] \<longrightarrow> so_far + sum_list (map (length \<circ> store_content store) fs) \<le> sx_max_total_file_size_mb st * 1024 * 1024)"
  using assms
proof (induction fs arbitrary: so_far d)
  case (Cons f fs)
  from Cons.prems obtain content where c: "store (fr_storage_key f) = Some (200, content)"
    and fits: "so_far + length content \<le> sx_max_total_file_size_mb st * 1024 * 1024"
    and rest: "download_files st store (so_far + length content) (dict_set (base_name (fr_storage_key f)) content d) fs = Inr d'"
    by (auto split: option.splits if_splits)
  have "store_content store f = content" using c by (simp add: store_content_def)
  then show ?case using Cons.IH [OF rest] c fits by (cases "fs = []") (auto simp: add.assoc)
qed simp

text \<open>
  (downloads): when the download of a request's files succeeds, the store answered 200 for each of them, together they
  are no larger than the limit, and the directory holds under the last component of each key the content of the
  last file of the request with that component: files of the same name from different folders overwrite each other, and
  every variable of the preamble is then loaded from the last one.
\<close>

theorem downloads_exact:
  assumes "download_files st store 0 [] fs = Inr d"
  shows "list_all (\<lambda>f. store (fr_storage_key f) = Some (200, store_content store f)) fs
    \<and> sum_list (map (length \<circ> store_content store) fs) \<le> sx_max_total_file_size_mb st * 1024 * 1024
    \<and> dict_get d name = map_option (store_content store) (find (\<lambda>f. base_name (fr_storage_key f) = name) (rev fs))"
proof -
  have "dict_get (fold (\<lambda>f. dict_set (base_name (fr_storage_key f)) (store_content store f)) fs d0) name
    = (case find (\<lambda>f. base_name (fr_storage_key f) = name) (rev fs) of None \<Rightarrow> dict_get d0 name
       | Some f \<Rightarrow> Some (store_content store f))" for d0
    by (induction fs rule: rev_induct) (auto split: option.splits)
  then show ?thesis using downloads [OF assms] by (cases "fs = []") (auto simp: list_all_iff split: option.splits)
qed

definition two_logs :: "file_reference list" where
  "two_logs = [\<lparr>fr_storage_key = ''jan/log.csv'', fr_load_as = ''jan'', fr_type = CSV\<rparr>,
               \<lparr>fr_storage_key = ''feb/log.csv'', fr_load_as = ''feb'', fr_type = CSV\<rparr>]"

theorem downloads_exact_witness:
  "\<exists>d. download_files default_sandbox_settings (\<lambda>key. Some (200, key)) 0 [] two_logs = Inr d
     \<and> dict_get d ''log.csv'' = Some ''feb/log.csv''"
proof -
  have "\<exists>d. download_files default_sandbox_settings (\<lambda>key. Some (200, key)) 0 [] two_logs = Inr d"
    by (simp add: two_logs_def default_sandbox_settings_def base_name_def)
  then obtain d where d: "download_files default_sandbox_settings (\<lambda>key. Some (200, key)) 0 [] two_logs = Inr d" ..
  from downloads_exact [OF d, of "''log.csv''"] d show ?thesis
    by (auto simp: two_logs_def base_name_def store_content_def)
qed

text \<open>The manager's invariant.\<close>

definition sandbox_inv :: "sandbox_settings \<Rightarrow> sandbox_state \<Rightarrow> bool" where
  "sandbox_inv st s \<longleftrightarrow>
     mg_free (sb_manager s) + length (sb_running s) = sx_max_concurrent_executions st
     \<and> mg_active (sb_manager s) = int (length (sb_running s))
     \<and> mg_queued (sb_manager s) = int (length (sb_waiting s))
     \<and> mg_queued (sb_manager s) \<le> max 0 (sx_queue_size st)
     \<and> 0 \<le> mg_successful (sb_manager s) \<and> 0 \<le> mg_failed (sb_manager s)
     \<and> mg_successful (sb_manager s) + mg_failed (sb_manager s) + mg_active (sb_manager s) \<le> mg_total_executions (sb_manager s)
     \<and> length (mg_durations (sb_manager s)) \<le> max_duration_history"

lemma sandbox_inv_init: "sandbox_init st s \<Longrightarrow> sandbox_inv st s"
  by (simp add: sandbox_init_def sandbox_inv_def new_manager_def)

lemma remove1_length: "x \<in> set xs \<Longrightarrow> length xs = Suc (length (remove1 x xs))"
  by (induction xs) auto

lemmas manager_ops = enter_queue_def leave_queue_def take_slot_def give_slot_def record_error_def

lemma record_run_gauges [simp]:
  "mg_free (record_run now r m) = mg_free m" "mg_active (record_run now r m) = mg_active m"
  "mg_queued (record_run now r m) = mg_queued m" "mg_total_executions (record_run now r m) = mg_total_executions m"
  by (simp_all add: record_run_def Let_def)

lemma record_run_counts:
  "mg_successful (record_run now r m) + mg_failed (record_run now r m) = mg_successful m + mg_failed m + 1"
  "mg_successful m \<le> mg_successful (record_run now r m)" "mg_failed m \<le> mg_failed (record_run now r m)"
  "length (mg_durations (record_run now r m)) \<le> max_duration_history"
  by (simp_all add: record_run_def Let_def)

lemma finish_inv:
  assumes "sandbox_inv st s" and "req \<in> set (sb_running s)"
    and "finish_request st now req outcome (sb_manager s) = (answer, m)"
  shows "sandbox_inv st (s\<lparr>sb_manager := m, sb_running := remove1 req (sb_running s)\<rparr>)"
proof (cases outcome)
  case (Inl e)
  then show ?thesis using assms remove1_length [OF assms(2)]
    by (auto simp: sandbox_inv_def finish_request_def manager_ops)
next
  case (Inr r)
  then have m: "m = give_slot (record_run now r (sb_manager s))" using assms(3) by (simp add: finish_request_def)
  show ?thesis using assms(1) remove1_length [OF assms(2)] record_run_counts [where m = "sb_manager s" and now = now and r = r]
    unfolding m by (simp add: sandbox_inv_def give_slot_def)
qed

lemma sandbox_inv_step: "sandbox_step st env s t \<Longrightarrow> sandbox_inv st s \<Longrightarrow> sandbox_inv st t"
proof (induction rule: sandbox_step.induct)
  case (step_arrive req s a t)
  then show ?case
    by (auto simp: arrive_def sandbox_inv_def manager_ops is_queue_full_def split: option.splits list.splits if_splits)
next
  case (step_start s req rest)
  then show ?case by (auto simp: sandbox_inv_def manager_ops)
next
  case (step_finish req s now outcome answer m)
  then show ?case using finish_inv by blast
next
  case (step_abandon_wait req s)
  then show ?case using remove1_length [of req "sb_waiting s"] by (auto simp: sandbox_inv_def manager_ops)
next
  case (step_abandon_run req s)
  then show ?case using remove1_length [of req "sb_running s"] by (auto simp: sandbox_inv_def manager_ops)
qed

interpretation sandbox: invariant_system "sandbox_init st" "sandbox_step st env" "sandbox_inv st" for st env
  by unfold_locales (blast intro: sandbox_inv_init sandbox_inv_step)+

text \<open>
  C17 (the execution manager): whatever requests arrive, start, end and are cancelled in whatever order, at most the configured
  number of executions run, at most the configured number of requests wait, the gauges count exactly the running and
  the waiting ones, every free slot is free, outcomes are counted at most once, the success rate lies between 0 and
  1, and no more than 1000 durations are kept.
\<close>

theorem sandbox_manager_invariant:
  assumes "reachable (sandbox_init st) (sandbox_step st env) s"
  shows "length (sb_running s) \<le> sx_max_concurrent_executions st \<and> int (length (sb_waiting s)) \<le> max 0 (sx_queue_size st)
    \<and> mg_active (sb_manager s) = int (length (sb_running s)) \<and> mg_queued (sb_manager s) = int (length (sb_waiting s))
    \<and> mg_free (sb_manager s) = sx_max_concurrent_executions st - length (sb_running s)
    \<and> mg_successful (sb_manager s) + mg_failed (sb_manager s) + mg_active (sb_manager s) \<le> mg_total_executions (sb_manager s)
    \<and> 0 \<le> success_rate (sb_manager s) \<and> success_rate (sb_manager s) \<le> 1
    \<and> length (mg_durations (sb_manager s)) \<le> 1000"
proof -
  have inv: "sandbox_inv st s" using assms by (rule sandbox.reachable_inv)
  then show ?thesis by (auto simp: sandbox_inv_def success_rate_def divide_le_eq max_duration_history_def)
qed

definition full_house :: sandbox_state where
  "full_house = \<lparr>sb_manager = enter_queue (new_manager default_sandbox_settings),
     sb_waiting = [\<lparr>er_code = ''1'', er_files = [], er_timeout_sec = 60, er_memory_limit_mb = 512, er_agent = [], er_trace_id = []\<rparr>],
     sb_running = []\<rparr>"

definition quiet_env :: sandbox_env where
  "quiet_env = \<lparr>se_store = (\<lambda>key. None),
     se_docker = (\<lambda>code d t m. Some \<lparr>dk_status = Some (Some 1), dk_oom = Some False, dk_logs = None, dk_duration_ms = 5\<rparr>),
     se_parse = (\<lambda>code. Parsed (Node [])), se_lax_int = (\<lambda>v. case v of PInt n \<Rightarrow> Some n | _ \<Rightarrow> None)\<rparr>"

theorem sandbox_manager_invariant_witness:
  "reachable (sandbox_init default_sandbox_settings) (sandbox_step default_sandbox_settings quiet_env) full_house
   \<and> mg_queued (sb_manager full_house) = int (length (sb_waiting full_house))"
proof -
  let ?start = "\<lparr>sb_manager = new_manager default_sandbox_settings, sb_waiting = [], sb_running = []\<rparr>"
  have "reachable (sandbox_init default_sandbox_settings) (sandbox_step default_sandbox_settings quiet_env) ?start"
    by (rule reachable_init) (simp add: sandbox_init_def)
  moreover have "check_tree (Node []) = []" by code_simp
  then have "arrive default_sandbox_settings quiet_env (hd (sb_waiting full_house)) ?start = (Admitted, full_house)"
    by (simp add: arrive_def full_house_def quiet_env_def check_code_safety_def is_queue_full_def new_manager_def
        default_sandbox_settings_def)
  then have "sandbox_step default_sandbox_settings quiet_env ?start full_house" by (rule step_arrive)
  ultimately have r: "reachable (sandbox_init default_sandbox_settings) (sandbox_step default_sandbox_settings quiet_env) full_house"
    by (rule reachable_step)
  show ?thesis using r sandbox_manager_invariant [OF r] by blast
qed

text \<open>
  A backend runs programs as Python does when one that ends in an uncaught exception does not exit with status 0;
  \<open>submitted\<close> is what the submitted code does after the preamble.
\<close>

definition runs_python :: "container \<Rightarrow> (string \<Rightarrow> interpreter \<Rightarrow> run_error + unit) \<Rightarrow> sandbox_env \<Rightarrow> bool" where
  "runs_python ct submitted env \<longleftrightarrow>
     (\<forall>files code d t m k e. run_program ct (submitted code) files = Inl e \<longrightarrow>
        se_docker env (generate_preamble files @ code) d t m = Some k \<longrightarrow> dk_status k \<noteq> Some (Some 0))"

lemma success_status: "succeeded (container_result st timeout_sec memory_limit_mb k) \<Longrightarrow> dk_status k = Some (Some 0)"
  by (auto simp: container_result_def succeeded_def Let_def split: option.splits)

text \<open>
  C37 (executions fail): when the containers run Python, no execution ever succeeds, whatever is submitted: the manager's
  answer is a refusal of the static check, an error, or a failed run.
\<close>

theorem no_execution_succeeds:
  assumes "runs_python ct submitted env" and "execute_request st env now req m = (Inr r, m')"
  shows "\<not> xr_success r"
proof -
  have "se_docker env (generate_preamble (er_files req) @ er_code req) d t mem = Some k \<Longrightarrow> dk_status k \<noteq> Some (Some 0)"
    for d t mem k
    using assms(1) preamble_raises [of ct "submitted (er_code req)" "er_files req"] unfolding runs_python_def by blast
  then have "run_request st env req = Inr k \<Longrightarrow> \<not> succeeded k" for k
    by (auto simp: run_request_def Let_def dest!: success_status split: sum.splits option.splits)
  then show ?thesis
    using assms(2)
    by (auto simp: execute_request_def finish_request_def manager_result_def refusal_def
        split: option.splits list.splits if_splits sum.splits)
qed

definition plain_request :: execution_request where
  "plain_request =
     \<lparr>er_code = ''print(1)'', er_files = [], er_timeout_sec = 60, er_memory_limit_mb = 512, er_agent = [], er_trace_id = []\<rparr>"

theorem no_execution_succeeds_witness:
  "\<exists>r m. execute_request default_sandbox_settings quiet_env 0 plain_request (new_manager default_sandbox_settings) = (Inr r, m)
     \<and> \<not> xr_success r"
proof -
  have c: "check_tree (Node []) = []" by code_simp
  have "\<exists>r m. execute_request default_sandbox_settings quiet_env 0 plain_request (new_manager default_sandbox_settings) = (Inr r, m)"
    by (simp add: execute_request_def check_code_safety_def quiet_env_def c is_queue_full_def new_manager_def
        default_sandbox_settings_def finish_request_def run_request_def plain_request_def Let_def)
  then obtain r m where e: "execute_request default_sandbox_settings quiet_env 0 plain_request (new_manager default_sandbox_settings) = (Inr r, m)"
    by blast
  have "runs_python ct (\<lambda>code ip. Inr ()) quiet_env" for ct by (simp add: runs_python_def quiet_env_def)
  from no_execution_succeeds [OF this e] e show ?thesis by blast
qed

text \<open>A full queue answers before anything else is touched, also when every slot is free and the queue has no places.\<close>

lemma no_places_no_service:
  "sx_queue_size st \<le> 0 \<Longrightarrow> 0 \<le> mg_queued m \<Longrightarrow> check_code_safety (se_parse env) (er_code req) = Some [] \<Longrightarrow>
   execute_request st env now req m = (Inl QueueFull, m)"
  by (simp add: execute_request_def is_queue_full_def)

text \<open>The client sends no service headers, so the application refuses the request before it reads it.\<close>

lemma client_refused:
  "sandbox_client (sandbox_app ac st env now) trace_id code files t mem m =
     (Inr (client_failure [] 0), m)"
  by (cases trace_id)
    (simp_all add: sandbox_client_def sandbox_app_def verify_service_headers_def refuse_def client_result_of_def over_http_def
      client_failure_def dict_get_default_def)

text \<open>The client as the evaluator uses it: the default limits, and the state of the sandbox as a part of the world.\<close>

definition reply_of :: "client_result \<Rightarrow> sandbox_reply" where
  "reply_of r =
     \<lparr>sb_success = py_truthy (sc_success r), sb_stdout = (case sc_stdout r of PStr s \<Rightarrow> s | _ \<Rightarrow> []),
      sb_stderr = (case sc_stderr r of PStr s \<Rightarrow> s | _ \<Rightarrow> [])\<rparr>"

definition client_execute ::
    "execution_manager app \<Rightarrow> string \<Rightarrow> (string, string) dict \<Rightarrow> (sandbox_reply, 'x \<times> execution_manager) action" where
  "client_execute app code files w =
     (case sandbox_client app None code (Some files) 60 512 (snd w) of
        (Inr r, m) \<Rightarrow> (Inr (reply_of r), (fst w, m))
      | (Inl e, m) \<Rightarrow> (Inl Crashed, (fst w, m)))"
text \<open>
  (the evaluator's sandbox): the client sends no service headers, so whatever code the evaluator generates, the sandbox
  node reports an empty output and the code fixer an empty one or the text that the retries are used up, and the state of the
  sandbox service never changes: no analysis is ever run.
\<close>

theorem evaluator_never_runs_code:
  assumes "sandbox_execute env = client_execute (sandbox_app ac st senv now)"
  shows "(fst (sandbox_node env s w) = Inr s' \<longrightarrow> sandbox_output s' = [])
    \<and> (fst (code_fixer_node env s w) = Inr s' \<longrightarrow> sandbox_output s' = []
         \<or> sandbox_output s' = max_retries_text (max_sandbox_retries (Ev_Graph.settings env)) (sandbox_output s))
    \<and> snd (sandbox_execute env code files w) = w"
proof -
  have "sandbox_execute env code files w =
      (Inr \<lparr>sb_success = False, sb_stdout = [], sb_stderr = []\<rparr>, w)" for code files w
    unfolding assms by (simp add: client_execute_def client_refused reply_of_def client_failure_def py_truthy_def)
  then show ?thesis
    by (auto simp: sandbox_node_def code_fixer_node_def chain_def pure_def split: prod.splits sum.splits if_splits)
qed

definition agent_env :: "(unit \<times> execution_manager) eval_env" where
  "agent_env =
     \<lparr>settings = default_settings, clock = (\<lambda>w. 0), fresh_id = (\<lambda>w. ''id''), judge_client = (\<lambda>r w. (Inl Crashed, w)),
      intent_client = (\<lambda>m w. (Inl Crashed, w)), code_client = (\<lambda>r w. (Inr ''print(1)'', w)),
      sandbox_execute = client_execute (sandbox_app \<lparr>ac_digest = id, ac_authenticator = None, ac_detail = (\<lambda>n. PNone)\<rparr>
        default_sandbox_settings quiet_env 0),
      list_objects = (\<lambda>p w. (Inr [], w)), stored_metadata = (\<lambda>k w. (NotStored, w)), preprocess = (\<lambda>k w. (Inr None, w)),
      validate_metadata = (\<lambda>k now d. None), eval_recall = (\<lambda>t f c w. (Inr [], w)),
      validate_result = (\<lambda>v. None), memory_criteria = (\<lambda>t f c w. (None, w)), rag_criteria = (\<lambda>f c. None),
      memory_send = (\<lambda>m w. (Inr True, w)), name_search = (\<lambda>p s. None), digest = (\<lambda>xs. ''hash'')\<rparr>"

theorem evaluator_never_runs_code_witness:
  "snd (sandbox_execute agent_env ''print(1)'' [] ((), new_manager default_sandbox_settings))
     = ((), new_manager default_sandbox_settings)"
  by (rule conjunct2 [OF conjunct2 [OF evaluator_never_runs_code [of agent_env _ default_sandbox_settings quiet_env 0]]])
    (simp add: agent_env_def)

end
