(* ===== verification/Spec2Isabelle.thy ===== *)
theory Spec2Isabelle
  imports Gw_Admin Obs_Cycle Ev_Jobs Mem_Routes As_Safety Sb_Service
begin

text \<open>
  A verification library for the on-premise compliance platform: the LLM gateway every agent calls,
  the observer that watches it, the agent that evaluates evidence, the memory service that stores what the agents
  know, the assistant that users talk to, and the sandbox that runs generated code.

  \<^bold>\<open>Parts and how they interact\<close>

  An agent sends a completion request with a task name to the gateway, which resolves a model tier,
  enforces the tenant's budget, calls a provider and escalates to stronger tiers. The gateway's metrics and
  logs feed the observer, which detects issues, has them diagnosed by a model, proposes changes to
  the gateway's routing and applies, validates and rolls back some of them through the gateway's admin API.
  The evaluator runs a graph of nodes over the evidence of a control: deterministic rules, a tribunal of
  models for what rules cannot settle, and a deterministic score. The memory service keeps events, user states,
  sessions and decisions in Redis and facts, tasks, skills and histories in tables; the agents reach it through the clients of
  \<^verbatim>\<open>common/clients\<close>. The assistant identifies its users by tokens, matches their messages to skills and
  playbooks, builds a prompt from the memory service's answers, and lets the model behind the gateway call
  the tools of an MCP server, some of them only after a confirmation.

  \<^bold>\<open>Theories\<close>, by the directory of the code they model:

  \<^item> shared: \<open>Py_Prelude\<close> (dictionaries as association lists with distinct keys, string and list
    operations of Python, percentiles, reachable states and the locale \<open>invariant_system\<close>), \<open>Py_Json\<close>
    (\<^verbatim>\<open>json.loads\<close>, floats with infinities and NaN, \<^verbatim>\<open>float(v)\<close>), \<open>Py_Re\<close> (the regular expressions of
    \<^verbatim>\<open>re\<close>: search, split, findall);
  \<^item> \<^verbatim>\<open>llm-gateway/src\<close>: \<open>Gw_Models\<close> (models.py, config.py), \<open>Gw_Degradation\<close>, \<open>Gw_Budget\<close> and
    \<open>Gw_Queue\<close> (budget/), \<open>Gw_Resolver\<close>, \<open>Gw_Canary\<close> and \<open>Gw_Config\<close> (routing/), \<open>Gw_Escalation\<close>
    (escalation.py), \<open>Gw_Health\<close> (health.py), \<open>Gw_Providers\<close> (providers/), \<open>Gw_Metrics\<close>, \<open>Gw_Service\<close>
    and \<open>Gw_Complete\<close> (main.py), \<open>Gw_Admin\<close> (start-up, reload, admin/routes.py, and the agent and the admin
    application as one transition system);
  \<^item> \<^verbatim>\<open>observer/src\<close>: \<open>Obs_Breaker\<close> (circuit_breaker.py), \<open>Obs_Metrics\<close> (detection/), \<open>Obs_Diagnosis\<close>
    (diagnosis/engine.py), \<open>Obs_Changes\<close> (changes/proposal.py), \<open>Obs_Apply\<close> (changes/applier.py, validator.py,
    rollback.py), \<open>Obs_SelfReg\<close> (self_regulation.py), \<open>Obs_Cycle\<close> (main.py and the observer as one
    transition system);
  \<^item> \<^verbatim>\<open>agent-eval/src\<close>: \<open>Ev_Models\<close> (models.py), \<open>Ev_Rules\<close> (rules/, graph/rules_engine.py), \<open>Ev_Scoring\<close>
    (graph/scoring.py), \<open>Ev_Judging\<close> (graph/evaluation.py, graph/tribunal.py), \<open>Ev_Graph\<close> (the other nodes of
    graph/, rag/retriever.py, main.py), \<open>Ev_Jobs\<close> (jobs.py);
  \<^item> \<^verbatim>\<open>memory-service/src\<close>: \<open>Mem_Redis\<close> (routes/events.py, user_state.py, session.py), \<open>Mem_Decisions\<close>
    (routes/evaluation_decisions.py, evaluation_comments.py and these endpoints as one transition system), \<open>Mem_Tables\<close> (models/,
    repositories/base.py, audit_repo.py), \<open>Mem_Skills\<close> (skill_repo.py, routes/skills.py), \<open>Mem_Facts\<close> (services/,
    the memory and pattern repositories and routes), \<open>Mem_Records\<close> (tasks, evaluation history, interactions, jobs, registry,
    and the tables as one transition system), \<open>Mem_Routes\<close> (the routes, \<^verbatim>\<open>common/auth/service_auth.py\<close> and the memory,
    state and registry clients of \<^verbatim>\<open>common/clients\<close>);
  \<^item> \<^verbatim>\<open>common\<close>: \<open>Com_Llm\<close> (errors.py, retry.py, clients/llm_client.py), \<open>Com_Auth\<close> (auth/cognito.py,
    auth/rbac.py);
  \<^item> \<^verbatim>\<open>compliance-assistant/src\<close>: \<open>As_Mcp\<close> (mcp/, agent/data_only_mode.py), \<open>As_Models\<close> (models.py, config.py,
    agent/personas.py), \<open>As_Skills\<close> and \<open>As_Playbook\<close> (skills/), \<open>As_State\<close> (agent/user_state.py, reflection.py,
    event_queue.py), \<open>As_Context\<close> (agent/context_builder.py), \<open>As_Loop\<close> (session.py, agent/loop.py, main.py),
    \<open>As_Safety\<close> (what a request of the assistant can do);
  \<^item> \<^verbatim>\<open>sandbox-service/src\<close>: \<open>Sb_Code\<close> (models.py, security/import_allowlist.py, execution/preamble.py), \<open>Sb_Service\<close>
    (storage.py, execution/manager.py, execution/docker_backend.py, main.py, and \<^verbatim>\<open>common/clients/sandbox_client.py\<close>).

  \<^bold>\<open>How state and operations correspond to the code\<close>

  A class is a record of its attributes and a method is a function that takes and returns it; an enum is a
  datatype with the source's names; a handler returns its answer together with the new state. An
  exception is the left part of a sum or the value None of an option, never an omitted case. A dict is an
  association list, so that iteration has the insertion order. Where two components share a mutable object
  (the model objects of the gateway's configuration, the change records of the observer) the model keeps a
  heap of addresses; parsing a configuration puts its model objects at fresh ones. Concurrency is the interleaving of handlers that run to completion; where a handler's
  awaits matter (every await of a background job, the Redis commands of the event queue, the calls of the sandbox manager) the steps are
  separate. A probe's result is one step, and a file change is one. The gateway's \<^verbatim>\<open>main\<close> serves two applications,
  each with a lifespan and thus a state of its own; they share the routing file and Redis. In the assistant an operation is a function from the state of the process to an exception or a value and the state
  after it, composed by \<open>py_then\<close>, \<open>py_catch\<close> and \<open>py_each\<close>: what was done before an exception stays done.

  \<^bold>\<open>What the lemmas show\<close>

  Gateway: every provider call respects health, limits and the tenant's allowed tiers, accounting is exact,
  escalation is bounded, the budget gate rejects or queues, the Redis queue refines the in-memory one, and an
  invariant over configuration, model objects, health states and adapters holds in every state the two applications reach, while no admin
  call reaches the one that serves completions. Observer: detection and aggregation are exact, diagnosis stays
  within its budget, automatic changes meet their conditions, the places where the classification of changes departs from the decision tree of
  \<^verbatim>\<open>observer/DESIGN.md\<close> (\<open>design_tier\<close>) are exact, the outcome of a change is what the services answered, the breaker and the regulator keep their
  invariants, and the autonomy level survives a restart; several theorems exhibit defects, each
  recorded as a finding. Evaluator: the regular expressions advance and find whole words exactly, every rule answers for its
  criterion, the three layers settle every criterion, the score is a share, capped and monotone in the
  results, judging makes at most six calls per criterion, and every run of the graph ends at the
  formatter. Memory service: every request is answered in every reachable state, the tables keep their invariant and
  their audit trail, interleaved pushes and drains settle and lose no event but one pushed while a drain runs, and what a client sends is what the routes
  read, or fails for want of a route. Assistant: a request sends a bounded number of requests to the gateway, nothing but
  the matching confirmation confirms a tool call, users are made from verified tokens only, the matcher picks an
  allowed skill of the best score, linear playbooks end, merging a reflection keeps the document's
  invariant, and a name given to the agent is remembered over the memory service and Redis. Sandbox: the static check
  reports exactly the blocked uses that occur in the syntax tree (\<open>blocked_use\<close>, stated by the dangers the source names), the manager keeps its limits under every interleaving, and the
  import hook of the preamble makes every execution fail. Together with the
  models of the gateway and the memory service, several theorems show where the services do not fit each
  other. Interfaces are locales (\<open>invariant_system\<close>, \<open>evidence_rule\<close> and those of the gateway), each
  interpreted on the model's own definitions.

  \<^bold>\<open>Idealisations, parameters and bounds\<close>

  Python floats are exact reals, except where a value read from JSON may be infinite or NaN; the numbers of the
  observer's log entries are reals nevertheless, so logs with NaN or infinity are outside its model. A
  response body with a NaN or an infinity cannot be rendered and is a 500; any other document crosses the wire between the memory client and the service
  unchanged. Integers are
  unbounded as in Python; text is Latin-1, and JSON text a list of code points. Clocks, random rolls and
  fresh identifiers are arguments. Code outside the repository is a parameter: Redis, the providers, HTTP
  services, storage and the sandbox, YAML parsing, how pydantic reads a number, prompt rendering and hashing. So is the encoding of a
  request in the gateway's Redis queue, of which a round trip is assumed. The application of the memory service that the clients
  are run against (\<open>memory_app\<close>) serves the event and user state routes; the other routes are functions of their own and
  answer 404 there. The JSON parser
  runs on fuel \<open>2 * length + 1\<close> and \<open>json_loads_total\<close> shows that it never runs out; a repetition of a
  regular expression runs on as much fuel as there is text, and goes on only while it consumes some, which is
  when the engine stops as well.

  The retries of a client are counted, not timed. The playbook, prompt and message texts of the assistant are
  modelled, since what is in a prompt is what some theorems are about; \<^verbatim>\<open>str\<close> of a value that is no string is a parameter.

  \<^bold>\<open>Not modelled\<close>

  Logging, metrics text and timings; the texts of reasons and of the evaluator's and observer's prompts;
  \<^verbatim>\<open>CloudWatch\<close> and file input; health endpoints and middleware; the observer's governance reports and
  routes; the gateway's schema translation, which nothing calls; the storage adapters; the preprocessor; the
  calls of the Docker engine; the presentation scripts.
\<close>

end
